(* ===== verification/Nof_Prelude.thy ===== *)
theory Nof_Prelude
  imports Main "HOL-Library.Word" "HOL-Library.List_Lexorder" "HOL-Library.Char_ord"
begin

text \<open>
  The shared base of the development: the machine integers of the program, the model of
  \<open>std::map\<close> (an association list kept in strictly increasing key order, so that
  iteration visits the keys in the program's order), and the generic list, option and word
  lemmas that the component theories share.

  \<^item> \<open>om_put\<close>, \<open>om_erase\<close>, \<open>om_emplace\<close> and \<open>map_of\<close> are \<open>operator[]=\<close>,
    \<open>erase\<close>, \<open>emplace\<close> and \<open>find\<close>; the locale \<open>std_map\<close> states the contract
    clients rely on and is interpreted on them.
  \<^item> the collections \<open>om_simps\<close> and \<open>nof_defs\<close> carry the component proofs.
\<close>

named_theorems om_simps "characteristic equations of the ordered map"
named_theorems nof_defs "definitions of straight-line code that proofs unfold together"

type_synonym u8 = "8 word"
type_synonym u16 = "16 word"
type_synonym u32 = "32 word"
type_synonym u64 = "64 word"

text \<open>\<open>std::size_t\<close> values are natural numbers; a product of sizes wraps at 64 bits.\<close>

definition size_mul :: "nat \<Rightarrow> nat \<Rightarrow> nat" where
  "size_mul a b = (a * b) mod 2 ^ 64"

subsection \<open>Ordered maps\<close>

type_synonym ('k, 'v) omap = "('k \<times> 'v) list"

fun om_put :: "'k::linorder \<Rightarrow> 'v \<Rightarrow> ('k, 'v) omap \<Rightarrow> ('k, 'v) omap" where
  "om_put key val [] = [(key, val)]"
| "om_put key val ((k, v) # rest) =
     (if k < key then (k, v) # om_put key val rest
      else if k = key then (key, val) # rest
      else (key, val) # (k, v) # rest)"

definition om_erase :: "'k \<Rightarrow> ('k, 'v) omap \<Rightarrow> ('k, 'v) omap" where
  "om_erase key m = filter (\<lambda>e. fst e \<noteq> key) m"

definition om_emplace :: "'k::linorder \<Rightarrow> 'v \<Rightarrow> ('k, 'v) omap \<Rightarrow> ('k, 'v) omap" where
  "om_emplace key val m = (case map_of m key of None \<Rightarrow> om_put key val m | Some _ \<Rightarrow> m)"

definition om_contains :: "('k, 'v) omap \<Rightarrow> 'k \<Rightarrow> bool" where
  "om_contains m key = (map_of m key \<noteq> None)"

definition om_ok :: "('k::linorder, 'v) omap \<Rightarrow> bool" where
  "om_ok m = sorted_wrt (<) (map fst m)"

lemma map_of_om_put [simp, om_simps]: "map_of (om_put key val m) = (map_of m)(key \<mapsto> val)"
  by (induction key val m rule: om_put.induct) (auto simp: fun_eq_iff)

lemma map_of_om_erase [simp, om_simps]: "map_of (om_erase key m) = (map_of m)(key := None)"
  by (induction m) (auto simp: om_erase_def fun_eq_iff)

lemma map_of_om_emplace [om_simps]:
  "map_of (om_emplace key val m) k =
     (if k = key \<and> map_of m key = None then Some val else map_of m k)"
  by (auto simp: om_emplace_def split: option.splits)

lemma fst_om_put: "fst ` set (om_put key val m) = insert key (fst ` set m)"
  by (induction key val m rule: om_put.induct) auto

lemma om_ok_Nil [simp]: "om_ok []"
  by (simp add: om_ok_def)

lemma om_ok_Cons: "om_ok ((k, v) # m) = (om_ok m \<and> (\<forall>e\<in>set m. k < fst e))"
  by (auto simp: om_ok_def)

lemma om_ok_put [simp]: "om_ok m \<Longrightarrow> om_ok (om_put key val m)"
proof (induction m)
  case Nil
  then show ?case by (simp add: om_ok_Cons)
next
  case (Cons e m)
  obtain k v where e: "e = (k, v)" by (cases e)
  have below: "\<forall>x\<in>set (om_put key val m). k < fst x" if "k < key"
  proof
    fix x assume "x \<in> set (om_put key val m)"
    then have "fst x \<in> insert key (fst ` set m)" by (metis fst_om_put imageI)
    with that Cons.prems show "k < fst x" by (auto simp: e om_ok_Cons)
  qed
  from Cons below show ?case
    by (auto simp: e om_ok_Cons)
qed

lemma om_ok_erase [simp]: "om_ok m \<Longrightarrow> om_ok (om_erase key m)"
  by (induction m) (auto simp: om_erase_def om_ok_def)

lemma om_ok_emplace [simp]: "om_ok m \<Longrightarrow> om_ok (om_emplace key val m)"
  by (simp add: om_emplace_def split: option.splits)

lemma om_ok_distinct: "om_ok m \<Longrightarrow> distinct (map fst m)"
  by (auto simp: om_ok_def strict_sorted_iff)

lemma om_ok_map_of_iff: "om_ok m \<Longrightarrow> map_of m k = Some v \<longleftrightarrow> (k, v) \<in> set m"
  by (simp add: om_ok_distinct)

lemma om_ok_map_val: "om_ok m \<Longrightarrow> om_ok (map (\<lambda>e. (fst e, f e)) m)"
  by (simp add: om_ok_def comp_def)

lemma map_of_map_val:
  "map_of (map (\<lambda>e. (fst e, f (fst e) (snd e))) m) k = map_option (f k) (map_of m k)"
  by (induction m) auto

text \<open>
  The contract of \<open>std::map\<close> that every component relies on: lookups after an insertion
  or an erasure, and the key order that fixes the iteration order.
\<close>

locale std_map =
  fixes find :: "'m \<Rightarrow> 'k \<Rightarrow> 'v option"
    and put :: "'k \<Rightarrow> 'v \<Rightarrow> 'm \<Rightarrow> 'm"
    and erase :: "'k \<Rightarrow> 'm \<Rightarrow> 'm"
    and ok :: "'m \<Rightarrow> bool"
  assumes find_put: "find (put k v m) = (find m)(k \<mapsto> v)"
    and find_erase: "find (erase k m) = (find m)(k := None)"
    and ok_put: "ok m \<Longrightarrow> ok (put k v m)"
    and ok_erase: "ok m \<Longrightarrow> ok (erase k m)"
begin

lemma put_overwrites: "find (put k v (put k w m)) = find (put k v m)"
  by (simp add: find_put)

lemma put_commutes: "k \<noteq> k' \<Longrightarrow> find (put k v (put k' w m)) = find (put k' w (put k v m))"
  by (simp add: find_put fun_upd_twist)

lemma erase_put: "find (erase k (put k v m)) = find (erase k m)"
  by (simp add: find_put find_erase)

lemma fold_put_find:
  "find (fold (\<lambda>e. put (fst e) (snd e)) xs m) k =
     (case map_of (rev xs) k of None \<Rightarrow> find m k | Some v \<Rightarrow> Some v)"
proof (induction xs rule: rev_induct)
  case Nil
  then show ?case by simp
next
  case (snoc x xs)
  then show ?case by (auto simp: find_put split: option.splits)
qed

lemma ok_fold_put: "ok m \<Longrightarrow> ok (fold (\<lambda>e. put (fst e) (snd e)) xs m)"
  by (induction xs arbitrary: m) (auto intro: ok_put)

end

interpretation omap: std_map map_of om_put om_erase om_ok
  by unfold_locales auto

subsection \<open>Binary search\<close>

text \<open>
  \<open>std::lower_bound\<close> returns the first position whose key is not below the searched
  key; a lookup compares the key found there.
\<close>

definition lower_bound_find :: "('a \<Rightarrow> 'k::linorder) \<Rightarrow> 'a list \<Rightarrow> 'k \<Rightarrow> 'a option" where
  "lower_bound_find key xs k =
     (case dropWhile (\<lambda>x. key x < k) xs of
        [] \<Rightarrow> None
      | x # _ \<Rightarrow> if key x = k then Some x else None)"

lemma lower_bound_find_Some:
  "lower_bound_find key xs k = Some x \<Longrightarrow> x \<in> set xs \<and> key x = k"
  by (auto simp: lower_bound_find_def split: list.splits if_splits)
    (metis list.set_intros(1) set_dropWhileD)

lemma lower_bound_find_sorted:
  assumes "sorted_wrt (<) (map key xs)" and "x \<in> set xs"
  shows "lower_bound_find key xs (key x) = Some x"
  using assms
proof (induction xs)
  case Nil
  then show ?case by simp
next
  case (Cons y ys)
  show ?case
  proof (cases "x = y")
    case True
    then show ?thesis by (simp add: lower_bound_find_def)
  next
    case False
    with Cons.prems have "x \<in> set ys" "key y < key x" by auto
    with Cons show ?thesis by (simp add: lower_bound_find_def)
  qed
qed

lemma lower_bound_find_iff:
  assumes "sorted_wrt (<) (map key xs)"
  shows "lower_bound_find key xs k = Some x \<longleftrightarrow> x \<in> set xs \<and> key x = k"
  using lower_bound_find_Some lower_bound_find_sorted [OF assms] by metis

subsection \<open>Lists\<close>

text \<open>The check \<open>values[i - 1] < values[i]\<close> for every adjacent pair.\<close>

fun adjacent :: "('a \<Rightarrow> 'a \<Rightarrow> bool) \<Rightarrow> 'a list \<Rightarrow> bool" where
  "adjacent r (x # y # zs) = (r x y \<and> adjacent r (y # zs))"
| "adjacent r _ = True"

lemma adjacent_sorted_wrt: "transp r \<Longrightarrow> adjacent r xs \<longleftrightarrow> sorted_wrt r xs"
proof (induction r xs rule: adjacent.induct)
  case (1 r x y zs)
  then show ?case by (auto dest: transpD)
qed auto

lemma adjacent_less_distinct: "adjacent (<) (xs :: 'a::linorder list) \<Longrightarrow> distinct xs"
  by (simp add: adjacent_sorted_wrt strict_sorted_iff)

end
