(* ===== verification/Nof_Error.thy ===== *)
theory Nof_Error
  imports Nof_Prelude
begin

text \<open>
  Errors and results (\<open>include/nof/error.hpp\<close>, \<open>src/error.cpp\<close>). A reason code is the
  16-bit value of the enumeration, with one named constant per enumerator; a value outside
  the enumeration renders as \<open>UNKNOWN_REASON\<close>, which is how the decoders recognise it.
  \<open>Result<T>\<close> is the sum \<open>Error + 'a\<close>, \<open>Status\<close> its instance at \<open>unit\<close>.
\<close>

type_synonym ReasonCode = u16

abbreviation RC_Ok :: ReasonCode where "RC_Ok \<equiv> 0x0000"
abbreviation RC_HostFallbackApplied :: ReasonCode where "RC_HostFallbackApplied \<equiv> 0x0001"
abbreviation RC_IdempotentDuplicate :: ReasonCode where "RC_IdempotentDuplicate \<equiv> 0x0002"
abbreviation RC_AppliedVerified :: ReasonCode where "RC_AppliedVerified \<equiv> 0x0003"
abbreviation RC_AcknowledgedNotApplied :: ReasonCode where "RC_AcknowledgedNotApplied \<equiv> 0x0004"
abbreviation RC_TruncatedResult :: ReasonCode where "RC_TruncatedResult \<equiv> 0x0005"
abbreviation RC_EvictedEntry :: ReasonCode where "RC_EvictedEntry \<equiv> 0x0006"
abbreviation RC_SupersededPlan :: ReasonCode where "RC_SupersededPlan \<equiv> 0x0007"
abbreviation RC_MalformedInput :: ReasonCode where "RC_MalformedInput \<equiv> 0x0100"
abbreviation RC_TruncatedInput :: ReasonCode where "RC_TruncatedInput \<equiv> 0x0101"
abbreviation RC_OversizedInput :: ReasonCode where "RC_OversizedInput \<equiv> 0x0102"
abbreviation RC_IntegrityFailure :: ReasonCode where "RC_IntegrityFailure \<equiv> 0x0103"
abbreviation RC_IncompatibleVersion :: ReasonCode where "RC_IncompatibleVersion \<equiv> 0x0104"
abbreviation RC_SemanticsMismatch :: ReasonCode where "RC_SemanticsMismatch \<equiv> 0x0105"
abbreviation RC_UnsupportedValue :: ReasonCode where "RC_UnsupportedValue \<equiv> 0x0106"
abbreviation RC_InvalidIdentifier :: ReasonCode where "RC_InvalidIdentifier \<equiv> 0x0107"
abbreviation RC_DuplicateIdentity :: ReasonCode where "RC_DuplicateIdentity \<equiv> 0x0108"
abbreviation RC_OutOfRange :: ReasonCode where "RC_OutOfRange \<equiv> 0x0109"
abbreviation RC_ArithmeticOverflow :: ReasonCode where "RC_ArithmeticOverflow \<equiv> 0x010a"
abbreviation RC_UnknownIdentity :: ReasonCode where "RC_UnknownIdentity \<equiv> 0x010b"
abbreviation RC_NotFound :: ReasonCode where "RC_NotFound \<equiv> 0x010c"
abbreviation RC_AlreadyExists :: ReasonCode where "RC_AlreadyExists \<equiv> 0x010d"
abbreviation RC_SequenceRegression :: ReasonCode where "RC_SequenceRegression \<equiv> 0x010e"
abbreviation RC_EmptyInput :: ReasonCode where "RC_EmptyInput \<equiv> 0x010f"
abbreviation RC_EvidenceMissing :: ReasonCode where "RC_EvidenceMissing \<equiv> 0x0200"
abbreviation RC_EvidenceStale :: ReasonCode where "RC_EvidenceStale \<equiv> 0x0201"
abbreviation RC_EvidenceSuperseded :: ReasonCode where "RC_EvidenceSuperseded \<equiv> 0x0202"
abbreviation RC_EvidenceConflicting :: ReasonCode where "RC_EvidenceConflicting \<equiv> 0x0203"
abbreviation RC_EvidenceUnknown :: ReasonCode where "RC_EvidenceUnknown \<equiv> 0x0204"
abbreviation RC_GenerationMismatch :: ReasonCode where "RC_GenerationMismatch \<equiv> 0x0205"
abbreviation RC_IncarnationMismatch :: ReasonCode where "RC_IncarnationMismatch \<equiv> 0x0206"
abbreviation RC_TopologyStale :: ReasonCode where "RC_TopologyStale \<equiv> 0x0207"
abbreviation RC_PolicyStale :: ReasonCode where "RC_PolicyStale \<equiv> 0x0208"
abbreviation RC_CapabilityStale :: ReasonCode where "RC_CapabilityStale \<equiv> 0x0209"
abbreviation RC_CapabilityUnknown :: ReasonCode where "RC_CapabilityUnknown \<equiv> 0x020a"
abbreviation RC_ProvenanceMismatch :: ReasonCode where "RC_ProvenanceMismatch \<equiv> 0x020b"
abbreviation RC_LivenessUnknown :: ReasonCode where "RC_LivenessUnknown \<equiv> 0x020c"
abbreviation RC_LivenessStale :: ReasonCode where "RC_LivenessStale \<equiv> 0x020d"
abbreviation RC_ObservationExpired :: ReasonCode where "RC_ObservationExpired \<equiv> 0x020e"
abbreviation RC_LivenessDegraded :: ReasonCode where "RC_LivenessDegraded \<equiv> 0x020f"
abbreviation RC_LivenessDead :: ReasonCode where "RC_LivenessDead \<equiv> 0x0210"
abbreviation RC_CapabilityUnsupported :: ReasonCode where "RC_CapabilityUnsupported \<equiv> 0x0300"
abbreviation RC_CapabilityIncompatible :: ReasonCode where "RC_CapabilityIncompatible \<equiv> 0x0301"
abbreviation RC_RefusedByPolicy :: ReasonCode where "RC_RefusedByPolicy \<equiv> 0x0302"
abbreviation RC_AuthorityMissing :: ReasonCode where "RC_AuthorityMissing \<equiv> 0x0303"
abbreviation RC_AuthorityExpired :: ReasonCode where "RC_AuthorityExpired \<equiv> 0x0304"
abbreviation RC_AuthorityScopeMismatch :: ReasonCode where "RC_AuthorityScopeMismatch \<equiv> 0x0305"
abbreviation RC_AuthorityWithdrawn :: ReasonCode where "RC_AuthorityWithdrawn \<equiv> 0x0306"
abbreviation RC_NotAuthorized :: ReasonCode where "RC_NotAuthorized \<equiv> 0x0307"
abbreviation RC_AntiAffinityViolation :: ReasonCode where "RC_AntiAffinityViolation \<equiv> 0x0308"
abbreviation RC_AffinityUnsatisfied :: ReasonCode where "RC_AffinityUnsatisfied \<equiv> 0x0309"
abbreviation RC_CapacityExhausted :: ReasonCode where "RC_CapacityExhausted \<equiv> 0x030a"
abbreviation RC_DependencyUnresolved :: ReasonCode where "RC_DependencyUnresolved \<equiv> 0x030b"
abbreviation RC_DependencyFailed :: ReasonCode where "RC_DependencyFailed \<equiv> 0x030c"
abbreviation RC_DependencyCycle :: ReasonCode where "RC_DependencyCycle \<equiv> 0x030d"
abbreviation RC_HostFallbackNotPermitted :: ReasonCode where "RC_HostFallbackNotPermitted \<equiv> 0x030e"
abbreviation RC_FunctionClassNotPermitted :: ReasonCode where "RC_FunctionClassNotPermitted \<equiv> 0x030f"
abbreviation RC_DeviceKindNotPermitted :: ReasonCode where "RC_DeviceKindNotPermitted \<equiv> 0x0310"
abbreviation RC_NoEligibleTarget :: ReasonCode where "RC_NoEligibleTarget \<equiv> 0x0400"
abbreviation RC_ExclusiveConflict :: ReasonCode where "RC_ExclusiveConflict \<equiv> 0x0401"
abbreviation RC_TargetDisappeared :: ReasonCode where "RC_TargetDisappeared \<equiv> 0x0402"
abbreviation RC_ReassignmentBudgetExhausted :: ReasonCode where "RC_ReassignmentBudgetExhausted \<equiv> 0x0403"
abbreviation RC_ScopeConflict :: ReasonCode where "RC_ScopeConflict \<equiv> 0x0404"
abbreviation RC_PlanSuperseded :: ReasonCode where "RC_PlanSuperseded \<equiv> 0x0405"
abbreviation RC_PlacementRefused :: ReasonCode where "RC_PlacementRefused \<equiv> 0x0406"
abbreviation RC_IllegalStateTransition :: ReasonCode where "RC_IllegalStateTransition \<equiv> 0x0500"
abbreviation RC_LeaseExpired :: ReasonCode where "RC_LeaseExpired \<equiv> 0x0501"
abbreviation RC_LeaseNotHeld :: ReasonCode where "RC_LeaseNotHeld \<equiv> 0x0502"
abbreviation RC_FencedAttempt :: ReasonCode where "RC_FencedAttempt \<equiv> 0x0503"
abbreviation RC_EpochStale :: ReasonCode where "RC_EpochStale \<equiv> 0x0504"
abbreviation RC_ReplayDetected :: ReasonCode where "RC_ReplayDetected \<equiv> 0x0505"
abbreviation RC_EffectRejected :: ReasonCode where "RC_EffectRejected \<equiv> 0x0506"
abbreviation RC_EffectFailed :: ReasonCode where "RC_EffectFailed \<equiv> 0x0507"
abbreviation RC_EffectUnknown :: ReasonCode where "RC_EffectUnknown \<equiv> 0x0508"
abbreviation RC_Revoked :: ReasonCode where "RC_Revoked \<equiv> 0x0509"
abbreviation RC_Superseded :: ReasonCode where "RC_Superseded \<equiv> 0x050a"
abbreviation RC_AttemptMismatch :: ReasonCode where "RC_AttemptMismatch \<equiv> 0x050b"
abbreviation RC_AssignmentNotActive :: ReasonCode where "RC_AssignmentNotActive \<equiv> 0x050c"
abbreviation RC_FenceRegression :: ReasonCode where "RC_FenceRegression \<equiv> 0x050d"
abbreviation RC_StoreUnavailable :: ReasonCode where "RC_StoreUnavailable \<equiv> 0x0600"
abbreviation RC_StoreCorrupt :: ReasonCode where "RC_StoreCorrupt \<equiv> 0x0601"
abbreviation RC_StoreTruncated :: ReasonCode where "RC_StoreTruncated \<equiv> 0x0602"
abbreviation RC_JournalTornTail :: ReasonCode where "RC_JournalTornTail \<equiv> 0x0603"
abbreviation RC_IncompatibleSemantics :: ReasonCode where "RC_IncompatibleSemantics \<equiv> 0x0604"
abbreviation RC_CompactionRequired :: ReasonCode where "RC_CompactionRequired \<equiv> 0x0605"
abbreviation RC_RecoveryRequired :: ReasonCode where "RC_RecoveryRequired \<equiv> 0x0606"
abbreviation RC_RestartAuthorityReset :: ReasonCode where "RC_RestartAuthorityReset \<equiv> 0x0607"
abbreviation RC_ObservationStaleAfterRestart :: ReasonCode where "RC_ObservationStaleAfterRestart \<equiv> 0x0608"
abbreviation RC_CrashBoundaryInjected :: ReasonCode where "RC_CrashBoundaryInjected \<equiv> 0x0609"
abbreviation RC_StoreClosed :: ReasonCode where "RC_StoreClosed \<equiv> 0x060a"
abbreviation RC_FrameInvalid :: ReasonCode where "RC_FrameInvalid \<equiv> 0x0700"
abbreviation RC_UnsupportedOpcode :: ReasonCode where "RC_UnsupportedOpcode \<equiv> 0x0701"
abbreviation RC_ProtocolVersionMismatch :: ReasonCode where "RC_ProtocolVersionMismatch \<equiv> 0x0702"
abbreviation RC_PayloadTooLarge :: ReasonCode where "RC_PayloadTooLarge \<equiv> 0x0703"
abbreviation RC_PeerClosed :: ReasonCode where "RC_PeerClosed \<equiv> 0x0704"
abbreviation RC_ConnectionRefused :: ReasonCode where "RC_ConnectionRefused \<equiv> 0x0705"
abbreviation RC_DuplicateDelivery :: ReasonCode where "RC_DuplicateDelivery \<equiv> 0x0706"
abbreviation RC_RequestDigestMismatch :: ReasonCode where "RC_RequestDigestMismatch \<equiv> 0x0707"
abbreviation RC_EndpointInvalid :: ReasonCode where "RC_EndpointInvalid \<equiv> 0x0708"
abbreviation RC_ConnectionLimitExceeded :: ReasonCode where "RC_ConnectionLimitExceeded \<equiv> 0x0709"
abbreviation RC_ResponseTooLarge :: ReasonCode where "RC_ResponseTooLarge \<equiv> 0x070a"
abbreviation RC_Cancelled :: ReasonCode where "RC_Cancelled \<equiv> 0x0800"
abbreviation RC_ShuttingDown :: ReasonCode where "RC_ShuttingDown \<equiv> 0x0801"
abbreviation RC_LimitExceeded :: ReasonCode where "RC_LimitExceeded \<equiv> 0x0802"
abbreviation RC_QueueFull :: ReasonCode where "RC_QueueFull \<equiv> 0x0803"
abbreviation RC_InternalInvariant :: ReasonCode where "RC_InternalInvariant \<equiv> 0x0804"
abbreviation RC_UnsupportedOperation :: ReasonCode where "RC_UnsupportedOperation \<equiv> 0x0805"
abbreviation RC_WorkerUnavailable :: ReasonCode where "RC_WorkerUnavailable \<equiv> 0x0806"
abbreviation RC_InvalidConfiguration :: ReasonCode where "RC_InvalidConfiguration \<equiv> 0x0807"

definition NOF_REASON_CODES :: "(ReasonCode \<times> string) list" where
  "NOF_REASON_CODES =
    [(RC_Ok, ''OK''),
     (RC_HostFallbackApplied, ''HOST_FALLBACK_APPLIED''),
     (RC_IdempotentDuplicate, ''IDEMPOTENT_DUPLICATE''),
     (RC_AppliedVerified, ''APPLIED_VERIFIED''),
     (RC_AcknowledgedNotApplied, ''ACKNOWLEDGED_NOT_APPLIED''),
     (RC_TruncatedResult, ''TRUNCATED_RESULT''),
     (RC_EvictedEntry, ''EVICTED_ENTRY''),
     (RC_SupersededPlan, ''SUPERSEDED_PLAN''),
     (RC_MalformedInput, ''MALFORMED_INPUT''),
     (RC_TruncatedInput, ''TRUNCATED_INPUT''),
     (RC_OversizedInput, ''OVERSIZED_INPUT''),
     (RC_IntegrityFailure, ''INTEGRITY_FAILURE''),
     (RC_IncompatibleVersion, ''INCOMPATIBLE_VERSION''),
     (RC_SemanticsMismatch, ''SEMANTICS_MISMATCH''),
     (RC_UnsupportedValue, ''UNSUPPORTED_VALUE''),
     (RC_InvalidIdentifier, ''INVALID_IDENTIFIER''),
     (RC_DuplicateIdentity, ''DUPLICATE_IDENTITY''),
     (RC_OutOfRange, ''OUT_OF_RANGE''),
     (RC_ArithmeticOverflow, ''ARITHMETIC_OVERFLOW''),
     (RC_UnknownIdentity, ''UNKNOWN_IDENTITY''),
     (RC_NotFound, ''NOT_FOUND''),
     (RC_AlreadyExists, ''ALREADY_EXISTS''),
     (RC_SequenceRegression, ''SEQUENCE_REGRESSION''),
     (RC_EmptyInput, ''EMPTY_INPUT''),
     (RC_EvidenceMissing, ''EVIDENCE_MISSING''),
     (RC_EvidenceStale, ''EVIDENCE_STALE''),
     (RC_EvidenceSuperseded, ''EVIDENCE_SUPERSEDED''),
     (RC_EvidenceConflicting, ''EVIDENCE_CONFLICTING''),
     (RC_EvidenceUnknown, ''EVIDENCE_UNKNOWN''),
     (RC_GenerationMismatch, ''GENERATION_MISMATCH''),
     (RC_IncarnationMismatch, ''INCARNATION_MISMATCH''),
     (RC_TopologyStale, ''TOPOLOGY_STALE''),
     (RC_PolicyStale, ''POLICY_STALE''),
     (RC_CapabilityStale, ''CAPABILITY_STALE''),
     (RC_CapabilityUnknown, ''CAPABILITY_UNKNOWN''),
     (RC_ProvenanceMismatch, ''PROVENANCE_MISMATCH''),
     (RC_LivenessUnknown, ''LIVENESS_UNKNOWN''),
     (RC_LivenessStale, ''LIVENESS_STALE''),
     (RC_ObservationExpired, ''OBSERVATION_EXPIRED''),
     (RC_LivenessDegraded, ''LIVENESS_DEGRADED''),
     (RC_LivenessDead, ''LIVENESS_DEAD''),
     (RC_CapabilityUnsupported, ''CAPABILITY_UNSUPPORTED''),
     (RC_CapabilityIncompatible, ''CAPABILITY_INCOMPATIBLE''),
     (RC_RefusedByPolicy, ''REFUSED_BY_POLICY''),
     (RC_AuthorityMissing, ''AUTHORITY_MISSING''),
     (RC_AuthorityExpired, ''AUTHORITY_EXPIRED''),
     (RC_AuthorityScopeMismatch, ''AUTHORITY_SCOPE_MISMATCH''),
     (RC_AuthorityWithdrawn, ''AUTHORITY_WITHDRAWN''),
     (RC_NotAuthorized, ''NOT_AUTHORIZED''),
     (RC_AntiAffinityViolation, ''ANTI_AFFINITY_VIOLATION''),
     (RC_AffinityUnsatisfied, ''AFFINITY_UNSATISFIED''),
     (RC_CapacityExhausted, ''CAPACITY_EXHAUSTED''),
     (RC_DependencyUnresolved, ''DEPENDENCY_UNRESOLVED''),
     (RC_DependencyFailed, ''DEPENDENCY_FAILED''),
     (RC_DependencyCycle, ''DEPENDENCY_CYCLE''),
     (RC_HostFallbackNotPermitted, ''HOST_FALLBACK_NOT_PERMITTED''),
     (RC_FunctionClassNotPermitted, ''FUNCTION_CLASS_NOT_PERMITTED''),
     (RC_DeviceKindNotPermitted, ''DEVICE_KIND_NOT_PERMITTED''),
     (RC_NoEligibleTarget, ''NO_ELIGIBLE_TARGET''),
     (RC_ExclusiveConflict, ''EXCLUSIVE_CONFLICT''),
     (RC_TargetDisappeared, ''TARGET_DISAPPEARED''),
     (RC_ReassignmentBudgetExhausted, ''REASSIGNMENT_BUDGET_EXHAUSTED''),
     (RC_ScopeConflict, ''SCOPE_CONFLICT''),
     (RC_PlanSuperseded, ''PLAN_SUPERSEDED''),
     (RC_PlacementRefused, ''PLACEMENT_REFUSED''),
     (RC_IllegalStateTransition, ''ILLEGAL_STATE_TRANSITION''),
     (RC_LeaseExpired, ''LEASE_EXPIRED''),
     (RC_LeaseNotHeld, ''LEASE_NOT_HELD''),
     (RC_FencedAttempt, ''FENCED_ATTEMPT''),
     (RC_EpochStale, ''EPOCH_STALE''),
     (RC_ReplayDetected, ''REPLAY_DETECTED''),
     (RC_EffectRejected, ''EFFECT_REJECTED''),
     (RC_EffectFailed, ''EFFECT_FAILED''),
     (RC_EffectUnknown, ''EFFECT_UNKNOWN''),
     (RC_Revoked, ''REVOKED''),
     (RC_Superseded, ''SUPERSEDED''),
     (RC_AttemptMismatch, ''ATTEMPT_MISMATCH''),
     (RC_AssignmentNotActive, ''ASSIGNMENT_NOT_ACTIVE''),
     (RC_FenceRegression, ''FENCE_REGRESSION''),
     (RC_StoreUnavailable, ''STORE_UNAVAILABLE''),
     (RC_StoreCorrupt, ''STORE_CORRUPT''),
     (RC_StoreTruncated, ''STORE_TRUNCATED''),
     (RC_JournalTornTail, ''JOURNAL_TORN_TAIL''),
     (RC_IncompatibleSemantics, ''INCOMPATIBLE_SEMANTICS''),
     (RC_CompactionRequired, ''COMPACTION_REQUIRED''),
     (RC_RecoveryRequired, ''RECOVERY_REQUIRED''),
     (RC_RestartAuthorityReset, ''RESTART_AUTHORITY_RESET''),
     (RC_ObservationStaleAfterRestart, ''OBSERVATION_STALE_AFTER_RESTART''),
     (RC_CrashBoundaryInjected, ''CRASH_BOUNDARY_INJECTED''),
     (RC_StoreClosed, ''STORE_CLOSED''),
     (RC_FrameInvalid, ''FRAME_INVALID''),
     (RC_UnsupportedOpcode, ''UNSUPPORTED_OPCODE''),
     (RC_ProtocolVersionMismatch, ''PROTOCOL_VERSION_MISMATCH''),
     (RC_PayloadTooLarge, ''PAYLOAD_TOO_LARGE''),
     (RC_PeerClosed, ''PEER_CLOSED''),
     (RC_ConnectionRefused, ''CONNECTION_REFUSED''),
     (RC_DuplicateDelivery, ''DUPLICATE_DELIVERY''),
     (RC_RequestDigestMismatch, ''REQUEST_DIGEST_MISMATCH''),
     (RC_EndpointInvalid, ''ENDPOINT_INVALID''),
     (RC_ConnectionLimitExceeded, ''CONNECTION_LIMIT_EXCEEDED''),
     (RC_ResponseTooLarge, ''RESPONSE_TOO_LARGE''),
     (RC_Cancelled, ''CANCELLED''),
     (RC_ShuttingDown, ''SHUTTING_DOWN''),
     (RC_LimitExceeded, ''LIMIT_EXCEEDED''),
     (RC_QueueFull, ''QUEUE_FULL''),
     (RC_InternalInvariant, ''INTERNAL_INVARIANT''),
     (RC_UnsupportedOperation, ''UNSUPPORTED_OPERATION''),
     (RC_WorkerUnavailable, ''WORKER_UNAVAILABLE''),
     (RC_InvalidConfiguration, ''INVALID_CONFIGURATION'')]"

definition reason_to_string :: "ReasonCode \<Rightarrow> string" where
  "reason_to_string c =
     (case map_of NOF_REASON_CODES c of Some token \<Rightarrow> token | None \<Rightarrow> ''UNKNOWN_REASON'')"

definition known_reason :: "ReasonCode \<Rightarrow> bool" where
  "known_reason c = (map_of NOF_REASON_CODES c \<noteq> None)"

definition parse_reason_code :: "string \<Rightarrow> ReasonCode option" where
  "parse_reason_code token =
     map_option fst (List.find (\<lambda>entry. snd entry = token) NOF_REASON_CODES)"

datatype ReasonCategory = CategoryOk | Informational | Refusal | Recovery

text \<open>The names of the categories.\<close>

primrec ReasonCategory_to_string :: "ReasonCategory \<Rightarrow> string" where
    "ReasonCategory_to_string CategoryOk = ''OK''"
  | "ReasonCategory_to_string Informational = ''INFORMATIONAL''"
  | "ReasonCategory_to_string Refusal = ''REFUSAL''"
  | "ReasonCategory_to_string Recovery = ''RECOVERY''"

definition category_of :: "ReasonCode \<Rightarrow> ReasonCategory" where
  "category_of c =
     (if c = 0x0000 then CategoryOk
      else if c < 0x0100 then Informational
      else if 0x0600 \<le> c \<and> c < 0x0700 then
        (if c = RC_JournalTornTail \<or> c = RC_RestartAuthorityReset \<or>
            c = RC_ObservationStaleAfterRestart \<or> c = RC_CrashBoundaryInjected
         then Recovery else Refusal)
      else Refusal)"

definition is_refusal :: "ReasonCode \<Rightarrow> bool" where
  "is_refusal c = (category_of c = Refusal)"

definition is_recovery_classification :: "ReasonCode \<Rightarrow> bool" where
  "is_recovery_classification c = (category_of c = Recovery)"

datatype Error = Error (code: ReasonCode) (detail: string)

definition error_to_string :: "Error \<Rightarrow> string" where
  "error_to_string err =
     reason_to_string (code err) @ (if detail err \<noteq> [] then '': '' @ detail err else [])"

type_synonym 'a result = "Error + 'a"
type_synonym Status = "unit result"

abbreviation Err :: "ReasonCode \<Rightarrow> string \<Rightarrow> 'a result" where
  "Err c d \<equiv> Inl (Error c d)"

abbreviation ok_status :: Status where
  "ok_status \<equiv> Inr ()"

definition ok :: "'a result \<Rightarrow> bool" where
  "ok r = (case r of Inl _ \<Rightarrow> False | Inr _ \<Rightarrow> True)"

lemma ok_simps [simp]: "ok (Inl e) = False" "ok (Inr v) = True"
  by (simp_all add: ok_def)

text \<open>
  The early return \<open>if (!status) return status;\<close> after a step that yields a result.
\<close>

definition and_then :: "'a result \<Rightarrow> ('a \<Rightarrow> 'b result) \<Rightarrow> 'b result" where
  "and_then r f = (case r of Inl e \<Rightarrow> Inl e | Inr v \<Rightarrow> f v)"

lemma and_then_simps [simp]:
  "and_then (Inl e) f = Inl e" "and_then (Inr v) f = f v"
  by (simp_all add: and_then_def)

lemma and_then_Inr: "and_then r f = Inr y \<longleftrightarrow> (\<exists>v. r = Inr v \<and> f v = Inr y)"
  by (cases r) auto

lemma and_then_Inl: "and_then r f = Inl e \<longleftrightarrow> r = Inl e \<or> (\<exists>v. r = Inr v \<and> f v = Inl e)"
  by (cases r) auto

text \<open>A guard \<open>if (cond) return Error(code, detail);\<close> followed by the rest of the checks.\<close>

definition require :: "bool \<Rightarrow> ReasonCode \<Rightarrow> string \<Rightarrow> Status" where
  "require good c d = (if good then ok_status else Err c d)"

lemma require_Inr [simp]: "require good c d = Inr u \<longleftrightarrow> good"
  by (simp add: require_def)

lemma require_True [simp]: "require True c d = ok_status"
  by (simp add: require_def)

text \<open>A loop that returns at the first failing element.\<close>

fun for_each :: "('a \<Rightarrow> Status) \<Rightarrow> 'a list \<Rightarrow> Status" where
  "for_each f [] = ok_status"
| "for_each f (x # xs) = and_then (f x) (\<lambda>_. for_each f xs)"

lemma for_each_Inr: "for_each f xs = Inr u \<longleftrightarrow> (\<forall>x\<in>set xs. ok (f x))"
  by (induction xs) (auto simp: and_then_def split: sum.splits)

lemma ok_iff_Inr: "ok (r :: Status) \<longleftrightarrow> r = ok_status"
  by (cases r) auto

fun first_error :: "Status list \<Rightarrow> Status" where
  "first_error [] = ok_status"
| "first_error (s # ss) = and_then s (\<lambda>_. first_error ss)"

lemma first_error_Inr: "first_error ss = Inr u \<longleftrightarrow> (\<forall>s\<in>set ss. ok s)"
  by (induction ss) (auto simp: and_then_def split: sum.splits)

end
