(* ===== verification/Nof_Checked.thy ===== *)
theory Nof_Checked
  imports Nof_Error
begin

text \<open>
  Overflow-checked arithmetic (\<open>include/nof/checked.hpp\<close>) and typed quantities
  (\<open>include/nof/units.hpp\<close>). An unsigned \<open>T\<close> is a word of its width, where \<open>+\<close>,
  \<open>-\<close> and \<open>*\<close> wrap; a signed \<open>T\<close> is an integer kept inside \<open>[min, max]\<close>. A call
  \<open>checked_op(a, b, out)\<close> that returns false leaves \<open>out\<close> untouched, so its model is
  \<open>None\<close> and the caller decides what \<open>out\<close> holds.
\<close>

subsection \<open>Unsigned arithmetic\<close>

definition add_would_overflow :: "'a::len word \<Rightarrow> 'a word \<Rightarrow> bool" where
  "add_would_overflow a b = (a > - 1 - b)"

definition sub_would_overflow :: "'a::len word \<Rightarrow> 'a word \<Rightarrow> bool" where
  "sub_would_overflow a b = (a < b)"

definition mul_would_overflow :: "'a::len word \<Rightarrow> 'a word \<Rightarrow> bool" where
  "mul_would_overflow a b = (if a = 0 \<or> b = 0 then False else a > - 1 div b)"

definition checked_add :: "'a::len word \<Rightarrow> 'a word \<Rightarrow> 'a word option" where
  "checked_add a b = (if add_would_overflow a b then None else Some (a + b))"

definition checked_sub :: "'a::len word \<Rightarrow> 'a word \<Rightarrow> 'a word option" where
  "checked_sub a b = (if sub_would_overflow a b then None else Some (a - b))"

definition checked_mul :: "'a::len word \<Rightarrow> 'a word \<Rightarrow> 'a word option" where
  "checked_mul a b = (if mul_would_overflow a b then None else Some (a * b))"

definition saturating_add :: "'a::len word \<Rightarrow> 'a word \<Rightarrow> 'a word" where
  "saturating_add a b =
     (case checked_add a b of Some out \<Rightarrow> out | None \<Rightarrow> if b > 0 then - 1 else 0)"

definition saturating_mul :: "'a::len word \<Rightarrow> 'a word \<Rightarrow> 'a word" where
  "saturating_mul a b = (case checked_mul a b of Some out \<Rightarrow> out | None \<Rightarrow> - 1)"

definition checked_ceil_div :: "'a::len word \<Rightarrow> 'a word \<Rightarrow> 'a word option" where
  "checked_ceil_div num den =
     (if den = 0 then None
      else case checked_add num (den - 1) of None \<Rightarrow> None | Some q \<Rightarrow> Some (q div den))"

lemma unat_lt_2p: "unat (a :: 'a::len word) < 2 ^ LENGTH('a)"
  by simp

lemma unat_max_word: "unat (- 1 :: 'a::len word) = 2 ^ LENGTH('a) - 1"
  by (simp add: unsigned_minus_1_eq_mask mask_eq_exp_minus_1)

lemma add_would_overflow_iff:
  "add_would_overflow a (b :: 'a::len word) \<longleftrightarrow> 2 ^ LENGTH('a) \<le> unat a + unat b"
proof -
  have b: "unat b < 2 ^ LENGTH('a)" by simp
  have "unat (- 1 - b) = 2 ^ LENGTH('a) - 1 - unat b"
    by (subst unat_sub) (simp_all add: unat_max_word)
  then have "add_would_overflow a b \<longleftrightarrow> 2 ^ LENGTH('a) - 1 - unat b < unat a"
    by (simp add: add_would_overflow_def word_less_nat_alt)
  with b show ?thesis by linarith
qed

lemma sub_would_overflow_iff: "sub_would_overflow a b \<longleftrightarrow> unat a < unat b"
  by (simp add: sub_would_overflow_def word_less_nat_alt)

lemma mul_would_overflow_iff:
  "mul_would_overflow a (b :: 'a::len word) \<longleftrightarrow> 2 ^ LENGTH('a) \<le> unat a * unat b"
proof (cases "a = 0 \<or> b = 0")
  case True
  then show ?thesis by (auto simp: mul_would_overflow_def)
next
  case False
  then have b: "0 < unat b" by (simp add: unat_gt_0)
  have "mul_would_overflow a b \<longleftrightarrow> (2 ^ LENGTH('a) - 1) div unat b < unat a"
    using False by (simp add: mul_would_overflow_def word_less_nat_alt unat_div unat_max_word)
  also have "\<dots> \<longleftrightarrow> 2 ^ LENGTH('a) - 1 < unat a * unat b"
    using b by (simp add: div_less_iff_less_mult)
  also have "\<dots> \<longleftrightarrow> 2 ^ LENGTH('a) \<le> unat a * unat b"
    using zero_less_power [of "2::nat" "LENGTH('a)"] by linarith
  finally show ?thesis .
qed

lemma checked_add_Some:
  "checked_add a (b :: 'a::len word) = Some c \<longleftrightarrow>
     unat a + unat b < 2 ^ LENGTH('a) \<and> unat c = unat a + unat b"
  by (auto simp: checked_add_def add_would_overflow_iff word_unat_eq_iff not_le
      unat_add_lem [THEN iffD1])

lemmas checked_add_SomeD = checked_add_Some [THEN iffD1]

lemma checked_sub_Some:
  "checked_sub a b = Some c \<longleftrightarrow> unat b \<le> unat a \<and> unat c = unat a - unat b"
  by (auto simp: checked_sub_def sub_would_overflow_iff unat_sub word_le_nat_alt
      word_unat_eq_iff not_less split: if_splits)

lemma checked_mul_Some:
  "checked_mul a (b :: 'a::len word) = Some c \<longleftrightarrow>
     unat a * unat b < 2 ^ LENGTH('a) \<and> unat c = unat a * unat b"
  by (auto simp: checked_mul_def mul_would_overflow_iff word_unat_eq_iff not_le
      unat_mult_lem [THEN iffD1])

lemma checked_add_None:
  "checked_add a (b :: 'a::len word) = None \<longleftrightarrow> 2 ^ LENGTH('a) \<le> unat a + unat b"
  by (simp add: checked_add_def add_would_overflow_iff)

lemma checked_sub_None: "checked_sub a b = None \<longleftrightarrow> unat a < unat b"
  by (simp add: checked_sub_def sub_would_overflow_iff)

lemma checked_mul_None:
  "checked_mul a (b :: 'a::len word) = None \<longleftrightarrow> 2 ^ LENGTH('a) \<le> unat a * unat b"
  by (simp add: checked_mul_def mul_would_overflow_iff)

lemma unat_saturating_add:
  "unat (saturating_add a (b :: 'a::len word)) = min (unat a + unat b) (2 ^ LENGTH('a) - 1)"
proof (cases "checked_add a b")
  case None
  then have ov: "2 ^ LENGTH('a) \<le> unat a + unat b" by (simp add: checked_add_None)
  moreover have "unat a < 2 ^ LENGTH('a)" by simp
  ultimately have "b > 0" by (cases "b = 0") (auto simp: word_gt_0)
  moreover have "min (unat a + unat b) (2 ^ LENGTH('a) - 1) = 2 ^ LENGTH('a) - 1"
    using ov by linarith
  ultimately show ?thesis using None by (simp add: saturating_add_def unat_max_word)
next
  case (Some c)
  with checked_add_SomeD [OF Some] show ?thesis by (auto simp: saturating_add_def)
qed

text \<open>The ceiling: on success the quotient is the least one that covers the numerator.\<close>

lemma checked_ceil_div_Some:
  assumes "checked_ceil_div num den = Some q"
  shows "unat num \<le> unat q * unat den" and "unat q * unat den < unat num + unat den"
proof -
  from assms have den: "den \<noteq> 0" by (auto simp: checked_ceil_div_def split: if_splits)
  then have d: "0 < unat den" by (simp add: unat_gt_0)
  have pred: "unat (den - 1) = unat den - 1" using den by (simp add: unat_minus_one)
  from assms den obtain s where s: "checked_add num (den - 1) = Some s" "q = s div den"
    by (auto simp: checked_ceil_div_def split: option.splits)
  then have q: "unat q = (unat num + (unat den - 1)) div unat den"
    by (simp add: checked_add_Some unat_div pred)
  let ?n = "unat num + (unat den - 1)"
  have "?n div unat den * unat den + ?n mod unat den = ?n" by simp
  moreover have "?n mod unat den < unat den" using d by simp
  ultimately show "unat num \<le> unat q * unat den" "unat q * unat den < unat num + unat den"
    unfolding q using d by linarith+
qed

subsection \<open>Narrowing and typed quantities\<close>

text \<open>The code narrows unsigned values only; the bound is the largest value of the target, read at the source's width.\<close>

definition checked_cast :: "'a::len word \<Rightarrow> 'b::len word option" where
  "checked_cast v = (if v > ucast (- 1 :: 'b word) then None else Some (ucast v))"

lemma checked_cast_Some:
  fixes out :: "'b::len word" and v :: "'a::len word"
  assumes "LENGTH('b) \<le> LENGTH('a)"
  shows "checked_cast v = Some out \<longleftrightarrow> unat v < 2 ^ LENGTH('b) \<and> unat out = unat v"
proof -
  have "(2 :: nat) ^ LENGTH('b) \<le> 2 ^ LENGTH('a)" using assms by simp
  then have "mask LENGTH('b) < (2 :: nat) ^ LENGTH('a)"
    using zero_less_power [of "2::nat" "LENGTH('b)"] by (simp only: mask_eq_exp_minus_1) linarith
  moreover have "unat (ucast (- 1 :: 'b word) :: 'a word) = take_bit LENGTH('a) (unat (- 1 :: 'b word))"
    by (rule unsigned_ucast_eq)
  ultimately have "unat (ucast (- 1 :: 'b word) :: 'a word) = mask LENGTH('b)"
    by (simp only: unat_max_word mask_eq_exp_minus_1 take_bit_nat_eq_self)
  then have "v > ucast (- 1 :: 'b word) \<longleftrightarrow> 2 ^ LENGTH('b) \<le> unat v"
    by (simp add: word_less_nat_alt mask_eq_exp_minus_1) (use zero_less_power [of "2::nat" "LENGTH('b)"] in linarith)
  moreover have "unat (ucast v :: 'b word) = unat v" if "unat v < 2 ^ LENGTH('b)"
    using that by (simp add: unsigned_ucast_eq take_bit_nat_eq_self)
  ultimately show ?thesis
    by (auto simp: checked_cast_def word_unat_eq_iff not_le)
qed

text \<open>A \<open>Quantity\<close> is its representation; its tag is the type discipline of the source, which needs no model.\<close>

definition quantity_add :: "'a::len word \<Rightarrow> 'a word \<Rightarrow> 'a word result" where
  "quantity_add a b =
     (case checked_add a b of None \<Rightarrow> Err RC_ArithmeticOverflow ''quantity addition overflow'' | Some out \<Rightarrow> Inr out)"

definition quantity_sub :: "'a::len word \<Rightarrow> 'a word \<Rightarrow> 'a word result" where
  "quantity_sub a b =
     (case checked_sub a b of None \<Rightarrow> Err RC_ArithmeticOverflow ''quantity subtraction underflow'' | Some out \<Rightarrow> Inr out)"

definition quantity_mul :: "'a::len word \<Rightarrow> 'a word \<Rightarrow> 'a word result" where
  "quantity_mul a scalar =
     (case checked_mul a scalar of
        None \<Rightarrow> Err RC_ArithmeticOverflow ''quantity multiplication overflow''
      | Some out \<Rightarrow> Inr out)"

lemma quantity_sub_add: "quantity_add a b = Inr c \<Longrightarrow> quantity_sub c b = Inr a"
  by (auto simp: quantity_add_def quantity_sub_def checked_add_def checked_sub_def sub_would_overflow_iff
      add_would_overflow_iff unat_add_lem [THEN iffD1] split: if_splits)

subsection \<open>Signed arithmetic\<close>

type_synonym i64 = int

definition i64_max :: int where "i64_max = 2 ^ 63 - 1"
definition i64_min :: int where "i64_min = - (2 ^ 63)"

definition is_i64 :: "int \<Rightarrow> bool" where
  "is_i64 a = (i64_min \<le> a \<and> a \<le> i64_max)"

definition add_would_overflow_i64 :: "i64 \<Rightarrow> i64 \<Rightarrow> bool" where
  "add_would_overflow_i64 a b = (if b > 0 then a > i64_max - b else a < i64_min - b)"

definition checked_add_i64 :: "i64 \<Rightarrow> i64 \<Rightarrow> i64 option" where
  "checked_add_i64 a b = (if add_would_overflow_i64 a b then None else Some (a + b))"

definition sub_would_overflow_i64 :: "i64 \<Rightarrow> i64 \<Rightarrow> bool" where
  "sub_would_overflow_i64 a b = (if b > 0 then a < i64_min + b else a > i64_max + b)"

definition checked_sub_i64 :: "i64 \<Rightarrow> i64 \<Rightarrow> i64 option" where
  "checked_sub_i64 a b = (if sub_would_overflow_i64 a b then None else Some (a - b))"

text \<open>The division of the language rounds towards zero.\<close>

definition trunc_div :: "int \<Rightarrow> int \<Rightarrow> int" where
  "trunc_div a b = sgn a * sgn b * (\<bar>a\<bar> div \<bar>b\<bar>)"

definition mul_would_overflow_i64 :: "i64 \<Rightarrow> i64 \<Rightarrow> bool" where
  "mul_would_overflow_i64 a b =
     (if a = 0 \<or> b = 0 then False
      else if a > 0 then (if b > 0 then a > trunc_div i64_max b else b < trunc_div i64_min a)
      else if b > 0 then a < trunc_div i64_min b
      else b < trunc_div i64_max a)"

definition checked_mul_i64 :: "i64 \<Rightarrow> i64 \<Rightarrow> i64 option" where
  "checked_mul_i64 a b = (if mul_would_overflow_i64 a b then None else Some (a * b))"

lemma checked_add_i64_Some:
  "is_i64 a \<Longrightarrow> is_i64 b \<Longrightarrow> checked_add_i64 a b = Some c \<longleftrightarrow> is_i64 (a + b) \<and> c = a + b"
  by (auto simp: checked_add_i64_def add_would_overflow_i64_def is_i64_def i64_max_def i64_min_def
      split: if_splits)

subsection \<open>Demand and capacity vectors\<close>

record DemandVector =
  dv_packets_per_second :: u64
  dv_bytes_per_second :: u64
  dv_flows :: u64
  dv_queues :: u64
  dv_memory :: u64

record CapacityVector =
  cv_packets_per_second :: u64
  cv_bytes_per_second :: u64
  cv_flows :: u64
  cv_queues :: u64
  cv_memory :: u64

definition zero_demand :: DemandVector where
  "zero_demand = \<lparr>dv_packets_per_second = 0, dv_bytes_per_second = 0, dv_flows = 0,
     dv_queues = 0, dv_memory = 0\<rparr>"

definition zero_capacity :: CapacityVector where
  "zero_capacity = \<lparr>cv_packets_per_second = 0, cv_bytes_per_second = 0, cv_flows = 0,
     cv_queues = 0, cv_memory = 0\<rparr>"

definition capacity_admits ::
    "CapacityVector \<Rightarrow> DemandVector \<Rightarrow> DemandVector \<Rightarrow> DemandVector option" where
  "capacity_admits capacity committed demand =
     (case (checked_add (dv_packets_per_second committed) (dv_packets_per_second demand),
            checked_add (dv_bytes_per_second committed) (dv_bytes_per_second demand),
            checked_add (dv_flows committed) (dv_flows demand),
            checked_add (dv_queues committed) (dv_queues demand),
            checked_add (dv_memory committed) (dv_memory demand)) of
        (Some pps, Some bps, Some flows, Some queues, Some memory) \<Rightarrow>
          (if pps > cv_packets_per_second capacity \<or> bps > cv_bytes_per_second capacity \<or>
              flows > cv_flows capacity \<or> queues > cv_queues capacity \<or>
              memory > cv_memory capacity
           then None
           else Some \<lparr>dv_packets_per_second = pps, dv_bytes_per_second = bps, dv_flows = flows,
                  dv_queues = queues, dv_memory = memory\<rparr>)
      | _ \<Rightarrow> None)"

definition capacity_exceeds :: "DemandVector \<Rightarrow> CapacityVector \<Rightarrow> bool" where
  "capacity_exceeds used capacity \<longleftrightarrow>
     dv_packets_per_second used > cv_packets_per_second capacity \<or>
     dv_bytes_per_second used > cv_bytes_per_second capacity \<or>
     dv_flows used > cv_flows capacity \<or>
     dv_queues used > cv_queues capacity \<or>
     dv_memory used > cv_memory capacity"

text \<open>The specification over natural numbers: a sum in every dimension that fits.\<close>

definition demand_fits :: "CapacityVector \<Rightarrow> DemandVector \<Rightarrow> DemandVector \<Rightarrow> bool" where
  "demand_fits capacity committed demand \<longleftrightarrow>
     unat (dv_packets_per_second committed) + unat (dv_packets_per_second demand)
       \<le> unat (cv_packets_per_second capacity) \<and>
     unat (dv_bytes_per_second committed) + unat (dv_bytes_per_second demand)
       \<le> unat (cv_bytes_per_second capacity) \<and>
     unat (dv_flows committed) + unat (dv_flows demand) \<le> unat (cv_flows capacity) \<and>
     unat (dv_queues committed) + unat (dv_queues demand) \<le> unat (cv_queues capacity) \<and>
     unat (dv_memory committed) + unat (dv_memory demand) \<le> unat (cv_memory capacity)"

lemma checked_add_within:
  "(case checked_add a b of None \<Rightarrow> False | Some c \<Rightarrow> c \<le> m) \<longleftrightarrow>
     unat a + unat b \<le> unat (m :: 'a::len word)"
proof (cases "checked_add a b")
  case None
  then have "2 ^ LENGTH('a) \<le> unat a + unat b" by (simp add: checked_add_None)
  then have "unat m < unat a + unat b" using unat_lt_2p [of m] by linarith
  with None show ?thesis by simp
next
  case (Some c)
  with checked_add_SomeD [OF Some] show ?thesis by (simp add: word_le_nat_alt)
qed

lemma capacity_admits_iff_fits:
  "capacity_admits capacity committed demand \<noteq> None \<longleftrightarrow> demand_fits capacity committed demand"
  unfolding demand_fits_def checked_add_within [symmetric]
  by (auto simp: capacity_admits_def not_less split: option.splits)

lemma capacity_admits_projected:
  assumes "capacity_admits capacity committed demand = Some projected"
  shows "unat (dv_packets_per_second projected) =
           unat (dv_packets_per_second committed) + unat (dv_packets_per_second demand)"
    and "unat (dv_bytes_per_second projected) =
           unat (dv_bytes_per_second committed) + unat (dv_bytes_per_second demand)"
    and "unat (dv_flows projected) = unat (dv_flows committed) + unat (dv_flows demand)"
    and "unat (dv_queues projected) = unat (dv_queues committed) + unat (dv_queues demand)"
    and "unat (dv_memory projected) = unat (dv_memory committed) + unat (dv_memory demand)"
    and "\<not> capacity_exceeds projected capacity"
  using assms
  by (auto simp: capacity_admits_def capacity_exceeds_def checked_add_Some
      split: option.splits if_splits)

subsection \<open>Accumulating and releasing demand\<close>

text \<open>
  The bookkeeping of committed demand: the five outputs start at zero, the additions ignore
  the result of \<open>checked_add\<close> (a dimension that overflows becomes zero), and a subtraction
  that would underflow leaves zero.
\<close>

definition add_or_zero :: "u64 \<Rightarrow> u64 \<Rightarrow> u64" where
  "add_or_zero a b = (case checked_add a b of Some c \<Rightarrow> c | None \<Rightarrow> 0)"

definition sub_or_zero :: "u64 \<Rightarrow> u64 \<Rightarrow> u64" where
  "sub_or_zero a b = (case checked_sub a b of Some c \<Rightarrow> c | None \<Rightarrow> 0)"

definition demand_accumulate :: "DemandVector \<Rightarrow> DemandVector \<Rightarrow> DemandVector" where
  "demand_accumulate used d =
     \<lparr>dv_packets_per_second = add_or_zero (dv_packets_per_second used) (dv_packets_per_second d),
      dv_bytes_per_second = add_or_zero (dv_bytes_per_second used) (dv_bytes_per_second d),
      dv_flows = add_or_zero (dv_flows used) (dv_flows d),
      dv_queues = add_or_zero (dv_queues used) (dv_queues d),
      dv_memory = add_or_zero (dv_memory used) (dv_memory d)\<rparr>"

definition demand_release :: "DemandVector \<Rightarrow> DemandVector \<Rightarrow> DemandVector" where
  "demand_release used d =
     \<lparr>dv_packets_per_second = sub_or_zero (dv_packets_per_second used) (dv_packets_per_second d),
      dv_bytes_per_second = sub_or_zero (dv_bytes_per_second used) (dv_bytes_per_second d),
      dv_flows = sub_or_zero (dv_flows used) (dv_flows d),
      dv_queues = sub_or_zero (dv_queues used) (dv_queues d),
      dv_memory = sub_or_zero (dv_memory used) (dv_memory d)\<rparr>"

lemma unat_sub_or_zero: "unat (sub_or_zero a b) = unat a - unat b"
proof (cases "checked_sub a b")
  case None
  then have "unat a < unat b" by (simp only: checked_sub_None)
  with None show ?thesis by (simp add: sub_or_zero_def del: checked_sub_None)
next
  case (Some c)
  then have "unat b \<le> unat a \<and> unat c = unat a - unat b" by (simp only: checked_sub_Some)
  with Some show ?thesis by (simp add: sub_or_zero_def)
qed

lemma unat_add_or_zero:
  "unat a + unat b < 2 ^ 64 \<Longrightarrow> unat (add_or_zero a b) = unat a + unat b"
  by (auto simp: add_or_zero_def checked_add_def add_would_overflow_iff
      unat_add_lem [THEN iffD1])

lemma add_or_zero_zero [simp]: "add_or_zero 0 b = b"
proof -
  have "unat (add_or_zero 0 b) = unat b"
    using unat_lt_2p [of b] by (subst unat_add_or_zero) auto
  then show ?thesis by (simp add: word_unat_eq_iff)
qed

lemma sub_add_or_zero: "unat a + unat b \<le> unat (m :: u64) \<Longrightarrow> sub_or_zero (add_or_zero a b) b = a"
proof -
  assume le: "unat a + unat b \<le> unat m"
  then have "unat a + unat b < 2 ^ 64" using unat_lt_2p [of m] by simp
  then have "unat (sub_or_zero (add_or_zero a b) b) = unat a"
    by (simp add: unat_sub_or_zero unat_add_or_zero)
  then show ?thesis by (simp add: word_unat_eq_iff)
qed

lemma release_accumulate:
  assumes "capacity_admits capacity used d \<noteq> None"
  shows "demand_release (demand_accumulate used d) d = used"
proof -
  from assms have "demand_fits capacity used d" by (simp only: capacity_admits_iff_fits)
  then show ?thesis
    unfolding demand_fits_def demand_release_def demand_accumulate_def
    by (elim conjE) (simp add: sub_add_or_zero)
qed

end
