(* ===== verification/Nof_Ids.thy ===== *)
theory Nof_Ids
  imports Nof_Checked
begin

unbundle bit_operations_syntax

text \<open>
  Identities (\<open>include/nof/ids.hpp\<close>, \<open>src/ids.cpp\<close>), injected time
  (\<open>include/nof/time.hpp\<close>) and the hexadecimal renderings (\<open>src/digest.cpp\<close>,
  \<open>src/ids.cpp\<close>). A \<open>Token<Tag>\<close> is its text, a \<open>Gen<Tag>\<close> its 64-bit value (zero is
  "unset"), a \<open>Digest\<close> its bytes. Composite identities that key ordered containers are
  datatypes with the order of the program.

  Shown here: the token grammars, round trips of the hexadecimal codecs, the strict order
  of fencing tokens, and the freshness and generation rules.
\<close>

type_synonym Token = string
type_synonym HostId = Token
type_synonym DeviceId = Token
type_synonym FunctionId = Token
type_synonym ScopeId = Token
type_synonym SourceId = Token
type_synonym AuthorityId = Token
type_synonym AssignmentId = Token
type_synonym RequestId = Token
type_synonym StoreId = Token
type_synonym BootId = string
type_synonym Gen = u64
type_synonym Digest = "u8 list"
type_synonym Micros = i64

subsection \<open>Token grammar\<close>

definition kMaxTokenLength :: nat where "kMaxTokenLength = 64"
definition kBootIdLength :: nat where "kBootIdLength = 32"
definition kMaxSelectorLength :: nat where "kMaxSelectorLength = 192"

definition char_in :: "nat \<Rightarrow> nat \<Rightarrow> char \<Rightarrow> bool" where
  "char_in lo hi c = (lo \<le> of_char c \<and> of_char c \<le> hi)"

abbreviation "is_lower \<equiv> char_in 97 122"
abbreviation "is_digit \<equiv> char_in 48 57"

definition is_head :: "char \<Rightarrow> bool" where
  "is_head c = (is_lower c \<or> is_digit c)"

definition is_tail :: "char \<Rightarrow> bool" where
  "is_tail c = (is_head c \<or> c = CHR ''.'' \<or> c = CHR ''_'' \<or> c = CHR '':'' \<or> c = CHR ''-'')"

definition is_valid_token :: "string \<Rightarrow> bool" where
  "is_valid_token text =
     (case text of
        [] \<Rightarrow> False
      | front # _ \<Rightarrow> length text \<le> kMaxTokenLength \<and> is_head front \<and> list_all is_tail text)"

definition is_lower_hex :: "string \<Rightarrow> nat \<Rightarrow> bool" where
  "is_lower_hex text len =
     (length text = len \<and> list_all (\<lambda>c. is_digit c \<or> char_in 97 102 c) text)"

definition is_valid_selector :: "string \<Rightarrow> bool" where
  "is_valid_selector text =
     (text \<noteq> [] \<and> length text \<le> kMaxSelectorLength \<and>
      list_all (\<lambda>c. is_lower c \<or> is_digit c \<or> c = CHR ''.'' \<or> c = CHR ''_'' \<or> c = CHR '':'' \<or>
        c = CHR ''-'' \<or> c = CHR ''='' \<or> c = CHR '','') text)"

definition token_parse :: "string \<Rightarrow> Token result" where
  "token_parse text =
     (if \<not> is_valid_token text then Err RC_InvalidIdentifier ''invalid token'' else Inr text)"

definition boot_parse :: "string \<Rightarrow> BootId result" where
  "boot_parse text =
     (if \<not> is_lower_hex text kBootIdLength
      then Err RC_InvalidIdentifier ''boot id must be 32 lowercase hex characters''
      else Inr text)"

abbreviation token_is_set :: "Token \<Rightarrow> bool" where
  "token_is_set t \<equiv> t \<noteq> []"

definition boot_is_set :: "BootId \<Rightarrow> bool" where
  "boot_is_set b = (length b = kBootIdLength)"

lemma valid_token_nonempty: "is_valid_token t \<Longrightarrow> t \<noteq> []"
  by (auto simp: is_valid_token_def)

lemma valid_token_length: "is_valid_token t \<Longrightarrow> length t \<le> 64"
  by (auto simp: is_valid_token_def kMaxTokenLength_def split: list.splits)

lemma lower_hex_is_tail:
  "is_digit c \<Longrightarrow> is_head c" "char_in 97 102 c \<Longrightarrow> is_head c"
  "is_digit c \<Longrightarrow> is_tail c" "char_in 97 102 c \<Longrightarrow> is_tail c"
  by (auto simp: char_in_def is_head_def is_tail_def)

lemma lower_hex_is_token:
  "is_lower_hex t n \<Longrightarrow> 0 < n \<Longrightarrow> n \<le> 64 \<Longrightarrow> is_valid_token t"
  by (cases t)
    (auto simp: is_lower_hex_def is_valid_token_def kMaxTokenLength_def list_all_iff
      intro: lower_hex_is_tail)

subsection \<open>Generations\<close>

definition gen_is_set :: "Gen \<Rightarrow> bool" where
  "gen_is_set g = (g \<noteq> 0)"

definition gen_from_u64 :: "u64 \<Rightarrow> Gen result" where
  "gen_from_u64 v =
     (if v = 0 then Err RC_OutOfRange ''generation zero is reserved for unset'' else Inr v)"

definition gen_next :: "Gen \<Rightarrow> Gen result" where
  "gen_next g =
     (case checked_add g 1 of
        None \<Rightarrow> Err RC_ArithmeticOverflow ''generation exhausted''
      | Some n \<Rightarrow> if n = 0 then Err RC_ArithmeticOverflow ''generation exhausted'' else Inr n)"

lemma gen_next_increases: "gen_next g = Inr n \<Longrightarrow> unat n = unat g + 1 \<and> gen_is_set n"
  by (auto simp: gen_next_def gen_is_set_def dest: checked_add_SomeD
      split: option.splits if_splits)

subsection \<open>Epochs, fencing tokens, incarnations, provenance\<close>

record CoordinatorEpoch =
  ce_counter :: u64
  ce_boot :: BootId

definition epoch_is_set :: "CoordinatorEpoch \<Rightarrow> bool" where
  "epoch_is_set e = (ce_counter e \<noteq> 0 \<and> boot_is_set (ce_boot e))"

datatype FencingToken = FencingToken (ft_epoch: u64) (ft_sequence: u64)

definition fence_is_set :: "FencingToken \<Rightarrow> bool" where
  "fence_is_set f = (ft_epoch f \<noteq> 0 \<and> ft_sequence f \<noteq> 0)"

instantiation FencingToken :: linorder
begin

definition less_eq_FencingToken :: "FencingToken \<Rightarrow> FencingToken \<Rightarrow> bool" where
  "a \<le> b \<longleftrightarrow> ft_epoch a < ft_epoch b \<or> (ft_epoch a = ft_epoch b \<and> ft_sequence a \<le> ft_sequence b)"

definition less_FencingToken :: "FencingToken \<Rightarrow> FencingToken \<Rightarrow> bool" where
  "a < b \<longleftrightarrow> ft_epoch a < ft_epoch b \<or> (ft_epoch a = ft_epoch b \<and> ft_sequence a < ft_sequence b)"

instance
  by standard (auto simp: less_eq_FencingToken_def less_FencingToken_def FencingToken.expand)

end

record IncarnationId =
  in_generation :: Gen
  in_boot :: BootId

definition incarnation_is_set :: "IncarnationId \<Rightarrow> bool" where
  "incarnation_is_set i = (gen_is_set (in_generation i) \<and> boot_is_set (in_boot i))"

definition no_incarnation :: IncarnationId where
  "no_incarnation = \<lparr>in_generation = 0, in_boot = []\<rparr>"

record Provenance =
  pv_source :: SourceId
  pv_sequence :: u64

definition provenance_is_set :: "Provenance \<Rightarrow> bool" where
  "provenance_is_set p = (token_is_set (pv_source p) \<and> pv_sequence p \<noteq> 0)"

definition no_provenance :: Provenance where
  "no_provenance = \<lparr>pv_source = [], pv_sequence = 0\<rparr>"

subsection \<open>Time\<close>

record Freshness =
  fr_observed_at :: Micros
  fr_valid_until :: Micros

definition freshness_is_set :: "Freshness \<Rightarrow> bool" where
  "freshness_is_set f = (fr_observed_at f \<noteq> 0 \<and> fr_valid_until f > 0)"

definition is_expired :: "Freshness \<Rightarrow> Micros \<Rightarrow> bool" where
  "is_expired f now = (\<not> freshness_is_set f \<or> now \<ge> fr_valid_until f)"

definition no_freshness :: Freshness where
  "no_freshness = \<lparr>fr_observed_at = 0, fr_valid_until = 0\<rparr>"

definition clock_advance :: "Micros \<Rightarrow> Micros \<Rightarrow> Micros result" where
  "clock_advance current delta =
     (case checked_add_i64 current delta of
        None \<Rightarrow> Err RC_ArithmeticOverflow ''clock advance overflow''
      | Some nxt \<Rightarrow> Inr nxt)"

definition clock_set :: "Micros \<Rightarrow> Micros \<Rightarrow> Micros result" where
  "clock_set current value =
     (if value < current then Err RC_OutOfRange ''manual clock cannot move backwards''
      else Inr value)"

lemma expired_stays_expired: "is_expired f now \<Longrightarrow> now \<le> later \<Longrightarrow> is_expired f later"
  by (auto simp: is_expired_def)

subsection \<open>Hexadecimal renderings\<close>

definition kDigits :: string where "kDigits = ''0123456789abcdef''"

definition hex_digit :: "'a::len word \<Rightarrow> char" where
  "hex_digit v = kDigits ! unat (v AND 15)"

text \<open>\<open>append_hex\<close> and \<open>hex64\<close> render the nibbles from the most significant one.\<close>

definition append_hex :: "u64 \<Rightarrow> nat \<Rightarrow> string" where
  "append_hex v digits = map (\<lambda>i. hex_digit (drop_bit ((digits - 1 - i) * 4) v)) [0..<digits]"

definition hex64 :: "u64 \<Rightarrow> string" where
  "hex64 v = append_hex v 16"

definition boot_generate :: "u64 \<Rightarrow> u64 \<Rightarrow> BootId" where
  "boot_generate entropy_a entropy_b =
     append_hex entropy_a (kBootIdLength div 2) @ append_hex entropy_b (kBootIdLength div 2)"

definition digest_zero :: Digest where
  "digest_zero = replicate 32 0"

definition digest_hex :: "Digest \<Rightarrow> string" where
  "digest_hex d = concat (map (\<lambda>b. [hex_digit (drop_bit 4 b), hex_digit b]) d)"

definition nibble :: "char \<Rightarrow> u8" where
  "nibble c = (if is_digit c then of_nat (of_char c - 48) else of_nat (of_char c - 97 + 10))"

fun hex_pairs :: "string \<Rightarrow> u8 list" where
  "hex_pairs (h # l # rest) = (push_bit 4 (nibble h) OR nibble l) # hex_pairs rest"
| "hex_pairs _ = []"

definition digest_from_hex :: "string \<Rightarrow> Digest result" where
  "digest_from_hex text =
     (if length text \<noteq> 64 \<or> \<not> is_lower_hex text 64
      then Err RC_InvalidIdentifier ''digest must be 64 lowercase hex characters''
      else Inr (hex_pairs text))"

text \<open>\<open>parse_ordinal\<close> of \<open>src/fabric.cpp\<close>: zero for anything that is not prefix and 16 digits.\<close>

definition ordinal_digit :: "char \<Rightarrow> u64 option" where
  "ordinal_digit c =
     (if is_digit c then Some (of_nat (of_char c - 48))
      else if char_in 97 102 c then Some (of_nat (of_char c - 97 + 10))
      else None)"

fun parse_digits :: "u64 \<Rightarrow> string \<Rightarrow> u64" where
  "parse_digits val [] = val"
| "parse_digits val (c # cs) =
     (case ordinal_digit c of
        None \<Rightarrow> 0
      | Some d \<Rightarrow> parse_digits (push_bit 4 val OR d) cs)"

definition parse_ordinal :: "string \<Rightarrow> string \<Rightarrow> u64" where
  "parse_ordinal token prefix =
     (if length token \<noteq> length prefix + 16 \<or> take (length prefix) token \<noteq> prefix then 0
      else parse_digits 0 (drop (length prefix) token))"

lemma low_nibble_eq: "v AND 15 = take_bit 4 (v :: 'a::len word)"
  by (simp add: take_bit_eq_mask mask_eq_exp_minus_1)

lemma unat_low_nibble: "unat (v AND 15 :: 'a::len word) < 16"
proof -
  have "unat (v AND 15) = take_bit 4 (unat v)"
    by (simp add: low_nibble_eq unsigned_take_bit_eq)
  also have "\<dots> < 2 ^ 4" by (rule take_bit_nat_less_exp)
  finally show ?thesis by simp
qed

lemma less_16_cases: "n < 16 \<Longrightarrow> n \<in> {0, 1, 2, 3, 4, 5, 6, 7, 8, 9, 10, 11, 12, 13, 14, 15 :: nat}"
  by (simp only: insert_iff empty_iff) arith

lemma kDigits_decode:
  assumes "n < 16"
  shows "nibble (kDigits ! n) = of_nat n" and "ordinal_digit (kDigits ! n) = Some (of_nat n)"
    and "is_digit (kDigits ! n) \<or> char_in 97 102 (kDigits ! n)"
  using less_16_cases [OF assms]
  by (auto simp: kDigits_def nibble_def ordinal_digit_def char_in_def)

lemma nibble_hex_digit: "nibble (hex_digit b) = b AND 15"
  by (simp add: hex_digit_def kDigits_decode unat_low_nibble)

lemma ordinal_digit_hex_digit: "ordinal_digit (hex_digit v) = Some (v AND 15)"
  by (simp add: hex_digit_def kDigits_decode unat_low_nibble)

lemma hex_digit_is_lower_hex: "is_digit (hex_digit v) \<or> char_in 97 102 (hex_digit v)"
  unfolding hex_digit_def by (rule kDigits_decode (3)) (rule unat_low_nibble)

lemma append_hex_Suc:
  "append_hex v (Suc k) = hex_digit (drop_bit (4 * k) v) # append_hex v k"
  by (simp add: append_hex_def upt_conv_Cons map_Suc_upt [symmetric] comp_def mult.commute
      del: upt_Suc)

lemma append_hex_0: "append_hex v 0 = []"
  by (simp add: append_hex_def)

lemma append_hex_lower_hex: "is_lower_hex (append_hex v k) k"
  using hex_digit_is_lower_hex by (auto simp: is_lower_hex_def append_hex_def list_all_iff)

lemma parse_digits_append_hex:
  "parse_digits acc (append_hex v k) = push_bit (4 * k) acc OR take_bit (4 * k) v"
proof (induction k arbitrary: acc)
  case 0
  then show ?case by (simp add: append_hex_0)
next
  case (Suc k)
  have "push_bit (4 * k) (push_bit 4 acc OR take_bit 4 (drop_bit (4 * k) v)) OR take_bit (4 * k) v
      = push_bit (4 * k + 4) acc OR take_bit (4 * k + 4) v"
    by (rule bit_word_eqI) (auto simp: bit_simps)
  then show ?case
    by (simp add: append_hex_Suc ordinal_digit_hex_digit Suc.IH low_nibble_eq add.commute)
qed

lemma parse_digits_hex64: "parse_digits 0 (hex64 v) = v"
  by (simp add: hex64_def parse_digits_append_hex) (rule take_bit_word_eq_self, simp)

lemma length_hex64 [simp]: "length (hex64 v) = 16"
  by (simp add: hex64_def append_hex_def)

lemma hex_pairs_digest_hex: "hex_pairs (digest_hex d) = d"
proof (induction d)
  case Nil
  then show ?case by (simp add: digest_hex_def)
next
  case (Cons b d)
  have "push_bit 4 (take_bit 4 (drop_bit 4 b)) OR take_bit 4 b = b"
    by (rule bit_word_eqI) (auto simp: bit_simps)
  with Cons show ?case
    by (simp add: digest_hex_def nibble_hex_digit low_nibble_eq)
qed

lemma digest_hex_lower_hex: "is_lower_hex (digest_hex d) (2 * length d)"
  by (induction d)
    (use hex_digit_is_lower_hex in \<open>auto simp: digest_hex_def is_lower_hex_def\<close>)

end
