(* ===== verification/Nof_Digest.thy ===== *)
theory Nof_Digest
  imports Nof_Ids
begin

unbundle bit_operations_syntax

text \<open>
  The two digest primitives of \<open>src/digest.cpp\<close>: a streaming SHA-256 (\<open>Sha256::update\<close>
  collects input in a 64-byte buffer and compresses each full block, \<open>Sha256::finish\<close> pads)
  and a table-driven CRC-32C.

  Shown here: the streaming SHA-256 equals compressing the padded message block by block,
  whatever chunks the input arrives in; the CRC table step equals eight steps of the
  bitwise shift register; and a change confined to a single byte always changes the CRC.
\<close>

subsection \<open>SHA-256\<close>

definition kSha256Initial :: "u32 list" where
  "kSha256Initial =
    [0x6a09e667, 0xbb67ae85, 0x3c6ef372, 0xa54ff53a, 0x510e527f, 0x9b05688c, 0x1f83d9ab, 0x5be0cd19]"

definition kSha256Round :: "u32 list" where
  "kSha256Round = concat [
    [0x428a2f98, 0x71374491, 0xb5c0fbcf, 0xe9b5dba5, 0x3956c25b, 0x59f111f1, 0x923f82a4],
    [0xab1c5ed5, 0xd807aa98, 0x12835b01, 0x243185be, 0x550c7dc3, 0x72be5d74, 0x80deb1fe],
    [0x9bdc06a7, 0xc19bf174, 0xe49b69c1, 0xefbe4786, 0x0fc19dc6, 0x240ca1cc, 0x2de92c6f],
    [0x4a7484aa, 0x5cb0a9dc, 0x76f988da, 0x983e5152, 0xa831c66d, 0xb00327c8, 0xbf597fc7],
    [0xc6e00bf3, 0xd5a79147, 0x06ca6351, 0x14292967, 0x27b70a85, 0x2e1b2138, 0x4d2c6dfc],
    [0x53380d13, 0x650a7354, 0x766a0abb, 0x81c2c92e, 0x92722c85, 0xa2bfe8a1, 0xa81a664b],
    [0xc24b8b70, 0xc76c51a3, 0xd192e819, 0xd6990624, 0xf40e3585, 0x106aa070, 0x19a4c116],
    [0x1e376c08, 0x2748774c, 0x34b0bcb5, 0x391c0cb3, 0x4ed8aa4a, 0x5b9cca4f, 0x682e6ff3],
    [0x748f82ee, 0x78a5636f, 0x84c87814, 0x8cc70208, 0x90befffa, 0xa4506ceb, 0xbef9a3f7],
    [0xc67178f2]]"

definition rotr :: "u32 \<Rightarrow> nat \<Rightarrow> u32" where
  "rotr v count = drop_bit count v OR push_bit (32 - count) v"

definition load_be32 :: "u8 list \<Rightarrow> u32" where
  "load_be32 d = push_bit 24 (ucast (d ! 0)) OR push_bit 16 (ucast (d ! 1)) OR
     push_bit 8 (ucast (d ! 2)) OR ucast (d ! 3)"

definition store_be32 :: "u32 \<Rightarrow> u8 list" where
  "store_be32 v = [ucast (drop_bit 24 v AND 0xff), ucast (drop_bit 16 v AND 0xff),
     ucast (drop_bit 8 v AND 0xff), ucast (v AND 0xff)]"

definition schedule_word :: "u32 list \<Rightarrow> nat \<Rightarrow> u32" where
  "schedule_word s i =
     (let s0 = rotr (s ! (i - 15)) 7 XOR rotr (s ! (i - 15)) 18 XOR drop_bit 3 (s ! (i - 15));
          s1 = rotr (s ! (i - 2)) 17 XOR rotr (s ! (i - 2)) 19 XOR drop_bit 10 (s ! (i - 2))
      in s ! (i - 16) + s0 + s ! (i - 7) + s1)"

definition schedule :: "u8 list \<Rightarrow> u32 list" where
  "schedule block =
     fold (\<lambda>i s. s @ [schedule_word s i]) [16..<64]
       (map (\<lambda>i. load_be32 (drop (i * 4) block)) [0..<16])"

type_synonym sha_vars = "u32 \<times> u32 \<times> u32 \<times> u32 \<times> u32 \<times> u32 \<times> u32 \<times> u32"

definition sha_round :: "u32 \<times> u32 \<Rightarrow> sha_vars \<Rightarrow> sha_vars" where
  "sha_round kw v =
     (case v of (a, b, c, d, e, f, g, h) \<Rightarrow>
        let s1 = rotr e 6 XOR rotr e 11 XOR rotr e 25;
            ch = (e AND f) XOR (NOT e AND g);
            temp1 = h + s1 + ch + fst kw + snd kw;
            s0 = rotr a 2 XOR rotr a 13 XOR rotr a 22;
            maj = (a AND b) XOR (a AND c) XOR (b AND c);
            temp2 = s0 + maj
        in (temp1 + temp2, a, b, c, d + temp1, e, f, g))"

definition compress :: "sha_vars \<Rightarrow> u8 list \<Rightarrow> sha_vars" where
  "compress st block =
     (case (st, fold sha_round (zip kSha256Round (schedule block)) st) of
        ((a, b, c, d, e, f, g, h), (a', b', c', d', e', f', g', h')) \<Rightarrow>
          (a + a', b + b', c + c', d + d', e + e', f + f', g + g', h + h'))"

definition sha_initial :: sha_vars where
  "sha_initial = (kSha256Initial ! 0, kSha256Initial ! 1, kSha256Initial ! 2, kSha256Initial ! 3,
     kSha256Initial ! 4, kSha256Initial ! 5, kSha256Initial ! 6, kSha256Initial ! 7)"

record Sha256 =
  sh_state :: sha_vars
  sh_bit_length :: u64
  sh_buffer :: "u8 list"

definition sha_init :: Sha256 where
  "sha_init = \<lparr>sh_state = sha_initial, sh_bit_length = 0, sh_buffer = []\<rparr>"

text \<open>
  The copy loop of \<open>update\<close>: fill the room left in the buffer, compress when it is full.
  The buffer never holds 64 bytes between two iterations (\<open>buffer_below\<close> below).
\<close>

function sha_absorb :: "Sha256 \<Rightarrow> u8 list \<Rightarrow> Sha256" where
  "sha_absorb h bytes =
     (if bytes = [] \<or> 64 \<le> length (sh_buffer h) then h
      else let room = 64 - length (sh_buffer h);
               n = min (length bytes) room;
               filled = sh_buffer h @ take n bytes;
               h' = (if length filled = 64
                     then h\<lparr>sh_state := compress (sh_state h) filled, sh_buffer := []\<rparr>
                     else h\<lparr>sh_buffer := filled\<rparr>)
           in sha_absorb h' (drop n bytes))"
  by pat_completeness auto
termination
  by (relation "measure (\<lambda>(h, bytes). length bytes)") (auto simp: min_def)

declare sha_absorb.simps [simp del]

definition sha_update :: "Sha256 \<Rightarrow> u8 list \<Rightarrow> Sha256" where
  "sha_update h bytes =
     sha_absorb (h\<lparr>sh_bit_length := sh_bit_length h + of_nat (length bytes) * 8\<rparr>) bytes"

text \<open>One byte at a time, the reference for the copy loop.\<close>

definition sha_put :: "u8 \<Rightarrow> Sha256 \<Rightarrow> Sha256" where
  "sha_put b h =
     (let filled = sh_buffer h @ [b]
      in if length filled = 64
         then h\<lparr>sh_state := compress (sh_state h) filled, sh_buffer := []\<rparr>
         else h\<lparr>sh_buffer := filled\<rparr>)"

definition buffer_below :: "Sha256 \<Rightarrow> bool" where
  "buffer_below h = (length (sh_buffer h) < 64)"

lemma buffer_below_put: "buffer_below h \<Longrightarrow> buffer_below (sha_put b h)"
  by (auto simp: buffer_below_def sha_put_def Let_def)

lemma buffer_below_fold_put: "buffer_below h \<Longrightarrow> buffer_below (fold sha_put bytes h)"
  by (induction bytes arbitrary: h) (auto intro: buffer_below_put)

lemma fold_put_short:
  "length (sh_buffer h) + length bytes < 64 \<Longrightarrow>
     fold sha_put bytes h = h\<lparr>sh_buffer := sh_buffer h @ bytes\<rparr>"
  by (induction bytes arbitrary: h) (auto simp: sha_put_def Let_def)

lemma fold_put_full:
  assumes "length (sh_buffer h) + length bytes = 64" and "bytes \<noteq> []"
  shows "fold sha_put bytes h =
     h\<lparr>sh_state := compress (sh_state h) (sh_buffer h @ bytes), sh_buffer := []\<rparr>"
proof -
  from assms(2) obtain init b where bytes: "bytes = init @ [b]" by (metis rev_exhaust)
  with assms(1) have "fold sha_put init h = h\<lparr>sh_buffer := sh_buffer h @ init\<rparr>"
    by (intro fold_put_short) simp
  with assms(1) show ?thesis by (simp add: bytes sha_put_def Let_def)
qed

lemma sha_absorb_fold: "buffer_below h \<Longrightarrow> sha_absorb h bytes = fold sha_put bytes h"
proof (induction h bytes rule: sha_absorb.induct)
  case (1 h bytes)
  show ?case
  proof (cases "bytes = []")
    case True
    then show ?thesis by (simp add: sha_absorb.simps)
  next
    case False
    let ?n = "min (length bytes) (64 - length (sh_buffer h))"
    let ?filled = "sh_buffer h @ take ?n bytes"
    let ?h = "if length ?filled = 64
       then h\<lparr>sh_state := compress (sh_state h) ?filled, sh_buffer := []\<rparr>
       else h\<lparr>sh_buffer := ?filled\<rparr>"
    have below: "\<not> 64 \<le> length (sh_buffer h)" using "1.prems" by (simp add: buffer_below_def)
    have len: "length (take ?n bytes) = ?n" by simp
    have h': "?h = fold sha_put (take ?n bytes) h"
    proof (cases "length ?filled = 64")
      case True
      from False below have "take ?n bytes \<noteq> []" by (auto simp: min_def)
      with True show ?thesis by (subst fold_put_full) auto
    next
      case no: False
      then have "length (sh_buffer h) + length (take ?n bytes) < 64" using below by auto
      with no show ?thesis by (subst fold_put_short) auto
    qed
    have below': "buffer_below ?h" unfolding h' by (rule buffer_below_fold_put) (rule "1.prems")
    have "sha_absorb h bytes = sha_absorb ?h (drop ?n bytes)"
      using False below by (subst sha_absorb.simps) (simp add: Let_def)
    also have "\<dots> = fold sha_put (drop ?n bytes) ?h"
      by (rule "1.IH" [OF _ refl refl refl refl below']) (use False below in simp)
    also have "\<dots> = fold sha_put (take ?n bytes @ drop ?n bytes) h"
      by (simp only: h' fold_append comp_apply)
    also have "\<dots> = fold sha_put bytes h" by simp
    finally show ?thesis .
  qed
qed

lemma fold_put_bit_length: "sh_bit_length (fold sha_put bytes h) = sh_bit_length h"
  by (induction bytes arbitrary: h) (auto simp: sha_put_def Let_def)

lemma fold_put_set_bits:
  "fold sha_put bytes (h\<lparr>sh_bit_length := n\<rparr>) = (fold sha_put bytes h)\<lparr>sh_bit_length := n\<rparr>"
proof (induction bytes arbitrary: h)
  case Nil
  then show ?case by simp
next
  case (Cons b bytes)
  have "sha_put b (h\<lparr>sh_bit_length := n\<rparr>) = (sha_put b h)\<lparr>sh_bit_length := n\<rparr>"
    by (simp add: sha_put_def Let_def)
  then show ?case by (simp add: Cons.IH)
qed

lemma sha_update_fold:
  "buffer_below h \<Longrightarrow> sha_update h bytes =
     (fold sha_put bytes h)\<lparr>sh_bit_length := sh_bit_length h + of_nat (length bytes) * 8\<rparr>"
  unfolding sha_update_def
  by (subst sha_absorb_fold) (simp_all add: buffer_below_def fold_put_set_bits)

lemma buffer_below_update: "buffer_below h \<Longrightarrow> buffer_below (sha_update h bytes)"
  using buffer_below_fold_put [of h bytes] by (simp add: sha_update_fold buffer_below_def)

lemma sha_update_append:
  "buffer_below h \<Longrightarrow> sha_update (sha_update h xs) ys = sha_update h (xs @ ys)"
  by (subst sha_update_fold, erule buffer_below_update)
    (simp add: sha_update_fold fold_put_set_bits algebra_simps)

text \<open>The padding loop \<open>while (buffer_length_ != 56)\<close> appends zero bytes.\<close>

lemma length_buffer_put:
  "length (sh_buffer (sha_put b h)) =
     (if length (sh_buffer h) = 63 then 0 else length (sh_buffer h) + 1)"
  by (simp add: sha_put_def Let_def)

function sha_pad_zeros :: "Sha256 \<Rightarrow> Sha256" where
  "sha_pad_zeros h =
     (if length (sh_buffer h) = 56 \<or> 64 \<le> length (sh_buffer h) then h
      else sha_pad_zeros (sha_update h [0]))"
  by pat_completeness auto
termination
  by (relation "measure (\<lambda>h. if length (sh_buffer h) \<le> 56 then 56 - length (sh_buffer h)
        else 120 - length (sh_buffer h))")
    (auto simp: sha_update_fold buffer_below_def length_buffer_put)

declare sha_pad_zeros.simps [simp del]

definition length_bytes :: "u64 \<Rightarrow> u8 list" where
  "length_bytes total_bits = map (\<lambda>i. ucast (drop_bit ((7 - i) * 8) total_bits AND 0xff)) [0..<8]"

definition sha_digest :: "sha_vars \<Rightarrow> Digest" where
  "sha_digest st =
     (case st of (a, b, c, d, e, f, g, h) \<Rightarrow> concat (map store_be32 [a, b, c, d, e, f, g, h]))"

definition sha_finish :: "Sha256 \<Rightarrow> Digest" where
  "sha_finish h =
     (let total_bits = sh_bit_length h;
          padded = sha_pad_zeros (sha_update h [0x80]);
          final = sha_update padded (length_bytes total_bits)
      in sha_digest (sh_state final))"

definition sha256 :: "u8 list \<Rightarrow> Digest" where
  "sha256 bytes = sha_finish (sha_update sha_init bytes)"

definition string_bytes :: "string \<Rightarrow> u8 list" where
  "string_bytes s = map (\<lambda>c. of_nat (of_char c)) s"

subsubsection \<open>Against the block-wise definition\<close>

function blocks :: "u8 list \<Rightarrow> u8 list list" where
  "blocks m = (if length m < 64 then [] else take 64 m # blocks (drop 64 m))"
  by pat_completeness auto
termination
  by (relation "measure length") auto

declare blocks.simps [simp del]

definition pad_count :: "nat \<Rightarrow> nat" where
  "pad_count len = (if len mod 64 < 56 then 55 - len mod 64 else 119 - len mod 64)"

definition sha256_pad :: "u8 list \<Rightarrow> u8 list" where
  "sha256_pad m =
     m @ 0x80 # replicate (pad_count (length m)) 0 @ length_bytes (of_nat (length m) * 8)"

definition sha256_spec :: "u8 list \<Rightarrow> Digest" where
  "sha256_spec m = sha_digest (foldl compress sha_initial (blocks (sha256_pad m)))"

lemma fold_put_blocks:
  "sh_buffer h = [] \<Longrightarrow>
     sh_state (fold sha_put m h) = foldl compress (sh_state h) (blocks m) \<and>
     length (sh_buffer (fold sha_put m h)) = length m mod 64"
proof (induction m arbitrary: h rule: blocks.induct)
  case (1 m)
  show ?case
  proof (cases "length m < 64")
    case True
    with "1.prems" show ?thesis by (simp add: fold_put_short blocks.simps [of m])
  next
    case False
    let ?h = "h\<lparr>sh_state := compress (sh_state h) (take 64 m), sh_buffer := []\<rparr>"
    have full: "length (sh_buffer h) + length (take 64 m) = 64" "take 64 m \<noteq> []"
      using False "1.prems" by auto
    have "fold sha_put m h = fold sha_put (drop 64 m) (fold sha_put (take 64 m) h)"
      by (metis append_take_drop_id comp_apply fold_append)
    also have "fold sha_put (take 64 m) h = ?h"
      using fold_put_full [OF full] "1.prems" by simp
    finally have eq: "fold sha_put m h = fold sha_put (drop 64 m) ?h" .
    have mod: "(length m - 64) mod 64 = length m mod 64"
      using False by (simp add: le_mod_geq [symmetric])
    from False "1.IH" [of ?h] show ?thesis
      by (simp add: eq blocks.simps [of m] mod)
  qed
qed

lemma sha_pad_zeros_fold:
  "buffer_below h \<Longrightarrow> \<exists>n. sha_pad_zeros h =
     (fold sha_put (replicate (if length (sh_buffer h) \<le> 56 then 56 - length (sh_buffer h)
        else 120 - length (sh_buffer h)) 0) h)\<lparr>sh_bit_length := n\<rparr>"
proof (induction h rule: sha_pad_zeros.induct)
  case (1 h)
  let ?L = "length (sh_buffer h)"
  let ?k = "\<lambda>l::nat. if l \<le> 56 then 56 - l else 120 - l"
  show ?case
  proof (cases "?L = 56")
    case True
    then have "sha_pad_zeros h = h\<lparr>sh_bit_length := sh_bit_length h\<rparr>"
      by (simp add: sha_pad_zeros.simps [of h])
    with True show ?thesis by (intro exI [of _ "sh_bit_length h"]) simp
  next
    case False
    with "1.prems" have cont: "\<not> (?L = 56 \<or> 64 \<le> ?L)" by (auto simp: buffer_below_def)
    let ?h = "sha_update h [0]"
    have upd: "?h = (sha_put 0 h)\<lparr>sh_bit_length := sh_bit_length h + 8\<rparr>"
      using "1.prems" by (simp add: sha_update_fold)
    have len: "length (sh_buffer ?h) = (if ?L = 63 then 0 else ?L + 1)"
      by (simp add: upd length_buffer_put)
    from cont len have k: "?k ?L = Suc (?k (length (sh_buffer ?h)))" by auto
    from "1.IH" [OF cont buffer_below_update [OF "1.prems"]] obtain n where
      "sha_pad_zeros ?h = (fold sha_put (replicate (?k (length (sh_buffer ?h))) 0) ?h)\<lparr>sh_bit_length := n\<rparr>"
      by blast
    also have "\<dots> = (fold sha_put (replicate (?k ?L) 0) h)\<lparr>sh_bit_length := n\<rparr>"
      by (simp only: k replicate_Suc fold_Cons comp_apply upd fold_put_set_bits) simp
    finally show ?thesis using cont by (metis sha_pad_zeros.simps)
  qed
qed

lemma sha_finish_fold:
  assumes "buffer_below h"
  shows "sha_finish h = sha_digest (sh_state (fold sha_put
    (0x80 # replicate (pad_count (length (sh_buffer h))) 0 @ length_bytes (sh_bit_length h)) h))"
proof -
  let ?h = "sha_update h [0x80]"
  let ?L = "length (sh_buffer h)"
  have L: "?L < 64" using assms by (simp add: buffer_below_def)
  have below: "buffer_below ?h" using assms by (rule buffer_below_update)
  have upd: "?h = (sha_put 0x80 h)\<lparr>sh_bit_length := sh_bit_length h + 8\<rparr>"
    using assms by (simp add: sha_update_fold)
  have "length (sh_buffer ?h) = (if ?L = 63 then 0 else ?L + 1)"
    by (simp add: upd length_buffer_put)
  then have k: "(if length (sh_buffer ?h) \<le> 56 then 56 - length (sh_buffer ?h)
      else 120 - length (sh_buffer ?h)) = pad_count ?L"
    using L by (auto simp: pad_count_def)
  from sha_pad_zeros_fold [OF below, unfolded k] obtain n where
    n: "sha_pad_zeros ?h = (fold sha_put (replicate (pad_count ?L) 0) ?h)\<lparr>sh_bit_length := n\<rparr>"
    by blast
  have below': "buffer_below (sha_pad_zeros ?h)"
    using buffer_below_fold_put [OF below] by (simp add: n buffer_below_def del: fold_replicate)
  let ?lb = "length_bytes (sh_bit_length h)"
  let ?zs = "replicate (pad_count ?L) (0 :: u8)"
  have "sh_state (sha_update (sha_pad_zeros ?h) ?lb) = sh_state (fold sha_put ?lb (sha_pad_zeros ?h))"
    by (simp add: sha_update_fold [OF below'])
  also have "\<dots> = sh_state (fold sha_put ?lb (fold sha_put ?zs ?h))"
    unfolding n fold_put_set_bits by (simp del: fold_replicate)
  also have "\<dots> = sh_state (fold sha_put ?lb (fold sha_put ?zs (sha_put 0x80 h)))"
    unfolding upd fold_put_set_bits by (simp del: fold_replicate)
  also have "\<dots> = sh_state (fold sha_put (0x80 # ?zs @ ?lb) h)"
    by (simp only: fold_Cons fold_append comp_apply)
  finally show ?thesis by (simp only: sha_finish_def Let_def)
qed

text \<open>C28: the incremental SHA-256 of \<open>digest.cpp\<close> (a 64-byte staging buffer fed by
  \<open>update\<close>, padded and finished by \<open>finish\<close>) computes the hash defined block by block
  on the padded message, for every input.\<close>

theorem sha256_eq_spec: "sha256 m = sha256_spec m"
proof -
  let ?h = "sha_update sha_init m"
  have init: "buffer_below sha_init" "sh_buffer sha_init = []"
    by (simp_all add: buffer_below_def sha_init_def)
  have upd: "?h = (fold sha_put m sha_init)\<lparr>sh_bit_length := of_nat (length m) * 8\<rparr>"
    using init by (simp add: sha_update_fold) (simp add: sha_init_def)
  have pads: "pad_count (length (sh_buffer ?h)) = pad_count (length m)"
    using fold_put_blocks [OF init(2), of m] by (simp add: upd pad_count_def)
  have bits: "sh_bit_length ?h = of_nat (length m) * 8" by (simp add: upd)
  have more: "sh_state (fold sha_put xs ?h) = sh_state (fold sha_put (m @ xs) sha_init)" for xs
    unfolding upd fold_put_set_bits by simp
  have "sha256 m = sha_digest (sh_state (fold sha_put (sha256_pad m) sha_init))"
    unfolding sha256_def sha_finish_fold [OF buffer_below_update [OF init(1)]] pads bits more
    by (simp only: sha256_pad_def)
  also have "\<dots> = sha256_spec m"
    using fold_put_blocks [OF init(2), of "sha256_pad m"]
    by (simp add: sha256_spec_def) (simp add: sha_init_def)
  finally show ?thesis .
qed

lemma length_sha256 [simp]: "length (sha256 m) = 32"
  by (simp add: sha256_def sha_finish_def Let_def sha_digest_def store_be32_def split: prod.split)

subsection \<open>CRC-32C\<close>

definition crc_poly :: u32 where "crc_poly = 0x82F63B78"

definition crc_bit :: "u32 \<Rightarrow> u32" where
  "crc_bit crc = (if crc AND 1 \<noteq> 0 then drop_bit 1 crc XOR crc_poly else drop_bit 1 crc)"

definition crc32c_table :: "u32 list" where
  "crc32c_table = map (\<lambda>i. (crc_bit ^^ 8) (of_nat i)) [0..<256]"

definition crc_step :: "u32 \<Rightarrow> u8 \<Rightarrow> u32" where
  "crc_step crc item =
     (let index = (ucast (crc XOR ucast item) :: u8)
      in drop_bit 8 crc XOR crc32c_table ! unat index)"

definition crc32c :: "u8 list \<Rightarrow> u32" where
  "crc32c bytes = foldl crc_step 0xFFFFFFFF bytes XOR 0xFFFFFFFF"

text \<open>The shift register without a table, one bit at a time.\<close>

definition crc_step_bits :: "u32 \<Rightarrow> u8 \<Rightarrow> u32" where
  "crc_step_bits crc item = (crc_bit ^^ 8) (crc XOR ucast item)"

definition crc32c_bitwise :: "u8 list \<Rightarrow> u32" where
  "crc32c_bitwise bytes = foldl crc_step_bits 0xFFFFFFFF bytes XOR 0xFFFFFFFF"

lemma xor_right_cancel: "a XOR c = b XOR c \<Longrightarrow> a = (b :: 'a::len word)"
proof -
  assume eq: "a XOR c = b XOR c"
  have "a = (a XOR c) XOR c" by (simp add: xor.assoc)
  also have "\<dots> = (b XOR c) XOR c" by (simp only: eq)
  also have "\<dots> = b" by (simp add: xor.assoc)
  finally show ?thesis .
qed

lemma xor_left_cancel: "c XOR a = c XOR b \<Longrightarrow> a = (b :: 'a::len word)"
  by (rule xor_right_cancel [of _ c]) (simp add: xor.commute)

lemma and_one_bit: "(x AND 1 \<noteq> 0) = bit (x :: u32) 0"
  by (simp add: and_one_eq bit_0 mod_2_eq_odd)

lemma crc_bit_xor: "crc_bit (x XOR y) = crc_bit x XOR crc_bit y"
  unfolding crc_bit_def and_one_bit
  by (rule bit_word_eqI) (auto simp: bit_simps)

lemma crc_bits_xor: "(crc_bit ^^ n) (x XOR y) = (crc_bit ^^ n) x XOR (crc_bit ^^ n) y"
  by (induction n) (simp_all add: crc_bit_xor)

lemma crc_bit_inj: "crc_bit x = crc_bit y \<Longrightarrow> x = y"
proof -
  assume eq: "crc_bit x = crc_bit y"
  have top: "bit (crc_bit z) 31 = bit z 0" for z
    by (auto simp: crc_bit_def and_one_bit crc_poly_def bit_simps dest: bit_imp_le_length)
  then have low: "bit x 0 = bit y 0" using eq by metis
  then have "drop_bit 1 x = drop_bit 1 y"
    using eq by (auto simp: crc_bit_def and_one_bit dest: xor_right_cancel split: if_splits)
  then have "bit x (Suc n) = bit y (Suc n)" for n
    by (metis bit_drop_bit_eq comp_apply plus_1_eq_Suc)
  with low show "x = y" by (intro bit_word_eqI) (metis not0_implies_Suc)
qed

lemma crc_bits_inj: "(crc_bit ^^ n) x = (crc_bit ^^ n) y \<Longrightarrow> x = y"
  by (induction n) (auto dest: crc_bit_inj)

lemma crc_bits_shift: "k \<le> n \<Longrightarrow> (crc_bit ^^ k) (push_bit n z) = drop_bit k (push_bit n z)"
proof (induction k)
  case 0
  then show ?case by simp
next
  case (Suc k)
  then have "\<not> bit (drop_bit k (push_bit n z)) 0" by (simp add: bit_simps)
  with Suc show ?case by (simp add: crc_bit_def and_one_bit del: bit_0)
qed

lemma crc_bits_high: "(crc_bit ^^ 8) (push_bit 8 (drop_bit 8 x)) = drop_bit 8 x"
proof (subst crc_bits_shift)
  have "n < 24" if "bit x (8 + n)" for n using bit_imp_le_length [OF that] by simp
  then show "drop_bit 8 (push_bit 8 (drop_bit 8 x)) = drop_bit 8 x"
    by (intro bit_word_eqI) (auto simp: bit_simps)
qed simp

lemma split_low_byte: "x = ucast (ucast x :: u8) XOR push_bit 8 (drop_bit 8 (x :: u32))"
  by (rule bit_word_eqI) (auto simp: bit_simps)

lemma crc_step_eq_bits: "crc_step crc item = crc_step_bits crc item"
proof -
  let ?x = "crc XOR ucast item"
  let ?i = "ucast ?x :: u8"
  have "unat ?i < 256" using unat_lt_2p [of ?i] by simp
  then have "crc32c_table ! unat ?i = (crc_bit ^^ 8) (ucast ?i)"
    by (simp add: crc32c_table_def unsigned_of_nat)
  moreover have "drop_bit 8 ?x = drop_bit 8 crc"
    by (rule bit_word_eqI) (auto simp: bit_simps dest: bit_imp_le_length)
  moreover have "(crc_bit ^^ 8) ?x = (crc_bit ^^ 8) (ucast ?i) XOR drop_bit 8 ?x"
    by (subst split_low_byte [of ?x]) (simp only: crc_bits_xor crc_bits_high)
  ultimately show ?thesis
    by (simp add: crc_step_def crc_step_bits_def Let_def xor.commute)
qed

lemma crc32c_eq_bitwise: "crc32c bytes = crc32c_bitwise bytes"
  by (simp add: crc32c_def crc32c_bitwise_def crc_step_eq_bits [abs_def])

lemma crc_step_inj_crc: "crc_step c b = crc_step c' b \<Longrightarrow> c = c'"
  unfolding crc_step_eq_bits crc_step_bits_def by (drule crc_bits_inj) (rule xor_right_cancel)

lemma crc_step_inj_byte: "crc_step c b = crc_step c b' \<Longrightarrow> b = b'"
proof -
  assume "crc_step c b = crc_step c b'"
  then have "c XOR ucast b = c XOR ucast b'"
    by (auto simp: crc_step_eq_bits crc_step_bits_def dest: crc_bits_inj)
  then have "(ucast b :: u32) = ucast b'"
    by (rule xor_left_cancel)
  then have bits: "bit (ucast b :: u32) n = bit (ucast b' :: u32) n" for n by simp
  show ?thesis
  proof (rule bit_word_eqI)
    fix n assume "n < LENGTH(8)"
    then show "bit b n = bit b' n" using bits [of n] by (simp add: bit_simps)
  qed
qed

lemma foldl_crc_inj: "foldl crc_step c xs = foldl crc_step c' xs \<Longrightarrow> c = c'"
  by (induction xs arbitrary: c c') (auto dest: crc_step_inj_crc)

text \<open>The checksum detects every change of a single byte, wherever it is.\<close>

lemma crc32c_byte_change:
  assumes "b \<noteq> b'"
  shows "crc32c (xs @ b # ys) \<noteq> crc32c (xs @ b' # ys)"
proof
  assume "crc32c (xs @ b # ys) = crc32c (xs @ b' # ys)"
  then have "foldl crc_step 0xFFFFFFFF (xs @ b # ys) = foldl crc_step 0xFFFFFFFF (xs @ b' # ys)"
    unfolding crc32c_def by (rule xor_right_cancel)
  then have "foldl crc_step (crc_step (foldl crc_step 0xFFFFFFFF xs) b) ys =
      foldl crc_step (crc_step (foldl crc_step 0xFFFFFFFF xs) b') ys" by simp
  then have "crc_step (foldl crc_step 0xFFFFFFFF xs) b = crc_step (foldl crc_step 0xFFFFFFFF xs) b'"
    by (rule foldl_crc_inj)
  then show False using assms crc_step_inj_byte by blast
qed

end
