(* ===== verification/Nof_Enums.thy ===== *)
theory Nof_Enums
  imports Nof_Digest
begin

text \<open>
  The closed enumerations of the program with their stable numeric values, their canonical
  tokens (\<open>to_string\<close>) and the token parsers (\<open>parse_*\<close>). A raw integer becomes an
  enumerator through \<open>*_of_value\<close>, the check the decoders make by rendering the cast value.
  The locale \<open>token_enum\<close> is the contract between a rendering and its parser; every
  enumeration with a parser interprets it.
\<close>

locale token_enum =
  fixes to_string :: "'e \<Rightarrow> string"
    and parse :: "string \<Rightarrow> 'e option"
  assumes parse_to_string: "parse (to_string e) = Some e"
    and to_string_parse: "parse t = Some e \<Longrightarrow> to_string e = t"
begin

lemma parse_iff: "parse t = Some e \<longleftrightarrow> t = to_string e"
  using parse_to_string to_string_parse by blast

lemma to_string_inject: "to_string a = to_string b \<longleftrightarrow> a = b"
  by (metis option.inject parse_to_string)

lemma parse_rejects: "parse t = None \<longleftrightarrow> (\<forall>e. t \<noteq> to_string e)"
  by (metis not_None_eq parse_iff)

end

subsection \<open>FunctionClass\<close>

datatype FunctionClass =
    FC_RouteLookup
  | FC_AccessControl
  | FC_ConnectionTracking
  | FC_Encapsulation
  | FC_LoadBalancing
  | FC_CryptoOffload
  | FC_RateLimiting
  | FC_Timestamping
  | FC_PacketCapture
  | FC_QueueSteering
  | FC_MemoryRegistration
  | FC_ChecksumOffload
  | FC_TrafficMetering
  | FC_PacketFiltering
  | FC_HeaderRewrite
  | FC_ReplicationMirroring

definition all_FunctionClass :: "FunctionClass list" where
  "all_FunctionClass = [FC_RouteLookup, FC_AccessControl, FC_ConnectionTracking, FC_Encapsulation, FC_LoadBalancing, FC_CryptoOffload, FC_RateLimiting, FC_Timestamping, FC_PacketCapture, FC_QueueSteering, FC_MemoryRegistration, FC_ChecksumOffload, FC_TrafficMetering, FC_PacketFiltering, FC_HeaderRewrite, FC_ReplicationMirroring]"

primrec FunctionClass_value :: "FunctionClass \<Rightarrow> u16" where
    "FunctionClass_value FC_RouteLookup = 1"
  | "FunctionClass_value FC_AccessControl = 2"
  | "FunctionClass_value FC_ConnectionTracking = 3"
  | "FunctionClass_value FC_Encapsulation = 4"
  | "FunctionClass_value FC_LoadBalancing = 5"
  | "FunctionClass_value FC_CryptoOffload = 6"
  | "FunctionClass_value FC_RateLimiting = 7"
  | "FunctionClass_value FC_Timestamping = 8"
  | "FunctionClass_value FC_PacketCapture = 9"
  | "FunctionClass_value FC_QueueSteering = 10"
  | "FunctionClass_value FC_MemoryRegistration = 11"
  | "FunctionClass_value FC_ChecksumOffload = 12"
  | "FunctionClass_value FC_TrafficMetering = 13"
  | "FunctionClass_value FC_PacketFiltering = 14"
  | "FunctionClass_value FC_HeaderRewrite = 15"
  | "FunctionClass_value FC_ReplicationMirroring = 16"

definition FunctionClass_of_value :: "u16 \<Rightarrow> FunctionClass option" where
  "FunctionClass_of_value v = List.find (\<lambda>e. FunctionClass_value e = v) all_FunctionClass"

primrec FunctionClass_to_string :: "FunctionClass \<Rightarrow> string" where
    "FunctionClass_to_string FC_RouteLookup = ''route_lookup''"
  | "FunctionClass_to_string FC_AccessControl = ''access_control''"
  | "FunctionClass_to_string FC_ConnectionTracking = ''connection_tracking''"
  | "FunctionClass_to_string FC_Encapsulation = ''encapsulation''"
  | "FunctionClass_to_string FC_LoadBalancing = ''load_balancing''"
  | "FunctionClass_to_string FC_CryptoOffload = ''crypto_offload''"
  | "FunctionClass_to_string FC_RateLimiting = ''rate_limiting''"
  | "FunctionClass_to_string FC_Timestamping = ''timestamping''"
  | "FunctionClass_to_string FC_PacketCapture = ''packet_capture''"
  | "FunctionClass_to_string FC_QueueSteering = ''queue_steering''"
  | "FunctionClass_to_string FC_MemoryRegistration = ''memory_registration''"
  | "FunctionClass_to_string FC_ChecksumOffload = ''checksum_offload''"
  | "FunctionClass_to_string FC_TrafficMetering = ''traffic_metering''"
  | "FunctionClass_to_string FC_PacketFiltering = ''packet_filtering''"
  | "FunctionClass_to_string FC_HeaderRewrite = ''header_rewrite''"
  | "FunctionClass_to_string FC_ReplicationMirroring = ''replication_mirroring''"

lemma FunctionClass_of_value_value [simp]: "FunctionClass_of_value (FunctionClass_value e) = Some e"
  by (cases e) (simp_all add: FunctionClass_of_value_def all_FunctionClass_def)

lemma FunctionClass_value_inject [simp]: "FunctionClass_value a = FunctionClass_value b \<longleftrightarrow> a = b"
  by (metis FunctionClass_of_value_value option.inject)

definition parse_function_class :: "string \<Rightarrow> FunctionClass option" where
  "parse_function_class token =
     (if token = ''route_lookup'' then Some FC_RouteLookup
      else if token = ''access_control'' then Some FC_AccessControl
      else if token = ''connection_tracking'' then Some FC_ConnectionTracking
      else if token = ''encapsulation'' then Some FC_Encapsulation
      else if token = ''load_balancing'' then Some FC_LoadBalancing
      else if token = ''crypto_offload'' then Some FC_CryptoOffload
      else if token = ''rate_limiting'' then Some FC_RateLimiting
      else if token = ''timestamping'' then Some FC_Timestamping
      else if token = ''packet_capture'' then Some FC_PacketCapture
      else if token = ''queue_steering'' then Some FC_QueueSteering
      else if token = ''memory_registration'' then Some FC_MemoryRegistration
      else if token = ''checksum_offload'' then Some FC_ChecksumOffload
      else if token = ''traffic_metering'' then Some FC_TrafficMetering
      else if token = ''packet_filtering'' then Some FC_PacketFiltering
      else if token = ''header_rewrite'' then Some FC_HeaderRewrite
      else if token = ''replication_mirroring'' then Some FC_ReplicationMirroring
      else None)"

interpretation function_class_tokens: token_enum FunctionClass_to_string parse_function_class
proof
  fix e :: FunctionClass and t
  show "parse_function_class (FunctionClass_to_string e) = Some e"
    by (cases e) (simp_all add: parse_function_class_def)
  show "parse_function_class t = Some e \<Longrightarrow> FunctionClass_to_string e = t"
    by (auto simp: parse_function_class_def split: if_splits)
qed

instantiation FunctionClass :: linorder
begin

definition less_eq_FunctionClass :: "FunctionClass \<Rightarrow> FunctionClass \<Rightarrow> bool" where
  "a \<le> b \<longleftrightarrow> FunctionClass_value a \<le> FunctionClass_value b"

definition less_FunctionClass :: "FunctionClass \<Rightarrow> FunctionClass \<Rightarrow> bool" where
  "a < b \<longleftrightarrow> FunctionClass_value a < FunctionClass_value b"

instance
  by standard (auto simp: less_eq_FunctionClass_def less_FunctionClass_def less_le)

end

subsection \<open>Semantic\<close>

datatype Semantic =
    SM_LineRateDeterministic
  | SM_ProgrammablePipeline
  | SM_StatefulFlowTable
  | SM_PerFlowCounters
  | SM_HardwareTimestamps
  | SM_InlineCrypto
  | SM_RdmaCapable
  | SM_KernelBypass
  | SM_HeaderRewriteCapable
  | SM_MulticastReplication
  | SM_OrderingPreserving
  | SM_JumboFrames
  | SM_VlanAware
  | SM_TunnelEncapsulation
  | SM_TrafficShaping
  | SM_FailOpen
  | SM_PersistentAcrossReboot
  | SM_AtomicFlowUpdate
  | SM_FlowAgingOffload
  | SM_QueuePartitioning
  | SM_MemoryRegistrationCache
  | SM_ChecksumOffloadCapable
  | SM_LargeRuleCapacity
  | SM_SramTableLookup
  | SM_PerQueueRateLimit
  | SM_SampledMirroring

definition all_Semantic :: "Semantic list" where
  "all_Semantic = [SM_LineRateDeterministic, SM_ProgrammablePipeline, SM_StatefulFlowTable, SM_PerFlowCounters, SM_HardwareTimestamps, SM_InlineCrypto, SM_RdmaCapable, SM_KernelBypass, SM_HeaderRewriteCapable, SM_MulticastReplication, SM_OrderingPreserving, SM_JumboFrames, SM_VlanAware, SM_TunnelEncapsulation, SM_TrafficShaping, SM_FailOpen, SM_PersistentAcrossReboot, SM_AtomicFlowUpdate, SM_FlowAgingOffload, SM_QueuePartitioning, SM_MemoryRegistrationCache, SM_ChecksumOffloadCapable, SM_LargeRuleCapacity, SM_SramTableLookup, SM_PerQueueRateLimit, SM_SampledMirroring]"

primrec Semantic_value :: "Semantic \<Rightarrow> u8" where
    "Semantic_value SM_LineRateDeterministic = 0"
  | "Semantic_value SM_ProgrammablePipeline = 1"
  | "Semantic_value SM_StatefulFlowTable = 2"
  | "Semantic_value SM_PerFlowCounters = 3"
  | "Semantic_value SM_HardwareTimestamps = 4"
  | "Semantic_value SM_InlineCrypto = 5"
  | "Semantic_value SM_RdmaCapable = 6"
  | "Semantic_value SM_KernelBypass = 7"
  | "Semantic_value SM_HeaderRewriteCapable = 8"
  | "Semantic_value SM_MulticastReplication = 9"
  | "Semantic_value SM_OrderingPreserving = 10"
  | "Semantic_value SM_JumboFrames = 11"
  | "Semantic_value SM_VlanAware = 12"
  | "Semantic_value SM_TunnelEncapsulation = 13"
  | "Semantic_value SM_TrafficShaping = 14"
  | "Semantic_value SM_FailOpen = 15"
  | "Semantic_value SM_PersistentAcrossReboot = 16"
  | "Semantic_value SM_AtomicFlowUpdate = 17"
  | "Semantic_value SM_FlowAgingOffload = 18"
  | "Semantic_value SM_QueuePartitioning = 19"
  | "Semantic_value SM_MemoryRegistrationCache = 20"
  | "Semantic_value SM_ChecksumOffloadCapable = 21"
  | "Semantic_value SM_LargeRuleCapacity = 22"
  | "Semantic_value SM_SramTableLookup = 23"
  | "Semantic_value SM_PerQueueRateLimit = 24"
  | "Semantic_value SM_SampledMirroring = 25"

definition Semantic_of_value :: "u8 \<Rightarrow> Semantic option" where
  "Semantic_of_value v = List.find (\<lambda>e. Semantic_value e = v) all_Semantic"

primrec Semantic_to_string :: "Semantic \<Rightarrow> string" where
    "Semantic_to_string SM_LineRateDeterministic = ''line_rate_deterministic''"
  | "Semantic_to_string SM_ProgrammablePipeline = ''programmable_pipeline''"
  | "Semantic_to_string SM_StatefulFlowTable = ''stateful_flow_table''"
  | "Semantic_to_string SM_PerFlowCounters = ''per_flow_counters''"
  | "Semantic_to_string SM_HardwareTimestamps = ''hardware_timestamps''"
  | "Semantic_to_string SM_InlineCrypto = ''inline_crypto''"
  | "Semantic_to_string SM_RdmaCapable = ''rdma_capable''"
  | "Semantic_to_string SM_KernelBypass = ''kernel_bypass''"
  | "Semantic_to_string SM_HeaderRewriteCapable = ''header_rewrite_capable''"
  | "Semantic_to_string SM_MulticastReplication = ''multicast_replication''"
  | "Semantic_to_string SM_OrderingPreserving = ''ordering_preserving''"
  | "Semantic_to_string SM_JumboFrames = ''jumbo_frames''"
  | "Semantic_to_string SM_VlanAware = ''vlan_aware''"
  | "Semantic_to_string SM_TunnelEncapsulation = ''tunnel_encapsulation''"
  | "Semantic_to_string SM_TrafficShaping = ''traffic_shaping''"
  | "Semantic_to_string SM_FailOpen = ''fail_open''"
  | "Semantic_to_string SM_PersistentAcrossReboot = ''persistent_across_reboot''"
  | "Semantic_to_string SM_AtomicFlowUpdate = ''atomic_flow_update''"
  | "Semantic_to_string SM_FlowAgingOffload = ''flow_aging_offload''"
  | "Semantic_to_string SM_QueuePartitioning = ''queue_partitioning''"
  | "Semantic_to_string SM_MemoryRegistrationCache = ''memory_registration_cache''"
  | "Semantic_to_string SM_ChecksumOffloadCapable = ''checksum_offload_capable''"
  | "Semantic_to_string SM_LargeRuleCapacity = ''large_rule_capacity''"
  | "Semantic_to_string SM_SramTableLookup = ''sram_table_lookup''"
  | "Semantic_to_string SM_PerQueueRateLimit = ''per_queue_rate_limit''"
  | "Semantic_to_string SM_SampledMirroring = ''sampled_mirroring''"

lemma Semantic_of_value_value [simp]: "Semantic_of_value (Semantic_value e) = Some e"
  by (cases e) (simp_all add: Semantic_of_value_def all_Semantic_def)

lemma Semantic_value_inject [simp]: "Semantic_value a = Semantic_value b \<longleftrightarrow> a = b"
  by (metis Semantic_of_value_value option.inject)

definition parse_semantic :: "string \<Rightarrow> Semantic option" where
  "parse_semantic token =
     (if token = ''line_rate_deterministic'' then Some SM_LineRateDeterministic
      else if token = ''programmable_pipeline'' then Some SM_ProgrammablePipeline
      else if token = ''stateful_flow_table'' then Some SM_StatefulFlowTable
      else if token = ''per_flow_counters'' then Some SM_PerFlowCounters
      else if token = ''hardware_timestamps'' then Some SM_HardwareTimestamps
      else if token = ''inline_crypto'' then Some SM_InlineCrypto
      else if token = ''rdma_capable'' then Some SM_RdmaCapable
      else if token = ''kernel_bypass'' then Some SM_KernelBypass
      else if token = ''header_rewrite_capable'' then Some SM_HeaderRewriteCapable
      else if token = ''multicast_replication'' then Some SM_MulticastReplication
      else if token = ''ordering_preserving'' then Some SM_OrderingPreserving
      else if token = ''jumbo_frames'' then Some SM_JumboFrames
      else if token = ''vlan_aware'' then Some SM_VlanAware
      else if token = ''tunnel_encapsulation'' then Some SM_TunnelEncapsulation
      else if token = ''traffic_shaping'' then Some SM_TrafficShaping
      else if token = ''fail_open'' then Some SM_FailOpen
      else if token = ''persistent_across_reboot'' then Some SM_PersistentAcrossReboot
      else if token = ''atomic_flow_update'' then Some SM_AtomicFlowUpdate
      else if token = ''flow_aging_offload'' then Some SM_FlowAgingOffload
      else if token = ''queue_partitioning'' then Some SM_QueuePartitioning
      else if token = ''memory_registration_cache'' then Some SM_MemoryRegistrationCache
      else if token = ''checksum_offload_capable'' then Some SM_ChecksumOffloadCapable
      else if token = ''large_rule_capacity'' then Some SM_LargeRuleCapacity
      else if token = ''sram_table_lookup'' then Some SM_SramTableLookup
      else if token = ''per_queue_rate_limit'' then Some SM_PerQueueRateLimit
      else if token = ''sampled_mirroring'' then Some SM_SampledMirroring
      else None)"

interpretation semantic_tokens: token_enum Semantic_to_string parse_semantic
proof
  fix e :: Semantic and t
  show "parse_semantic (Semantic_to_string e) = Some e"
    by (cases e) (simp_all add: parse_semantic_def)
  show "parse_semantic t = Some e \<Longrightarrow> Semantic_to_string e = t"
    by (auto simp: parse_semantic_def split: if_splits)
qed

subsection \<open>ScopeKind\<close>

datatype ScopeKind =
    SK_Flow
  | SK_Interface
  | SK_Host
  | SK_Queue
  | SK_Global

definition all_ScopeKind :: "ScopeKind list" where
  "all_ScopeKind = [SK_Flow, SK_Interface, SK_Host, SK_Queue, SK_Global]"

primrec ScopeKind_value :: "ScopeKind \<Rightarrow> u8" where
    "ScopeKind_value SK_Flow = 1"
  | "ScopeKind_value SK_Interface = 2"
  | "ScopeKind_value SK_Host = 3"
  | "ScopeKind_value SK_Queue = 4"
  | "ScopeKind_value SK_Global = 5"

definition ScopeKind_of_value :: "u8 \<Rightarrow> ScopeKind option" where
  "ScopeKind_of_value v = List.find (\<lambda>e. ScopeKind_value e = v) all_ScopeKind"

primrec ScopeKind_to_string :: "ScopeKind \<Rightarrow> string" where
    "ScopeKind_to_string SK_Flow = ''flow''"
  | "ScopeKind_to_string SK_Interface = ''interface''"
  | "ScopeKind_to_string SK_Host = ''host''"
  | "ScopeKind_to_string SK_Queue = ''queue''"
  | "ScopeKind_to_string SK_Global = ''global''"

lemma ScopeKind_of_value_value [simp]: "ScopeKind_of_value (ScopeKind_value e) = Some e"
  by (cases e) (simp_all add: ScopeKind_of_value_def all_ScopeKind_def)

lemma ScopeKind_value_inject [simp]: "ScopeKind_value a = ScopeKind_value b \<longleftrightarrow> a = b"
  by (metis ScopeKind_of_value_value option.inject)

definition parse_scope_kind :: "string \<Rightarrow> ScopeKind option" where
  "parse_scope_kind token =
     (if token = ''flow'' then Some SK_Flow
      else if token = ''interface'' then Some SK_Interface
      else if token = ''host'' then Some SK_Host
      else if token = ''queue'' then Some SK_Queue
      else if token = ''global'' then Some SK_Global
      else None)"

interpretation scope_kind_tokens: token_enum ScopeKind_to_string parse_scope_kind
proof
  fix e :: ScopeKind and t
  show "parse_scope_kind (ScopeKind_to_string e) = Some e"
    by (cases e) (simp_all add: parse_scope_kind_def)
  show "parse_scope_kind t = Some e \<Longrightarrow> ScopeKind_to_string e = t"
    by (auto simp: parse_scope_kind_def split: if_splits)
qed

subsection \<open>ExclusiveKeyMode\<close>

datatype ExclusiveKeyMode =
    EK_PerClass
  | EK_PerScope

definition all_ExclusiveKeyMode :: "ExclusiveKeyMode list" where
  "all_ExclusiveKeyMode = [EK_PerClass, EK_PerScope]"

primrec ExclusiveKeyMode_value :: "ExclusiveKeyMode \<Rightarrow> u8" where
    "ExclusiveKeyMode_value EK_PerClass = 1"
  | "ExclusiveKeyMode_value EK_PerScope = 2"

definition ExclusiveKeyMode_of_value :: "u8 \<Rightarrow> ExclusiveKeyMode option" where
  "ExclusiveKeyMode_of_value v = List.find (\<lambda>e. ExclusiveKeyMode_value e = v) all_ExclusiveKeyMode"

primrec ExclusiveKeyMode_to_string :: "ExclusiveKeyMode \<Rightarrow> string" where
    "ExclusiveKeyMode_to_string EK_PerClass = ''per_class''"
  | "ExclusiveKeyMode_to_string EK_PerScope = ''per_scope''"

lemma ExclusiveKeyMode_of_value_value [simp]: "ExclusiveKeyMode_of_value (ExclusiveKeyMode_value e) = Some e"
  by (cases e) (simp_all add: ExclusiveKeyMode_of_value_def all_ExclusiveKeyMode_def)

lemma ExclusiveKeyMode_value_inject [simp]: "ExclusiveKeyMode_value a = ExclusiveKeyMode_value b \<longleftrightarrow> a = b"
  by (metis ExclusiveKeyMode_of_value_value option.inject)

definition parse_exclusive_key_mode :: "string \<Rightarrow> ExclusiveKeyMode option" where
  "parse_exclusive_key_mode token =
     (if token = ''per_class'' then Some EK_PerClass
      else if token = ''per_scope'' then Some EK_PerScope
      else None)"

interpretation exclusive_key_mode_tokens: token_enum ExclusiveKeyMode_to_string parse_exclusive_key_mode
proof
  fix e :: ExclusiveKeyMode and t
  show "parse_exclusive_key_mode (ExclusiveKeyMode_to_string e) = Some e"
    by (cases e) (simp_all add: parse_exclusive_key_mode_def)
  show "parse_exclusive_key_mode t = Some e \<Longrightarrow> ExclusiveKeyMode_to_string e = t"
    by (auto simp: parse_exclusive_key_mode_def split: if_splits)
qed

subsection \<open>DeviceKind\<close>

datatype DeviceKind =
    DK_HostStack
  | DK_Nic
  | DK_SmartNic
  | DK_Dpu

definition all_DeviceKind :: "DeviceKind list" where
  "all_DeviceKind = [DK_HostStack, DK_Nic, DK_SmartNic, DK_Dpu]"

primrec DeviceKind_value :: "DeviceKind \<Rightarrow> u8" where
    "DeviceKind_value DK_HostStack = 1"
  | "DeviceKind_value DK_Nic = 2"
  | "DeviceKind_value DK_SmartNic = 3"
  | "DeviceKind_value DK_Dpu = 4"

definition DeviceKind_of_value :: "u8 \<Rightarrow> DeviceKind option" where
  "DeviceKind_of_value v = List.find (\<lambda>e. DeviceKind_value e = v) all_DeviceKind"

primrec DeviceKind_to_string :: "DeviceKind \<Rightarrow> string" where
    "DeviceKind_to_string DK_HostStack = ''host_stack''"
  | "DeviceKind_to_string DK_Nic = ''nic''"
  | "DeviceKind_to_string DK_SmartNic = ''smart_nic''"
  | "DeviceKind_to_string DK_Dpu = ''dpu''"

lemma DeviceKind_of_value_value [simp]: "DeviceKind_of_value (DeviceKind_value e) = Some e"
  by (cases e) (simp_all add: DeviceKind_of_value_def all_DeviceKind_def)

lemma DeviceKind_value_inject [simp]: "DeviceKind_value a = DeviceKind_value b \<longleftrightarrow> a = b"
  by (metis DeviceKind_of_value_value option.inject)

definition parse_device_kind :: "string \<Rightarrow> DeviceKind option" where
  "parse_device_kind token =
     (if token = ''host_stack'' then Some DK_HostStack
      else if token = ''nic'' then Some DK_Nic
      else if token = ''smart_nic'' then Some DK_SmartNic
      else if token = ''dpu'' then Some DK_Dpu
      else None)"

interpretation device_kind_tokens: token_enum DeviceKind_to_string parse_device_kind
proof
  fix e :: DeviceKind and t
  show "parse_device_kind (DeviceKind_to_string e) = Some e"
    by (cases e) (simp_all add: parse_device_kind_def)
  show "parse_device_kind t = Some e \<Longrightarrow> DeviceKind_to_string e = t"
    by (auto simp: parse_device_kind_def split: if_splits)
qed

instantiation DeviceKind :: linorder
begin

definition less_eq_DeviceKind :: "DeviceKind \<Rightarrow> DeviceKind \<Rightarrow> bool" where
  "a \<le> b \<longleftrightarrow> DeviceKind_value a \<le> DeviceKind_value b"

definition less_DeviceKind :: "DeviceKind \<Rightarrow> DeviceKind \<Rightarrow> bool" where
  "a < b \<longleftrightarrow> DeviceKind_value a < DeviceKind_value b"

instance
  by standard (auto simp: less_eq_DeviceKind_def less_DeviceKind_def less_le)

end

subsection \<open>LinkKind\<close>

datatype LinkKind =
    LK_PeerFabric
  | LK_HostAttach

definition all_LinkKind :: "LinkKind list" where
  "all_LinkKind = [LK_PeerFabric, LK_HostAttach]"

primrec LinkKind_value :: "LinkKind \<Rightarrow> u8" where
    "LinkKind_value LK_PeerFabric = 1"
  | "LinkKind_value LK_HostAttach = 2"

definition LinkKind_of_value :: "u8 \<Rightarrow> LinkKind option" where
  "LinkKind_of_value v = List.find (\<lambda>e. LinkKind_value e = v) all_LinkKind"

primrec LinkKind_to_string :: "LinkKind \<Rightarrow> string" where
    "LinkKind_to_string LK_PeerFabric = ''peer_fabric''"
  | "LinkKind_to_string LK_HostAttach = ''host_attach''"

lemma LinkKind_of_value_value [simp]: "LinkKind_of_value (LinkKind_value e) = Some e"
  by (cases e) (simp_all add: LinkKind_of_value_def all_LinkKind_def)

lemma LinkKind_value_inject [simp]: "LinkKind_value a = LinkKind_value b \<longleftrightarrow> a = b"
  by (metis LinkKind_of_value_value option.inject)

definition parse_link_kind :: "string \<Rightarrow> LinkKind option" where
  "parse_link_kind token =
     (if token = ''peer_fabric'' then Some LK_PeerFabric
      else if token = ''host_attach'' then Some LK_HostAttach
      else None)"

interpretation link_kind_tokens: token_enum LinkKind_to_string parse_link_kind
proof
  fix e :: LinkKind and t
  show "parse_link_kind (LinkKind_to_string e) = Some e"
    by (cases e) (simp_all add: parse_link_kind_def)
  show "parse_link_kind t = Some e \<Longrightarrow> LinkKind_to_string e = t"
    by (auto simp: parse_link_kind_def split: if_splits)
qed

instantiation LinkKind :: linorder
begin

definition less_eq_LinkKind :: "LinkKind \<Rightarrow> LinkKind \<Rightarrow> bool" where
  "a \<le> b \<longleftrightarrow> LinkKind_value a \<le> LinkKind_value b"

definition less_LinkKind :: "LinkKind \<Rightarrow> LinkKind \<Rightarrow> bool" where
  "a < b \<longleftrightarrow> LinkKind_value a < LinkKind_value b"

instance
  by standard (auto simp: less_eq_LinkKind_def less_LinkKind_def less_le)

end

subsection \<open>MatchVerdict\<close>

datatype MatchVerdict =
    MV_Eligible
  | MV_Unsupported
  | MV_Unknown
  | MV_Conflicting
  | MV_Stale
  | MV_Superseded
  | MV_VersionIncompatible
  | MV_IncarnationMismatch
  | MV_Revoked
  | MV_Missing

definition all_MatchVerdict :: "MatchVerdict list" where
  "all_MatchVerdict = [MV_Eligible, MV_Unsupported, MV_Unknown, MV_Conflicting, MV_Stale, MV_Superseded, MV_VersionIncompatible, MV_IncarnationMismatch, MV_Revoked, MV_Missing]"

primrec MatchVerdict_value :: "MatchVerdict \<Rightarrow> u8" where
    "MatchVerdict_value MV_Eligible = 1"
  | "MatchVerdict_value MV_Unsupported = 2"
  | "MatchVerdict_value MV_Unknown = 3"
  | "MatchVerdict_value MV_Conflicting = 4"
  | "MatchVerdict_value MV_Stale = 5"
  | "MatchVerdict_value MV_Superseded = 6"
  | "MatchVerdict_value MV_VersionIncompatible = 7"
  | "MatchVerdict_value MV_IncarnationMismatch = 8"
  | "MatchVerdict_value MV_Revoked = 9"
  | "MatchVerdict_value MV_Missing = 10"

definition MatchVerdict_of_value :: "u8 \<Rightarrow> MatchVerdict option" where
  "MatchVerdict_of_value v = List.find (\<lambda>e. MatchVerdict_value e = v) all_MatchVerdict"

primrec MatchVerdict_to_string :: "MatchVerdict \<Rightarrow> string" where
    "MatchVerdict_to_string MV_Eligible = ''eligible''"
  | "MatchVerdict_to_string MV_Unsupported = ''unsupported''"
  | "MatchVerdict_to_string MV_Unknown = ''unknown''"
  | "MatchVerdict_to_string MV_Conflicting = ''conflicting''"
  | "MatchVerdict_to_string MV_Stale = ''stale''"
  | "MatchVerdict_to_string MV_Superseded = ''superseded''"
  | "MatchVerdict_to_string MV_VersionIncompatible = ''version_incompatible''"
  | "MatchVerdict_to_string MV_IncarnationMismatch = ''incarnation_mismatch''"
  | "MatchVerdict_to_string MV_Revoked = ''revoked''"
  | "MatchVerdict_to_string MV_Missing = ''missing''"

lemma MatchVerdict_of_value_value [simp]: "MatchVerdict_of_value (MatchVerdict_value e) = Some e"
  by (cases e) (simp_all add: MatchVerdict_of_value_def all_MatchVerdict_def)

lemma MatchVerdict_value_inject [simp]: "MatchVerdict_value a = MatchVerdict_value b \<longleftrightarrow> a = b"
  by (metis MatchVerdict_of_value_value option.inject)

subsection \<open>AuthorityAction\<close>

datatype AuthorityAction =
    AA_Place
  | AA_Replace
  | AA_Revoke
  | AA_Reauthorize

definition all_AuthorityAction :: "AuthorityAction list" where
  "all_AuthorityAction = [AA_Place, AA_Replace, AA_Revoke, AA_Reauthorize]"

primrec AuthorityAction_value :: "AuthorityAction \<Rightarrow> u8" where
    "AuthorityAction_value AA_Place = 1"
  | "AuthorityAction_value AA_Replace = 2"
  | "AuthorityAction_value AA_Revoke = 3"
  | "AuthorityAction_value AA_Reauthorize = 4"

definition AuthorityAction_of_value :: "u8 \<Rightarrow> AuthorityAction option" where
  "AuthorityAction_of_value v = List.find (\<lambda>e. AuthorityAction_value e = v) all_AuthorityAction"

primrec AuthorityAction_to_string :: "AuthorityAction \<Rightarrow> string" where
    "AuthorityAction_to_string AA_Place = ''place''"
  | "AuthorityAction_to_string AA_Replace = ''replace''"
  | "AuthorityAction_to_string AA_Revoke = ''revoke''"
  | "AuthorityAction_to_string AA_Reauthorize = ''reauthorize''"

lemma AuthorityAction_of_value_value [simp]: "AuthorityAction_of_value (AuthorityAction_value e) = Some e"
  by (cases e) (simp_all add: AuthorityAction_of_value_def all_AuthorityAction_def)

lemma AuthorityAction_value_inject [simp]: "AuthorityAction_value a = AuthorityAction_value b \<longleftrightarrow> a = b"
  by (metis AuthorityAction_of_value_value option.inject)

definition parse_authority_action :: "string \<Rightarrow> AuthorityAction option" where
  "parse_authority_action token =
     (if token = ''place'' then Some AA_Place
      else if token = ''replace'' then Some AA_Replace
      else if token = ''revoke'' then Some AA_Revoke
      else if token = ''reauthorize'' then Some AA_Reauthorize
      else None)"

interpretation authority_action_tokens: token_enum AuthorityAction_to_string parse_authority_action
proof
  fix e :: AuthorityAction and t
  show "parse_authority_action (AuthorityAction_to_string e) = Some e"
    by (cases e) (simp_all add: parse_authority_action_def)
  show "parse_authority_action t = Some e \<Longrightarrow> AuthorityAction_to_string e = t"
    by (auto simp: parse_authority_action_def split: if_splits)
qed

instantiation AuthorityAction :: linorder
begin

definition less_eq_AuthorityAction :: "AuthorityAction \<Rightarrow> AuthorityAction \<Rightarrow> bool" where
  "a \<le> b \<longleftrightarrow> AuthorityAction_value a \<le> AuthorityAction_value b"

definition less_AuthorityAction :: "AuthorityAction \<Rightarrow> AuthorityAction \<Rightarrow> bool" where
  "a < b \<longleftrightarrow> AuthorityAction_value a < AuthorityAction_value b"

instance
  by standard (auto simp: less_eq_AuthorityAction_def less_AuthorityAction_def less_le)

end

subsection \<open>Liveness\<close>

datatype Liveness =
    LV_Unknown
  | LV_Alive
  | LV_Degraded
  | LV_Dead

definition all_Liveness :: "Liveness list" where
  "all_Liveness = [LV_Unknown, LV_Alive, LV_Degraded, LV_Dead]"

primrec Liveness_value :: "Liveness \<Rightarrow> u8" where
    "Liveness_value LV_Unknown = 0"
  | "Liveness_value LV_Alive = 1"
  | "Liveness_value LV_Degraded = 2"
  | "Liveness_value LV_Dead = 3"

definition Liveness_of_value :: "u8 \<Rightarrow> Liveness option" where
  "Liveness_of_value v = List.find (\<lambda>e. Liveness_value e = v) all_Liveness"

primrec Liveness_to_string :: "Liveness \<Rightarrow> string" where
    "Liveness_to_string LV_Unknown = ''unknown''"
  | "Liveness_to_string LV_Alive = ''alive''"
  | "Liveness_to_string LV_Degraded = ''degraded''"
  | "Liveness_to_string LV_Dead = ''dead''"

lemma Liveness_of_value_value [simp]: "Liveness_of_value (Liveness_value e) = Some e"
  by (cases e) (simp_all add: Liveness_of_value_def all_Liveness_def)

lemma Liveness_value_inject [simp]: "Liveness_value a = Liveness_value b \<longleftrightarrow> a = b"
  by (metis Liveness_of_value_value option.inject)

definition parse_liveness :: "string \<Rightarrow> Liveness option" where
  "parse_liveness token =
     (if token = ''unknown'' then Some LV_Unknown
      else if token = ''alive'' then Some LV_Alive
      else if token = ''degraded'' then Some LV_Degraded
      else if token = ''dead'' then Some LV_Dead
      else None)"

interpretation liveness_tokens: token_enum Liveness_to_string parse_liveness
proof
  fix e :: Liveness and t
  show "parse_liveness (Liveness_to_string e) = Some e"
    by (cases e) (simp_all add: parse_liveness_def)
  show "parse_liveness t = Some e \<Longrightarrow> Liveness_to_string e = t"
    by (auto simp: parse_liveness_def split: if_splits)
qed

subsection \<open>Exclusivity\<close>

datatype Exclusivity =
    EX_Shared
  | EX_Exclusive

definition all_Exclusivity :: "Exclusivity list" where
  "all_Exclusivity = [EX_Shared, EX_Exclusive]"

primrec Exclusivity_value :: "Exclusivity \<Rightarrow> u8" where
    "Exclusivity_value EX_Shared = 1"
  | "Exclusivity_value EX_Exclusive = 2"

definition Exclusivity_of_value :: "u8 \<Rightarrow> Exclusivity option" where
  "Exclusivity_of_value v = List.find (\<lambda>e. Exclusivity_value e = v) all_Exclusivity"

primrec Exclusivity_to_string :: "Exclusivity \<Rightarrow> string" where
    "Exclusivity_to_string EX_Shared = ''shared''"
  | "Exclusivity_to_string EX_Exclusive = ''exclusive''"

lemma Exclusivity_of_value_value [simp]: "Exclusivity_of_value (Exclusivity_value e) = Some e"
  by (cases e) (simp_all add: Exclusivity_of_value_def all_Exclusivity_def)

lemma Exclusivity_value_inject [simp]: "Exclusivity_value a = Exclusivity_value b \<longleftrightarrow> a = b"
  by (metis Exclusivity_of_value_value option.inject)

definition parse_exclusivity :: "string \<Rightarrow> Exclusivity option" where
  "parse_exclusivity token =
     (if token = ''shared'' then Some EX_Shared
      else if token = ''exclusive'' then Some EX_Exclusive
      else None)"

interpretation exclusivity_tokens: token_enum Exclusivity_to_string parse_exclusivity
proof
  fix e :: Exclusivity and t
  show "parse_exclusivity (Exclusivity_to_string e) = Some e"
    by (cases e) (simp_all add: parse_exclusivity_def)
  show "parse_exclusivity t = Some e \<Longrightarrow> Exclusivity_to_string e = t"
    by (auto simp: parse_exclusivity_def split: if_splits)
qed

subsection \<open>ExecutionMode\<close>

datatype ExecutionMode =
    EM_Offloaded
  | EM_HostFallback

definition all_ExecutionMode :: "ExecutionMode list" where
  "all_ExecutionMode = [EM_Offloaded, EM_HostFallback]"

primrec ExecutionMode_value :: "ExecutionMode \<Rightarrow> u8" where
    "ExecutionMode_value EM_Offloaded = 1"
  | "ExecutionMode_value EM_HostFallback = 2"

definition ExecutionMode_of_value :: "u8 \<Rightarrow> ExecutionMode option" where
  "ExecutionMode_of_value v = List.find (\<lambda>e. ExecutionMode_value e = v) all_ExecutionMode"

primrec ExecutionMode_to_string :: "ExecutionMode \<Rightarrow> string" where
    "ExecutionMode_to_string EM_Offloaded = ''offloaded''"
  | "ExecutionMode_to_string EM_HostFallback = ''host_fallback''"

lemma ExecutionMode_of_value_value [simp]: "ExecutionMode_of_value (ExecutionMode_value e) = Some e"
  by (cases e) (simp_all add: ExecutionMode_of_value_def all_ExecutionMode_def)

lemma ExecutionMode_value_inject [simp]: "ExecutionMode_value a = ExecutionMode_value b \<longleftrightarrow> a = b"
  by (metis ExecutionMode_of_value_value option.inject)

definition parse_execution_mode :: "string \<Rightarrow> ExecutionMode option" where
  "parse_execution_mode token =
     (if token = ''offloaded'' then Some EM_Offloaded
      else if token = ''host_fallback'' then Some EM_HostFallback
      else None)"

interpretation execution_mode_tokens: token_enum ExecutionMode_to_string parse_execution_mode
proof
  fix e :: ExecutionMode and t
  show "parse_execution_mode (ExecutionMode_to_string e) = Some e"
    by (cases e) (simp_all add: parse_execution_mode_def)
  show "parse_execution_mode t = Some e \<Longrightarrow> ExecutionMode_to_string e = t"
    by (auto simp: parse_execution_mode_def split: if_splits)
qed

subsection \<open>AssignmentState\<close>

datatype AssignmentState =
    AS_Planned
  | AS_Authorized
  | AS_Dispatched
  | AS_Acknowledged
  | AS_AppliedVerified
  | AS_Degraded
  | AS_Suspended
  | AS_Revoked
  | AS_Superseded
  | AS_Rejected
  | AS_Failed

definition all_AssignmentState :: "AssignmentState list" where
  "all_AssignmentState = [AS_Planned, AS_Authorized, AS_Dispatched, AS_Acknowledged, AS_AppliedVerified, AS_Degraded, AS_Suspended, AS_Revoked, AS_Superseded, AS_Rejected, AS_Failed]"

primrec AssignmentState_value :: "AssignmentState \<Rightarrow> u8" where
    "AssignmentState_value AS_Planned = 1"
  | "AssignmentState_value AS_Authorized = 2"
  | "AssignmentState_value AS_Dispatched = 3"
  | "AssignmentState_value AS_Acknowledged = 4"
  | "AssignmentState_value AS_AppliedVerified = 5"
  | "AssignmentState_value AS_Degraded = 6"
  | "AssignmentState_value AS_Suspended = 7"
  | "AssignmentState_value AS_Revoked = 8"
  | "AssignmentState_value AS_Superseded = 9"
  | "AssignmentState_value AS_Rejected = 10"
  | "AssignmentState_value AS_Failed = 11"

definition AssignmentState_of_value :: "u8 \<Rightarrow> AssignmentState option" where
  "AssignmentState_of_value v = List.find (\<lambda>e. AssignmentState_value e = v) all_AssignmentState"

primrec AssignmentState_to_string :: "AssignmentState \<Rightarrow> string" where
    "AssignmentState_to_string AS_Planned = ''planned''"
  | "AssignmentState_to_string AS_Authorized = ''authorized''"
  | "AssignmentState_to_string AS_Dispatched = ''dispatched''"
  | "AssignmentState_to_string AS_Acknowledged = ''acknowledged''"
  | "AssignmentState_to_string AS_AppliedVerified = ''applied_verified''"
  | "AssignmentState_to_string AS_Degraded = ''degraded''"
  | "AssignmentState_to_string AS_Suspended = ''suspended''"
  | "AssignmentState_to_string AS_Revoked = ''revoked''"
  | "AssignmentState_to_string AS_Superseded = ''superseded''"
  | "AssignmentState_to_string AS_Rejected = ''rejected''"
  | "AssignmentState_to_string AS_Failed = ''failed''"

lemma AssignmentState_of_value_value [simp]: "AssignmentState_of_value (AssignmentState_value e) = Some e"
  by (cases e) (simp_all add: AssignmentState_of_value_def all_AssignmentState_def)

lemma AssignmentState_value_inject [simp]: "AssignmentState_value a = AssignmentState_value b \<longleftrightarrow> a = b"
  by (metis AssignmentState_of_value_value option.inject)

definition parse_assignment_state :: "string \<Rightarrow> AssignmentState option" where
  "parse_assignment_state token =
     (if token = ''planned'' then Some AS_Planned
      else if token = ''authorized'' then Some AS_Authorized
      else if token = ''dispatched'' then Some AS_Dispatched
      else if token = ''acknowledged'' then Some AS_Acknowledged
      else if token = ''applied_verified'' then Some AS_AppliedVerified
      else if token = ''degraded'' then Some AS_Degraded
      else if token = ''suspended'' then Some AS_Suspended
      else if token = ''revoked'' then Some AS_Revoked
      else if token = ''superseded'' then Some AS_Superseded
      else if token = ''rejected'' then Some AS_Rejected
      else if token = ''failed'' then Some AS_Failed
      else None)"

interpretation assignment_state_tokens: token_enum AssignmentState_to_string parse_assignment_state
proof
  fix e :: AssignmentState and t
  show "parse_assignment_state (AssignmentState_to_string e) = Some e"
    by (cases e) (simp_all add: parse_assignment_state_def)
  show "parse_assignment_state t = Some e \<Longrightarrow> AssignmentState_to_string e = t"
    by (auto simp: parse_assignment_state_def split: if_splits)
qed

subsection \<open>EffectOutcome\<close>

datatype EffectOutcome =
    EO_Applied
  | EO_Rejected
  | EO_Failed
  | EO_Unknown

definition all_EffectOutcome :: "EffectOutcome list" where
  "all_EffectOutcome = [EO_Applied, EO_Rejected, EO_Failed, EO_Unknown]"

primrec EffectOutcome_value :: "EffectOutcome \<Rightarrow> u8" where
    "EffectOutcome_value EO_Applied = 1"
  | "EffectOutcome_value EO_Rejected = 2"
  | "EffectOutcome_value EO_Failed = 3"
  | "EffectOutcome_value EO_Unknown = 4"

definition EffectOutcome_of_value :: "u8 \<Rightarrow> EffectOutcome option" where
  "EffectOutcome_of_value v = List.find (\<lambda>e. EffectOutcome_value e = v) all_EffectOutcome"

primrec EffectOutcome_to_string :: "EffectOutcome \<Rightarrow> string" where
    "EffectOutcome_to_string EO_Applied = ''applied''"
  | "EffectOutcome_to_string EO_Rejected = ''rejected''"
  | "EffectOutcome_to_string EO_Failed = ''failed''"
  | "EffectOutcome_to_string EO_Unknown = ''unknown''"

lemma EffectOutcome_of_value_value [simp]: "EffectOutcome_of_value (EffectOutcome_value e) = Some e"
  by (cases e) (simp_all add: EffectOutcome_of_value_def all_EffectOutcome_def)

lemma EffectOutcome_value_inject [simp]: "EffectOutcome_value a = EffectOutcome_value b \<longleftrightarrow> a = b"
  by (metis EffectOutcome_of_value_value option.inject)

definition parse_effect_outcome :: "string \<Rightarrow> EffectOutcome option" where
  "parse_effect_outcome token =
     (if token = ''applied'' then Some EO_Applied
      else if token = ''rejected'' then Some EO_Rejected
      else if token = ''failed'' then Some EO_Failed
      else if token = ''unknown'' then Some EO_Unknown
      else None)"

interpretation effect_outcome_tokens: token_enum EffectOutcome_to_string parse_effect_outcome
proof
  fix e :: EffectOutcome and t
  show "parse_effect_outcome (EffectOutcome_to_string e) = Some e"
    by (cases e) (simp_all add: parse_effect_outcome_def)
  show "parse_effect_outcome t = Some e \<Longrightarrow> EffectOutcome_to_string e = t"
    by (auto simp: parse_effect_outcome_def split: if_splits)
qed

subsection \<open>Decision\<close>

datatype Decision =
    DE_Accept
  | DE_Refuse
  | DE_Replace
  | DE_Revoke
  | DE_Defer
  | DE_Suspend
  | DE_NoOp

definition all_Decision :: "Decision list" where
  "all_Decision = [DE_Accept, DE_Refuse, DE_Replace, DE_Revoke, DE_Defer, DE_Suspend, DE_NoOp]"

primrec Decision_value :: "Decision \<Rightarrow> u8" where
    "Decision_value DE_Accept = 1"
  | "Decision_value DE_Refuse = 2"
  | "Decision_value DE_Replace = 3"
  | "Decision_value DE_Revoke = 4"
  | "Decision_value DE_Defer = 5"
  | "Decision_value DE_Suspend = 6"
  | "Decision_value DE_NoOp = 7"

definition Decision_of_value :: "u8 \<Rightarrow> Decision option" where
  "Decision_of_value v = List.find (\<lambda>e. Decision_value e = v) all_Decision"

primrec Decision_to_string :: "Decision \<Rightarrow> string" where
    "Decision_to_string DE_Accept = ''accept''"
  | "Decision_to_string DE_Refuse = ''refuse''"
  | "Decision_to_string DE_Replace = ''replace''"
  | "Decision_to_string DE_Revoke = ''revoke''"
  | "Decision_to_string DE_Defer = ''defer''"
  | "Decision_to_string DE_Suspend = ''suspend''"
  | "Decision_to_string DE_NoOp = ''noop''"

lemma Decision_of_value_value [simp]: "Decision_of_value (Decision_value e) = Some e"
  by (cases e) (simp_all add: Decision_of_value_def all_Decision_def)

lemma Decision_value_inject [simp]: "Decision_value a = Decision_value b \<longleftrightarrow> a = b"
  by (metis Decision_of_value_value option.inject)

definition parse_decision :: "string \<Rightarrow> Decision option" where
  "parse_decision token =
     (if token = ''accept'' then Some DE_Accept
      else if token = ''refuse'' then Some DE_Refuse
      else if token = ''replace'' then Some DE_Replace
      else if token = ''revoke'' then Some DE_Revoke
      else if token = ''defer'' then Some DE_Defer
      else if token = ''suspend'' then Some DE_Suspend
      else if token = ''noop'' then Some DE_NoOp
      else None)"

interpretation decision_tokens: token_enum Decision_to_string parse_decision
proof
  fix e :: Decision and t
  show "parse_decision (Decision_to_string e) = Some e"
    by (cases e) (simp_all add: parse_decision_def)
  show "parse_decision t = Some e \<Longrightarrow> Decision_to_string e = t"
    by (auto simp: parse_decision_def split: if_splits)
qed

subsection \<open>EvidenceDomain\<close>

datatype EvidenceDomain =
    ED_Topology
  | ED_Capability
  | ED_Policy
  | ED_Observation
  | ED_Authority

definition all_EvidenceDomain :: "EvidenceDomain list" where
  "all_EvidenceDomain = [ED_Topology, ED_Capability, ED_Policy, ED_Observation, ED_Authority]"

primrec EvidenceDomain_value :: "EvidenceDomain \<Rightarrow> u8" where
    "EvidenceDomain_value ED_Topology = 1"
  | "EvidenceDomain_value ED_Capability = 2"
  | "EvidenceDomain_value ED_Policy = 3"
  | "EvidenceDomain_value ED_Observation = 4"
  | "EvidenceDomain_value ED_Authority = 5"

definition EvidenceDomain_of_value :: "u8 \<Rightarrow> EvidenceDomain option" where
  "EvidenceDomain_of_value v = List.find (\<lambda>e. EvidenceDomain_value e = v) all_EvidenceDomain"

primrec EvidenceDomain_to_string :: "EvidenceDomain \<Rightarrow> string" where
    "EvidenceDomain_to_string ED_Topology = ''topology''"
  | "EvidenceDomain_to_string ED_Capability = ''capability''"
  | "EvidenceDomain_to_string ED_Policy = ''policy''"
  | "EvidenceDomain_to_string ED_Observation = ''observation''"
  | "EvidenceDomain_to_string ED_Authority = ''authority''"

lemma EvidenceDomain_of_value_value [simp]: "EvidenceDomain_of_value (EvidenceDomain_value e) = Some e"
  by (cases e) (simp_all add: EvidenceDomain_of_value_def all_EvidenceDomain_def)

lemma EvidenceDomain_value_inject [simp]: "EvidenceDomain_value a = EvidenceDomain_value b \<longleftrightarrow> a = b"
  by (metis EvidenceDomain_of_value_value option.inject)

instantiation EvidenceDomain :: linorder
begin

definition less_eq_EvidenceDomain :: "EvidenceDomain \<Rightarrow> EvidenceDomain \<Rightarrow> bool" where
  "a \<le> b \<longleftrightarrow> EvidenceDomain_value a \<le> EvidenceDomain_value b"

definition less_EvidenceDomain :: "EvidenceDomain \<Rightarrow> EvidenceDomain \<Rightarrow> bool" where
  "a < b \<longleftrightarrow> EvidenceDomain_value a < EvidenceDomain_value b"

instance
  by standard (auto simp: less_eq_EvidenceDomain_def less_EvidenceDomain_def less_le)

end

subsection \<open>RecordType\<close>

datatype RecordType =
    RT_EpochStarted
  | RT_FunctionRegistered
  | RT_TopologyIngested
  | RT_CapabilityIngested
  | RT_PolicyIngested
  | RT_ObservationsIngested
  | RT_AuthorityGranted
  | RT_AuthorityWithdrawn
  | RT_AssignmentCreated
  | RT_AssignmentTransitioned
  | RT_EffectRecorded
  | RT_ReassignmentRecorded
  | RT_RequestRecorded
  | RT_ScopeReleased
  | RT_SnapshotBase
  | RT_StoreSealed

definition all_RecordType :: "RecordType list" where
  "all_RecordType = [RT_EpochStarted, RT_FunctionRegistered, RT_TopologyIngested, RT_CapabilityIngested, RT_PolicyIngested, RT_ObservationsIngested, RT_AuthorityGranted, RT_AuthorityWithdrawn, RT_AssignmentCreated, RT_AssignmentTransitioned, RT_EffectRecorded, RT_ReassignmentRecorded, RT_RequestRecorded, RT_ScopeReleased, RT_SnapshotBase, RT_StoreSealed]"

primrec RecordType_value :: "RecordType \<Rightarrow> u16" where
    "RecordType_value RT_EpochStarted = 1"
  | "RecordType_value RT_FunctionRegistered = 2"
  | "RecordType_value RT_TopologyIngested = 3"
  | "RecordType_value RT_CapabilityIngested = 4"
  | "RecordType_value RT_PolicyIngested = 5"
  | "RecordType_value RT_ObservationsIngested = 6"
  | "RecordType_value RT_AuthorityGranted = 7"
  | "RecordType_value RT_AuthorityWithdrawn = 8"
  | "RecordType_value RT_AssignmentCreated = 9"
  | "RecordType_value RT_AssignmentTransitioned = 10"
  | "RecordType_value RT_EffectRecorded = 11"
  | "RecordType_value RT_ReassignmentRecorded = 12"
  | "RecordType_value RT_RequestRecorded = 13"
  | "RecordType_value RT_ScopeReleased = 14"
  | "RecordType_value RT_SnapshotBase = 15"
  | "RecordType_value RT_StoreSealed = 16"

definition RecordType_of_value :: "u16 \<Rightarrow> RecordType option" where
  "RecordType_of_value v = List.find (\<lambda>e. RecordType_value e = v) all_RecordType"

primrec RecordType_to_string :: "RecordType \<Rightarrow> string" where
    "RecordType_to_string RT_EpochStarted = ''epoch_started''"
  | "RecordType_to_string RT_FunctionRegistered = ''function_registered''"
  | "RecordType_to_string RT_TopologyIngested = ''topology_ingested''"
  | "RecordType_to_string RT_CapabilityIngested = ''capability_ingested''"
  | "RecordType_to_string RT_PolicyIngested = ''policy_ingested''"
  | "RecordType_to_string RT_ObservationsIngested = ''observations_ingested''"
  | "RecordType_to_string RT_AuthorityGranted = ''authority_granted''"
  | "RecordType_to_string RT_AuthorityWithdrawn = ''authority_withdrawn''"
  | "RecordType_to_string RT_AssignmentCreated = ''assignment_created''"
  | "RecordType_to_string RT_AssignmentTransitioned = ''assignment_transitioned''"
  | "RecordType_to_string RT_EffectRecorded = ''effect_recorded''"
  | "RecordType_to_string RT_ReassignmentRecorded = ''reassignment_recorded''"
  | "RecordType_to_string RT_RequestRecorded = ''request_recorded''"
  | "RecordType_to_string RT_ScopeReleased = ''scope_released''"
  | "RecordType_to_string RT_SnapshotBase = ''snapshot_base''"
  | "RecordType_to_string RT_StoreSealed = ''store_sealed''"

lemma RecordType_of_value_value [simp]: "RecordType_of_value (RecordType_value e) = Some e"
  by (cases e) (simp_all add: RecordType_of_value_def all_RecordType_def)

lemma RecordType_value_inject [simp]: "RecordType_value a = RecordType_value b \<longleftrightarrow> a = b"
  by (metis RecordType_of_value_value option.inject)

end
