(* ===== verification/Nof_Function.thy ===== *)
theory Nof_Function
  imports Nof_Enums
begin

unbundle bit_operations_syntax

text \<open>
  Function descriptors, semantics masks and versions (\<open>include/nof/function.hpp\<close>,
  \<open>src/function.cpp\<close>) and governed scopes (\<open>include/nof/scope.hpp\<close>,
  \<open>src/scope.cpp\<close>). A \<open>SemanticsMask\<close> is its 64 bits.

  Shown here: the mask operations are the set operations on the set of semantics, the
  population count loop counts set bits, versions round-trip through their text, and a
  canonical scope text determines the scope it came from.
\<close>

subsection \<open>Semantics masks\<close>

type_synonym SemanticsMask = u64

definition mask_of :: "Semantic \<Rightarrow> u64" where
  "mask_of s = push_bit (unat (Semantic_value s)) 1"

definition mask_set :: "Semantic \<Rightarrow> SemanticsMask \<Rightarrow> SemanticsMask" where
  "mask_set s m = m OR mask_of s"

definition mask_clear :: "Semantic \<Rightarrow> SemanticsMask \<Rightarrow> SemanticsMask" where
  "mask_clear s m = m AND NOT (mask_of s)"

definition mask_test :: "SemanticsMask \<Rightarrow> Semantic \<Rightarrow> bool" where
  "mask_test m s = (m AND mask_of s \<noteq> 0)"

definition mask_difference :: "SemanticsMask \<Rightarrow> SemanticsMask \<Rightarrow> SemanticsMask" where
  "mask_difference a b = a AND NOT b"

definition mask_intersection :: "SemanticsMask \<Rightarrow> SemanticsMask \<Rightarrow> SemanticsMask" where
  "mask_intersection a b = a AND b"

definition mask_unite :: "SemanticsMask \<Rightarrow> SemanticsMask \<Rightarrow> SemanticsMask" where
  "mask_unite a b = a OR b"

definition mask_is_subset_of :: "SemanticsMask \<Rightarrow> SemanticsMask \<Rightarrow> bool" where
  "mask_is_subset_of a b = (a AND NOT b = 0)"

definition mask_contains_any :: "SemanticsMask \<Rightarrow> SemanticsMask \<Rightarrow> bool" where
  "mask_contains_any a b = (a AND b \<noteq> 0)"

text \<open>\<open>while (bits != 0) { bits &= bits - 1; ++total; }\<close>\<close>

lemma clear_lowest_less: "b \<noteq> 0 \<Longrightarrow> unat (b AND (b - 1)) < unat (b :: 'a::len word)"
proof -
  assume "b \<noteq> 0"
  then have "unat (b - 1) < unat b" by (simp add: unat_minus_one unat_gt_0)
  moreover have "unat (b AND (b - 1)) \<le> unat (b - 1)"
    by (rule word_and_le1 [THEN word_le_nat_alt [THEN iffD1]])
  ultimately show ?thesis by simp
qed

function mask_count :: "SemanticsMask \<Rightarrow> nat" where
  "mask_count bits = (if bits = 0 then 0 else Suc (mask_count (bits AND (bits - 1))))"
  by pat_completeness auto
termination
  by (relation "measure unat") (auto intro: clear_lowest_less)

declare mask_count.simps [simp del]

definition mask_values :: "SemanticsMask \<Rightarrow> Semantic list" where
  "mask_values m = filter (mask_test m) all_Semantic"

fun mask_from_tokens :: "SemanticsMask \<Rightarrow> string list \<Rightarrow> SemanticsMask result" where
  "mask_from_tokens m [] = Inr m"
| "mask_from_tokens m (token # tokens) =
     (case parse_semantic token of
        None \<Rightarrow> Err RC_UnsupportedValue (''unknown semantic token: '' @ token)
      | Some s \<Rightarrow> mask_from_tokens (mask_set s m) tokens)"

definition mask_bits :: "SemanticsMask \<Rightarrow> nat set" where
  "mask_bits m = {n. bit m n}"

lemma finite_mask_bits [simp]: "finite (mask_bits m)"
  by (rule finite_subset [of _ "{..<64}"]) (auto simp: mask_bits_def dest: bit_imp_le_length)

lemma mask_bits_inject: "mask_bits a = mask_bits b \<longleftrightarrow> a = b"
  by (auto simp: mask_bits_def intro: bit_word_eqI)

lemma mask_bits_unite [simp]: "mask_bits (mask_unite a b) = mask_bits a \<union> mask_bits b"
  and mask_bits_intersection [simp]:
    "mask_bits (mask_intersection a b) = mask_bits a \<inter> mask_bits b"
  by (auto simp: mask_bits_def mask_unite_def mask_intersection_def bit_simps)

lemma mask_bits_difference [simp]: "mask_bits (mask_difference a b) = mask_bits a - mask_bits b"
  by (auto simp: mask_bits_def mask_difference_def bit_simps dest: bit_imp_le_length)

lemma mask_bits_empty_iff [simp]: "mask_bits m = {} \<longleftrightarrow> m = 0"
  using mask_bits_inject [of m 0] by (simp add: mask_bits_def)

lemma mask_is_subset_of_iff: "mask_is_subset_of a b \<longleftrightarrow> mask_bits a \<subseteq> mask_bits b"
proof -
  have "mask_is_subset_of a b \<longleftrightarrow> mask_bits (mask_difference a b) = {}"
    by (simp only: mask_is_subset_of_def mask_bits_empty_iff mask_difference_def)
  then show ?thesis by auto
qed

lemma mask_contains_any_iff: "mask_contains_any a b \<longleftrightarrow> mask_bits a \<inter> mask_bits b \<noteq> {}"
proof -
  have "mask_contains_any a b \<longleftrightarrow> mask_bits (mask_intersection a b) \<noteq> {}"
    by (simp only: mask_contains_any_def mask_bits_empty_iff mask_intersection_def)
  then show ?thesis by simp
qed

lemma Semantic_value_less: "unat (Semantic_value s) < 64"
  by (cases s) simp_all

lemma mask_test_iff: "mask_test m s \<longleftrightarrow> unat (Semantic_value s) \<in> mask_bits m"
proof -
  have "m AND push_bit n 1 \<noteq> 0 \<longleftrightarrow> bit m n" if "n < 64" for n
    using that by (auto simp: and_exp_eq_0_iff_not_bit push_bit_of_1)
  from this [OF Semantic_value_less] show ?thesis
    by (simp add: mask_test_def mask_of_def mask_bits_def)
qed

text \<open>\<open>b AND (b - 1)\<close> clears exactly the lowest set bit.\<close>

lemma clear_lowest_bit:
  assumes "b \<noteq> 0"
  shows "\<exists>k\<in>mask_bits b. mask_bits (b AND (b - 1)) = mask_bits b - {k}"
proof -
  define k where "k = (LEAST n. bit b n)"
  from assms have "\<exists>n. bit b n" by (auto simp: bit_eq_iff)
  then have k: "bit b k" and least: "\<not> bit b n" if "n < k" for n
    using that by (auto simp: k_def intro: LeastI dest: not_less_Least)
  have k': "bit b k" using \<open>\<exists>n. bit b n\<close> by (auto simp: k_def intro: LeastI)
  have k64: "k < 64" using bit_imp_le_length [OF k'] by simp
  define hi where "hi = b AND NOT (mask (k + 1))"
  have hi_bit: "bit hi n \<longleftrightarrow> k < n \<and> bit b n" for n
    using bit_imp_le_length [of b n] by (auto simp: hi_def bit_simps)
  have b: "b = hi OR push_bit k 1"
    using k' least by (intro bit_word_eqI) (auto simp: hi_bit bit_simps nat_neq_iff)
  also have "\<dots> = hi + push_bit k 1"
    by (rule disjunctive_add_eq_or [symmetric], rule bit_word_eqI) (auto simp: hi_bit bit_simps)
  finally have "b - 1 = hi + mask k" by (simp add: mask_eq_exp_minus_1 push_bit_of_1)
  also have "\<dots> = hi OR mask k"
    by (rule disjunctive_add_eq_or, rule bit_word_eqI) (auto simp: hi_bit bit_simps)
  finally have "bit (b AND (b - 1)) n \<longleftrightarrow> bit b n \<and> n \<noteq> k" for n
    using least [of n] by (auto simp: bit_and_iff bit_or_iff hi_bit bit_mask_iff nat_neq_iff)
  then show ?thesis using k' by (intro bexI [of _ k]) (auto simp: mask_bits_def)
qed

lemma mask_count_card: "mask_count m = card (mask_bits m)"
proof (induction m rule: mask_count.induct)
  case (1 m)
  show ?case
  proof (cases "m = 0")
    case True
    then show ?thesis by (simp add: mask_count.simps mask_bits_def)
  next
    case False
    from clear_lowest_bit [OF this] obtain k
      where "k \<in> mask_bits m" "mask_bits (m AND (m - 1)) = mask_bits m - {k}" by blast
    then have "card (mask_bits m) = Suc (card (mask_bits (m AND (m - 1))))"
      by (simp only: card.remove [OF finite_mask_bits])
    moreover have "mask_count m = Suc (mask_count (m AND (m - 1)))"
      using False by (subst mask_count.simps) simp
    ultimately show ?thesis using "1.IH" [OF False] by (simp only:)
  qed
qed

lemma mask_count_le_64: "mask_count m \<le> 64"
proof -
  have "card (mask_bits m) \<le> card {..<64::nat}"
    by (rule card_mono) (auto simp: mask_bits_def dest: bit_imp_le_length)
  then show ?thesis by (simp add: mask_count_card)
qed

subsection \<open>Versions\<close>

datatype SemanticVersion = SemanticVersion (sv_major: u16) (sv_minor: u16)

instantiation SemanticVersion :: linorder
begin

definition less_eq_SemanticVersion :: "SemanticVersion \<Rightarrow> SemanticVersion \<Rightarrow> bool" where
  "a \<le> b \<longleftrightarrow> sv_major a < sv_major b \<or> (sv_major a = sv_major b \<and> sv_minor a \<le> sv_minor b)"

definition less_SemanticVersion :: "SemanticVersion \<Rightarrow> SemanticVersion \<Rightarrow> bool" where
  "a < b \<longleftrightarrow> sv_major a < sv_major b \<or> (sv_major a = sv_major b \<and> sv_minor a < sv_minor b)"

instance
  by standard (auto simp: less_eq_SemanticVersion_def less_SemanticVersion_def
      SemanticVersion.expand)

end

record VersionRange =
  vr_minimum :: SemanticVersion
  vr_maximum :: SemanticVersion

definition admits :: "VersionRange \<Rightarrow> SemanticVersion \<Rightarrow> bool" where
  "admits r version = (\<not> version < vr_minimum r \<and> \<not> version > vr_maximum r)"

fun parse_part :: "nat \<Rightarrow> string \<Rightarrow> nat result" where
  "parse_part val [] = Inr val"
| "parse_part val (c # cs) =
     (if \<not> is_digit c
      then Err RC_MalformedInput ''semantic version component is not numeric''
      else let v = val * 10 + (of_char c - 48)
           in if v > 65535
              then Err RC_OutOfRange ''semantic version component out of range''
              else parse_part v cs)"

definition version_part :: "string \<Rightarrow> u16 result" where
  "version_part part =
     (if part = [] \<or> length part > 5
      then Err RC_MalformedInput ''semantic version component out of range''
      else and_then (parse_part 0 part) (\<lambda>v. Inr (of_nat v)))"

definition version_parse :: "string \<Rightarrow> SemanticVersion result" where
  "version_parse text =
     (let before = takeWhile (\<lambda>c. c \<noteq> CHR ''.'') text;
          dot = length before
      in if dot = length text \<or> dot = 0 \<or> dot + 1 \<ge> length text
         then Err RC_MalformedInput ''semantic version must be MAJOR.MINOR''
         else and_then (version_part before) (\<lambda>major.
              and_then (version_part (drop (dot + 1) text)) (\<lambda>minor.
              Inr (SemanticVersion major minor))))"

fun decimal :: "nat \<Rightarrow> string" where
  "decimal n = (if n < 10 then [char_of (48 + n)] else decimal (n div 10) @ [char_of (48 + n mod 10)])"

declare decimal.simps [simp del]

definition version_to_string :: "SemanticVersion \<Rightarrow> string" where
  "version_to_string v = decimal (unat (sv_major v)) @ ''.'' @ decimal (unat (sv_minor v))"

lemma parse_part_snoc:
  "parse_part acc (xs @ [c]) =
     and_then (parse_part acc xs) (\<lambda>v. parse_part v [c])"
proof (induction acc xs rule: parse_part.induct)
  case (1 acc)
  then show ?case by simp
next
  case (2 acc d ds)
  then show ?case by (simp add: Let_def)
qed

lemma digit_char: "d < 10 \<Longrightarrow> is_digit (char_of (48 + d)) \<and> of_char (char_of (48 + d) :: char) = (48 + d :: nat)"
  by (simp add: char_in_def)

lemma parse_part_decimal: "n \<le> 65535 \<Longrightarrow> parse_part 0 (decimal n) = Inr n"
proof (induction n rule: decimal.induct)
  case (1 n)
  show ?case
  proof (cases "n < 10")
    case True
    with digit_char [of n] show ?thesis by (simp add: decimal.simps [of n])
  next
    case False
    with 1 have IH: "parse_part 0 (decimal (n div 10)) = Inr (n div 10)" by simp
    have "n div 10 * 10 + n mod 10 = n" by simp
    with digit_char [of "n mod 10"] "1.prems" False show ?thesis
      by (simp add: decimal.simps [of n] parse_part_snoc IH Let_def)
  qed
qed

lemma length_decimal: "n < 10 ^ k \<Longrightarrow> 0 < k \<Longrightarrow> length (decimal n) \<le> k"
proof (induction n arbitrary: k rule: decimal.induct)
  case (1 n)
  show ?case
  proof (cases "n < 10")
    case True
    with "1.prems" show ?thesis by (simp add: decimal.simps [of n])
  next
    case False
    obtain j where k: "k = Suc j" using "1.prems" by (cases k) auto
    with False "1.prems" have "0 < j" by (cases j) auto
    moreover have "n div 10 < 10 ^ j" using "1.prems" by (simp add: k less_mult_imp_div_less mult.commute)
    ultimately have "length (decimal (n div 10)) \<le> j" using "1.IH" [OF False] by blast
    with False show ?thesis by (simp add: decimal.simps [of n] k)
  qed
qed

lemma decimal_digits: "c \<in> set (decimal n) \<Longrightarrow> c \<noteq> CHR ''.''"
proof (induction n rule: decimal.induct)
  case (1 n)
  have "char_of (48 + d) \<noteq> CHR ''.''" if "d < 10" for d :: nat
  proof
    assume "char_of (48 + d) = CHR ''.''"
    then have "of_char (char_of (48 + d) :: char) = (of_char (CHR ''.'') :: nat)" by simp
    with digit_char [OF that] show False by simp
  qed
  then have "CHR ''.'' \<noteq> char_of (48 + n mod 10)" "n < 10 \<Longrightarrow> CHR ''.'' \<noteq> char_of (48 + n)"
    by (metis mod_less_divisor zero_less_numeral, metis)
  with 1 show ?case by (auto simp: decimal.simps [of n] split: if_splits)
qed

lemma decimal_nonempty: "decimal n \<noteq> []"
  by (subst decimal.simps) simp

text \<open>Every semantic version prints to text that \<open>SemanticVersion::parse\<close> reads back
  as the same version.\<close>

lemma version_roundtrip: "version_parse (version_to_string v) = Inr v"
proof -
  let ?a = "decimal (unat (sv_major v))" and ?b = "decimal (unat (sv_minor v))"
  have le: "unat (w :: u16) \<le> 65535" for w using unat_lt_2p [of w] by simp
  have part: "version_part (decimal (unat w)) = Inr w" for w :: u16
  proof -
    have "length (decimal (unat w)) \<le> 5" using le [of w] by (intro length_decimal) simp_all
    then show ?thesis
      by (simp add: version_part_def decimal_nonempty parse_part_decimal [OF le])
  qed
  have before: "takeWhile (\<lambda>c. c \<noteq> CHR ''.'') (?a @ CHR ''.'' # ?b) = ?a"
    by (subst takeWhile_append2) (auto dest: decimal_digits)
  show ?thesis
    unfolding version_parse_def version_to_string_def
    by (simp add: before part decimal_nonempty)
qed

subsection \<open>Function descriptors\<close>

record FunctionDescriptor =
  fd_id :: FunctionId
  fd_cls :: FunctionClass
  fd_required :: SemanticsMask
  fd_required_version :: SemanticVersion
  fd_exclusive_by_default :: bool

subsection \<open>Governed scopes\<close>

record ScopeSpec =
  ss_kind :: ScopeKind
  ss_domain :: HostId
  ss_device :: DeviceId
  ss_selector :: string

definition scope_validate :: "ScopeSpec \<Rightarrow> Status" where
  "scope_validate s =
     and_then
       (case ss_kind s of
          SK_Global \<Rightarrow>
            require (ss_domain s = [] \<and> ss_device s = [] \<and> ss_selector s = []) RC_MalformedInput
              ''global scope must not carry a domain, device, or selector''
        | SK_Host \<Rightarrow>
            and_then (require (ss_domain s \<noteq> []) RC_MalformedInput
              ''host scope requires a domain host'') (\<lambda>_.
            require (ss_device s = [] \<and> ss_selector s = []) RC_MalformedInput
              ''host scope must not carry a device or selector'')
        | SK_Flow \<Rightarrow>
            require (ss_selector s \<noteq> []) RC_MalformedInput ''flow scope requires a selector''
        | _ \<Rightarrow>
            and_then (require (ss_device s \<noteq> []) RC_MalformedInput
              ''device-anchored scope requires a device'') (\<lambda>_.
            require (ss_selector s \<noteq> []) RC_MalformedInput
              ''device-anchored scope requires a selector''))
       (\<lambda>_. require (ss_selector s = [] \<or> is_valid_selector (ss_selector s)) RC_InvalidIdentifier
          ''scope selector is not canonical'')"

definition canonical_text :: "ScopeSpec \<Rightarrow> string result" where
  "canonical_text s =
     and_then (scope_validate s) (\<lambda>_.
       Inr (ScopeKind_to_string (ss_kind s) @ ''|'' @ ss_domain s @ ''|'' @ ss_device s @ ''|'' @
            ss_selector s))"

definition derive_scope_id :: "ScopeSpec \<Rightarrow> ScopeId result" where
  "derive_scope_id s =
     and_then (canonical_text s) (\<lambda>text.
       token_parse (''sc-'' @ take 16 (digest_hex (sha256 (string_bytes text)))))"

datatype ExclusivityKey = ExclusivityKey (ek_scope: ScopeId) (ek_cls: FunctionClass)

instantiation ExclusivityKey :: linorder
begin

definition less_eq_ExclusivityKey :: "ExclusivityKey \<Rightarrow> ExclusivityKey \<Rightarrow> bool" where
  "a \<le> b \<longleftrightarrow> (if ek_scope a = ek_scope b then ek_cls a \<le> ek_cls b else ek_scope a \<le> ek_scope b)"

definition less_ExclusivityKey :: "ExclusivityKey \<Rightarrow> ExclusivityKey \<Rightarrow> bool" where
  "a < b \<longleftrightarrow> (if ek_scope a = ek_scope b then ek_cls a < ek_cls b else ek_scope a < ek_scope b)"

instance
  by standard
    (auto simp: less_eq_ExclusivityKey_def less_ExclusivityKey_def ExclusivityKey.expand
      split: if_splits)

end

text \<open>
  The separator \<open>|\<close> is neither a token nor a selector character, so the canonical text
  determines the specification.
\<close>

definition scope_tokens_ok :: "ScopeSpec \<Rightarrow> bool" where
  "scope_tokens_ok s =
     ((ss_domain s = [] \<or> is_valid_token (ss_domain s)) \<and>
      (ss_device s = [] \<or> is_valid_token (ss_device s)))"

lemma no_bar:
  "t = [] \<or> is_valid_token t \<Longrightarrow> CHR ''|'' \<notin> set t"
  by (auto simp: is_valid_token_def is_tail_def is_head_def char_in_def list_all_iff split: list.splits)

lemma split_at_bar:
  assumes "a @ CHR ''|'' # xs = b @ CHR ''|'' # ys" and "CHR ''|'' \<notin> set a" and "CHR ''|'' \<notin> set b"
  shows "a = b \<and> xs = ys"
proof -
  from assms(2) have "takeWhile (\<lambda>c. c \<noteq> CHR ''|'') (a @ CHR ''|'' # xs) = a"
    by (subst takeWhile_append2) auto
  moreover from assms(3) have "takeWhile (\<lambda>c. c \<noteq> CHR ''|'') (b @ CHR ''|'' # ys) = b"
    by (subst takeWhile_append2) auto
  ultimately have "a = b" using assms(1) by simp
  with assms(1) show ?thesis by simp
qed

lemma canonical_text_inject:
  assumes "scope_tokens_ok s" "scope_tokens_ok s'"
    and "canonical_text s = Inr text" "canonical_text s' = Inr text"
  shows "s = s'"
proof -
  let ?t = "\<lambda>s. ScopeKind_to_string (ss_kind s) @ CHR ''|'' # ss_domain s @ CHR ''|'' #
      ss_device s @ CHR ''|'' # ss_selector s"
  have kind: "CHR ''|'' \<notin> set (ScopeKind_to_string k)" for k by (cases k) simp_all
  from assms(3,4) have eq: "?t s = ?t s'"
    by (auto simp: canonical_text_def and_then_Inr)
  from split_at_bar [OF eq kind kind] have k: "ss_kind s = ss_kind s'"
    and eq: "ss_domain s @ CHR ''|'' # ss_device s @ CHR ''|'' # ss_selector s =
      ss_domain s' @ CHR ''|'' # ss_device s' @ CHR ''|'' # ss_selector s'"
    by (simp_all add: scope_kind_tokens.to_string_inject)
  from split_at_bar [OF eq] no_bar assms(1,2) have d: "ss_domain s = ss_domain s'"
    and eq: "ss_device s @ CHR ''|'' # ss_selector s = ss_device s' @ CHR ''|'' # ss_selector s'"
    by (auto simp: scope_tokens_ok_def)
  from split_at_bar [OF eq] no_bar assms(1,2) have "ss_device s = ss_device s'"
    "ss_selector s = ss_selector s'" by (auto simp: scope_tokens_ok_def)
  with k d show ?thesis by simp
qed

lemma digest_hex_take_lower_hex: "is_lower_hex (take 16 (digest_hex (sha256 m))) 16"
proof -
  have "is_lower_hex (digest_hex (sha256 m)) 64"
    using digest_hex_lower_hex [of "sha256 m"] by simp
  then show ?thesis by (auto simp: is_lower_hex_def list_all_iff dest: in_set_takeD)
qed

lemma derive_scope_id_total:
  assumes "scope_validate s = ok_status"
  shows "\<exists>id. derive_scope_id s = Inr id \<and> length id = 19 \<and> is_valid_token id"
proof -
  have hex: "list_all is_tail (take 16 (digest_hex (sha256 m)))"
      "length (take 16 (digest_hex (sha256 m))) = 16" for m
    using digest_hex_take_lower_hex [of m]
    by (auto simp: is_lower_hex_def list_all_iff simp del: length_take intro: lower_hex_is_tail)
  have "is_valid_token (''sc-'' @ take 16 (digest_hex (sha256 m)))" for m
    using hex [of m] by (simp add: is_valid_token_def kMaxTokenLength_def is_head_def is_tail_def char_in_def)
  with assms hex show ?thesis
    by (auto simp: derive_scope_id_def canonical_text_def token_parse_def simp del: length_take)
qed

end
