(* ===== verification/Nof_Evidence.thy ===== *)
theory Nof_Evidence
  imports Nof_Function
begin

unbundle bit_operations_syntax

text \<open>
  The evidence the fabric consumes and its validation: configured bounds
  (\<open>src/bounds.cpp\<close>), topology (\<open>src/topology.cpp\<close>), capability (\<open>src/capability.cpp\<close>),
  policy (\<open>src/policy.cpp\<close>), observations (\<open>src/observation.cpp\<close>) and authority grants
  (\<open>src/authority.cpp\<close>), with the two decision procedures that evidence feeds:
  \<open>match_capability\<close> and \<open>authority_admits\<close>.

  \<open>std::lower_bound\<close> is used on sequences the validators require to be sorted; its model is
  \<open>lower_bound_find\<close> of the prelude.

  Shown here: what a validated snapshot satisfies (canonical order, no duplicates, resolved
  references, disjoint semantics buckets) and the exact conditions under which a capability
  matches and a grant admits.
\<close>

subsection \<open>Bounds\<close>

record Bounds =
  max_hosts :: nat
  max_devices :: nat
  max_functions :: nat
  max_scopes :: nat
  max_assignments :: nat
  max_active_assignments :: nat
  max_dependencies_per_request :: nat
  max_affinity_entries :: nat
  max_anti_affinity_entries :: nat
  max_sources :: nat
  max_capability_records :: nat
  max_observations :: nat
  max_authority_grants :: nat
  max_semantics_per_requirement :: nat
  max_reasons_per_explanation :: nat
  max_reason_detail_bytes :: nat
  max_candidates_per_plan :: nat
  max_candidates_reported :: nat
  max_history_per_assignment :: nat
  max_effects_per_assignment :: nat
  max_provenance_records :: nat
  max_canonical_bytes :: nat
  max_export_bytes :: nat
  max_text_bytes :: nat
  max_json_depth :: nat
  max_record_bytes :: nat
  max_journal_bytes :: nat
  max_snapshot_bytes :: nat
  max_store_bytes :: nat
  max_compaction_chain :: nat
  max_workers :: nat
  max_queue_depth :: nat
  max_pending_requests :: nat
  max_idempotency_entries :: nat
  max_frame_bytes :: nat
  max_connections :: nat
  max_request_bytes :: nat
  max_reassignments_per_scope :: nat
  max_reassignment_window_micros :: nat
  max_explanation_bytes :: nat

definition default_bounds :: Bounds where
  "default_bounds =
     \<lparr>max_hosts = 4096,
      max_devices = 16384,
      max_functions = 65536,
      max_scopes = 65536,
      max_assignments = 65536,
      max_active_assignments = 65536,
      max_dependencies_per_request = 64,
      max_affinity_entries = 64,
      max_anti_affinity_entries = 64,
      max_sources = 4096,
      max_capability_records = 262144,
      max_observations = 262144,
      max_authority_grants = 65536,
      max_semantics_per_requirement = 32,
      max_reasons_per_explanation = 24,
      max_reason_detail_bytes = 256,
      max_candidates_per_plan = 8192,
      max_candidates_reported = 256,
      max_history_per_assignment = 32,
      max_effects_per_assignment = 64,
      max_provenance_records = 8192,
      max_canonical_bytes = 33554432,
      max_export_bytes = 33554432,
      max_text_bytes = 4096,
      max_json_depth = 32,
      max_record_bytes = 4194304,
      max_journal_bytes = 67108864,
      max_snapshot_bytes = 67108864,
      max_store_bytes = 268435456,
      max_compaction_chain = 1024,
      max_workers = 8,
      max_queue_depth = 256,
      max_pending_requests = 1024,
      max_idempotency_entries = 8192,
      max_frame_bytes = 1048576,
      max_connections = 64,
      max_request_bytes = 524288,
      max_reassignments_per_scope = 16,
      max_reassignment_window_micros = 86400000000,
      max_explanation_bytes = 1048576\<rparr>"

definition require_nonzero :: "nat \<Rightarrow> string \<Rightarrow> Status" where
  "require_nonzero v field =
     require (v \<noteq> 0) RC_InvalidConfiguration (field @ '': must be greater than zero'')"

definition validate_bounds :: "Bounds \<Rightarrow> Status" where
  "validate_bounds b = first_error
    [require (\<not> (max_hosts b = 0 \<or> max_devices b = 0 \<or> max_functions b = 0 \<or> max_scopes b = 0 \<or>
         max_assignments b = 0)) RC_InvalidConfiguration
       ''state ceilings: must be greater than zero'',
     require (\<not> max_assignments b > 100000000) RC_InvalidConfiguration
       ''max_assignments: exceeds the supported ceiling'',
     require (\<not> max_canonical_bytes b < 1024) RC_InvalidConfiguration
       ''max_canonical_bytes: must be at least 1024'',
     require (\<not> (max_text_bytes b = 0 \<or> max_text_bytes b > max_canonical_bytes b))
       RC_InvalidConfiguration
       ''max_text_bytes: must be non-zero and no larger than max_canonical_bytes'',
     require (\<not> (max_json_depth b = 0 \<or> max_json_depth b > 256)) RC_InvalidConfiguration
       ''max_json_depth: must be between 1 and 256'',
     require (\<not> max_export_bytes b < max_canonical_bytes b) RC_InvalidConfiguration
       ''max_export_bytes: must be at least max_canonical_bytes'',
     require (\<not> max_record_bytes b < 256) RC_InvalidConfiguration
       ''max_record_bytes: must be at least 256'',
     require (\<not> max_journal_bytes b < max_record_bytes b) RC_InvalidConfiguration
       ''max_journal_bytes: must be at least max_record_bytes'',
     require (\<not> max_snapshot_bytes b < max_record_bytes b) RC_InvalidConfiguration
       ''max_snapshot_bytes: must be at least max_record_bytes'',
     require (\<not> max_store_bytes b < max_snapshot_bytes b) RC_InvalidConfiguration
       ''max_store_bytes: must be at least max_snapshot_bytes'',
     require_nonzero (max_compaction_chain b) ''max_compaction_chain'',
     require (\<not> (max_workers b = 0 \<or> max_workers b > 1024)) RC_InvalidConfiguration
       ''max_workers: must be between 1 and 1024'',
     require (\<not> (max_queue_depth b = 0 \<or> max_queue_depth b > 1000000)) RC_InvalidConfiguration
       ''max_queue_depth: must be between 1 and 1000000'',
     require (max_pending_requests b \<noteq> 0) RC_InvalidConfiguration
       ''max_pending_requests: must be greater than zero'',
     require (max_idempotency_entries b \<noteq> 0) RC_InvalidConfiguration
       ''max_idempotency_entries: must be greater than zero'',
     require (\<not> (max_frame_bytes b < 64 \<or> max_frame_bytes b > 1024 * 1024 * 1024))
       RC_InvalidConfiguration ''max_frame_bytes: must be between 64 and 1 GiB'',
     require (\<not> (max_request_bytes b = 0 \<or> max_request_bytes b > max_frame_bytes b))
       RC_InvalidConfiguration
       ''max_request_bytes: must be non-zero and no larger than max_frame_bytes'',
     require (\<not> (max_connections b = 0 \<or> max_connections b > 4096)) RC_InvalidConfiguration
       ''max_connections: must be between 1 and 4096'',
     require (\<not> (max_semantics_per_requirement b = 0 \<or> max_semantics_per_requirement b > 64))
       RC_InvalidConfiguration ''max_semantics_per_requirement: must be between 1 and 64'',
     require (\<not> (max_reasons_per_explanation b = 0 \<or> max_reasons_per_explanation b > 256))
       RC_InvalidConfiguration ''max_reasons_per_explanation: must be between 1 and 256'',
     require (\<not> (max_reason_detail_bytes b = 0 \<or> max_reason_detail_bytes b > 65536))
       RC_InvalidConfiguration ''max_reason_detail_bytes: must be between 1 and 65536'',
     require (\<not> (max_candidates_per_plan b = 0 \<or> max_candidates_reported b = 0))
       RC_InvalidConfiguration ''candidate bounds: must be greater than zero'',
     require (\<not> max_candidates_reported b > max_candidates_per_plan b) RC_InvalidConfiguration
       ''max_candidates_reported: must not exceed max_candidates_per_plan'',
     require (\<not> (max_history_per_assignment b = 0 \<or> max_effects_per_assignment b = 0))
       RC_InvalidConfiguration ''history bounds: must be greater than zero'',
     require (max_provenance_records b \<noteq> 0) RC_InvalidConfiguration
       ''max_provenance_records: must be greater than zero'',
     require (max_dependencies_per_request b \<noteq> 0) RC_InvalidConfiguration
       ''max_dependencies_per_request: must be greater than zero'',
     require (max_reassignments_per_scope b \<noteq> 0) RC_InvalidConfiguration
       ''max_reassignments_per_scope: must be greater than zero'',
     require (max_reassignment_window_micros b \<noteq> 0) RC_InvalidConfiguration
       ''max_reassignment_window_micros: must be greater than zero'',
     require (\<not> max_explanation_bytes b < 1024) RC_InvalidConfiguration
       ''max_explanation_bytes: must be at least 1024'']"

lemma default_bounds_valid: "validate_bounds default_bounds = ok_status"
  by (simp add: validate_bounds_def default_bounds_def require_nonzero_def)

subsection \<open>Topology\<close>

record HostRecord =
  hr_id :: HostId
  hr_labels :: "string list"

record DeviceRecord =
  dr_id :: DeviceId
  dr_host :: HostId
  dr_kind :: DeviceKind
  dr_incarnation :: IncarnationId
  dr_capacity :: CapacityVector
  dr_labels :: "string list"
  dr_decommissioned :: bool

datatype LinkRecord = LinkRecord (lr_a: DeviceId) (lr_b: DeviceId) (lr_kind: LinkKind)

definition link_less :: "LinkRecord \<Rightarrow> LinkRecord \<Rightarrow> bool" where
  "link_less x y \<longleftrightarrow> lr_a x < lr_a y \<or> (lr_a x = lr_a y \<and>
     (lr_b x < lr_b y \<or> (lr_b x = lr_b y \<and> lr_kind x < lr_kind y)))"

record TopologySnapshot =
  ts_generation :: Gen
  ts_provenance :: Provenance
  ts_freshness :: Freshness
  ts_hosts :: "HostRecord list"
  ts_devices :: "DeviceRecord list"
  ts_links :: "LinkRecord list"

definition is_offload_kind :: "DeviceKind \<Rightarrow> bool" where
  "is_offload_kind k = (k \<noteq> DK_HostStack)"

definition find_device :: "TopologySnapshot \<Rightarrow> DeviceId \<Rightarrow> DeviceRecord option" where
  "find_device t i = lower_bound_find dr_id (ts_devices t) i"

definition find_host :: "TopologySnapshot \<Rightarrow> HostId \<Rightarrow> HostRecord option" where
  "find_host t i = lower_bound_find hr_id (ts_hosts t) i"

fun check_labels_from :: "string \<Rightarrow> string list \<Rightarrow> string \<Rightarrow> Status" where
  "check_labels_from previous [] field = ok_status"
| "check_labels_from previous (label # labels) field =
     (if \<not> is_valid_token label
      then Err RC_InvalidIdentifier (field @ '' label is not a canonical token: '' @ label)
      else if previous \<noteq> [] \<and> \<not> previous < label
      then Err RC_DuplicateIdentity (field @ '' labels must be sorted and unique'')
      else check_labels_from label labels field)"

definition check_labels :: "string list \<Rightarrow> string \<Rightarrow> Status" where
  "check_labels labels field = check_labels_from [] labels field"

definition check_freshness :: "Freshness \<Rightarrow> string \<Rightarrow> Status" where
  "check_freshness f field =
     (if fr_observed_at f \<le> 0
      then Err RC_MalformedInput (field @ '' observation time is missing'')
      else if fr_valid_until f \<le> fr_observed_at f
      then Err RC_MalformedInput (field @ '' validity interval is empty or inverted'')
      else ok_status)"

definition check_canonical_order :: "TopologySnapshot \<Rightarrow> Status" where
  "check_canonical_order t = first_error
    [require (adjacent (\<lambda>x y. hr_id x < hr_id y) (ts_hosts t)) RC_DuplicateIdentity
       ''hosts must be sorted by identifier without duplicates'',
     require (adjacent (\<lambda>x y. dr_id x < dr_id y) (ts_devices t)) RC_DuplicateIdentity
       ''devices must be sorted by identifier without duplicates'',
     require (adjacent link_less (ts_links t)) RC_DuplicateIdentity
       ''links must be sorted by endpoints without duplicates'']"

definition validate_host :: "HostRecord \<Rightarrow> Status" where
  "validate_host h =
     (if hr_id h = [] then Err RC_InvalidIdentifier ''host identifier is empty''
      else check_labels (hr_labels h) ''host'')"

definition validate_device :: "TopologySnapshot \<Rightarrow> DeviceRecord \<Rightarrow> Status" where
  "validate_device t d =
     (if dr_id d = [] then Err RC_InvalidIdentifier ''device identifier is empty''
      else if dr_host d = [] then Err RC_MalformedInput ''device carries no host''
      else if find_host t (dr_host d) = None
      then Err RC_UnknownIdentity (''device references an unknown host: '' @ dr_host d)
      else if \<not> incarnation_is_set (dr_incarnation d)
      then Err RC_IncarnationMismatch ''device incarnation is unset''
      else check_labels (dr_labels d) ''device'')"

definition validate_link :: "TopologySnapshot \<Rightarrow> LinkRecord \<Rightarrow> Status" where
  "validate_link t l =
     (if lr_a l = lr_b l then Err RC_MalformedInput ''link endpoints must differ''
      else if find_device t (lr_a l) = None \<or> find_device t (lr_b l) = None
      then Err RC_UnknownIdentity ''link references an unknown device''
      else ok_status)"

definition validate_topology :: "TopologySnapshot \<Rightarrow> Bounds \<Rightarrow> Status" where
  "validate_topology t bounds = first_error
    [validate_bounds bounds,
     require (gen_is_set (ts_generation t)) RC_OutOfRange ''topology generation is unset'',
     require (provenance_is_set (ts_provenance t)) RC_ProvenanceMismatch
       ''topology provenance is unset'',
     check_freshness (ts_freshness t) ''topology'',
     require (ts_hosts t \<noteq> []) RC_EmptyInput ''topology carries no hosts'',
     require (\<not> length (ts_hosts t) > max_hosts bounds) RC_LimitExceeded
       ''topology host count exceeds bound'',
     require (\<not> length (ts_devices t) > max_devices bounds) RC_LimitExceeded
       ''topology device count exceeds bound'',
     require (\<not> length (ts_links t) > size_mul (max_devices bounds) 8) RC_LimitExceeded
       ''topology link count exceeds bound'',
     check_canonical_order t,
     for_each validate_host (ts_hosts t),
     for_each (validate_device t) (ts_devices t),
     for_each (validate_link t) (ts_links t)]"

lemma check_labels_from_ok:
  "check_labels_from previous labels field = ok_status \<Longrightarrow>
     list_all is_valid_token labels \<and> sorted_wrt (<) (if previous = [] then labels else previous # labels)"
proof (induction previous labels field rule: check_labels_from.induct)
  case (2 previous label labels field)
  then have IH: "list_all is_valid_token labels" "sorted_wrt (<) (label # labels)"
    by (auto split: if_splits dest: valid_token_nonempty)
  have "previous \<noteq> [] \<Longrightarrow> previous < label" "is_valid_token label" using "2.prems"
    by (auto split: if_splits)
  with IH show ?case by (auto intro: less_trans)
qed simp

text \<open>What a validated topology guarantees to its users.\<close>

definition topology_wf :: "TopologySnapshot \<Rightarrow> bool" where
  "topology_wf t \<longleftrightarrow>
     gen_is_set (ts_generation t) \<and> provenance_is_set (ts_provenance t) \<and>
     0 < fr_observed_at (ts_freshness t) \<and>
     fr_observed_at (ts_freshness t) < fr_valid_until (ts_freshness t) \<and>
     sorted_wrt (<) (map hr_id (ts_hosts t)) \<and> sorted_wrt (<) (map dr_id (ts_devices t)) \<and>
     (\<forall>d\<in>set (ts_devices t). dr_id d \<noteq> [] \<and> dr_host d \<in> hr_id ` set (ts_hosts t) \<and>
        incarnation_is_set (dr_incarnation d) \<and> sorted_wrt (<) (dr_labels d)) \<and>
     (\<forall>l\<in>set (ts_links t). lr_a l \<noteq> lr_b l \<and> lr_a l \<in> dr_id ` set (ts_devices t) \<and>
        lr_b l \<in> dr_id ` set (ts_devices t))"

lemma adjacent_map_less:
  "adjacent (\<lambda>x y. f x < (f y :: 'a::linorder)) xs \<longleftrightarrow> sorted_wrt (<) (map f xs)"
  by (subst adjacent_sorted_wrt) (auto simp: sorted_wrt_map intro!: transpI)

lemma check_freshness_ok:
  "check_freshness f field = ok_status \<longleftrightarrow>
     0 < fr_observed_at f \<and> fr_observed_at f < fr_valid_until f"
  by (auto simp: check_freshness_def)

lemma validate_topology_wf:
  assumes "validate_topology t bounds = ok_status"
  shows "topology_wf t"
proof -
  from assms have oks: "\<forall>s\<in>set [validate_bounds bounds] \<union> set [check_freshness (ts_freshness t) ''topology'',
      check_canonical_order t, for_each validate_host (ts_hosts t),
      for_each (validate_device t) (ts_devices t), for_each (validate_link t) (ts_links t)]. ok s"
    and basic: "gen_is_set (ts_generation t)" "provenance_is_set (ts_provenance t)"
    by (auto simp: validate_topology_def and_then_Inr)
  from oks have sorted: "sorted_wrt (<) (map hr_id (ts_hosts t))"
      "sorted_wrt (<) (map dr_id (ts_devices t))"
    by (auto simp: check_canonical_order_def adjacent_map_less ok_iff_Inr and_then_Inr)
  from oks have dev: "\<forall>d\<in>set (ts_devices t). validate_device t d = ok_status"
    and link: "\<forall>l\<in>set (ts_links t). validate_link t l = ok_status"
    by (simp_all add: ok_iff_Inr for_each_Inr)
  have d: "dr_id d \<noteq> [] \<and> dr_host d \<in> hr_id ` set (ts_hosts t) \<and>
        incarnation_is_set (dr_incarnation d) \<and> sorted_wrt (<) (dr_labels d)"
    if "d \<in> set (ts_devices t)" for d
    using bspec [OF dev that]
    by (auto simp: validate_device_def find_host_def check_labels_def split: if_splits
        intro: rev_image_eqI dest!: lower_bound_find_Some check_labels_from_ok)
  have l: "lr_a l \<noteq> lr_b l \<and> lr_a l \<in> dr_id ` set (ts_devices t) \<and> lr_b l \<in> dr_id ` set (ts_devices t)"
    if "l \<in> set (ts_links t)" for l
    using bspec [OF link that]
    by (auto simp: validate_link_def find_device_def split: if_splits
        intro: rev_image_eqI dest!: lower_bound_find_Some)
  from oks have "0 < fr_observed_at (ts_freshness t) \<and>
      fr_observed_at (ts_freshness t) < fr_valid_until (ts_freshness t)"
    by (simp add: ok_iff_Inr check_freshness_ok)
  with basic sorted d l show ?thesis by (simp add: topology_wf_def)
qed

lemma find_device_wf:
  "topology_wf t \<Longrightarrow> find_device t i = Some d \<longleftrightarrow> d \<in> set (ts_devices t) \<and> dr_id d = i"
  by (simp add: topology_wf_def find_device_def lower_bound_find_iff)

lemma find_device_id: "find_device t i = Some d \<Longrightarrow> d \<in> set (ts_devices t) \<and> dr_id d = i"
  unfolding find_device_def by (rule lower_bound_find_Some)

subsection \<open>Capabilities\<close>

record CapabilityRecord =
  cr_device :: DeviceId
  cr_incarnation :: IncarnationId
  cr_cls :: FunctionClass
  cr_supported :: SemanticsMask
  cr_unsupported :: SemanticsMask
  cr_unknown :: SemanticsMask
  cr_version_range :: VersionRange
  cr_capacity :: CapacityVector
  cr_schema :: Gen
  cr_generation :: Gen
  cr_provenance :: Provenance
  cr_freshness :: Freshness
  cr_revoked :: bool

record CapabilityReport =
  cp_provenance :: Provenance
  cp_freshness :: Freshness
  cp_records :: "CapabilityRecord list"

definition capability_find :: "CapabilityReport \<Rightarrow> DeviceId \<Rightarrow> FunctionClass \<Rightarrow> CapabilityRecord option" where
  "capability_find report device cls =
     List.find (\<lambda>r. cr_device r = device \<and> cr_cls r = cls) (cp_records report)"

definition validate_capability_record :: "Bounds \<Rightarrow> CapabilityRecord \<Rightarrow> Status" where
  "validate_capability_record bounds r = first_error
    [require (cr_device r \<noteq> []) RC_InvalidIdentifier ''capability record has no device'',
     require (incarnation_is_set (cr_incarnation r)) RC_IncarnationMismatch
       ''capability record incarnation is unset'',
     require (gen_is_set (cr_generation r)) RC_OutOfRange
       ''capability record generation is unset'',
     require (gen_is_set (cr_schema r)) RC_OutOfRange
       ''capability record schema generation is unset'',
     require (provenance_is_set (cr_provenance r)) RC_ProvenanceMismatch
       ''capability record provenance is unset'',
     check_freshness (cr_freshness r) ''capability record'',
     require (\<not> (cr_supported r AND cr_unsupported r \<noteq> 0 \<or> cr_supported r AND cr_unknown r \<noteq> 0 \<or>
         cr_unsupported r AND cr_unknown r \<noteq> 0)) RC_SemanticsMismatch
       ''capability record classifies a semantic in more than one bucket'',
     require (\<not> mask_count (cr_supported r) > size_mul (max_semantics_per_requirement bounds) 4)
       RC_LimitExceeded ''capability record claims too many semantics'',
     require (\<not> vr_maximum (cr_version_range r) < vr_minimum (cr_version_range r))
       RC_MalformedInput ''capability version range is inverted'']"

definition capability_order :: "CapabilityRecord \<Rightarrow> CapabilityRecord \<Rightarrow> Status" where
  "capability_order previous current =
     (if cr_device previous = cr_device current \<and> cr_cls previous = cr_cls current
      then Err RC_DuplicateIdentity ''capability report repeats a device and function class''
      else if cr_device current < cr_device previous \<or>
              (cr_device current = cr_device previous \<and> \<not> cr_cls previous < cr_cls current)
      then Err RC_DuplicateIdentity
             ''capability records must be ordered by device then function class''
      else ok_status)"

fun for_each_pair :: "('a \<Rightarrow> 'a \<Rightarrow> Status) \<Rightarrow> 'a list \<Rightarrow> Status" where
  "for_each_pair f (x # y # zs) = and_then (f x y) (\<lambda>_. for_each_pair f (y # zs))"
| "for_each_pair f _ = ok_status"

lemma for_each_pair_Inr: "for_each_pair f xs = ok_status \<longleftrightarrow> adjacent (\<lambda>x y. ok (f x y)) xs"
  by (induction f xs rule: for_each_pair.induct) (auto simp: and_then_def split: sum.splits)

definition validate_capability_report :: "CapabilityReport \<Rightarrow> Bounds \<Rightarrow> Status" where
  "validate_capability_report report bounds = first_error
    [require (provenance_is_set (cp_provenance report)) RC_ProvenanceMismatch
       ''capability report provenance is unset'',
     check_freshness (cp_freshness report) ''capability report'',
     require (cp_records report \<noteq> []) RC_EmptyInput ''capability report carries no records'',
     require (\<not> length (cp_records report) > max_capability_records bounds) RC_LimitExceeded
       ''capability record count exceeds bound'',
     for_each (validate_capability_record bounds) (cp_records report),
     for_each_pair capability_order (cp_records report)]"

record CapabilityMatch =
  cm_verdict :: MatchVerdict
  cm_reason :: ReasonCode
  cm_unsatisfied :: SemanticsMask
  cm_denied :: SemanticsMask
  cm_unresolved :: SemanticsMask

definition no_match :: "MatchVerdict \<Rightarrow> ReasonCode \<Rightarrow> CapabilityMatch" where
  "no_match v r = \<lparr>cm_verdict = v, cm_reason = r, cm_unsatisfied = 0, cm_denied = 0,
     cm_unresolved = 0\<rparr>"

definition match_capability ::
    "FunctionDescriptor \<Rightarrow> CapabilityRecord \<Rightarrow> IncarnationId \<Rightarrow> Micros \<Rightarrow> CapabilityMatch" where
  "match_capability function r expected_incarnation now =
     (if cr_revoked r then no_match MV_Revoked RC_CapabilityUnsupported
      else if cr_incarnation r \<noteq> expected_incarnation
      then no_match MV_IncarnationMismatch RC_IncarnationMismatch
      else if is_expired (cr_freshness r) now then no_match MV_Stale RC_CapabilityStale
      else if \<not> admits (cr_version_range r) (fd_required_version function)
      then no_match MV_VersionIncompatible RC_CapabilityIncompatible
      else
        let required = fd_required function;
            denied = mask_intersection required (cr_unsupported r);
            unresolved = mask_intersection required (cr_unknown r);
            unsatisfied = mask_difference required (cr_supported r)
        in if denied \<noteq> 0
           then (no_match MV_Unsupported RC_CapabilityUnsupported)\<lparr>cm_denied := denied\<rparr>
           else if unresolved \<noteq> 0
           then (no_match MV_Unknown RC_CapabilityUnknown)\<lparr>cm_unresolved := unresolved\<rparr>
           else if unsatisfied \<noteq> 0
           then (no_match MV_Unknown RC_CapabilityUnknown)\<lparr>cm_unsatisfied := unsatisfied\<rparr>
           else no_match MV_Eligible RC_Ok)"

definition match_eligible :: "CapabilityMatch \<Rightarrow> bool" where
  "match_eligible m = (cm_verdict m = MV_Eligible)"

definition capability_records_conflict :: "CapabilityRecord \<Rightarrow> CapabilityRecord \<Rightarrow> bool" where
  "capability_records_conflict a b =
     (if cr_device a \<noteq> cr_device b \<or> cr_cls a \<noteq> cr_cls b then False
      else cr_supported a \<noteq> cr_supported b \<or> cr_unsupported a \<noteq> cr_unsupported b \<or>
           cr_unknown a \<noteq> cr_unknown b \<or> cr_version_range a \<noteq> cr_version_range b \<or>
           cr_capacity a \<noteq> cr_capacity b \<or> cr_revoked a \<noteq> cr_revoked b \<or>
           cr_incarnation a \<noteq> cr_incarnation b)"

lemma mask_intersection_0_iff: "mask_intersection a b = 0 \<longleftrightarrow> mask_bits a \<inter> mask_bits b = {}"
  by (metis mask_bits_empty_iff mask_bits_intersection)

lemma mask_difference_0_iff: "mask_difference a b = 0 \<longleftrightarrow> mask_bits a \<subseteq> mask_bits b"
  by (metis Diff_eq_empty_iff mask_bits_difference mask_bits_empty_iff)

text \<open>Exact matching, in terms of the sets of semantics: a capability record makes a function eligible exactly when it is not revoked, is
  bound to the expected incarnation, is still fresh, admits the required version, claims every
  required semantic, and neither denies one nor leaves one unknown.\<close>

lemma match_capability_eligible_iff:
  "match_eligible (match_capability f r inc now) \<longleftrightarrow>
     \<not> cr_revoked r \<and> cr_incarnation r = inc \<and> \<not> is_expired (cr_freshness r) now \<and>
     admits (cr_version_range r) (fd_required_version f) \<and>
     mask_bits (fd_required f) \<subseteq> mask_bits (cr_supported r) \<and>
     mask_bits (fd_required f) \<inter> mask_bits (cr_unsupported r) = {} \<and>
     mask_bits (fd_required f) \<inter> mask_bits (cr_unknown r) = {}"
  by (auto simp: match_capability_def match_eligible_def no_match_def Let_def
      mask_intersection_0_iff mask_difference_0_iff)

lemma match_capability_reason:
  "match_eligible (match_capability f r inc now) \<longleftrightarrow> cm_reason (match_capability f r inc now) = RC_Ok"
  by (simp add: match_capability_def match_eligible_def no_match_def Let_def)

text \<open>A mandatory semantic the record says nothing about is unknown, never eligible.\<close>

lemma match_capability_silence:
  assumes "n \<in> mask_bits (fd_required f)" and "n \<notin> mask_bits (cr_supported r)"
    and "\<not> cr_revoked r" "cr_incarnation r = inc" "\<not> is_expired (cr_freshness r) now"
    and "admits (cr_version_range r) (fd_required_version f)"
    and "mask_bits (fd_required f) \<inter> mask_bits (cr_unsupported r) = {}"
  shows "cm_verdict (match_capability f r inc now) = MV_Unknown \<and>
    cm_reason (match_capability f r inc now) = RC_CapabilityUnknown"
proof -
  from assms(1,2) have "mask_difference (fd_required f) (cr_supported r) \<noteq> 0"
    by (auto simp: mask_difference_0_iff)
  with assms show ?thesis
    by (simp add: match_capability_def no_match_def Let_def mask_intersection_0_iff [of _ "cr_unsupported r"])
qed

subsection \<open>Policy\<close>

record PolicyRule =
  pr_cls :: FunctionClass
  pr_required :: SemanticsMask
  pr_allowed_kinds :: "DeviceKind list"
  pr_exclusive_key :: ExclusiveKeyMode
  pr_allow_host_fallback :: bool
  pr_require_authority :: bool
  pr_require_fresh_observation :: bool
  pr_require_capability :: bool
  pr_priority :: u32
  pr_max_reassignments_per_scope :: nat
  pr_reassignment_window_micros :: u64
  pr_max_assignments_per_device :: nat
  pr_reserve :: DemandVector

record PolicySnapshot =
  ps_generation :: Gen
  ps_provenance :: Provenance
  ps_freshness :: Freshness
  ps_rules :: "PolicyRule list"
  ps_default_deny :: bool

definition find_rule :: "PolicySnapshot \<Rightarrow> FunctionClass \<Rightarrow> PolicyRule option" where
  "find_rule p cls = List.find (\<lambda>r. pr_cls r = cls) (ps_rules p)"

definition check_kind_list :: "DeviceKind list \<Rightarrow> string \<Rightarrow> Status" where
  "check_kind_list kinds field =
     (if kinds = [] then Err RC_MalformedInput (field @ '' device kind list is empty'')
      else require (adjacent (<) kinds) RC_DuplicateIdentity
             (field @ '' device kinds must be sorted and unique''))"

definition validate_policy_rule :: "Bounds \<Rightarrow> PolicyRule \<Rightarrow> Status" where
  "validate_policy_rule bounds r = first_error
    [check_kind_list (pr_allowed_kinds r) ''policy rule'',
     require (pr_reassignment_window_micros r \<noteq> 0) RC_MalformedInput
       ''policy reassignment window must be non-zero'',
     require (\<not> (pr_max_reassignments_per_scope r = 0 \<or>
         pr_max_reassignments_per_scope r > max_reassignments_per_scope bounds)) RC_LimitExceeded
       ''policy reassignment budget exceeds the configured bound'',
     require (\<not> unat (pr_reassignment_window_micros r) > max_reassignment_window_micros bounds)
       RC_LimitExceeded ''policy reassignment window exceeds the configured bound'',
     require (\<not> (pr_max_assignments_per_device r = 0 \<or>
         pr_max_assignments_per_device r > max_active_assignments bounds)) RC_LimitExceeded
       ''policy device assignment ceiling exceeds the configured bound'']"

definition policy_order :: "PolicyRule \<Rightarrow> PolicyRule \<Rightarrow> Status" where
  "policy_order previous current =
     (if pr_priority previous = pr_priority current \<and> pr_cls previous = pr_cls current
      then Err RC_DuplicateIdentity
             ''policy rules must be ordered by priority then class without duplicates''
      else if pr_priority previous > pr_priority current \<or>
              (pr_priority previous = pr_priority current \<and> \<not> pr_cls previous < pr_cls current)
      then Err RC_DuplicateIdentity ''policy rules must be ordered by priority then class''
      else ok_status)"

definition validate_policy_snapshot :: "PolicySnapshot \<Rightarrow> Bounds \<Rightarrow> Status" where
  "validate_policy_snapshot p bounds = first_error
    [require (gen_is_set (ps_generation p)) RC_OutOfRange ''policy generation is unset'',
     require (provenance_is_set (ps_provenance p)) RC_ProvenanceMismatch
       ''policy provenance is unset'',
     check_freshness (ps_freshness p) ''policy'',
     require (\<not> length (ps_rules p) > max_functions bounds) RC_LimitExceeded
       ''policy rule count exceeds bound'',
     for_each (validate_policy_rule bounds) (ps_rules p),
     for_each_pair policy_order (ps_rules p)]"

text \<open>
  On a validated policy the first rule of a class is the one with the lowest priority value,
  as the field's documentation says.
\<close>

lemma policy_order_ok:
  "ok (policy_order a b) \<longleftrightarrow>
     pr_priority a < pr_priority b \<or> (pr_priority a = pr_priority b \<and> pr_cls a < pr_cls b)"
  by (auto simp: policy_order_def not_less)

lemma find_rule_lowest_priority:
  assumes "for_each_pair policy_order rules = ok_status"
    and "List.find (\<lambda>r. pr_cls r = cls) rules = Some rule" and "r \<in> set rules" and "pr_cls r = cls"
  shows "pr_priority rule \<le> pr_priority r"
proof -
  have "transp (\<lambda>a b. ok (policy_order a b))"
    by (auto simp: transp_def policy_order_ok)
  with assms(1) have "sorted_wrt (\<lambda>a b. ok (policy_order a b)) rules"
    by (simp add: for_each_pair_Inr adjacent_sorted_wrt)
  then show ?thesis using assms(2-)
  proof (induction rules)
    case Nil
    then show ?case by simp
  next
    case (Cons x xs)
    then show ?case by (cases "pr_cls x = cls") (auto simp: policy_order_ok)
  qed
qed

lemma find_rule_cls: "find_rule p cls = Some r \<Longrightarrow> pr_cls r = cls \<and> r \<in> set (ps_rules p)"
  by (auto simp: find_rule_def find_Some_iff)

subsection \<open>Observations\<close>

record DeviceObservation =
  do_device :: DeviceId
  do_incarnation :: IncarnationId
  do_liveness :: Liveness
  do_available :: CapacityVector
  do_available_known :: bool
  do_freshness :: Freshness
  do_provenance :: Provenance

definition no_observation :: DeviceObservation where
  "no_observation = \<lparr>do_device = [], do_incarnation = no_incarnation, do_liveness = LV_Unknown,
     do_available = zero_capacity, do_available_known = False, do_freshness = no_freshness,
     do_provenance = no_provenance\<rparr>"

record ObservationReport =
  or_topology_generation :: Gen
  or_provenance :: Provenance
  or_freshness :: Freshness
  or_devices :: "DeviceObservation list"

definition observation_find :: "ObservationReport \<Rightarrow> DeviceId \<Rightarrow> DeviceObservation option" where
  "observation_find report device = lower_bound_find do_device (or_devices report) device"

definition freshness_usable_interval :: "Freshness \<Rightarrow> bool" where
  "freshness_usable_interval f =
     (\<not> (fr_observed_at f \<le> 0 \<or> fr_valid_until f \<le> fr_observed_at f))"

fun validate_observations :: "DeviceObservation option \<Rightarrow> DeviceObservation list \<Rightarrow> Status" where
  "validate_observations previous [] = ok_status"
| "validate_observations previous (o1 # rest) =
     (if do_device o1 = [] then Err RC_InvalidIdentifier ''observation has no device''
      else if \<not> incarnation_is_set (do_incarnation o1)
      then Err RC_IncarnationMismatch ''observation incarnation is unset''
      else if \<not> provenance_is_set (do_provenance o1)
      then Err RC_ProvenanceMismatch ''observation provenance is unset''
      else if \<not> freshness_usable_interval (do_freshness o1)
      then Err RC_MalformedInput ''observation freshness is not usable''
      else if (case previous of None \<Rightarrow> False | Some p \<Rightarrow> \<not> do_device p < do_device o1)
      then Err RC_DuplicateIdentity ''observations must be sorted by device without duplicates''
      else validate_observations (Some o1) rest)"

definition validate_observation_report :: "ObservationReport \<Rightarrow> Bounds \<Rightarrow> Status" where
  "validate_observation_report report bounds = first_error
    [require (gen_is_set (or_topology_generation report)) RC_TopologyStale
       ''observation report carries no topology generation'',
     require (provenance_is_set (or_provenance report)) RC_ProvenanceMismatch
       ''observation report provenance is unset'',
     require (freshness_usable_interval (or_freshness report)) RC_MalformedInput
       ''observation report freshness is not usable'',
     require (or_devices report \<noteq> []) RC_EmptyInput
       ''observation report carries no device observations'',
     require (\<not> length (or_devices report) > max_observations bounds) RC_LimitExceeded
       ''observation count exceeds bound'',
     validate_observations None (or_devices report)]"

lemma validate_observations_sorted:
  "validate_observations previous os = ok_status \<Longrightarrow>
     sorted_wrt (<) (map do_device (case previous of None \<Rightarrow> os | Some p \<Rightarrow> p # os)) \<and>
     (\<forall>o1\<in>set os. do_device o1 \<noteq> [] \<and> incarnation_is_set (do_incarnation o1) \<and>
        provenance_is_set (do_provenance o1) \<and> freshness_usable_interval (do_freshness o1))"
proof (induction previous os rule: validate_observations.induct)
  case (1 previous)
  then show ?case by (simp split: option.splits)
next
  case (2 previous o1 rest)
  from "2.prems" have "validate_observations (Some o1) rest = ok_status"
    and prev: "case previous of None \<Rightarrow> True | Some p \<Rightarrow> do_device p < do_device o1"
    by (auto split: if_splits option.splits)
  with 2 have "sorted_wrt (<) (map do_device (o1 # rest))"
    "\<forall>x\<in>set rest. do_device x \<noteq> [] \<and> incarnation_is_set (do_incarnation x) \<and>
        provenance_is_set (do_provenance x) \<and> freshness_usable_interval (do_freshness x)"
    by (auto split: if_splits)
  with "2.prems" prev show ?case
    by (auto split: option.splits if_splits intro: less_trans)
qed

subsection \<open>Authority\<close>

record AuthorityGrant =
  ag_id :: AuthorityId
  ag_policy_generation :: Gen
  ag_classes :: "FunctionClass list"
  ag_kinds :: "DeviceKind list"
  ag_actions :: "AuthorityAction list"
  ag_host_scope :: HostId
  ag_scope :: ScopeId
  ag_semantics_ceiling :: SemanticsMask
  ag_issued_at :: Micros
  ag_expires_at :: Micros
  ag_provenance :: Provenance
  ag_freshness :: Freshness
  ag_revoked :: bool
  ag_max_uses :: u64
  ag_used :: u64

definition check_sorted_unique :: "'a::linorder list \<Rightarrow> string \<Rightarrow> Status" where
  "check_sorted_unique vs field =
     (if vs = [] then Err RC_MalformedInput (field @ '' list is empty'')
      else require (adjacent (<) vs) RC_DuplicateIdentity
             (field @ '' list must be sorted and unique''))"

definition validate_authority_grant :: "AuthorityGrant \<Rightarrow> Bounds \<Rightarrow> Status" where
  "validate_authority_grant g bounds = first_error
    [require (ag_id g \<noteq> []) RC_InvalidIdentifier ''authority grant identifier is empty'',
     check_sorted_unique (ag_classes g) ''authority class'',
     check_sorted_unique (ag_kinds g) ''authority device kind'',
     check_sorted_unique (ag_actions g) ''authority action'',
     require (gen_is_set (ag_policy_generation g)) RC_PolicyStale
       ''authority grant is not bound to a policy generation'',
     require (\<not> ag_issued_at g \<le> 0) RC_MalformedInput ''authority grant issue time is missing'',
     require (\<not> ag_expires_at g \<le> ag_issued_at g) RC_MalformedInput
       ''authority grant validity interval is empty'',
     require (provenance_is_set (ag_provenance g)) RC_ProvenanceMismatch
       ''authority grant provenance is unset'',
     require (freshness_usable_interval (ag_freshness g)) RC_MalformedInput
       ''authority grant freshness is not usable'',
     require (\<not> fr_valid_until (ag_freshness g) > ag_expires_at g) RC_MalformedInput
       ''authority grant freshness must not outlive the grant itself'',
     require (\<not> (ag_max_uses g \<noteq> 0 \<and> ag_used g > ag_max_uses g)) RC_OutOfRange
       ''authority grant use counter exceeds its budget'',
     require (\<not> length (ag_classes g) > max_functions bounds) RC_LimitExceeded
       ''authority grant class list exceeds bound'']"

record AuthorityDecision =
  ad_admitted :: bool
  ad_reason :: ReasonCode
  ad_grant :: AuthorityId

definition authority_admits ::
    "AuthorityGrant \<Rightarrow> AuthorityAction \<Rightarrow> FunctionClass \<Rightarrow> DeviceKind \<Rightarrow> HostId \<Rightarrow> ScopeId \<Rightarrow>
     SemanticsMask \<Rightarrow> Gen \<Rightarrow> Micros \<Rightarrow> AuthorityDecision" where
  "authority_admits g action cls kind host scope semantics policy_generation now =
     (let refuse = (\<lambda>r. \<lparr>ad_admitted = False, ad_reason = r, ad_grant = ag_id g\<rparr>)
      in if ag_revoked g then refuse RC_AuthorityWithdrawn
         else if ag_policy_generation g \<noteq> policy_generation then refuse RC_PolicyStale
         else if now \<ge> ag_expires_at g then refuse RC_AuthorityExpired
         else if is_expired (ag_freshness g) now then refuse RC_EvidenceStale
         else if ag_max_uses g \<noteq> 0 \<and> ag_used g \<ge> ag_max_uses g then refuse RC_NotAuthorized
         else if action \<notin> set (ag_actions g) then refuse RC_AuthorityScopeMismatch
         else if cls \<notin> set (ag_classes g) then refuse RC_AuthorityScopeMismatch
         else if kind \<notin> set (ag_kinds g) then refuse RC_AuthorityScopeMismatch
         else if ag_host_scope g \<noteq> [] \<and> ag_host_scope g \<noteq> host then refuse RC_AuthorityScopeMismatch
         else if ag_scope g \<noteq> [] \<and> ag_scope g \<noteq> scope then refuse RC_AuthorityScopeMismatch
         else if ag_semantics_ceiling g \<noteq> 0 \<and> \<not> mask_is_subset_of semantics (ag_semantics_ceiling g)
         then refuse RC_AuthorityScopeMismatch
         else \<lparr>ad_admitted = True, ad_reason = RC_Ok, ad_grant = ag_id g\<rparr>)"

text \<open>The conditions of a grant, independent of the order in which they are checked.\<close>

definition grant_covers ::
    "AuthorityGrant \<Rightarrow> AuthorityAction \<Rightarrow> FunctionClass \<Rightarrow> DeviceKind \<Rightarrow> HostId \<Rightarrow> ScopeId \<Rightarrow>
     SemanticsMask \<Rightarrow> bool" where
  "grant_covers g action cls kind host scope semantics \<longleftrightarrow>
     action \<in> set (ag_actions g) \<and> cls \<in> set (ag_classes g) \<and> kind \<in> set (ag_kinds g) \<and>
     (ag_host_scope g = [] \<or> ag_host_scope g = host) \<and> (ag_scope g = [] \<or> ag_scope g = scope) \<and>
     (ag_semantics_ceiling g = 0 \<or> mask_bits semantics \<subseteq> mask_bits (ag_semantics_ceiling g))"

definition grant_current :: "AuthorityGrant \<Rightarrow> Gen \<Rightarrow> Micros \<Rightarrow> bool" where
  "grant_current g policy_generation now \<longleftrightarrow>
     \<not> ag_revoked g \<and> ag_policy_generation g = policy_generation \<and> now < ag_expires_at g \<and>
     \<not> is_expired (ag_freshness g) now"

text \<open>An authority grant admits an action exactly when it is current (not revoked, of
  the current policy generation, unexpired and fresh), has uses left, and covers the action, class,
  device kind, host, scope and semantics.\<close>

lemma authority_admits_iff:
  "ad_admitted (authority_admits g action cls kind host scope semantics gen now) \<longleftrightarrow>
     grant_current g gen now \<and> (ag_max_uses g = 0 \<or> ag_used g < ag_max_uses g) \<and>
     grant_covers g action cls kind host scope semantics"
  by (auto simp: authority_admits_def Let_def grant_current_def grant_covers_def
      mask_is_subset_of_iff not_le)

lemma authority_admits_reason:
  "ad_reason (authority_admits g action cls kind host scope semantics gen now) = RC_Ok \<longleftrightarrow>
     ad_admitted (authority_admits g action cls kind host scope semantics gen now)"
  by (simp add: authority_admits_def Let_def)

end
