(* ===== verification/Nof_Canonical.thy ===== *)
theory Nof_Canonical
  imports Nof_Evidence
begin

text \<open>
  The canonical binary encoding of \<open>src/canonical.cpp\<close>: \<open>BinWriter\<close>, a bounded byte
  buffer with little-endian integers and length-prefixed strings, and \<open>BinReader\<close>, a cursor
  over a byte span that refuses truncated and oversized input; on top of them the sticky
  writer \<open>W\<close> and the sticky reader \<open>R\<close> of \<open>src/wire.cpp\<close>.

  A \<open>BinWriter\<close> operation returns the new writer together with its status.  \<open>W\<close> keeps
  the first error and goes on writing; \<open>R\<close> keeps the first error and stops reading, so a
  decoder is a function from a reader to the first error or the value and the advanced reader.

  The judgement \<open>rt mt e d v\<close> says that the encoder run \<open>e\<close> emits some bytes exactly
  when they fit, and that the decoder \<open>d\<close> reads these bytes back as \<open>v\<close> and stops right
  behind them.  Its introduction rules follow the structure of the code: one rule per primitive,
  one for sequencing, one for collections.  The locale \<open>codec\<close> is the interface the record
  codecs implement.
\<close>

unbundle bit_operations_syntax

named_theorems rt_intros "introduction rules of the round-trip judgement"
named_theorems emit_simps "evaluation of the writer on a buffer with room"

subsection \<open>BinWriter\<close>

record BinWriter =
  bw_buffer :: "u8 list"
  bw_max_bytes :: nat

definition bin_writer :: "nat \<Rightarrow> BinWriter" where
  "bin_writer max_bytes = \<lparr>bw_buffer = [], bw_max_bytes = max_bytes\<rparr>"

definition checked_add_size :: "nat \<Rightarrow> nat \<Rightarrow> nat option" where
  "checked_add_size a b = (if a + b > 2 ^ 64 - 1 then None else Some (a + b))"

definition would_fit :: "BinWriter \<Rightarrow> nat \<Rightarrow> bool" where
  "would_fit w extra =
     (case checked_add_size (length (bw_buffer w)) extra of
        None \<Rightarrow> False
      | Some n \<Rightarrow> n \<le> bw_max_bytes w)"

definition bw_append :: "u8 list \<Rightarrow> BinWriter \<Rightarrow> BinWriter \<times> Status" where
  "bw_append bs w =
     (if \<not> would_fit w (length bs)
      then (w, Err RC_OversizedInput ''canonical encoding exceeds configured bound'')
      else (w\<lparr>bw_buffer := bw_buffer w @ bs\<rparr>, ok_status))"

definition le_bytes :: "nat \<Rightarrow> 'a::len word \<Rightarrow> u8 list" where
  "le_bytes n v = map (\<lambda>i. ucast (drop_bit (i * 8) v AND 0xFF)) [0..<n]"

definition bw_u8 :: "u8 \<Rightarrow> BinWriter \<Rightarrow> BinWriter \<times> Status" where
  "bw_u8 v = bw_append [v]"

definition bw_u16 :: "u16 \<Rightarrow> BinWriter \<Rightarrow> BinWriter \<times> Status" where
  "bw_u16 v = bw_append (le_bytes 2 v)"

definition bw_u32 :: "u32 \<Rightarrow> BinWriter \<Rightarrow> BinWriter \<times> Status" where
  "bw_u32 v = bw_append (le_bytes 4 v)"

definition bw_u64 :: "u64 \<Rightarrow> BinWriter \<Rightarrow> BinWriter \<times> Status" where
  "bw_u64 v = bw_append (le_bytes 8 v)"

definition bw_i64 :: "int \<Rightarrow> BinWriter \<Rightarrow> BinWriter \<times> Status" where
  "bw_i64 v = bw_u64 (word_of_int v)"

definition bw_boolean :: "bool \<Rightarrow> BinWriter \<Rightarrow> BinWriter \<times> Status" where
  "bw_boolean v = bw_u8 (if v then 1 else 0)"

definition bw_bytes :: "u8 list \<Rightarrow> BinWriter \<Rightarrow> BinWriter \<times> Status" where
  "bw_bytes bs w =
     (if length bs \<ge> 2 ^ 32
      then (w, Err RC_OversizedInput ''byte string length exceeds 32 bits'')
      else case bw_u32 (of_nat (length bs)) w of
             (w', Inl e) \<Rightarrow> (w', Inl e)
           | (w', Inr _) \<Rightarrow> bw_append bs w')"

definition bw_text :: "string \<Rightarrow> BinWriter \<Rightarrow> BinWriter \<times> Status" where
  "bw_text s = bw_bytes (string_bytes s)"

definition bw_token :: "string \<Rightarrow> BinWriter \<Rightarrow> BinWriter \<times> Status" where
  "bw_token s = bw_text s"

definition bw_digest :: "Digest \<Rightarrow> BinWriter \<Rightarrow> BinWriter \<times> Status" where
  "bw_digest d = bw_append d"

definition bw_fingerprint :: "BinWriter \<Rightarrow> Digest" where
  "bw_fingerprint w = sha256 (bw_buffer w)"

subsection \<open>BinReader\<close>

record BinReader =
  br_data :: "u8 list"
  br_position :: nat
  br_max_text_bytes :: nat

definition bin_reader :: "u8 list \<Rightarrow> nat \<Rightarrow> BinReader" where
  "bin_reader data max_text = \<lparr>br_data = data, br_position = 0, br_max_text_bytes = max_text\<rparr>"

type_synonym 'a decoder = "BinReader \<Rightarrow> ('a \<times> BinReader) result"

definition at_end :: "BinReader \<Rightarrow> bool" where
  "at_end r = (br_position r = length (br_data r))"

definition br_take :: "nat \<Rightarrow> u8 list decoder" where
  "br_take n r =
     (case checked_add_size (br_position r) n of
        None \<Rightarrow> Err RC_TruncatedInput ''canonical encoding ended early''
      | Some e \<Rightarrow>
          if e > length (br_data r) then Err RC_TruncatedInput ''canonical encoding ended early''
          else Inr (take n (drop (br_position r) (br_data r)), r\<lparr>br_position := e\<rparr>))"

definition rd_bind :: "'a decoder \<Rightarrow> ('a \<Rightarrow> 'b decoder) \<Rightarrow> 'b decoder" where
  "rd_bind d f r = (case d r of Inl e \<Rightarrow> Inl e | Inr (v, r') \<Rightarrow> f v r')"

definition rd_return :: "'a \<Rightarrow> 'a decoder" where
  "rd_return v r = Inr (v, r)"

definition rd_fail :: "ReasonCode \<Rightarrow> string \<Rightarrow> 'a decoder" where
  "rd_fail c msg r = Err c msg"

definition le_word :: "u8 list \<Rightarrow> 'a::len word" where
  "le_word bs = fold (\<lambda>i v. v OR push_bit (i * 8) (ucast (bs ! i))) [0..<length bs] 0"

definition br_u8 :: "u8 decoder" where
  "br_u8 = rd_bind (br_take 1) (\<lambda>slice. rd_return (slice ! 0))"

definition br_u16 :: "u16 decoder" where
  "br_u16 = rd_bind (br_take 2) (\<lambda>slice. rd_return (le_word slice))"

definition br_u32 :: "u32 decoder" where
  "br_u32 = rd_bind (br_take 4) (\<lambda>slice. rd_return (le_word slice))"

definition br_u64 :: "u64 decoder" where
  "br_u64 = rd_bind (br_take 8) (\<lambda>slice. rd_return (le_word slice))"

definition br_i64 :: "int decoder" where
  "br_i64 = rd_bind br_u64 (\<lambda>v. rd_return (sint v))"

definition br_boolean :: "bool decoder" where
  "br_boolean = rd_bind br_u8 (\<lambda>v.
     if v > 1 then rd_fail RC_MalformedInput ''boolean must be 0 or 1''
     else rd_return (v = 1))"

definition bytes_string :: "u8 list \<Rightarrow> string" where
  "bytes_string bs = map (\<lambda>b. char_of (unat b)) bs"

definition br_text :: "string decoder" where
  "br_text = rd_bind br_u32 (\<lambda>n r.
     if unat n > br_max_text_bytes r
     then Err RC_OversizedInput ''text field exceeds configured bound''
     else rd_bind (br_take (unat n)) (\<lambda>slice. rd_return (bytes_string slice)) r)"

definition br_token :: "string decoder" where
  "br_token = rd_bind br_text (\<lambda>v.
     if v \<noteq> [] \<and> \<not> is_valid_token v
     then rd_fail RC_InvalidIdentifier ''token is not canonical''
     else rd_return v)"

definition br_take_bytes :: "nat \<Rightarrow> u8 list decoder" where
  "br_take_bytes max_length = rd_bind br_u32 (\<lambda>n.
     if unat n > max_length
     then rd_fail RC_OversizedInput ''byte string exceeds the configured bound''
     else br_take (unat n))"

definition br_digest :: "Digest decoder" where
  "br_digest = br_take 32"

subsection \<open>The sticky writer\<close>

record W =
  w_writer :: BinWriter
  w_status :: Status

definition w_open :: "BinWriter \<Rightarrow> W" where
  "w_open writer = \<lparr>w_writer = writer, w_status = ok_status\<rparr>"

definition w_note :: "(BinWriter \<Rightarrow> BinWriter \<times> Status) \<Rightarrow> W \<Rightarrow> W" where
  "w_note f w =
     (case f (w_writer w) of
        (writer, status) \<Rightarrow>
          \<lparr>w_writer = writer,
           w_status = (if ok (w_status w) \<and> \<not> ok status then status else w_status w)\<rparr>)"

definition w_u8 :: "u8 \<Rightarrow> W \<Rightarrow> W" where "w_u8 v = w_note (bw_u8 v)"
definition w_u16 :: "u16 \<Rightarrow> W \<Rightarrow> W" where "w_u16 v = w_note (bw_u16 v)"
definition w_u32 :: "u32 \<Rightarrow> W \<Rightarrow> W" where "w_u32 v = w_note (bw_u32 v)"
definition w_u64 :: "u64 \<Rightarrow> W \<Rightarrow> W" where "w_u64 v = w_note (bw_u64 v)"
definition w_i64 :: "int \<Rightarrow> W \<Rightarrow> W" where "w_i64 v = w_note (bw_i64 v)"
definition w_boolean :: "bool \<Rightarrow> W \<Rightarrow> W" where "w_boolean v = w_note (bw_boolean v)"
definition w_text :: "string \<Rightarrow> W \<Rightarrow> W" where "w_text v = w_note (bw_text v)"
definition w_token :: "string \<Rightarrow> W \<Rightarrow> W" where "w_token v = w_note (bw_token v)"
definition w_digest :: "Digest \<Rightarrow> W \<Rightarrow> W" where "w_digest v = w_note (bw_digest v)"
definition w_semantics :: "SemanticsMask \<Rightarrow> W \<Rightarrow> W" where "w_semantics v = w_note (bw_u64 v)"

definition w_count :: "nat \<Rightarrow> W \<Rightarrow> W" where
  "w_count n =
     (if n \<ge> 2 ^ 32
      then w_note (\<lambda>writer. (writer, Err RC_OversizedInput ''collection length exceeds 32 bits''))
      else w_u32 (of_nat n))"

definition w_seq :: "(W \<Rightarrow> W) list \<Rightarrow> W \<Rightarrow> W" where
  "w_seq fs w = fold (\<lambda>f. f) fs w"

definition w_list :: "('a \<Rightarrow> W \<Rightarrow> W) \<Rightarrow> 'a list \<Rightarrow> W \<Rightarrow> W" where
  "w_list f xs = w_seq (w_count (length xs) # map f xs)"

definition encode_with :: "(W \<Rightarrow> W) \<Rightarrow> BinWriter \<Rightarrow> BinWriter \<times> Status" where
  "encode_with e writer = (let w = e (w_open writer) in (w_writer w, w_status w))"

subsection \<open>The sticky reader\<close>

definition r_count :: "nat \<Rightarrow> nat decoder" where
  "r_count max_count = rd_bind br_u32 (\<lambda>raw.
     if unat raw > max_count
     then rd_fail RC_LimitExceeded ''collection length exceeds configured bound''
     else rd_return (unat raw))"

definition r_enum :: "('w::len word \<Rightarrow> 'e option) \<Rightarrow> 'w word \<Rightarrow> 'e decoder" where
  "r_enum of_value raw =
     (case of_value raw of
        None \<Rightarrow> rd_fail RC_UnsupportedValue ''unrecognized enum value''
      | Some e \<Rightarrow> rd_return e)"

definition r_enum8 :: "(u8 \<Rightarrow> 'e option) \<Rightarrow> 'e decoder" where
  "r_enum8 of_value = rd_bind br_u8 (r_enum of_value)"

definition r_class :: "FunctionClass decoder" where
  "r_class = rd_bind br_u16 (\<lambda>cls. r_enum FunctionClass_of_value (cls AND 0xFF))"

definition r_reason_code :: "ReasonCode decoder" where
  "r_reason_code = rd_bind br_u16 (\<lambda>raw.
     if reason_to_string raw = ''UNKNOWN_REASON''
     then rd_fail RC_UnsupportedValue ''unrecognized reason code''
     else rd_return raw)"

fun rd_times :: "nat \<Rightarrow> 'a decoder \<Rightarrow> 'a list decoder" where
  "rd_times 0 d = rd_return []"
| "rd_times (Suc n) d = rd_bind d (\<lambda>x. rd_bind (rd_times n d) (\<lambda>xs. rd_return (x # xs)))"

definition r_list :: "nat \<Rightarrow> 'a decoder \<Rightarrow> 'a list decoder" where
  "r_list max_count d = rd_bind (r_count max_count) (\<lambda>n. rd_times n d)"

subsection \<open>The round-trip judgement\<close>

definition writes :: "(W \<Rightarrow> W) \<Rightarrow> u8 list \<Rightarrow> bool" where
  "writes e bs \<longleftrightarrow> (\<forall>w.
     (ok (w_status w) \<and> would_fit (w_writer w) (length bs) \<longrightarrow>
        e w = w\<lparr>w_writer := (w_writer w)\<lparr>bw_buffer := bw_buffer (w_writer w) @ bs\<rparr>\<rparr>) \<and>
     (ok (w_status w) \<and> would_fit (w_writer w) 0 \<and> \<not> would_fit (w_writer w) (length bs) \<longrightarrow>
        \<not> ok (w_status (e w))) \<and>
     (\<not> ok (w_status w) \<longrightarrow> \<not> ok (w_status (e w))))"

definition unread :: "BinReader \<Rightarrow> u8 list" where
  "unread r = drop (br_position r) (br_data r)"

definition reader_ok :: "BinReader \<Rightarrow> bool" where
  "reader_ok r \<longleftrightarrow> br_position r \<le> length (br_data r) \<and> length (br_data r) < 2 ^ 64"

definition advance :: "nat \<Rightarrow> BinReader \<Rightarrow> BinReader" where
  "advance n r = r\<lparr>br_position := br_position r + n\<rparr>"

definition reads :: "nat \<Rightarrow> 'a decoder \<Rightarrow> u8 list \<Rightarrow> 'a \<Rightarrow> bool" where
  "reads mt d bs v \<longleftrightarrow> (\<forall>r rest.
     reader_ok r \<and> br_max_text_bytes r = mt \<and> unread r = bs @ rest \<longrightarrow>
       d r = Inr (v, advance (length bs) r))"

definition rt :: "nat \<Rightarrow> (W \<Rightarrow> W) \<Rightarrow> 'a decoder \<Rightarrow> 'a \<Rightarrow> bool" where
  "rt mt e d v \<longleftrightarrow> (\<exists>bs. writes e bs \<and> reads mt d bs v)"

lemma would_fit_iff: "would_fit w n \<longleftrightarrow> length (bw_buffer w) + n < 2 ^ 64 \<and> length (bw_buffer w) + n \<le> bw_max_bytes w"
  by (auto simp: would_fit_def checked_add_size_def)

lemma writes_fits:
  "writes e bs \<Longrightarrow> ok (w_status w) \<Longrightarrow> would_fit (w_writer w) (length bs) \<Longrightarrow>
   e w = w\<lparr>w_writer := (w_writer w)\<lparr>bw_buffer := bw_buffer (w_writer w) @ bs\<rparr>\<rparr>"
  by (simp add: writes_def)

lemma writes_overflows:
  "writes e bs \<Longrightarrow> ok (w_status w) \<Longrightarrow> would_fit (w_writer w) 0 \<Longrightarrow>
   \<not> would_fit (w_writer w) (length bs) \<Longrightarrow> \<not> ok (w_status (e w))"
  by (simp add: writes_def)

lemma writes_sticky: "writes e bs \<Longrightarrow> \<not> ok (w_status w) \<Longrightarrow> \<not> ok (w_status (e w))"
  by (simp add: writes_def)

lemma writes_note_append: "writes (w_note (bw_append bs)) bs"
  by (auto simp: writes_def w_note_def bw_append_def split: if_splits)

lemma writes_Nil: "writes (w_seq []) []"
  by (auto simp: writes_def w_seq_def)

lemma writes_append:
  assumes 1: "writes e bs" and 2: "writes f cs"
  shows "writes (\<lambda>w. f (e w)) (bs @ cs)"
proof -
  have first: "f (e w) = w\<lparr>w_writer := (w_writer w)\<lparr>bw_buffer := bw_buffer (w_writer w) @ bs @ cs\<rparr>\<rparr>"
    if "ok (w_status w)" "would_fit (w_writer w) (length (bs @ cs))" for w
  proof -
    have "e w = w\<lparr>w_writer := (w_writer w)\<lparr>bw_buffer := bw_buffer (w_writer w) @ bs\<rparr>\<rparr>"
      by (rule writes_fits [OF 1]) (use that in \<open>simp_all add: would_fit_iff\<close>)
    with that show ?thesis by (simp add: writes_fits [OF 2] would_fit_iff)
  qed
  have second: "\<not> ok (w_status (f (e w)))"
    if "ok (w_status w)" "would_fit (w_writer w) 0" "\<not> would_fit (w_writer w) (length (bs @ cs))" for w
  proof (cases "would_fit (w_writer w) (length bs)")
    case True
    with that show ?thesis
      by (intro writes_overflows [OF 2]) (auto simp: writes_fits [OF 1] would_fit_iff)
  next
    case False
    with that show ?thesis by (intro writes_sticky [OF 2] writes_overflows [OF 1])
  qed
  show ?thesis
    using first second writes_sticky [OF 1] writes_sticky [OF 2] by (simp add: writes_def)
qed

lemma writes_Cons: "writes e bs \<Longrightarrow> writes (w_seq es) cs \<Longrightarrow> writes (w_seq (e # es)) (bs @ cs)"
  by (drule (1) writes_append) (simp add: w_seq_def [abs_def] comp_def)

lemma writes_note_bytes:
  assumes "length bs < 2 ^ 32"
  shows "writes (w_note (bw_bytes bs)) (le_bytes 4 (of_nat (length bs) :: u32) @ bs)"
proof -
  have "writes (w_seq [w_note (bw_u32 (of_nat (length bs))), w_note (bw_append bs)])
          (le_bytes 4 (of_nat (length bs) :: u32) @ bs @ [])"
    unfolding bw_u32_def by (intro writes_Cons writes_note_append writes_Nil)
  then show ?thesis
    using assms
    by (auto simp: writes_def w_seq_def w_note_def bw_bytes_def bw_u32_def bw_append_def would_fit_iff
        split: if_splits)
qed

lemma length_le_bytes [simp]: "length (le_bytes n v) = n"
  by (simp add: le_bytes_def)

lemma bit_le_word:
  fixes bs :: "u8 list"
  assumes "n \<le> length bs"
  shows "bit (fold (\<lambda>i v. v OR push_bit (i * 8) (ucast (bs ! i))) [0..<n] (0 :: 'a::len word)) j \<longleftrightarrow>
     j < LENGTH('a) \<and> j div 8 < n \<and> bit (bs ! (j div 8)) (j mod 8)"
  using assms
proof (induction n)
  case 0
  then show ?case by simp
next
  case (Suc n)
  have "8 * n \<le> j \<and> bit (bs ! n) (j - 8 * n) \<longleftrightarrow> j div 8 = n \<and> bit (bs ! n) (j mod 8)"
  proof
    assume a: "8 * n \<le> j \<and> bit (bs ! n) (j - 8 * n)"
    then have "j - 8 * n < 8" using bit_imp_le_length by fastforce
    then obtain k where k: "j = 8 * n + k" "k < 8" using a by (metis le_add_diff_inverse)
    then show "j div 8 = n \<and> bit (bs ! n) (j mod 8)" using a by simp
  next
    assume a: "j div 8 = n \<and> bit (bs ! n) (j mod 8)"
    then have "j = 8 * n + j mod 8" by (metis mult_div_mod_eq)
    with a show "8 * n \<le> j \<and> bit (bs ! n) (j - 8 * n)"
      by (metis add_diff_cancel_left' le_add1)
  qed
  with Suc show ?case
    by (auto simp: bit_simps mult.commute less_Suc_eq)
qed

lemma le_word_le_bytes:
  fixes v :: "'a::len word"
  assumes "LENGTH('a) = n * 8"
  shows "le_word (le_bytes n v) = v"
proof (rule bit_word_eqI)
  fix j assume j: "j < LENGTH('a)"
  with assms have d: "j div 8 < n" by (simp add: less_mult_imp_div_less)
  then have "bit (le_word (le_bytes n v) :: 'a word) j \<longleftrightarrow> bit (le_bytes n v ! (j div 8)) (j mod 8)"
    using j unfolding le_word_def by (subst bit_le_word) simp_all
  also have "\<dots> \<longleftrightarrow> bit v (j div 8 * 8 + j mod 8) \<and> bit (0xFF :: 'a word) (j mod 8)"
    using d by (simp add: le_bytes_def bit_simps)
  also have "bit (0xFF :: 'a word) (j mod 8) \<longleftrightarrow> True"
  proof -
    have m: "j mod 8 < LENGTH('a)" using j by (meson mod_less_eq_dividend le_less_trans)
    have "(0xFF :: 'a word) = mask 8" by (simp add: mask_eq_exp_minus_1)
    then show ?thesis using m by (simp only: bit_mask_iff) simp
  qed
  finally show "bit (le_word (le_bytes n v) :: 'a word) j \<longleftrightarrow> bit v j" by simp
qed

lemma br_take_reads: "length bs = n \<Longrightarrow> reads mt (br_take n) bs bs"
  by (auto simp: reads_def br_take_def checked_add_size_def reader_ok_def unread_def advance_def
      dest: arg_cong [where f = length])

lemma reads_return: "reads mt (rd_return v) [] v"
  by (simp add: reads_def rd_return_def advance_def)

lemma reads_bind:
  assumes 1: "reads mt d bs a" and 2: "reads mt (f a) cs v"
  shows "reads mt (rd_bind d f) (bs @ cs) v"
  unfolding reads_def
proof (intro allI impI)
  fix r rest
  assume r: "reader_ok r \<and> br_max_text_bytes r = mt \<and> unread r = (bs @ cs) @ rest"
  have "d r = Inr (a, advance (length bs) r)"
    using 1 r by (simp add: reads_def)
  moreover have "f a (advance (length bs) r) = Inr (v, advance (length cs) (advance (length bs) r))"
  proof -
    have "length (unread r) = length bs + length cs + length rest" using r by simp
    then have "reader_ok (advance (length bs) r)"
      using r by (auto simp: reader_ok_def advance_def unread_def)
    moreover have "unread (advance (length bs) r) = cs @ rest"
      using r by (simp add: unread_def advance_def add.commute flip: drop_drop)
    ultimately show ?thesis using 2 r by (simp add: reads_def advance_def)
  qed
  ultimately show "rd_bind d f r = Inr (v, advance (length (bs @ cs)) r)"
    by (simp add: rd_bind_def advance_def add.assoc)
qed

lemma reads_bind_return: "reads mt d bs a \<Longrightarrow> f a = v \<Longrightarrow> reads mt (rd_bind d (\<lambda>x. rd_return (f x))) bs v"
  using reads_bind [OF _ reads_return, of mt d bs a f] by simp

subsubsection \<open>Primitives\<close>

lemma reads_u16: "reads mt br_u16 (le_bytes 2 v) v"
  unfolding br_u16_def by (rule reads_bind_return [OF br_take_reads]) (simp_all add: le_word_le_bytes)

lemma reads_u32: "reads mt br_u32 (le_bytes 4 v) v"
  unfolding br_u32_def by (rule reads_bind_return [OF br_take_reads]) (simp_all add: le_word_le_bytes)

lemma reads_u64: "reads mt br_u64 (le_bytes 8 v) v"
  unfolding br_u64_def by (rule reads_bind_return [OF br_take_reads]) (simp_all add: le_word_le_bytes)

lemma reads_u8: "reads mt br_u8 [v] v"
  unfolding br_u8_def by (rule reads_bind_return [OF br_take_reads]) simp_all

lemma rtI: "writes e bs \<Longrightarrow> reads mt d bs v \<Longrightarrow> rt mt e d v"
  by (auto simp: rt_def)

lemma rt_note_append: "reads mt d (bs @ []) v \<Longrightarrow> rt mt (w_note (bw_append bs)) d v"
  by (rule rtI [OF writes_note_append]) simp

lemma rt_u8 [rt_intros]: "rt mt (w_u8 v) br_u8 v"
  unfolding w_u8_def bw_u8_def by (rule rtI [OF writes_note_append reads_u8])

lemma rt_u16 [rt_intros]: "rt mt (w_u16 v) br_u16 v"
  unfolding w_u16_def bw_u16_def by (rule rtI [OF writes_note_append reads_u16])

lemma rt_u32 [rt_intros]: "rt mt (w_u32 v) br_u32 v"
  unfolding w_u32_def bw_u32_def by (rule rtI [OF writes_note_append reads_u32])

lemma rt_u64 [rt_intros]: "rt mt (w_u64 v) br_u64 v"
  unfolding w_u64_def bw_u64_def by (rule rtI [OF writes_note_append reads_u64])

lemma rt_semantics [rt_intros]: "rt mt (w_semantics v) br_u64 v"
  using rt_u64 by (simp add: w_semantics_def w_u64_def)

lemma sint_word_of_int_i64: "is_i64 v \<Longrightarrow> sint (word_of_int v :: u64) = v"
  by (simp add: is_i64_def i64_min_def i64_max_def sint_sbintrunc' signed_take_bit_int_eq_self)

lemma rt_i64 [rt_intros]: "is_i64 v \<Longrightarrow> rt mt (w_i64 v) br_i64 v"
  unfolding w_i64_def bw_i64_def bw_u64_def br_i64_def
  by (rule rtI [OF writes_note_append reads_bind_return [OF reads_u64]]) (simp add: sint_word_of_int_i64)

lemma rt_boolean [rt_intros]: "rt mt (w_boolean v) br_boolean v"
proof -
  have "reads mt br_boolean ([if v then 1 else 0] @ []) v"
    unfolding br_boolean_def by (rule reads_bind [OF reads_u8]) (simp add: reads_return)
  then show ?thesis
    unfolding w_boolean_def bw_boolean_def bw_u8_def by (rule rt_note_append)
qed

lemma rt_digest [rt_intros]: "length v = 32 \<Longrightarrow> rt mt (w_digest v) br_digest v"
  unfolding w_digest_def bw_digest_def br_digest_def
  by (rule rtI [OF writes_note_append]) (rule br_take_reads)

lemma bytes_string_string_bytes [simp]: "bytes_string (string_bytes s) = s"
proof -
  have "char_of (unat (of_nat (of_char c) :: u8)) = c" for c
    by (simp add: unat_of_nat)
  then show ?thesis by (simp add: bytes_string_def string_bytes_def comp_def)
qed

lemma length_string_bytes [simp]: "length (string_bytes s) = length s"
  by (simp add: string_bytes_def)

lemma reads_text:
  assumes "length s < 2 ^ 32" "length s \<le> mt"
  shows "reads mt br_text (le_bytes 4 (of_nat (length s) :: u32) @ string_bytes s) s"
proof -
  have u: "unat (of_nat (length s) :: u32) = length s"
    using assms(1) by (simp add: unat_of_nat)
  have "reads mt (rd_bind (br_take (length s)) (\<lambda>slice. rd_return (bytes_string slice))) (string_bytes s) s"
    by (rule reads_bind_return [OF br_take_reads]) simp_all
  then have "reads mt (\<lambda>r. if unat (of_nat (length s) :: u32) > br_max_text_bytes r
       then Err RC_OversizedInput ''text field exceeds configured bound''
       else rd_bind (br_take (unat (of_nat (length s) :: u32))) (\<lambda>slice. rd_return (bytes_string slice)) r)
       (string_bytes s) s"
    using assms(2) unfolding u reads_def by simp
  then show ?thesis
    unfolding br_text_def by (rule reads_bind [OF reads_u32])
qed

lemma rt_text [rt_intros]: "length s < 2 ^ 32 \<Longrightarrow> length s \<le> mt \<Longrightarrow> rt mt (w_text s) br_text s"
  unfolding w_text_def bw_text_def
  by (rule rtI [OF writes_note_bytes]) (simp_all add: reads_text)

text \<open>A token field holds the empty string (unset) or a canonical token.\<close>

definition token_ok :: "string \<Rightarrow> bool" where
  "token_ok s \<longleftrightarrow> s = [] \<or> is_valid_token s"

lemma token_ok_length: "token_ok s \<Longrightarrow> length s \<le> 64"
  by (auto simp: token_ok_def dest: valid_token_length)

lemma rt_token [rt_intros]:
  assumes "token_ok s" "64 \<le> mt"
  shows "rt mt (w_token s) br_token s"
proof -
  have len: "length s < 2 ^ 32" "length s \<le> mt" using token_ok_length [OF assms(1)] assms(2) by simp_all
  have "reads mt br_token ((le_bytes 4 (of_nat (length s) :: u32) @ string_bytes s) @ []) s"
    unfolding br_token_def
    by (rule reads_bind [OF reads_text [OF len]]) (use assms(1) in \<open>auto simp: token_ok_def reads_return\<close>)
  with len show ?thesis
    unfolding w_token_def bw_token_def bw_text_def
    by (intro rtI [OF writes_note_bytes]) simp_all
qed

subsubsection \<open>Sequencing and collections\<close>

lemma rt_nil [rt_intros]: "v = v' \<Longrightarrow> rt mt (w_seq []) (rd_return v) v'"
  by (auto intro: rtI [OF writes_Nil reads_return])

lemma rt_cons [rt_intros]:
  "rt mt e d a \<Longrightarrow> rt mt (w_seq es) (f a) v \<Longrightarrow> rt mt (w_seq (e # es)) (rd_bind d f) v"
  unfolding rt_def by (blast intro: writes_Cons reads_bind)

lemma rt_bind_return: "rt mt e d a \<Longrightarrow> f a = v \<Longrightarrow> rt mt e (rd_bind d (\<lambda>x. rd_return (f x))) v"
  unfolding rt_def by (blast intro: reads_bind_return)

lemma rt_bind_id:
  assumes "rt mt e d a" "f a = rd_return v"
  shows "rt mt e (rd_bind d f) v"
proof -
  from assms(1) obtain bs where "writes e bs" "reads mt d bs a" by (auto simp: rt_def)
  moreover from this(2) have "reads mt (rd_bind d f) (bs @ []) v"
    by (rule reads_bind) (simp add: assms(2) reads_return)
  ultimately show ?thesis by (simp add: rtI)
qed

lemma rt_count [rt_intros]:
  assumes "n \<le> max_count" "n < 2 ^ 32"
  shows "rt mt (w_count n) (r_count max_count) n"
proof -
  have "unat (of_nat n :: u32) = n" using assms(2) by (simp add: unat_of_nat)
  then have "reads mt (r_count max_count) (le_bytes 4 (of_nat n :: u32) @ []) n"
    unfolding r_count_def using assms(1) by (intro reads_bind [OF reads_u32]) (simp add: reads_return)
  then show ?thesis
    using assms(2) by (simp add: w_count_def w_u32_def bw_u32_def rt_note_append)
qed

lemma rt_times:
  assumes "\<And>x. x \<in> set xs \<Longrightarrow> rt mt (f x) d x"
  shows "rt mt (w_seq (map f xs)) (rd_times (length xs) d) xs"
  using assms
proof (induction xs)
  case Nil
  then show ?case by (simp add: rt_nil)
next
  case (Cons x xs)
  have "rt mt (w_seq (map f xs)) (rd_bind (rd_times (length xs) d) (\<lambda>ys. rd_return (x # ys))) (x # xs)"
    using Cons by (intro rt_bind_return) auto
  with Cons.prems show ?case by (auto intro!: rt_cons)
qed

lemma rt_list [rt_intros]:
  assumes "length xs \<le> max_count" "length xs < 2 ^ 32" "\<And>x. x \<in> set xs \<Longrightarrow> rt mt (f x) d x"
  shows "rt mt (w_list f xs) (r_list max_count d) xs"
  unfolding w_list_def r_list_def
  using assms by (intro rt_cons [OF rt_count] rt_times) auto

lemma rt_enum: "of_value (val e) = Some e \<Longrightarrow> rt mt (w_u8 (val e)) (r_enum8 of_value) e"
proof -
  assume "of_value (val e) = Some e"
  then have "reads mt (r_enum8 of_value) ([val e] @ []) e"
    unfolding r_enum8_def by (intro reads_bind [OF reads_u8]) (simp add: r_enum_def reads_return)
  then show ?thesis
    unfolding w_u8_def bw_u8_def by (rule rt_note_append)
qed

lemma class_low_byte [simp]: "FunctionClass_value c AND 0xFF = FunctionClass_value c"
  by (cases c) simp_all

lemma rt_class [rt_intros]: "rt mt (w_u16 (FunctionClass_value c)) r_class c"
proof -
  have "reads mt r_class (le_bytes 2 (FunctionClass_value c) @ []) c"
    unfolding r_class_def by (intro reads_bind [OF reads_u16]) (simp add: r_enum_def reads_return)
  then show ?thesis
    unfolding w_u16_def bw_u16_def by (rule rt_note_append)
qed

lemma rt_reason [rt_intros]:
  assumes "reason_to_string c \<noteq> ''UNKNOWN_REASON''"
  shows "rt mt (w_u16 c) r_reason_code c"
proof -
  have "reads mt r_reason_code (le_bytes 2 c @ []) c"
    unfolding r_reason_code_def using assms by (intro reads_bind [OF reads_u16]) (simp add: reads_return)
  then show ?thesis
    unfolding w_u16_def bw_u16_def by (rule rt_note_append)
qed

subsubsection \<open>Evaluation of the writer\<close>

lemma emit:
  "writes e bs \<Longrightarrow> length buf + length bs \<le> m \<Longrightarrow> m < 2 ^ 64 \<Longrightarrow>
   e \<lparr>w_writer = \<lparr>bw_buffer = buf, bw_max_bytes = m\<rparr>, w_status = ok_status\<rparr> =
   \<lparr>w_writer = \<lparr>bw_buffer = buf @ bs, bw_max_bytes = m\<rparr>, w_status = ok_status\<rparr>"
  by (subst writes_fits) (simp_all add: would_fit_iff)

lemma emit_u8 [emit_simps]: "writes (w_u8 v) [v]"
  by (simp add: w_u8_def bw_u8_def writes_note_append)

lemma emit_u16 [emit_simps]: "writes (w_u16 v) (le_bytes 2 v)"
  by (simp add: w_u16_def bw_u16_def writes_note_append)

lemma emit_u32 [emit_simps]: "writes (w_u32 v) (le_bytes 4 v)"
  by (simp add: w_u32_def bw_u32_def writes_note_append)

lemma emit_u64 [emit_simps]: "writes (w_u64 v) (le_bytes 8 v)"
  by (simp add: w_u64_def bw_u64_def writes_note_append)

lemma emit_semantics [emit_simps]: "writes (w_semantics v) (le_bytes 8 v)"
  by (simp add: w_semantics_def bw_u64_def writes_note_append)

lemma emit_i64 [emit_simps]: "writes (w_i64 v) (le_bytes 8 (word_of_int v :: u64))"
  by (simp add: w_i64_def bw_i64_def bw_u64_def writes_note_append)

lemma emit_boolean [emit_simps]: "writes (w_boolean v) [if v then 1 else 0]"
  unfolding w_boolean_def bw_boolean_def bw_u8_def by (rule writes_note_append)

lemma emit_digest [emit_simps]: "writes (w_digest v) v"
  by (simp add: w_digest_def bw_digest_def writes_note_append)

lemma emit_text [emit_simps]:
  "length v < 2 ^ 32 \<Longrightarrow> writes (w_text v) (le_bytes 4 (of_nat (length v) :: u32) @ string_bytes v)"
  using writes_note_bytes [of "string_bytes v"] by (simp add: w_text_def bw_text_def)

lemma emit_token [emit_simps]:
  "length v < 2 ^ 32 \<Longrightarrow> writes (w_token v) (le_bytes 4 (of_nat (length v) :: u32) @ string_bytes v)"
  using writes_note_bytes [of "string_bytes v"] by (simp add: w_token_def bw_token_def bw_text_def)

lemma emit_count [emit_simps]: "n < 2 ^ 32 \<Longrightarrow> writes (w_count n) (le_bytes 4 (of_nat n :: u32))"
  by (simp add: w_count_def emit_u32)

lemmas emit_eqs = emit_simps [THEN emit]

subsection \<open>The codec interface\<close>

text \<open>
  A codec for \<open>'v\<close>: an encoder, a decoder for readers that accept text of \<open>mt\<close> bytes, and
  the values it carries faithfully.
\<close>

locale codec =
  fixes mt :: nat
    and enc :: "'v \<Rightarrow> W \<Rightarrow> W"
    and dec :: "'v decoder"
    and wf :: "'v \<Rightarrow> bool"
  assumes round: "wf v \<Longrightarrow> rt mt (enc v) dec v"
begin

lemma encodes:
  assumes "wf v" "would_fit w 0" "encode_with (enc v) w = (w', ok_status)"
  obtains bs where "w' = w\<lparr>bw_buffer := bw_buffer w @ bs\<rparr>" "writes (enc v) bs" "reads mt dec bs v"
    "would_fit w (length bs)"
proof -
  obtain bs where bs: "writes (enc v) bs" "reads mt dec bs v"
    using round [OF assms(1)] by (auto simp: rt_def)
  have fits: "would_fit w (length bs)"
    using assms writes_overflows [OF bs(1), of "w_open w"]
    by (auto simp: encode_with_def w_open_def Let_def)
  with assms(3) have "w' = w\<lparr>bw_buffer := bw_buffer w @ bs\<rparr>"
    by (auto simp: encode_with_def w_open_def Let_def writes_fits [OF bs(1)])
  with bs fits that show thesis by blast
qed

lemma fresh_round_trip:
  assumes "wf v" "encode_with (enc v) (bin_writer n) = (w, ok_status)"
  obtains r where "dec (bin_reader (bw_buffer w) mt) = Inr (v, r)" "at_end r"
proof -
  have "would_fit (bin_writer n) 0" by (simp add: bin_writer_def would_fit_iff)
  then obtain bs where
    w: "w = (bin_writer n)\<lparr>bw_buffer := bw_buffer (bin_writer n) @ bs\<rparr>"
    and bs: "reads mt dec bs v" "would_fit (bin_writer n) (length bs)"
    by (rule encodes [OF assms(1) _ assms(2)])
  from w have buf: "bw_buffer w = bs" by (simp add: bin_writer_def)
  from bs(2) have "reader_ok (bin_reader bs mt)"
    by (simp add: bin_reader_def reader_ok_def would_fit_iff bin_writer_def)
  with bs(1) have "dec (bin_reader bs mt) = Inr (v, advance (length bs) (bin_reader bs mt))"
    by (simp add: reads_def bin_reader_def unread_def)
  moreover have "at_end (advance (length bs) (bin_reader bs mt))"
    by (simp add: at_end_def advance_def bin_reader_def)
  ultimately show thesis using that buf by blast
qed

lemma encoding_inject:
  assumes "wf u" "encode_with (enc u) (bin_writer m) = (w, ok_status)"
    and "wf v" "encode_with (enc v) (bin_writer n) = (w', ok_status)"
    and "bw_buffer w = bw_buffer w'"
  shows "u = v"
proof -
  from fresh_round_trip [OF assms(1,2)] obtain r where
    "dec (bin_reader (bw_buffer w) mt) = Inr (u, r)" by blast
  moreover from fresh_round_trip [OF assms(3,4)] obtain r' where
    "dec (bin_reader (bw_buffer w') mt) = Inr (v, r')" by blast
  ultimately show ?thesis using assms(5) by simp
qed

lemma list_codec:
  "codec mt (w_list enc) (r_list max_count dec)
     (\<lambda>xs. length xs \<le> max_count \<and> length xs < 2 ^ 32 \<and> (\<forall>x\<in>set xs. wf x))"
  by unfold_locales (auto intro!: rt_list round)

end

lemma token_codec: "64 \<le> mt \<Longrightarrow> codec mt w_token br_token token_ok"
  by unfold_locales (rule rt_token)

end
