(* ===== verification/Nof_Assignment.thy ===== *)
theory Nof_Assignment
  imports Nof_Canonical
begin

text \<open>
  The assignment data model of \<open>include/nof/assignment.hpp\<close>, \<open>explanation.hpp\<close> and the
  request and result structures of \<open>fabric.hpp\<close>: one record per struct with the source's
  fields, its default value where the code relies on one, and the classification of
  assignment states.  A record's fields carry a two-letter prefix (\<open>ar_\<close> for
  \<open>AssignmentRecord\<close>, \<open>rq_\<close> for \<open>PlacementRequest\<close>, \<open>pl_\<close> for
  \<open>AssignmentPlan\<close>, \<open>ca_\<close> for \<open>CandidateEvaluation\<close>, \<open>ex_\<close> for
  \<open>Explanation\<close>, \<open>er_\<close> for \<open>EffectReport\<close>).
\<close>

fun holds_authority :: "AssignmentState \<Rightarrow> bool" where
  "holds_authority AS_Authorized = True"
| "holds_authority AS_Dispatched = True"
| "holds_authority AS_Acknowledged = True"
| "holds_authority AS_AppliedVerified = True"
| "holds_authority _ = False"

fun is_live :: "AssignmentState \<Rightarrow> bool" where
  "is_live AS_Authorized = True"
| "is_live AS_Dispatched = True"
| "is_live AS_Acknowledged = True"
| "is_live AS_AppliedVerified = True"
| "is_live AS_Degraded = True"
| "is_live AS_Suspended = True"
| "is_live AS_Planned = True"
| "is_live _ = False"

fun is_terminal :: "AssignmentState \<Rightarrow> bool" where
  "is_terminal AS_Revoked = True"
| "is_terminal AS_Superseded = True"
| "is_terminal AS_Rejected = True"
| "is_terminal AS_Failed = True"
| "is_terminal _ = False"

lemma is_live_iff_not_terminal: "is_live s \<longleftrightarrow> \<not> is_terminal s"
  by (cases s) simp_all

lemma holds_authority_is_live: "holds_authority s \<Longrightarrow> is_live s"
  by (cases s) simp_all

definition no_fence :: FencingToken where
  "no_fence = FencingToken 0 0"

definition no_scope :: ScopeSpec where
  "no_scope = \<lparr>ss_kind = SK_Flow, ss_domain = [], ss_device = [], ss_selector = []\<rparr>"

record GenerationBinding =
  gb_topology :: Gen
  gb_capability :: Gen
  gb_policy :: Gen
  gb_assignment :: Gen
  gb_schema :: Gen

definition no_binding :: GenerationBinding where
  "no_binding = \<lparr>
    gb_topology = 0, gb_capability = 0, gb_policy = 0, gb_assignment = 0, gb_schema = 0\<rparr>"

record TransitionRecord =
  tr_from :: AssignmentState
  tr_to :: AssignmentState
  tr_reason :: ReasonCode
  tr_at :: Micros
  tr_fence :: FencingToken

record EffectRecord =
  ef_attempt :: Gen
  ef_fence :: FencingToken
  ef_generation :: Gen
  ef_incarnation :: IncarnationId
  ef_capability_generation :: Gen
  ef_outcome :: EffectOutcome
  ef_reason :: ReasonCode
  ef_observed_at :: Micros

record AssignmentRecord =
  ar_id :: AssignmentId
  ar_generation :: Gen
  ar_function :: FunctionId
  ar_cls :: FunctionClass
  ar_scope :: ScopeSpec
  ar_scope_id :: ScopeId
  ar_exclusivity :: Exclusivity
  ar_exclusive_key :: ExclusiveKeyMode
  ar_mode :: ExecutionMode
  ar_state :: AssignmentState
  ar_device :: DeviceId
  ar_host :: HostId
  ar_kind :: DeviceKind
  ar_incarnation :: IncarnationId
  ar_demand :: DemandVector
  ar_binding :: GenerationBinding
  ar_authority :: AuthorityId
  ar_lease :: Gen
  ar_fence :: FencingToken
  ar_attempt :: Gen
  ar_request_fingerprint :: Digest
  ar_provenance :: Provenance
  ar_freshness :: Freshness
  ar_state_reason :: ReasonCode
  ar_created_at :: Micros
  ar_updated_at :: Micros
  ar_history :: "TransitionRecord list"
  ar_effects :: "EffectRecord list"

definition no_assignment :: AssignmentRecord where
  "no_assignment = \<lparr>
    ar_id = [], ar_generation = 0, ar_function = [], ar_cls = FC_RouteLookup,
    ar_scope = no_scope, ar_scope_id = [], ar_exclusivity = EX_Exclusive,
    ar_exclusive_key = EK_PerClass, ar_mode = EM_Offloaded, ar_state = AS_Planned,
    ar_device = [], ar_host = [], ar_kind = DK_Nic, ar_incarnation = no_incarnation,
    ar_demand = zero_demand, ar_binding = no_binding, ar_authority = [], ar_lease = 0,
    ar_fence = no_fence, ar_attempt = 0, ar_request_fingerprint = digest_zero,
    ar_provenance = no_provenance, ar_freshness = no_freshness, ar_state_reason = RC_Ok,
    ar_created_at = 0, ar_updated_at = 0, ar_history = [], ar_effects = []\<rparr>"

record AssignmentFilter =
  af_function :: FunctionId
  af_scope :: ScopeId
  af_device :: DeviceId
  af_state :: AssignmentState
  af_filter_by_state :: bool
  af_include_terminal :: bool

record ScopeView =
  sw_spec :: ScopeSpec
  sw_scope :: ScopeId
  sw_live :: "AssignmentId list"
  sw_exclusive_claims :: "AssignmentId list"
  sw_exclusive_holder :: AssignmentId
  sw_exclusive_holder_is_whole_scope :: bool
  sw_exclusive_held :: bool

definition no_scope_view :: ScopeView where
  "no_scope_view = \<lparr>
    sw_spec = no_scope, sw_scope = [], sw_live = [], sw_exclusive_claims = [],
    sw_exclusive_holder = [], sw_exclusive_holder_is_whole_scope = False,
    sw_exclusive_held = False\<rparr>"

record EffectReport =
  er_request_id :: RequestId
  er_assignment :: AssignmentId
  er_attempt :: Gen
  er_generation :: Gen
  er_fence :: FencingToken
  er_incarnation :: IncarnationId
  er_capability_generation :: Gen
  er_outcome :: EffectOutcome
  er_detail_reason :: ReasonCode
  er_observed_at :: Micros
  er_provenance :: Provenance

definition no_effect_report :: EffectReport where
  "no_effect_report = \<lparr>
    er_request_id = [], er_assignment = [], er_attempt = 0, er_generation = 0,
    er_fence = no_fence, er_incarnation = no_incarnation, er_capability_generation = 0,
    er_outcome = EO_Unknown, er_detail_reason = RC_Ok, er_observed_at = 0,
    er_provenance = no_provenance\<rparr>"

record RevalidationReport =
  rv_checked :: nat
  rv_suspended :: nat
  rv_degraded :: nat
  rv_failed :: nat
  rv_unchanged :: nat
  rv_affected :: "AssignmentId list"
  rv_dominant_reason :: ReasonCode
  rv_truncated :: bool

definition no_revalidation :: RevalidationReport where
  "no_revalidation = \<lparr>
    rv_checked = 0, rv_suspended = 0, rv_degraded = 0, rv_failed = 0, rv_unchanged = 0,
    rv_affected = [], rv_dominant_reason = RC_Ok, rv_truncated = False\<rparr>"

record PlacementRequest =
  rq_request_id :: RequestId
  rq_function :: FunctionId
  rq_cls :: FunctionClass
  rq_scope :: ScopeSpec
  rq_required :: SemanticsMask
  rq_required_version :: SemanticVersion
  rq_exclusivity :: Exclusivity
  rq_demand :: DemandVector
  rq_preferred_devices :: "DeviceId list"
  rq_preferred_hosts :: "HostId list"
  rq_anti_affinity_devices :: "DeviceId list"
  rq_anti_affinity_hosts :: "HostId list"
  rq_required_labels :: "string list"
  rq_dependencies :: "FunctionId list"
  rq_min_topology :: Gen
  rq_min_capability :: Gen
  rq_min_policy :: Gen
  rq_allow_host_fallback :: bool
  rq_max_reassignments :: nat
  rq_request_replacement :: bool

definition no_request :: PlacementRequest where
  "no_request = \<lparr>
    rq_request_id = [], rq_function = [], rq_cls = FC_RouteLookup, rq_scope = no_scope,
    rq_required = 0, rq_required_version = SemanticVersion 0 0, rq_exclusivity = EX_Exclusive,
    rq_demand = zero_demand, rq_preferred_devices = [], rq_preferred_hosts = [],
    rq_anti_affinity_devices = [], rq_anti_affinity_hosts = [], rq_required_labels = [],
    rq_dependencies = [], rq_min_topology = 0, rq_min_capability = 0, rq_min_policy = 0,
    rq_allow_host_fallback = False, rq_max_reassignments = 0, rq_request_replacement = False\<rparr>"

record CandidateEvaluation =
  ca_device :: DeviceId
  ca_host :: HostId
  ca_kind :: DeviceKind
  ca_incarnation :: IncarnationId
  ca_capability_generation :: Gen
  ca_eligible :: bool
  ca_verdict :: MatchVerdict
  ca_reason :: ReasonCode
  ca_contributing :: "ReasonCode list"
  ca_mode :: ExecutionMode
  ca_rank :: u64
  ca_offload_rank :: u32
  ca_kind_rank :: u32
  ca_locality_rank :: u32
  ca_utilization_ppm :: u64
  ca_evaluation_digest :: Digest

definition no_candidate :: CandidateEvaluation where
  "no_candidate = \<lparr>
    ca_device = [], ca_host = [], ca_kind = DK_Nic, ca_incarnation = no_incarnation,
    ca_capability_generation = 0, ca_eligible = False, ca_verdict = MV_Missing,
    ca_reason = RC_EvidenceMissing, ca_contributing = [], ca_mode = EM_Offloaded, ca_rank = 0,
    ca_offload_rank = 0, ca_kind_rank = 0, ca_locality_rank = 0, ca_utilization_ppm = 0,
    ca_evaluation_digest = digest_zero\<rparr>"

record AssignmentPlan =
  pl_request_id :: RequestId
  pl_function :: FunctionId
  pl_cls :: FunctionClass
  pl_scope :: ScopeSpec
  pl_scope_id :: ScopeId
  pl_exclusivity :: Exclusivity
  pl_exclusive_key :: ExclusiveKeyMode
  pl_mode :: ExecutionMode
  pl_device :: DeviceId
  pl_host :: HostId
  pl_kind :: DeviceKind
  pl_incarnation :: IncarnationId
  pl_demand :: DemandVector
  pl_binding :: GenerationBinding
  pl_authority :: AuthorityId
  pl_effective_requirement :: SemanticsMask
  pl_plan_digest :: Digest

definition no_plan :: AssignmentPlan where
  "no_plan = \<lparr>
    pl_request_id = [], pl_function = [], pl_cls = FC_RouteLookup, pl_scope = no_scope,
    pl_scope_id = [], pl_exclusivity = EX_Exclusive, pl_exclusive_key = EK_PerClass,
    pl_mode = EM_Offloaded, pl_device = [], pl_host = [], pl_kind = DK_Nic,
    pl_incarnation = no_incarnation, pl_demand = zero_demand, pl_binding = no_binding,
    pl_authority = [], pl_effective_requirement = 0, pl_plan_digest = digest_zero\<rparr>"

record Explanation =
  ex_decision :: Decision
  ex_primary_reason :: ReasonCode
  ex_reasons :: "ReasonCode list"
  ex_request_id :: RequestId
  ex_function :: FunctionId
  ex_cls :: FunctionClass
  ex_scope :: ScopeSpec
  ex_scope_id :: ScopeId
  ex_exclusivity :: Exclusivity
  ex_mode :: ExecutionMode
  ex_binding :: GenerationBinding
  ex_authority :: AuthorityId
  ex_lease :: Gen
  ex_fence :: FencingToken
  ex_attempt :: Gen
  ex_assignment :: AssignmentId
  ex_replaced :: AssignmentId
  ex_selected_device :: DeviceId
  ex_candidates :: "CandidateEvaluation list"
  ex_candidates_total :: nat
  ex_candidates_truncated :: bool
  ex_input_digest :: Digest
  ex_decision_digest :: Digest

definition no_explanation :: Explanation where
  "no_explanation = \<lparr>
    ex_decision = DE_Refuse, ex_primary_reason = RC_Ok, ex_reasons = [], ex_request_id = [],
    ex_function = [], ex_cls = FC_RouteLookup, ex_scope = no_scope, ex_scope_id = [],
    ex_exclusivity = EX_Exclusive, ex_mode = EM_Offloaded, ex_binding = no_binding,
    ex_authority = [], ex_lease = 0, ex_fence = no_fence, ex_attempt = 0, ex_assignment = [],
    ex_replaced = [], ex_selected_device = [], ex_candidates = [], ex_candidates_total = 0,
    ex_candidates_truncated = False, ex_input_digest = digest_zero,
    ex_decision_digest = digest_zero\<rparr>"

record PlanResult =
  pn_decision :: Decision
  pn_primary_reason :: ReasonCode
  pn_candidates :: "CandidateEvaluation list"
  pn_candidates_total :: nat
  pn_candidates_truncated :: bool
  pn_plan :: AssignmentPlan
  pn_explanation :: Explanation

definition no_plan_result :: PlanResult where
  "no_plan_result = \<lparr>
    pn_decision = DE_Refuse, pn_primary_reason = RC_NoEligibleTarget, pn_candidates = [],
    pn_candidates_total = 0, pn_candidates_truncated = False, pn_plan = no_plan,
    pn_explanation = no_explanation\<rparr>"

record RevokeRequest =
  rk_request_id :: RequestId
  rk_assignment :: AssignmentId
  rk_reason :: ReasonCode
  rk_authority :: AuthorityId

record ReauthorizeRequest =
  ra_request_id :: RequestId
  ra_assignment :: AssignmentId
  ra_authority :: AuthorityId

end
