(* ===== verification/Nof_Wire.thy ===== *)
theory Nof_Wire
  imports Nof_Assignment
begin

text \<open>
  The wire codecs of \<open>src/wire.cpp\<close>.  For every structure the file has an \<open>enc_\<close>
  function, a \<open>dec_\<close> function and the public entry points \<open>encode_\<close> and
  \<open>decode_\<close>; here they are the same functions over the sticky writer and reader of
  \<open>Nof_Canonical\<close>.  For each structure, the predicate \<open>_ok\<close> says which values fit the
  format (tokens canonical, collections within the configured bounds, times within 64 bits,
  reason codes known), and the lemma \<open>rt_\<close> shows that a value that fits is read back
  exactly.  The proofs are applications of the introduction rules \<open>rt_intros\<close>; the
  interpretations of \<open>codec\<close> at the end give the entry points their round trip and the
  injectivity of the encoding.
\<close>

subsection \<open>Field codecs\<close>

definition reason_ok :: "ReasonCode \<Rightarrow> bool" where
  "reason_ok c \<longleftrightarrow> reason_to_string c \<noteq> ''UNKNOWN_REASON''"

lemma rt_reason_ok [rt_intros]: "reason_ok c \<Longrightarrow> rt mt (w_u16 c) r_reason_code c"
  by (simp add: reason_ok_def rt_reason)

declare rt_reason [rt_intros del]

text \<open>A \<open>std::size_t\<close> travels as 64 bits; the narrowing check of the decoder cannot fail.\<close>

definition r_size :: "nat decoder" where
  "r_size = rd_bind br_u64 (\<lambda>raw. rd_return (unat raw))"

lemma rt_size [rt_intros]: "n < 2 ^ 64 \<Longrightarrow> rt mt (w_u64 (of_nat n)) r_size n"
  unfolding r_size_def by (rule rt_bind_return [OF rt_u64]) (simp add: unat_of_nat)

text \<open>
  The collection codecs of the file, one pair per element type.  They are abbreviations, so that the
  rules for \<open>w_list\<close> and \<open>r_list\<close> apply to them as they stand.
\<close>

abbreviation enc_id_list :: "DeviceId list \<Rightarrow> W \<Rightarrow> W" where
  "enc_id_list \<equiv> w_list w_token"

abbreviation dec_device_id_list :: "nat \<Rightarrow> DeviceId list decoder" where
  "dec_device_id_list max_count \<equiv> r_list max_count br_token"

abbreviation enc_host_id_list :: "HostId list \<Rightarrow> W \<Rightarrow> W" where
  "enc_host_id_list \<equiv> w_list w_token"

abbreviation dec_host_id_list :: "nat \<Rightarrow> HostId list decoder" where
  "dec_host_id_list max_count \<equiv> r_list max_count br_token"

abbreviation enc_function_id_list :: "FunctionId list \<Rightarrow> W \<Rightarrow> W" where
  "enc_function_id_list \<equiv> w_list w_token"

abbreviation dec_function_id_list :: "nat \<Rightarrow> FunctionId list decoder" where
  "dec_function_id_list max_count \<equiv> r_list max_count br_token"

abbreviation enc_assignment_id_list :: "AssignmentId list \<Rightarrow> W \<Rightarrow> W" where
  "enc_assignment_id_list \<equiv> w_list w_token"

abbreviation dec_assignment_id_list :: "nat \<Rightarrow> AssignmentId list decoder" where
  "dec_assignment_id_list max_count \<equiv> r_list max_count br_token"

abbreviation enc_device_kind_list :: "DeviceKind list \<Rightarrow> W \<Rightarrow> W" where
  "enc_device_kind_list \<equiv> w_list (\<lambda>k. w_u8 (DeviceKind_value k))"

abbreviation dec_device_kind_list :: "nat \<Rightarrow> DeviceKind list decoder" where
  "dec_device_kind_list max_count \<equiv> r_list max_count (r_enum8 DeviceKind_of_value)"

abbreviation enc_reason_list :: "ReasonCode list \<Rightarrow> W \<Rightarrow> W" where
  "enc_reason_list \<equiv> w_list w_u16"

abbreviation dec_reason_list :: "nat \<Rightarrow> ReasonCode list decoder" where
  "dec_reason_list max_count \<equiv> r_list max_count r_reason_code"

lemmas rt_Exclusivity [rt_intros] =
  rt_enum [of Exclusivity_of_value Exclusivity_value, OF Exclusivity_of_value_value]
lemmas rt_ExclusiveKeyMode [rt_intros] =
  rt_enum [of ExclusiveKeyMode_of_value ExclusiveKeyMode_value, OF ExclusiveKeyMode_of_value_value]
lemmas rt_ExecutionMode [rt_intros] =
  rt_enum [of ExecutionMode_of_value ExecutionMode_value, OF ExecutionMode_of_value_value]
lemmas rt_AssignmentState [rt_intros] =
  rt_enum [of AssignmentState_of_value AssignmentState_value, OF AssignmentState_of_value_value]
lemmas rt_DeviceKind [rt_intros] =
  rt_enum [of DeviceKind_of_value DeviceKind_value, OF DeviceKind_of_value_value]
lemmas rt_EffectOutcome [rt_intros] =
  rt_enum [of EffectOutcome_of_value EffectOutcome_value, OF EffectOutcome_of_value_value]
lemmas rt_Decision [rt_intros] =
  rt_enum [of Decision_of_value Decision_value, OF Decision_of_value_value]
lemmas rt_MatchVerdict [rt_intros] =
  rt_enum [of MatchVerdict_of_value MatchVerdict_value, OF MatchVerdict_of_value_value]
lemmas rt_ScopeKind [rt_intros] =
  rt_enum [of ScopeKind_of_value ScopeKind_value, OF ScopeKind_of_value_value]
lemmas rt_LinkKind [rt_intros] =
  rt_enum [of LinkKind_of_value LinkKind_value, OF LinkKind_of_value_value]
lemmas rt_Liveness [rt_intros] =
  rt_enum [of Liveness_of_value Liveness_value, OF Liveness_of_value_value]
lemmas rt_AuthorityAction [rt_intros] =
  rt_enum [of AuthorityAction_of_value AuthorityAction_value, OF AuthorityAction_of_value_value]


subsection \<open>Identity, time and quantity\<close>

definition enc_provenance :: "Provenance \<Rightarrow> W \<Rightarrow> W" where
  "enc_provenance v = w_seq [
     w_token (pv_source v),
     w_u64 (pv_sequence v)]"

definition dec_provenance :: "Provenance decoder" where
  "dec_provenance =
     rd_bind br_token (\<lambda>x_source.
     rd_bind br_u64 (\<lambda>x_sequence.
     rd_return \<lparr>
       pv_source = x_source, pv_sequence = x_sequence\<rparr>))"

definition provenance_ok :: "Provenance \<Rightarrow> bool" where
  "provenance_ok v \<longleftrightarrow>
     token_ok (pv_source v)"

lemma rt_provenance [rt_intros]: "provenance_ok v \<Longrightarrow> 64 \<le> mt \<Longrightarrow> rt mt (enc_provenance v) dec_provenance v"
  unfolding enc_provenance_def dec_provenance_def provenance_ok_def list_all_iff
  by (rule rt_intros | simp)+

definition enc_freshness :: "Freshness \<Rightarrow> W \<Rightarrow> W" where
  "enc_freshness v = w_seq [
     w_i64 (fr_observed_at v),
     w_i64 (fr_valid_until v)]"

definition dec_freshness :: "Freshness decoder" where
  "dec_freshness =
     rd_bind br_i64 (\<lambda>x_observed_at.
     rd_bind br_i64 (\<lambda>x_valid_until.
     rd_return \<lparr>
       fr_observed_at = x_observed_at, fr_valid_until = x_valid_until\<rparr>))"

definition freshness_ok :: "Freshness \<Rightarrow> bool" where
  "freshness_ok v \<longleftrightarrow>
     is_i64 (fr_observed_at v) \<and> is_i64 (fr_valid_until v)"

lemma rt_freshness [rt_intros]: "freshness_ok v \<Longrightarrow> 64 \<le> mt \<Longrightarrow> rt mt (enc_freshness v) dec_freshness v"
  unfolding enc_freshness_def dec_freshness_def freshness_ok_def list_all_iff
  by (rule rt_intros | simp)+

definition enc_incarnation :: "IncarnationId \<Rightarrow> W \<Rightarrow> W" where
  "enc_incarnation v = w_seq [
     w_u64 (in_generation v),
     w_token (in_boot v)]"

definition dec_incarnation :: "IncarnationId decoder" where
  "dec_incarnation =
     rd_bind br_u64 (\<lambda>x_generation.
     rd_bind br_token (\<lambda>x_boot.
     rd_return \<lparr>
       in_generation = x_generation, in_boot = x_boot\<rparr>))"

definition incarnation_ok :: "IncarnationId \<Rightarrow> bool" where
  "incarnation_ok v \<longleftrightarrow>
     token_ok (in_boot v)"

lemma rt_incarnation [rt_intros]: "incarnation_ok v \<Longrightarrow> 64 \<le> mt \<Longrightarrow> rt mt (enc_incarnation v) dec_incarnation v"
  unfolding enc_incarnation_def dec_incarnation_def incarnation_ok_def list_all_iff
  by (rule rt_intros | simp)+

definition enc_fence :: "FencingToken \<Rightarrow> W \<Rightarrow> W" where
  "enc_fence v = w_seq [
     w_u64 (ft_epoch v),
     w_u64 (ft_sequence v)]"

definition dec_fence :: "FencingToken decoder" where
  "dec_fence =
     rd_bind br_u64 (\<lambda>epoch.
     rd_bind br_u64 (\<lambda>sequence.
     rd_return (FencingToken epoch sequence)))"

lemma rt_fence [rt_intros]: "rt mt (enc_fence v) dec_fence v"
  unfolding enc_fence_def dec_fence_def
  by (rule rt_intros | simp)+

definition enc_epoch :: "CoordinatorEpoch \<Rightarrow> W \<Rightarrow> W" where
  "enc_epoch v = w_seq [
     w_u64 (ce_counter v),
     w_token (ce_boot v)]"

definition dec_epoch :: "CoordinatorEpoch decoder" where
  "dec_epoch =
     rd_bind br_u64 (\<lambda>x_counter.
     rd_bind br_token (\<lambda>x_boot.
     rd_return \<lparr>
       ce_counter = x_counter, ce_boot = x_boot\<rparr>))"

definition epoch_ok :: "CoordinatorEpoch \<Rightarrow> bool" where
  "epoch_ok v \<longleftrightarrow>
     token_ok (ce_boot v)"

lemma rt_epoch [rt_intros]: "epoch_ok v \<Longrightarrow> 64 \<le> mt \<Longrightarrow> rt mt (enc_epoch v) dec_epoch v"
  unfolding enc_epoch_def dec_epoch_def epoch_ok_def list_all_iff
  by (rule rt_intros | simp)+

definition enc_binding :: "GenerationBinding \<Rightarrow> W \<Rightarrow> W" where
  "enc_binding v = w_seq [
     w_u64 (gb_topology v),
     w_u64 (gb_capability v),
     w_u64 (gb_policy v),
     w_u64 (gb_assignment v),
     w_u64 (gb_schema v)]"

definition dec_binding :: "GenerationBinding decoder" where
  "dec_binding =
     rd_bind br_u64 (\<lambda>x_topology.
     rd_bind br_u64 (\<lambda>x_capability.
     rd_bind br_u64 (\<lambda>x_policy.
     rd_bind br_u64 (\<lambda>x_assignment.
     rd_bind br_u64 (\<lambda>x_schema.
     rd_return \<lparr>
       gb_topology = x_topology, gb_capability = x_capability, gb_policy = x_policy,
       gb_assignment = x_assignment, gb_schema = x_schema\<rparr>)))))"

lemma rt_binding [rt_intros]: "rt mt (enc_binding v) dec_binding v"
  unfolding enc_binding_def dec_binding_def list_all_iff
  by (rule rt_intros | simp)+

definition enc_demand :: "DemandVector \<Rightarrow> W \<Rightarrow> W" where
  "enc_demand v = w_seq [
     w_u64 (dv_packets_per_second v),
     w_u64 (dv_bytes_per_second v),
     w_u64 (dv_flows v),
     w_u64 (dv_queues v),
     w_u64 (dv_memory v)]"

definition dec_demand :: "DemandVector decoder" where
  "dec_demand =
     rd_bind br_u64 (\<lambda>x_packets_per_second.
     rd_bind br_u64 (\<lambda>x_bytes_per_second.
     rd_bind br_u64 (\<lambda>x_flows.
     rd_bind br_u64 (\<lambda>x_queues.
     rd_bind br_u64 (\<lambda>x_memory.
     rd_return \<lparr>
       dv_packets_per_second = x_packets_per_second, dv_bytes_per_second = x_bytes_per_second,
       dv_flows = x_flows, dv_queues = x_queues, dv_memory = x_memory\<rparr>)))))"

lemma rt_demand [rt_intros]: "rt mt (enc_demand v) dec_demand v"
  unfolding enc_demand_def dec_demand_def list_all_iff
  by (rule rt_intros | simp)+

definition enc_capacity :: "CapacityVector \<Rightarrow> W \<Rightarrow> W" where
  "enc_capacity v = enc_demand \<lparr>
     dv_packets_per_second = cv_packets_per_second v, dv_bytes_per_second = cv_bytes_per_second v,
     dv_flows = cv_flows v, dv_queues = cv_queues v, dv_memory = cv_memory v\<rparr>"

definition dec_capacity :: "CapacityVector decoder" where
  "dec_capacity = rd_bind dec_demand (\<lambda>raw. rd_return \<lparr>
     cv_packets_per_second = dv_packets_per_second raw, cv_bytes_per_second = dv_bytes_per_second raw,
     cv_flows = dv_flows raw, cv_queues = dv_queues raw, cv_memory = dv_memory raw\<rparr>)"

lemma rt_capacity [rt_intros]: "rt mt (enc_capacity v) dec_capacity v"
  unfolding enc_capacity_def dec_capacity_def by (rule rt_bind_return [OF rt_demand]) simp

definition enc_version :: "SemanticVersion \<Rightarrow> W \<Rightarrow> W" where
  "enc_version v = w_seq [
     w_u16 (sv_major v),
     w_u16 (sv_minor v)]"

definition dec_version :: "SemanticVersion decoder" where
  "dec_version =
     rd_bind br_u16 (\<lambda>major.
     rd_bind br_u16 (\<lambda>minor.
     rd_return (SemanticVersion major minor)))"

lemma rt_version [rt_intros]: "rt mt (enc_version v) dec_version v"
  unfolding enc_version_def dec_version_def
  by (rule rt_intros | simp)+

definition enc_version_range :: "VersionRange \<Rightarrow> W \<Rightarrow> W" where
  "enc_version_range v = w_seq [
     enc_version (vr_minimum v),
     enc_version (vr_maximum v)]"

definition dec_version_range :: "VersionRange decoder" where
  "dec_version_range =
     rd_bind dec_version (\<lambda>minimum.
     rd_bind dec_version (\<lambda>maximum.
     rd_return \<lparr>vr_minimum = minimum, vr_maximum = maximum\<rparr>))"

lemma rt_version_range [rt_intros]: "rt mt (enc_version_range v) dec_version_range v"
  unfolding enc_version_range_def dec_version_range_def
  by (rule rt_intros | simp)+

subsection \<open>Scopes, topology and functions\<close>

definition enc_scope_spec :: "ScopeSpec \<Rightarrow> W \<Rightarrow> W" where
  "enc_scope_spec v = w_seq [
     w_u8 (ScopeKind_value (ss_kind v)),
     w_token (ss_domain v),
     w_token (ss_device v),
     w_text (ss_selector v)]"

definition dec_scope_spec :: "ScopeSpec decoder" where
  "dec_scope_spec =
     rd_bind (r_enum8 ScopeKind_of_value) (\<lambda>x_kind.
     rd_bind br_token (\<lambda>x_domain.
     rd_bind br_token (\<lambda>x_device.
     rd_bind br_text (\<lambda>x_selector.
     rd_return \<lparr>
       ss_kind = x_kind, ss_domain = x_domain, ss_device = x_device, ss_selector = x_selector\<rparr>))))"

definition scope_spec_ok :: "nat \<Rightarrow> ScopeSpec \<Rightarrow> bool" where
  "scope_spec_ok mt v \<longleftrightarrow>
     token_ok (ss_domain v) \<and> token_ok (ss_device v) \<and>
     length (ss_selector v) < 2 ^ 32 \<and> length (ss_selector v) \<le> mt"

lemma rt_scope_spec [rt_intros]: "scope_spec_ok mt v \<Longrightarrow> 64 \<le> mt \<Longrightarrow> rt mt (enc_scope_spec v) dec_scope_spec v"
  unfolding enc_scope_spec_def dec_scope_spec_def scope_spec_ok_def list_all_iff
  by (rule rt_intros | simp)+

definition enc_host_record :: "HostRecord \<Rightarrow> W \<Rightarrow> W" where
  "enc_host_record v = w_seq [
     w_token (hr_id v),
     w_list w_token (hr_labels v)]"

definition dec_host_record :: "Bounds \<Rightarrow> HostRecord decoder" where
  "dec_host_record bounds =
     rd_bind br_token (\<lambda>x_id.
     rd_bind (r_list (size_mul (max_anti_affinity_entries bounds) 4) br_token) (\<lambda>x_labels.
     rd_return \<lparr>
       hr_id = x_id, hr_labels = x_labels\<rparr>))"

definition host_record_ok :: "Bounds \<Rightarrow> HostRecord \<Rightarrow> bool" where
  "host_record_ok bounds v \<longleftrightarrow>
     token_ok (hr_id v) \<and>
     length (hr_labels v) \<le> (size_mul (max_anti_affinity_entries bounds) 4) \<and>
     length (hr_labels v) < 2 ^ 32 \<and> list_all token_ok (hr_labels v)"

lemma rt_host_record [rt_intros]: "host_record_ok bounds v \<Longrightarrow> 64 \<le> mt \<Longrightarrow> rt mt (enc_host_record v) (dec_host_record bounds) v"
  unfolding enc_host_record_def dec_host_record_def host_record_ok_def list_all_iff
  by (rule rt_intros | simp)+

definition enc_device_record :: "DeviceRecord \<Rightarrow> W \<Rightarrow> W" where
  "enc_device_record v = w_seq [
     w_token (dr_id v),
     w_token (dr_host v),
     w_u8 (DeviceKind_value (dr_kind v)),
     enc_incarnation (dr_incarnation v),
     enc_capacity (dr_capacity v),
     w_list w_token (dr_labels v),
     w_boolean (dr_decommissioned v)]"

definition dec_device_record :: "Bounds \<Rightarrow> DeviceRecord decoder" where
  "dec_device_record bounds =
     rd_bind br_token (\<lambda>x_id.
     rd_bind br_token (\<lambda>x_host.
     rd_bind (r_enum8 DeviceKind_of_value) (\<lambda>x_kind.
     rd_bind dec_incarnation (\<lambda>x_incarnation.
     rd_bind dec_capacity (\<lambda>x_capacity.
     rd_bind (r_list (size_mul (max_anti_affinity_entries bounds) 4) br_token) (\<lambda>x_labels.
     rd_bind br_boolean (\<lambda>x_decommissioned.
     rd_return \<lparr>
       dr_id = x_id, dr_host = x_host, dr_kind = x_kind, dr_incarnation = x_incarnation,
       dr_capacity = x_capacity, dr_labels = x_labels, dr_decommissioned = x_decommissioned\<rparr>)))))))"

definition device_record_ok :: "Bounds \<Rightarrow> DeviceRecord \<Rightarrow> bool" where
  "device_record_ok bounds v \<longleftrightarrow>
     token_ok (dr_id v) \<and> token_ok (dr_host v) \<and> incarnation_ok (dr_incarnation v) \<and>
     length (dr_labels v) \<le> (size_mul (max_anti_affinity_entries bounds) 4) \<and>
     length (dr_labels v) < 2 ^ 32 \<and> list_all token_ok (dr_labels v)"

lemma rt_device_record [rt_intros]: "device_record_ok bounds v \<Longrightarrow> 64 \<le> mt \<Longrightarrow> rt mt (enc_device_record v) (dec_device_record bounds) v"
  unfolding enc_device_record_def dec_device_record_def device_record_ok_def list_all_iff
  by (rule rt_intros | simp)+

definition enc_link :: "LinkRecord \<Rightarrow> W \<Rightarrow> W" where
  "enc_link v = w_seq [
     w_token (lr_a v),
     w_token (lr_b v),
     w_u8 (LinkKind_value (lr_kind v))]"

definition dec_link :: "LinkRecord decoder" where
  "dec_link =
     rd_bind br_token (\<lambda>a.
     rd_bind br_token (\<lambda>b.
     rd_bind (r_enum8 LinkKind_of_value) (\<lambda>kind.
     rd_return (LinkRecord a b kind))))"

definition link_ok :: "LinkRecord \<Rightarrow> bool" where
  "link_ok v \<longleftrightarrow> token_ok (lr_a v) \<and> token_ok (lr_b v)"

lemma rt_link [rt_intros]: "link_ok v \<Longrightarrow> 64 \<le> mt \<Longrightarrow> rt mt (enc_link v) dec_link v"
  unfolding enc_link_def dec_link_def link_ok_def
  by (rule rt_intros | simp)+

definition enc_topology :: "TopologySnapshot \<Rightarrow> W \<Rightarrow> W" where
  "enc_topology v = w_seq [
     w_u64 (ts_generation v),
     enc_provenance (ts_provenance v),
     enc_freshness (ts_freshness v),
     w_list enc_host_record (ts_hosts v),
     w_list enc_device_record (ts_devices v),
     w_list enc_link (ts_links v)]"

definition dec_topology :: "Bounds \<Rightarrow> TopologySnapshot decoder" where
  "dec_topology bounds =
     rd_bind br_u64 (\<lambda>x_generation.
     rd_bind dec_provenance (\<lambda>x_provenance.
     rd_bind dec_freshness (\<lambda>x_freshness.
     rd_bind (r_list (max_hosts bounds) (dec_host_record bounds)) (\<lambda>x_hosts.
     rd_bind (r_list (max_devices bounds) (dec_device_record bounds)) (\<lambda>x_devices.
     rd_bind (r_list (size_mul (max_devices bounds) 8) dec_link) (\<lambda>x_links.
     rd_return \<lparr>
       ts_generation = x_generation, ts_provenance = x_provenance, ts_freshness = x_freshness,
       ts_hosts = x_hosts, ts_devices = x_devices, ts_links = x_links\<rparr>))))))"

definition topology_ok :: "Bounds \<Rightarrow> TopologySnapshot \<Rightarrow> bool" where
  "topology_ok bounds v \<longleftrightarrow>
     provenance_ok (ts_provenance v) \<and> freshness_ok (ts_freshness v) \<and>
     length (ts_hosts v) \<le> (max_hosts bounds) \<and> length (ts_hosts v) < 2 ^ 32 \<and>
     list_all (host_record_ok bounds) (ts_hosts v) \<and>
     length (ts_devices v) \<le> (max_devices bounds) \<and> length (ts_devices v) < 2 ^ 32 \<and>
     list_all (device_record_ok bounds) (ts_devices v) \<and>
     length (ts_links v) \<le> (size_mul (max_devices bounds) 8) \<and>
     length (ts_links v) < 2 ^ 32 \<and> list_all link_ok (ts_links v)"

lemma rt_topology [rt_intros]: "topology_ok bounds v \<Longrightarrow> 64 \<le> mt \<Longrightarrow> rt mt (enc_topology v) (dec_topology bounds) v"
  unfolding enc_topology_def dec_topology_def topology_ok_def list_all_iff
  by (rule rt_intros | simp)+

definition enc_function :: "FunctionDescriptor \<Rightarrow> W \<Rightarrow> W" where
  "enc_function v = w_seq [
     w_token (fd_id v),
     w_u16 (FunctionClass_value (fd_cls v)),
     w_semantics (fd_required v),
     enc_version (fd_required_version v),
     w_boolean (fd_exclusive_by_default v)]"

definition dec_function :: "FunctionDescriptor decoder" where
  "dec_function =
     rd_bind br_token (\<lambda>x_id.
     rd_bind r_class (\<lambda>x_cls.
     rd_bind br_u64 (\<lambda>x_required.
     rd_bind dec_version (\<lambda>x_required_version.
     rd_bind br_boolean (\<lambda>x_exclusive_by_default.
     rd_return \<lparr>
       fd_id = x_id, fd_cls = x_cls, fd_required = x_required,
       fd_required_version = x_required_version,
       fd_exclusive_by_default = x_exclusive_by_default\<rparr>)))))"

definition function_ok :: "FunctionDescriptor \<Rightarrow> bool" where
  "function_ok v \<longleftrightarrow>
     token_ok (fd_id v)"

lemma rt_function [rt_intros]: "function_ok v \<Longrightarrow> 64 \<le> mt \<Longrightarrow> rt mt (enc_function v) dec_function v"
  unfolding enc_function_def dec_function_def function_ok_def list_all_iff
  by (rule rt_intros | simp)+

subsection \<open>Evidence, policy and authority\<close>

definition enc_capability_record :: "CapabilityRecord \<Rightarrow> W \<Rightarrow> W" where
  "enc_capability_record v = w_seq [
     w_token (cr_device v),
     enc_incarnation (cr_incarnation v),
     w_u16 (FunctionClass_value (cr_cls v)),
     w_semantics (cr_supported v),
     w_semantics (cr_unsupported v),
     w_semantics (cr_unknown v),
     enc_version_range (cr_version_range v),
     enc_capacity (cr_capacity v),
     w_u64 (cr_schema v),
     w_u64 (cr_generation v),
     enc_provenance (cr_provenance v),
     enc_freshness (cr_freshness v),
     w_boolean (cr_revoked v)]"

definition dec_capability_record :: "CapabilityRecord decoder" where
  "dec_capability_record =
     rd_bind br_token (\<lambda>x_device.
     rd_bind dec_incarnation (\<lambda>x_incarnation.
     rd_bind r_class (\<lambda>x_cls.
     rd_bind br_u64 (\<lambda>x_supported.
     rd_bind br_u64 (\<lambda>x_unsupported.
     rd_bind br_u64 (\<lambda>x_unknown.
     rd_bind dec_version_range (\<lambda>x_version_range.
     rd_bind dec_capacity (\<lambda>x_capacity.
     rd_bind br_u64 (\<lambda>x_schema.
     rd_bind br_u64 (\<lambda>x_generation.
     rd_bind dec_provenance (\<lambda>x_provenance.
     rd_bind dec_freshness (\<lambda>x_freshness.
     rd_bind br_boolean (\<lambda>x_revoked.
     rd_return \<lparr>
       cr_device = x_device, cr_incarnation = x_incarnation, cr_cls = x_cls,
       cr_supported = x_supported, cr_unsupported = x_unsupported, cr_unknown = x_unknown,
       cr_version_range = x_version_range, cr_capacity = x_capacity, cr_schema = x_schema,
       cr_generation = x_generation, cr_provenance = x_provenance, cr_freshness = x_freshness,
       cr_revoked = x_revoked\<rparr>)))))))))))))"

definition capability_record_ok :: "CapabilityRecord \<Rightarrow> bool" where
  "capability_record_ok v \<longleftrightarrow>
     token_ok (cr_device v) \<and> incarnation_ok (cr_incarnation v) \<and>
     provenance_ok (cr_provenance v) \<and> freshness_ok (cr_freshness v)"

lemma rt_capability_record [rt_intros]: "capability_record_ok v \<Longrightarrow> 64 \<le> mt \<Longrightarrow> rt mt (enc_capability_record v) dec_capability_record v"
  unfolding enc_capability_record_def dec_capability_record_def capability_record_ok_def list_all_iff
  by (rule rt_intros | simp)+

definition enc_capability_report :: "CapabilityReport \<Rightarrow> W \<Rightarrow> W" where
  "enc_capability_report v = w_seq [
     enc_provenance (cp_provenance v),
     enc_freshness (cp_freshness v),
     w_list enc_capability_record (cp_records v)]"

definition dec_capability_report :: "Bounds \<Rightarrow> CapabilityReport decoder" where
  "dec_capability_report bounds =
     rd_bind dec_provenance (\<lambda>x_provenance.
     rd_bind dec_freshness (\<lambda>x_freshness.
     rd_bind (r_list (max_capability_records bounds) dec_capability_record) (\<lambda>x_records.
     rd_return \<lparr>
       cp_provenance = x_provenance, cp_freshness = x_freshness, cp_records = x_records\<rparr>)))"

definition capability_report_ok :: "Bounds \<Rightarrow> CapabilityReport \<Rightarrow> bool" where
  "capability_report_ok bounds v \<longleftrightarrow>
     provenance_ok (cp_provenance v) \<and> freshness_ok (cp_freshness v) \<and>
     length (cp_records v) \<le> (max_capability_records bounds) \<and>
     length (cp_records v) < 2 ^ 32 \<and> list_all capability_record_ok (cp_records v)"

lemma rt_capability_report [rt_intros]: "capability_report_ok bounds v \<Longrightarrow> 64 \<le> mt \<Longrightarrow> rt mt (enc_capability_report v) (dec_capability_report bounds) v"
  unfolding enc_capability_report_def dec_capability_report_def capability_report_ok_def list_all_iff
  by (rule rt_intros | simp)+

definition enc_policy_rule :: "PolicyRule \<Rightarrow> W \<Rightarrow> W" where
  "enc_policy_rule v = w_seq [
     w_u16 (FunctionClass_value (pr_cls v)),
     w_semantics (pr_required v),
     enc_device_kind_list (pr_allowed_kinds v),
     w_u8 (ExclusiveKeyMode_value (pr_exclusive_key v)),
     w_boolean (pr_allow_host_fallback v),
     w_boolean (pr_require_authority v),
     w_boolean (pr_require_fresh_observation v),
     w_boolean (pr_require_capability v),
     w_u32 (pr_priority v),
     w_u64 (of_nat (pr_max_reassignments_per_scope v)),
     w_u64 (pr_reassignment_window_micros v),
     w_u64 (of_nat (pr_max_assignments_per_device v)),
     enc_demand (pr_reserve v)]"

definition dec_policy_rule :: "PolicyRule decoder" where
  "dec_policy_rule =
     rd_bind r_class (\<lambda>x_cls.
     rd_bind br_u64 (\<lambda>x_required.
     rd_bind (dec_device_kind_list 8) (\<lambda>x_allowed_kinds.
     rd_bind (r_enum8 ExclusiveKeyMode_of_value) (\<lambda>x_exclusive_key.
     rd_bind br_boolean (\<lambda>x_allow_host_fallback.
     rd_bind br_boolean (\<lambda>x_require_authority.
     rd_bind br_boolean (\<lambda>x_require_fresh_observation.
     rd_bind br_boolean (\<lambda>x_require_capability.
     rd_bind br_u32 (\<lambda>x_priority.
     rd_bind r_size (\<lambda>x_max_reassignments_per_scope.
     rd_bind br_u64 (\<lambda>x_reassignment_window_micros.
     rd_bind r_size (\<lambda>x_max_assignments_per_device.
     rd_bind dec_demand (\<lambda>x_reserve.
     rd_return \<lparr>
       pr_cls = x_cls, pr_required = x_required, pr_allowed_kinds = x_allowed_kinds,
       pr_exclusive_key = x_exclusive_key, pr_allow_host_fallback = x_allow_host_fallback,
       pr_require_authority = x_require_authority,
       pr_require_fresh_observation = x_require_fresh_observation,
       pr_require_capability = x_require_capability, pr_priority = x_priority,
       pr_max_reassignments_per_scope = x_max_reassignments_per_scope,
       pr_reassignment_window_micros = x_reassignment_window_micros,
       pr_max_assignments_per_device = x_max_assignments_per_device, pr_reserve = x_reserve\<rparr>)))))))))))))"

definition policy_rule_ok :: "PolicyRule \<Rightarrow> bool" where
  "policy_rule_ok v \<longleftrightarrow>
     length (pr_allowed_kinds v) \<le> 8 \<and> length (pr_allowed_kinds v) < 2 ^ 32 \<and>
     (pr_max_reassignments_per_scope v) < 2 ^ 64 \<and> (pr_max_assignments_per_device v) < 2 ^ 64"

lemma rt_policy_rule [rt_intros]: "policy_rule_ok v \<Longrightarrow> 64 \<le> mt \<Longrightarrow> rt mt (enc_policy_rule v) dec_policy_rule v"
  unfolding enc_policy_rule_def dec_policy_rule_def policy_rule_ok_def list_all_iff
  by (rule rt_intros | simp)+

definition enc_policy :: "PolicySnapshot \<Rightarrow> W \<Rightarrow> W" where
  "enc_policy v = w_seq [
     w_u64 (ps_generation v),
     enc_provenance (ps_provenance v),
     enc_freshness (ps_freshness v),
     w_boolean (ps_default_deny v),
     w_list enc_policy_rule (ps_rules v)]"

definition dec_policy :: "Bounds \<Rightarrow> PolicySnapshot decoder" where
  "dec_policy bounds =
     rd_bind br_u64 (\<lambda>x_generation.
     rd_bind dec_provenance (\<lambda>x_provenance.
     rd_bind dec_freshness (\<lambda>x_freshness.
     rd_bind br_boolean (\<lambda>x_default_deny.
     rd_bind (r_list (max_functions bounds) dec_policy_rule) (\<lambda>x_rules.
     rd_return \<lparr>
       ps_generation = x_generation, ps_provenance = x_provenance, ps_freshness = x_freshness,
       ps_rules = x_rules, ps_default_deny = x_default_deny\<rparr>)))))"

definition policy_ok :: "Bounds \<Rightarrow> PolicySnapshot \<Rightarrow> bool" where
  "policy_ok bounds v \<longleftrightarrow>
     provenance_ok (ps_provenance v) \<and> freshness_ok (ps_freshness v) \<and>
     length (ps_rules v) \<le> (max_functions bounds) \<and> length (ps_rules v) < 2 ^ 32 \<and>
     list_all policy_rule_ok (ps_rules v)"

lemma rt_policy [rt_intros]: "policy_ok bounds v \<Longrightarrow> 64 \<le> mt \<Longrightarrow> rt mt (enc_policy v) (dec_policy bounds) v"
  unfolding enc_policy_def dec_policy_def policy_ok_def list_all_iff
  by (rule rt_intros | simp)+

definition enc_authority :: "AuthorityGrant \<Rightarrow> W \<Rightarrow> W" where
  "enc_authority v = w_seq [
     w_token (ag_id v),
     w_u64 (ag_policy_generation v),
     w_list (\<lambda>c. w_u16 (FunctionClass_value c)) (ag_classes v),
     enc_device_kind_list (ag_kinds v),
     w_list (\<lambda>k. w_u8 (AuthorityAction_value k)) (ag_actions v),
     w_token (ag_host_scope v),
     w_token (ag_scope v),
     w_semantics (ag_semantics_ceiling v),
     w_i64 (ag_issued_at v),
     w_i64 (ag_expires_at v),
     enc_provenance (ag_provenance v),
     enc_freshness (ag_freshness v),
     w_boolean (ag_revoked v),
     w_u64 (ag_max_uses v),
     w_u64 (ag_used v)]"

definition dec_authority :: "AuthorityGrant decoder" where
  "dec_authority =
     rd_bind br_token (\<lambda>x_id.
     rd_bind br_u64 (\<lambda>x_policy_generation.
     rd_bind (r_list 64 r_class) (\<lambda>x_classes.
     rd_bind (dec_device_kind_list 8) (\<lambda>x_kinds.
     rd_bind (r_list 8 (r_enum8 AuthorityAction_of_value)) (\<lambda>x_actions.
     rd_bind br_token (\<lambda>x_host_scope.
     rd_bind br_token (\<lambda>x_scope.
     rd_bind br_u64 (\<lambda>x_semantics_ceiling.
     rd_bind br_i64 (\<lambda>x_issued_at.
     rd_bind br_i64 (\<lambda>x_expires_at.
     rd_bind dec_provenance (\<lambda>x_provenance.
     rd_bind dec_freshness (\<lambda>x_freshness.
     rd_bind br_boolean (\<lambda>x_revoked.
     rd_bind br_u64 (\<lambda>x_max_uses.
     rd_bind br_u64 (\<lambda>x_used.
     rd_return \<lparr>
       ag_id = x_id, ag_policy_generation = x_policy_generation, ag_classes = x_classes,
       ag_kinds = x_kinds, ag_actions = x_actions, ag_host_scope = x_host_scope,
       ag_scope = x_scope, ag_semantics_ceiling = x_semantics_ceiling,
       ag_issued_at = x_issued_at, ag_expires_at = x_expires_at, ag_provenance = x_provenance,
       ag_freshness = x_freshness, ag_revoked = x_revoked, ag_max_uses = x_max_uses,
       ag_used = x_used\<rparr>)))))))))))))))"

definition authority_ok :: "AuthorityGrant \<Rightarrow> bool" where
  "authority_ok v \<longleftrightarrow>
     token_ok (ag_id v) \<and> length (ag_classes v) \<le> 64 \<and>
     length (ag_classes v) < 2 ^ 32 \<and> length (ag_kinds v) \<le> 8 \<and>
     length (ag_kinds v) < 2 ^ 32 \<and> length (ag_actions v) \<le> 8 \<and>
     length (ag_actions v) < 2 ^ 32 \<and> token_ok (ag_host_scope v) \<and>
     token_ok (ag_scope v) \<and> is_i64 (ag_issued_at v) \<and> is_i64 (ag_expires_at v) \<and>
     provenance_ok (ag_provenance v) \<and> freshness_ok (ag_freshness v)"

lemma rt_authority [rt_intros]: "authority_ok v \<Longrightarrow> 64 \<le> mt \<Longrightarrow> rt mt (enc_authority v) dec_authority v"
  unfolding enc_authority_def dec_authority_def authority_ok_def list_all_iff
  by (rule rt_intros | simp)+

definition enc_observation :: "DeviceObservation \<Rightarrow> W \<Rightarrow> W" where
  "enc_observation v = w_seq [
     w_token (do_device v),
     enc_incarnation (do_incarnation v),
     w_u8 (Liveness_value (do_liveness v)),
     enc_capacity (do_available v),
     w_boolean (do_available_known v),
     enc_freshness (do_freshness v),
     enc_provenance (do_provenance v)]"

definition dec_observation :: "DeviceObservation decoder" where
  "dec_observation =
     rd_bind br_token (\<lambda>x_device.
     rd_bind dec_incarnation (\<lambda>x_incarnation.
     rd_bind (r_enum8 Liveness_of_value) (\<lambda>x_liveness.
     rd_bind dec_capacity (\<lambda>x_available.
     rd_bind br_boolean (\<lambda>x_available_known.
     rd_bind dec_freshness (\<lambda>x_freshness.
     rd_bind dec_provenance (\<lambda>x_provenance.
     rd_return \<lparr>
       do_device = x_device, do_incarnation = x_incarnation, do_liveness = x_liveness,
       do_available = x_available, do_available_known = x_available_known,
       do_freshness = x_freshness, do_provenance = x_provenance\<rparr>)))))))"

definition observation_ok :: "DeviceObservation \<Rightarrow> bool" where
  "observation_ok v \<longleftrightarrow>
     token_ok (do_device v) \<and> incarnation_ok (do_incarnation v) \<and>
     freshness_ok (do_freshness v) \<and> provenance_ok (do_provenance v)"

lemma rt_observation [rt_intros]: "observation_ok v \<Longrightarrow> 64 \<le> mt \<Longrightarrow> rt mt (enc_observation v) dec_observation v"
  unfolding enc_observation_def dec_observation_def observation_ok_def list_all_iff
  by (rule rt_intros | simp)+

definition enc_observation_report :: "ObservationReport \<Rightarrow> W \<Rightarrow> W" where
  "enc_observation_report v = w_seq [
     w_u64 (or_topology_generation v),
     enc_provenance (or_provenance v),
     enc_freshness (or_freshness v),
     w_list enc_observation (or_devices v)]"

definition dec_observation_report :: "Bounds \<Rightarrow> ObservationReport decoder" where
  "dec_observation_report bounds =
     rd_bind br_u64 (\<lambda>x_topology_generation.
     rd_bind dec_provenance (\<lambda>x_provenance.
     rd_bind dec_freshness (\<lambda>x_freshness.
     rd_bind (r_list (max_observations bounds) dec_observation) (\<lambda>x_devices.
     rd_return \<lparr>
       or_topology_generation = x_topology_generation, or_provenance = x_provenance,
       or_freshness = x_freshness, or_devices = x_devices\<rparr>))))"

definition observation_report_ok :: "Bounds \<Rightarrow> ObservationReport \<Rightarrow> bool" where
  "observation_report_ok bounds v \<longleftrightarrow>
     provenance_ok (or_provenance v) \<and> freshness_ok (or_freshness v) \<and>
     length (or_devices v) \<le> (max_observations bounds) \<and>
     length (or_devices v) < 2 ^ 32 \<and> list_all observation_ok (or_devices v)"

lemma rt_observation_report [rt_intros]: "observation_report_ok bounds v \<Longrightarrow> 64 \<le> mt \<Longrightarrow> rt mt (enc_observation_report v) (dec_observation_report bounds) v"
  unfolding enc_observation_report_def dec_observation_report_def observation_report_ok_def list_all_iff
  by (rule rt_intros | simp)+

subsection \<open>Assignments, effects and requests\<close>

definition enc_transition_record :: "TransitionRecord \<Rightarrow> W \<Rightarrow> W" where
  "enc_transition_record v = w_seq [
     w_u8 (AssignmentState_value (tr_from v)),
     w_u8 (AssignmentState_value (tr_to v)),
     w_u16 (tr_reason v),
     w_i64 (tr_at v),
     enc_fence (tr_fence v)]"

definition dec_transition_record :: "TransitionRecord decoder" where
  "dec_transition_record =
     rd_bind (r_enum8 AssignmentState_of_value) (\<lambda>x_from.
     rd_bind (r_enum8 AssignmentState_of_value) (\<lambda>x_to.
     rd_bind r_reason_code (\<lambda>x_reason.
     rd_bind br_i64 (\<lambda>x_at.
     rd_bind dec_fence (\<lambda>x_fence.
     rd_return \<lparr>
       tr_from = x_from, tr_to = x_to, tr_reason = x_reason, tr_at = x_at, tr_fence = x_fence\<rparr>)))))"

definition transition_record_ok :: "TransitionRecord \<Rightarrow> bool" where
  "transition_record_ok v \<longleftrightarrow>
     reason_ok (tr_reason v) \<and> is_i64 (tr_at v)"

lemma rt_transition_record [rt_intros]: "transition_record_ok v \<Longrightarrow> 64 \<le> mt \<Longrightarrow> rt mt (enc_transition_record v) dec_transition_record v"
  unfolding enc_transition_record_def dec_transition_record_def transition_record_ok_def list_all_iff
  by (rule rt_intros | simp)+

definition enc_effect_record :: "EffectRecord \<Rightarrow> W \<Rightarrow> W" where
  "enc_effect_record v = w_seq [
     w_u64 (ef_attempt v),
     enc_fence (ef_fence v),
     w_u64 (ef_generation v),
     enc_incarnation (ef_incarnation v),
     w_u64 (ef_capability_generation v),
     w_u8 (EffectOutcome_value (ef_outcome v)),
     w_u16 (ef_reason v),
     w_i64 (ef_observed_at v)]"

definition dec_effect_record :: "EffectRecord decoder" where
  "dec_effect_record =
     rd_bind br_u64 (\<lambda>x_attempt.
     rd_bind dec_fence (\<lambda>x_fence.
     rd_bind br_u64 (\<lambda>x_generation.
     rd_bind dec_incarnation (\<lambda>x_incarnation.
     rd_bind br_u64 (\<lambda>x_capability_generation.
     rd_bind (r_enum8 EffectOutcome_of_value) (\<lambda>x_outcome.
     rd_bind r_reason_code (\<lambda>x_reason.
     rd_bind br_i64 (\<lambda>x_observed_at.
     rd_return \<lparr>
       ef_attempt = x_attempt, ef_fence = x_fence, ef_generation = x_generation,
       ef_incarnation = x_incarnation, ef_capability_generation = x_capability_generation,
       ef_outcome = x_outcome, ef_reason = x_reason, ef_observed_at = x_observed_at\<rparr>))))))))"

definition effect_record_ok :: "EffectRecord \<Rightarrow> bool" where
  "effect_record_ok v \<longleftrightarrow>
     incarnation_ok (ef_incarnation v) \<and> reason_ok (ef_reason v) \<and>
     is_i64 (ef_observed_at v)"

lemma rt_effect_record [rt_intros]: "effect_record_ok v \<Longrightarrow> 64 \<le> mt \<Longrightarrow> rt mt (enc_effect_record v) dec_effect_record v"
  unfolding enc_effect_record_def dec_effect_record_def effect_record_ok_def list_all_iff
  by (rule rt_intros | simp)+

definition enc_assignment :: "AssignmentRecord \<Rightarrow> W \<Rightarrow> W" where
  "enc_assignment v = w_seq [
     w_token (ar_id v),
     w_u64 (ar_generation v),
     w_token (ar_function v),
     w_u16 (FunctionClass_value (ar_cls v)),
     enc_scope_spec (ar_scope v),
     w_token (ar_scope_id v),
     w_u8 (Exclusivity_value (ar_exclusivity v)),
     w_u8 (ExclusiveKeyMode_value (ar_exclusive_key v)),
     w_u8 (ExecutionMode_value (ar_mode v)),
     w_u8 (AssignmentState_value (ar_state v)),
     w_token (ar_device v),
     w_token (ar_host v),
     w_u8 (DeviceKind_value (ar_kind v)),
     enc_incarnation (ar_incarnation v),
     enc_demand (ar_demand v),
     enc_binding (ar_binding v),
     w_token (ar_authority v),
     w_u64 (ar_lease v),
     enc_fence (ar_fence v),
     w_u64 (ar_attempt v),
     w_digest (ar_request_fingerprint v),
     enc_provenance (ar_provenance v),
     enc_freshness (ar_freshness v),
     w_u16 (ar_state_reason v),
     w_i64 (ar_created_at v),
     w_i64 (ar_updated_at v),
     w_list enc_transition_record (ar_history v),
     w_list enc_effect_record (ar_effects v)]"

definition dec_assignment :: "Bounds \<Rightarrow> AssignmentRecord decoder" where
  "dec_assignment bounds =
     rd_bind br_token (\<lambda>x_id.
     rd_bind br_u64 (\<lambda>x_generation.
     rd_bind br_token (\<lambda>x_function.
     rd_bind r_class (\<lambda>x_cls.
     rd_bind dec_scope_spec (\<lambda>x_scope.
     rd_bind br_token (\<lambda>x_scope_id.
     rd_bind (r_enum8 Exclusivity_of_value) (\<lambda>x_exclusivity.
     rd_bind (r_enum8 ExclusiveKeyMode_of_value) (\<lambda>x_exclusive_key.
     rd_bind (r_enum8 ExecutionMode_of_value) (\<lambda>x_mode.
     rd_bind (r_enum8 AssignmentState_of_value) (\<lambda>x_state.
     rd_bind br_token (\<lambda>x_device.
     rd_bind br_token (\<lambda>x_host.
     rd_bind (r_enum8 DeviceKind_of_value) (\<lambda>x_kind.
     rd_bind dec_incarnation (\<lambda>x_incarnation.
     rd_bind dec_demand (\<lambda>x_demand.
     rd_bind dec_binding (\<lambda>x_binding.
     rd_bind br_token (\<lambda>x_authority.
     rd_bind br_u64 (\<lambda>x_lease.
     rd_bind dec_fence (\<lambda>x_fence.
     rd_bind br_u64 (\<lambda>x_attempt.
     rd_bind br_digest (\<lambda>x_request_fingerprint.
     rd_bind dec_provenance (\<lambda>x_provenance.
     rd_bind dec_freshness (\<lambda>x_freshness.
     rd_bind r_reason_code (\<lambda>x_state_reason.
     rd_bind br_i64 (\<lambda>x_created_at.
     rd_bind br_i64 (\<lambda>x_updated_at.
     rd_bind (r_list (max_history_per_assignment bounds) dec_transition_record) (\<lambda>x_history.
     rd_bind (r_list (max_effects_per_assignment bounds) dec_effect_record) (\<lambda>x_effects.
     rd_return \<lparr>
       ar_id = x_id, ar_generation = x_generation, ar_function = x_function, ar_cls = x_cls,
       ar_scope = x_scope, ar_scope_id = x_scope_id, ar_exclusivity = x_exclusivity,
       ar_exclusive_key = x_exclusive_key, ar_mode = x_mode, ar_state = x_state,
       ar_device = x_device, ar_host = x_host, ar_kind = x_kind, ar_incarnation = x_incarnation,
       ar_demand = x_demand, ar_binding = x_binding, ar_authority = x_authority,
       ar_lease = x_lease, ar_fence = x_fence, ar_attempt = x_attempt,
       ar_request_fingerprint = x_request_fingerprint, ar_provenance = x_provenance,
       ar_freshness = x_freshness, ar_state_reason = x_state_reason,
       ar_created_at = x_created_at, ar_updated_at = x_updated_at, ar_history = x_history,
       ar_effects = x_effects\<rparr>))))))))))))))))))))))))))))"

definition assignment_ok :: "nat \<Rightarrow> Bounds \<Rightarrow> AssignmentRecord \<Rightarrow> bool" where
  "assignment_ok mt bounds v \<longleftrightarrow>
     token_ok (ar_id v) \<and> token_ok (ar_function v) \<and> scope_spec_ok mt (ar_scope v) \<and>
     token_ok (ar_scope_id v) \<and> token_ok (ar_device v) \<and> token_ok (ar_host v) \<and>
     incarnation_ok (ar_incarnation v) \<and> token_ok (ar_authority v) \<and>
     length (ar_request_fingerprint v) = 32 \<and> provenance_ok (ar_provenance v) \<and>
     freshness_ok (ar_freshness v) \<and> reason_ok (ar_state_reason v) \<and>
     is_i64 (ar_created_at v) \<and> is_i64 (ar_updated_at v) \<and>
     length (ar_history v) \<le> (max_history_per_assignment bounds) \<and>
     length (ar_history v) < 2 ^ 32 \<and> list_all transition_record_ok (ar_history v) \<and>
     length (ar_effects v) \<le> (max_effects_per_assignment bounds) \<and>
     length (ar_effects v) < 2 ^ 32 \<and> list_all effect_record_ok (ar_effects v)"

lemma rt_assignment [rt_intros]: "assignment_ok mt bounds v \<Longrightarrow> 64 \<le> mt \<Longrightarrow> rt mt (enc_assignment v) (dec_assignment bounds) v"
  unfolding enc_assignment_def dec_assignment_def assignment_ok_def list_all_iff
  by (rule rt_intros | simp)+

definition enc_effect_report :: "EffectReport \<Rightarrow> W \<Rightarrow> W" where
  "enc_effect_report v = w_seq [
     w_token (er_request_id v),
     w_token (er_assignment v),
     w_u64 (er_attempt v),
     w_u64 (er_generation v),
     enc_fence (er_fence v),
     enc_incarnation (er_incarnation v),
     w_u64 (er_capability_generation v),
     w_u8 (EffectOutcome_value (er_outcome v)),
     w_u16 (er_detail_reason v),
     w_i64 (er_observed_at v),
     enc_provenance (er_provenance v)]"

definition dec_effect_report :: "EffectReport decoder" where
  "dec_effect_report =
     rd_bind br_token (\<lambda>x_request_id.
     rd_bind br_token (\<lambda>x_assignment.
     rd_bind br_u64 (\<lambda>x_attempt.
     rd_bind br_u64 (\<lambda>x_generation.
     rd_bind dec_fence (\<lambda>x_fence.
     rd_bind dec_incarnation (\<lambda>x_incarnation.
     rd_bind br_u64 (\<lambda>x_capability_generation.
     rd_bind (r_enum8 EffectOutcome_of_value) (\<lambda>x_outcome.
     rd_bind r_reason_code (\<lambda>x_detail_reason.
     rd_bind br_i64 (\<lambda>x_observed_at.
     rd_bind dec_provenance (\<lambda>x_provenance.
     rd_return \<lparr>
       er_request_id = x_request_id, er_assignment = x_assignment, er_attempt = x_attempt,
       er_generation = x_generation, er_fence = x_fence, er_incarnation = x_incarnation,
       er_capability_generation = x_capability_generation, er_outcome = x_outcome,
       er_detail_reason = x_detail_reason, er_observed_at = x_observed_at,
       er_provenance = x_provenance\<rparr>)))))))))))"

definition effect_report_ok :: "EffectReport \<Rightarrow> bool" where
  "effect_report_ok v \<longleftrightarrow>
     token_ok (er_request_id v) \<and> token_ok (er_assignment v) \<and>
     incarnation_ok (er_incarnation v) \<and> reason_ok (er_detail_reason v) \<and>
     is_i64 (er_observed_at v) \<and> provenance_ok (er_provenance v)"

lemma rt_effect_report [rt_intros]: "effect_report_ok v \<Longrightarrow> 64 \<le> mt \<Longrightarrow> rt mt (enc_effect_report v) dec_effect_report v"
  unfolding enc_effect_report_def dec_effect_report_def effect_report_ok_def list_all_iff
  by (rule rt_intros | simp)+

definition enc_placement_request :: "PlacementRequest \<Rightarrow> W \<Rightarrow> W" where
  "enc_placement_request v = w_seq [
     w_token (rq_request_id v),
     w_token (rq_function v),
     w_u16 (FunctionClass_value (rq_cls v)),
     enc_scope_spec (rq_scope v),
     w_semantics (rq_required v),
     enc_version (rq_required_version v),
     w_u8 (Exclusivity_value (rq_exclusivity v)),
     enc_demand (rq_demand v),
     enc_id_list (rq_preferred_devices v),
     enc_host_id_list (rq_preferred_hosts v),
     enc_id_list (rq_anti_affinity_devices v),
     enc_host_id_list (rq_anti_affinity_hosts v),
     w_list w_token (rq_required_labels v),
     enc_function_id_list (rq_dependencies v),
     w_u64 (rq_min_topology v),
     w_u64 (rq_min_capability v),
     w_u64 (rq_min_policy v),
     w_boolean (rq_allow_host_fallback v),
     w_u64 (of_nat (rq_max_reassignments v)),
     w_boolean (rq_request_replacement v)]"

definition dec_placement_request :: "Bounds \<Rightarrow> PlacementRequest decoder" where
  "dec_placement_request bounds =
     rd_bind br_token (\<lambda>x_request_id.
     rd_bind br_token (\<lambda>x_function.
     rd_bind r_class (\<lambda>x_cls.
     rd_bind dec_scope_spec (\<lambda>x_scope.
     rd_bind br_u64 (\<lambda>x_required.
     rd_bind dec_version (\<lambda>x_required_version.
     rd_bind (r_enum8 Exclusivity_of_value) (\<lambda>x_exclusivity.
     rd_bind dec_demand (\<lambda>x_demand.
     rd_bind (dec_device_id_list (max_affinity_entries bounds)) (\<lambda>x_preferred_devices.
     rd_bind (dec_host_id_list (max_affinity_entries bounds)) (\<lambda>x_preferred_hosts.
     rd_bind (dec_device_id_list (max_anti_affinity_entries bounds)) (\<lambda>x_anti_affinity_devices.
     rd_bind (dec_host_id_list (max_anti_affinity_entries bounds)) (\<lambda>x_anti_affinity_hosts.
     rd_bind (r_list (max_anti_affinity_entries bounds) br_token) (\<lambda>x_required_labels.
     rd_bind (dec_function_id_list (max_dependencies_per_request bounds)) (\<lambda>x_dependencies.
     rd_bind br_u64 (\<lambda>x_min_topology.
     rd_bind br_u64 (\<lambda>x_min_capability.
     rd_bind br_u64 (\<lambda>x_min_policy.
     rd_bind br_boolean (\<lambda>x_allow_host_fallback.
     rd_bind r_size (\<lambda>x_max_reassignments.
     rd_bind br_boolean (\<lambda>x_request_replacement.
     rd_return \<lparr>
       rq_request_id = x_request_id, rq_function = x_function, rq_cls = x_cls,
       rq_scope = x_scope, rq_required = x_required, rq_required_version = x_required_version,
       rq_exclusivity = x_exclusivity, rq_demand = x_demand,
       rq_preferred_devices = x_preferred_devices, rq_preferred_hosts = x_preferred_hosts,
       rq_anti_affinity_devices = x_anti_affinity_devices,
       rq_anti_affinity_hosts = x_anti_affinity_hosts, rq_required_labels = x_required_labels,
       rq_dependencies = x_dependencies, rq_min_topology = x_min_topology,
       rq_min_capability = x_min_capability, rq_min_policy = x_min_policy,
       rq_allow_host_fallback = x_allow_host_fallback,
       rq_max_reassignments = x_max_reassignments,
       rq_request_replacement = x_request_replacement\<rparr>))))))))))))))))))))"

definition placement_request_ok :: "nat \<Rightarrow> Bounds \<Rightarrow> PlacementRequest \<Rightarrow> bool" where
  "placement_request_ok mt bounds v \<longleftrightarrow>
     token_ok (rq_request_id v) \<and> token_ok (rq_function v) \<and>
     scope_spec_ok mt (rq_scope v) \<and>
     length (rq_preferred_devices v) \<le> (max_affinity_entries bounds) \<and>
     length (rq_preferred_devices v) < 2 ^ 32 \<and>
     list_all token_ok (rq_preferred_devices v) \<and>
     length (rq_preferred_hosts v) \<le> (max_affinity_entries bounds) \<and>
     length (rq_preferred_hosts v) < 2 ^ 32 \<and> list_all token_ok (rq_preferred_hosts v) \<and>
     length (rq_anti_affinity_devices v) \<le> (max_anti_affinity_entries bounds) \<and>
     length (rq_anti_affinity_devices v) < 2 ^ 32 \<and>
     list_all token_ok (rq_anti_affinity_devices v) \<and>
     length (rq_anti_affinity_hosts v) \<le> (max_anti_affinity_entries bounds) \<and>
     length (rq_anti_affinity_hosts v) < 2 ^ 32 \<and>
     list_all token_ok (rq_anti_affinity_hosts v) \<and>
     length (rq_required_labels v) \<le> (max_anti_affinity_entries bounds) \<and>
     length (rq_required_labels v) < 2 ^ 32 \<and> list_all token_ok (rq_required_labels v) \<and>
     length (rq_dependencies v) \<le> (max_dependencies_per_request bounds) \<and>
     length (rq_dependencies v) < 2 ^ 32 \<and> list_all token_ok (rq_dependencies v) \<and>
     (rq_max_reassignments v) < 2 ^ 64"

lemma rt_placement_request [rt_intros]: "placement_request_ok mt bounds v \<Longrightarrow> 64 \<le> mt \<Longrightarrow> rt mt (enc_placement_request v) (dec_placement_request bounds) v"
  unfolding enc_placement_request_def dec_placement_request_def placement_request_ok_def list_all_iff
  by (rule rt_intros | simp)+

subsection \<open>Plans, explanations and query results\<close>

definition enc_candidate :: "CandidateEvaluation \<Rightarrow> W \<Rightarrow> W" where
  "enc_candidate v = w_seq [
     w_token (ca_device v),
     w_token (ca_host v),
     w_u8 (DeviceKind_value (ca_kind v)),
     enc_incarnation (ca_incarnation v),
     w_u64 (ca_capability_generation v),
     w_boolean (ca_eligible v),
     w_u8 (MatchVerdict_value (ca_verdict v)),
     w_u16 (ca_reason v),
     enc_reason_list (ca_contributing v),
     w_u8 (ExecutionMode_value (ca_mode v)),
     w_u64 (ca_rank v),
     w_u32 (ca_offload_rank v),
     w_u32 (ca_kind_rank v),
     w_u32 (ca_locality_rank v),
     w_u64 (ca_utilization_ppm v),
     w_digest (ca_evaluation_digest v)]"

definition dec_candidate :: "Bounds \<Rightarrow> CandidateEvaluation decoder" where
  "dec_candidate bounds =
     rd_bind br_token (\<lambda>x_device.
     rd_bind br_token (\<lambda>x_host.
     rd_bind (r_enum8 DeviceKind_of_value) (\<lambda>x_kind.
     rd_bind dec_incarnation (\<lambda>x_incarnation.
     rd_bind br_u64 (\<lambda>x_capability_generation.
     rd_bind br_boolean (\<lambda>x_eligible.
     rd_bind (r_enum8 MatchVerdict_of_value) (\<lambda>x_verdict.
     rd_bind r_reason_code (\<lambda>x_reason.
     rd_bind (dec_reason_list (max_reasons_per_explanation bounds)) (\<lambda>x_contributing.
     rd_bind (r_enum8 ExecutionMode_of_value) (\<lambda>x_mode.
     rd_bind br_u64 (\<lambda>x_rank.
     rd_bind br_u32 (\<lambda>x_offload_rank.
     rd_bind br_u32 (\<lambda>x_kind_rank.
     rd_bind br_u32 (\<lambda>x_locality_rank.
     rd_bind br_u64 (\<lambda>x_utilization_ppm.
     rd_bind br_digest (\<lambda>x_evaluation_digest.
     rd_return \<lparr>
       ca_device = x_device, ca_host = x_host, ca_kind = x_kind, ca_incarnation = x_incarnation,
       ca_capability_generation = x_capability_generation, ca_eligible = x_eligible,
       ca_verdict = x_verdict, ca_reason = x_reason, ca_contributing = x_contributing,
       ca_mode = x_mode, ca_rank = x_rank, ca_offload_rank = x_offload_rank,
       ca_kind_rank = x_kind_rank, ca_locality_rank = x_locality_rank,
       ca_utilization_ppm = x_utilization_ppm, ca_evaluation_digest = x_evaluation_digest\<rparr>))))))))))))))))"

definition candidate_ok :: "Bounds \<Rightarrow> CandidateEvaluation \<Rightarrow> bool" where
  "candidate_ok bounds v \<longleftrightarrow>
     token_ok (ca_device v) \<and> token_ok (ca_host v) \<and>
     incarnation_ok (ca_incarnation v) \<and> reason_ok (ca_reason v) \<and>
     length (ca_contributing v) \<le> (max_reasons_per_explanation bounds) \<and>
     length (ca_contributing v) < 2 ^ 32 \<and> list_all reason_ok (ca_contributing v) \<and>
     length (ca_evaluation_digest v) = 32"

lemma rt_candidate [rt_intros]: "candidate_ok bounds v \<Longrightarrow> 64 \<le> mt \<Longrightarrow> rt mt (enc_candidate v) (dec_candidate bounds) v"
  unfolding enc_candidate_def dec_candidate_def candidate_ok_def list_all_iff
  by (rule rt_intros | simp)+

definition enc_plan :: "AssignmentPlan \<Rightarrow> W \<Rightarrow> W" where
  "enc_plan v = w_seq [
     w_token (pl_request_id v),
     w_token (pl_function v),
     w_u16 (FunctionClass_value (pl_cls v)),
     enc_scope_spec (pl_scope v),
     w_token (pl_scope_id v),
     w_u8 (Exclusivity_value (pl_exclusivity v)),
     w_u8 (ExclusiveKeyMode_value (pl_exclusive_key v)),
     w_u8 (ExecutionMode_value (pl_mode v)),
     w_token (pl_device v),
     w_token (pl_host v),
     w_u8 (DeviceKind_value (pl_kind v)),
     enc_incarnation (pl_incarnation v),
     enc_demand (pl_demand v),
     enc_binding (pl_binding v),
     w_token (pl_authority v),
     w_semantics (pl_effective_requirement v),
     w_digest (pl_plan_digest v)]"

definition dec_plan :: "AssignmentPlan decoder" where
  "dec_plan =
     rd_bind br_token (\<lambda>x_request_id.
     rd_bind br_token (\<lambda>x_function.
     rd_bind r_class (\<lambda>x_cls.
     rd_bind dec_scope_spec (\<lambda>x_scope.
     rd_bind br_token (\<lambda>x_scope_id.
     rd_bind (r_enum8 Exclusivity_of_value) (\<lambda>x_exclusivity.
     rd_bind (r_enum8 ExclusiveKeyMode_of_value) (\<lambda>x_exclusive_key.
     rd_bind (r_enum8 ExecutionMode_of_value) (\<lambda>x_mode.
     rd_bind br_token (\<lambda>x_device.
     rd_bind br_token (\<lambda>x_host.
     rd_bind (r_enum8 DeviceKind_of_value) (\<lambda>x_kind.
     rd_bind dec_incarnation (\<lambda>x_incarnation.
     rd_bind dec_demand (\<lambda>x_demand.
     rd_bind dec_binding (\<lambda>x_binding.
     rd_bind br_token (\<lambda>x_authority.
     rd_bind br_u64 (\<lambda>x_effective_requirement.
     rd_bind br_digest (\<lambda>x_plan_digest.
     rd_return \<lparr>
       pl_request_id = x_request_id, pl_function = x_function, pl_cls = x_cls,
       pl_scope = x_scope, pl_scope_id = x_scope_id, pl_exclusivity = x_exclusivity,
       pl_exclusive_key = x_exclusive_key, pl_mode = x_mode, pl_device = x_device,
       pl_host = x_host, pl_kind = x_kind, pl_incarnation = x_incarnation, pl_demand = x_demand,
       pl_binding = x_binding, pl_authority = x_authority,
       pl_effective_requirement = x_effective_requirement, pl_plan_digest = x_plan_digest\<rparr>)))))))))))))))))"

definition plan_ok :: "nat \<Rightarrow> AssignmentPlan \<Rightarrow> bool" where
  "plan_ok mt v \<longleftrightarrow>
     token_ok (pl_request_id v) \<and> token_ok (pl_function v) \<and>
     scope_spec_ok mt (pl_scope v) \<and> token_ok (pl_scope_id v) \<and>
     token_ok (pl_device v) \<and> token_ok (pl_host v) \<and>
     incarnation_ok (pl_incarnation v) \<and> token_ok (pl_authority v) \<and>
     length (pl_plan_digest v) = 32"

lemma rt_plan [rt_intros]: "plan_ok mt v \<Longrightarrow> 64 \<le> mt \<Longrightarrow> rt mt (enc_plan v) dec_plan v"
  unfolding enc_plan_def dec_plan_def plan_ok_def list_all_iff
  by (rule rt_intros | simp)+

definition enc_explanation :: "Explanation \<Rightarrow> W \<Rightarrow> W" where
  "enc_explanation v = w_seq [
     w_u8 (Decision_value (ex_decision v)),
     w_u16 (ex_primary_reason v),
     enc_reason_list (ex_reasons v),
     w_token (ex_request_id v),
     w_token (ex_function v),
     w_u16 (FunctionClass_value (ex_cls v)),
     enc_scope_spec (ex_scope v),
     w_token (ex_scope_id v),
     w_u8 (Exclusivity_value (ex_exclusivity v)),
     w_u8 (ExecutionMode_value (ex_mode v)),
     enc_binding (ex_binding v),
     w_token (ex_authority v),
     w_u64 (ex_lease v),
     enc_fence (ex_fence v),
     w_u64 (ex_attempt v),
     w_token (ex_assignment v),
     w_token (ex_replaced v),
     w_token (ex_selected_device v),
     w_list enc_candidate (ex_candidates v),
     w_u64 (of_nat (ex_candidates_total v)),
     w_boolean (ex_candidates_truncated v),
     w_digest (ex_input_digest v),
     w_digest (ex_decision_digest v)]"

definition dec_explanation :: "Bounds \<Rightarrow> Explanation decoder" where
  "dec_explanation bounds =
     rd_bind (r_enum8 Decision_of_value) (\<lambda>x_decision.
     rd_bind r_reason_code (\<lambda>x_primary_reason.
     rd_bind (dec_reason_list (max_reasons_per_explanation bounds)) (\<lambda>x_reasons.
     rd_bind br_token (\<lambda>x_request_id.
     rd_bind br_token (\<lambda>x_function.
     rd_bind r_class (\<lambda>x_cls.
     rd_bind dec_scope_spec (\<lambda>x_scope.
     rd_bind br_token (\<lambda>x_scope_id.
     rd_bind (r_enum8 Exclusivity_of_value) (\<lambda>x_exclusivity.
     rd_bind (r_enum8 ExecutionMode_of_value) (\<lambda>x_mode.
     rd_bind dec_binding (\<lambda>x_binding.
     rd_bind br_token (\<lambda>x_authority.
     rd_bind br_u64 (\<lambda>x_lease.
     rd_bind dec_fence (\<lambda>x_fence.
     rd_bind br_u64 (\<lambda>x_attempt.
     rd_bind br_token (\<lambda>x_assignment.
     rd_bind br_token (\<lambda>x_replaced.
     rd_bind br_token (\<lambda>x_selected_device.
     rd_bind (r_list (max_candidates_per_plan bounds) (dec_candidate bounds)) (\<lambda>x_candidates.
     rd_bind r_size (\<lambda>x_candidates_total.
     rd_bind br_boolean (\<lambda>x_candidates_truncated.
     rd_bind br_digest (\<lambda>x_input_digest.
     rd_bind br_digest (\<lambda>x_decision_digest.
     rd_return \<lparr>
       ex_decision = x_decision, ex_primary_reason = x_primary_reason, ex_reasons = x_reasons,
       ex_request_id = x_request_id, ex_function = x_function, ex_cls = x_cls,
       ex_scope = x_scope, ex_scope_id = x_scope_id, ex_exclusivity = x_exclusivity,
       ex_mode = x_mode, ex_binding = x_binding, ex_authority = x_authority, ex_lease = x_lease,
       ex_fence = x_fence, ex_attempt = x_attempt, ex_assignment = x_assignment,
       ex_replaced = x_replaced, ex_selected_device = x_selected_device,
       ex_candidates = x_candidates, ex_candidates_total = x_candidates_total,
       ex_candidates_truncated = x_candidates_truncated, ex_input_digest = x_input_digest,
       ex_decision_digest = x_decision_digest\<rparr>)))))))))))))))))))))))"

definition explanation_ok :: "nat \<Rightarrow> Bounds \<Rightarrow> Explanation \<Rightarrow> bool" where
  "explanation_ok mt bounds v \<longleftrightarrow>
     reason_ok (ex_primary_reason v) \<and>
     length (ex_reasons v) \<le> (max_reasons_per_explanation bounds) \<and>
     length (ex_reasons v) < 2 ^ 32 \<and> list_all reason_ok (ex_reasons v) \<and>
     token_ok (ex_request_id v) \<and> token_ok (ex_function v) \<and>
     scope_spec_ok mt (ex_scope v) \<and> token_ok (ex_scope_id v) \<and>
     token_ok (ex_authority v) \<and> token_ok (ex_assignment v) \<and>
     token_ok (ex_replaced v) \<and> token_ok (ex_selected_device v) \<and>
     length (ex_candidates v) \<le> (max_candidates_per_plan bounds) \<and>
     length (ex_candidates v) < 2 ^ 32 \<and>
     list_all (candidate_ok bounds) (ex_candidates v) \<and> (ex_candidates_total v) < 2 ^ 64 \<and>
     length (ex_input_digest v) = 32 \<and> length (ex_decision_digest v) = 32"

lemma rt_explanation [rt_intros]: "explanation_ok mt bounds v \<Longrightarrow> 64 \<le> mt \<Longrightarrow> rt mt (enc_explanation v) (dec_explanation bounds) v"
  unfolding enc_explanation_def dec_explanation_def explanation_ok_def list_all_iff
  by (rule rt_intros | simp)+

definition enc_plan_result :: "PlanResult \<Rightarrow> W \<Rightarrow> W" where
  "enc_plan_result v = w_seq [
     w_u8 (Decision_value (pn_decision v)),
     w_u16 (pn_primary_reason v),
     w_list enc_candidate (pn_candidates v),
     w_u64 (of_nat (pn_candidates_total v)),
     w_boolean (pn_candidates_truncated v),
     enc_plan (pn_plan v),
     enc_explanation (pn_explanation v)]"

definition dec_plan_result :: "Bounds \<Rightarrow> PlanResult decoder" where
  "dec_plan_result bounds =
     rd_bind (r_enum8 Decision_of_value) (\<lambda>x_decision.
     rd_bind r_reason_code (\<lambda>x_primary_reason.
     rd_bind (r_list (max_candidates_per_plan bounds) (dec_candidate bounds)) (\<lambda>x_candidates.
     rd_bind r_size (\<lambda>x_candidates_total.
     rd_bind br_boolean (\<lambda>x_candidates_truncated.
     rd_bind dec_plan (\<lambda>x_plan.
     rd_bind (dec_explanation bounds) (\<lambda>x_explanation.
     rd_return \<lparr>
       pn_decision = x_decision, pn_primary_reason = x_primary_reason,
       pn_candidates = x_candidates, pn_candidates_total = x_candidates_total,
       pn_candidates_truncated = x_candidates_truncated, pn_plan = x_plan,
       pn_explanation = x_explanation\<rparr>)))))))"

definition plan_result_ok :: "nat \<Rightarrow> Bounds \<Rightarrow> PlanResult \<Rightarrow> bool" where
  "plan_result_ok mt bounds v \<longleftrightarrow>
     reason_ok (pn_primary_reason v) \<and>
     length (pn_candidates v) \<le> (max_candidates_per_plan bounds) \<and>
     length (pn_candidates v) < 2 ^ 32 \<and>
     list_all (candidate_ok bounds) (pn_candidates v) \<and> (pn_candidates_total v) < 2 ^ 64 \<and>
     plan_ok mt (pn_plan v) \<and> explanation_ok mt bounds (pn_explanation v)"

lemma rt_plan_result [rt_intros]: "plan_result_ok mt bounds v \<Longrightarrow> 64 \<le> mt \<Longrightarrow> rt mt (enc_plan_result v) (dec_plan_result bounds) v"
  unfolding enc_plan_result_def dec_plan_result_def plan_result_ok_def list_all_iff
  by (rule rt_intros | simp)+

definition enc_filter :: "AssignmentFilter \<Rightarrow> W \<Rightarrow> W" where
  "enc_filter v = w_seq [
     w_token (af_function v),
     w_token (af_scope v),
     w_token (af_device v),
     w_u8 (AssignmentState_value (af_state v)),
     w_boolean (af_filter_by_state v),
     w_boolean (af_include_terminal v)]"

definition dec_filter :: "AssignmentFilter decoder" where
  "dec_filter =
     rd_bind br_token (\<lambda>x_function.
     rd_bind br_token (\<lambda>x_scope.
     rd_bind br_token (\<lambda>x_device.
     rd_bind (r_enum8 AssignmentState_of_value) (\<lambda>x_state.
     rd_bind br_boolean (\<lambda>x_filter_by_state.
     rd_bind br_boolean (\<lambda>x_include_terminal.
     rd_return \<lparr>
       af_function = x_function, af_scope = x_scope, af_device = x_device, af_state = x_state,
       af_filter_by_state = x_filter_by_state, af_include_terminal = x_include_terminal\<rparr>))))))"

definition filter_ok :: "AssignmentFilter \<Rightarrow> bool" where
  "filter_ok v \<longleftrightarrow>
     token_ok (af_function v) \<and> token_ok (af_scope v) \<and> token_ok (af_device v)"

lemma rt_filter [rt_intros]: "filter_ok v \<Longrightarrow> 64 \<le> mt \<Longrightarrow> rt mt (enc_filter v) dec_filter v"
  unfolding enc_filter_def dec_filter_def filter_ok_def list_all_iff
  by (rule rt_intros | simp)+

definition enc_scope_view :: "ScopeView \<Rightarrow> W \<Rightarrow> W" where
  "enc_scope_view v = w_seq [
     enc_scope_spec (sw_spec v),
     w_token (sw_scope v),
     enc_assignment_id_list (sw_live v),
     enc_assignment_id_list (sw_exclusive_claims v),
     w_token (sw_exclusive_holder v),
     w_boolean (sw_exclusive_holder_is_whole_scope v),
     w_boolean (sw_exclusive_held v)]"

definition dec_scope_view :: "Bounds \<Rightarrow> ScopeView decoder" where
  "dec_scope_view bounds =
     rd_bind dec_scope_spec (\<lambda>x_spec.
     rd_bind br_token (\<lambda>x_scope.
     rd_bind (dec_assignment_id_list (max_assignments bounds)) (\<lambda>x_live.
     rd_bind (dec_assignment_id_list (max_assignments bounds)) (\<lambda>x_exclusive_claims.
     rd_bind br_token (\<lambda>x_exclusive_holder.
     rd_bind br_boolean (\<lambda>x_exclusive_holder_is_whole_scope.
     rd_bind br_boolean (\<lambda>x_exclusive_held.
     rd_return \<lparr>
       sw_spec = x_spec, sw_scope = x_scope, sw_live = x_live,
       sw_exclusive_claims = x_exclusive_claims, sw_exclusive_holder = x_exclusive_holder,
       sw_exclusive_holder_is_whole_scope = x_exclusive_holder_is_whole_scope,
       sw_exclusive_held = x_exclusive_held\<rparr>)))))))"

definition scope_view_ok :: "nat \<Rightarrow> Bounds \<Rightarrow> ScopeView \<Rightarrow> bool" where
  "scope_view_ok mt bounds v \<longleftrightarrow>
     scope_spec_ok mt (sw_spec v) \<and> token_ok (sw_scope v) \<and>
     length (sw_live v) \<le> (max_assignments bounds) \<and> length (sw_live v) < 2 ^ 32 \<and>
     list_all token_ok (sw_live v) \<and>
     length (sw_exclusive_claims v) \<le> (max_assignments bounds) \<and>
     length (sw_exclusive_claims v) < 2 ^ 32 \<and> list_all token_ok (sw_exclusive_claims v) \<and>
     token_ok (sw_exclusive_holder v)"

lemma rt_scope_view [rt_intros]: "scope_view_ok mt bounds v \<Longrightarrow> 64 \<le> mt \<Longrightarrow> rt mt (enc_scope_view v) (dec_scope_view bounds) v"
  unfolding enc_scope_view_def dec_scope_view_def scope_view_ok_def list_all_iff
  by (rule rt_intros | simp)+

definition enc_revalidation :: "RevalidationReport \<Rightarrow> W \<Rightarrow> W" where
  "enc_revalidation v = w_seq [
     w_u64 (of_nat (rv_checked v)),
     w_u64 (of_nat (rv_suspended v)),
     w_u64 (of_nat (rv_degraded v)),
     w_u64 (of_nat (rv_failed v)),
     w_u64 (of_nat (rv_unchanged v)),
     enc_assignment_id_list (rv_affected v),
     w_u16 (rv_dominant_reason v),
     w_boolean (rv_truncated v)]"

definition dec_revalidation :: "Bounds \<Rightarrow> RevalidationReport decoder" where
  "dec_revalidation bounds =
     rd_bind r_size (\<lambda>x_checked.
     rd_bind r_size (\<lambda>x_suspended.
     rd_bind r_size (\<lambda>x_degraded.
     rd_bind r_size (\<lambda>x_failed.
     rd_bind r_size (\<lambda>x_unchanged.
     rd_bind (dec_assignment_id_list (max_assignments bounds)) (\<lambda>x_affected.
     rd_bind r_reason_code (\<lambda>x_dominant_reason.
     rd_bind br_boolean (\<lambda>x_truncated.
     rd_return \<lparr>
       rv_checked = x_checked, rv_suspended = x_suspended, rv_degraded = x_degraded,
       rv_failed = x_failed, rv_unchanged = x_unchanged, rv_affected = x_affected,
       rv_dominant_reason = x_dominant_reason, rv_truncated = x_truncated\<rparr>))))))))"

definition revalidation_ok :: "Bounds \<Rightarrow> RevalidationReport \<Rightarrow> bool" where
  "revalidation_ok bounds v \<longleftrightarrow>
     (rv_checked v) < 2 ^ 64 \<and> (rv_suspended v) < 2 ^ 64 \<and> (rv_degraded v) < 2 ^ 64 \<and>
     (rv_failed v) < 2 ^ 64 \<and> (rv_unchanged v) < 2 ^ 64 \<and>
     length (rv_affected v) \<le> (max_assignments bounds) \<and>
     length (rv_affected v) < 2 ^ 32 \<and> list_all token_ok (rv_affected v) \<and>
     reason_ok (rv_dominant_reason v)"

lemma rt_revalidation [rt_intros]: "revalidation_ok bounds v \<Longrightarrow> 64 \<le> mt \<Longrightarrow> rt mt (enc_revalidation v) (dec_revalidation bounds) v"
  unfolding enc_revalidation_def dec_revalidation_def revalidation_ok_def list_all_iff
  by (rule rt_intros | simp)+

subsection \<open>Entry points\<close>

definition encode_provenance :: "Provenance \<Rightarrow> BinWriter \<Rightarrow> BinWriter \<times> Status" where
  "encode_provenance v = encode_with (enc_provenance v)"

definition decode_provenance :: "Provenance decoder" where
  "decode_provenance = dec_provenance"

definition encode_freshness :: "Freshness \<Rightarrow> BinWriter \<Rightarrow> BinWriter \<times> Status" where
  "encode_freshness v = encode_with (enc_freshness v)"

definition decode_freshness :: "Freshness decoder" where
  "decode_freshness = dec_freshness"

definition encode_incarnation :: "IncarnationId \<Rightarrow> BinWriter \<Rightarrow> BinWriter \<times> Status" where
  "encode_incarnation v = encode_with (enc_incarnation v)"

definition decode_incarnation :: "IncarnationId decoder" where
  "decode_incarnation = dec_incarnation"

definition encode_fence :: "FencingToken \<Rightarrow> BinWriter \<Rightarrow> BinWriter \<times> Status" where
  "encode_fence v = encode_with (enc_fence v)"

definition decode_fence :: "FencingToken decoder" where
  "decode_fence = dec_fence"

definition encode_epoch :: "CoordinatorEpoch \<Rightarrow> BinWriter \<Rightarrow> BinWriter \<times> Status" where
  "encode_epoch v = encode_with (enc_epoch v)"

definition decode_epoch :: "CoordinatorEpoch decoder" where
  "decode_epoch = dec_epoch"

definition encode_binding :: "GenerationBinding \<Rightarrow> BinWriter \<Rightarrow> BinWriter \<times> Status" where
  "encode_binding v = encode_with (enc_binding v)"

definition decode_binding :: "GenerationBinding decoder" where
  "decode_binding = dec_binding"

definition encode_demand :: "DemandVector \<Rightarrow> BinWriter \<Rightarrow> BinWriter \<times> Status" where
  "encode_demand v = encode_with (enc_demand v)"

definition decode_demand :: "DemandVector decoder" where
  "decode_demand = dec_demand"

definition encode_capacity :: "CapacityVector \<Rightarrow> BinWriter \<Rightarrow> BinWriter \<times> Status" where
  "encode_capacity v = encode_with (enc_capacity v)"

definition decode_capacity :: "CapacityVector decoder" where
  "decode_capacity = dec_capacity"

definition encode_version :: "SemanticVersion \<Rightarrow> BinWriter \<Rightarrow> BinWriter \<times> Status" where
  "encode_version v = encode_with (enc_version v)"

definition decode_version :: "SemanticVersion decoder" where
  "decode_version = dec_version"

definition encode_version_range :: "VersionRange \<Rightarrow> BinWriter \<Rightarrow> BinWriter \<times> Status" where
  "encode_version_range v = encode_with (enc_version_range v)"

definition decode_version_range :: "VersionRange decoder" where
  "decode_version_range = dec_version_range"

definition encode_scope_spec :: "ScopeSpec \<Rightarrow> BinWriter \<Rightarrow> BinWriter \<times> Status" where
  "encode_scope_spec v = encode_with (enc_scope_spec v)"

definition decode_scope_spec :: "ScopeSpec decoder" where
  "decode_scope_spec = dec_scope_spec"

definition encode_host :: "HostRecord \<Rightarrow> BinWriter \<Rightarrow> BinWriter \<times> Status" where
  "encode_host v = encode_with (enc_host_record v)"

definition decode_host :: "Bounds \<Rightarrow> HostRecord decoder" where
  "decode_host bounds = dec_host_record bounds"

definition encode_device :: "DeviceRecord \<Rightarrow> BinWriter \<Rightarrow> BinWriter \<times> Status" where
  "encode_device v = encode_with (enc_device_record v)"

definition decode_device :: "Bounds \<Rightarrow> DeviceRecord decoder" where
  "decode_device bounds = dec_device_record bounds"

definition encode_link :: "LinkRecord \<Rightarrow> BinWriter \<Rightarrow> BinWriter \<times> Status" where
  "encode_link v = encode_with (enc_link v)"

definition decode_link :: "LinkRecord decoder" where
  "decode_link = dec_link"

definition encode_topology :: "TopologySnapshot \<Rightarrow> BinWriter \<Rightarrow> BinWriter \<times> Status" where
  "encode_topology v = encode_with (enc_topology v)"

definition decode_topology :: "Bounds \<Rightarrow> TopologySnapshot decoder" where
  "decode_topology bounds = dec_topology bounds"

definition encode_function :: "FunctionDescriptor \<Rightarrow> BinWriter \<Rightarrow> BinWriter \<times> Status" where
  "encode_function v = encode_with (enc_function v)"

definition decode_function :: "Bounds \<Rightarrow> FunctionDescriptor decoder" where
  "decode_function bounds = rd_bind dec_function (\<lambda>v.
     if mask_count (fd_required v) > max_semantics_per_requirement bounds
     then rd_fail RC_LimitExceeded ''function requirement exceeds the semantics bound''
     else rd_return v)"

definition encode_capability_record :: "CapabilityRecord \<Rightarrow> BinWriter \<Rightarrow> BinWriter \<times> Status" where
  "encode_capability_record v = encode_with (enc_capability_record v)"

definition decode_capability_record :: "CapabilityRecord decoder" where
  "decode_capability_record = dec_capability_record"

definition encode_capability_report :: "CapabilityReport \<Rightarrow> BinWriter \<Rightarrow> BinWriter \<times> Status" where
  "encode_capability_report v = encode_with (enc_capability_report v)"

definition decode_capability_report :: "Bounds \<Rightarrow> CapabilityReport decoder" where
  "decode_capability_report bounds = dec_capability_report bounds"

definition encode_policy_rule :: "PolicyRule \<Rightarrow> BinWriter \<Rightarrow> BinWriter \<times> Status" where
  "encode_policy_rule v = encode_with (enc_policy_rule v)"

definition decode_policy_rule :: "PolicyRule decoder" where
  "decode_policy_rule = dec_policy_rule"

definition encode_policy :: "PolicySnapshot \<Rightarrow> BinWriter \<Rightarrow> BinWriter \<times> Status" where
  "encode_policy v = encode_with (enc_policy v)"

definition decode_policy :: "Bounds \<Rightarrow> PolicySnapshot decoder" where
  "decode_policy bounds = dec_policy bounds"

definition encode_authority :: "AuthorityGrant \<Rightarrow> BinWriter \<Rightarrow> BinWriter \<times> Status" where
  "encode_authority v = encode_with (enc_authority v)"

definition decode_authority :: "AuthorityGrant decoder" where
  "decode_authority = dec_authority"

definition encode_observation :: "DeviceObservation \<Rightarrow> BinWriter \<Rightarrow> BinWriter \<times> Status" where
  "encode_observation v = encode_with (enc_observation v)"

definition decode_observation :: "DeviceObservation decoder" where
  "decode_observation = dec_observation"

definition encode_observation_report :: "ObservationReport \<Rightarrow> BinWriter \<Rightarrow> BinWriter \<times> Status" where
  "encode_observation_report v = encode_with (enc_observation_report v)"

definition decode_observation_report :: "Bounds \<Rightarrow> ObservationReport decoder" where
  "decode_observation_report bounds = dec_observation_report bounds"

definition encode_transition :: "TransitionRecord \<Rightarrow> BinWriter \<Rightarrow> BinWriter \<times> Status" where
  "encode_transition v = encode_with (enc_transition_record v)"

definition decode_transition :: "TransitionRecord decoder" where
  "decode_transition = dec_transition_record"

definition encode_effect :: "EffectRecord \<Rightarrow> BinWriter \<Rightarrow> BinWriter \<times> Status" where
  "encode_effect v = encode_with (enc_effect_record v)"

definition decode_effect :: "EffectRecord decoder" where
  "decode_effect = dec_effect_record"

definition encode_assignment :: "AssignmentRecord \<Rightarrow> BinWriter \<Rightarrow> BinWriter \<times> Status" where
  "encode_assignment v = encode_with (enc_assignment v)"

definition decode_assignment :: "Bounds \<Rightarrow> AssignmentRecord decoder" where
  "decode_assignment bounds = dec_assignment bounds"

definition encode_effect_report :: "EffectReport \<Rightarrow> BinWriter \<Rightarrow> BinWriter \<times> Status" where
  "encode_effect_report v = encode_with (enc_effect_report v)"

definition decode_effect_report :: "EffectReport decoder" where
  "decode_effect_report = dec_effect_report"

definition encode_placement_request :: "PlacementRequest \<Rightarrow> BinWriter \<Rightarrow> BinWriter \<times> Status" where
  "encode_placement_request v = encode_with (enc_placement_request v)"

definition decode_placement_request :: "Bounds \<Rightarrow> PlacementRequest decoder" where
  "decode_placement_request bounds = dec_placement_request bounds"

definition encode_plan :: "AssignmentPlan \<Rightarrow> BinWriter \<Rightarrow> BinWriter \<times> Status" where
  "encode_plan v = encode_with (enc_plan v)"

definition decode_plan :: "AssignmentPlan decoder" where
  "decode_plan = dec_plan"

definition encode_candidate :: "CandidateEvaluation \<Rightarrow> BinWriter \<Rightarrow> BinWriter \<times> Status" where
  "encode_candidate v = encode_with (enc_candidate v)"

definition decode_candidate :: "Bounds \<Rightarrow> CandidateEvaluation decoder" where
  "decode_candidate bounds = dec_candidate bounds"

definition encode_explanation :: "Explanation \<Rightarrow> BinWriter \<Rightarrow> BinWriter \<times> Status" where
  "encode_explanation v = encode_with (enc_explanation v)"

definition decode_explanation :: "Bounds \<Rightarrow> Explanation decoder" where
  "decode_explanation bounds = dec_explanation bounds"

definition encode_plan_result :: "PlanResult \<Rightarrow> BinWriter \<Rightarrow> BinWriter \<times> Status" where
  "encode_plan_result v = encode_with (enc_plan_result v)"

definition decode_plan_result :: "Bounds \<Rightarrow> PlanResult decoder" where
  "decode_plan_result bounds = dec_plan_result bounds"

definition encode_filter :: "AssignmentFilter \<Rightarrow> BinWriter \<Rightarrow> BinWriter \<times> Status" where
  "encode_filter v = encode_with (enc_filter v)"

definition decode_filter :: "AssignmentFilter decoder" where
  "decode_filter = dec_filter"

definition encode_scope_view :: "ScopeView \<Rightarrow> BinWriter \<Rightarrow> BinWriter \<times> Status" where
  "encode_scope_view v = encode_with (enc_scope_view v)"

definition decode_scope_view :: "Bounds \<Rightarrow> ScopeView decoder" where
  "decode_scope_view bounds = dec_scope_view bounds"

definition encode_revalidation :: "RevalidationReport \<Rightarrow> BinWriter \<Rightarrow> BinWriter \<times> Status" where
  "encode_revalidation v = encode_with (enc_revalidation v)"

definition decode_revalidation :: "Bounds \<Rightarrow> RevalidationReport decoder" where
  "decode_revalidation bounds = dec_revalidation bounds"

definition encode_semantics :: "SemanticsMask \<Rightarrow> BinWriter \<Rightarrow> BinWriter \<times> Status" where
  "encode_semantics v = encode_with (w_semantics v)"

definition decode_semantics :: "SemanticsMask decoder" where
  "decode_semantics = rd_bind br_u64 (\<lambda>v.
     if drop_bit 26 v \<noteq> 0
     then rd_fail RC_SemanticsMismatch ''semantics mask carries unknown bits''
     else rd_return v)"

text \<open>The digest of an assignment ignores the writer's status (\<open>src/assignment.cpp\<close>).\<close>

definition assignment_digest :: "AssignmentRecord \<Rightarrow> Digest" where
  "assignment_digest record' =
     bw_fingerprint (fst (encode_assignment record' (bin_writer (max_canonical_bytes default_bounds))))"

subsection \<open>The codecs as interpretations\<close>

interpretation topology_codec: codec mt enc_topology "dec_topology bounds" "\<lambda>v. 64 \<le> mt \<and> topology_ok bounds v" for mt bounds
  by unfold_locales (simp add: rt_topology)

interpretation capability_report_codec: codec mt enc_capability_report "dec_capability_report bounds" "\<lambda>v. 64 \<le> mt \<and> capability_report_ok bounds v" for mt bounds
  by unfold_locales (simp add: rt_capability_report)

interpretation policy_codec: codec mt enc_policy "dec_policy bounds" "\<lambda>v. 64 \<le> mt \<and> policy_ok bounds v" for mt bounds
  by unfold_locales (simp add: rt_policy)

interpretation authority_codec: codec mt enc_authority dec_authority "\<lambda>v. 64 \<le> mt \<and> authority_ok v" for mt
  by unfold_locales (simp add: rt_authority)

interpretation observation_report_codec: codec mt enc_observation_report "dec_observation_report bounds" "\<lambda>v. 64 \<le> mt \<and> observation_report_ok bounds v" for mt bounds
  by unfold_locales (simp add: rt_observation_report)

interpretation assignment_codec: codec mt enc_assignment "dec_assignment bounds" "\<lambda>v. 64 \<le> mt \<and> assignment_ok mt bounds v" for mt bounds
  by unfold_locales (simp add: rt_assignment)

interpretation effect_report_codec: codec mt enc_effect_report dec_effect_report "\<lambda>v. 64 \<le> mt \<and> effect_report_ok v" for mt
  by unfold_locales (simp add: rt_effect_report)

interpretation placement_request_codec: codec mt enc_placement_request "dec_placement_request bounds" "\<lambda>v. 64 \<le> mt \<and> placement_request_ok mt bounds v" for mt bounds
  by unfold_locales (simp add: rt_placement_request)

interpretation plan_codec: codec mt enc_plan dec_plan "\<lambda>v. 64 \<le> mt \<and> plan_ok mt v" for mt
  by unfold_locales (simp add: rt_plan)

interpretation plan_result_codec: codec mt enc_plan_result "dec_plan_result bounds" "\<lambda>v. 64 \<le> mt \<and> plan_result_ok mt bounds v" for mt bounds
  by unfold_locales (simp add: rt_plan_result)

interpretation function_codec: codec mt enc_function dec_function "\<lambda>v. 64 \<le> mt \<and> function_ok v" for mt
  by unfold_locales (simp add: rt_function)

end
