(* ===== verification/Nof_Journal.thy ===== *)
theory Nof_Journal
  imports Nof_Canonical
begin

text \<open>
  The durable store of \<open>src/journal.cpp\<close>: a journal file of checksummed records behind a
  64-byte header, and a snapshot file that covers a prefix of the record sequence.

  A file is its byte list.  The operating system enters through explicit outcomes: a write may
  stop after some bytes, and a flush, open or rename may fail (\<open>WriteIo\<close>, and for the steps of
  \<open>compact\<close> a predicate that says which of them succeed).  Crash hooks are not modelled; a
  crash is an operation that stops after a prefix of its writes.
\<close>

subsection \<open>Loads and stores\<close>

definition load_u16 :: "u8 list \<Rightarrow> nat \<Rightarrow> u16" where
  "load_u16 data offset = le_word (take 2 (drop offset data))"

definition load_u32 :: "u8 list \<Rightarrow> nat \<Rightarrow> u32" where
  "load_u32 data offset = le_word (take 4 (drop offset data))"

definition load_u64 :: "u8 list \<Rightarrow> nat \<Rightarrow> u64" where
  "load_u64 data offset = le_word (take 8 (drop offset data))"

definition kJournalMagic :: u32 where "kJournalMagic = 0x4A464F4E"
definition kSnapshotMagic :: u32 where "kSnapshotMagic = 0x53464F4E"
definition kJournalHeaderSize :: nat where "kJournalHeaderSize = 64"
definition kRecordHeaderSize :: nat where "kRecordHeaderSize = 20"
definition kRecordTrailerSize :: nat where "kRecordTrailerSize = 4"
definition kSnapshotHeaderSize :: nat where "kSnapshotHeaderSize = 36"
definition kCanonicalEncodingVersion :: u16 where "kCanonicalEncodingVersion = 1"

lemmas journal_sizes = kJournalHeaderSize_def kRecordHeaderSize_def kRecordTrailerSize_def
  kSnapshotHeaderSize_def

subsection \<open>Records\<close>

definition record_body :: "RecordType \<Rightarrow> u64 \<Rightarrow> u8 list \<Rightarrow> u8 list" where
  "record_body type sequence payload =
     le_bytes 4 (of_nat (length payload) :: u32) @ le_bytes 2 (RecordType_value type) @
     le_bytes 2 (0 :: u16) @ le_bytes 8 sequence @ replicate 4 0 @ payload"

definition encode_record :: "RecordType \<Rightarrow> u64 \<Rightarrow> u8 list \<Rightarrow> u8 list" where
  "encode_record type sequence payload =
     (let body = record_body type sequence payload in body @ le_bytes 4 (crc32c body))"

record ScanOutcome =
  so_last_good_offset :: nat
  so_last_sequence :: u64
  so_records :: nat
  so_discarded_bytes :: nat
  so_torn :: bool
  so_damaged :: bool
  so_reason :: ReasonCode
  so_detail :: string

definition scan_start :: ScanOutcome where
  "scan_start = \<lparr>so_last_good_offset = kJournalHeaderSize, so_last_sequence = 0, so_records = 0,
     so_discarded_bytes = 0, so_torn = False, so_damaged = False, so_reason = RC_Ok, so_detail = []\<rparr>"

definition scan_torn :: "nat \<Rightarrow> string \<Rightarrow> ScanOutcome \<Rightarrow> ScanOutcome" where
  "scan_torn remaining text outcome = outcome\<lparr>so_torn := True, so_reason := RC_JournalTornTail,
     so_detail := text, so_discarded_bytes := remaining\<rparr>"

definition scan_damaged :: "nat \<Rightarrow> ReasonCode \<Rightarrow> string \<Rightarrow> ScanOutcome \<Rightarrow> ScanOutcome" where
  "scan_damaged remaining reason text outcome = outcome\<lparr>so_damaged := True, so_reason := reason,
     so_detail := text, so_discarded_bytes := remaining\<rparr>"

text \<open>
  The scan loop at \<open>offset\<close>.  The two overflow checks on the record size cannot fire: the length
  field has 32 bits.
\<close>

function scan_from :: "u8 list \<Rightarrow> nat \<Rightarrow> nat \<Rightarrow> ScanOutcome \<Rightarrow> ScanOutcome" where
  "scan_from data max_record offset outcome =
     (if offset \<ge> length data then outcome
      else let remaining = length data - offset in
        if remaining < kRecordHeaderSize + kRecordTrailerSize
        then scan_torn remaining ''partial trailing record header'' outcome
        else let payload_length = unat (load_u32 data offset);
                 type_raw = load_u16 data (offset + 4);
                 total_size = kRecordHeaderSize + payload_length + kRecordTrailerSize
             in
        if payload_length > max_record
        then scan_damaged remaining RC_OversizedInput ''record length exceeds the configured bound'' outcome
        else if remaining < total_size
        then scan_torn remaining ''partial trailing record payload'' outcome
        else if RecordType_of_value type_raw = None
        then scan_damaged remaining RC_StoreCorrupt ''record carries an unknown type'' outcome
        else if load_u32 data (offset + total_size - kRecordTrailerSize) \<noteq>
                crc32c (take (total_size - kRecordTrailerSize) (drop offset data))
        then scan_damaged remaining RC_StoreCorrupt ''record integrity check failed'' outcome
        else let sequence = load_u64 data (offset + 8) in
        if sequence \<le> so_last_sequence outcome \<and> so_records outcome > 0
        then scan_damaged remaining RC_SequenceRegression ''record sequence regressed'' outcome
        else scan_from data max_record (offset + total_size)
               (outcome\<lparr>so_last_sequence := sequence, so_records := so_records outcome + 1,
                 so_last_good_offset := offset + total_size\<rparr>))"
  by pat_completeness auto
termination
  by (relation "measure (\<lambda>(data, m, offset, r). length data - offset)") (auto simp: journal_sizes)

declare scan_from.simps [simp del]

definition scan_records :: "u8 list \<Rightarrow> nat \<Rightarrow> ScanOutcome" where
  "scan_records data max_record = scan_from data max_record kJournalHeaderSize scan_start"

text \<open>The file header; a store identity that is not 32 characters gives no header.\<close>

definition header_prefix :: "StoreId \<Rightarrow> int \<Rightarrow> u32 \<Rightarrow> u8 list" where
  "header_prefix store_id created_at format_version =
     le_bytes 4 kJournalMagic @ le_bytes 2 (ucast (format_version AND 0xFFFF) :: u16) @
     le_bytes 2 kCanonicalEncodingVersion @ le_bytes 4 (of_nat kJournalHeaderSize :: u32) @
     le_bytes 4 (0 :: u32) @ string_bytes store_id @ le_bytes 8 (word_of_int created_at :: u64)"

definition build_header :: "StoreId \<Rightarrow> int \<Rightarrow> u32 \<Rightarrow> u8 list" where
  "build_header store_id created_at format_version =
     (if length store_id \<noteq> 32 then []
      else let h = header_prefix store_id created_at format_version
           in h @ le_bytes 4 (crc32c h) @ le_bytes 4 (0 :: u32))"

subsection \<open>The store\<close>

datatype RecoveryPolicy = RP_Refuse | RP_TruncateTornTail | RP_TruncateDamagedTail

datatype RecoveryClassification = RK_FreshStore | RK_CleanReopen | RK_TornTailTruncated
  | RK_DamagedTailTruncated | RK_RefusedCorrupt | RK_IncompatibleVersion | RK_IncompatibleSemantics
  | RK_EmptyStore | RK_MemoryOnly

record StoreOpenOptions =
  oo_create_if_missing :: bool
  oo_recovery :: RecoveryPolicy
  oo_max_journal_bytes :: nat
  oo_max_snapshot_bytes :: nat
  oo_max_record_bytes :: nat
  oo_expected_store_id :: StoreId
  oo_format_version :: u32

text \<open>
  The store object together with the files it owns: \<open>js_file\<close> is the journal file,
  \<open>js_snapshot_file\<close> the snapshot file if there is one, and \<open>js_valid\<close> says that the journal
  handle is open.
\<close>

record JournalStore =
  js_options :: StoreOpenOptions
  js_store_id :: StoreId
  js_created_at_micros :: int
  js_valid :: bool
  js_snapshot :: "u8 list"
  js_snapshot_covered :: u64
  js_snapshot_generation :: u64
  js_has_snapshot :: bool
  js_last_sequence :: u64
  js_records :: u64
  js_bytes :: u64
  js_bytes_appended :: u64
  js_compactions :: u64
  js_closed :: bool
  js_file :: "u8 list"
  js_snapshot_file :: "u8 list option"

definition generation :: "JournalStore \<Rightarrow> Gen" where
  "generation js = (if js_snapshot_generation js = 0 then 1 else js_snapshot_generation js)"

text \<open>What happens to one write: how many bytes reach the file, and whether the flush succeeds.\<close>

record WriteIo =
  wi_short :: "nat option"
  wi_synced :: bool

definition io_ok :: WriteIo where "io_ok = \<lparr>wi_short = None, wi_synced = True\<rparr>"

definition write_all :: "WriteIo \<Rightarrow> u8 list \<Rightarrow> u8 list \<times> Status" where
  "write_all io bs =
     (if bs = [] then ([], ok_status)
      else case wi_short io of
             Some n \<Rightarrow> if n < length bs
                        then (take n bs, Err RC_StoreUnavailable ''short write to store file'')
                        else (bs, ok_status)
           | None \<Rightarrow> (bs, ok_status))"

definition flush_and_sync :: "WriteIo \<Rightarrow> Status" where
  "flush_and_sync io = require (wi_synced io) RC_StoreUnavailable ''store flush failed''"

definition append_checks :: "JournalStore \<Rightarrow> nat \<Rightarrow> (nat \<times> u64) result" where
  "append_checks js size_payload =
     (if js_closed js then Err RC_StoreClosed ''store is closed''
      else if size_payload > oo_max_record_bytes (js_options js)
      then Err RC_OversizedInput ''record payload exceeds the configured bound''
      else case checked_add_size kRecordHeaderSize size_payload of
        None \<Rightarrow> Err RC_ArithmeticOverflow ''record size overflow''
      | Some part \<Rightarrow> (case checked_add_size part kRecordTrailerSize of
        None \<Rightarrow> Err RC_ArithmeticOverflow ''record size overflow''
      | Some record_size \<Rightarrow> (case checked_mul (of_nat (oo_max_journal_bytes (js_options js)) :: u64) 2 of
        None \<Rightarrow> Err RC_ArithmeticOverflow ''journal cap overflow''
      | Some hard_cap \<Rightarrow> (case checked_add (js_bytes js) (of_nat record_size) of
        None \<Rightarrow> Err RC_ArithmeticOverflow ''journal size overflow''
      | Some projected \<Rightarrow>
          if projected > hard_cap
          then Err RC_CompactionRequired ''journal reached its hard size cap and must be compacted''
          else (case checked_add (js_last_sequence js) 1 of
                  None \<Rightarrow> Err RC_ArithmeticOverflow ''journal sequence exhausted''
                | Some sequence \<Rightarrow> Inr (record_size, sequence))))))"

text \<open>
  A write through a journal handle that was closed and never reopened is undefined in C; the model
  reports it as a failed write of no bytes.
\<close>

definition journal_append :: "WriteIo \<Rightarrow> RecordType \<Rightarrow> u8 list \<Rightarrow> JournalStore \<Rightarrow> JournalStore \<times> Status" where
  "journal_append io type payload js =
     (case append_checks js (length payload) of
        Inl e \<Rightarrow> (js, Inl e)
      | Inr (record_size, sequence) \<Rightarrow>
          if \<not> js_valid js then (js, Err RC_StoreUnavailable ''short write to store file'')
          else case write_all io (encode_record type sequence payload) of
            (written, Inl e) \<Rightarrow> (js\<lparr>js_file := js_file js @ written\<rparr>, Inl e)
          | (written, Inr _) \<Rightarrow>
              let js' = js\<lparr>js_file := js_file js @ written\<rparr> in
              case flush_and_sync io of
                Inl e \<Rightarrow> (js', Inl e)
              | Inr _ \<Rightarrow>
                  (js'\<lparr>js_last_sequence := sequence, js_records := js_records js + 1,
                     js_bytes := js_bytes js + of_nat record_size,
                     js_bytes_appended := js_bytes_appended js + of_nat record_size\<rparr>, ok_status))"

definition journal_seal :: "WriteIo \<Rightarrow> u64 \<Rightarrow> JournalStore \<Rightarrow> JournalStore \<times> Status" where
  "journal_seal io epoch = journal_append io RT_StoreSealed (le_bytes 8 epoch)"

subsubsection \<open>Replay\<close>

text \<open>
  The visitor threads a state of the caller.  Records at or below the snapshot's sequence, and
  snapshot bases, are skipped; a partial record at the end is ignored.
\<close>

function replay_from :: "(RecordType \<Rightarrow> u64 \<Rightarrow> u8 list \<Rightarrow> 's \<Rightarrow> 's \<times> Status) \<Rightarrow> u64 \<Rightarrow> u8 list \<Rightarrow> nat \<Rightarrow>
    's \<Rightarrow> 's \<times> Status" where
  "replay_from visitor covered data offset st =
     (if offset \<ge> length data then (st, ok_status)
      else let remaining = length data - offset in
        if remaining < kRecordHeaderSize + kRecordTrailerSize then (st, ok_status)
        else let payload_length = unat (load_u32 data offset);
                 type_raw = load_u16 data (offset + 4);
                 total_size = kRecordHeaderSize + payload_length + kRecordTrailerSize;
                 sequence = load_u64 data (offset + 8)
             in
        if remaining < total_size then (st, ok_status)
        else case RecordType_of_value type_raw of
          None \<Rightarrow> (st, Err RC_StoreCorrupt ''record carries an unknown type'')
        | Some type \<Rightarrow>
            if load_u32 data (offset + total_size - kRecordTrailerSize) \<noteq>
               crc32c (take (total_size - kRecordTrailerSize) (drop offset data))
            then (st, Err RC_StoreCorrupt ''record integrity check failed during replay'')
            else if type \<noteq> RT_SnapshotBase \<and> sequence > covered
            then (case visitor type sequence (take payload_length (drop (offset + kRecordHeaderSize) data)) st of
                    (st', Inl e) \<Rightarrow> (st', Inl e)
                  | (st', Inr _) \<Rightarrow> replay_from visitor covered data (offset + total_size) st')
            else replay_from visitor covered data (offset + total_size) st)"
  by pat_completeness auto
termination
  by (relation "measure (\<lambda>(v, c, data, offset, st). length data - offset)") (auto simp: journal_sizes)

declare replay_from.simps [simp del]

definition read_limit :: "StoreOpenOptions \<Rightarrow> nat" where
  "read_limit o1 = (oo_max_journal_bytes o1 * 2 + oo_max_record_bytes o1 * 4) mod 2 ^ 64"

definition read_file :: "u8 list \<Rightarrow> nat \<Rightarrow> u8 list result" where
  "read_file content max_bytes =
     (if length content > max_bytes
      then Err RC_OversizedInput ''store file exceeds the configured size bound''
      else Inr content)"

definition journal_replay :: "(RecordType \<Rightarrow> u64 \<Rightarrow> u8 list \<Rightarrow> 's \<Rightarrow> 's \<times> Status) \<Rightarrow> JournalStore \<Rightarrow>
    's \<Rightarrow> 's \<times> Status" where
  "journal_replay visitor js st =
     (if js_closed js then (st, Err RC_StoreClosed ''store is closed'')
      else case read_file (js_file js) (read_limit (js_options js)) of
        Inl e \<Rightarrow> (st, Inl e)
      | Inr data \<Rightarrow>
          if length data < kJournalHeaderSize
          then (st, Err RC_StoreTruncated ''store header is truncated'')
          else replay_from visitor (js_snapshot_covered js) data kJournalHeaderSize st)"

definition snapshot_payload :: "JournalStore \<Rightarrow> u8 list result" where
  "snapshot_payload js =
     (if \<not> js_has_snapshot js then Err RC_NotFound ''store has no snapshot'' else Inr (js_snapshot js))"

subsubsection \<open>Compaction\<close>

definition snapshot_prefix :: "u32 \<Rightarrow> u8 list \<Rightarrow> u64 \<Rightarrow> u64 \<Rightarrow> u8 list" where
  "snapshot_prefix format_version snapshot covered_sequence new_generation =
     le_bytes 4 kSnapshotMagic @ le_bytes 2 (ucast (format_version AND 0xFFFF) :: u16) @
     le_bytes 2 kCanonicalEncodingVersion @ le_bytes 4 (of_nat (length snapshot) :: u32) @
     le_bytes 4 (crc32c snapshot) @ le_bytes 8 covered_sequence @ le_bytes 8 new_generation"

definition snapshot_header :: "u32 \<Rightarrow> u8 list \<Rightarrow> u64 \<Rightarrow> u64 \<Rightarrow> u8 list" where
  "snapshot_header format_version snapshot covered_sequence new_generation =
     (let h = snapshot_prefix format_version snapshot covered_sequence new_generation
      in h @ le_bytes 4 (crc32c h))"

text \<open>
  The steps of \<open>compact\<close> that reach the operating system, in order; \<open>io\<close> says which
  succeed.  Of a failure only the reason code and the kind of the failure are kept: the paths the
  program adds to the detail text are left out.  The temporary files are not part of the model's state: an interrupted compaction leaves
  one behind and the next open removes it.
\<close>

datatype CompactStep = CS_OpenSnapshotTmp | CS_WriteSnapshotHeader | CS_WriteSnapshot
  | CS_SyncSnapshot | CS_ReplaceSnapshot | CS_OpenJournalTmp | CS_WriteJournalHeader
  | CS_SyncJournal | CS_ReplaceJournal | CS_ReopenJournal

definition cs_error :: "CompactStep \<Rightarrow> Status" where
  "cs_error s = Err RC_StoreUnavailable
     (case s of
        CS_OpenSnapshotTmp \<Rightarrow> ''cannot create store file''
      | CS_WriteSnapshotHeader \<Rightarrow> ''short write to store file''
      | CS_WriteSnapshot \<Rightarrow> ''short write to store file''
      | CS_SyncSnapshot \<Rightarrow> ''store flush failed''
      | CS_ReplaceSnapshot \<Rightarrow> ''atomic replace failed''
      | CS_OpenJournalTmp \<Rightarrow> ''cannot create store file''
      | CS_WriteJournalHeader \<Rightarrow> ''short write to store file''
      | CS_SyncJournal \<Rightarrow> ''store flush failed''
      | CS_ReplaceJournal \<Rightarrow> ''atomic replace failed''
      | CS_ReopenJournal \<Rightarrow> ''cannot create store file'')"

fun cs_steps :: "(CompactStep \<Rightarrow> bool) \<Rightarrow> CompactStep list \<Rightarrow> Status" where
  "cs_steps io [] = ok_status"
| "cs_steps io (s # ss) = (if io s then cs_steps io ss else cs_error s)"

definition compact_base :: "u64 \<Rightarrow> u64 \<Rightarrow> u8 list" where
  "compact_base covered_sequence new_generation =
     le_bytes 8 covered_sequence @ le_bytes 8 new_generation @ le_bytes 8 (0 :: u64)"

definition journal_compact :: "(CompactStep \<Rightarrow> bool) \<Rightarrow> WriteIo \<Rightarrow> u8 list \<Rightarrow> u64 \<Rightarrow> u64 \<Rightarrow> JournalStore \<Rightarrow>
    JournalStore \<times> Status" where
  "journal_compact io wio snapshot covered_sequence new_generation js =
     (if js_closed js then (js, Err RC_StoreClosed ''store is closed'')
      else if length snapshot > oo_max_snapshot_bytes (js_options js)
      then (js, Err RC_OversizedInput ''snapshot exceeds the configured bound'')
      else if covered_sequence < js_snapshot_covered js
      then (js, Err RC_SequenceRegression ''snapshot would move backwards'')
      else case cs_steps io [CS_OpenSnapshotTmp, CS_WriteSnapshotHeader, CS_WriteSnapshot,
                             CS_SyncSnapshot, CS_ReplaceSnapshot] of
        Inl e \<Rightarrow> (js, Inl e)
      | Inr _ \<Rightarrow>
          let js1 = js\<lparr>js_snapshot_file := Some (snapshot_header (oo_format_version (js_options js))
                        snapshot covered_sequence new_generation @ snapshot)\<rparr>;
              header = build_header (js_store_id js) (js_created_at_micros js)
                         (oo_format_version (js_options js))
          in if header = [] then (js1, Err RC_InvalidConfiguration ''store identity is not canonical'')
          else let js2 = js1\<lparr>js_valid := False\<rparr> in
          case cs_steps io [CS_OpenJournalTmp, CS_WriteJournalHeader, CS_SyncJournal, CS_ReplaceJournal] of
            Inl e \<Rightarrow> (js2, Inl e)
          | Inr _ \<Rightarrow>
              let js3 = js2\<lparr>js_file := header\<rparr> in
              case cs_steps io [CS_ReopenJournal] of
                Inl e \<Rightarrow> (js3, Inl e)
              | Inr _ \<Rightarrow>
                  journal_append wio RT_SnapshotBase (compact_base covered_sequence new_generation)
                    (js3\<lparr>js_valid := True, js_bytes := of_nat kJournalHeaderSize, js_records := 0,
                       js_last_sequence := covered_sequence, js_snapshot := snapshot,
                       js_snapshot_covered := covered_sequence,
                       js_snapshot_generation := new_generation, js_has_snapshot := True,
                       js_compactions := js_compactions js + 1\<rparr>))"

definition journal_flush :: "WriteIo \<Rightarrow> JournalStore \<Rightarrow> Status" where
  "journal_flush io js =
     (if js_closed js then Err RC_StoreClosed ''store is closed'' else flush_and_sync io)"

definition journal_close :: "WriteIo \<Rightarrow> JournalStore \<Rightarrow> JournalStore \<times> Status" where
  "journal_close io js =
     (if js_closed js then (js, ok_status)
      else if js_valid js then (js\<lparr>js_valid := False, js_closed := True\<rparr>, flush_and_sync io)
      else (js\<lparr>js_closed := True\<rparr>, ok_status))"

subsubsection \<open>Opening a store\<close>

record RecoveryReport =
  rr_classification :: RecoveryClassification
  rr_reason :: ReasonCode
  rr_store_generation :: Gen
  rr_records_replayed :: u64
  rr_records_discarded :: u64
  rr_bytes_discarded :: u64
  rr_epoch :: CoordinatorEpoch
  rr_previous_epoch :: u64
  rr_assignments_suspended :: nat
  rr_observations_invalidated :: nat
  rr_authority_invalidated :: nat
  rr_leases_voided :: nat
  rr_fences_invalidated :: u64
  rr_authority_restored :: bool

definition no_recovery :: RecoveryReport where
  "no_recovery = \<lparr>rr_classification = RK_MemoryOnly, rr_reason = RC_Ok, rr_store_generation = 0,
     rr_records_replayed = 0, rr_records_discarded = 0, rr_bytes_discarded = 0,
     rr_epoch = \<lparr>ce_counter = 0, ce_boot = []\<rparr>, rr_previous_epoch = 0, rr_assignments_suspended = 0,
     rr_observations_invalidated = 0, rr_authority_invalidated = 0, rr_leases_voided = 0,
     rr_fences_invalidated = 0, rr_authority_restored = False\<rparr>"

definition refused :: "RecoveryClassification \<Rightarrow> ReasonCode \<Rightarrow> string \<Rightarrow> RecoveryReport \<Rightarrow>
    RecoveryReport \<times> 'a result" where
  "refused cls reason text report =
     (report\<lparr>rr_classification := cls, rr_reason := reason\<rparr>, Err reason text)"

text \<open>The header checks of \<open>open\<close>: the store identity and creation time, or a refusal.\<close>

definition open_header :: "StoreOpenOptions \<Rightarrow> u8 list \<Rightarrow> RecoveryReport \<Rightarrow>
    RecoveryReport \<times> (StoreId \<times> int) result" where
  "open_header options bytes report =
     (if length bytes < kJournalHeaderSize
      then refused RK_RefusedCorrupt RC_StoreCorrupt ''store header is truncated'' report
      else if load_u32 bytes 0 \<noteq> kJournalMagic
      then refused RK_RefusedCorrupt RC_StoreCorrupt ''store magic does not match'' report
      else if ucast (load_u16 bytes 4) \<noteq> oo_format_version options
      then refused RK_IncompatibleVersion RC_IncompatibleVersion ''store format version is incompatible'' report
      else if load_u16 bytes 6 \<noteq> kCanonicalEncodingVersion
      then refused RK_IncompatibleSemantics RC_IncompatibleSemantics
             ''store semantics version is incompatible'' report
      else if load_u32 bytes 8 \<noteq> of_nat kJournalHeaderSize
      then refused RK_RefusedCorrupt RC_StoreCorrupt ''store header size is not recognized'' report
      else if load_u32 bytes 56 \<noteq> crc32c (take 56 bytes)
      then refused RK_RefusedCorrupt RC_StoreCorrupt ''store header integrity check failed'' report
      else case token_parse (bytes_string (take 32 (drop 16 bytes))) of
        Inl e \<Rightarrow> (report\<lparr>rr_classification := RK_RefusedCorrupt, rr_reason := code e\<rparr>, Inl e)
      | Inr store_id \<Rightarrow>
          if token_is_set (oo_expected_store_id options) \<and> oo_expected_store_id options \<noteq> store_id
          then refused RK_RefusedCorrupt RC_UnknownIdentity
                 ''store identity does not match the expected identity'' report
          else (report, Inr (store_id, sint (load_u64 bytes 48))))"

record SnapshotInfo =
  sn_payload :: "u8 list"
  sn_covered :: u64
  sn_generation :: u64

definition open_snapshot :: "StoreOpenOptions \<Rightarrow> u8 list \<Rightarrow> RecoveryReport \<Rightarrow>
    RecoveryReport \<times> SnapshotInfo result" where
  "open_snapshot options content report =
     (case read_file content (oo_max_snapshot_bytes options) of
        Inl e \<Rightarrow> (report\<lparr>rr_classification := RK_RefusedCorrupt, rr_reason := code e\<rparr>, Inl e)
      | Inr snap \<Rightarrow>
          if length snap < kSnapshotHeaderSize \<or> load_u32 snap 0 \<noteq> kSnapshotMagic
          then refused RK_RefusedCorrupt RC_StoreCorrupt ''snapshot magic or header is invalid'' report
          else if ucast (load_u16 snap 4) \<noteq> oo_format_version options \<or>
                  load_u16 snap 6 \<noteq> kCanonicalEncodingVersion
          then refused RK_IncompatibleVersion RC_IncompatibleVersion ''snapshot version is incompatible'' report
          else let payload_length = unat (load_u32 snap 8) in
          if payload_length > oo_max_snapshot_bytes options
          then refused RK_RefusedCorrupt RC_OversizedInput
                 ''snapshot payload exceeds the configured bound'' report
          else if load_u32 snap 32 \<noteq> crc32c (take 32 snap)
          then refused RK_RefusedCorrupt RC_StoreCorrupt ''snapshot header integrity check failed'' report
          else if length snap \<noteq> kSnapshotHeaderSize + payload_length
          then refused RK_RefusedCorrupt RC_StoreCorrupt ''snapshot size does not match its header'' report
          else if load_u32 snap 12 \<noteq> crc32c (drop kSnapshotHeaderSize snap)
          then refused RK_RefusedCorrupt RC_StoreCorrupt ''snapshot payload integrity check failed'' report
          else (report, Inr \<lparr>sn_payload = drop kSnapshotHeaderSize snap, sn_covered = load_u64 snap 16,
                             sn_generation = load_u64 snap 24\<rparr>))"

definition blank_store :: "StoreOpenOptions \<Rightarrow> int \<Rightarrow> u8 list \<Rightarrow> u8 list option \<Rightarrow> JournalStore" where
  "blank_store options created_at file snapshot_file = \<lparr>
     js_options = options, js_store_id = [], js_created_at_micros = created_at, js_valid = True,
     js_snapshot = [], js_snapshot_covered = 0, js_snapshot_generation = 0, js_has_snapshot = False,
     js_last_sequence = 0, js_records = 0, js_bytes = 0, js_bytes_appended = 0, js_compactions = 0,
     js_closed = False, js_file = file, js_snapshot_file = snapshot_file\<rparr>"

text \<open>A file of size zero gets a fresh header.  An existing snapshot file is not read then.\<close>

definition open_fresh :: "StoreOpenOptions \<Rightarrow> WriteIo \<Rightarrow> StoreId \<Rightarrow> int \<Rightarrow> bool \<Rightarrow> u8 list option \<Rightarrow>
    RecoveryReport \<Rightarrow> RecoveryReport \<times> JournalStore result" where
  "open_fresh options io generated created_at existed snapshot_file report =
     (let i = (if token_is_set (oo_expected_store_id options) then oo_expected_store_id options else generated);
          header = build_header i created_at (oo_format_version options)
      in if header = [] then (report, Err RC_InvalidConfiguration ''store identity is not canonical'')
         else case write_all io header of
           (_, Inl e) \<Rightarrow> (report, Inl e)
         | (written, Inr _) \<Rightarrow>
             (case flush_and_sync io of
                Inl e \<Rightarrow> (report, Inl e)
              | Inr _ \<Rightarrow>
                  (report\<lparr>rr_classification := (if existed then RK_EmptyStore else RK_FreshStore),
                     rr_reason := RC_Ok\<rparr>,
                   Inr ((blank_store options created_at written snapshot_file)
                     \<lparr>js_store_id := i, js_bytes := of_nat kJournalHeaderSize\<rparr>))))"

text \<open>What \<open>open\<close> does with the outcome of the scan; \<open>truncated\<close> is the truncation's result.\<close>

definition open_scanned :: "StoreOpenOptions \<Rightarrow> WriteIo \<Rightarrow> bool \<Rightarrow> ScanOutcome \<Rightarrow> JournalStore \<Rightarrow>
    RecoveryReport \<Rightarrow> RecoveryReport \<times> JournalStore result" where
  "open_scanned options io truncated outcome js report =
     (let js1 = js\<lparr>js_last_sequence := so_last_sequence outcome,
                   js_records := of_nat (so_records outcome), js_bytes := of_nat (length (js_file js))\<rparr>;
          report1 = report\<lparr>rr_records_replayed := of_nat (so_records outcome),
                      rr_records_discarded := (if so_discarded_bytes outcome > 0 then 1 else 0),
                      rr_bytes_discarded := of_nat (so_discarded_bytes outcome),
                      rr_store_generation := generation js\<rparr>
      in if so_torn outcome \<or> so_damaged outcome
         then if \<not> ((so_torn outcome \<and> oo_recovery options = RP_TruncateTornTail) \<or>
                    oo_recovery options = RP_TruncateDamagedTail)
              then refused RK_RefusedCorrupt (so_reason outcome)
                     (''store tail is not usable under the configured recovery policy: '' @ so_detail outcome)
                     report1
              else if \<not> truncated
              then refused RK_RefusedCorrupt RC_StoreUnavailable ''store truncation failed'' report1
              else case flush_and_sync io of
                Inl e \<Rightarrow> (report1\<lparr>rr_classification := RK_RefusedCorrupt, rr_reason := code e\<rparr>, Inl e)
              | Inr _ \<Rightarrow>
                  (report1\<lparr>rr_classification := (if so_torn outcome then RK_TornTailTruncated
                                                 else RK_DamagedTailTruncated),
                     rr_reason := so_reason outcome\<rparr>,
                   Inr (js1\<lparr>js_file := take (so_last_good_offset outcome) (js_file js),
                          js_bytes := of_nat (so_last_good_offset outcome)\<rparr>))
         else (report1\<lparr>rr_classification := RK_CleanReopen, rr_reason := RC_Ok\<rparr>, Inr js1))"

text \<open>
  \<open>JournalStore::open\<close> on the files the operating system shows.  \<open>opened\<close> says whether the
  journal file can be opened; \<open>generated\<close> and \<open>created_at\<close> are the generated identity and
  the clock reading.
\<close>

definition journal_open :: "StoreOpenOptions \<Rightarrow> bool \<Rightarrow> WriteIo \<Rightarrow> bool \<Rightarrow> StoreId \<Rightarrow> int \<Rightarrow>
    u8 list option \<Rightarrow> u8 list option \<Rightarrow> RecoveryReport \<Rightarrow> RecoveryReport \<times> JournalStore result" where
  "journal_open options opened io truncated generated created_at file snapshot_file report =
     (if oo_max_record_bytes options < 256 \<or> oo_max_journal_bytes options < oo_max_record_bytes options \<or>
         oo_max_snapshot_bytes options < oo_max_record_bytes options
      then (report, Err RC_InvalidConfiguration ''store bounds are not usable'')
      else if file = None \<and> \<not> oo_create_if_missing options
      then refused RK_RefusedCorrupt RC_StoreUnavailable ''store does not exist and creation is disabled'' report
      else if \<not> opened
      then refused RK_RefusedCorrupt RC_StoreUnavailable ''cannot create store file'' report
      else let content = (case file of None \<Rightarrow> [] | Some c \<Rightarrow> c) in
      if content = [] then open_fresh options io generated created_at (file \<noteq> None) snapshot_file report
      else case read_file content (read_limit options) of
        Inl e \<Rightarrow> (report\<lparr>rr_classification := RK_RefusedCorrupt, rr_reason := code e\<rparr>, Inl e)
      | Inr bytes \<Rightarrow>
        (case open_header options bytes report of
           (report1, Inl e) \<Rightarrow> (report1, Inl e)
         | (report1, Inr (store_id, created)) \<Rightarrow>
             let js = (blank_store options created content snapshot_file)\<lparr>js_store_id := store_id\<rparr> in
             (case snapshot_file of
                None \<Rightarrow> open_scanned options io truncated
                          (scan_records bytes (oo_max_record_bytes options)) js report1
              | Some snap \<Rightarrow>
                  (case open_snapshot options snap report1 of
                     (report2, Inl e) \<Rightarrow> (report2, Inl e)
                   | (report2, Inr info) \<Rightarrow>
                       open_scanned options io truncated
                         (scan_records bytes (oo_max_record_bytes options))
                         (js\<lparr>js_snapshot := sn_payload info, js_snapshot_covered := sn_covered info,
                            js_snapshot_generation := sn_generation info, js_has_snapshot := True\<rparr>)
                         report2))))"

subsection \<open>Well-formed journals\<close>

type_synonym journal_entry = "RecordType \<times> u64 \<times> u8 list"

definition encode_entry :: "journal_entry \<Rightarrow> u8 list" where
  "encode_entry e = (case e of (type, sequence, payload) \<Rightarrow> encode_record type sequence payload)"

definition encode_records :: "journal_entry list \<Rightarrow> u8 list" where
  "encode_records rs = concat (map encode_entry rs)"

text \<open>Entries that a store with records of at most \<open>m\<close> bytes can hold behind sequence \<open>before\<close>.\<close>

fun records_ok :: "nat \<Rightarrow> u64 option \<Rightarrow> journal_entry list \<Rightarrow> bool" where
  "records_ok m before [] = True"
| "records_ok m before ((type, sequence, payload) # rs) \<longleftrightarrow>
     length payload \<le> m \<and> length payload < 2 ^ 32 \<and>
     (case before of None \<Rightarrow> True | Some l \<Rightarrow> l < sequence) \<and> records_ok m (Some sequence) rs"

definition scan_accept :: "nat \<Rightarrow> journal_entry list \<Rightarrow> ScanOutcome \<Rightarrow> ScanOutcome" where
  "scan_accept offset rs out =
     (if rs = [] then out
      else out\<lparr>so_last_sequence := fst (snd (last rs)), so_records := so_records out + length rs,
             so_last_good_offset := offset + length (encode_records rs)\<rparr>)"

lemma encode_records_simps [simp]:
  "encode_records [] = []"
  "encode_records (e # rs) = encode_entry e @ encode_records rs"
  "encode_records (rs @ rs') = encode_records rs @ encode_records rs'"
  by (simp_all add: encode_records_def)

lemma length_record_body [simp]: "length (record_body type sequence payload) = 20 + length payload"
  by (simp add: record_body_def)

lemma length_encode_record [simp]: "length (encode_record type sequence payload) = 24 + length payload"
  by (simp add: encode_record_def Let_def)

lemma load_u16_at: "length pre = n \<Longrightarrow> load_u16 (pre @ le_bytes 2 v @ post) n = v"
  by (auto simp: load_u16_def le_word_le_bytes)

lemma load_u32_at: "length pre = n \<Longrightarrow> load_u32 (pre @ le_bytes 4 v @ post) n = v"
  by (auto simp: load_u32_def le_word_le_bytes)

lemma load_u64_at: "length pre = n \<Longrightarrow> load_u64 (pre @ le_bytes 8 v @ post) n = v"
  by (auto simp: load_u64_def le_word_le_bytes)

text \<open>What the scan and the replay read of a record that starts at \<open>offset\<close>.\<close>

lemma entry_fields:
  assumes "length pre = offset" and "length payload < 2 ^ 32"
  shows "unat (load_u32 (pre @ encode_record type sequence payload @ post) offset) = length payload"
    and "load_u16 (pre @ encode_record type sequence payload @ post) (offset + 4) = RecordType_value type"
    and "load_u64 (pre @ encode_record type sequence payload @ post) (offset + 8) = sequence"
    and "load_u32 (pre @ encode_record type sequence payload @ post) (offset + (20 + length payload)) =
           crc32c (record_body type sequence payload)"
    and "take (20 + length payload) (drop offset (pre @ encode_record type sequence payload @ post)) =
           record_body type sequence payload"
    and "take (length payload) (drop (offset + 20) (pre @ encode_record type sequence payload @ post)) = payload"
proof -
  let ?len = "le_bytes 4 (of_nat (length payload) :: u32)" and ?ty = "le_bytes 2 (RecordType_value type)"
  let ?crc = "le_bytes 4 (crc32c (record_body type sequence payload))"
  have data: "pre @ encode_record type sequence payload @ post =
      pre @ ?len @ ?ty @ le_bytes 2 (0 :: u16) @ le_bytes 8 sequence @ replicate 4 0 @ payload @ ?crc @ post"
    (is "?data = _") by (simp add: encode_record_def record_body_def Let_def)
  show "unat (load_u32 ?data offset) = length payload"
    using load_u32_at [OF assms(1)] assms(2) unfolding data by (simp add: unat_of_nat)
  have "?data = (pre @ ?len) @ ?ty @ (le_bytes 2 (0 :: u16) @ le_bytes 8 sequence @ replicate 4 0 @ payload @ ?crc @ post)"
    by (simp add: data)
  then show "load_u16 ?data (offset + 4) = RecordType_value type"
    by (simp only:) (rule load_u16_at, simp add: assms(1))
  have "?data = (pre @ ?len @ ?ty @ le_bytes 2 (0 :: u16)) @ le_bytes 8 sequence @ (replicate 4 0 @ payload @ ?crc @ post)"
    by (simp add: data)
  then show "load_u64 ?data (offset + 8) = sequence"
    by (simp only:) (rule load_u64_at, simp add: assms(1))
  have "?data = (pre @ record_body type sequence payload) @ ?crc @ post"
    by (simp add: encode_record_def Let_def)
  then show "load_u32 ?data (offset + (20 + length payload)) = crc32c (record_body type sequence payload)"
    by (simp only:) (rule load_u32_at, simp add: assms(1))
  show "take (20 + length payload) (drop offset ?data) = record_body type sequence payload"
    by (simp add: encode_record_def Let_def assms(1) [symmetric])
  have "?data = (pre @ ?len @ ?ty @ le_bytes 2 (0 :: u16) @ le_bytes 8 sequence @ replicate 4 0) @ payload @ ?crc @ post"
    by (simp add: data)
  then show "take (length payload) (drop (offset + 20) ?data) = payload"
    by (simp only:) (simp add: assms(1) [symmetric])
qed

lemma scan_from_entry:
  assumes "length pre = offset" and "length payload \<le> m" and "length payload < 2 ^ 32"
    and "so_records out = 0 \<or> so_last_sequence out < sequence"
  shows "scan_from (pre @ encode_record type sequence payload @ post) m offset out =
    scan_from (pre @ encode_record type sequence payload @ post) m (offset + (24 + length payload))
      (out\<lparr>so_last_sequence := sequence, so_records := so_records out + 1,
         so_last_good_offset := offset + (24 + length payload)\<rparr>)"
proof -
  obtain data where d: "data = pre @ encode_record type sequence payload @ post" by blast
  note f = entry_fields [OF assms(1,3), of type sequence post, folded d]
  have crc: "t = offset + (20 + length payload) \<Longrightarrow> load_u32 data t = crc32c (record_body type sequence payload)"
    and body: "t = 20 + length payload \<Longrightarrow> take t (drop offset data) = record_body type sequence payload" for t
    using f by simp_all
  have len: "length data = offset + (24 + length payload) + length post"
    using d assms(1) by simp
  have "scan_from data m offset out = scan_from data m (offset + (24 + length payload))
      (out\<lparr>so_last_sequence := sequence, so_records := so_records out + 1,
         so_last_good_offset := offset + (24 + length payload)\<rparr>)"
    using assms(2,4)
    by (subst scan_from.simps) (auto simp: f(1-3) crc body len journal_sizes Let_def not_le add.commute add.left_commute)
  then show ?thesis by (simp only: d)
qed

lemma scan_from_records:
  assumes "records_ok m l rs" and "length pre = offset"
    and "case l of None \<Rightarrow> so_records out = 0 | Some x \<Rightarrow> so_last_sequence out = x"
  shows "scan_from (pre @ encode_records rs @ post) m offset out =
    scan_from (pre @ encode_records rs @ post) m (offset + length (encode_records rs)) (scan_accept offset rs out)"
  using assms
proof (induction rs arbitrary: l pre offset out)
  case Nil
  then show ?case by (simp add: scan_accept_def)
next
  case (Cons e rs)
  obtain type sequence payload where e: "e = (type, sequence, payload)" by (cases e)
  let ?r = "encode_record type sequence payload"
  let ?out = "out\<lparr>so_last_sequence := sequence, so_records := so_records out + 1,
         so_last_good_offset := offset + (24 + length payload)\<rparr>"
  from Cons.prems e have "scan_from (pre @ ?r @ (encode_records rs @ post)) m offset out =
      scan_from (pre @ ?r @ (encode_records rs @ post)) m (offset + (24 + length payload)) ?out"
    by (intro scan_from_entry) (auto split: option.splits)
  also have "\<dots> = scan_from ((pre @ ?r) @ encode_records rs @ post) m (offset + (24 + length payload)) ?out"
    by simp
  also have "\<dots> = scan_from ((pre @ ?r) @ encode_records rs @ post) m
      (offset + (24 + length payload) + length (encode_records rs)) (scan_accept (offset + (24 + length payload)) rs ?out)"
    using Cons.prems e by (intro Cons.IH [of "Some sequence"]) auto
  finally show ?case
    using e by (auto simp: encode_entry_def scan_accept_def add.assoc)
qed

lemma scan_records_prefix:
  assumes "records_ok m None rs" and "length header = 64"
  shows "scan_records (header @ encode_records rs @ post) m =
    scan_from (header @ encode_records rs @ post) m (64 + length (encode_records rs))
      (scan_accept 64 rs scan_start)"
  unfolding scan_records_def kJournalHeaderSize_def
  using scan_from_records [OF assms, of scan_start post] by (simp add: scan_start_def)

lemma scan_accept_start:
  "so_torn (scan_accept 64 rs scan_start) = False" "so_damaged (scan_accept 64 rs scan_start) = False"
  "so_records (scan_accept 64 rs scan_start) = length rs"
  "so_last_good_offset (scan_accept 64 rs scan_start) = 64 + length (encode_records rs)"
  "so_discarded_bytes (scan_accept 64 rs scan_start) = 0"
  "so_last_sequence (scan_accept 64 rs scan_start) = (if rs = [] then 0 else fst (snd (last rs)))"
  by (simp_all add: scan_accept_def scan_start_def kJournalHeaderSize_def)

lemma scan_clean:
  assumes "records_ok m None rs" and "length header = 64"
  shows "scan_records (header @ encode_records rs) m = scan_accept 64 rs scan_start"
  using scan_records_prefix [OF assms, of "[]"] assms(2) by (simp add: scan_from.simps)

text \<open>A strict prefix of a record at the end of the journal is a torn tail, never damage.\<close>

lemma scan_torn_tail:
  assumes "records_ok m None rs" and "length header = 64"
    and "length payload \<le> m" and "length payload < 2 ^ 32"
    and "0 < n" and "n < 24 + length payload"
  shows "\<exists>text. scan_records (header @ encode_records rs @ take n (encode_record type sequence payload)) m =
    scan_torn n text (scan_accept 64 rs scan_start)"
proof -
  define data where "data = header @ encode_records rs @ take n (encode_record type sequence payload)"
  let ?off = "64 + length (encode_records rs)"
  have scan: "scan_records data m = scan_from data m ?off (scan_accept 64 rs scan_start)"
    unfolding data_def by (rule scan_records_prefix [OF assms(1,2)])
  have len: "length data = ?off + n"
    using assms by (simp add: data_def)
  show ?thesis
  proof (cases "n < 24")
    case True
    then show ?thesis
      unfolding data_def [symmetric] scan using assms(5) len
      by (subst scan_from.simps) (auto simp: journal_sizes)
  next
    case False
    have "take n (encode_record type sequence payload) =
        le_bytes 4 (of_nat (length payload) :: u32) @ take (n - 4) (drop 4 (encode_record type sequence payload))"
      using False by (simp add: encode_record_def record_body_def Let_def)
    then have "data = (header @ encode_records rs) @ le_bytes 4 (of_nat (length payload) :: u32) @
        take (n - 4) (drop 4 (encode_record type sequence payload))"
      by (simp add: data_def)
    moreover have "length (header @ encode_records rs) = ?off" using assms(2) by simp
    ultimately have "load_u32 data ?off = of_nat (length payload)"
      using load_u32_at by metis
    then have "unat (load_u32 data ?off) = length payload"
      using assms(4) by (simp add: unat_of_nat)
    then show ?thesis
      unfolding data_def [symmetric] scan using assms(3,5,6) len False
      by (subst scan_from.simps) (auto simp: journal_sizes Let_def)
  qed
qed

subsubsection \<open>Replay of a well-formed journal\<close>

fun visit_all :: "(RecordType \<Rightarrow> u64 \<Rightarrow> u8 list \<Rightarrow> 's \<Rightarrow> 's \<times> Status) \<Rightarrow> u64 \<Rightarrow> journal_entry list \<Rightarrow>
    's \<Rightarrow> 's \<times> Status" where
  "visit_all visitor covered [] st = (st, ok_status)"
| "visit_all visitor covered ((type, sequence, payload) # rs) st =
     (if type \<noteq> RT_SnapshotBase \<and> sequence > covered
      then (case visitor type sequence payload st of
              (st', Inl e) \<Rightarrow> (st', Inl e)
            | (st', Inr _) \<Rightarrow> visit_all visitor covered rs st')
      else visit_all visitor covered rs st)"

lemma replay_from_entry:
  assumes "length pre = offset" and "length payload < 2 ^ 32"
  shows "replay_from visitor covered (pre @ encode_record type sequence payload @ post) offset st =
    (if type \<noteq> RT_SnapshotBase \<and> sequence > covered
     then (case visitor type sequence payload st of
             (st', Inl e) \<Rightarrow> (st', Inl e)
           | (st', Inr _) \<Rightarrow> replay_from visitor covered (pre @ encode_record type sequence payload @ post)
                               (offset + (24 + length payload)) st')
     else replay_from visitor covered (pre @ encode_record type sequence payload @ post)
            (offset + (24 + length payload)) st)"
proof -
  obtain data where d: "data = pre @ encode_record type sequence payload @ post" by blast
  note f = entry_fields [OF assms, of type sequence post, folded d]
  have crc: "t = offset + (20 + length payload) \<Longrightarrow> load_u32 data t = crc32c (record_body type sequence payload)"
    and body: "t = 20 + length payload \<Longrightarrow> take t (drop offset data) = record_body type sequence payload"
    and pay: "t = offset + 20 \<Longrightarrow> take (length payload) (drop t data) = payload" for t
    using f by simp_all
  have len: "length data = offset + (24 + length payload) + length post"
    using d assms(1) by simp
  show ?thesis
    unfolding d [symmetric]
    by (subst replay_from.simps)
      (simp add: f(1-3) crc body pay len journal_sizes Let_def add.commute add.left_commute)
qed

lemma replay_from_records:
  assumes "records_ok m l rs" and "length pre = offset"
    and "\<And>st. replay_from visitor covered (pre @ encode_records rs @ post)
           (offset + length (encode_records rs)) st = (st, ok_status)"
  shows "replay_from visitor covered (pre @ encode_records rs @ post) offset st = visit_all visitor covered rs st"
  using assms
proof (induction rs arbitrary: l pre offset st)
  case Nil
  then show ?case by simp
next
  case (Cons e rs)
  obtain type sequence payload where e: "e = (type, sequence, payload)" by (cases e)
  let ?r = "encode_record type sequence payload"
  have rest: "replay_from visitor covered ((pre @ ?r) @ encode_records rs @ post) (offset + (24 + length payload)) st' =
      visit_all visitor covered rs st'" for st'
    using Cons.prems e
    by (intro Cons.IH [of "Some sequence"]) (auto simp: encode_entry_def add.assoc)
  have "replay_from visitor covered (pre @ ?r @ (encode_records rs @ post)) offset st =
      visit_all visitor covered (e # rs) st"
    using Cons.prems e rest by (subst replay_from_entry) (auto split: prod.splits sum.splits)
  then show ?case by (simp add: e encode_entry_def)
qed

subsection \<open>The store invariant\<close>

text \<open>
  \<open>options_ok\<close> are the bounds under which no size computation of the store wraps;
  \<open>journal_inv js rs\<close> says that the open store \<open>js\<close> holds exactly the entries \<open>rs\<close>.
\<close>

definition options_ok :: "StoreOpenOptions \<Rightarrow> bool" where
  "options_ok options \<longleftrightarrow>
     256 \<le> oo_max_record_bytes options \<and> oo_max_record_bytes options < 2 ^ 32 \<and>
     oo_max_record_bytes options \<le> oo_max_journal_bytes options \<and>
     oo_max_record_bytes options \<le> oo_max_snapshot_bytes options \<and>
     oo_max_journal_bytes options * 2 + oo_max_record_bytes options * 4 < 2 ^ 64 \<and>
     oo_format_version options < 2 ^ 16"

definition identity_ok :: "StoreOpenOptions \<Rightarrow> StoreId \<Rightarrow> int \<Rightarrow> bool" where
  "identity_ok options store_id created_at \<longleftrightarrow>
     length store_id = 32 \<and> is_valid_token store_id \<and> is_i64 created_at \<and>
     (oo_expected_store_id options = [] \<or> oo_expected_store_id options = store_id)"

definition journal_inv :: "JournalStore \<Rightarrow> journal_entry list \<Rightarrow> bool" where
  "journal_inv js rs \<longleftrightarrow>
     \<not> js_closed js \<and> js_valid js \<and> options_ok (js_options js) \<and>
     identity_ok (js_options js) (js_store_id js) (js_created_at_micros js) \<and>
     js_file js = build_header (js_store_id js) (js_created_at_micros js) (oo_format_version (js_options js)) @
       encode_records rs \<and>
     length (js_file js) \<le> oo_max_journal_bytes (js_options js) * 2 \<and>
     js_bytes js = of_nat (length (js_file js)) \<and>
     records_ok (oo_max_record_bytes (js_options js)) None rs \<and>
     (\<forall>e\<in>set rs. fst (snd e) \<le> js_last_sequence js)"

text \<open>
  What the last compaction left beside the journal, if there was one, is a snapshot file the store can read,
  which covers the records the store says it covers and none that were not written.
\<close>

definition snapshot_readable :: "JournalStore \<Rightarrow> bool" where
  "snapshot_readable js \<longleftrightarrow> js_snapshot_covered js \<le> js_last_sequence js \<and>
     (case js_snapshot_file js of
        None \<Rightarrow> js_snapshot_covered js = 0
      | Some snap \<Rightarrow> \<exists>info. (\<forall>report. open_snapshot (js_options js) snap report = (report, Inr info)) \<and>
          sn_covered info = js_snapshot_covered js)"

lemma length_build_header: "length i = 32 \<Longrightarrow> length (build_header i created_at v) = 64"
  by (simp add: build_header_def header_prefix_def Let_def)

lemma records_ok_snoc:
  "records_ok m l (rs @ [(type, sequence, payload)]) \<longleftrightarrow>
     records_ok m l rs \<and> length payload \<le> m \<and> length payload < 2 ^ 32 \<and>
     (if rs = [] then (case l of None \<Rightarrow> True | Some x \<Rightarrow> x < sequence) else fst (snd (last rs)) < sequence)"
  by (induction rs arbitrary: l) auto

lemma append_checks_Inr:
  assumes "append_checks js n = Inr (record_size, sequence)"
  shows "\<not> js_closed js" "n \<le> oo_max_record_bytes (js_options js)" "record_size = 24 + n"
    "unat sequence = unat (js_last_sequence js) + 1"
    "unat (js_bytes js) + unat (of_nat record_size :: u64) \<le> unat (of_nat (oo_max_journal_bytes (js_options js)) :: u64) * 2"
  using assms
  by (auto simp: append_checks_def checked_add_size_def journal_sizes checked_add_Some checked_mul_Some
      word_le_nat_alt not_less split: if_splits option.splits)

lemma journal_append_ok:
  assumes inv: "journal_inv js rs" and app: "journal_append io_ok type payload js = (js', ok_status)"
  shows "journal_inv js' (rs @ [(type, js_last_sequence js + 1, payload)])"
    and "js_last_sequence js' = js_last_sequence js + 1"
    and "js_options js' = js_options js" "js_snapshot_covered js' = js_snapshot_covered js"
    "js_snapshot_file js' = js_snapshot_file js" "js_last_sequence js < js_last_sequence js + 1"
proof -
  obtain record_size sequence where chk: "append_checks js (length payload) = Inr (record_size, sequence)"
    using app by (auto simp: journal_append_def split: sum.splits)
  note c = append_checks_Inr [OF chk]
  have seq: "sequence = js_last_sequence js + 1" "js_last_sequence js < sequence"
    using c(4) unat_lt_2p [of sequence] by (simp_all add: word_unat_eq_iff unat_word_ariths word_less_nat_alt)
  have small: "length payload < 2 ^ 32" "length payload \<le> oo_max_record_bytes (js_options js)"
    using c(2) inv by (auto simp: journal_inv_def options_ok_def)
  have js': "js' = js\<lparr>js_file := js_file js @ encode_record type sequence payload, js_last_sequence := sequence,
      js_records := js_records js + 1, js_bytes := js_bytes js + of_nat record_size,
      js_bytes_appended := js_bytes_appended js + of_nat record_size\<rparr>"
    using app chk inv
    by (auto simp: journal_append_def journal_inv_def write_all_def io_ok_def flush_and_sync_def require_def
        encode_record_def record_body_def split: if_splits)
  then show "js_last_sequence js' = js_last_sequence js + 1" "js_options js' = js_options js"
    "js_snapshot_covered js' = js_snapshot_covered js" "js_snapshot_file js' = js_snapshot_file js"
    "js_last_sequence js < js_last_sequence js + 1"
    using seq by simp_all
  have room: "length (js_file js) + record_size \<le> oo_max_journal_bytes (js_options js) * 2"
  proof -
    have small': "n < 2 ^ 64 \<Longrightarrow> unat (of_nat n :: u64) = n" for n :: nat by (simp add: unat_of_nat)
    have 1: "length (js_file js) < 2 ^ 64" "oo_max_journal_bytes (js_options js) < 2 ^ 64" "record_size < 2 ^ 64"
      using inv c(3) small(1) by (auto simp: journal_inv_def options_ok_def)
    have "unat (js_bytes js) = length (js_file js)"
      using inv 1(1) by (simp only: journal_inv_def small')
    then show ?thesis using c(5) by (simp only: small' [OF 1(2)] small' [OF 1(3)])
  qed
  have last: "rs \<noteq> [] \<Longrightarrow> fst (snd (last rs)) < sequence"
    using inv seq(2) by (meson journal_inv_def last_in_set le_less_trans)
  have bound: "\<forall>e\<in>set rs. fst (snd e) \<le> sequence"
    using inv seq(2) by (meson journal_inv_def less_imp_le order_trans)
  show "journal_inv js' (rs @ [(type, js_last_sequence js + 1, payload)])"
    using inv room small last bound c(3) seq(1)
    unfolding js' journal_inv_def
    by (auto simp: records_ok_snoc encode_entry_def)
qed

lemma low_16: "v < 2 ^ 16 \<Longrightarrow> (ucast (ucast (v AND 0xFFFF) :: u16) :: u32) = v" for v :: u32
proof -
  assume "v < 2 ^ 16"
  then have "unat v < 2 ^ 16" by (simp add: word_less_nat_alt)
  then have "unat (take_bit 16 v) = unat v" by (simp add: unsigned_take_bit_eq take_bit_nat_eq_self)
  then have "take_bit 16 v = v" by (simp add: word_unat_eq_iff)
  moreover have "v AND 0xFFFF = take_bit 16 v" by (simp add: take_bit_eq_mask mask_eq_exp_minus_1)
  moreover have "ucast (ucast (take_bit 16 v) :: u16) = take_bit 16 v"
    by (rule bit_word_eqI) (auto simp: bit_simps)
  ultimately show ?thesis by simp
qed

lemma open_header_build:
  assumes i: "identity_ok options store_id created_at" and o: "options_ok options"
  shows "open_header options (build_header store_id created_at (oo_format_version options) @ rest) report =
    (report, Inr (store_id, created_at))"
proof -
  let ?fv = "ucast (oo_format_version options AND 0xFFFF) :: u16"
  let ?h = "header_prefix store_id created_at (oo_format_version options)"
  define data where "data = build_header store_id created_at (oo_format_version options) @ rest"
  have len: "length store_id = 32" using i by (simp add: identity_ok_def)
  have d: "data = ?h @ le_bytes 4 (crc32c ?h) @ le_bytes 4 (0 :: u32) @ rest"
    using len by (simp add: data_def build_header_def Let_def)
  have h: "?h = le_bytes 4 kJournalMagic @ le_bytes 2 ?fv @ le_bytes 2 kCanonicalEncodingVersion @
      le_bytes 4 (of_nat kJournalHeaderSize :: u32) @ le_bytes 4 (0 :: u32) @ string_bytes store_id @
      le_bytes 8 (word_of_int created_at :: u64)"
    by (simp add: header_prefix_def)
  have hl: "length ?h = 56" using len by (simp add: h)
  have 1: "load_u32 data 0 = kJournalMagic"
    using load_u32_at [of "[]" 0] by (simp add: d h)
  have 2: "load_u16 data 4 = ?fv"
    using load_u16_at [of "le_bytes 4 kJournalMagic" 4] by (simp add: d h)
  have 3: "load_u16 data 6 = kCanonicalEncodingVersion"
    using load_u16_at [of "le_bytes 4 kJournalMagic @ le_bytes 2 ?fv" 6] by (simp add: d h)
  have 4: "load_u32 data 8 = of_nat kJournalHeaderSize"
    using load_u32_at [of "le_bytes 4 kJournalMagic @ le_bytes 2 ?fv @ le_bytes 2 kCanonicalEncodingVersion" 8]
    by (simp add: d h)
  have 5: "load_u32 data 56 = crc32c (take 56 data)"
    using load_u32_at [of ?h 56] hl by (simp add: d)
  have 6: "take 32 (drop 16 data) = string_bytes store_id"
    using len by (simp add: d h)
  have 7: "load_u64 data 48 = word_of_int created_at"
    using load_u64_at [of "le_bytes 4 kJournalMagic @ le_bytes 2 ?fv @ le_bytes 2 kCanonicalEncodingVersion @
      le_bytes 4 (of_nat kJournalHeaderSize :: u32) @ le_bytes 4 (0 :: u32) @ string_bytes store_id" 48] len
    by (simp add: d h)
  have "length data \<ge> 64" using len by (simp add: data_def length_build_header)
  moreover have "ucast ?fv = oo_format_version options"
    using o by (simp only: options_ok_def low_16)
  ultimately show ?thesis
    using i unfolding data_def [symmetric]
    by (auto simp: open_header_def 1 2 3 4 5 6 7 journal_sizes identity_ok_def token_parse_def
        sint_word_of_int_i64)
qed

lemma journal_append_succeeds:
  assumes inv: "journal_inv js rs" and "length payload \<le> oo_max_record_bytes (js_options js)"
    and room: "length (js_file js) + 24 + length payload \<le> oo_max_journal_bytes (js_options js) * 2"
    and "unat (js_last_sequence js) + 1 < 2 ^ 64"
  obtains js' where "journal_append io_ok type payload js = (js', ok_status)"
proof -
  let ?n = "24 + length payload" and ?m = "oo_max_journal_bytes (js_options js)"
  have bytes: "js_bytes js = of_nat (length (js_file js))" and open': "js_valid js" "\<not> js_closed js"
      and "?m * 2 + oo_max_record_bytes (js_options js) * 4 < 2 ^ 64"
    using inv unfolding journal_inv_def options_ok_def by blast+
  with room have size: "?m * 2 < 2 ^ 64" "length (js_file js) + ?n < 2 ^ 64" by linarith+
  have small: "unat (of_nat x :: u64) = x" if "x < 2 ^ 64" for x
    using that by (simp add: unat_of_nat)
  have nats: "unat (of_nat ?m :: u64) = ?m" "unat (of_nat ?n :: u64) = ?n" "unat (js_bytes js) = length (js_file js)"
    using size bytes by (simp_all only: small)
  have "checked_add_size kRecordHeaderSize (length payload) = Some (20 + length payload)"
      "checked_add_size (20 + length payload) kRecordTrailerSize = Some ?n"
    using size by (simp_all add: checked_add_size_def journal_sizes)
  moreover have cap: "checked_mul (of_nat ?m :: u64) 2 = Some (of_nat (?m * 2))"
    unfolding checked_mul_Some nats(1) small [OF size(1)] using size(1) by simp
  moreover have projected: "checked_add (js_bytes js) (of_nat ?n) = Some (of_nat (length (js_file js) + ?n))"
    unfolding checked_add_Some nats(2,3) small [OF size(2)] using size(2) by simp
  moreover have "checked_add (js_last_sequence js) 1 = Some (of_nat (unat (js_last_sequence js) + 1))"
    unfolding checked_add_Some small [OF assms(4)] using assms(4) by simp
  moreover have "\<not> (of_nat (?m * 2) :: u64) < of_nat (length (js_file js) + ?n)"
    unfolding word_less_nat_alt small [OF size(1)] small [OF size(2)] using room by simp
  ultimately have "\<exists>sequence. append_checks js (length payload) = Inr (?n, sequence)"
    using open'(2) assms(2) by (simp add: append_checks_def)
  then obtain sequence where "append_checks js (length payload) = Inr (?n, sequence)" ..
  with open'(1) have "snd (journal_append io_ok type payload js) = ok_status"
    by (simp add: journal_append_def write_all_def io_ok_def flush_and_sync_def require_def Let_def)
  then show thesis using that by (metis prod.collapse)
qed

lemma journal_inv_file:
  assumes "journal_inv js rs"
  obtains header where "js_file js = header @ encode_records rs" "length header = 64"
    "header = build_header (js_store_id js) (js_created_at_micros js) (oo_format_version (js_options js))"
  using assms by (auto simp: journal_inv_def identity_ok_def length_build_header)

lemma read_limit_ok: "options_ok options \<Longrightarrow>
    read_limit options = oo_max_journal_bytes options * 2 + oo_max_record_bytes options * 4"
  by (simp add: read_limit_def options_ok_def)

text \<open>Opening a store that has no snapshot, on a file that starts with the header of \<open>js\<close>.\<close>

lemma journal_open_existing:
  assumes inv: "journal_inv js rs"
    and content: "file = build_header (js_store_id js) (js_created_at_micros js) (oo_format_version (js_options js)) @ body"
    and fits: "length file \<le> read_limit (js_options js)"
    and options: "options = (js_options js)\<lparr>oo_recovery := policy\<rparr>"
  shows "journal_open options True io truncated generated now (Some file) None report =
    open_scanned options io truncated (scan_records file (oo_max_record_bytes (js_options js)))
      ((blank_store options (js_created_at_micros js) file None)\<lparr>js_store_id := js_store_id js\<rparr>) report"
proof -
  have o: "options_ok options" "identity_ok options (js_store_id js) (js_created_at_micros js)"
    using inv by (simp_all add: journal_inv_def options options_ok_def identity_ok_def)
  have "length file \<ge> 64"
    using inv by (simp add: content journal_inv_def identity_ok_def length_build_header)
  then have "file \<noteq> []" by auto
  moreover have "read_file file (read_limit options) = Inr file"
    using fits by (simp add: read_file_def options read_limit_def)
  moreover have "open_header options file report = (report, Inr (js_store_id js, js_created_at_micros js))"
    using open_header_build [OF o(2,1)] by (simp add: content options)
  ultimately show ?thesis
    using o(1) by (simp add: journal_open_def options_ok_def options not_less)
qed

text \<open>With a readable snapshot: \<open>js0\<close> is the store before its tail is scanned.\<close>

lemma records_ok_last:
  "records_ok m l rs \<Longrightarrow> e \<in> set rs \<Longrightarrow> fst (snd e) \<le> fst (snd (last rs))"
proof (induction rs arbitrary: l e)
  case (Cons x rs)
  obtain type sequence payload where x: "x = (type, sequence, payload)" by (cases x)
  have less: "sequence < fst (snd (hd rs))" if "rs \<noteq> []"
    using Cons.prems(1) x that by (cases rs) auto
  show ?case
  proof (cases "rs = []")
    case True
    with Cons.prems(2) show ?thesis by simp
  next
    case False
    have rest: "fst (snd e) \<le> fst (snd (last rs))" if "e \<in> set rs" for e
      using Cons.IH [of "Some sequence"] Cons.prems x that by simp
    have "sequence \<le> fst (snd (last rs))"
      using less [OF False] rest [OF hd_in_set [OF False]] by simp
    with Cons.prems(2) rest False x show ?thesis by (cases "e = x") simp_all
  qed
qed simp

lemma reopen_existing:
  assumes inv: "journal_inv js rs" and readable: "snapshot_readable js"
    and content: "file = build_header (js_store_id js) (js_created_at_micros js) (oo_format_version (js_options js)) @ body"
    and fits: "length file \<le> read_limit (js_options js)"
    and options: "options = (js_options js)\<lparr>oo_recovery := policy\<rparr>"
  obtains js0 where "js_file js0 = file" "js_options js0 = options" "js_snapshot_covered js0 = js_snapshot_covered js"
    "\<not> js_closed js0" "js_valid js0"
    "js_store_id js0 = js_store_id js" "js_created_at_micros js0 = js_created_at_micros js"
    "journal_open options True io truncated generated now (Some file) (js_snapshot_file js) report =
      open_scanned options io truncated (scan_records file (oo_max_record_bytes (js_options js))) js0 report"
proof (cases "js_snapshot_file js")
  case None
  let ?js0 = "(blank_store options (js_created_at_micros js) file None)\<lparr>js_store_id := js_store_id js\<rparr>"
  have "js_snapshot_covered js = 0" using readable None by (simp add: snapshot_readable_def)
  then show thesis
    using that [of ?js0] journal_open_existing [OF inv content fits options, of io truncated generated now report] None
    by (simp add: blank_store_def)
next
  case (Some snap)
  with readable obtain info where info: "\<And>report. open_snapshot (js_options js) snap report = (report, Inr info)"
      "sn_covered info = js_snapshot_covered js"
    by (auto simp: snapshot_readable_def)
  have "oo_max_snapshot_bytes options = oo_max_snapshot_bytes (js_options js)"
      "oo_format_version options = oo_format_version (js_options js)" by (simp_all add: options)
  then have same: "open_snapshot options snap r = open_snapshot (js_options js) snap r" for r
    unfolding open_snapshot_def by (simp only:)
  let ?js0 = "(blank_store options (js_created_at_micros js) file (Some snap))\<lparr>js_store_id := js_store_id js,
      js_snapshot := sn_payload info, js_snapshot_covered := sn_covered info,
      js_snapshot_generation := sn_generation info, js_has_snapshot := True\<rparr>"
  have o: "options_ok options" "identity_ok options (js_store_id js) (js_created_at_micros js)"
    using inv by (simp_all add: journal_inv_def options options_ok_def identity_ok_def)
  have "length file \<ge> 64"
    using inv by (simp add: content journal_inv_def identity_ok_def length_build_header)
  then have "file \<noteq> []" by auto
  moreover have "read_file file (read_limit options) = Inr file"
    using fits by (simp add: read_file_def options read_limit_def)
  moreover have "open_header options file report = (report, Inr (js_store_id js, js_created_at_micros js))"
    using open_header_build [OF o(2,1)] by (simp add: content options)
  ultimately have "journal_open options True io truncated generated now (Some file) (Some snap) report =
      open_scanned options io truncated (scan_records file (oo_max_record_bytes (js_options js))) ?js0 report"
    using o(1) by (simp add: journal_open_def options_ok_def options not_less same [unfolded options] info(1))
  with that [of ?js0] Some info(2) show thesis by (simp add: blank_store_def)
qed

lemma reopen_clean:
  assumes "journal_inv js rs" and "snapshot_readable js" and "options = (js_options js)\<lparr>oo_recovery := policy\<rparr>"
  shows "\<exists>js2 report2. journal_open options True io truncated generated now (Some (js_file js)) (js_snapshot_file js) report =
      (report2, Inr js2) \<and> rr_classification report2 = RK_CleanReopen \<and>
    js_file js2 = js_file js \<and> js_options js2 = options \<and> js_snapshot_covered js2 = js_snapshot_covered js \<and>
    \<not> js_closed js2 \<and> js_last_sequence js2 = (if rs = [] then 0 else fst (snd (last rs))) \<and> journal_inv js2 rs"
proof -
  obtain header where h: "js_file js = header @ encode_records rs" "length header = 64"
    "header = build_header (js_store_id js) (js_created_at_micros js) (oo_format_version (js_options js))"
    using assms(1) by (rule journal_inv_file)
  have fits: "length (js_file js) \<le> read_limit (js_options js)"
    using assms(1) by (auto simp: journal_inv_def read_limit_ok)
  have scan: "scan_records (js_file js) (oo_max_record_bytes (js_options js)) = scan_accept 64 rs scan_start"
    using assms(1) h(2) unfolding h(1) by (intro scan_clean) (simp_all add: journal_inv_def)
  obtain js0 where js0: "js_file js0 = js_file js" "js_options js0 = options"
      "js_snapshot_covered js0 = js_snapshot_covered js" "\<not> js_closed js0" "js_valid js0"
      "js_store_id js0 = js_store_id js" "js_created_at_micros js0 = js_created_at_micros js" and js0_open:
      "journal_open options True io truncated generated now (Some (js_file js)) (js_snapshot_file js) report =
        open_scanned options io truncated (scan_records (js_file js) (oo_max_record_bytes (js_options js))) js0 report"
    by (rule reopen_existing [OF assms(1,2) h(1) [unfolded h(3)] fits assms(3)])
  define js2 where "js2 = js0\<lparr>js_last_sequence := if rs = [] then 0 else fst (snd (last rs)),
    js_records := of_nat (length rs), js_bytes := of_nat (length (js_file js0))\<rparr>"
  have "records_ok (oo_max_record_bytes (js_options js)) None rs" using assms(1) by (simp add: journal_inv_def)
  then have covered: "\<forall>e\<in>set rs. fst (snd e) \<le> js_last_sequence js2"
    by (cases "rs = []") (auto simp: js2_def dest!: records_ok_last)
  have same: "js_file js2 = js_file js" "js_options js2 = (js_options js)\<lparr>oo_recovery := policy\<rparr>" "\<not> js_closed js2"
      "js_valid js2" "js_store_id js2 = js_store_id js" "js_created_at_micros js2 = js_created_at_micros js"
      "js_bytes js2 = of_nat (length (js_file js2))"
    using js0 by (simp_all add: js2_def assms(3))
  have inv2: "journal_inv js2 rs"
    using assms(1) covered same(3,4) unfolding journal_inv_def same(7) unfolding same(1,2,5,6)
    by (elim conjE, intro conjI) (simp_all add: options_ok_def identity_ok_def)
  have "\<exists>report2. journal_open options True io truncated generated now (Some (js_file js)) (js_snapshot_file js) report =
      (report2, Inr js2) \<and> rr_classification report2 = RK_CleanReopen"
    unfolding js0_open scan by (simp add: open_scanned_def Let_def scan_accept_start js2_def)
  then obtain report2 where "journal_open options True io truncated generated now (Some (js_file js)) (js_snapshot_file js)
      report = (report2, Inr js2)" "rr_classification report2 = RK_CleanReopen" by blast
  moreover have "js_snapshot_covered js2 = js_snapshot_covered js"
      "js_last_sequence js2 = (if rs = [] then 0 else fst (snd (last rs)))"
    using js0(3) by (simp_all add: js2_def)
  ultimately show ?thesis using same(1-3) inv2 assms(3) by auto
qed

text \<open>A store that was never compacted.\<close>

lemma open_clean:
  assumes "journal_inv js rs" and "options = (js_options js)\<lparr>oo_recovery := policy\<rparr>"
  shows "\<exists>js2 report2. journal_open options True io truncated generated now (Some (js_file js)) None report =
      (report2, Inr js2) \<and> rr_classification report2 = RK_CleanReopen \<and>
    js_file js2 = js_file js \<and> js_options js2 = options \<and> js_snapshot_covered js2 = 0 \<and>
    \<not> js_closed js2 \<and> js_last_sequence js2 = (if rs = [] then 0 else fst (snd (last rs))) \<and> journal_inv js2 rs"
proof -
  let ?js = "js\<lparr>js_snapshot_file := None, js_snapshot_covered := 0\<rparr>"
  have "journal_inv ?js rs = journal_inv js rs" by (simp add: journal_inv_def)
  moreover have "snapshot_readable ?js" by (simp add: snapshot_readable_def)
  ultimately have "journal_inv ?js rs" "snapshot_readable ?js" using assms(1) by simp_all
  from reopen_clean [OF this, of options policy io truncated generated now report] assms(2) show ?thesis by simp
qed

lemma open_without_snapshot:
  "journal_open options opened io truncated generated now contents None report = (report', Inr js) \<Longrightarrow> \<not> js_has_snapshot js"
  by (auto simp: journal_open_def open_fresh_def open_scanned_def refused_def blank_store_def Let_def
      split: if_splits sum.splits prod.splits option.splits)

lemma replay_inv:
  assumes "journal_inv js rs" and "js_file js2 = js_file js" "\<not> js_closed js2"
    and "js_options js2 = (js_options js)\<lparr>oo_recovery := policy\<rparr>"
  shows "journal_replay visitor js2 st = visit_all visitor (js_snapshot_covered js2) rs st"
proof -
  obtain header where h: "js_file js = header @ encode_records rs" "length header = 64"
    using assms(1) by (rule journal_inv_file)
  have "read_file (js_file js2) (read_limit (js_options js2)) = Inr (js_file js)"
    using assms read_limit_ok [of "js_options js"]
    by (auto simp: read_file_def journal_inv_def read_limit_def)
  moreover have "replay_from visitor c (header @ encode_records rs @ []) 64 st = visit_all visitor c rs st" for c
    using assms(1) h(2)
    by (intro replay_from_records) (auto simp: journal_inv_def replay_from.simps)
  ultimately show ?thesis
    using assms(3) h by (simp add: journal_replay_def journal_sizes)
qed

lemma journal_append_short:
  assumes inv: "journal_inv js rs" and n: "n < 24 + length payload"
    and app: "journal_append \<lparr>wi_short = Some n, wi_synced = b\<rparr> type payload js = (js', st)"
    and adm: "append_checks js (length payload) = Inr (record_size, sequence)"
  shows "st = Err RC_StoreUnavailable ''short write to store file''"
    and "js' = js\<lparr>js_file := js_file js @ take n (encode_record type sequence payload)\<rparr>"
  using app n adm inv
  by (auto simp: journal_append_def journal_inv_def write_all_def encode_record_def record_body_def Let_def)

lemma reopen_torn:
  assumes inv: "journal_inv js rs" and readable: "snapshot_readable js" and n: "0 < n" "n < 24 + length payload"
    and pl: "length payload \<le> oo_max_record_bytes (js_options js)"
    and options: "options = (js_options js)\<lparr>oo_recovery := policy\<rparr>"
    and torn: "contents = js_file js @ take n (encode_record type sequence payload)"
  obtains js0 what where "js_file js0 = contents" "js_options js0 = options" "js_snapshot_covered js0 = js_snapshot_covered js"
    "\<not> js_closed js0"
    "journal_open options True io truncated generated now (Some contents) (js_snapshot_file js) report =
      open_scanned options io truncated (scan_torn n what (scan_accept 64 rs scan_start)) js0 report"
proof -
  obtain header where h: "js_file js = header @ encode_records rs" "length header = 64"
    "header = build_header (js_store_id js) (js_created_at_micros js) (oo_format_version (js_options js))"
    using inv by (rule journal_inv_file)
  have content: "contents = build_header (js_store_id js) (js_created_at_micros js) (oo_format_version (js_options js)) @
      encode_records rs @ take n (encode_record type sequence payload)"
    using h torn by simp
  have fits: "length contents \<le> read_limit (js_options js)"
    using inv n pl by (auto simp: journal_inv_def read_limit_ok options_ok_def torn)
  have "\<exists>what. scan_records (header @ encode_records rs @ take n (encode_record type sequence payload))
      (oo_max_record_bytes (js_options js)) = scan_torn n what (scan_accept 64 rs scan_start)"
    using inv h(2) n pl by (intro scan_torn_tail) (auto simp: journal_inv_def options_ok_def)
  then obtain what where scan: "scan_records contents (oo_max_record_bytes (js_options js)) =
      scan_torn n what (scan_accept 64 rs scan_start)"
    using h(1) torn by auto
  obtain js0 where "js_file js0 = contents" "js_options js0 = options" "js_snapshot_covered js0 = js_snapshot_covered js"
      "\<not> js_closed js0"
      "journal_open options True io truncated generated now (Some contents) (js_snapshot_file js) report =
        open_scanned options io truncated (scan_records contents (oo_max_record_bytes (js_options js))) js0 report"
    by (rule reopen_existing [OF inv readable content fits options])
  with that scan show thesis by metis
qed

lemma open_torn_truncates:
  assumes inv: "journal_inv js rs" and readable: "snapshot_readable js" and n: "0 < n" "n < 24 + length payload"
    and pl: "length payload \<le> oo_max_record_bytes (js_options js)"
  shows "\<exists>js2 report2.
      journal_open ((js_options js)\<lparr>oo_recovery := RP_TruncateTornTail\<rparr>) True io_ok True generated now
        (Some (js_file js @ take n (encode_record type sequence payload))) (js_snapshot_file js) report = (report2, Inr js2) \<and>
      rr_classification report2 = RK_TornTailTruncated \<and> js_file js2 = js_file js \<and>
      journal_replay visitor js2 st = visit_all visitor (js_snapshot_covered js) rs st"
proof -
  let ?options = "(js_options js)\<lparr>oo_recovery := RP_TruncateTornTail\<rparr>"
  let ?file = "js_file js @ take n (encode_record type sequence payload)"
  obtain header where h: "js_file js = header @ encode_records rs" "length header = 64"
    using inv by (rule journal_inv_file)
  obtain js0 what where js0: "js_file js0 = ?file" "js_options js0 = ?options"
      "js_snapshot_covered js0 = js_snapshot_covered js" "\<not> js_closed js0"
      "journal_open ?options True io_ok True generated now (Some ?file) (js_snapshot_file js) report =
        open_scanned ?options io_ok True (scan_torn n what (scan_accept 64 rs scan_start)) js0 report"
    by (rule reopen_torn [OF inv readable n pl refl refl])
  have "\<exists>js2 report2.
      journal_open ?options True io_ok True generated now (Some ?file) (js_snapshot_file js) report = (report2, Inr js2) \<and>
      rr_classification report2 = RK_TornTailTruncated \<and> js_file js2 = js_file js \<and> js_options js2 = ?options \<and>
      js_snapshot_covered js2 = js_snapshot_covered js \<and> \<not> js_closed js2"
    unfolding js0(5) using js0(1-4) h
    by (auto simp: open_scanned_def Let_def scan_torn_def scan_accept_start flush_and_sync_def io_ok_def require_def)
  then show ?thesis using replay_inv [OF inv, where policy = RP_TruncateTornTail] by metis
qed

lemma open_torn_refused:
  assumes inv: "journal_inv js rs" and readable: "snapshot_readable js" and n: "0 < n" "n < 24 + length payload"
    and pl: "length payload \<le> oo_max_record_bytes (js_options js)"
  shows "\<exists>report2 what.
      journal_open ((js_options js)\<lparr>oo_recovery := RP_Refuse\<rparr>) True io_ok True generated now
        (Some (js_file js @ take n (encode_record type sequence payload))) (js_snapshot_file js) report =
      (report2, Err RC_JournalTornTail what)"
proof -
  let ?options = "(js_options js)\<lparr>oo_recovery := RP_Refuse\<rparr>"
  let ?file = "js_file js @ take n (encode_record type sequence payload)"
  obtain js0 what where js0: "js_options js0 = ?options"
      "journal_open ?options True io_ok True generated now (Some ?file) (js_snapshot_file js) report =
        open_scanned ?options io_ok True (scan_torn n what (scan_accept 64 rs scan_start)) js0 report"
    by (rule reopen_torn [OF inv readable n pl refl refl])
  then show ?thesis by (simp add: open_scanned_def Let_def scan_torn_def refused_def)
qed

subsubsection \<open>An example store\<close>

definition example_options :: StoreOpenOptions where
  "example_options = \<lparr>oo_create_if_missing = True, oo_recovery = RP_Refuse, oo_max_journal_bytes = 4096,
     oo_max_snapshot_bytes = 4096, oo_max_record_bytes = 1024, oo_expected_store_id = [],
     oo_format_version = 1\<rparr>"

definition example_id :: StoreId where "example_id = replicate 32 (CHR ''0'')"

definition example_store :: JournalStore where
  "example_store = (blank_store example_options 1 (build_header example_id 1 1) None)
     \<lparr>js_store_id := example_id, js_bytes := 64\<rparr>"

lemma example_id_ok: "length example_id = 32" "is_valid_token example_id"
  by (simp_all add: example_id_def is_valid_token_def kMaxTokenLength_def is_tail_def is_head_def char_in_def
      numeral_eq_Suc)

lemma example_inv: "journal_inv example_store []"
  by (simp add: journal_inv_def example_store_def blank_store_def example_options_def options_ok_def
      identity_ok_def example_id_ok length_build_header is_i64_def i64_min_def i64_max_def)

lemma example_readable: "snapshot_readable example_store"
  by (simp add: snapshot_readable_def example_store_def blank_store_def)

lemma example_checks:
  assumes "n \<in> {1, 2, 40}"
  shows "append_checks (example_store\<lparr>js_file := f\<rparr>) n = Inr (24 + n, 1)"
  using assms
  by (auto simp: append_checks_def example_store_def blank_store_def example_options_def checked_add_size_def
      journal_sizes checked_mul_def mul_would_overflow_def checked_add_def add_would_overflow_def)

lemma example_append:
  assumes "length payload \<in> {1, 2, 40}"
  shows "snd (journal_append io_ok type payload (example_store\<lparr>js_file := f\<rparr>)) = ok_status"
proof -
  have "js_valid (example_store\<lparr>js_file := f\<rparr>)" by (simp add: example_store_def blank_store_def)
  with example_checks [OF assms, of f] show ?thesis
    by (simp add: journal_append_def write_all_def io_ok_def flush_and_sync_def require_def Let_def)
qed

text \<open>C18: a record whose append succeeded is durable.  Take an open store whose file holds complete records only (no
  failed write lies behind it) and whose snapshot, if it was ever compacted, can be read within the bounds.
  Reopening it after the append, under any recovery policy, classifies it as clean, and replay visits exactly
  the records the store held before that the snapshot does not cover, followed by the appended one, which it
  does not cover either.\<close>

theorem journal_append_durable:
  assumes "journal_inv js rs" and "snapshot_readable js"
    and "journal_append io_ok type payload js = (js1, ok_status)"
  shows "(\<exists>js2 report2.
    journal_open ((js_options js)\<lparr>oo_recovery := policy\<rparr>) True io truncated generated now
      (Some (js_file js1)) (js_snapshot_file js1) report = (report2, Inr js2) \<and>
    rr_classification report2 = RK_CleanReopen \<and>
    journal_replay visitor js2 st =
      visit_all visitor (js_snapshot_covered js) (rs @ [(type, js_last_sequence js + 1, payload)]) st) \<and>
    js_snapshot_covered js < js_last_sequence js + 1"
proof -
  note app = journal_append_ok [OF assms(1,3)]
  have later: "js_last_sequence js < js_last_sequence js + 1"
    using journal_append_ok(6) [OF assms(1,3)] .
  have readable: "snapshot_readable js1"
    using assms(2) app(2-5) later by (auto simp: snapshot_readable_def split: option.splits)
  from reopen_clean [OF app(1) readable, of "(js_options js1)\<lparr>oo_recovery := policy\<rparr>" policy io truncated generated now report]
  obtain js2 report2 where o: "journal_open ((js_options js1)\<lparr>oo_recovery := policy\<rparr>) True io truncated generated now
      (Some (js_file js1)) (js_snapshot_file js1) report = (report2, Inr js2)" "rr_classification report2 = RK_CleanReopen"
    "js_file js2 = js_file js1" "js_options js2 = (js_options js1)\<lparr>oo_recovery := policy\<rparr>"
    "js_snapshot_covered js2 = js_snapshot_covered js1" "\<not> js_closed js2" by auto
  have "journal_replay visitor js2 st =
      visit_all visitor (js_snapshot_covered js) (rs @ [(type, js_last_sequence js + 1, payload)]) st"
    using replay_inv [OF app(1) o(3,6,4)] o(5) app(4) by simp
  moreover have "js_snapshot_covered js < js_last_sequence js + 1"
    using assms(2) later by (auto simp: snapshot_readable_def)
  ultimately show ?thesis using o(1,2) app(3,5) by auto
qed

theorem journal_append_durable_witness:
  "\<exists>js2 report2.
    journal_open (example_options\<lparr>oo_recovery := RP_Refuse\<rparr>) True io_ok True [] 0
      (Some (js_file (fst (journal_append io_ok RT_EpochStarted [1, 2] example_store)))) None no_recovery =
        (report2, Inr js2) \<and>
    rr_classification report2 = RK_CleanReopen \<and>
    journal_replay (\<lambda>t s p st. (st @ [p], ok_status)) js2 [] =
      visit_all (\<lambda>t s p st. (st @ [p], ok_status)) 0 [(RT_EpochStarted, 1, [1, 2])] []"
proof -
  let ?a = "journal_append io_ok RT_EpochStarted [1, 2] example_store"
  have a: "journal_append io_ok RT_EpochStarted [1, 2] example_store = (fst ?a, ok_status)"
    using example_append [of "[1, 2]" RT_EpochStarted "js_file example_store"]
    by (simp add: prod_eq_iff)
  have none: "js_snapshot_file example_store = None" "js_options example_store = example_options"
      "js_last_sequence example_store = 0" "js_snapshot_file (fst ?a) = None" "js_snapshot_covered example_store = 0"
    using journal_append_ok(5) [OF example_inv a] by (simp_all add: example_store_def blank_store_def)
  show ?thesis
    using journal_append_durable [OF example_inv example_readable a, where policy = RP_Refuse and io = io_ok
        and truncated = True and generated = "[]" and now = 0 and report = no_recovery
        and visitor = "\<lambda>t s p st. (st @ [p], ok_status)" and st = "[]"]
    by (simp only: none append.simps add_0)
qed

text \<open>C19: a crash in the middle of an append, after any non-empty strict prefix of the record reached
  the file, costs nothing but that record.  The store held complete records only, and its snapshot, if it has
  one, is readable.  Opened with the policy that truncates a torn tail, it has exactly the bytes it had before
  the append and replays exactly the records it had (those the snapshot does not cover); opened with the
  default policy, it is refused with \<open>JOURNAL_TORN_TAIL\<close>.\<close>

theorem journal_torn_append_recovers:
  assumes "journal_inv js rs" and "snapshot_readable js"
    and "0 < n" and "n < 24 + length payload"
    and "append_checks js (length payload) = Inr (record_size, sequence)"
    and "journal_append \<lparr>wi_short = Some n, wi_synced = b\<rparr> type payload js = (js1, status)"
  shows "(\<exists>js2 report2.
      journal_open ((js_options js)\<lparr>oo_recovery := RP_TruncateTornTail\<rparr>) True io_ok True generated now
        (Some (js_file js1)) (js_snapshot_file js1) report = (report2, Inr js2) \<and>
      rr_classification report2 = RK_TornTailTruncated \<and> js_file js2 = js_file js \<and>
      journal_replay visitor js2 st = visit_all visitor (js_snapshot_covered js) rs st) \<and>
    (\<exists>report2 text.
      journal_open ((js_options js)\<lparr>oo_recovery := RP_Refuse\<rparr>) True io_ok True generated now
        (Some (js_file js1)) (js_snapshot_file js1) report = (report2, Err RC_JournalTornTail text))"
proof -
  have pl: "length payload \<le> oo_max_record_bytes (js_options js)"
    using append_checks_Inr(2) [OF assms(5)] .
  have "js_file js1 = js_file js @ take n (encode_record type sequence payload)" "js_snapshot_file js1 = js_snapshot_file js"
    using journal_append_short(2) [OF assms(1,4,6,5)] by simp_all
  then show ?thesis
    using open_torn_truncates [OF assms(1-4) pl] open_torn_refused [OF assms(1-4) pl] by simp
qed

theorem journal_torn_append_recovers_witness:
  "let js1 = fst (journal_append \<lparr>wi_short = Some 9, wi_synced = False\<rparr> RT_EpochStarted [1, 2] example_store) in
    (\<exists>js2 report2.
      journal_open (example_options\<lparr>oo_recovery := RP_TruncateTornTail\<rparr>) True io_ok True [] 0
        (Some (js_file js1)) (js_snapshot_file js1) no_recovery = (report2, Inr js2) \<and>
      rr_classification report2 = RK_TornTailTruncated \<and> js_file js2 = js_file example_store \<and>
      journal_replay (\<lambda>t s p st. (st @ [p], ok_status)) js2 [] =
        visit_all (\<lambda>t s p st. (st @ [p], ok_status)) 0 [] []) \<and>
    (\<exists>report2 text.
      journal_open (example_options\<lparr>oo_recovery := RP_Refuse\<rparr>) True io_ok True [] 0
        (Some (js_file js1)) (js_snapshot_file js1) no_recovery = (report2, Err RC_JournalTornTail text))"
proof -
  have none: "js_snapshot_file example_store = None" "js_options example_store = example_options" "js_snapshot_covered example_store = 0"
    by (simp_all add: example_store_def blank_store_def)
  have chk: "append_checks example_store (length [1, 2 :: u8]) = Inr (26, 1)"
    using example_checks [of 2 "js_file example_store"] by (simp add: numeral_2_eq_2)
  have n: "0 < (9 :: nat)" "9 < 24 + length [1, 2 :: u8]" by simp_all
  show ?thesis
    unfolding Let_def
    using journal_torn_append_recovers [OF example_inv example_readable n chk prod.collapse [symmetric],
        where b = False and type = RT_EpochStarted and generated = "[]" and now = 0 and report = no_recovery
        and visitor = "\<lambda>t s p st. (st @ [p], ok_status)" and st = "[]"]
    by (simp only: none)
qed

text \<open>C31: an append that failed after some bytes reached the file leaves them there, and the next
  append lands behind them.  When the lost record is the longer one, the record of the later,
  acknowledged append is invisible: the scan of a reopened store stops at the partial record and
  reports a torn tail that contains the acknowledged record.\<close>

theorem journal_append_after_short_write_is_lost:
  assumes "journal_inv js rs" and "append_checks js (length payload1) = Inr (size1, sequence1)"
    and "journal_append \<lparr>wi_short = Some n, wi_synced = b\<rparr> type1 payload1 js = (js1, status1)"
    and "journal_append io_ok type2 payload2 js1 = (js2, ok_status)"
    and "4 \<le> n" and "n + length payload2 < length payload1"
  shows "so_torn (scan_records (js_file js2) (oo_max_record_bytes (js_options js))) \<and>
    so_records (scan_records (js_file js2) (oo_max_record_bytes (js_options js))) = length rs \<and>
    so_last_good_offset (scan_records (js_file js2) (oo_max_record_bytes (js_options js))) = length (js_file js)"
proof -
  have small: "n < 24 + length payload1" using assms(6) by simp
  have js1: "js1 = js\<lparr>js_file := js_file js @ take n (encode_record type1 sequence1 payload1)\<rparr>"
    by (rule journal_append_short(2) [OF assms(1) small assms(3,2)])
  obtain sequence2 where js2: "js_file js2 = js_file js1 @ encode_record type2 sequence2 payload2"
    using assms(1,4) js1
    by (auto simp: journal_append_def journal_inv_def write_all_def io_ok_def flush_and_sync_def require_def
        Let_def encode_record_def record_body_def split: sum.splits if_splits)
  have pl: "length payload1 \<le> oo_max_record_bytes (js_options js)" "length payload1 < 2 ^ 32"
    using append_checks_Inr(2) [OF assms(2)] assms(1) by (auto simp: journal_inv_def options_ok_def)
  obtain header where h: "js_file js = header @ encode_records rs" "length header = 64"
    using assms(1) by (rule journal_inv_file)
  let ?post = "take n (encode_record type1 sequence1 payload1) @ encode_record type2 sequence2 payload2"
  let ?off = "64 + length (encode_records rs)"
  have content: "js_file js2 = header @ encode_records rs @ ?post" using js1 js2 h by simp
  have scan: "scan_records (js_file js2) (oo_max_record_bytes (js_options js)) =
      scan_from (js_file js2) (oo_max_record_bytes (js_options js)) ?off (scan_accept 64 rs scan_start)"
    unfolding content using assms(1) h(2) by (intro scan_records_prefix) (simp_all add: journal_inv_def)
  have "?post = le_bytes 4 (of_nat (length payload1) :: u32) @
      take (n - 4) (drop 4 (encode_record type1 sequence1 payload1)) @ encode_record type2 sequence2 payload2"
    using assms(5) by (simp add: encode_record_def record_body_def Let_def)
  then have "load_u32 (js_file js2) ?off = of_nat (length payload1)"
    using load_u32_at [of "header @ encode_records rs" ?off "of_nat (length payload1)"] h(2) content by simp
  then have len: "unat (load_u32 (js_file js2) ?off) = length payload1"
    using pl(2) by (simp add: unat_of_nat)
  have size: "length (js_file js2) = ?off + n + (24 + length payload2)"
    using small h(2) by (simp add: content)
  have "scan_from (js_file js2) (oo_max_record_bytes (js_options js)) ?off (scan_accept 64 rs scan_start) =
      scan_torn (24 + (n + length payload2)) ''partial trailing record payload'' (scan_accept 64 rs scan_start)"
    using pl(1) assms(5,6)
    by (subst scan_from.simps) (simp add: len size journal_sizes Let_def)
  then show ?thesis
    unfolding scan using h by (simp add: scan_torn_def scan_accept_start)
qed

theorem journal_append_after_short_write_is_lost_witness:
  "let js1 = fst (journal_append \<lparr>wi_short = Some 4, wi_synced = False\<rparr> RT_EpochStarted (replicate 40 0) example_store);
       js2 = fst (journal_append io_ok RT_StoreSealed [7] js1)
   in so_torn (scan_records (js_file js2) 1024) \<and> so_records (scan_records (js_file js2) 1024) = 0 \<and>
      so_last_good_offset (scan_records (js_file js2) 1024) = length (js_file example_store)"
proof -
  let ?js1 = "fst (journal_append \<lparr>wi_short = Some 4, wi_synced = False\<rparr> RT_EpochStarted (replicate 40 0) example_store)"
  have chk: "append_checks example_store (length (replicate 40 (0 :: u8))) = Inr (64, 1)"
    using example_checks [of 40 "js_file example_store"] by simp
  have js1: "?js1 = example_store\<lparr>js_file := js_file example_store @ take 4 (encode_record RT_EpochStarted 1 (replicate 40 0))\<rparr>"
    by (rule journal_append_short(2) [OF example_inv _ prod.collapse [symmetric] chk]) simp
  have ok2: "journal_append io_ok RT_StoreSealed [7] ?js1 = (fst (journal_append io_ok RT_StoreSealed [7] ?js1), ok_status)"
    unfolding js1 using example_append [of "[7]" RT_StoreSealed] by (simp add: prod_eq_iff)
  have "oo_max_record_bytes (js_options example_store) = 1024"
    by (simp add: example_store_def blank_store_def example_options_def)
  then show ?thesis
    unfolding Let_def
    using journal_append_after_short_write_is_lost [OF example_inv chk prod.collapse [symmetric] ok2] by simp
qed

end
