(* ===== verification/Nof_State.thy ===== *)
theory Nof_State
  imports Nof_Wire Nof_Journal
begin

text \<open>
  The fabric state of \<open>src/detail/fabric_state.hpp\<close> and the parts of \<open>src/fabric.cpp\<close>
  that work on it alone: identifier and token issuance, the payloads of the journal records, the
  canonical encoding of the whole state (\<open>encode_state\<close>, \<open>decode_state\<close>) and the
  recomputation of the derived indexes (\<open>rebuild_indexes\<close>).

  The state keeps the durable assignment records together with indexes derived from them: the
  holder of every exclusive claim (\<open>fs_exclusive_by_class\<close>, \<open>fs_exclusive_by_scope\<close>) and
  the demand committed per device (\<open>fs_committed\<close>).
\<close>

subsection \<open>Keys\<close>

datatype CapabilityKey = CapabilityKey (ck_device: DeviceId) (ck_cls: FunctionClass)

instantiation CapabilityKey :: linorder
begin

definition less_eq_CapabilityKey :: "CapabilityKey \<Rightarrow> CapabilityKey \<Rightarrow> bool" where
  "a \<le> b \<longleftrightarrow> (if ck_device a = ck_device b then ck_cls a \<le> ck_cls b else ck_device a \<le> ck_device b)"

definition less_CapabilityKey :: "CapabilityKey \<Rightarrow> CapabilityKey \<Rightarrow> bool" where
  "a < b \<longleftrightarrow> (if ck_device a = ck_device b then ck_cls a < ck_cls b else ck_device a < ck_device b)"

instance
  by standard
    (auto simp: less_eq_CapabilityKey_def less_CapabilityKey_def CapabilityKey.expand split: if_splits)

end

datatype SourceKey = SourceKey (sk_source: SourceId) (sk_domain: EvidenceDomain)

instantiation SourceKey :: linorder
begin

definition less_eq_SourceKey :: "SourceKey \<Rightarrow> SourceKey \<Rightarrow> bool" where
  "a \<le> b \<longleftrightarrow> (if sk_source a = sk_source b then sk_domain a \<le> sk_domain b else sk_source a \<le> sk_source b)"

definition less_SourceKey :: "SourceKey \<Rightarrow> SourceKey \<Rightarrow> bool" where
  "a < b \<longleftrightarrow> (if sk_source a = sk_source b then sk_domain a < sk_domain b else sk_source a < sk_source b)"

instance
  by standard
    (auto simp: less_eq_SourceKey_def less_SourceKey_def SourceKey.expand split: if_splits)

end

subsection \<open>The state\<close>

record SourceState =
  st_last_sequence :: u64
  st_last_digest :: Digest
  st_restart_floor :: u64
  st_seen :: bool

definition no_source :: SourceState where
  "no_source = \<lparr>st_last_sequence = 0, st_last_digest = digest_zero, st_restart_floor = 0, st_seen = False\<rparr>"

definition source_is_current :: "SourceState \<Rightarrow> u64 \<Rightarrow> bool" where
  "source_is_current s sequence \<longleftrightarrow> st_seen s \<and> sequence > st_restart_floor s"

record IdempotencyEntry =
  ie_request_fingerprint :: Digest
  ie_outcome :: ReasonCode
  ie_response :: "u8 list"
  ie_at :: Micros

definition no_topology :: TopologySnapshot where
  "no_topology = \<lparr>ts_generation = 0, ts_provenance = no_provenance, ts_freshness = no_freshness,
     ts_hosts = [], ts_devices = [], ts_links = []\<rparr>"

definition no_policy :: PolicySnapshot where
  "no_policy = \<lparr>ps_generation = 0, ps_provenance = no_provenance, ps_freshness = no_freshness,
     ps_rules = [], ps_default_deny = True\<rparr>"

record FabricState =
  fs_epoch :: CoordinatorEpoch
  fs_epoch_counter :: u64
  fs_previous_epoch_counter :: u64
  fs_next_assignment_ordinal :: u64
  fs_next_lease :: u64
  fs_next_attempt :: u64
  fs_next_fence_sequence :: u64
  fs_functions :: "(FunctionId, FunctionDescriptor) omap"
  fs_observations :: "(DeviceId, DeviceObservation) omap"
  fs_capabilities :: "(CapabilityKey, CapabilityRecord) omap"
  fs_has_topology :: bool
  fs_topology :: TopologySnapshot
  fs_topology_digest :: Digest
  fs_has_policy :: bool
  fs_policy :: PolicySnapshot
  fs_policy_digest :: Digest
  fs_authority :: "(AuthorityId, AuthorityGrant) omap"
  fs_assignments :: "(AssignmentId, AssignmentRecord) omap"
  fs_exclusive_by_class :: "(ExclusivityKey, AssignmentId) omap"
  fs_exclusive_by_scope :: "(ScopeId, AssignmentId) omap"
  fs_scope_specs :: "(ScopeId, ScopeSpec) omap"
  fs_committed :: "(DeviceId, DemandVector) omap"
  fs_sources :: "(SourceKey, SourceState) omap"
  fs_idempotency :: "(RequestId, IdempotencyEntry) omap"
  fs_idempotency_order :: "RequestId list"
  fs_reassignments :: "(ExclusivityKey, Micros list) omap"

definition no_epoch :: CoordinatorEpoch where
  "no_epoch = \<lparr>ce_counter = 0, ce_boot = []\<rparr>"

definition empty_state :: FabricState where
  "empty_state = \<lparr>
     fs_epoch = no_epoch, fs_epoch_counter = 0, fs_previous_epoch_counter = 0,
     fs_next_assignment_ordinal = 0, fs_next_lease = 0, fs_next_attempt = 0,
     fs_next_fence_sequence = 0, fs_functions = [], fs_observations = [], fs_capabilities = [],
     fs_has_topology = False, fs_topology = no_topology, fs_topology_digest = digest_zero,
     fs_has_policy = False, fs_policy = no_policy, fs_policy_digest = digest_zero,
     fs_authority = [], fs_assignments = [], fs_exclusive_by_class = [], fs_exclusive_by_scope = [],
     fs_scope_specs = [], fs_committed = [], fs_sources = [], fs_idempotency = [],
     fs_idempotency_order = [], fs_reassignments = []\<rparr>"

definition source_state :: "FabricState \<Rightarrow> SourceId \<Rightarrow> EvidenceDomain \<Rightarrow> SourceState" where
  "source_state s source domain =
     (case map_of (fs_sources s) (SourceKey source domain) of None \<Rightarrow> no_source | Some st \<Rightarrow> st)"

definition find_source :: "FabricState \<Rightarrow> SourceId \<Rightarrow> EvidenceDomain \<Rightarrow> SourceState option" where
  "find_source s source domain = map_of (fs_sources s) (SourceKey source domain)"

definition committed_demand_for :: "FabricState \<Rightarrow> DeviceId \<Rightarrow> DemandVector" where
  "committed_demand_for s device =
     (case map_of (fs_committed s) device of None \<Rightarrow> zero_demand | Some d \<Rightarrow> d)"

subsection \<open>Identifier and token issuance\<close>

definition issue_assignment_id :: "FabricState \<Rightarrow> (AssignmentId \<times> FabricState) result" where
  "issue_assignment_id s =
     (case checked_add (fs_next_assignment_ordinal s) 1 of
        None \<Rightarrow> Err RC_ArithmeticOverflow ''assignment ordinal exhausted''
      | Some ordinal \<Rightarrow>
          and_then (token_parse (''as-'' @ hex64 ordinal)) (\<lambda>i.
            Inr (i, s\<lparr>fs_next_assignment_ordinal := ordinal\<rparr>)))"

definition issue_lease :: "FabricState \<Rightarrow> (Gen \<times> FabricState) result" where
  "issue_lease s =
     (case checked_add (fs_next_lease s) 1 of
        None \<Rightarrow> Err RC_ArithmeticOverflow ''lease counter exhausted''
      | Some v \<Rightarrow> Inr (v, s\<lparr>fs_next_lease := v\<rparr>))"

definition issue_attempt :: "FabricState \<Rightarrow> (Gen \<times> FabricState) result" where
  "issue_attempt s =
     (case checked_add (fs_next_attempt s) 1 of
        None \<Rightarrow> Err RC_ArithmeticOverflow ''attempt counter exhausted''
      | Some v \<Rightarrow> Inr (v, s\<lparr>fs_next_attempt := v\<rparr>))"

definition issue_fence :: "FabricState \<Rightarrow> (FencingToken \<times> FabricState) result" where
  "issue_fence s =
     (case checked_add (fs_next_fence_sequence s) 1 of
        None \<Rightarrow> Err RC_ArithmeticOverflow ''fencing token counter exhausted''
      | Some sequence \<Rightarrow>
          Inr (FencingToken (ce_counter (fs_epoch s)) sequence, s\<lparr>fs_next_fence_sequence := sequence\<rparr>))"

lemma assignment_token_valid: "is_valid_token (''as-'' @ hex64 v)"
proof -
  have "is_lower_hex (hex64 v) 16" by (simp add: hex64_def append_hex_lower_hex)
  then show ?thesis
    by (auto simp: is_lower_hex_def is_valid_token_def kMaxTokenLength_def list_all_iff is_tail_def is_head_def
        char_in_def)
qed

lemma issue_assignment_id_Inr:
  "issue_assignment_id s = Inr (i, s') \<longleftrightarrow>
     unat (fs_next_assignment_ordinal s) + 1 < 2 ^ 64 \<and>
     i = ''as-'' @ hex64 (fs_next_assignment_ordinal s + 1) \<and>
     s' = s\<lparr>fs_next_assignment_ordinal := fs_next_assignment_ordinal s + 1\<rparr>"
  using assignment_token_valid [of "fs_next_assignment_ordinal s + 1"]
  by (auto simp: issue_assignment_id_def token_parse_def checked_add_def
      add_would_overflow_iff not_le split: option.splits)

lemma issue_lease_Inr:
  "issue_lease s = Inr (v, s') \<longleftrightarrow>
     unat (fs_next_lease s) + 1 < 2 ^ 64 \<and> v = fs_next_lease s + 1 \<and> s' = s\<lparr>fs_next_lease := v\<rparr>"
  by (auto simp: issue_lease_def checked_add_def add_would_overflow_iff not_le split: option.splits)

lemma issue_attempt_Inr:
  "issue_attempt s = Inr (v, s') \<longleftrightarrow>
     unat (fs_next_attempt s) + 1 < 2 ^ 64 \<and> v = fs_next_attempt s + 1 \<and> s' = s\<lparr>fs_next_attempt := v\<rparr>"
  by (auto simp: issue_attempt_def checked_add_def add_would_overflow_iff not_le split: option.splits)

lemma issue_fence_Inr:
  "issue_fence s = Inr (f, s') \<longleftrightarrow>
     unat (fs_next_fence_sequence s) + 1 < 2 ^ 64 \<and>
     f = FencingToken (ce_counter (fs_epoch s)) (fs_next_fence_sequence s + 1) \<and>
     s' = s\<lparr>fs_next_fence_sequence := fs_next_fence_sequence s + 1\<rparr>"
  by (auto simp: issue_fence_def checked_add_def add_would_overflow_iff not_le split: option.splits)

subsection \<open>Journal payloads\<close>

text \<open>Writers that stop at the first error, as the encoders of \<open>fabric.cpp\<close> do.\<close>

fun bw_seq :: "(BinWriter \<Rightarrow> BinWriter \<times> Status) list \<Rightarrow> BinWriter \<Rightarrow> BinWriter \<times> Status" where
  "bw_seq [] w = (w, ok_status)"
| "bw_seq (f # fs) w = (case f w of (w', Inl e) \<Rightarrow> (w', Inl e) | (w', Inr _) \<Rightarrow> bw_seq fs w')"

record RecordedAssignment =
  xa_record :: AssignmentRecord
  xa_request_id :: RequestId
  xa_request_fingerprint :: Digest

definition encode_recorded_assignment :: "RecordedAssignment \<Rightarrow> BinWriter \<Rightarrow> BinWriter \<times> Status" where
  "encode_recorded_assignment v = bw_seq [
     encode_assignment (xa_record v),
     bw_token (xa_request_id v),
     bw_digest (xa_request_fingerprint v)]"

definition decode_recorded_assignment :: "Bounds \<Rightarrow> RecordedAssignment decoder" where
  "decode_recorded_assignment bounds =
     rd_bind (decode_assignment bounds) (\<lambda>record'.
     rd_bind br_token (\<lambda>request_id.
     rd_bind br_digest (\<lambda>fingerprint.
     rd_return \<lparr>xa_record = record', xa_request_id = request_id, xa_request_fingerprint = fingerprint\<rparr>)))"

record RecordedEffect =
  xe_report :: EffectReport
  xe_record :: AssignmentRecord
  xe_request_id :: RequestId
  xe_request_fingerprint :: Digest

definition encode_recorded_effect :: "RecordedEffect \<Rightarrow> BinWriter \<Rightarrow> BinWriter \<times> Status" where
  "encode_recorded_effect v = bw_seq [
     encode_effect_report (xe_report v),
     encode_assignment (xe_record v),
     bw_token (xe_request_id v),
     bw_digest (xe_request_fingerprint v)]"

definition decode_recorded_effect :: "Bounds \<Rightarrow> RecordedEffect decoder" where
  "decode_recorded_effect bounds =
     rd_bind decode_effect_report (\<lambda>report.
     rd_bind (decode_assignment bounds) (\<lambda>record'.
     rd_bind br_token (\<lambda>request_id.
     rd_bind br_digest (\<lambda>fingerprint.
     rd_return \<lparr>xe_report = report, xe_record = record', xe_request_id = request_id,
                xe_request_fingerprint = fingerprint\<rparr>))))"

record RecordedWithdrawal =
  xw_authority :: AuthorityId
  xw_reason :: ReasonCode
  xw_at :: Micros
  xw_request_id :: RequestId
  xw_request_fingerprint :: Digest

definition encode_recorded_withdrawal :: "RecordedWithdrawal \<Rightarrow> BinWriter \<Rightarrow> BinWriter \<times> Status" where
  "encode_recorded_withdrawal v = bw_seq [
     bw_token (xw_authority v),
     bw_u16 (xw_reason v),
     bw_i64 (xw_at v),
     bw_token (xw_request_id v),
     bw_digest (xw_request_fingerprint v)]"

definition br_reason :: "string \<Rightarrow> ReasonCode decoder" where
  "br_reason what = rd_bind br_u16 (\<lambda>raw.
     if reason_to_string raw = ''UNKNOWN_REASON''
     then rd_fail RC_UnsupportedValue what
     else rd_return raw)"

definition decode_recorded_withdrawal :: "RecordedWithdrawal decoder" where
  "decode_recorded_withdrawal =
     rd_bind br_token (\<lambda>authority.
     rd_bind (br_reason ''unknown reason code in withdrawal record'') (\<lambda>reason.
     rd_bind br_i64 (\<lambda>at'.
     rd_bind br_token (\<lambda>request_id.
     rd_bind br_digest (\<lambda>fingerprint.
     rd_return \<lparr>xw_authority = authority, xw_reason = reason, xw_at = at', xw_request_id = request_id,
                xw_request_fingerprint = fingerprint\<rparr>)))))"

record RecordedRequest =
  xr_request_id :: RequestId
  xr_request_fingerprint :: Digest
  xr_outcome :: ReasonCode
  xr_response :: "u8 list"
  xr_at :: Micros

definition encode_recorded_request :: "RecordedRequest \<Rightarrow> BinWriter \<Rightarrow> BinWriter \<times> Status" where
  "encode_recorded_request v = bw_seq [
     bw_token (xr_request_id v),
     bw_digest (xr_request_fingerprint v),
     bw_u16 (xr_outcome v),
     bw_i64 (xr_at v),
     bw_bytes (xr_response v)]"

definition decode_recorded_request :: "Bounds \<Rightarrow> RecordedRequest decoder" where
  "decode_recorded_request bounds =
     rd_bind br_token (\<lambda>request_id.
     rd_bind br_digest (\<lambda>fingerprint.
     rd_bind (br_reason ''unknown reason code in request record'') (\<lambda>outcome.
     rd_bind br_i64 (\<lambda>at'.
     rd_bind (br_take_bytes (max_record_bytes bounds)) (\<lambda>payload.
     rd_return \<lparr>xr_request_id = request_id, xr_request_fingerprint = fingerprint, xr_outcome = outcome,
                xr_response = payload, xr_at = at'\<rparr>)))))"

definition encode_error_envelope :: "Bounds \<Rightarrow> Error \<Rightarrow> BinWriter \<Rightarrow> BinWriter \<times> Status" where
  "encode_error_envelope bounds e = bw_seq [
     bw_u16 (code e),
     bw_text (take (max_reason_detail_bytes bounds) (detail e))]"

definition decode_error_envelope :: "Error decoder" where
  "decode_error_envelope =
     rd_bind (br_reason ''unknown reason code in error envelope'') (\<lambda>c.
     rd_bind br_text (\<lambda>text.
     rd_return (Error c text)))"

subsubsection \<open>Round trips of the payloads\<close>

text \<open>
  \<open>brt mt f d v\<close> is the judgement \<open>rt\<close> for writers that stop at the first error.
\<close>

definition bwrites :: "(BinWriter \<Rightarrow> BinWriter \<times> Status) \<Rightarrow> u8 list \<Rightarrow> bool" where
  "bwrites f bs \<longleftrightarrow> (\<forall>w.
     (would_fit w (length bs) \<longrightarrow> f w = (w\<lparr>bw_buffer := bw_buffer w @ bs\<rparr>, ok_status)) \<and>
     (would_fit w 0 \<and> \<not> would_fit w (length bs) \<longrightarrow> \<not> ok (snd (f w))))"

definition brt :: "nat \<Rightarrow> (BinWriter \<Rightarrow> BinWriter \<times> Status) \<Rightarrow> 'a decoder \<Rightarrow> 'a \<Rightarrow> bool" where
  "brt mt f d v \<longleftrightarrow> (\<exists>bs. bwrites f bs \<and> reads mt d bs v)"

named_theorems brt_intros "introduction rules of the round trip for stopping writers"

lemma bwrites_append [simp]: "bwrites (bw_append bs) bs"
  by (simp add: bwrites_def bw_append_def)

lemma bwrites_Cons:
  assumes 1: "bwrites f bs" and 2: "bwrites (bw_seq fs) cs"
  shows "bwrites (bw_seq (f # fs)) (bs @ cs)"
proof -
  have fit: "would_fit w (length (bs @ cs)) \<Longrightarrow> bw_seq (f # fs) w = (w\<lparr>bw_buffer := bw_buffer w @ bs @ cs\<rparr>, ok_status)" for w
    using 1 [unfolded bwrites_def, rule_format, of w]
      2 [unfolded bwrites_def, rule_format, of "w\<lparr>bw_buffer := bw_buffer w @ bs\<rparr>"]
    by (simp add: would_fit_iff)
  have nofit: "would_fit w 0 \<Longrightarrow> \<not> would_fit w (length (bs @ cs)) \<Longrightarrow> \<not> ok (snd (bw_seq (f # fs) w))" for w
  proof -
    assume 0: "would_fit w 0" and n: "\<not> would_fit w (length (bs @ cs))"
    show ?thesis
    proof (cases "would_fit w (length bs)")
      case True
      then have "f w = (w\<lparr>bw_buffer := bw_buffer w @ bs\<rparr>, ok_status)" using 1 by (simp add: bwrites_def)
      then show ?thesis
        using 2 [unfolded bwrites_def, THEN spec, of "w\<lparr>bw_buffer := bw_buffer w @ bs\<rparr>"] True 0 n
        by (auto simp: would_fit_iff)
    next
      case False
      then have "\<not> ok (snd (f w))" using 1 0 by (simp add: bwrites_def)
      then show ?thesis by (auto split: prod.splits sum.splits)
    qed
  qed
  from fit nofit show ?thesis by (simp add: bwrites_def)
qed

lemma brt_nil [brt_intros]: "v = v' \<Longrightarrow> brt mt (bw_seq []) (rd_return v) v'"
  by (auto simp: brt_def bwrites_def intro!: exI [of _ "[]"] reads_return)

lemma brt_cons [brt_intros]:
  "brt mt f d a \<Longrightarrow> brt mt (bw_seq fs) (g a) v \<Longrightarrow> brt mt (bw_seq (f # fs)) (rd_bind d g) v"
  unfolding brt_def by (blast intro: bwrites_Cons reads_bind)

lemma bwrites_note: "writes (w_note f) bs \<Longrightarrow> bwrites f bs"
  unfolding bwrites_def
proof (intro allI conjI impI)
  fix w assume w: "writes (w_note f) bs" "would_fit w (length bs)"
  then have "w_note f (w_open w) = (w_open w)\<lparr>w_writer := w\<lparr>bw_buffer := bw_buffer w @ bs\<rparr>\<rparr>"
    using writes_fits [of "w_note f" bs "w_open w"] by (simp add: w_open_def)
  then show "f w = (w\<lparr>bw_buffer := bw_buffer w @ bs\<rparr>, ok_status)"
    by (auto simp: w_note_def w_open_def ok_iff_Inr split: prod.splits if_splits)
next
  fix w assume w: "writes (w_note f) bs" "would_fit w 0 \<and> \<not> would_fit w (length bs)"
  then have "\<not> ok (w_status (w_note f (w_open w)))"
    using writes_overflows [of "w_note f" bs "w_open w"] by (simp add: w_open_def)
  then show "\<not> ok (snd (f w))"
    by (auto simp: w_note_def w_open_def split: prod.splits if_splits)
qed

lemma brt_of_rt: "rt mt (w_note f) d v \<Longrightarrow> brt mt f d v"
  unfolding rt_def brt_def by (blast intro: bwrites_note)

lemma brt_fresh:
  assumes "brt mt f d v" and "f (bin_writer n) = (w, ok_status)" and "length (bw_buffer w) < 2 ^ 64"
  shows "\<exists>r. d (bin_reader (bw_buffer w) mt) = Inr (v, r)"
proof -
  obtain bs where b: "bwrites f bs" "reads mt d bs v" using assms(1) by (auto simp: brt_def)
  have "would_fit (bin_writer n) (length bs)"
    using b(1) [unfolded bwrites_def, THEN spec, of "bin_writer n"] assms(2) by (auto simp: would_fit_iff bin_writer_def)
  then have "f (bin_writer n) = ((bin_writer n)\<lparr>bw_buffer := bw_buffer (bin_writer n) @ bs\<rparr>, ok_status)"
    using b(1) by (simp add: bwrites_def)
  then have "bw_buffer w = bs" using assms(2) by (auto simp: bin_writer_def)
  with b(2) assms(3) show ?thesis by (auto simp: reads_def reader_ok_def bin_reader_def unread_def)
qed

lemma brt_encode_with [brt_intros]: "rt mt e d v \<Longrightarrow> brt mt (encode_with e) d v"
  unfolding rt_def brt_def
proof (elim exE conjE)
  fix bs assume e: "writes e bs" and d: "reads mt d bs v"
  have "bwrites (encode_with e) bs"
    using writes_fits [OF e, of "w_open w" for w] writes_overflows [OF e, of "w_open w" for w]
    by (simp add: bwrites_def encode_with_def w_open_def Let_def)
  with d show "\<exists>bs. bwrites (encode_with e) bs \<and> reads mt d bs v" by blast
qed

lemmas brt_token [brt_intros] = brt_of_rt [OF rt_token [unfolded w_token_def]]
lemmas brt_digest [brt_intros] = brt_of_rt [OF rt_digest [unfolded w_digest_def]]
lemmas brt_i64 [brt_intros] = brt_of_rt [OF rt_i64 [unfolded w_i64_def]]
lemmas brt_u64 [brt_intros] = brt_of_rt [OF rt_u64 [unfolded w_u64_def]]
lemmas brt_u16 [brt_intros] = brt_of_rt [OF rt_u16 [unfolded w_u16_def]]
lemmas brt_u8 [brt_intros] = brt_of_rt [OF rt_u8 [unfolded w_u8_def]]
lemmas brt_boolean [brt_intros] = brt_of_rt [OF rt_boolean [unfolded w_boolean_def]]
lemmas brt_text [brt_intros] = brt_of_rt [OF rt_text [unfolded w_text_def]]
lemmas brt_encoders [brt_intros] =
  brt_encode_with [OF rt_assignment, folded encode_assignment_def decode_assignment_def]
  brt_encode_with [OF rt_effect_report, folded encode_effect_report_def decode_effect_report_def]

lemma brt_reason [brt_intros]: "reason_ok c \<Longrightarrow> brt mt (bw_u16 c) (br_reason what) c"
proof -
  assume c: "reason_ok c"
  have "reads mt (br_reason what) (le_bytes 2 c @ []) c"
    unfolding br_reason_def using c by (intro reads_bind [OF reads_u16]) (simp add: reads_return reason_ok_def)
  then show ?thesis unfolding brt_def bw_u16_def by (intro exI [of _ "le_bytes 2 c"]) simp
qed

lemma brt_bytes [brt_intros]:
  assumes "length bs \<le> m" "length bs < 2 ^ 32"
  shows "brt mt (bw_bytes bs) (br_take_bytes m) bs"
proof -
  have u: "unat (of_nat (length bs) :: u32) = length bs" using assms(2) by (simp add: unat_of_nat)
  have "reads mt (br_take_bytes m) (le_bytes 4 (of_nat (length bs) :: u32) @ bs) bs"
    unfolding br_take_bytes_def
    by (rule reads_bind [OF reads_u32]) (use assms(1) in \<open>simp add: u not_less [symmetric] br_take_reads\<close>)
  then show ?thesis
    unfolding brt_def using bwrites_note [OF writes_note_bytes [OF assms(2)]] by blast
qed

definition recorded_assignment_ok :: "nat \<Rightarrow> Bounds \<Rightarrow> RecordedAssignment \<Rightarrow> bool" where
  "recorded_assignment_ok mt bounds v \<longleftrightarrow>
     assignment_ok mt bounds (xa_record v) \<and> token_ok (xa_request_id v) \<and> length (xa_request_fingerprint v) = 32"

lemma brt_recorded_assignment:
  "recorded_assignment_ok mt bounds v \<Longrightarrow> 64 \<le> mt \<Longrightarrow>
     brt mt (encode_recorded_assignment v) (decode_recorded_assignment bounds) v"
  unfolding recorded_assignment_ok_def encode_recorded_assignment_def decode_recorded_assignment_def
  by (rule brt_intros | simp)+

lemma brt_recorded_effect:
  "effect_report_ok (xe_report v) \<Longrightarrow> assignment_ok mt bounds (xe_record v) \<Longrightarrow> token_ok (xe_request_id v) \<Longrightarrow>
     length (xe_request_fingerprint v) = 32 \<Longrightarrow> 64 \<le> mt \<Longrightarrow>
     brt mt (encode_recorded_effect v) (decode_recorded_effect bounds) v"
  unfolding encode_recorded_effect_def decode_recorded_effect_def
  by (rule brt_intros | simp)+

lemma brt_recorded_withdrawal:
  "token_ok (xw_authority v) \<Longrightarrow> reason_ok (xw_reason v) \<Longrightarrow> is_i64 (xw_at v) \<Longrightarrow> token_ok (xw_request_id v) \<Longrightarrow>
     length (xw_request_fingerprint v) = 32 \<Longrightarrow> 64 \<le> mt \<Longrightarrow>
     brt mt (encode_recorded_withdrawal v) decode_recorded_withdrawal v"
  unfolding encode_recorded_withdrawal_def decode_recorded_withdrawal_def
  by (rule brt_intros | simp)+

lemma brt_recorded_request:
  "token_ok (xr_request_id v) \<Longrightarrow> length (xr_request_fingerprint v) = 32 \<Longrightarrow> reason_ok (xr_outcome v) \<Longrightarrow>
     is_i64 (xr_at v) \<Longrightarrow> length (xr_response v) \<le> max_record_bytes bounds \<Longrightarrow> length (xr_response v) < 2 ^ 32 \<Longrightarrow>
     64 \<le> mt \<Longrightarrow> brt mt (encode_recorded_request v) (decode_recorded_request bounds) v"
  unfolding encode_recorded_request_def decode_recorded_request_def
  by (rule brt_intros | simp)+

lemma brt_error_envelope:
  "reason_ok (code e) \<Longrightarrow> length (detail e) \<le> max_reason_detail_bytes bounds \<Longrightarrow> length (detail e) < 2 ^ 32 \<Longrightarrow>
     length (detail e) \<le> mt \<Longrightarrow> brt mt (encode_error_envelope bounds e) decode_error_envelope e"
  unfolding encode_error_envelope_def decode_error_envelope_def
  by (rule brt_intros | simp)+

subsection \<open>Canonical encoding of the state\<close>

definition bw_count :: "'a list \<Rightarrow> BinWriter \<Rightarrow> BinWriter \<times> Status" where
  "bw_count xs = bw_u32 (of_nat (length xs))"

definition encode_source :: "SourceKey \<times> SourceState \<Rightarrow> BinWriter \<Rightarrow> BinWriter \<times> Status" where
  "encode_source e = bw_seq [
     bw_token (sk_source (fst e)),
     bw_u8 (EvidenceDomain_value (sk_domain (fst e))),
     bw_u64 (st_last_sequence (snd e)),
     bw_u64 (st_restart_floor (snd e)),
     bw_digest (st_last_digest (snd e)),
     bw_boolean (st_seen (snd e))]"

definition encode_reassignment :: "ExclusivityKey \<times> Micros list \<Rightarrow> BinWriter \<Rightarrow> BinWriter \<times> Status" where
  "encode_reassignment e = bw_seq ([
     bw_token (ek_scope (fst e)),
     bw_u16 (FunctionClass_value (ek_cls (fst e))),
     bw_count (snd e)] @ map bw_i64 (snd e))"

definition encode_idempotency :: "RequestId \<times> IdempotencyEntry \<Rightarrow> BinWriter \<Rightarrow> BinWriter \<times> Status" where
  "encode_idempotency e = bw_seq [
     bw_token (fst e),
     bw_digest (ie_request_fingerprint (snd e)),
     bw_u16 (ie_outcome (snd e)),
     bw_i64 (ie_at (snd e)),
     bw_bytes (ie_response (snd e))]"

definition encode_state :: "FabricState \<Rightarrow> BinWriter \<Rightarrow> BinWriter \<times> Status" where
  "encode_state s = bw_seq (
     [bw_u16 kCanonicalEncodingVersion, encode_epoch (fs_epoch s), bw_u64 (fs_epoch_counter s),
      bw_u64 (fs_previous_epoch_counter s), bw_u64 (fs_next_assignment_ordinal s), bw_u64 (fs_next_lease s),
      bw_u64 (fs_next_attempt s), bw_u64 (fs_next_fence_sequence s)] @
     bw_count (fs_functions s) # map (\<lambda>e. encode_function (snd e)) (fs_functions s) @
     bw_boolean (fs_has_topology s) # (if fs_has_topology s then [encode_topology (fs_topology s)] else []) @
     bw_digest (fs_topology_digest s) #
     bw_count (fs_capabilities s) # map (\<lambda>e. encode_capability_record (snd e)) (fs_capabilities s) @
     bw_boolean (fs_has_policy s) # (if fs_has_policy s then [encode_policy (fs_policy s)] else []) @
     bw_digest (fs_policy_digest s) #
     bw_count (fs_observations s) # map (\<lambda>e. encode_observation (snd e)) (fs_observations s) @
     bw_count (fs_authority s) # map (\<lambda>e. encode_authority (snd e)) (fs_authority s) @
     bw_count (fs_assignments s) # map (\<lambda>e. encode_assignment (snd e)) (fs_assignments s) @
     bw_count (fs_scope_specs s) #
       map (\<lambda>e. bw_seq [bw_token (fst e), encode_scope_spec (snd e)]) (fs_scope_specs s) @
     bw_count (fs_sources s) # map encode_source (fs_sources s) @
     bw_count (fs_reassignments s) # map encode_reassignment (fs_reassignments s) @
     bw_count (fs_idempotency s) # map encode_idempotency (fs_idempotency s))"

definition read_count :: "nat \<Rightarrow> nat decoder" where
  "read_count max_count = rd_bind br_u32 (\<lambda>raw.
     if unat raw > max_count
     then rd_fail RC_LimitExceeded ''state collection exceeds the configured bound''
     else rd_return (unat raw))"

definition read_items :: "nat \<Rightarrow> 'a decoder \<Rightarrow> 'a list decoder" where
  "read_items max_count d = rd_bind (read_count max_count) (\<lambda>n. rd_times n d)"

definition read_optional :: "'a \<Rightarrow> 'a decoder \<Rightarrow> (bool \<times> 'a) decoder" where
  "read_optional dflt d = rd_bind br_boolean (\<lambda>present.
     if present then rd_bind d (\<lambda>v. rd_return (True, v)) else rd_return (False, dflt))"

definition decode_scope_entry :: "(ScopeId \<times> ScopeSpec) decoder" where
  "decode_scope_entry = rd_bind br_token (\<lambda>i. rd_bind decode_scope_spec (\<lambda>spec. rd_return (i, spec)))"

definition decode_source :: "(SourceKey \<times> SourceState) decoder" where
  "decode_source =
     rd_bind br_token (\<lambda>source.
     rd_bind br_u8 (\<lambda>raw. case EvidenceDomain_of_value raw of
       None \<Rightarrow> rd_fail RC_UnsupportedValue ''state carries an unknown evidence domain''
     | Some domain \<Rightarrow>
     rd_bind br_u64 (\<lambda>sequence.
     rd_bind br_u64 (\<lambda>floor_value.
     rd_bind br_digest (\<lambda>digest.
     rd_bind br_boolean (\<lambda>seen.
     rd_return (SourceKey source domain,
       \<lparr>st_last_sequence = sequence, st_last_digest = digest, st_restart_floor = floor_value,
        st_seen = seen\<rparr>)))))))"

definition decode_reassignment :: "Bounds \<Rightarrow> (ExclusivityKey \<times> Micros list) decoder" where
  "decode_reassignment bounds =
     rd_bind br_token (\<lambda>scope.
     rd_bind br_u16 (\<lambda>raw. case FunctionClass_of_value raw of
       None \<Rightarrow> rd_fail RC_UnsupportedValue ''state carries an unknown function class''
     | Some cls \<Rightarrow>
     rd_bind (read_items (size_mul (max_reassignments_per_scope bounds) 64) br_i64) (\<lambda>stamps.
     rd_return (ExclusivityKey scope cls, stamps))))"

definition decode_idempotency :: "Bounds \<Rightarrow> (RequestId \<times> IdempotencyEntry) decoder" where
  "decode_idempotency bounds =
     rd_bind br_token (\<lambda>i.
     rd_bind br_digest (\<lambda>fingerprint.
     rd_bind (br_reason ''state carries an unknown reason code'') (\<lambda>outcome.
     rd_bind br_i64 (\<lambda>at'.
     rd_bind br_u32 (\<lambda>n.
     if unat n > max_record_bytes bounds
     then rd_fail RC_OversizedInput ''state response payload exceeds the bound''
     else rd_bind (br_take (unat n)) (\<lambda>payload.
     rd_return (i, \<lparr>ie_request_fingerprint = fingerprint, ie_outcome = outcome, ie_response = payload,
                    ie_at = at'\<rparr>)))))))"

text \<open>Maps are filled with \<open>emplace\<close>: of two entries with one key the first stays.\<close>

definition emplace_all :: "('a \<Rightarrow> 'k::linorder) \<Rightarrow> ('a \<Rightarrow> 'v) \<Rightarrow> 'a list \<Rightarrow> ('k, 'v) omap" where
  "emplace_all key val xs = fold (\<lambda>x m. om_emplace (key x) (val x) m) xs []"

definition decode_state :: "Bounds \<Rightarrow> FabricState decoder" where
  "decode_state bounds =
     rd_bind br_u16 (\<lambda>version.
     if version \<noteq> kCanonicalEncodingVersion
     then rd_fail RC_IncompatibleSemantics ''state encoding version is not supported''
     else
     rd_bind decode_epoch (\<lambda>epoch.
     rd_bind br_u64 (\<lambda>epoch_counter.
     rd_bind br_u64 (\<lambda>previous_epoch_counter.
     rd_bind br_u64 (\<lambda>next_assignment_ordinal.
     rd_bind br_u64 (\<lambda>next_lease.
     rd_bind br_u64 (\<lambda>next_attempt.
     rd_bind br_u64 (\<lambda>next_fence_sequence.
     rd_bind (read_items (max_functions bounds) (decode_function bounds)) (\<lambda>functions.
     rd_bind (read_optional no_topology (decode_topology bounds)) (\<lambda>topology.
     rd_bind br_digest (\<lambda>topology_digest.
     rd_bind (read_items (max_capability_records bounds) decode_capability_record) (\<lambda>capabilities.
     rd_bind (read_optional no_policy (decode_policy bounds)) (\<lambda>policy.
     rd_bind br_digest (\<lambda>policy_digest.
     rd_bind (read_items (max_observations bounds) decode_observation) (\<lambda>observations.
     rd_bind (read_items (max_authority_grants bounds) decode_authority) (\<lambda>authority.
     rd_bind (read_items (max_assignments bounds) (decode_assignment bounds)) (\<lambda>assignments.
     rd_bind (read_items (max_scopes bounds) decode_scope_entry) (\<lambda>scopes.
     rd_bind (read_items (max_sources bounds) decode_source) (\<lambda>sources.
     rd_bind (read_items (max_scopes bounds) (decode_reassignment bounds)) (\<lambda>reassignments.
     rd_bind (read_items (max_idempotency_entries bounds) (decode_idempotency bounds)) (\<lambda>idempotency r.
     if \<not> at_end r then Err RC_MalformedInput ''state encoding carries trailing bytes''
     else Inr (empty_state\<lparr>
       fs_epoch := epoch, fs_epoch_counter := epoch_counter,
       fs_previous_epoch_counter := previous_epoch_counter,
       fs_next_assignment_ordinal := next_assignment_ordinal, fs_next_lease := next_lease,
       fs_next_attempt := next_attempt, fs_next_fence_sequence := next_fence_sequence,
       fs_functions := emplace_all fd_id id functions,
       fs_has_topology := fst topology, fs_topology := snd topology,
       fs_topology_digest := topology_digest,
       fs_capabilities := emplace_all (\<lambda>c. CapabilityKey (cr_device c) (cr_cls c)) id capabilities,
       fs_has_policy := fst policy, fs_policy := snd policy, fs_policy_digest := policy_digest,
       fs_observations := emplace_all do_device id observations,
       fs_authority := emplace_all ag_id id authority,
       fs_assignments := emplace_all ar_id id assignments,
       fs_scope_specs := emplace_all fst snd scopes,
       fs_sources := emplace_all fst snd sources,
       fs_reassignments := emplace_all fst snd reassignments,
       fs_idempotency := emplace_all fst snd idempotency,
       fs_idempotency_order := map fst idempotency\<rparr>, r))))))))))))))))))))))"

definition compute_state_digest :: "Bounds \<Rightarrow> FabricState \<Rightarrow> Digest" where
  "compute_state_digest bounds s =
     (case encode_state s (bin_writer (max_canonical_bytes bounds)) of
        (w, Inl _) \<Rightarrow> digest_zero
      | (w, Inr _) \<Rightarrow> bw_fingerprint w)"

subsection \<open>Derived indexes\<close>

definition committed_add :: "AssignmentRecord \<Rightarrow> FabricState \<Rightarrow> FabricState" where
  "committed_add r s = s\<lparr>fs_committed :=
     om_put (ar_device r) (demand_accumulate (committed_demand_for s (ar_device r)) (ar_demand r))
       (fs_committed s)\<rparr>"

definition claim_exclusive :: "AssignmentRecord \<Rightarrow> FabricState \<Rightarrow> FabricState" where
  "claim_exclusive r s =
     (if ar_exclusive_key r = EK_PerClass
      then s\<lparr>fs_exclusive_by_class :=
             om_put (ExclusivityKey (ar_scope_id r) (ar_cls r)) (ar_id r) (fs_exclusive_by_class s)\<rparr>
      else s\<lparr>fs_exclusive_by_scope := om_put (ar_scope_id r) (ar_id r) (fs_exclusive_by_scope s)\<rparr>)"

text \<open>One record of the rebuild loop; only live records contribute to the indexes and counters.\<close>

definition raise_counter :: "u64 \<Rightarrow> u64 \<Rightarrow> u64" where
  "raise_counter seen counter = (if seen > counter then seen else counter)"

definition rebuild_record :: "AssignmentRecord \<Rightarrow> FabricState \<Rightarrow> FabricState" where
  "rebuild_record r s =
     (if \<not> is_live (ar_state r) then s
      else let
        s1 = (if ar_scope_id r \<noteq> [] then s\<lparr>fs_scope_specs := om_put (ar_scope_id r) (ar_scope r) (fs_scope_specs s)\<rparr> else s);
        s2 = s1\<lparr>fs_next_assignment_ordinal :=
                  raise_counter (parse_ordinal (ar_id r) ''as-'') (fs_next_assignment_ordinal s1),
                fs_next_lease := raise_counter (ar_lease r) (fs_next_lease s1),
                fs_next_attempt := raise_counter (ar_attempt r) (fs_next_attempt s1),
                fs_next_fence_sequence :=
                  (if ft_sequence (ar_fence r) > fs_next_fence_sequence s1 \<and>
                      ft_epoch (ar_fence r) = ce_counter (fs_epoch s1)
                   then ft_sequence (ar_fence r) else fs_next_fence_sequence s1)\<rparr>;
        s3 = (if ar_exclusivity r = EX_Exclusive \<and> holds_authority (ar_state r) then claim_exclusive r s2 else s2)
      in if holds_authority (ar_state r) then committed_add r s3 else s3)"

definition grant_users :: "AuthorityId \<Rightarrow> (AssignmentId, AssignmentRecord) omap \<Rightarrow> AssignmentRecord list" where
  "grant_users i assignments =
     filter (\<lambda>r. holds_authority (ar_state r) \<and> ar_authority r \<noteq> [] \<and> ar_authority r = i) (map snd assignments)"

text \<open>
  The use counters of the grants: set to zero, then counted up once per holding assignment.
\<close>

definition refresh_authority_usage :: "FabricState \<Rightarrow> FabricState" where
  "refresh_authority_usage s =
     s\<lparr>fs_authority :=
         fold (\<lambda>e m. let r = snd e in
                 if holds_authority (ar_state r) \<and> ar_authority r \<noteq> []
                 then (case map_of m (ar_authority r) of
                         None \<Rightarrow> m
                       | Some g \<Rightarrow> om_put (ar_authority r) (g\<lparr>ag_used := ag_used g + 1\<rparr>) m)
                 else m)
           (fs_assignments s)
           (map (\<lambda>e. (fst e, (snd e)\<lparr>ag_used := 0\<rparr>)) (fs_authority s))\<rparr>"

definition rebuild_indexes :: "FabricState \<Rightarrow> FabricState" where
  "rebuild_indexes s =
     refresh_authority_usage
       (fold (\<lambda>e. rebuild_record (snd e)) (fs_assignments s)
         (s\<lparr>fs_exclusive_by_class := [], fs_exclusive_by_scope := [], fs_committed := [], fs_scope_specs := []\<rparr>))"

end
