(* ===== verification/Nof_Placement.thy ===== *)
theory Nof_Placement
  imports Nof_State
begin

text \<open>
  Candidate evaluation of \<open>src/fabric.cpp\<close>: the predicates that decide whether one
  device may carry a placement (\<open>evaluate_device\<close>), the ranking of candidates
  (\<open>finalize_ranking\<close>, \<open>candidate_precedes\<close>) and the choice of the best one.

  The body of \<open>evaluate_device\<close> is a chain of refusals; each commented block of the
  source is one gate here, a function that returns the verdict and reason of its first
  refusal.  \<open>device_admissible\<close> is the specification: a device is eligible exactly when
  every condition of it holds.  The locale \<open>preference\<close> states what the selection
  loop needs of the order it is given, and is interpreted on \<open>candidate_precedes\<close>.
\<close>

subsection \<open>Predicates on evidence\<close>

definition evidence_current :: "FabricState \<Rightarrow> SourceId \<Rightarrow> EvidenceDomain \<Rightarrow> u64 \<Rightarrow> bool" where
  "evidence_current s source domain sequence =
     (case find_source s source domain of
        None \<Rightarrow> False
      | Some entry \<Rightarrow> source_is_current entry sequence)"

definition freshness_usable :: "Freshness \<Rightarrow> Micros \<Rightarrow> bool" where
  "freshness_usable f now = (\<not> is_expired f now)"

fun kind_rank :: "DeviceKind \<Rightarrow> u32" where
  "kind_rank DK_Dpu = 0"
| "kind_rank DK_SmartNic = 1"
| "kind_rank DK_Nic = 2"
| "kind_rank DK_HostStack = 3"

definition contains_id :: "Token list \<Rightarrow> Token \<Rightarrow> bool" where
  "contains_id items i = (i \<in> set items)"

definition contains_label :: "string list \<Rightarrow> string \<Rightarrow> bool" where
  "contains_label labels label = (label \<in> set labels)"

definition kinds_allow :: "DeviceKind list \<Rightarrow> DeviceKind \<Rightarrow> bool" where
  "kinds_allow kinds kind = (kind \<in> set kinds)"

text \<open>The sums of \<open>utilization_ppm\<close> are unsigned and wrap; only the scaling is checked.\<close>

definition utilization_ppm :: "DemandVector \<Rightarrow> CapacityVector \<Rightarrow> u64" where
  "utilization_ppm used capacity =
     (let used_total = dv_packets_per_second used + dv_flows used + dv_queues used + dv_memory used;
          capacity_total = cv_packets_per_second capacity + cv_flows capacity + cv_queues capacity +
            cv_memory capacity
      in if capacity_total = 0 then (if used_total = 0 then 0 else 1000000)
         else if used_total = 0 then 0
         else (case checked_mul used_total 1000000 of
                 None \<Rightarrow> 1000000
               | Some scaled \<Rightarrow>
                   let ratio = scaled div capacity_total
                   in if ratio > 1000000 then 1000000 else ratio))"

record EvaluationContext =
  ec_state :: FabricState
  ec_bounds :: Bounds
  ec_now :: Micros
  ec_function :: FunctionDescriptor
  ec_rule :: PolicyRule
  ec_policy :: PolicySnapshot
  ec_topology :: TopologySnapshot
  ec_request :: PlacementRequest
  ec_request_scope :: ScopeId
  ec_replacing :: AssignmentId

definition authority_recheck ::
    "AuthorityGrant \<Rightarrow> AuthorityAction \<Rightarrow> FunctionClass \<Rightarrow> DeviceKind \<Rightarrow> HostId \<Rightarrow> ScopeId \<Rightarrow>
     SemanticsMask \<Rightarrow> Gen \<Rightarrow> Micros \<Rightarrow> AuthorityDecision" where
  "authority_recheck g action cls kind host scope semantics policy_generation now =
     authority_admits (g\<lparr>ag_used := 0, ag_max_uses := 0\<rparr>) action cls kind host scope semantics
       policy_generation now"

text \<open>
  The holder whose claim conflicts, if any.  A whole-scope claim walks every per-class claim on
  the scope: the keys are ordered by scope first, so they are the ones from the first key whose
  scope is not smaller until the scope changes.
\<close>

definition scope_has_exclusive_conflict ::
    "FabricState \<Rightarrow> ScopeId \<Rightarrow> FunctionClass \<Rightarrow> ExclusiveKeyMode \<Rightarrow> AssignmentId \<Rightarrow>
     AssignmentId option" where
  "scope_has_exclusive_conflict s scope cls key_mode replacing =
     (if scope = [] then None
      else
        let scope_holder = map_of (fs_exclusive_by_scope s) scope
        in if scope_holder \<noteq> None \<and> scope_holder \<noteq> Some replacing then scope_holder
           else if key_mode = EK_PerClass then
             (let class_holder = map_of (fs_exclusive_by_class s) (ExclusivityKey scope cls)
              in if class_holder \<noteq> None \<and> class_holder \<noteq> Some replacing then class_holder else None)
           else List.find (\<lambda>holder. holder \<noteq> replacing)
             (map snd (takeWhile (\<lambda>e. ek_scope (fst e) = scope)
               (dropWhile (\<lambda>e. ek_scope (fst e) < scope) (fs_exclusive_by_class s)))))"

definition lookup_observation :: "FabricState \<Rightarrow> DeviceId \<Rightarrow> DeviceObservation" where
  "lookup_observation s device =
     (case map_of (fs_observations s) device of None \<Rightarrow> no_observation | Some o1 \<Rightarrow> o1)"

definition lookup_capability :: "FabricState \<Rightarrow> DeviceId \<Rightarrow> FunctionClass \<Rightarrow> CapabilityRecord option" where
  "lookup_capability s device cls = map_of (fs_capabilities s) (CapabilityKey device cls)"

subsection \<open>Evaluation of one candidate\<close>

type_synonym refusal = "(MatchVerdict \<times> ReasonCode) option"

fun first_refusal :: "refusal list \<Rightarrow> refusal" where
  "first_refusal [] = None"
| "first_refusal (None # rest) = first_refusal rest"
| "first_refusal (Some r # rest) = Some r"

lemma first_refusal_None: "first_refusal rs = None \<longleftrightarrow> (\<forall>r\<in>set rs. r = None)"
  by (induction rs rule: first_refusal.induct) auto

definition kind_gate :: "EvaluationContext \<Rightarrow> DeviceRecord \<Rightarrow> refusal" where
  "kind_gate c d =
     (if dr_decommissioned d then Some (MV_Unsupported, RC_TargetDisappeared)
      else if dr_kind d = DK_HostStack then
        (if \<not> rq_allow_host_fallback (ec_request c) \<or> \<not> pr_allow_host_fallback (ec_rule c)
         then Some (MV_Unsupported, RC_HostFallbackNotPermitted) else None)
      else if \<not> kinds_allow (pr_allowed_kinds (ec_rule c)) (dr_kind d)
      then Some (MV_Unsupported, RC_DeviceKindNotPermitted)
      else None)"

definition affinity_gate :: "EvaluationContext \<Rightarrow> DeviceRecord \<Rightarrow> refusal" where
  "affinity_gate c d =
     (let rq = ec_request c in
      if rq_preferred_devices rq \<noteq> [] \<and> \<not> contains_id (rq_preferred_devices rq) (dr_id d)
      then Some (MV_Unknown, RC_AffinityUnsatisfied)
      else if rq_preferred_hosts rq \<noteq> [] \<and> \<not> contains_id (rq_preferred_hosts rq) (dr_host d)
      then Some (MV_Unknown, RC_AffinityUnsatisfied)
      else if contains_id (rq_anti_affinity_devices rq) (dr_id d) \<or>
              contains_id (rq_anti_affinity_hosts rq) (dr_host d)
      then Some (MV_Unknown, RC_AntiAffinityViolation)
      else if \<not> list_all (contains_label (dr_labels d)) (rq_required_labels rq)
      then Some (MV_Unknown, RC_AffinityUnsatisfied)
      else None)"

text \<open>
  The capability block yields a refusal, or the contributing reasons and the capability
  generation recorded on the evaluation.
\<close>

definition capability_gate ::
    "EvaluationContext \<Rightarrow> DeviceRecord \<Rightarrow> (MatchVerdict \<times> ReasonCode) + (ReasonCode list \<times> Gen)" where
  "capability_gate c d =
     (let host_fallback = (dr_kind d = DK_HostStack);
          rule = ec_rule c; rq = ec_request c
      in case lookup_capability (ec_state c) (dr_id d) (rq_cls rq) of
           None \<Rightarrow>
             if pr_require_capability rule \<and> \<not> host_fallback then Inl (MV_Missing, RC_EvidenceMissing)
             else Inr ([], 0)
         | Some cap \<Rightarrow>
             let m = match_capability (ec_function c) cap (dr_incarnation d) (ec_now c)
             in if cm_verdict m = MV_Revoked \<or> cm_verdict m = MV_IncarnationMismatch
                then Inl (cm_verdict m, cm_reason m)
                else if host_fallback
                then Inr (if cm_verdict m \<noteq> MV_Eligible then [cm_reason m] else [], 0)
                else if cm_verdict m = MV_Unsupported \<or> cm_verdict m = MV_VersionIncompatible
                then Inl (cm_verdict m, cm_reason m)
                else if pr_require_capability rule then
                  (if \<not> evidence_current (ec_state c) (pv_source (cr_provenance cap)) ED_Capability
                       (pv_sequence (cr_provenance cap))
                   then Inl (MV_Superseded, RC_EvidenceSuperseded)
                   else if gen_is_set (rq_min_capability rq) \<and> cr_generation cap < rq_min_capability rq
                   then Inl (MV_Stale, RC_GenerationMismatch)
                   else if \<not> match_eligible m then Inl (cm_verdict m, cm_reason m)
                   else Inr ([], cr_generation cap))
                else if match_eligible m then Inr ([], cr_generation cap)
                else Inr ([], 0))"

definition device_assignments :: "FabricState \<Rightarrow> DeviceId \<Rightarrow> nat" where
  "device_assignments s device =
     length (filter (\<lambda>e. ar_device (snd e) = device \<and> holds_authority (ar_state (snd e))) (fs_assignments s))"

definition capacity_gate :: "EvaluationContext \<Rightarrow> DeviceRecord \<Rightarrow> refusal" where
  "capacity_gate c d =
     (if capacity_admits (dr_capacity d) (committed_demand_for (ec_state c) (dr_id d))
           (rq_demand (ec_request c)) = None
      then Some (MV_Eligible, RC_CapacityExhausted)
      else if device_assignments (ec_state c) (dr_id d) \<ge> pr_max_assignments_per_device (ec_rule c)
      then Some (MV_Eligible, RC_CapacityExhausted)
      else None)"

definition liveness_gate :: "EvaluationContext \<Rightarrow> DeviceRecord \<Rightarrow> refusal" where
  "liveness_gate c d =
     (if \<not> pr_require_fresh_observation (ec_rule c) then None
      else let ob = lookup_observation (ec_state c) (dr_id d) in
        if \<not> token_is_set (do_device ob) then Some (MV_Unknown, RC_LivenessUnknown)
        else if do_incarnation ob \<noteq> dr_incarnation d
        then Some (MV_IncarnationMismatch, RC_IncarnationMismatch)
        else if \<not> evidence_current (ec_state c) (pv_source (do_provenance ob)) ED_Observation
                  (pv_sequence (do_provenance ob))
        then Some (MV_Superseded, RC_EvidenceSuperseded)
        else if \<not> freshness_usable (do_freshness ob) (ec_now c) then Some (MV_Stale, RC_LivenessStale)
        else (case do_liveness ob of
                LV_Alive \<Rightarrow> None
              | LV_Degraded \<Rightarrow> Some (MV_Eligible, RC_LivenessDegraded)
              | LV_Dead \<Rightarrow> Some (MV_Eligible, RC_LivenessDead)
              | LV_Unknown \<Rightarrow> Some (MV_Unknown, RC_LivenessUnknown)))"

definition dependency_satisfied :: "EvaluationContext \<Rightarrow> DeviceRecord \<Rightarrow> FunctionId \<Rightarrow> bool" where
  "dependency_satisfied c d dependency =
     list_ex (\<lambda>e. let r = snd e in ar_function r = dependency \<and> holds_authority (ar_state r) \<and>
         (ar_device r = dr_id d \<or>
          (ec_request_scope c \<noteq> [] \<and> ar_scope_id r = ec_request_scope c)))
       (fs_assignments (ec_state c))"

fun dependency_gate :: "EvaluationContext \<Rightarrow> DeviceRecord \<Rightarrow> FunctionId list \<Rightarrow> refusal" where
  "dependency_gate c d [] = None"
| "dependency_gate c d (dependency # rest) =
     (if dependency = rq_function (ec_request c) then Some (MV_Eligible, RC_DependencyCycle)
      else if \<not> om_contains (fs_functions (ec_state c)) dependency
      then Some (MV_Eligible, RC_DependencyUnresolved)
      else if \<not> dependency_satisfied c d dependency then Some (MV_Eligible, RC_DependencyUnresolved)
      else dependency_gate c d rest)"

definition exclusive_gate :: "EvaluationContext \<Rightarrow> refusal" where
  "exclusive_gate c =
     (if rq_exclusivity (ec_request c) = EX_Exclusive \<and>
         scope_has_exclusive_conflict (ec_state c) (ec_request_scope c) (rq_cls (ec_request c))
           (pr_exclusive_key (ec_rule c)) (ec_replacing c) \<noteq> None
      then Some (MV_Conflicting, RC_ExclusiveConflict) else None)"

text \<open>The grant admits and its own evidence is current; both loops over the grants test this.\<close>

definition grant_admits ::
    "FabricState \<Rightarrow> AuthorityAction \<Rightarrow> FunctionClass \<Rightarrow> DeviceKind \<Rightarrow> HostId \<Rightarrow> ScopeId \<Rightarrow>
     SemanticsMask \<Rightarrow> Gen \<Rightarrow> Micros \<Rightarrow> AuthorityGrant \<Rightarrow> bool" where
  "grant_admits s action cls kind host scope semantics policy_generation now g \<longleftrightarrow>
     evidence_current s (pv_source (ag_provenance g)) ED_Authority (pv_sequence (ag_provenance g)) \<and>
     ad_admitted (authority_admits g action cls kind host scope semantics policy_generation now)"

definition authority_gate :: "EvaluationContext \<Rightarrow> DeviceRecord \<Rightarrow> refusal" where
  "authority_gate c d =
     (if pr_require_authority (ec_rule c) \<and>
         \<not> list_ex (\<lambda>e. grant_admits (ec_state c) AA_Place (rq_cls (ec_request c)) (dr_kind d) (dr_host d)
               (ec_request_scope c) (mask_unite (fd_required (ec_function c)) (pr_required (ec_rule c)))
               (ps_generation (ec_policy c)) (ec_now c) (snd e))
             (fs_authority (ec_state c))
      then Some (MV_Eligible, RC_AuthorityMissing) else None)"

definition candidate_refuse :: "CandidateEvaluation \<Rightarrow> MatchVerdict \<times> ReasonCode \<Rightarrow> CandidateEvaluation" where
  "candidate_refuse ev vr = ev\<lparr>ca_verdict := fst vr, ca_reason := snd vr\<rparr>"

definition evaluate_device :: "EvaluationContext \<Rightarrow> DeviceRecord \<Rightarrow> CandidateEvaluation" where
  "evaluate_device c d =
     (let ev0 = no_candidate\<lparr>ca_device := dr_id d, ca_host := dr_host d, ca_kind := dr_kind d,
            ca_incarnation := dr_incarnation d, ca_eligible := False\<rparr>
      in case kind_gate c d of
           Some vr \<Rightarrow> candidate_refuse ev0 vr
         | None \<Rightarrow>
             let ev1 = (if dr_kind d = DK_HostStack then ev0\<lparr>ca_mode := EM_HostFallback\<rparr> else ev0)
             in case affinity_gate c d of
                  Some vr \<Rightarrow> candidate_refuse ev1 vr
                | None \<Rightarrow>
                    (case capability_gate c d of
                       Inl vr \<Rightarrow> candidate_refuse ev1 vr
                     | Inr (contributing, gen) \<Rightarrow>
                         let ev2 = ev1\<lparr>ca_contributing := contributing, ca_capability_generation := gen\<rparr>
                         in case first_refusal [capacity_gate c d, liveness_gate c d,
                                dependency_gate c d (rq_dependencies (ec_request c)),
                                exclusive_gate c, authority_gate c d] of
                              Some vr \<Rightarrow> candidate_refuse ev2 vr
                            | None \<Rightarrow> ev2\<lparr>ca_eligible := True, ca_verdict := MV_Eligible, ca_reason := RC_Ok\<rparr>))"

subsection \<open>Ranking\<close>

definition finalize_ranking ::
    "CandidateEvaluation \<Rightarrow> CapacityVector \<Rightarrow> DemandVector \<Rightarrow> ScopeSpec \<Rightarrow> HostId list \<Rightarrow>
     CandidateEvaluation" where
  "finalize_ranking ev capacity committed scope preferred_hosts =
     (let offload = (if ca_mode ev = EM_HostFallback then 1 else 0);
          kind = kind_rank (ca_kind ev);
          locality =
            (if ca_locality_rank ev = 0 then
               (if token_is_set (ss_domain scope) \<and> ss_domain scope = ca_host ev then 0
                else if contains_id preferred_hosts (ca_host ev) then 1
                else 2)
             else ca_locality_rank ev);
          ppm = utilization_ppm committed capacity
      in ev\<lparr>ca_offload_rank := offload, ca_kind_rank := kind, ca_locality_rank := locality,
           ca_utilization_ppm := ppm,
           ca_rank := ucast offload * 1000000000000 + ucast kind * 10000000000 +
             ucast locality * 100000000 + ppm\<rparr>)"

definition candidate_precedes :: "CandidateEvaluation \<Rightarrow> CandidateEvaluation \<Rightarrow> bool" where
  "candidate_precedes l r =
     (if ca_offload_rank l \<noteq> ca_offload_rank r then ca_offload_rank l < ca_offload_rank r
      else if ca_kind_rank l \<noteq> ca_kind_rank r then ca_kind_rank l < ca_kind_rank r
      else if ca_locality_rank l \<noteq> ca_locality_rank r then ca_locality_rank l < ca_locality_rank r
      else if ca_utilization_ppm l \<noteq> ca_utilization_ppm r then ca_utilization_ppm l < ca_utilization_ppm r
      else ca_device l < ca_device r)"

text \<open>The loop that keeps the best element seen so far among those that satisfy a filter.\<close>

definition keep_best :: "('a \<Rightarrow> 'a \<Rightarrow> bool) \<Rightarrow> ('a \<Rightarrow> bool) \<Rightarrow> 'a \<Rightarrow> 'a option \<Rightarrow> 'a option" where
  "keep_best precedes wanted x best =
     (if \<not> wanted x then best
      else case best of None \<Rightarrow> Some x | Some b \<Rightarrow> if precedes x b then Some x else best)"

definition pick_best :: "('a \<Rightarrow> 'a \<Rightarrow> bool) \<Rightarrow> ('a \<Rightarrow> bool) \<Rightarrow> 'a list \<Rightarrow> 'a option" where
  "pick_best precedes wanted xs = fold (keep_best precedes wanted) xs None"

definition select_candidate :: "CandidateEvaluation list \<Rightarrow> CandidateEvaluation option" where
  "select_candidate candidates = pick_best candidate_precedes ca_eligible candidates"

definition primary_refusal_reason :: "CandidateEvaluation list \<Rightarrow> ReasonCode" where
  "primary_refusal_reason candidates =
     (case pick_best candidate_precedes (\<lambda>ev. \<not> ca_eligible ev) candidates of
        None \<Rightarrow> RC_NoEligibleTarget
      | Some best \<Rightarrow> ca_reason best)"


subsection \<open>The selection loop\<close>

text \<open>
  What the loop needs of the order: it is irreflexive, transitive, and an element lies on one side
  of any pair it is compared with (a strict weak order).  It then returns the first wanted element
  that no other wanted element precedes.
\<close>

locale preference =
  fixes precedes :: "'a \<Rightarrow> 'a \<Rightarrow> bool"
  assumes irrefl: "\<not> precedes x x"
    and trans: "precedes x y \<Longrightarrow> precedes y z \<Longrightarrow> precedes x z"
    and weak: "precedes x z \<Longrightarrow> precedes x y \<or> precedes y z"
begin

lemma pick_best_snoc:
  "pick_best precedes wanted (xs @ [x]) = keep_best precedes wanted x (pick_best precedes wanted xs)"
  by (simp add: pick_best_def)

lemma pick_best_None: "pick_best precedes wanted xs = None \<longleftrightarrow> (\<forall>x\<in>set xs. \<not> wanted x)"
proof (induction xs rule: rev_induct)
  case Nil
  then show ?case by (simp add: pick_best_def)
next
  case (snoc x xs)
  then show ?case by (auto simp: pick_best_snoc keep_best_def split: option.splits)
qed

lemma pick_best_Some:
  assumes "pick_best precedes wanted xs = Some b"
  shows "b \<in> set xs \<and> wanted b \<and> (\<forall>y\<in>set xs. wanted y \<longrightarrow> \<not> precedes y b)"
  using assms
proof (induction xs arbitrary: b rule: rev_induct)
  case Nil
  then show ?case by (simp add: pick_best_def)
next
  case (snoc x xs)
  show ?case
  proof (cases "pick_best precedes wanted xs")
    case None
    with snoc.prems have "wanted x" "b = x"
      by (auto simp: pick_best_snoc keep_best_def split: if_splits)
    moreover have "\<forall>y\<in>set xs. \<not> wanted y" using None by (simp add: pick_best_None)
    ultimately show ?thesis by (simp add: irrefl)
  next
    case (Some b0)
    note IH = snoc.IH [OF Some]
    show ?thesis
    proof (cases "wanted x \<and> precedes x b0")
      case True
      with Some snoc.prems have "b = x" by (simp add: pick_best_snoc keep_best_def)
      with True IH show ?thesis by (auto simp: irrefl dest: trans)
    next
      case False
      with Some snoc.prems have "b = b0" by (auto simp: pick_best_snoc keep_best_def split: if_splits)
      with False IH show ?thesis by auto
    qed
  qed
qed

lemma pick_best_total: "x \<in> set xs \<Longrightarrow> wanted x \<Longrightarrow> \<exists>b. pick_best precedes wanted xs = Some b"
  using pick_best_None [of wanted xs] by (cases "pick_best precedes wanted xs") auto

end

text \<open>Orders compared key by key: a strict weak order refined by a key that is compared first.\<close>

lemma preference_key: "preference (\<lambda>x y. f x < (f y :: 'k::linorder))"
  by unfold_locales auto

lemma preference_lex:
  fixes f :: "'a \<Rightarrow> 'k::linorder"
  assumes "preference r"
  shows "preference (\<lambda>x y. if f x \<noteq> f y then f x < f y else r x y)"
proof -
  note irr = preference.irrefl [OF assms] and tr = preference.trans [OF assms] and wk = preference.weak [OF assms]
  show ?thesis
  proof
    fix x y z
    show "\<not> (if f x \<noteq> f x then f x < f x else r x x)" using irr by simp
    show "if f x \<noteq> f z then f x < f z else r x z"
      if "if f x \<noteq> f y then f x < f y else r x y" "if f y \<noteq> f z then f y < f z else r y z"
      using that tr [of x y z] by (auto split: if_splits)
    show "(if f x \<noteq> f y then f x < f y else r x y) \<or> (if f y \<noteq> f z then f y < f z else r y z)"
      if "if f x \<noteq> f z then f x < f z else r x z"
      using that wk [of x z y] by (auto split: if_splits)
  qed
qed

interpretation candidate_order: preference candidate_precedes
  unfolding candidate_precedes_def [abs_def] by (intro preference_lex preference_key)

subsection \<open>What eligibility means\<close>

definition capability_admissible :: "EvaluationContext \<Rightarrow> DeviceRecord \<Rightarrow> bool" where
  "capability_admissible c d \<longleftrightarrow>
     (case lookup_capability (ec_state c) (dr_id d) (rq_cls (ec_request c)) of
        None \<Rightarrow> \<not> pr_require_capability (ec_rule c) \<or> dr_kind d = DK_HostStack
      | Some cap \<Rightarrow>
          let verdict = cm_verdict (match_capability (ec_function c) cap (dr_incarnation d) (ec_now c))
          in if dr_kind d = DK_HostStack then verdict \<notin> {MV_Revoked, MV_IncarnationMismatch}
             else if pr_require_capability (ec_rule c)
             then verdict = MV_Eligible \<and>
               evidence_current (ec_state c) (pv_source (cr_provenance cap)) ED_Capability
                 (pv_sequence (cr_provenance cap)) \<and>
               (rq_min_capability (ec_request c) = 0 \<or> rq_min_capability (ec_request c) \<le> cr_generation cap)
             else verdict \<notin> {MV_Revoked, MV_IncarnationMismatch, MV_Unsupported, MV_VersionIncompatible})"

definition kind_admissible :: "EvaluationContext \<Rightarrow> DeviceRecord \<Rightarrow> bool" where
  "kind_admissible c d \<longleftrightarrow> \<not> dr_decommissioned d \<and>
     (if dr_kind d = DK_HostStack
      then rq_allow_host_fallback (ec_request c) \<and> pr_allow_host_fallback (ec_rule c)
      else dr_kind d \<in> set (pr_allowed_kinds (ec_rule c)))"

definition affinity_admissible :: "PlacementRequest \<Rightarrow> DeviceRecord \<Rightarrow> bool" where
  "affinity_admissible rq d \<longleftrightarrow>
     (rq_preferred_devices rq = [] \<or> dr_id d \<in> set (rq_preferred_devices rq)) \<and>
     (rq_preferred_hosts rq = [] \<or> dr_host d \<in> set (rq_preferred_hosts rq)) \<and>
     dr_id d \<notin> set (rq_anti_affinity_devices rq) \<and> dr_host d \<notin> set (rq_anti_affinity_hosts rq) \<and>
     set (rq_required_labels rq) \<subseteq> set (dr_labels d)"

definition liveness_admissible :: "EvaluationContext \<Rightarrow> DeviceRecord \<Rightarrow> bool" where
  "liveness_admissible c d \<longleftrightarrow>
     (let ob = lookup_observation (ec_state c) (dr_id d) in
      do_device ob \<noteq> [] \<and> do_incarnation ob = dr_incarnation d \<and>
      evidence_current (ec_state c) (pv_source (do_provenance ob)) ED_Observation
        (pv_sequence (do_provenance ob)) \<and>
      \<not> is_expired (do_freshness ob) (ec_now c) \<and> do_liveness ob = LV_Alive)"

definition dependency_admissible :: "EvaluationContext \<Rightarrow> DeviceRecord \<Rightarrow> FunctionId \<Rightarrow> bool" where
  "dependency_admissible c d f \<longleftrightarrow>
     f \<noteq> rq_function (ec_request c) \<and> f \<in> fst ` set (fs_functions (ec_state c)) \<and>
     (\<exists>r\<in>snd ` set (fs_assignments (ec_state c)). ar_function r = f \<and> holds_authority (ar_state r) \<and>
        (ar_device r = dr_id d \<or> ec_request_scope c \<noteq> [] \<and> ar_scope_id r = ec_request_scope c))"

definition authority_admissible :: "EvaluationContext \<Rightarrow> DeviceRecord \<Rightarrow> bool" where
  "authority_admissible c d \<longleftrightarrow>
     (\<exists>g\<in>snd ` set (fs_authority (ec_state c)).
        grant_admits (ec_state c) AA_Place (rq_cls (ec_request c)) (dr_kind d) (dr_host d)
          (ec_request_scope c) (mask_unite (fd_required (ec_function c)) (pr_required (ec_rule c)))
          (ps_generation (ec_policy c)) (ec_now c) g)"

definition device_admissible :: "EvaluationContext \<Rightarrow> DeviceRecord \<Rightarrow> bool" where
  "device_admissible c d \<longleftrightarrow>
     kind_admissible c d \<and> affinity_admissible (ec_request c) d \<and> capability_admissible c d \<and>
     demand_fits (dr_capacity d) (committed_demand_for (ec_state c) (dr_id d)) (rq_demand (ec_request c)) \<and>
     device_assignments (ec_state c) (dr_id d) < pr_max_assignments_per_device (ec_rule c) \<and>
     (pr_require_fresh_observation (ec_rule c) \<longrightarrow> liveness_admissible c d) \<and>
     (\<forall>f\<in>set (rq_dependencies (ec_request c)). dependency_admissible c d f) \<and>
     (rq_exclusivity (ec_request c) = EX_Exclusive \<longrightarrow>
        scope_has_exclusive_conflict (ec_state c) (ec_request_scope c) (rq_cls (ec_request c))
          (pr_exclusive_key (ec_rule c)) (ec_replacing c) = None) \<and>
     (pr_require_authority (ec_rule c) \<longrightarrow> authority_admissible c d)"

lemma kind_gate_None: "kind_gate c d = None \<longleftrightarrow> kind_admissible c d"
  by (auto simp: kind_gate_def kind_admissible_def kinds_allow_def)

lemma affinity_gate_None: "affinity_gate c d = None \<longleftrightarrow> affinity_admissible (ec_request c) d"
  by (auto simp: affinity_gate_def affinity_admissible_def contains_id_def contains_label_def Let_def
      list_all_iff)

lemma capability_gate_Inr: "(\<exists>x. capability_gate c d = Inr x) \<longleftrightarrow> capability_admissible c d"
  by (auto simp: capability_gate_def capability_admissible_def Let_def match_eligible_def gen_is_set_def not_less
      split: option.splits)

lemma capacity_gate_None:
  "capacity_gate c d = None \<longleftrightarrow>
     demand_fits (dr_capacity d) (committed_demand_for (ec_state c) (dr_id d)) (rq_demand (ec_request c)) \<and>
     device_assignments (ec_state c) (dr_id d) < pr_max_assignments_per_device (ec_rule c)"
  by (auto simp: capacity_gate_def not_le simp flip: capacity_admits_iff_fits)

lemma liveness_gate_None:
  "liveness_gate c d = None \<longleftrightarrow> (pr_require_fresh_observation (ec_rule c) \<longrightarrow> liveness_admissible c d)"
  by (auto simp: liveness_gate_def liveness_admissible_def Let_def freshness_usable_def split: Liveness.splits)

lemma dependency_gate_None:
  "dependency_gate c d fs = None \<longleftrightarrow> (\<forall>f\<in>set fs. dependency_admissible c d f)"
  by (induction c d fs rule: dependency_gate.induct)
    (auto simp: dependency_admissible_def dependency_satisfied_def om_contains_def list_ex_iff Let_def
      map_of_eq_None_iff image_iff)

lemma authority_gate_None:
  "authority_gate c d = None \<longleftrightarrow> (pr_require_authority (ec_rule c) \<longrightarrow> authority_admissible c d)"
  by (auto simp: authority_gate_def authority_admissible_def list_ex_iff)

lemmas gate_simps = kind_gate_None affinity_gate_None capacity_gate_None liveness_gate_None
  dependency_gate_None authority_gate_None

lemma exclusive_gate_None:
  "exclusive_gate c = None \<longleftrightarrow> (rq_exclusivity (ec_request c) = EX_Exclusive \<longrightarrow>
        scope_has_exclusive_conflict (ec_state c) (ec_request_scope c) (rq_cls (ec_request c))
          (pr_exclusive_key (ec_rule c)) (ec_replacing c) = None)"
  by (auto simp: exclusive_gate_def)

lemma evaluate_device_admissible:
  "ca_eligible (evaluate_device c d) \<longleftrightarrow> device_admissible c d"
proof -
  have rest: "first_refusal [capacity_gate c d, liveness_gate c d,
      dependency_gate c d (rq_dependencies (ec_request c)), exclusive_gate c, authority_gate c d] = None \<and>
      kind_gate c d = None \<and> affinity_gate c d = None \<and> (\<exists>x. capability_gate c d = Inr x)
    \<longleftrightarrow> device_admissible c d"
    unfolding device_admissible_def first_refusal_None capability_gate_Inr list.set ball_simps gate_simps
      exclusive_gate_None by blast
  show ?thesis unfolding rest [symmetric]
    by (cases "kind_gate c d"; cases "affinity_gate c d"; cases "capability_gate c d")
      (simp_all add: evaluate_device_def Let_def candidate_refuse_def no_candidate_def split_beta
        split: option.split)
qed

text \<open>C16: a candidate is eligible exactly when every admission condition holds: the device is in
  service and of a permitted kind (or an explicitly permitted host fallback), satisfies affinity,
  has capability evidence that positively matches, has capacity and assignment slots left, is
  observed alive, its dependencies hold authority, no exclusive claim conflicts, and a current
  grant admits the placement.\<close>

theorem evaluate_device_eligible_iff:
  "ca_eligible (evaluate_device c d) \<longleftrightarrow> device_admissible c d"
  by (rule evaluate_device_admissible)

lemma evaluate_device_fields:
  "ca_device (evaluate_device c d) = dr_id d \<and> ca_host (evaluate_device c d) = dr_host d \<and>
   ca_kind (evaluate_device c d) = dr_kind d \<and> ca_incarnation (evaluate_device c d) = dr_incarnation d \<and>
   ca_locality_rank (evaluate_device c d) = 0"
  by (auto simp: evaluate_device_def Let_def candidate_refuse_def no_candidate_def
      split: option.splits sum.splits)

lemma evaluate_device_mode:
  "ca_eligible (evaluate_device c d) \<Longrightarrow>
     ca_mode (evaluate_device c d) = (if dr_kind d = DK_HostStack then EM_HostFallback else EM_Offloaded)"
  by (auto simp: evaluate_device_def Let_def candidate_refuse_def no_candidate_def
      split: option.splits sum.splits)


subsection \<open>Exclusive claims\<close>

lemma class_claims_of_scope:
  assumes "om_ok (m :: (ExclusivityKey, 'v) omap)"
  shows "set (takeWhile (\<lambda>e. ek_scope (fst e) = scope) (dropWhile (\<lambda>e. ek_scope (fst e) < scope) m)) =
    {e \<in> set m. ek_scope (fst e) = scope}"
  using assms
proof (induction m)
  case Nil
  then show ?case by simp
next
  case (Cons e m)
  have later: "ek_scope (fst e) \<le> ek_scope (fst x)" if "x \<in> set m" for x
    using Cons.prems that by (cases e) (auto simp: om_ok_Cons less_ExclusivityKey_def split: if_splits)
  have "om_ok m" using Cons.prems by (cases e) (simp add: om_ok_Cons)
  then show ?case
  proof (cases "ek_scope (fst e)" scope rule: linorder_cases)
    case less
    with Cons.IH \<open>om_ok m\<close> show ?thesis by auto
  next
    case equal
    have "dropWhile (\<lambda>e. ek_scope (fst e) < scope) m = m"
      using later [of "hd m"] equal by (cases m) (auto simp: dropWhile_eq_self_iff not_less)
    with Cons.IH \<open>om_ok m\<close> equal show ?thesis by auto
  next
    case greater
    then have "x \<in> set (e # m) \<Longrightarrow> ek_scope (fst x) \<noteq> scope" for x
      using later [of x] by auto
    then have "{x \<in> set (e # m). ek_scope (fst x) = scope} = {}" by blast
    moreover have "\<not> ek_scope (fst e) < scope" "ek_scope (fst e) \<noteq> scope" using greater by auto
    ultimately show ?thesis by simp
  qed
qed

text \<open>The claims that stand in the way of a claim with the given key mode.\<close>

definition conflicting_claim ::
    "FabricState \<Rightarrow> ScopeId \<Rightarrow> FunctionClass \<Rightarrow> ExclusiveKeyMode \<Rightarrow> AssignmentId \<Rightarrow> bool" where
  "conflicting_claim s scope cls key_mode holder \<longleftrightarrow>
     map_of (fs_exclusive_by_scope s) scope = Some holder \<or>
     (\<exists>k. map_of (fs_exclusive_by_class s) (ExclusivityKey scope k) = Some holder \<and>
        (key_mode = EK_PerClass \<longrightarrow> k = cls))"

lemma scope_conflict:
  assumes "om_ok (fs_exclusive_by_class s)" and "scope \<noteq> []"
  shows "scope_has_exclusive_conflict s scope cls key_mode replacing \<noteq> None \<longleftrightarrow>
    (\<exists>holder. holder \<noteq> replacing \<and> conflicting_claim s scope cls key_mode holder)"
proof -
  let ?m = "fs_exclusive_by_class s"
  have class_iff: "map_of ?m (ExclusivityKey scope k) = Some h \<longleftrightarrow> (ExclusivityKey scope k, h) \<in> set ?m" for k h
    by (rule om_ok_map_of_iff [OF assms(1)])
  have find: "List.find (\<lambda>h. h \<noteq> replacing) (map snd (takeWhile (\<lambda>e. ek_scope (fst e) = scope)
          (dropWhile (\<lambda>e. ek_scope (fst e) < scope) ?m))) \<noteq> None \<longleftrightarrow>
        (\<exists>k h. map_of ?m (ExclusivityKey scope k) = Some h \<and> h \<noteq> replacing)"
    unfolding find_None_iff set_map class_claims_of_scope [OF assms(1)] class_iff
    by (auto, metis ExclusivityKey.collapse, metis ExclusivityKey.sel(1))
  show ?thesis
  proof (cases "\<exists>h. map_of (fs_exclusive_by_scope s) scope = Some h \<and> h \<noteq> replacing")
    case True
    then show ?thesis using assms(2)
      by (auto simp: scope_has_exclusive_conflict_def conflicting_claim_def Let_def)
  next
    case whole: False
    then have skip: "\<not> (map_of (fs_exclusive_by_scope s) scope \<noteq> None \<and>
        map_of (fs_exclusive_by_scope s) scope \<noteq> Some replacing)"
      by (cases "map_of (fs_exclusive_by_scope s) scope") auto
    show ?thesis
    proof (cases key_mode)
      case EK_PerClass
      with whole skip assms(2) show ?thesis
        by (cases "map_of ?m (ExclusivityKey scope cls)")
          (auto simp: scope_has_exclusive_conflict_def conflicting_claim_def Let_def)
    next
      case EK_PerScope
      with skip assms(2) have "scope_has_exclusive_conflict s scope cls key_mode replacing =
          List.find (\<lambda>h. h \<noteq> replacing) (map snd (takeWhile (\<lambda>e. ek_scope (fst e) = scope)
          (dropWhile (\<lambda>e. ek_scope (fst e) < scope) ?m)))"
        unfolding scope_has_exclusive_conflict_def Let_def by auto
      with find whole EK_PerScope show ?thesis by (auto simp: conflicting_claim_def)
    qed
  qed
qed

subsection \<open>The numeric rank\<close>

lemma utilization_ppm_le: "unat (utilization_ppm used capacity) \<le> 1000000"
proof -
  have "utilization_ppm used capacity \<le> 1000000"
    by (auto simp: utilization_ppm_def Let_def not_less split: option.splits)
  then show ?thesis by (simp add: word_le_nat_alt)
qed

lemma kind_rank_le: "unat (kind_rank k) \<le> 3"
  by (cases k) simp_all


definition ranking_ok :: "CandidateEvaluation \<Rightarrow> bool" where
  "ranking_ok ev \<longleftrightarrow> unat (ca_offload_rank ev) \<le> 1 \<and> unat (ca_kind_rank ev) \<le> 3 \<and>
     unat (ca_locality_rank ev) \<le> 2 \<and> unat (ca_utilization_ppm ev) \<le> 1000000 \<and>
     unat (ca_rank ev) = unat (ca_offload_rank ev) * 1000000000000 + unat (ca_kind_rank ev) * 10000000000 +
       unat (ca_locality_rank ev) * 100000000 + unat (ca_utilization_ppm ev)"

lemma rank_sum:
  fixes a b c :: u32 and p :: u64
  assumes "unat a \<le> 1" "unat b \<le> 3" "unat c \<le> 2" "unat p \<le> 1000000"
  shows "unat (ucast a * 1000000000000 + ucast b * 10000000000 + ucast c * 100000000 + p :: u64) =
    unat a * 1000000000000 + unat b * 10000000000 + unat c * 100000000 + unat p"
proof -
  have "unat (ucast a * 1000000000000 + ucast b * 10000000000 + ucast c * 100000000 + p :: u64) =
      unat (word_of_nat (unat a * 1000000000000 + unat b * 10000000000 + unat c * 100000000 + unat p) :: u64)"
    by simp
  also have "\<dots> = unat a * 1000000000000 + unat b * 10000000000 + unat c * 100000000 + unat p"
    unfolding unsigned_of_nat of_nat_id by (rule take_bit_nat_eq_self) (use assms in simp)
  finally show ?thesis .
qed

lemma finalize_ranking_ok:
  assumes "ca_locality_rank ev = 0"
  shows "ranking_ok (finalize_ranking ev capacity used scope hosts)"
  using assms kind_rank_le [of "ca_kind ev"] utilization_ppm_le [of used capacity]
  by (simp add: ranking_ok_def finalize_ranking_def Let_def rank_sum)

lemma digits_less:
  fixes a b a' b' m :: nat
  assumes "b < m" "b' < m"
  shows "a * m + b < a' * m + b' \<longleftrightarrow> a < a' \<or> (a = a' \<and> b < b')"
proof -
  have "a * m + b < a' * m + b'" if "a < a'"
  proof -
    have "Suc a * m \<le> a' * m" using that by (intro mult_le_mono1) simp
    with assms show ?thesis by simp
  qed
  moreover have "\<not> a * m + b < a' * m + b'" if "a' < a"
  proof -
    have "Suc a' * m \<le> a * m" using that by (intro mult_le_mono1) simp
    with assms show ?thesis by simp
  qed
  ultimately show ?thesis by (cases a a' rule: linorder_cases) auto
qed

lemma compare_key: "(if a \<noteq> b then a < b else P) \<longleftrightarrow> a < b \<or> (a = b \<and> P)" for a b :: "'a::linorder"
  by auto

text \<open>No digit of the rank overflows into the next, so the order of the ranks is the order that selects.\<close>

lemma ranked_precedence:
  assumes "ranking_ok l" and "ranking_ok r"
  shows "candidate_precedes l r \<longleftrightarrow>
    ca_rank l < ca_rank r \<or> (ca_rank l = ca_rank r \<and> ca_device l < ca_device r)"
proof -
  let ?low = "\<lambda>x. unat (ca_locality_rank x) * 100000000 + unat (ca_utilization_ppm x)"
  let ?mid = "\<lambda>x. unat (ca_kind_rank x) * 10000000000 + ?low x"
  have split: "unat (ca_rank x) = unat (ca_offload_rank x) * 1000000000000 + ?mid x"
    and mid: "?mid x < 1000000000000" and low: "?low x < 10000000000"
    and ppm: "unat (ca_utilization_ppm x) < 100000000" if "ranking_ok x" for x
    using that by (auto simp: ranking_ok_def)
  note digits = digits_less [OF mid [OF assms(1)] mid [OF assms(2)]]
    digits_less [OF low [OF assms(1)] low [OF assms(2)]]
    digits_less [OF ppm [OF assms(1)] ppm [OF assms(2)]]
    digits_less [OF mid [OF assms(2)] mid [OF assms(1)]]
    digits_less [OF low [OF assms(2)] low [OF assms(1)]]
    digits_less [OF ppm [OF assms(2)] ppm [OF assms(1)]]
  have less: "ca_rank l < ca_rank r \<longleftrightarrow> ca_offload_rank l < ca_offload_rank r \<or> ca_offload_rank l = ca_offload_rank r \<and>
      (ca_kind_rank l < ca_kind_rank r \<or> ca_kind_rank l = ca_kind_rank r \<and>
       (ca_locality_rank l < ca_locality_rank r \<or> ca_locality_rank l = ca_locality_rank r \<and>
        ca_utilization_ppm l < ca_utilization_ppm r))"
    unfolding word_less_nat_alt split [OF assms(1)] split [OF assms(2)] digits by (simp only: word_unat_eq_iff)
  have greater: "ca_rank r < ca_rank l \<longleftrightarrow> ca_offload_rank r < ca_offload_rank l \<or> ca_offload_rank r = ca_offload_rank l \<and>
      (ca_kind_rank r < ca_kind_rank l \<or> ca_kind_rank r = ca_kind_rank l \<and>
       (ca_locality_rank r < ca_locality_rank l \<or> ca_locality_rank r = ca_locality_rank l \<and>
        ca_utilization_ppm r < ca_utilization_ppm l))"
    unfolding word_less_nat_alt split [OF assms(1)] split [OF assms(2)] digits by (simp only: word_unat_eq_iff)
  have eq: "ca_rank l = ca_rank r \<longleftrightarrow> ca_offload_rank l = ca_offload_rank r \<and> ca_kind_rank l = ca_kind_rank r \<and>
      ca_locality_rank l = ca_locality_rank r \<and> ca_utilization_ppm l = ca_utilization_ppm r"
    using less greater by (metis less_irrefl linorder_neqE)
  show ?thesis
    unfolding eq less candidate_precedes_def compare_key by blast
qed


end
