(* ===== verification/Nof_Runtime.thy ===== *)
theory Nof_Runtime
  imports Nof_Placement
begin

text \<open>
  The runtime object \<open>Fabric::Impl\<close> of \<open>src/fabric.cpp\<close> and its internal operations:
  committing a record, accepting evidence, the idempotency table, exclusive claims and committed
  capacity, storing an assignment or an effect, replaying a record, the validity of an assignment,
  the reassignment budget and revalidation.

  Every operation is a function on the runtime that returns the new runtime and a result; it
  keeps what it changed before an error, as the code does.  The environment is part of the runtime:
  \<open>im_now\<close> is the clock's reading and \<open>im_io k\<close> says what the file system does to the
  \<open>k\<close>-th journal operation.  The counters of \<open>Stats\<close> are a function from the name of
  the field.  Crash hooks, which end the process, are not modelled.
\<close>

subsection \<open>The runtime\<close>

type_synonym Stats = "string \<Rightarrow> u64"

record JournalIo =
  ji_append :: WriteIo
  ji_compact :: "CompactStep \<Rightarrow> bool"
  ji_base :: WriteIo

record Impl =
  im_bounds :: Bounds
  im_now :: Micros
  im_state :: FabricState
  im_store :: "JournalStore option"
  im_recovery :: RecoveryReport
  im_stats :: Stats
  im_running :: bool
  im_recovery_accepted :: bool
  im_replaying :: bool
  im_shutting_down :: bool
  im_history_drops :: nat
  im_io :: "nat \<Rightarrow> JournalIo"
  im_ops :: nat

text \<open>A cancel token answers each poll; the checkpoints of one call are numbered.\<close>

type_synonym CancelToken = "nat \<Rightarrow> bool"

definition cancelled :: "CancelToken option \<Rightarrow> nat \<Rightarrow> bool" where
  "cancelled cancel checkpoint = (case cancel of None \<Rightarrow> False | Some token \<Rightarrow> token checkpoint)"

subsection \<open>Operations with results\<close>

type_synonym 'a action = "Impl \<Rightarrow> Impl \<times> 'a result"

definition act_return :: "'a \<Rightarrow> 'a action" where
  "act_return x i = (i, Inr x)"

definition act_fail :: "ReasonCode \<Rightarrow> string \<Rightarrow> 'a action" where
  "act_fail c d i = (i, Err c d)"

definition act_lift :: "'a result \<Rightarrow> 'a action" where
  "act_lift r i = (i, r)"

definition act_bind :: "'a action \<Rightarrow> ('a \<Rightarrow> 'b action) \<Rightarrow> 'b action" where
  "act_bind m f i = (case m i of (i', Inl e) \<Rightarrow> (i', Inl e) | (i', Inr x) \<Rightarrow> f x i')"

definition act_update :: "(Impl \<Rightarrow> Impl) \<Rightarrow> unit action" where
  "act_update f i = (f i, ok_status)"

definition act_get :: "(Impl \<Rightarrow> 'a) \<Rightarrow> 'a action" where
  "act_get f i = (i, Inr (f i))"

definition act_require :: "bool \<Rightarrow> ReasonCode \<Rightarrow> string \<Rightarrow> unit action" where
  "act_require good c d i = (i, require good c d)"

definition bump_by :: "u64 \<Rightarrow> string \<Rightarrow> Impl \<Rightarrow> Impl" where
  "bump_by n counter i = i\<lparr>im_stats := (im_stats i)(counter := im_stats i counter + n)\<rparr>"

abbreviation bump :: "string \<Rightarrow> Impl \<Rightarrow> Impl" where
  "bump \<equiv> bump_by 1"

text \<open>A failure is counted before it is returned: \<open>stats.x += 1; return status.error();\<close>\<close>

definition counting :: "string \<Rightarrow> 'a action \<Rightarrow> 'a action" where
  "counting counter m i = (case m i of (i', Inl e) \<Rightarrow> (bump counter i', Inl e) | r \<Rightarrow> r)"

definition on_state :: "(FabricState \<Rightarrow> FabricState) \<Rightarrow> unit action" where
  "on_state f = act_update (\<lambda>i. i\<lparr>im_state := f (im_state i)\<rparr>)"

text \<open>Token issuance advances a counter of the state.\<close>

definition act_issue :: "(FabricState \<Rightarrow> ('a \<times> FabricState) result) \<Rightarrow> 'a action" where
  "act_issue issue i = (case issue (im_state i) of
     Inl e \<Rightarrow> (i, Inl e) | Inr (v, s) \<Rightarrow> (i\<lparr>im_state := s\<rparr>, Inr v))"

text \<open>Encoding into a fresh buffer, and the digest of the encoding.\<close>

definition encode_fresh :: "nat \<Rightarrow> (BinWriter \<Rightarrow> BinWriter \<times> Status) \<Rightarrow> u8 list result" where
  "encode_fresh max_bytes enc =
     (case enc (bin_writer max_bytes) of (w, Inl e) \<Rightarrow> Inl e | (w, Inr _) \<Rightarrow> Inr (bw_buffer w))"

definition digest_with :: "nat \<Rightarrow> (BinWriter \<Rightarrow> BinWriter \<times> Status) \<Rightarrow> Digest result" where
  "digest_with max_bytes enc =
     (if max_bytes = 0 then Err RC_InvalidConfiguration ''zero digest bound''
      else and_then (encode_fresh max_bytes enc) (\<lambda>bs. Inr (sha256 bs)))"

definition digest_or_zero :: "Digest result \<Rightarrow> Digest" where
  "digest_or_zero r = (case r of Inl _ \<Rightarrow> digest_zero | Inr d \<Rightarrow> d)"

definition fingerprint_of :: "Bounds \<Rightarrow> PlacementRequest \<Rightarrow> Digest" where
  "fingerprint_of bounds request =
     digest_or_zero (digest_with (max_canonical_bytes bounds) (encode_placement_request request))"

subsection \<open>Commit\<close>

definition snapshot_envelope :: "Bounds \<Rightarrow> FabricState \<Rightarrow> u8 list result" where
  "snapshot_envelope bounds s =
     and_then (encode_fresh (if max_snapshot_bytes bounds > 0 then max_snapshot_bytes bounds
                             else max_canonical_bytes bounds) (encode_state s)) (\<lambda>bs.
     and_then (encode_fresh (length bs + 64 + max_canonical_bytes bounds)
                 (bw_seq [bw_bytes bs, bw_digest (sha256 bs)])) (\<lambda>envelope.
     and_then (require (\<not> length envelope > max_snapshot_bytes bounds) RC_OversizedInput
                 ''snapshot exceeds the configured bound'') (\<lambda>_. Inr envelope)))"

definition compact_locked :: "unit action" where
  "compact_locked i =
     (case im_store i of
        None \<Rightarrow> (i, ok_status)
      | Some js \<Rightarrow>
          (case snapshot_envelope (im_bounds i) (im_state i) of
             Inl e \<Rightarrow> (i, Inl e)
           | Inr envelope \<Rightarrow>
               let io = im_io i (im_ops i) in
               (case journal_compact (ji_compact io) (ji_base io) envelope (js_last_sequence js)
                       (generation js + 1) js of
                  (js', Inl e) \<Rightarrow>
                    (bump ''commit_failures'' (i\<lparr>im_store := Some js', im_ops := im_ops i + 1\<rparr>), Inl e)
                | (js', Inr _) \<Rightarrow>
                    (bump ''compactions'' (i\<lparr>im_store := Some js', im_ops := im_ops i + 1\<rparr>), ok_status))))"

definition store_append :: "RecordType \<Rightarrow> u8 list \<Rightarrow> unit action" where
  "store_append type payload i =
     (case im_store i of
        None \<Rightarrow> (i, ok_status)
      | Some js \<Rightarrow>
          (case journal_append (ji_append (im_io i (im_ops i))) type payload js of
             (js', Inl e) \<Rightarrow>
               (bump ''commit_failures'' (i\<lparr>im_store := Some js', im_ops := im_ops i + 1\<rparr>), Inl e)
           | (js', Inr _) \<Rightarrow>
               (bump ''commits'' (bump_by (of_nat (length payload)) ''journal_bytes_appended''
                 (bump ''journal_records_appended''
                   (i\<lparr>im_store := Some js', im_ops := im_ops i + 1\<rparr>))), ok_status)))"

definition commit :: "RecordType \<Rightarrow> u8 list \<Rightarrow> unit action" where
  "commit type payload i =
     (if im_replaying i then (i, ok_status)
      else case im_store i of
        None \<Rightarrow> (i, ok_status)
      | Some js \<Rightarrow>
          act_bind (if unat (js_bytes js) > max_journal_bytes (im_bounds i) then compact_locked
                    else act_return ()) (\<lambda>_. store_append type payload) i)"

subsection \<open>Evidence streams\<close>

text \<open>
  \<open>Inr True\<close> is an exact repetition of the newest evidence of the stream, which is accepted and
  ignored.
\<close>

definition accept_evidence :: "SourceId \<Rightarrow> EvidenceDomain \<Rightarrow> u64 \<Rightarrow> Digest \<Rightarrow> bool action" where
  "accept_evidence source domain sequence digest i =
     (if \<not> token_is_set source \<or> sequence = 0
      then (i, Err RC_ProvenanceMismatch ''evidence provenance is incomplete'')
      else case find_source (im_state i) source domain of
        None \<Rightarrow> (i, Inr False)
      | Some entry \<Rightarrow>
          if \<not> st_seen entry then (i, Inr False)
          else if sequence < st_last_sequence entry
          then (bump ''sequence_regressions'' i,
                Err RC_SequenceRegression ''evidence sequence regressed for this source and domain'')
          else if sequence = st_last_sequence entry then
            (if st_last_digest entry = digest then (i, Inr True)
             else (bump ''evidence_conflicting'' i, Err RC_EvidenceConflicting
                     ''a different payload was delivered for an accepted sequence''))
          else (i, Inr False))"

definition mark_source :: "SourceId \<Rightarrow> EvidenceDomain \<Rightarrow> u64 \<Rightarrow> Digest \<Rightarrow> FabricState \<Rightarrow> FabricState" where
  "mark_source source domain sequence digest s =
     s\<lparr>fs_sources := om_put (SourceKey source domain)
         ((source_state s source domain)\<lparr>st_last_sequence := sequence, st_last_digest := digest, st_seen := True\<rparr>)
         (fs_sources s)\<rparr>"

subsection \<open>Histories\<close>

definition note_history_drop :: "AssignmentRecord \<Rightarrow> unit action" where
  "note_history_drop r = act_update (\<lambda>i.
     if length (ar_history r) > max_history_per_assignment (im_bounds i)
     then bump ''results_truncated'' (bump ''entries_evicted'' (i\<lparr>im_history_drops := im_history_drops i + 1\<rparr>))
     else i)"

definition note_eviction :: "bool \<Rightarrow> Impl \<Rightarrow> Impl" where
  "note_eviction dropped i =
     (if dropped then bump ''entries_evicted'' (i\<lparr>im_history_drops := im_history_drops i + 1\<rparr>) else i)"

definition keep_last :: "nat \<Rightarrow> 'a list \<Rightarrow> 'a list" where
  "keep_last n xs = drop (length xs - n) xs"

definition trim_history :: "AssignmentRecord \<Rightarrow> AssignmentRecord action" where
  "trim_history r i =
     (let history_bound = max_history_per_assignment (im_bounds i);
          effects_bound = max_effects_per_assignment (im_bounds i)
      in (note_eviction (length (ar_effects r) > effects_bound)
            (note_eviction (length (ar_history r) > history_bound) i),
          Inr (r\<lparr>ar_history := keep_last history_bound (ar_history r),
                 ar_effects := keep_last effects_bound (ar_effects r)\<rparr>)))"

subsection \<open>Idempotency\<close>

text \<open>The eviction loop; it ends with the order queue at the latest.\<close>

fun evict_idempotency ::
    "nat \<Rightarrow> RequestId list \<Rightarrow> (RequestId, IdempotencyEntry) omap \<Rightarrow> nat \<Rightarrow>
     RequestId list \<times> (RequestId, IdempotencyEntry) omap \<times> nat" where
  "evict_idempotency bound [] m evicted = ([], m, evicted)"
| "evict_idempotency bound (oldest # order) m evicted =
     (if length m > bound then evict_idempotency bound order (om_erase oldest m) (evicted + 1)
      else (oldest # order, m, evicted))"

definition record_idempotency :: "RequestId \<Rightarrow> Digest \<Rightarrow> ReasonCode \<Rightarrow> u8 list \<Rightarrow> Micros \<Rightarrow> unit action" where
  "record_idempotency request_id fingerprint outcome response at' = act_update (\<lambda>i.
     if request_id = [] then i
     else let s = im_state i;
              entry = \<lparr>ie_request_fingerprint = fingerprint, ie_outcome = outcome, ie_response = response,
                       ie_at = at'\<rparr>;
              order = (if om_contains (fs_idempotency s) request_id then fs_idempotency_order s
                       else fs_idempotency_order s @ [request_id]);
              (order', m', evicted) = evict_idempotency (max_idempotency_entries (im_bounds i)) order
                 (om_put request_id entry (fs_idempotency s)) 0
          in bump_by (of_nat evicted) ''entries_evicted''
               (i\<lparr>im_state := s\<lparr>fs_idempotency := m', fs_idempotency_order := order'\<rparr>\<rparr>))"

definition find_idempotency :: "FabricState \<Rightarrow> RequestId \<Rightarrow> IdempotencyEntry option" where
  "find_idempotency s request_id =
     (if request_id = [] then None else map_of (fs_idempotency s) request_id)"

definition record_refusal :: "RequestId \<Rightarrow> Digest \<Rightarrow> Error \<Rightarrow> Micros \<Rightarrow> unit action" where
  "record_refusal request_id fingerprint e at' i =
     (if request_id = [] then (i, ok_status)
      else
        act_bind (act_lift (encode_fresh (max_reason_detail_bytes (im_bounds i) + 64)
                   (encode_error_envelope (im_bounds i) e))) (\<lambda>response.
        act_bind (act_lift (encode_fresh (max_record_bytes (im_bounds i)) (encode_recorded_request
            \<lparr>xr_request_id = request_id, xr_request_fingerprint = fingerprint, xr_outcome = code e,
             xr_response = response, xr_at = at'\<rparr>))) (\<lambda>envelope.
        act_bind (commit RT_RequestRecorded envelope) (\<lambda>_.
        record_idempotency request_id fingerprint (code e) response at'))) i)"

subsection \<open>Claims and committed capacity\<close>

definition acquire_claims :: "AssignmentRecord \<Rightarrow> FabricState \<Rightarrow> FabricState" where
  "acquire_claims r s =
     (let s1 = (if ar_scope_id r \<noteq> [] then s\<lparr>fs_scope_specs := om_put (ar_scope_id r) (ar_scope r) (fs_scope_specs s)\<rparr> else s);
          s2 = (if ar_exclusivity r = EX_Exclusive \<and> holds_authority (ar_state r) then claim_exclusive r s1 else s1)
      in if holds_authority (ar_state r) then committed_add r s2 else s2)"

definition erase_if_holder :: "'k::linorder \<Rightarrow> AssignmentId \<Rightarrow> ('k, AssignmentId) omap \<Rightarrow> ('k, AssignmentId) omap" where
  "erase_if_holder k i m = (if map_of m k = Some i then om_erase k m else m)"

definition release_claims :: "AssignmentRecord \<Rightarrow> FabricState \<Rightarrow> FabricState" where
  "release_claims r s =
     s\<lparr>fs_exclusive_by_class :=
         erase_if_holder (ExclusivityKey (ar_scope_id r) (ar_cls r)) (ar_id r) (fs_exclusive_by_class s),
       fs_exclusive_by_scope := erase_if_holder (ar_scope_id r) (ar_id r) (fs_exclusive_by_scope s),
       fs_committed := om_put (ar_device r)
         (demand_release (committed_demand_for s (ar_device r)) (ar_demand r)) (fs_committed s)\<rparr>"

definition insert_assignment :: "AssignmentRecord \<Rightarrow> FabricState \<Rightarrow> FabricState" where
  "insert_assignment r s =
     (let s1 = (case map_of (fs_assignments s) (ar_id r) of
                  None \<Rightarrow> s | Some existing \<Rightarrow> release_claims existing s)
      in refresh_authority_usage
           (acquire_claims r (s1\<lparr>fs_assignments := om_put (ar_id r) r (fs_assignments s1)\<rparr>)))"

subsection \<open>Storing assignments\<close>

text \<open>The durable record is written first; the in-memory state moves only when that succeeded.\<close>

definition insert_and_answer :: "AssignmentRecord \<Rightarrow> RequestId \<Rightarrow> Digest \<Rightarrow> unit action" where
  "insert_and_answer r request_id fingerprint =
     act_bind (on_state (insert_assignment r)) (\<lambda>_ i.
       if request_id = [] then (i, ok_status)
       else act_bind (act_lift (encode_fresh (max_record_bytes (im_bounds i)) (encode_assignment r)))
              (\<lambda>response. record_idempotency request_id fingerprint RC_Ok response (im_now i)) i)"

definition store_assignment :: "AssignmentRecord \<Rightarrow> RequestId \<Rightarrow> Digest \<Rightarrow> RecordType \<Rightarrow> unit action" where
  "store_assignment r request_id fingerprint type i =
     act_bind (act_lift (encode_fresh (max_record_bytes (im_bounds i)) (encode_recorded_assignment
         \<lparr>xa_record = r, xa_request_id = request_id, xa_request_fingerprint = fingerprint\<rparr>))) (\<lambda>payload.
     act_bind (commit type payload) (\<lambda>_.
     insert_and_answer r request_id fingerprint)) i"

definition store_effect :: "AssignmentRecord \<Rightarrow> EffectReport \<Rightarrow> RequestId \<Rightarrow> Digest \<Rightarrow> unit action" where
  "store_effect r report request_id fingerprint i =
     act_bind (act_lift (encode_fresh (max_record_bytes (im_bounds i)) (encode_recorded_effect
         \<lparr>xe_report = report, xe_record = r, xe_request_id = request_id,
          xe_request_fingerprint = fingerprint\<rparr>))) (\<lambda>payload.
     act_bind (commit RT_EffectRecorded payload) (\<lambda>_.
     insert_and_answer r request_id fingerprint)) i"


subsection \<open>Replay of one record\<close>

text \<open>A payload is decoded with a reader bounded by \<open>max_text_bytes\<close>; trailing bytes are ignored.\<close>

definition act_decode :: "'a decoder \<Rightarrow> u8 list \<Rightarrow> 'a action" where
  "act_decode dec payload i =
     (i, and_then (dec (bin_reader payload (max_text_bytes (im_bounds i)))) (\<lambda>(v, _). Inr v))"

definition apply_epoch :: "CoordinatorEpoch \<Rightarrow> FabricState \<Rightarrow> FabricState" where
  "apply_epoch epoch s =
     s\<lparr>fs_epoch := epoch,
       fs_epoch_counter := (if ce_counter epoch > fs_epoch_counter s then ce_counter epoch else fs_epoch_counter s)\<rparr>"

definition put_capabilities :: "CapabilityRecord list \<Rightarrow> FabricState \<Rightarrow> FabricState" where
  "put_capabilities rs s =
     s\<lparr>fs_capabilities := fold (\<lambda>r. om_put (CapabilityKey (cr_device r) (cr_cls r)) r) rs (fs_capabilities s)\<rparr>"

definition put_observations :: "DeviceObservation list \<Rightarrow> FabricState \<Rightarrow> FabricState" where
  "put_observations os s =
     s\<lparr>fs_observations := fold (\<lambda>ob. om_put (do_device ob) ob) os (fs_observations s)\<rparr>"

definition revoke_grant :: "AuthorityId \<Rightarrow> FabricState \<Rightarrow> FabricState" where
  "revoke_grant a s =
     (case map_of (fs_authority s) a of
        None \<Rightarrow> s
      | Some g \<Rightarrow> s\<lparr>fs_authority := om_put a (g\<lparr>ag_revoked := True\<rparr>) (fs_authority s)\<rparr>)"

definition push_reassignment :: "ScopeId \<Rightarrow> FunctionClass \<Rightarrow> Micros \<Rightarrow> FabricState \<Rightarrow> FabricState" where
  "push_reassignment scope cls at' s =
     (let key = ExclusivityKey scope cls;
          stamps = (case map_of (fs_reassignments s) key of None \<Rightarrow> [] | Some ts \<Rightarrow> ts)
      in s\<lparr>fs_reassignments := om_put key (stamps @ [at']) (fs_reassignments s)\<rparr>)"

definition decode_reassignment_record :: "(ScopeId \<times> FunctionClass \<times> Micros) decoder" where
  "decode_reassignment_record =
     rd_bind br_token (\<lambda>scope.
     rd_bind br_u16 (\<lambda>raw.
     rd_bind br_i64 (\<lambda>at'.
     case FunctionClass_of_value raw of
       None \<Rightarrow> rd_fail RC_UnsupportedValue ''record carries an unknown function class''
     | Some cls \<Rightarrow> rd_return (scope, cls, at'))))"

definition replay_insert :: "AssignmentRecord \<Rightarrow> RequestId \<Rightarrow> Digest \<Rightarrow> Micros \<Rightarrow> unit action" where
  "replay_insert r request_id fingerprint at' =
     act_bind (on_state (insert_assignment r)) (\<lambda>_.
     act_bind (note_history_drop r) (\<lambda>_ i.
       if request_id = [] then (i, ok_status)
       else act_bind (act_lift (encode_fresh (max_record_bytes (im_bounds i)) (encode_assignment r)))
              (\<lambda>response. record_idempotency request_id fingerprint RC_Ok response at') i))"

definition apply_withdrawal :: "RecordedWithdrawal \<Rightarrow> unit action" where
  "apply_withdrawal w =
     act_bind (on_state (revoke_grant (xw_authority w))) (\<lambda>_ i.
       if xw_request_id w = [] then (i, ok_status)
       else case encode_fresh 64 (encode_error_envelope (im_bounds i)
                   (Error (xw_reason w) ''authority withdrawal replayed'')) of
         Inl _ \<Rightarrow> (i, ok_status)
       | Inr response \<Rightarrow>
           record_idempotency (xw_request_id w) (xw_request_fingerprint w) (xw_reason w) response (xw_at w) i)"

definition apply_record :: "RecordType \<Rightarrow> u8 list \<Rightarrow> unit action" where
  "apply_record type payload i =
     (case type of
        RT_EpochStarted \<Rightarrow>
          act_bind (act_decode decode_epoch payload) (\<lambda>epoch. on_state (apply_epoch epoch)) i
      | RT_FunctionRegistered \<Rightarrow>
          act_bind (act_decode (decode_function (im_bounds i)) payload) (\<lambda>f.
            on_state (\<lambda>s. s\<lparr>fs_functions := om_put (fd_id f) f (fs_functions s)\<rparr>)) i
      | RT_TopologyIngested \<Rightarrow>
          act_bind (act_decode (decode_topology (im_bounds i)) payload) (\<lambda>t.
            on_state (\<lambda>s. (mark_source (pv_source (ts_provenance t)) ED_Topology
                (pv_sequence (ts_provenance t)) (sha256 payload) s)\<lparr>fs_topology := t, fs_has_topology := True\<rparr>)) i
      | RT_CapabilityIngested \<Rightarrow>
          act_bind (act_decode (decode_capability_report (im_bounds i)) payload) (\<lambda>report.
            on_state (\<lambda>s. put_capabilities (cp_records report) (mark_source (pv_source (cp_provenance report))
                ED_Capability (pv_sequence (cp_provenance report)) (sha256 payload) s))) i
      | RT_PolicyIngested \<Rightarrow>
          act_bind (act_decode (decode_policy (im_bounds i)) payload) (\<lambda>p.
            on_state (\<lambda>s. (mark_source (pv_source (ps_provenance p)) ED_Policy
                (pv_sequence (ps_provenance p)) (sha256 payload) s)\<lparr>fs_policy := p, fs_has_policy := True\<rparr>)) i
      | RT_ObservationsIngested \<Rightarrow>
          act_bind (act_decode (decode_observation_report (im_bounds i)) payload) (\<lambda>report.
            on_state (\<lambda>s. put_observations (or_devices report) (mark_source (pv_source (or_provenance report))
                ED_Observation (pv_sequence (or_provenance report)) (sha256 payload) s))) i
      | RT_AuthorityGranted \<Rightarrow>
          act_bind (act_decode decode_authority payload) (\<lambda>g.
            on_state (\<lambda>s. let s' = mark_source (pv_source (ag_provenance g)) ED_Authority
                (pv_sequence (ag_provenance g)) (sha256 payload) s
              in s'\<lparr>fs_authority := om_put (ag_id g) g (fs_authority s')\<rparr>)) i
      | RT_AuthorityWithdrawn \<Rightarrow>
          act_bind (act_decode decode_recorded_withdrawal payload) apply_withdrawal i
      | RT_AssignmentCreated \<Rightarrow>
          act_bind (act_decode (decode_recorded_assignment (im_bounds i)) payload) (\<lambda>x.
            replay_insert (xa_record x) (xa_request_id x) (xa_request_fingerprint x)
              (ar_updated_at (xa_record x))) i
      | RT_AssignmentTransitioned \<Rightarrow>
          act_bind (act_decode (decode_recorded_assignment (im_bounds i)) payload) (\<lambda>x.
            replay_insert (xa_record x) (xa_request_id x) (xa_request_fingerprint x)
              (ar_updated_at (xa_record x))) i
      | RT_EffectRecorded \<Rightarrow>
          act_bind (act_decode (decode_recorded_effect (im_bounds i)) payload) (\<lambda>x.
            replay_insert (xe_record x) (xe_request_id x) (xe_request_fingerprint x)
              (er_observed_at (xe_report x))) i
      | RT_ReassignmentRecorded \<Rightarrow>
          act_bind (act_decode decode_reassignment_record payload) (\<lambda>(scope, cls, at').
            on_state (push_reassignment scope cls at')) i
      | RT_RequestRecorded \<Rightarrow>
          act_bind (act_decode (decode_recorded_request (im_bounds i)) payload) (\<lambda>x.
            record_idempotency (xr_request_id x) (xr_request_fingerprint x) (xr_outcome x) (xr_response x)
              (xr_at x)) i
      | RT_ScopeReleased \<Rightarrow> (i, ok_status)
      | RT_SnapshotBase \<Rightarrow> (i, ok_status)
      | RT_StoreSealed \<Rightarrow> (i, ok_status))"

subsection \<open>Validity of an assignment\<close>

text \<open>The checks run in the order of the source; the first reason that is not \<open>Ok\<close> is returned.\<close>

fun first_reason :: "(bool \<times> ReasonCode) list \<Rightarrow> ReasonCode" where
  "first_reason [] = RC_Ok"
| "first_reason ((bad, reason) # rest) = (if bad then reason else first_reason rest)"

definition capability_validity :: "FabricState \<Rightarrow> AssignmentRecord \<Rightarrow> Micros \<Rightarrow> bool \<Rightarrow> ReasonCode" where
  "capability_validity s r at' require_binding_generations =
     (if \<not> gen_is_set (gb_capability (ar_binding r)) then RC_Ok
      else case lookup_capability s (ar_device r) (ar_cls r) of
        None \<Rightarrow> RC_CapabilityStale
      | Some cap \<Rightarrow>
          if require_binding_generations \<and> cr_generation cap \<noteq> gb_capability (ar_binding r) then RC_CapabilityStale
          else if \<not> evidence_current s (pv_source (cr_provenance cap)) ED_Capability (pv_sequence (cr_provenance cap))
          then RC_EvidenceSuperseded
          else if \<not> freshness_usable (cr_freshness cap) at' then RC_CapabilityStale
          else (case map_of (fs_functions s) (ar_function r) of
                  None \<Rightarrow> RC_Ok
                | Some f \<Rightarrow>
                    let m = match_capability f cap (ar_incarnation r) at'
                    in if \<not> match_eligible m then cm_reason m else RC_Ok))"

definition observation_validity :: "FabricState \<Rightarrow> AssignmentRecord \<Rightarrow> Micros \<Rightarrow> ReasonCode" where
  "observation_validity s r at' =
     (let ob = lookup_observation s (ar_device r) in
      first_reason [
        (\<not> token_is_set (do_device ob), RC_LivenessUnknown),
        (do_incarnation ob \<noteq> ar_incarnation r, RC_IncarnationMismatch),
        (\<not> evidence_current s (pv_source (do_provenance ob)) ED_Observation (pv_sequence (do_provenance ob)),
           RC_EvidenceSuperseded),
        (\<not> freshness_usable (do_freshness ob) at', RC_LivenessStale),
        (do_liveness ob = LV_Dead, RC_LivenessDead),
        (do_liveness ob = LV_Degraded, RC_LivenessDegraded),
        (do_liveness ob \<noteq> LV_Alive, RC_LivenessUnknown)])"

definition topology_validity :: "FabricState \<Rightarrow> AssignmentRecord \<Rightarrow> Micros \<Rightarrow> ReasonCode" where
  "topology_validity s r at' =
     first_reason [
       (\<not> fs_has_topology s, RC_TopologyStale),
       (\<not> evidence_current s (pv_source (ts_provenance (fs_topology s))) ED_Topology
            (pv_sequence (ts_provenance (fs_topology s))), RC_EvidenceSuperseded),
       (\<not> freshness_usable (ts_freshness (fs_topology s)) at', RC_TopologyStale),
       (gen_is_set (gb_topology (ar_binding r)) \<and> ts_generation (fs_topology s) < gb_topology (ar_binding r),
          RC_GenerationMismatch),
       (case find_device (fs_topology s) (ar_device r) of
          None \<Rightarrow> True | Some d \<Rightarrow> dr_decommissioned d, RC_TargetDisappeared),
       (case find_device (fs_topology s) (ar_device r) of
          None \<Rightarrow> True | Some d \<Rightarrow> dr_incarnation d \<noteq> ar_incarnation r, RC_IncarnationMismatch)]"

definition policy_validity :: "FabricState \<Rightarrow> AssignmentRecord \<Rightarrow> Micros \<Rightarrow> ReasonCode" where
  "policy_validity s r at' =
     first_reason [
       (\<not> fs_has_policy s, RC_PolicyStale),
       (\<not> evidence_current s (pv_source (ps_provenance (fs_policy s))) ED_Policy
            (pv_sequence (ps_provenance (fs_policy s))), RC_EvidenceSuperseded),
       (\<not> freshness_usable (ps_freshness (fs_policy s)) at', RC_PolicyStale),
       (find_rule (fs_policy s) (ar_cls r) = None, RC_RefusedByPolicy),
       (case find_rule (fs_policy s) (ar_cls r) of
          None \<Rightarrow> True | Some rule \<Rightarrow> \<not> kinds_allow (pr_allowed_kinds rule) (ar_kind r), RC_DeviceKindNotPermitted),
       (case find_rule (fs_policy s) (ar_cls r) of
          None \<Rightarrow> True | Some rule \<Rightarrow> ar_kind r = DK_HostStack \<and> \<not> pr_allow_host_fallback rule,
          RC_HostFallbackNotPermitted)]"

definition assignment_target_validity :: "FabricState \<Rightarrow> AssignmentRecord \<Rightarrow> Micros \<Rightarrow> bool \<Rightarrow> ReasonCode" where
  "assignment_target_validity s r at' require_binding_generations =
     (let topology = topology_validity s r at'; policy = policy_validity s r at';
          capability = capability_validity s r at' require_binding_generations
      in if topology \<noteq> RC_Ok then topology
         else if policy \<noteq> RC_Ok then policy
         else if capability \<noteq> RC_Ok then capability
         else case find_rule (fs_policy s) (ar_cls r) of
           None \<Rightarrow> RC_RefusedByPolicy
         | Some rule \<Rightarrow> if pr_require_fresh_observation rule then observation_validity s r at' else RC_Ok)"

definition authority_validity :: "FabricState \<Rightarrow> AssignmentRecord \<Rightarrow> Micros \<Rightarrow> ReasonCode" where
  "authority_validity s r at' =
     (if \<not> token_is_set (ar_authority r) then RC_Ok
      else case map_of (fs_authority s) (ar_authority r) of
        None \<Rightarrow> RC_AuthorityMissing
      | Some g \<Rightarrow>
          if \<not> evidence_current s (pv_source (ag_provenance g)) ED_Authority (pv_sequence (ag_provenance g))
          then RC_EvidenceSuperseded
          else let effective = (case (map_of (fs_functions s) (ar_function r), find_rule (fs_policy s) (ar_cls r)) of
                      (Some f, Some rule) \<Rightarrow> mask_unite (fd_required f) (pr_required rule)
                    | _ \<Rightarrow> 0);
                   decision = authority_recheck g AA_Place (ar_cls r) (ar_kind r) (ar_host r) (ar_scope_id r)
                     effective (ps_generation (fs_policy s)) at'
               in if \<not> ad_admitted decision then ad_reason decision else RC_Ok)"

definition assignment_validity :: "FabricState \<Rightarrow> AssignmentRecord \<Rightarrow> Micros \<Rightarrow> ReasonCode" where
  "assignment_validity s r at' =
     (let target = assignment_target_validity s r at' True in
      if target \<noteq> RC_Ok then target
      else if gen_is_set (gb_policy (ar_binding r)) \<and> ps_generation (fs_policy s) \<noteq> gb_policy (ar_binding r)
      then RC_PolicyStale
      else if fence_is_set (ar_fence r) \<and> ft_epoch (ar_fence r) \<noteq> ce_counter (fs_epoch s) then RC_LeaseExpired
      else authority_validity s r at')"

subsection \<open>Reassignment budget\<close>

definition reassignment_count :: "FabricState \<Rightarrow> ScopeId \<Rightarrow> FunctionClass \<Rightarrow> Micros \<Rightarrow> nat" where
  "reassignment_count s scope cls at' =
     (case map_of (fs_reassignments s) (ExclusivityKey scope cls) of
        None \<Rightarrow> 0
      | Some stamps \<Rightarrow> length (filter (\<lambda>stamp. at' \<ge> stamp) stamps))"

definition note_reassignment :: "ScopeId \<Rightarrow> FunctionClass \<Rightarrow> Micros \<Rightarrow> unit action" where
  "note_reassignment scope cls at' i =
     (let key = ExclusivityKey scope cls;
          stamps = (case map_of (fs_reassignments (im_state i)) key of None \<Rightarrow> [] | Some ts \<Rightarrow> ts) @ [at'];
          bound = size_mul (max_reassignments_per_scope (im_bounds i)) 8;
          i1 = bump_by (of_nat (length stamps - bound)) ''entries_evicted''
                 (i\<lparr>im_state := (im_state i)\<lparr>fs_reassignments :=
                     om_put key (keep_last bound stamps) (fs_reassignments (im_state i))\<rparr>\<rparr>)
      in act_bind (act_lift (encode_fresh 64 (bw_seq [bw_token scope, bw_u16 (FunctionClass_value cls), bw_i64 at'])))
           (\<lambda>payload. act_bind (act_update (bump ''reassignments'')) (\<lambda>_. commit RT_ReassignmentRecorded payload)) i1)"

subsection \<open>Revalidation\<close>

text \<open>Moving an assignment to a new state, with the transition recorded in its history.\<close>

definition transition_to :: "AssignmentState \<Rightarrow> ReasonCode \<Rightarrow> Micros \<Rightarrow> AssignmentRecord \<Rightarrow> AssignmentRecord" where
  "transition_to state reason at' r =
     r\<lparr>ar_state := state, ar_state_reason := reason, ar_updated_at := at',
       ar_history := ar_history r @ [\<lparr>tr_from = ar_state r, tr_to = state, tr_reason = reason, tr_at = at',
          tr_fence = ar_fence r\<rparr>]\<rparr>"

definition store_transition :: "AssignmentRecord \<Rightarrow> unit action" where
  "store_transition r =
     act_bind (trim_history r) (\<lambda>r'. store_assignment r' [] digest_zero RT_AssignmentTransitioned)"

datatype Revalidated = RV_Unchanged | RV_Degraded | RV_Suspended

definition revalidate_one :: "Micros \<Rightarrow> AssignmentRecord \<Rightarrow> Revalidated action" where
  "revalidate_one at' r i =
     (let reason = assignment_validity (im_state i) r at' in
      if reason = RC_Ok then (i, Inr RV_Unchanged)
      else if reason = RC_LivenessDegraded then
        (if ar_state r = AS_Degraded then (i, Inr RV_Unchanged)
         else act_bind (store_transition (transition_to AS_Degraded reason at' r)) (\<lambda>_.
              act_bind (act_update (bump ''assignments_degraded'')) (\<lambda>_. act_return RV_Degraded)) i)
      else act_bind (store_transition (transition_to AS_Suspended reason at' r)) (\<lambda>_.
           act_bind (act_update (bump ''assignments_suspended'')) (\<lambda>_. act_return RV_Suspended)) i)"

fun revalidate_ids ::
    "CancelToken option \<Rightarrow> Micros \<Rightarrow> nat \<Rightarrow> AssignmentId list \<Rightarrow> Revalidated list \<Rightarrow> Revalidated list action" where
  "revalidate_ids cancel at' poll [] outcomes i = (i, Inr outcomes)"
| "revalidate_ids cancel at' poll (a # ids) outcomes i =
     (if cancelled cancel poll
      then (bump ''cancellations'' i, Err RC_Cancelled ''revalidation cancelled'')
      else case map_of (fs_assignments (im_state i)) a of
        None \<Rightarrow> revalidate_ids cancel at' (poll + 1) ids outcomes i
      | Some r \<Rightarrow>
          if is_terminal (ar_state r) then revalidate_ids cancel at' (poll + 1) ids outcomes i
          else act_bind (revalidate_one at' r) (\<lambda>outcome.
                 revalidate_ids cancel at' (poll + 1) ids (outcomes @ [outcome])) i)"

definition live_ids :: "FabricState \<Rightarrow> AssignmentId list" where
  "live_ids s = map fst (filter (\<lambda>e. is_live (ar_state (snd e))) (fs_assignments s))"

definition revalidation_report :: "Revalidated list \<Rightarrow> RevalidationReport" where
  "revalidation_report outcomes =
     (let checked = length outcomes; suspended = count_list outcomes RV_Suspended;
          degraded = count_list outcomes RV_Degraded
      in no_revalidation\<lparr>rv_checked := checked, rv_suspended := suspended, rv_degraded := degraded,
           rv_unchanged := (if checked > suspended + degraded then checked - suspended - degraded else 0)\<rparr>)"

definition revalidate_locked :: "CancelToken option \<Rightarrow> RevalidationReport action" where
  "revalidate_locked cancel i =
     act_bind (revalidate_ids cancel (im_now i) 0 (live_ids (im_state i)) [])
       (\<lambda>outcomes. act_return (revalidation_report outcomes)) (bump ''revalidations'' i)"

definition revalidate_now :: "unit action" where
  "revalidate_now = act_bind (revalidate_locked None) (\<lambda>_. act_return ())"

subsection \<open>Restart\<close>

definition apply_recovery_invariants :: "Impl \<Rightarrow> Impl" where
  "apply_recovery_invariants i =
     (let s = im_state i in
      i\<lparr>im_recovery := (im_recovery i)\<lparr>rr_observations_invalidated := length (fs_observations s),
          rr_authority_invalidated := length (fs_authority s)\<rparr>,
        im_state := s\<lparr>fs_sources := map (\<lambda>e. (fst e, (snd e)\<lparr>st_restart_floor := st_last_sequence (snd e)\<rparr>))
            (fs_sources s), fs_observations := [], fs_next_fence_sequence := 0\<rparr>\<rparr>)"

end
