(* ===== verification/Nof_Planning.thy ===== *)
theory Nof_Planning
  imports Nof_Runtime
begin

text \<open>
  Planning: \<open>find_admitting_authority\<close> and \<open>Fabric::Impl::plan_locked\<close> of
  \<open>src/fabric.cpp\<close>.  A plan is a function of the state, the clock and the request; the only
  thing it changes are counters.  The refusals of the first half come back as plans whose decision
  is \<open>Refuse\<close>, malformed requests as errors.
\<close>

definition find_admitting_authority ::
    "FabricState \<Rightarrow> AuthorityAction \<Rightarrow> FunctionClass \<Rightarrow> DeviceKind \<Rightarrow> HostId \<Rightarrow> ScopeId \<Rightarrow>
     SemanticsMask \<Rightarrow> Gen \<Rightarrow> Micros \<Rightarrow> AuthorityId" where
  "find_admitting_authority s action cls kind host scope semantics policy_generation now =
     (case List.find (\<lambda>e. grant_admits s action cls kind host scope semantics policy_generation now (snd e))
             (fs_authority s) of
        None \<Rightarrow> []
      | Some e \<Rightarrow> ag_id (snd e))"

text \<open>The explanation is filled in as far as the request and the clock determine it.\<close>

definition plan_start :: "Bounds \<Rightarrow> PlacementRequest \<Rightarrow> PlanResult" where
  "plan_start bounds rq =
     no_plan_result\<lparr>pn_explanation := no_explanation\<lparr>ex_request_id := rq_request_id rq,
       ex_function := rq_function rq, ex_cls := rq_cls rq, ex_scope := rq_scope rq,
       ex_exclusivity := rq_exclusivity rq, ex_input_digest := fingerprint_of bounds rq\<rparr>\<rparr>"

definition plan_refuse :: "ReasonCode list \<Rightarrow> PlanResult \<Rightarrow> PlanResult" where
  "plan_refuse reasons res =
     res\<lparr>pn_decision := DE_Refuse, pn_primary_reason := hd reasons,
        pn_explanation := (pn_explanation res)\<lparr>ex_decision := DE_Refuse, ex_primary_reason := hd reasons,
          ex_reasons := reasons\<rparr>\<rparr>"

definition scope_id_of :: "ScopeSpec \<Rightarrow> ScopeId result" where
  "scope_id_of spec = (if ss_kind spec \<noteq> SK_Global then derive_scope_id spec else Inr [])"

text \<open>The evidence floor of a plan: topology and policy present, current, fresh and recent enough.\<close>

definition plan_evidence :: "FabricState \<Rightarrow> PlacementRequest \<Rightarrow> Micros \<Rightarrow> ReasonCode" where
  "plan_evidence s rq at' =
     first_reason [
       (\<not> fs_has_topology s, RC_EvidenceMissing),
       (\<not> fs_has_policy s, RC_PolicyStale),
       (\<not> evidence_current s (pv_source (ts_provenance (fs_topology s))) ED_Topology
            (pv_sequence (ts_provenance (fs_topology s))), RC_EvidenceSuperseded),
       (\<not> freshness_usable (ts_freshness (fs_topology s)) at', RC_TopologyStale),
       (\<not> evidence_current s (pv_source (ps_provenance (fs_policy s))) ED_Policy
            (pv_sequence (ps_provenance (fs_policy s))), RC_EvidenceSuperseded),
       (\<not> freshness_usable (ps_freshness (fs_policy s)) at', RC_PolicyStale),
       (gen_is_set (rq_min_topology rq) \<and> ts_generation (fs_topology s) < rq_min_topology rq,
          RC_GenerationMismatch),
       (gen_is_set (rq_min_policy rq) \<and> ps_generation (fs_policy s) < rq_min_policy rq, RC_PolicyStale)]"

text \<open>
  The function a request is evaluated against: the request's own requirement, tightened by the
  registered descriptor.  \<open>None\<close> is a request that contradicts the registration.
\<close>

definition plan_function :: "FabricState \<Rightarrow> PlacementRequest \<Rightarrow> FunctionDescriptor option" where
  "plan_function s rq =
     (let f = \<lparr>fd_id = rq_function rq, fd_cls = rq_cls rq, fd_required = rq_required rq,
               fd_required_version = rq_required_version rq, fd_exclusive_by_default = True\<rparr>
      in case map_of (fs_functions s) (rq_function rq) of
           None \<Rightarrow> Some f
         | Some g \<Rightarrow>
             if fd_cls g \<noteq> rq_cls rq then None
             else if (sv_major (rq_required_version rq) \<noteq> 0 \<or> sv_minor (rq_required_version rq) \<noteq> 0) \<and>
                     rq_required_version rq \<noteq> fd_required_version g then None
             else Some (f\<lparr>fd_required_version := fd_required_version g,
                          fd_required := mask_unite (fd_required g) (rq_required rq)\<rparr>))"

text \<open>The holder the request would replace; the claim on the function's own class wins.\<close>

definition plan_replacing :: "FabricState \<Rightarrow> PlacementRequest \<Rightarrow> ScopeId \<Rightarrow> AssignmentId" where
  "plan_replacing s rq scope_id =
     (if rq_request_replacement rq \<or> rq_exclusivity rq = EX_Exclusive then
        (case map_of (fs_exclusive_by_class s) (ExclusivityKey scope_id (rq_cls rq)) of
           Some holder \<Rightarrow> holder
         | None \<Rightarrow> (case map_of (fs_exclusive_by_scope s) scope_id of Some holder \<Rightarrow> holder | None \<Rightarrow> []))
      else [])"

definition rank_device :: "EvaluationContext \<Rightarrow> DeviceRecord \<Rightarrow> CandidateEvaluation" where
  "rank_device c d =
     (let ev = finalize_ranking (evaluate_device c d) (dr_capacity d)
                 (committed_demand_for (ec_state c) (dr_id d)) (rq_scope (ec_request c))
                 (rq_preferred_hosts (ec_request c))
      in ev\<lparr>ca_evaluation_digest := digest_or_zero (digest_with 4096 (encode_candidate ev))\<rparr>)"

definition plan_candidates :: "EvaluationContext \<Rightarrow> CandidateEvaluation list" where
  "plan_candidates c =
     map (rank_device c) (take (max_candidates_per_plan (ec_bounds c)) (ts_devices (ec_topology c)))"

definition plan_report :: "Bounds \<Rightarrow> FabricState \<Rightarrow> CandidateEvaluation list \<Rightarrow> bool \<Rightarrow> PlanResult \<Rightarrow> PlanResult" where
  "plan_report bounds s candidates truncated res =
     (let reported = take (max_candidates_reported bounds) candidates
      in res\<lparr>pn_candidates := reported, pn_candidates_total := length candidates,
            pn_candidates_truncated := truncated,
            pn_explanation := (pn_explanation res)\<lparr>ex_candidates := reported,
              ex_candidates_total := length candidates,
              ex_candidates_truncated := (truncated \<or> length reported < length candidates),
              ex_binding := (ex_binding (pn_explanation res))\<lparr>gb_topology := ts_generation (fs_topology s),
                gb_policy := ps_generation (fs_policy s), gb_assignment := 1\<rparr>\<rparr>\<rparr>)"

definition plan_for :: "EvaluationContext \<Rightarrow> CandidateEvaluation \<Rightarrow> GenerationBinding \<Rightarrow> AssignmentPlan" where
  "plan_for c selected binding =
     (let s = ec_state c; rq = ec_request c; rule = ec_rule c;
          effective = mask_unite (fd_required (ec_function c)) (pr_required rule)
      in \<lparr>pl_request_id = rq_request_id rq, pl_function = rq_function rq, pl_cls = rq_cls rq,
          pl_scope = rq_scope rq, pl_scope_id = ec_request_scope c, pl_exclusivity = rq_exclusivity rq,
          pl_exclusive_key = pr_exclusive_key rule, pl_mode = ca_mode selected,
          pl_device = ca_device selected, pl_host = ca_host selected, pl_kind = ca_kind selected,
          pl_incarnation = ca_incarnation selected, pl_demand = rq_demand rq,
          pl_binding = binding\<lparr>gb_capability := ca_capability_generation selected,
            gb_schema := (case lookup_capability s (ca_device selected) (rq_cls rq) of
                            None \<Rightarrow> gb_schema binding | Some cap \<Rightarrow> cr_schema cap)\<rparr>,
          pl_authority = (if pr_require_authority rule
             then find_admitting_authority s AA_Place (rq_cls rq) (ca_kind selected) (ca_host selected)
                    (ec_request_scope c) effective (ps_generation (ec_policy c)) (ec_now c)
             else []),
          pl_effective_requirement = effective, pl_plan_digest = digest_zero\<rparr>)"

definition plan_accept :: "Bounds \<Rightarrow> AssignmentId \<Rightarrow> bool \<Rightarrow> AssignmentPlan \<Rightarrow> PlanResult \<Rightarrow> PlanResult" where
  "plan_accept bounds replacing truncated plan0 res =
     (let plan = plan0\<lparr>pl_plan_digest :=
            digest_or_zero (digest_with (max_canonical_bytes bounds) (encode_plan plan0))\<rparr>;
          decision = (if replacing = [] then DE_Accept else DE_Replace);
          fallback = (pl_mode plan = EM_HostFallback);
          reason = (if fallback then RC_HostFallbackApplied else RC_Ok)
      in res\<lparr>pn_decision := decision, pn_primary_reason := reason, pn_plan := plan,
           pn_explanation := (pn_explanation res)\<lparr>ex_decision := decision, ex_primary_reason := reason,
             ex_reasons := (if fallback then [RC_HostFallbackApplied] else []) @
               (if truncated then [RC_TruncatedResult] else []),
             ex_binding := pl_binding plan, ex_authority := pl_authority plan, ex_mode := pl_mode plan,
             ex_selected_device := pl_device plan, ex_replaced := replacing,
             ex_decision_digest := digest_or_zero (digest_with (max_canonical_bytes bounds)
               (bw_seq [encode_plan plan, bw_u8 (Decision_value decision)]))\<rparr>\<rparr>)"

text \<open>The second half of a plan: evaluate, rank and select among the devices.\<close>

definition plan_select :: "EvaluationContext \<Rightarrow> PlanResult \<Rightarrow> PlanResult" where
  "plan_select c res0 =
     (let bounds = ec_bounds c; s = ec_state c; candidates = plan_candidates c;
          truncated = (length (ts_devices (ec_topology c)) > max_candidates_per_plan bounds);
          res = plan_report bounds s candidates truncated res0
      in case select_candidate candidates of
           None \<Rightarrow>
             plan_refuse ((if candidates = [] then RC_NoEligibleTarget else primary_refusal_reason candidates) #
                (if truncated then [RC_TruncatedResult] else [])) res
         | Some selected \<Rightarrow>
             let plan = plan_for c selected (ex_binding (pn_explanation res))
             in if pr_require_authority (ec_rule c) \<and> pl_authority plan = []
                then plan_refuse [RC_AuthorityMissing] (res\<lparr>pn_plan := plan\<rparr>)
                else plan_accept bounds (ec_replacing c) truncated plan res)"

definition plan_context ::
    "Impl \<Rightarrow> PlacementRequest \<Rightarrow> FunctionDescriptor \<Rightarrow> PolicyRule \<Rightarrow> ScopeId \<Rightarrow> AssignmentId \<Rightarrow> EvaluationContext" where
  "plan_context i rq f rule scope_id replacing =
     \<lparr>ec_state = im_state i, ec_bounds = im_bounds i, ec_now = im_now i, ec_function = f, ec_rule = rule,
      ec_policy = fs_policy (im_state i), ec_topology = fs_topology (im_state i), ec_request = rq,
      ec_request_scope = scope_id, ec_replacing = replacing\<rparr>"

definition plan_locked :: "PlacementRequest \<Rightarrow> CancelToken option \<Rightarrow> nat \<Rightarrow> PlanResult action" where
  "plan_locked rq cancel checkpoint i =
     (let s = im_state i; bounds = im_bounds i; res0 = plan_start bounds rq in
      if cancelled cancel checkpoint then (bump ''cancellations'' i, Err RC_Cancelled ''plan cancelled'')
      else case and_then (scope_validate (rq_scope rq)) (\<lambda>_. scope_id_of (rq_scope rq)) of
        Inl e \<Rightarrow> (i, Inl e)
      | Inr scope_id \<Rightarrow>
          let res = res0\<lparr>pn_explanation := (pn_explanation res0)\<lparr>ex_scope_id := scope_id\<rparr>\<rparr>;
              evidence = plan_evidence s rq (im_now i)
          in if rq_function rq = []
             then (i, Err RC_InvalidIdentifier ''placement request carries no function'')
             else if evidence \<noteq> RC_Ok then (i, Inr (plan_refuse [evidence] res))
             else case plan_function s rq of
               None \<Rightarrow> (i, Inr (plan_refuse [RC_SemanticsMismatch] res))
             | Some f \<Rightarrow>
                 if mask_count (fd_required f) > max_semantics_per_requirement bounds
                 then (i, Err RC_LimitExceeded ''requirement exceeds the semantics bound'')
                 else case find_rule (fs_policy s) (rq_cls rq) of
                   None \<Rightarrow> (i, Inr (plan_refuse [RC_RefusedByPolicy] res))
                 | Some rule \<Rightarrow>
                     let replacing = plan_replacing s rq scope_id in
                     if \<not> rq_request_replacement rq \<and> replacing \<noteq> []
                     then (bump ''exclusive_conflicts'' i,
                           Inr (let r = plan_refuse [RC_ExclusiveConflict] res in
                                r\<lparr>pn_explanation := (pn_explanation r)\<lparr>ex_assignment := replacing\<rparr>\<rparr>))
                     else (if length (ts_devices (fs_topology s)) > max_candidates_per_plan bounds
                           then bump ''results_truncated'' i else i,
                           Inr (plan_select (plan_context i rq f rule scope_id replacing) res)))"

subsection \<open>The rank of a candidate\<close>

lemma rank_device_ok: "ranking_ok (rank_device c d)"
  using finalize_ranking_ok [of "evaluate_device c d"] evaluate_device_fields [of c d]
  by (simp add: rank_device_def ranking_ok_def Let_def)

text \<open>C27: the reported rank is the selection order.  The rank of a device spells out, in this order of weight,
  whether it is a host fallback, its kind, how close its host is to the request (the domain of the scope, a
  preferred host, any other) and how much of its capacity is committed; and of two devices evaluated for
  the same request the one with the smaller rank precedes, the device identifier deciding between equal
  ranks.\<close>

theorem rank_decides_precedence:
  "unat (ca_rank (rank_device c d)) =
     (if ca_mode (evaluate_device c d) = EM_HostFallback then 1000000000000 else 0) +
     unat (kind_rank (dr_kind d)) * 10000000000 +
     (if ss_domain (rq_scope (ec_request c)) \<noteq> [] \<and> ss_domain (rq_scope (ec_request c)) = dr_host d then 0
      else if dr_host d \<in> set (rq_preferred_hosts (ec_request c)) then 100000000 else 200000000) +
     unat (utilization_ppm (committed_demand_for (ec_state c) (dr_id d)) (dr_capacity d)) \<and>
   (candidate_precedes (rank_device c d) (rank_device c d') \<longleftrightarrow>
     ca_rank (rank_device c d) < ca_rank (rank_device c d') \<or>
     (ca_rank (rank_device c d) = ca_rank (rank_device c d') \<and> dr_id d < dr_id d'))"
proof -
  have "ca_device (rank_device c x) = dr_id x" for x
    using evaluate_device_fields [of c x] by (simp add: rank_device_def finalize_ranking_def Let_def)
  moreover have "unat (ca_rank (rank_device c d)) = unat (ca_offload_rank (rank_device c d)) * 1000000000000 +
      unat (ca_kind_rank (rank_device c d)) * 10000000000 + unat (ca_locality_rank (rank_device c d)) * 100000000 +
      unat (ca_utilization_ppm (rank_device c d))"
    using rank_device_ok [of c d] by (simp add: ranking_ok_def)
  moreover have "unat (ca_offload_rank (rank_device c d)) * 1000000000000 =
        (if ca_mode (evaluate_device c d) = EM_HostFallback then 1000000000000 else 0)"
      "ca_kind_rank (rank_device c d) = kind_rank (dr_kind d)"
      "unat (ca_locality_rank (rank_device c d)) * 100000000 =
        (if ss_domain (rq_scope (ec_request c)) \<noteq> [] \<and> ss_domain (rq_scope (ec_request c)) = dr_host d then 0
         else if dr_host d \<in> set (rq_preferred_hosts (ec_request c)) then 100000000 else 200000000)"
      "ca_utilization_ppm (rank_device c d) =
        utilization_ppm (committed_demand_for (ec_state c) (dr_id d)) (dr_capacity d)"
    using evaluate_device_fields [of c d]
    by (simp_all add: rank_device_def finalize_ranking_def contains_id_def Let_def)
  ultimately show ?thesis
    using ranked_precedence [OF rank_device_ok rank_device_ok, of c d c d'] by simp
qed

end
