(* ===== verification/Nof_Lifecycle.thy ===== *)
theory Nof_Lifecycle
  imports Nof_Planning
begin

text \<open>
  The public lifecycle and evidence operations of \<open>Fabric\<close> in \<open>src/fabric.cpp\<close>:
  \<open>start\<close> (open the store, restore the snapshot, replay the journal, advance the epoch and
  suspend every assignment of an earlier lifetime), \<open>shutdown\<close>, \<open>accept_recovery\<close>,
  \<open>register_function\<close>, the four ingestion operations and the two authority operations.
\<close>

subsection \<open>Start and shutdown\<close>

record FabricConfig =
  cf_store_path :: string
  cf_recovery :: RecoveryPolicy
  cf_boot_id :: BootId
  cf_store_id :: StoreId
  cf_auto_accept_recovery :: bool

text \<open>
  What \<open>start\<close> finds outside the process: the store files, the outcome of opening and
  truncating them, and the identities and the time that are generated.
\<close>

record StartEnv =
  se_boot :: BootId
  se_opened :: bool
  se_io :: WriteIo
  se_truncated :: bool
  se_generated :: StoreId
  se_created_at :: int
  se_file :: "u8 list option"
  se_snapshot_file :: "u8 list option"

definition kStoreFormatVersion :: u32 where "kStoreFormatVersion = 1"

definition open_options :: "FabricConfig \<Rightarrow> Bounds \<Rightarrow> StoreOpenOptions" where
  "open_options config bounds =
     \<lparr>oo_create_if_missing = True, oo_recovery = cf_recovery config,
      oo_max_journal_bytes = max_journal_bytes bounds, oo_max_snapshot_bytes = max_snapshot_bytes bounds,
      oo_max_record_bytes = max_record_bytes bounds, oo_expected_store_id = cf_store_id config,
      oo_format_version = kStoreFormatVersion\<rparr>"

definition start_memory :: "BootId \<Rightarrow> Impl \<Rightarrow> Impl" where
  "start_memory boot i =
     (let s = (im_state i)\<lparr>fs_epoch_counter := 1, fs_epoch := \<lparr>ce_counter = 1, ce_boot = boot\<rparr>\<rparr>
      in i\<lparr>im_recovery := no_recovery\<lparr>rr_epoch := fs_epoch s\<rparr>, im_state := s, im_running := True,
           im_recovery_accepted := True\<rparr>)"

definition start_refuse :: "RecoveryClassification \<Rightarrow> Error \<Rightarrow> 'a action" where
  "start_refuse cls e i =
     (i\<lparr>im_recovery := (im_recovery i)\<lparr>rr_classification := cls, rr_reason := code e\<rparr>\<rparr>, Inl e)"

text \<open>The program adds the offset of the failure to the detail of a snapshot that does not decode.\<close>

definition restore_snapshot :: "JournalStore \<Rightarrow> unit action" where
  "restore_snapshot js i =
     (case snapshot_payload js of
        Inl _ \<Rightarrow> (i, ok_status)
      | Inr snapshot \<Rightarrow>
          (case br_take_bytes (max_snapshot_bytes (im_bounds i)) (bin_reader snapshot (max_text_bytes (im_bounds i))) of
             Inl e \<Rightarrow> start_refuse RK_RefusedCorrupt e i
           | Inr (payload, r1) \<Rightarrow>
               (case br_digest r1 of
                  Inl e \<Rightarrow> start_refuse RK_RefusedCorrupt e i
                | Inr (digest, r2) \<Rightarrow>
                    if \<not> at_end r2
                    then start_refuse RK_RefusedCorrupt
                           (Error RC_StoreCorrupt ''snapshot envelope carries trailing bytes'') i
                    else if sha256 payload \<noteq> digest
                    then start_refuse RK_RefusedCorrupt
                           (Error RC_IntegrityFailure ''snapshot payload integrity check failed'') i
                    else (case decode_state (im_bounds i) (bin_reader payload (max_text_bytes (im_bounds i))) of
                            Inl e \<Rightarrow> start_refuse RK_IncompatibleSemantics (Error (code e)
                                       (''snapshot state could not be reconstructed: '' @ detail e)) i
                          | Inr (s, _) \<Rightarrow> (i\<lparr>im_state := s\<rparr>, ok_status)))))"

definition replay_visitor :: "RecordType \<Rightarrow> u64 \<Rightarrow> u8 list \<Rightarrow> unit action" where
  "replay_visitor type sequence payload i =
     (case apply_record type payload i of
        (i', Inl e) \<Rightarrow> (i', Err (code e) (''record '' @ RecordType_to_string type @ '' at sequence '' @
                          decimal (unat sequence) @ '': '' @ detail e))
      | (i', Inr _) \<Rightarrow> (i', ok_status))"

definition replay_store :: "JournalStore \<Rightarrow> unit action" where
  "replay_store js i =
     (case journal_replay replay_visitor js (i\<lparr>im_replaying := True\<rparr>) of
        (i', Inl e) \<Rightarrow> start_refuse RK_RefusedCorrupt (Error (code e) (''journal replay failed: '' @ detail e))
                         (i'\<lparr>im_replaying := False\<rparr>)
      | (i', Inr _) \<Rightarrow>
          (i'\<lparr>im_replaying := False, im_state := rebuild_indexes (im_state i'),
             im_recovery := (im_recovery i')\<lparr>rr_records_replayed := js_records js,
               rr_store_generation := generation js\<rparr>\<rparr>, ok_status))"

definition next_epoch :: "u64 \<Rightarrow> u64 result" where
  "next_epoch counter =
     (if counter > 0 then
        (case checked_add counter 1 of
           None \<Rightarrow> Err RC_ArithmeticOverflow ''coordinator epoch exhausted''
         | Some n \<Rightarrow> Inr n)
      else Inr 1)"

definition advance_epoch :: "BootId \<Rightarrow> unit action" where
  "advance_epoch boot i =
     (let previous = fs_epoch_counter (im_state i);
          i0 = i\<lparr>im_recovery := (im_recovery i)\<lparr>rr_previous_epoch := previous\<rparr>\<rparr> in
      case next_epoch previous of
        Inl e \<Rightarrow> (i0, Inl e)
      | Inr n \<Rightarrow>
          let epoch = \<lparr>ce_counter = n, ce_boot = boot\<rparr>;
              i1 = i0\<lparr>im_state := (im_state i)\<lparr>fs_previous_epoch_counter := previous, fs_epoch_counter := n,
                      fs_epoch := epoch\<rparr>\<rparr>
          in case encode_fresh 64 (encode_epoch epoch) of
               Inl e \<Rightarrow> (i1, Inl e)
             | Inr payload \<Rightarrow>
                 (case commit RT_EpochStarted payload i1 of
                    (i2, Inl e) \<Rightarrow> (i2, Err (code e) ''coordinator epoch could not be committed'')
                  | (i2, Inr _) \<Rightarrow> (i2\<lparr>im_recovery := (im_recovery i2)\<lparr>rr_epoch := epoch\<rparr>\<rparr>, ok_status)))"

definition note_suspension :: "Impl \<Rightarrow> Impl" where
  "note_suspension i = i\<lparr>im_recovery := (im_recovery i)\<lparr>
     rr_assignments_suspended := rr_assignments_suspended (im_recovery i) + 1,
     rr_leases_voided := rr_leases_voided (im_recovery i) + 1,
     rr_fences_invalidated := rr_fences_invalidated (im_recovery i) + 1\<rparr>\<rparr>"

fun suspend_ids :: "Micros \<Rightarrow> AssignmentId list \<Rightarrow> unit action" where
  "suspend_ids at' [] i = (i, ok_status)"
| "suspend_ids at' (a # ids) i =
     (case map_of (fs_assignments (im_state i)) a of
        None \<Rightarrow> suspend_ids at' ids i
      | Some r \<Rightarrow>
          if ar_state r = AS_Suspended then suspend_ids at' ids i
          else act_bind (store_transition (transition_to AS_Suspended RC_RestartAuthorityReset at' r)) (\<lambda>_.
               act_bind (act_update note_suspension) (\<lambda>_. suspend_ids at' ids)) i)"

definition finish_start :: "FabricConfig \<Rightarrow> Impl \<Rightarrow> Impl" where
  "finish_start config i =
     bump ''recovery_events'' (i\<lparr>im_recovery := (im_recovery i)\<lparr>rr_authority_restored := False,
       rr_reason := RC_RestartAuthorityReset\<rparr>, im_running := True,
       im_recovery_accepted := cf_auto_accept_recovery config\<rparr>)"

definition recover :: "FabricConfig \<Rightarrow> BootId \<Rightarrow> JournalStore \<Rightarrow> unit action" where
  "recover config boot js =
     act_bind (restore_snapshot js) (\<lambda>_.
     act_bind (replay_store js) (\<lambda>_.
     act_bind (advance_epoch boot) (\<lambda>_.
     act_bind (act_update apply_recovery_invariants) (\<lambda>_ i.
     act_bind (suspend_ids (im_now i) (live_ids (im_state i))) (\<lambda>_.
     act_update (finish_start config)) i))))"

definition start :: "FabricConfig \<Rightarrow> StartEnv \<Rightarrow> unit action" where
  "start config env i =
     (if im_running i then (i, Err RC_AlreadyExists ''runtime is already started'')
      else let i0 = i\<lparr>im_shutting_down := False\<rparr>;
               boot = (if boot_is_set (cf_boot_id config) then cf_boot_id config else se_boot env)
      in case validate_bounds (im_bounds i) of
           Inl e \<Rightarrow> (i0, Inl e)
         | Inr _ \<Rightarrow>
             if cf_store_path config = [] then (start_memory boot i0, ok_status)
             else (case journal_open (open_options config (im_bounds i)) (se_opened env) (se_io env)
                          (se_truncated env) (se_generated env) (se_created_at env) (se_file env)
                          (se_snapshot_file env) no_recovery of
                     (report, Inl e) \<Rightarrow> (i0\<lparr>im_recovery := report\<rparr>, Inl e)
                   | (report, Inr js) \<Rightarrow>
                       recover config boot js (i0\<lparr>im_store := Some js, im_recovery := report\<rparr>)))"

text \<open>Sealing appends the last record; the handle is closed and dropped whatever happens.\<close>

definition shutdown :: "unit action" where
  "shutdown i =
     (if im_shutting_down i \<or> \<not> im_running i then (i\<lparr>im_shutting_down := True\<rparr>, ok_status)
      else let i1 = i\<lparr>im_shutting_down := True\<rparr>;
               io = ji_append (im_io i (im_ops i)); flushed = ji_base (im_io i (im_ops i)) in
      case im_store i1 of
        None \<Rightarrow> (bump ''shutdowns'' (i1\<lparr>im_running := False\<rparr>), ok_status)
      | Some js \<Rightarrow>
          (case journal_seal io (ce_counter (fs_epoch (im_state i1))) js of
             (js', Inl e) \<Rightarrow>
               ((bump ''commit_failures'' i1)\<lparr>im_store := None, im_running := False, im_ops := im_ops i + 1\<rparr>, Inl e)
           | (js', Inr _) \<Rightarrow>
               let i2 = (if ok (flush_and_sync flushed) then i1 else bump ''commit_failures'' i1)
               in (bump ''shutdowns'' (i2\<lparr>im_store := None, im_running := False, im_ops := im_ops i + 1\<rparr>), ok_status)))"

definition accept_recovery :: "unit action" where
  "accept_recovery i =
     (if \<not> im_running i then (i, Err RC_ShuttingDown ''runtime is not running'')
      else (i\<lparr>im_recovery_accepted := True\<rparr>, ok_status))"

subsection \<open>Guards of the public operations\<close>

definition require_running :: "unit action" where
  "require_running i = (i, require (im_running i) RC_ShuttingDown ''runtime is not running'')"

definition require_accepted :: "unit action" where
  "require_accepted = act_bind require_running (\<lambda>_ i.
     (i, require (im_recovery_accepted i) RC_RecoveryRequired ''recovery classification has not been accepted''))"

definition guarded :: "'a action \<Rightarrow> 'a action" where
  "guarded m = act_bind require_accepted (\<lambda>_. m)"

subsection \<open>Evidence ingestion\<close>

definition register_function :: "FunctionDescriptor \<Rightarrow> unit action" where
  "register_function f = guarded (\<lambda>i.
     if fd_id f = []
     then (bump ''functions_refused'' i, Err RC_InvalidIdentifier ''function identifier is empty'')
     else if mask_count (fd_required f) > max_semantics_per_requirement (im_bounds i)
     then (bump ''functions_refused'' i, Err RC_LimitExceeded ''function requirement exceeds the semantics bound'')
     else if length (fs_functions (im_state i)) \<ge> max_functions (im_bounds i) \<and>
             map_of (fs_functions (im_state i)) (fd_id f) = None
     then (bump ''functions_refused'' i, Err RC_LimitExceeded ''function registry is full'')
     else if map_of (fs_functions (im_state i)) (fd_id f) = Some f
     then (bump ''duplicate_deliveries_idempotent'' i, ok_status)
     else act_bind (counting ''functions_refused''
            (act_bind (act_lift (encode_fresh (max_record_bytes (im_bounds i)) (encode_function f)))
              (commit RT_FunctionRegistered))) (\<lambda>_.
          act_bind (on_state (\<lambda>s. s\<lparr>fs_functions := om_put (fd_id f) f (fs_functions s)\<rparr>)) (\<lambda>_.
          act_update (bump ''functions_registered''))) i)"

text \<open>
  The frame the ingestion operations share.  The new evidence is checked, its digest is compared
  with the stream, the operation's own comparison with the current evidence runs, the record is
  committed and only then does the state change.  Every refusal is counted.
\<close>

definition admit_evidence ::
    "string \<Rightarrow> Provenance \<Rightarrow> EvidenceDomain \<Rightarrow> (BinWriter \<Rightarrow> BinWriter \<times> Status) \<Rightarrow> RecordType \<Rightarrow>
     (Digest \<Rightarrow> unit action) \<Rightarrow> (Digest \<Rightarrow> FabricState \<Rightarrow> FabricState) \<Rightarrow> unit action \<Rightarrow> unit action" where
  "admit_evidence refused_counter provenance domain enc type compare install after i =
     (case counting refused_counter (act_bind
             (act_lift (digest_with (max_canonical_bytes (im_bounds i)) enc)) (\<lambda>digest.
           act_bind (accept_evidence (pv_source provenance) domain (pv_sequence provenance) digest) (\<lambda>duplicate.
           act_return (digest, duplicate)))) i of
        (i1, Inl e) \<Rightarrow> (i1, Inl e)
      | (i1, Inr (digest, duplicate)) \<Rightarrow>
          if duplicate then (bump ''duplicate_deliveries_idempotent'' i1, ok_status)
          else act_bind (counting refused_counter (act_bind (compare digest) (\<lambda>_ i2.
                 act_bind (act_lift (encode_fresh (max_record_bytes (im_bounds i2)) enc)) (commit type) i2))) (\<lambda>_.
               act_bind (on_state (\<lambda>s. mark_source (pv_source provenance) domain (pv_sequence provenance) digest
                  (install digest s))) (\<lambda>_. after)) i1)"

definition newer_generation ::
    "Gen \<Rightarrow> Gen \<Rightarrow> bool \<Rightarrow> string \<Rightarrow> string \<Rightarrow> unit action" where
  "newer_generation incoming current same_content older changed i =
     (if incoming < current then (bump ''evidence_superseded'' i, Err RC_EvidenceSuperseded older)
      else if incoming = current \<and> \<not> same_content
      then (bump ''evidence_conflicting'' i, Err RC_EvidenceConflicting changed)
      else (i, ok_status))"

definition ingest_topology :: "TopologySnapshot \<Rightarrow> unit action" where
  "ingest_topology t = guarded (\<lambda>i.
     act_bind (counting ''topology_refused'' (act_lift (validate_topology t (im_bounds i)))) (\<lambda>_.
     admit_evidence ''topology_refused'' (ts_provenance t) ED_Topology (encode_topology t) RT_TopologyIngested
       (\<lambda>digest i. if fs_has_topology (im_state i)
          then newer_generation (ts_generation t) (ts_generation (fs_topology (im_state i)))
                 (fs_topology_digest (im_state i) = digest)
                 ''topology generation is older than the current generation''
                 ''topology content changed without a generation increment'' i
          else (i, ok_status))
       (\<lambda>digest s. s\<lparr>fs_topology := t, fs_has_topology := True, fs_topology_digest := digest\<rparr>)
       (act_bind (act_update (bump ''topology_accepted'')) (\<lambda>_. revalidate_now))) i)"

fun compare_capabilities :: "CapabilityRecord list \<Rightarrow> unit action" where
  "compare_capabilities [] i = (i, ok_status)"
| "compare_capabilities (r # rs) i =
     (case map_of (fs_capabilities (im_state i)) (CapabilityKey (cr_device r) (cr_cls r)) of
        None \<Rightarrow> compare_capabilities rs i
      | Some existing \<Rightarrow>
          if cr_generation r < cr_generation existing
          then (bump ''evidence_superseded'' i, Err RC_EvidenceSuperseded
                  ''capability generation is older than the current generation for a device'')
          else if cr_generation r = cr_generation existing \<and> capability_records_conflict r existing
          then (bump ''capability_conflicts'' i, Err RC_EvidenceConflicting
                  ''capability content changed without a generation increment'')
          else compare_capabilities rs i)"

definition ingest_capabilities :: "CapabilityReport \<Rightarrow> unit action" where
  "ingest_capabilities report = guarded (\<lambda>i.
     act_bind (counting ''capability_reports_refused'' (act_lift (validate_capability_report report (im_bounds i)))) (\<lambda>_.
     admit_evidence ''capability_reports_refused'' (cp_provenance report) ED_Capability
       (encode_capability_report report) RT_CapabilityIngested
       (\<lambda>_. compare_capabilities (cp_records report))
       (\<lambda>_. put_capabilities (cp_records report))
       (act_bind (act_update (bump ''capability_reports_accepted'')) (\<lambda>_. revalidate_now))) i)"

definition ingest_policy :: "PolicySnapshot \<Rightarrow> unit action" where
  "ingest_policy p = guarded (\<lambda>i.
     act_bind (counting ''policy_refused'' (act_lift (validate_policy_snapshot p (im_bounds i)))) (\<lambda>_.
     admit_evidence ''policy_refused'' (ps_provenance p) ED_Policy (encode_policy p) RT_PolicyIngested
       (\<lambda>digest i. if fs_has_policy (im_state i)
          then newer_generation (ps_generation p) (ps_generation (fs_policy (im_state i)))
                 (fs_policy_digest (im_state i) = digest)
                 ''policy generation is older than the current generation''
                 ''policy content changed without a generation increment'' i
          else (i, ok_status))
       (\<lambda>digest s. s\<lparr>fs_policy := p, fs_has_policy := True, fs_policy_digest := digest\<rparr>)
       (act_bind (act_update (bump ''policy_accepted'')) (\<lambda>_. revalidate_now))) i)"

definition check_observed_device :: "TopologySnapshot \<Rightarrow> DeviceObservation \<Rightarrow> Status" where
  "check_observed_device t ob =
     (case find_device t (do_device ob) of
        None \<Rightarrow> Err RC_UnknownIdentity (''observation references an unknown device: '' @ do_device ob)
      | Some d \<Rightarrow> require (dr_incarnation d = do_incarnation ob) RC_IncarnationMismatch
                    ''observation incarnation differs from the current topology incarnation'')"

definition check_observation_target :: "ObservationReport \<Rightarrow> unit action" where
  "check_observation_target report i =
     (if \<not> fs_has_topology (im_state i) then (i, Err RC_EvidenceMissing ''observations require a topology'')
      else if or_topology_generation report \<noteq> ts_generation (fs_topology (im_state i))
      then (bump ''evidence_stale_refusals'' i, Err RC_TopologyStale
              ''observation report targets a different topology generation'')
      else (i, for_each (check_observed_device (fs_topology (im_state i))) (or_devices report)))"

definition ingest_observations :: "ObservationReport \<Rightarrow> unit action" where
  "ingest_observations report = guarded (\<lambda>i.
     act_bind (counting ''observations_refused''
       (act_bind (act_lift (validate_observation_report report (im_bounds i))) (\<lambda>_.
        check_observation_target report))) (\<lambda>_.
     admit_evidence ''observations_refused'' (or_provenance report) ED_Observation
       (encode_observation_report report) RT_ObservationsIngested
       (\<lambda>_. act_return ())
       (\<lambda>_. put_observations (or_devices report))
       (act_bind (act_update (bump ''observations_accepted'')) (\<lambda>_. revalidate_now))) i)"

subsection \<open>Authority\<close>

definition check_grant_policy :: "AuthorityGrant \<Rightarrow> unit action" where
  "check_grant_policy g i =
     (i, and_then (validate_authority_grant g (im_bounds i)) (\<lambda>_.
         and_then (require (fs_has_policy (im_state i)) RC_PolicyStale ''authority requires a current policy'') (\<lambda>_.
         require (ag_policy_generation g = ps_generation (fs_policy (im_state i))) RC_PolicyStale
           ''authority is bound to a different policy generation'')))"

definition install_grant :: "AuthorityGrant \<Rightarrow> Digest \<Rightarrow> unit action" where
  "install_grant g digest i =
     (case map_of (fs_authority (im_state i)) (ag_id g) of
        Some existing \<Rightarrow>
          if existing = g then (bump ''duplicate_deliveries_idempotent'' i, ok_status)
          else (bump ''authority_refused'' i, Err RC_AlreadyExists
                  ''an authority grant with this identifier already exists'')
      | None \<Rightarrow>
          if length (fs_authority (im_state i)) \<ge> max_authority_grants (im_bounds i)
          then (bump ''authority_refused'' i, Err RC_LimitExceeded ''authority grant store is full'')
          else act_bind (counting ''authority_refused''
                 (act_bind (act_lift (encode_fresh (max_record_bytes (im_bounds i)) (encode_authority g)))
                   (commit RT_AuthorityGranted))) (\<lambda>_.
               act_bind (on_state (\<lambda>s. mark_source (pv_source (ag_provenance g)) ED_Authority
                   (pv_sequence (ag_provenance g)) digest (s\<lparr>fs_authority := om_put (ag_id g) g (fs_authority s)\<rparr>))) (\<lambda>_.
               act_update (bump ''authority_granted''))) i)"

definition grant_authority :: "AuthorityGrant \<Rightarrow> unit action" where
  "grant_authority g = guarded (\<lambda>i.
     act_bind (counting ''authority_refused'' (act_bind (check_grant_policy g) (\<lambda>_.
        act_bind (act_lift (digest_with (max_canonical_bytes (im_bounds i)) (encode_authority g))) (\<lambda>digest.
        act_bind (accept_evidence (pv_source (ag_provenance g)) ED_Authority (pv_sequence (ag_provenance g)) digest)
          (\<lambda>duplicate. act_return (digest, duplicate)))))) (\<lambda>(digest, duplicate).
     if duplicate then act_update (bump ''duplicate_deliveries_idempotent'') else install_grant g digest) i)"

definition withdraw_authority :: "AuthorityId \<Rightarrow> ReasonCode \<Rightarrow> unit action" where
  "withdraw_authority a reason = act_bind require_running (\<lambda>_ i.
     if a = [] then (i, Err RC_InvalidIdentifier ''authority identifier is empty'')
     else case map_of (fs_authority (im_state i)) a of
       None \<Rightarrow> (i, Err RC_NotFound ''authority grant does not exist'')
     | Some g \<Rightarrow>
         if ag_revoked g then (bump ''duplicate_deliveries_idempotent'' i, ok_status)
         else act_bind (act_lift (encode_fresh (max_record_bytes (im_bounds i)) (encode_recorded_withdrawal
                 \<lparr>xw_authority = a, xw_reason = reason, xw_at = im_now i, xw_request_id = [],
                  xw_request_fingerprint = digest_zero\<rparr>))) (\<lambda>payload.
              act_bind (commit RT_AuthorityWithdrawn payload) (\<lambda>_.
              act_bind (on_state (revoke_grant a)) (\<lambda>_.
              act_bind (act_update (bump ''authority_withdrawn'')) (\<lambda>_. revalidate_now)))) i)"

end
