(* ===== verification/Nof_Operations.thy ===== *)
theory Nof_Operations
  imports Nof_Lifecycle
begin

text \<open>
  The intent and query operations of \<open>Fabric\<close> in \<open>src/fabric.cpp\<close>: authorization of a plan
  (\<open>authorize_locked\<close>), \<open>apply\<close>, \<open>apply_plan\<close>, \<open>revoke\<close>, \<open>replace\<close>,
  \<open>reauthorize\<close>, \<open>revalidate\<close>, \<open>report_effect\<close> and the queries.
\<close>

record ApplyOptions =
  ao_request_id :: RequestId
  ao_cancel :: "CancelToken option"
  ao_allow_replacement :: bool

record ReplaceRequest =
  rp_request_id :: RequestId
  rp_current :: AssignmentId
  rp_placement :: PlacementRequest
  rp_cancel :: "CancelToken option"

subsection \<open>Cached answers\<close>

definition decode_all :: "'a decoder \<Rightarrow> u8 list \<Rightarrow> nat \<Rightarrow> 'a result" where
  "decode_all dec bs max_text = and_then (dec (bin_reader bs max_text)) (\<lambda>(v, _). Inr v)"

text \<open>The cached answer is decoded with the default bounds, whatever bounds the runtime has.\<close>

definition replay_cached_assignment :: "IdempotencyEntry \<Rightarrow> AssignmentRecord result" where
  "replay_cached_assignment entry =
     (if ie_outcome entry \<noteq> RC_Ok
      then and_then (decode_all decode_error_envelope (ie_response entry) 4096) Inl
      else decode_all (decode_assignment default_bounds) (ie_response entry) (max_text_bytes default_bounds))"

text \<open>
  The duplicate check every mutating request starts with.  A repeated request identifier with the
  same fingerprint gets the recorded answer, with another fingerprint a refusal.
\<close>

definition with_idempotency ::
    "RequestId \<Rightarrow> Digest \<Rightarrow> string list \<Rightarrow> string \<Rightarrow> AssignmentRecord action \<Rightarrow> AssignmentRecord action" where
  "with_idempotency request_id fingerprint hits conflict fresh i =
     (case find_idempotency (im_state i) request_id of
        None \<Rightarrow> fresh i
      | Some entry \<Rightarrow>
          if ie_request_fingerprint entry = fingerprint
          then (fold bump (''duplicate_deliveries_idempotent'' # hits) i, replay_cached_assignment entry)
          else (bump ''duplicate_deliveries_fenced'' i, Err RC_DuplicateDelivery conflict))"

abbreviation reused_payload :: string where
  "reused_payload \<equiv> ''request identifier was reused with a different payload''"

subsection \<open>Authorization\<close>

text \<open>The checks that tie the plan to the state it was made in; they yield the device and the rule.\<close>

definition check_plan :: "Bounds \<Rightarrow> FabricState \<Rightarrow> AssignmentPlan \<Rightarrow> (ScopeId \<times> DeviceRecord \<times> PolicyRule) result" where
  "check_plan bounds s plan =
     and_then (encode_fresh (max_canonical_bytes bounds) (encode_plan (plan\<lparr>pl_plan_digest := digest_zero\<rparr>))) (\<lambda>bs.
     and_then (require (sha256 bs = pl_plan_digest plan) RC_PlanSuperseded
       ''plan digest does not match the plan contents'') (\<lambda>_.
     and_then (scope_validate (pl_scope plan)) (\<lambda>_.
     and_then (scope_id_of (pl_scope plan)) (\<lambda>derived.
     and_then (require (pl_scope_id plan = derived) RC_MalformedInput
       ''plan scope identity does not re-derive from its scope specification'') (\<lambda>_.
     and_then (require (fs_has_topology s \<and> fs_has_policy s) RC_EvidenceMissing
       ''placement requires current topology and policy'') (\<lambda>_.
     and_then (require (ts_generation (fs_topology s) = gb_topology (pl_binding plan)) RC_PlanSuperseded
       ''topology generation changed after the plan was produced'') (\<lambda>_.
     and_then (require (ps_generation (fs_policy s) = gb_policy (pl_binding plan)) RC_PlanSuperseded
       ''policy generation changed after the plan was produced'') (\<lambda>_.
     case find_device (fs_topology s) (pl_device plan) of
       None \<Rightarrow> Err RC_TargetDisappeared ''plan target is not present in the topology''
     | Some d \<Rightarrow>
         if dr_decommissioned d then Err RC_TargetDisappeared ''plan target is not present in the topology''
         else if dr_incarnation d \<noteq> pl_incarnation plan
         then Err RC_IncarnationMismatch ''plan target incarnation changed since the plan was produced''
         else and_then
           (if gen_is_set (gb_capability (pl_binding plan)) then
              (case lookup_capability s (pl_device plan) (pl_cls plan) of
                 None \<Rightarrow> Err RC_CapabilityStale ''plan capability evidence is gone''
               | Some cap \<Rightarrow> require (cr_generation cap = gb_capability (pl_binding plan)) RC_PlanSuperseded
                               ''capability generation changed after the plan was produced'')
            else ok_status) (\<lambda>_.
           case find_rule (fs_policy s) (pl_cls plan) of
             None \<Rightarrow> Err RC_RefusedByPolicy ''policy carries no rule for this function class''
           | Some rule \<Rightarrow> Inr (derived, d, rule))))))))))"

text \<open>The holder the placement supersedes, subject to the caller's permission and the budget.\<close>

definition choose_replaced :: "AssignmentPlan \<Rightarrow> ApplyOptions \<Rightarrow> ScopeId \<Rightarrow> PolicyRule \<Rightarrow> AssignmentId action" where
  "choose_replaced plan options derived rule i =
     (if pl_exclusivity plan \<noteq> EX_Exclusive then (i, Inr [])
      else case scope_has_exclusive_conflict (im_state i) derived (pl_cls plan) (pl_exclusive_key plan) [] of
        None \<Rightarrow> (i, Inr [])
      | Some holder \<Rightarrow>
          if \<not> ao_allow_replacement options
          then (bump ''exclusive_conflicts'' i, Err RC_ExclusiveConflict
                  ''another assignment already holds exclusive authority over this scope'')
          else if holder \<noteq> [] \<and>
                  reassignment_count (im_state i) derived (pl_cls plan) (im_now i) \<ge> pr_max_reassignments_per_scope rule
          then (bump ''reassignment_budget_refusals'' i, Err RC_ReassignmentBudgetExhausted
                  ''the bounded reassignment budget for this scope is exhausted'')
          else (i, Inr holder))"

definition authorize_function :: "FabricState \<Rightarrow> AssignmentPlan \<Rightarrow> FunctionDescriptor" where
  "authorize_function s plan =
     \<lparr>fd_id = pl_function plan, fd_cls = pl_cls plan, fd_required = pl_effective_requirement plan,
      fd_required_version = (case map_of (fs_functions s) (pl_function plan) of
         None \<Rightarrow> SemanticVersion 0 0 | Some f \<Rightarrow> fd_required_version f),
      fd_exclusive_by_default = True\<rparr>"

definition synthetic_request :: "FabricState \<Rightarrow> AssignmentPlan \<Rightarrow> PlacementRequest" where
  "synthetic_request s plan =
     no_request\<lparr>rq_request_id := pl_request_id plan, rq_function := pl_function plan, rq_cls := pl_cls plan,
       rq_scope := pl_scope plan, rq_required := pl_effective_requirement plan,
       rq_required_version := fd_required_version (authorize_function s plan),
       rq_exclusivity := pl_exclusivity plan, rq_demand := pl_demand plan,
       rq_allow_host_fallback := (pl_mode plan = EM_HostFallback)\<rparr>"

definition authorize_context :: "Impl \<Rightarrow> AssignmentPlan \<Rightarrow> PolicyRule \<Rightarrow> ScopeId \<Rightarrow> AssignmentId \<Rightarrow> EvaluationContext" where
  "authorize_context i plan rule derived replacing =
     plan_context i (synthetic_request (im_state i) plan) (authorize_function (im_state i) plan) rule derived replacing"

definition check_plan_authority :: "FabricState \<Rightarrow> Micros \<Rightarrow> AssignmentPlan \<Rightarrow> PolicyRule \<Rightarrow> ScopeId \<Rightarrow> Status" where
  "check_plan_authority s at' plan rule derived =
     (let effective = mask_unite (pl_effective_requirement plan) (pr_required rule) in
      if \<not> pr_require_authority rule then ok_status
      else if token_is_set (pl_authority plan) then
        (case map_of (fs_authority s) (pl_authority plan) of
           None \<Rightarrow> Err RC_AuthorityMissing ''plan authority grant no longer exists''
         | Some g \<Rightarrow>
             let decision = authority_admits g AA_Place (pl_cls plan) (pl_kind plan) (pl_host plan) derived
                   effective (ps_generation (fs_policy s)) at'
             in require (ad_admitted decision) (ad_reason decision)
                  ''plan authority no longer authorizes this placement'')
      else require (find_admitting_authority s AA_Place (pl_cls plan) (pl_kind plan) (pl_host plan) derived
                      effective (ps_generation (fs_policy s)) at' \<noteq> []) RC_AuthorityMissing
             ''no current authority authorizes this placement'')"

definition consider_freshness :: "Freshness \<Rightarrow> int \<Rightarrow> int" where
  "consider_freshness f limit =
     (if \<not> freshness_is_set f then limit
      else if limit = 0 \<or> fr_valid_until f < limit then fr_valid_until f else limit)"

definition effective_freshness :: "FabricState \<Rightarrow> AssignmentRecord \<Rightarrow> Micros \<Rightarrow> Freshness" where
  "effective_freshness s r at' =
     (let limit = fold consider_freshness (
            (if fs_has_topology s then [ts_freshness (fs_topology s)] else []) @
            (if fs_has_policy s then [ps_freshness (fs_policy s)] else []) @
            (case lookup_capability s (ar_device r) (ar_cls r) of None \<Rightarrow> [] | Some cap \<Rightarrow> [cr_freshness cap]) @
            (case map_of (fs_observations s) (ar_device r) of None \<Rightarrow> [] | Some ob \<Rightarrow> [do_freshness ob])) 0
      in \<lparr>fr_observed_at = at', fr_valid_until = (if limit = 0 then at' else limit)\<rparr>)"

definition new_assignment ::
    "Impl \<Rightarrow> AssignmentPlan \<Rightarrow> ApplyOptions \<Rightarrow> ScopeId \<Rightarrow> AssignmentId \<Rightarrow> Gen \<Rightarrow> Gen \<Rightarrow> FencingToken \<Rightarrow> AssignmentRecord" where
  "new_assignment i plan options derived aid lease attempt fence =
     (let s = im_state i; at' = im_now i;
          reason = (if pl_mode plan = EM_HostFallback then RC_HostFallbackApplied else RC_Ok);
          binding = (pl_binding plan)\<lparr>gb_assignment := 1\<rparr>;
          r = no_assignment\<lparr>ar_id := aid, ar_generation := 1, ar_function := pl_function plan,
            ar_cls := pl_cls plan, ar_scope := pl_scope plan, ar_scope_id := derived,
            ar_exclusivity := pl_exclusivity plan, ar_exclusive_key := pl_exclusive_key plan,
            ar_mode := pl_mode plan, ar_device := pl_device plan, ar_host := pl_host plan,
            ar_kind := pl_kind plan, ar_incarnation := pl_incarnation plan, ar_demand := pl_demand plan,
            ar_binding := (case lookup_capability s (pl_device plan) (pl_cls plan) of
               None \<Rightarrow> binding | Some cap \<Rightarrow> binding\<lparr>gb_schema := cr_schema cap\<rparr>),
            ar_authority := pl_authority plan, ar_lease := lease, ar_attempt := attempt, ar_fence := fence,
            ar_request_fingerprint := (if ao_request_id options = [] then pl_plan_digest plan
               else fingerprint_of (im_bounds i) (synthetic_request s plan)),
            ar_created_at := at', ar_updated_at := at', ar_state := AS_Dispatched, ar_state_reason := reason,
            ar_history := [
              \<lparr>tr_from = AS_Planned, tr_to = AS_Authorized, tr_reason = RC_Ok, tr_at = at', tr_fence = fence\<rparr>,
              \<lparr>tr_from = AS_Authorized, tr_to = AS_Dispatched, tr_reason = reason, tr_at = at', tr_fence = fence\<rparr>]\<rparr>
      in r\<lparr>ar_freshness := effective_freshness s r at'\<rparr>)"

definition build_assignment :: "AssignmentPlan \<Rightarrow> ApplyOptions \<Rightarrow> ScopeId \<Rightarrow> AssignmentRecord action" where
  "build_assignment plan options derived =
     act_bind (act_issue issue_assignment_id) (\<lambda>aid.
     act_bind (act_issue issue_lease) (\<lambda>lease.
     act_bind (act_issue issue_attempt) (\<lambda>attempt.
     act_bind (act_issue issue_fence) (\<lambda>fence i.
     trim_history (new_assignment i plan options derived aid lease attempt fence) i))))"

definition supersede_holder :: "AssignmentPlan \<Rightarrow> ScopeId \<Rightarrow> AssignmentId \<Rightarrow> unit action" where
  "supersede_holder plan derived replacing i =
     (if replacing = [] then (i, ok_status)
      else case map_of (fs_assignments (im_state i)) replacing of
        None \<Rightarrow> (i, ok_status)
      | Some previous \<Rightarrow>
          act_bind (store_transition (transition_to AS_Superseded RC_Superseded (im_now i) previous)) (\<lambda>_.
          act_bind (note_reassignment derived (pl_cls plan) (im_now i)) (\<lambda>_.
          act_update (bump ''replaces_accepted''))) i)"

definition store_new_assignment :: "AssignmentPlan \<Rightarrow> ApplyOptions \<Rightarrow> AssignmentRecord \<Rightarrow> unit action" where
  "store_new_assignment plan options r i =
     (if ao_request_id options = [] then store_assignment r [] digest_zero RT_AssignmentCreated i
      else store_assignment r (ao_request_id options)
             (fingerprint_of (im_bounds i) (synthetic_request (im_state i) plan)) RT_AssignmentCreated i)"

definition place_assignment :: "AssignmentPlan \<Rightarrow> ApplyOptions \<Rightarrow> ScopeId \<Rightarrow> AssignmentId \<Rightarrow> AssignmentRecord action" where
  "place_assignment plan options derived replacing =
     act_bind (build_assignment plan options derived) (\<lambda>r.
     act_bind (supersede_holder plan derived replacing) (\<lambda>_.
     act_bind (store_new_assignment plan options r) (\<lambda>_.
     act_bind (act_update (\<lambda>i. bump ''applies_accepted''
        (if ar_mode r = EM_HostFallback then bump ''host_fallbacks'' i else i))) (\<lambda>_.
     act_return r))))"

definition authorize_checked :: "AssignmentPlan \<Rightarrow> ApplyOptions \<Rightarrow> ScopeId \<Rightarrow> DeviceRecord \<Rightarrow> PolicyRule \<Rightarrow> AssignmentId action" where
  "authorize_checked plan options derived d rule =
     act_bind (choose_replaced plan options derived rule) (\<lambda>replacing i.
       let ev = evaluate_device (authorize_context i plan rule derived replacing) d in
       if \<not> ca_eligible ev then (i, Err (ca_reason ev) ''plan target is no longer eligible'')
       else case check_plan_authority (im_state i) (im_now i) plan rule derived of
         Inl e \<Rightarrow> (i, Inl e)
       | Inr _ \<Rightarrow>
           if cancelled (ao_cancel options) 2
           then (bump ''cancellations'' i, Err RC_Cancelled ''placement cancelled before commit'')
           else (i, Inr replacing))"

definition authorize_locked :: "PlanResult \<Rightarrow> ApplyOptions \<Rightarrow> AssignmentRecord action" where
  "authorize_locked planned options i =
     (let plan = pn_plan planned in
      case check_plan (im_bounds i) (im_state i) plan of
        Inl e \<Rightarrow> (i, Inl e)
      | Inr (derived, d, rule) \<Rightarrow>
          act_bind (authorize_checked plan options derived d rule) (place_assignment plan options derived) i)"

subsection \<open>Applying requests and plans\<close>

definition refuse_placement :: "RequestId \<Rightarrow> Digest \<Rightarrow> Micros \<Rightarrow> Error \<Rightarrow> AssignmentRecord action" where
  "refuse_placement request_id fingerprint at' e =
     act_bind (record_refusal request_id fingerprint e at') (\<lambda>_. act_lift (Inl e))"

definition effective_options :: "PlacementRequest \<Rightarrow> ApplyOptions \<Rightarrow> PlanResult \<Rightarrow> ApplyOptions" where
  "effective_options rq options planned =
     options\<lparr>ao_allow_replacement := (ao_allow_replacement options \<or> rq_request_replacement rq \<or>
               pn_decision planned = DE_Replace),
             ao_request_id := (if rq_request_id rq \<noteq> [] then rq_request_id rq else ao_request_id options)\<rparr>"

definition apply_fresh :: "PlacementRequest \<Rightarrow> ApplyOptions \<Rightarrow> Digest \<Rightarrow> AssignmentRecord action" where
  "apply_fresh rq options fingerprint i =
     (case plan_locked rq (ao_cancel options) 1 i of
        (i1, Inl e) \<Rightarrow> (bump ''applies_refused'' i1, Inl e)
      | (i1, Inr planned) \<Rightarrow>
          if pn_decision planned = DE_Refuse
          then refuse_placement (rq_request_id rq) fingerprint (im_now i)
                 (Error (pn_primary_reason planned) ''placement refused'')
                 (bump ''applies_refused'' (bump ''plans_refused'' i1))
          else (case authorize_locked planned (effective_options rq options planned) (bump ''plans_accepted'' i1) of
                  (i2, Inl e) \<Rightarrow>
                    refuse_placement (rq_request_id rq) fingerprint (im_now i) e (bump ''applies_refused'' i2)
                | (i2, Inr r) \<Rightarrow> (i2, Inr r)))"

definition apply_locked :: "PlacementRequest \<Rightarrow> ApplyOptions \<Rightarrow> AssignmentRecord action" where
  "apply_locked rq options i =
     (if cancelled (ao_cancel options) 0
      then (bump ''refusals_after_cancel'' (bump ''cancellations'' i),
            Err RC_Cancelled ''placement cancelled before planning'')
      else let fingerprint = fingerprint_of (im_bounds i) rq in
        with_idempotency (rq_request_id rq) fingerprint [] reused_payload (apply_fresh rq options fingerprint) i)"

definition fabric_plan :: "PlacementRequest \<Rightarrow> CancelToken option \<Rightarrow> PlanResult action" where
  "fabric_plan rq cancel = act_bind require_running (\<lambda>_. plan_locked rq cancel 0)"

definition fabric_apply :: "PlacementRequest \<Rightarrow> ApplyOptions \<Rightarrow> AssignmentRecord action" where
  "fabric_apply rq options = guarded (apply_locked rq options)"

definition apply_plan :: "PlanResult \<Rightarrow> ApplyOptions \<Rightarrow> AssignmentRecord action" where
  "apply_plan planned options = guarded (
     if pn_decision planned = DE_Refuse
     then act_fail (pn_primary_reason planned) ''refused plans cannot be applied''
     else with_idempotency (ao_request_id options) (pl_plan_digest (pn_plan planned)) []
       ''request identifier was reused with a different plan''
       (\<lambda>i. case authorize_locked planned (options\<lparr>ao_allow_replacement :=
                 (ao_allow_replacement options \<or> pn_decision planned = DE_Replace)\<rparr>) i of
          (i1, Inl e) \<Rightarrow>
            (if ao_request_id options = [] then (bump ''applies_refused'' i1, Inl e)
             else refuse_placement (ao_request_id options) (pl_plan_digest (pn_plan planned)) (im_now i) e
                    (bump ''applies_refused'' i1))
        | (i1, Inr r) \<Rightarrow> (i1, Inr r)))"


subsection \<open>Revoke, replace, re-authorize\<close>

definition policy_generation_of :: "FabricState \<Rightarrow> Gen" where
  "policy_generation_of s = (if fs_has_policy s then ps_generation (fs_policy s) else 0)"

definition check_revoke_authority :: "FabricState \<Rightarrow> Micros \<Rightarrow> RevokeRequest \<Rightarrow> AssignmentRecord \<Rightarrow> Status" where
  "check_revoke_authority s at' rq r =
     (if \<not> (holds_authority (ar_state r) \<and> rk_authority rq \<noteq> []) then ok_status
      else case map_of (fs_authority s) (rk_authority rq) of
        None \<Rightarrow> Err RC_AuthorityMissing ''revocation authority grant does not exist''
      | Some g \<Rightarrow>
          let decision = authority_admits g AA_Revoke (ar_cls r) (ar_kind r) (ar_host r) (ar_scope_id r) 0
                (policy_generation_of s) at'
          in require (ad_admitted decision) (ad_reason decision)
               ''revocation is not authorized by the named grant'')"

definition revoke_fingerprint :: "RevokeRequest \<Rightarrow> Digest" where
  "revoke_fingerprint rq =
     sha256 (string_bytes (''revoke:'' @ rk_assignment rq @ '':'' @ reason_to_string (rk_reason rq)))"

definition revoke_fresh :: "RevokeRequest \<Rightarrow> CancelToken option \<Rightarrow> AssignmentRecord action" where
  "revoke_fresh rq cancel i =
     (case map_of (fs_assignments (im_state i)) (rk_assignment rq) of
        None \<Rightarrow> (bump ''revokes_refused'' i, Err RC_NotFound ''assignment does not exist'')
      | Some r \<Rightarrow>
          if ar_state r = AS_Revoked then (bump ''duplicate_deliveries_idempotent'' i, Inr r)
          else if cancelled cancel 0
          then (bump ''refusals_after_cancel'' (bump ''cancellations'' i),
                Err RC_Cancelled ''revocation cancelled before commit'')
          else act_bind (counting ''revokes_refused''
                 (act_bind (act_lift (check_revoke_authority (im_state i) (im_now i) rq r)) (\<lambda>_.
                  act_bind (trim_history (transition_to AS_Revoked (rk_reason rq) (im_now i) r)) (\<lambda>r'.
                  act_bind (store_assignment r' (rk_request_id rq) (revoke_fingerprint rq) RT_AssignmentTransitioned)
                    (\<lambda>_. act_return r'))))) (\<lambda>r'.
               act_bind (act_update (bump ''revokes_accepted'')) (\<lambda>_. act_return r')) i)"

definition fabric_revoke :: "RevokeRequest \<Rightarrow> CancelToken option \<Rightarrow> AssignmentRecord action" where
  "fabric_revoke rq cancel = guarded
     (with_idempotency (rk_request_id rq) (revoke_fingerprint rq) [] reused_payload (revoke_fresh rq cancel))"

text \<open>A replacement request without a function inherits the placement of the current assignment.\<close>

definition replacement_request :: "ReplaceRequest \<Rightarrow> AssignmentRecord \<Rightarrow> PlacementRequest" where
  "replacement_request rq r =
     (let p = (rp_placement rq)\<lparr>rq_request_replacement := True\<rparr>;
          p1 = (if rq_function p = [] then p\<lparr>rq_function := ar_function r, rq_cls := ar_cls r,
                  rq_scope := ar_scope r, rq_exclusivity := ar_exclusivity r, rq_demand := ar_demand r\<rparr> else p)
      in if rq_request_id p1 = [] then p1\<lparr>rq_request_id := rp_request_id rq\<rparr> else p1)"

definition fabric_replace :: "ReplaceRequest \<Rightarrow> AssignmentRecord action" where
  "fabric_replace rq = guarded (counting ''replaces_refused'' (\<lambda>i.
     case map_of (fs_assignments (im_state i)) (rp_current rq) of
       None \<Rightarrow> (i, Err RC_NotFound ''assignment to replace does not exist'')
     | Some r \<Rightarrow>
         apply_locked (replacement_request rq r)
           \<lparr>ao_request_id = rp_request_id rq, ao_cancel = rp_cancel rq, ao_allow_replacement = True\<rparr> i))"

definition reauthorize_fingerprint :: "ReauthorizeRequest \<Rightarrow> Digest" where
  "reauthorize_fingerprint rq = sha256 (string_bytes (''reauthorize:'' @ ra_assignment rq))"

definition reauthorize_semantics :: "FabricState \<Rightarrow> AssignmentRecord \<Rightarrow> SemanticsMask" where
  "reauthorize_semantics s r =
     (case map_of (fs_functions s) (ar_function r) of None \<Rightarrow> 0 | Some f \<Rightarrow> fd_required f)"

text \<open>The validity found for the target, or the refusal.\<close>

definition check_reauthorize :: "FabricState \<Rightarrow> Micros \<Rightarrow> ReauthorizeRequest \<Rightarrow> AssignmentRecord \<Rightarrow> ReasonCode result" where
  "check_reauthorize s at' rq r =
     (if ar_state r \<noteq> AS_Suspended \<and> ar_state r \<noteq> AS_Degraded
      then Err RC_IllegalStateTransition ''only a suspended or degraded assignment can be re-authorized''
      else if ra_authority rq = []
      then Err RC_AuthorityMissing ''re-authorization requires a named grant''
      else case map_of (fs_authority s) (ra_authority rq) of
        None \<Rightarrow> Err RC_AuthorityMissing ''re-authorization grant does not exist''
      | Some g \<Rightarrow>
          let decision = authority_admits g AA_Reauthorize (ar_cls r) (ar_kind r) (ar_host r) (ar_scope_id r)
                (reauthorize_semantics s r) (policy_generation_of s) at';
              validity = assignment_target_validity s r at' False
          in if \<not> ad_admitted decision
             then Err (ad_reason decision) ''re-authorization grant does not admit this assignment''
             else if validity \<noteq> RC_Ok \<and> validity \<noteq> RC_LivenessDegraded
             then Err validity ''assignment is not valid against current evidence''
             else Inr validity)"

definition rebind_generations :: "FabricState \<Rightarrow> AssignmentRecord \<Rightarrow> GenerationBinding" where
  "rebind_generations s r =
     (let b0 = ar_binding r;
          b1 = (if fs_has_policy s then b0\<lparr>gb_policy := ps_generation (fs_policy s)\<rparr> else b0);
          b2 = (if fs_has_topology s then b1\<lparr>gb_topology := ts_generation (fs_topology s)\<rparr> else b1)
      in case lookup_capability s (ar_device r) (ar_cls r) of
           None \<Rightarrow> b2
         | Some cap \<Rightarrow> b2\<lparr>gb_capability := cr_generation cap, gb_schema := cr_schema cap\<rparr>)"

definition reauthorized ::
    "FabricState \<Rightarrow> Micros \<Rightarrow> ReauthorizeRequest \<Rightarrow> ReasonCode \<Rightarrow> AssignmentRecord \<Rightarrow> Gen \<Rightarrow> Gen \<Rightarrow> FencingToken \<Rightarrow>
     AssignmentRecord" where
  "reauthorized s at' rq validity r lease attempt fence =
     transition_to (if validity = RC_LivenessDegraded then AS_Degraded else AS_Dispatched) RC_Ok at'
       (r\<lparr>ar_lease := lease, ar_attempt := attempt, ar_fence := fence, ar_authority := ra_authority rq,
         ar_binding := rebind_generations s r\<rparr>)"

definition reauthorize_fresh :: "ReauthorizeRequest \<Rightarrow> AssignmentRecord action" where
  "reauthorize_fresh rq i =
     (case map_of (fs_assignments (im_state i)) (ra_assignment rq) of
        None \<Rightarrow> (bump ''reauthorizations_refused'' i, Err RC_NotFound ''assignment does not exist'')
      | Some r \<Rightarrow>
          if holds_authority (ar_state r) then (bump ''duplicate_deliveries_idempotent'' i, Inr r)
          else act_bind (counting ''reauthorizations_refused'' (act_lift (check_reauthorize (im_state i) (im_now i) rq r)))
            (\<lambda>validity.
             act_bind (act_issue issue_lease) (\<lambda>lease.
             act_bind (act_issue issue_attempt) (\<lambda>attempt.
             act_bind (act_issue issue_fence) (\<lambda>fence i1.
             act_bind (trim_history (reauthorized (im_state i1) (im_now i1) rq validity r lease attempt fence)) (\<lambda>r'.
             act_bind (counting ''reauthorizations_refused''
               (store_assignment r' (ra_request_id rq) (reauthorize_fingerprint rq) RT_AssignmentTransitioned)) (\<lambda>_.
             act_bind (act_update (bump ''reauthorizations_accepted'')) (\<lambda>_. act_return r'))) i1)))) i)"

definition fabric_reauthorize :: "ReauthorizeRequest \<Rightarrow> AssignmentRecord action" where
  "fabric_reauthorize rq = guarded
     (with_idempotency (ra_request_id rq) (reauthorize_fingerprint rq) [] reused_payload (reauthorize_fresh rq))"

definition fabric_revalidate :: "CancelToken option \<Rightarrow> RevalidationReport action" where
  "fabric_revalidate cancel = act_bind require_running (\<lambda>_. revalidate_locked cancel)"

subsection \<open>Effect reports\<close>

text \<open>The fencing checks, in order; \<open>RC_Ok\<close> means the report addresses the current attempt.\<close>

definition effect_fencing :: "FabricState \<Rightarrow> EffectReport \<Rightarrow> AssignmentRecord \<Rightarrow> Status" where
  "effect_fencing s report r = first_error
    [require (fence_is_set (er_fence report) \<and> er_fence report = ar_fence r) RC_FencedAttempt
       ''effect report carries a fenced token'',
     require (ft_epoch (er_fence report) = ce_counter (fs_epoch s)) RC_EpochStale
       ''effect report belongs to a previous coordinator epoch'',
     require (er_attempt report = ar_attempt r) RC_AttemptMismatch
       ''effect report targets a different attempt'',
     require (er_generation report = ar_generation r) RC_GenerationMismatch
       ''effect report targets a different assignment generation'',
     require (er_incarnation report = ar_incarnation r) RC_IncarnationMismatch
       ''effect report targets a different device incarnation'',
     require (er_capability_generation report = gb_capability (ar_binding r)) RC_GenerationMismatch
       ''effect report targets a different capability generation'']"

definition effect_known :: "EffectReport \<Rightarrow> AssignmentRecord \<Rightarrow> bool" where
  "effect_known report r =
     list_ex (\<lambda>e. ef_attempt e = er_attempt report \<and> ef_fence e = er_fence report \<and>
       ef_outcome e = er_outcome report) (ar_effects r)"

definition effect_of :: "EffectReport \<Rightarrow> EffectRecord" where
  "effect_of report =
     \<lparr>ef_attempt = er_attempt report, ef_fence = er_fence report, ef_generation = er_generation report,
      ef_incarnation = er_incarnation report, ef_capability_generation = er_capability_generation report,
      ef_outcome = er_outcome report, ef_reason = er_detail_reason report, ef_observed_at = er_observed_at report\<rparr>"

text \<open>
  The histories are trimmed before the transition is pushed; \<open>transition_to\<close> keeps the state
  in the record's history, so the transition is from the current state.
\<close>

definition effect_transition :: "EffectReport \<Rightarrow> Micros \<Rightarrow> AssignmentRecord \<Rightarrow> (string \<times> AssignmentRecord) option" where
  "effect_transition report at' r =
     (case er_outcome report of
        EO_Applied \<Rightarrow>
          if ar_state r \<noteq> AS_Dispatched \<and> ar_state r \<noteq> AS_Acknowledged \<and> ar_state r \<noteq> AS_Degraded then None
          else Some (''effects_applied'', transition_to AS_AppliedVerified RC_AppliedVerified at' r)
      | EO_Rejected \<Rightarrow> Some (''effects_rejected'', transition_to AS_Rejected RC_EffectRejected at' r)
      | EO_Failed \<Rightarrow> Some (''effects_failed'', transition_to AS_Failed RC_EffectFailed at' r)
      | EO_Unknown \<Rightarrow> Some (''effects_unknown'', transition_to (ar_state r) RC_EffectUnknown at' r))"

definition report_effect_fingerprint :: "Bounds \<Rightarrow> EffectReport \<Rightarrow> Digest" where
  "report_effect_fingerprint bounds report =
     digest_or_zero (digest_with (max_canonical_bytes bounds) (encode_effect_report report))"

definition report_effect_fresh :: "EffectReport \<Rightarrow> AssignmentRecord action" where
  "report_effect_fresh report i =
     (case map_of (fs_assignments (im_state i)) (er_assignment report) of
        None \<Rightarrow> (i, Err RC_NotFound ''assignment does not exist'')
      | Some current \<Rightarrow>
          (case effect_fencing (im_state i) report current of
             Inl e \<Rightarrow> (bump ''effects_fenced'' i, Inl e)
           | Inr _ \<Rightarrow>
               if effect_known report current then (bump ''effects_duplicate'' i, Inr current)
               else if is_terminal (ar_state current)
               then (bump ''effects_fenced'' i, Err RC_IllegalStateTransition
                       ''a terminal assignment cannot accept an effect report'')
               else (case trim_history (current\<lparr>ar_effects := ar_effects current @ [effect_of report]\<rparr>) i of
                       (i1, Inl e) \<Rightarrow> (i1, Inl e)
                     | (i1, Inr r) \<Rightarrow>
                         if er_outcome report = EO_Applied \<and> ar_state current = AS_AppliedVerified
                         then (bump ''effects_duplicate'' i1, Inr current)
                         else (case effect_transition report (im_now i) r of
                                 None \<Rightarrow> (bump ''effects_fenced'' i1, Err RC_IllegalStateTransition
                                   ''only a dispatched or acknowledged assignment can be verified as applied'')
                               | Some (counter, r') \<Rightarrow>
                                   act_bind (store_effect r' report (er_request_id report)
                                       (report_effect_fingerprint (im_bounds i) report))
                                     (\<lambda>_. act_return r') (bump counter i1)))))"

definition report_effect :: "EffectReport \<Rightarrow> AssignmentRecord action" where
  "report_effect report = guarded (\<lambda>i.
     with_idempotency (er_request_id report) (report_effect_fingerprint (im_bounds i) report)
       [''effects_duplicate''] reused_payload (report_effect_fresh report) i)"

subsection \<open>Queries\<close>

definition get_assignment :: "AssignmentId \<Rightarrow> AssignmentRecord action" where
  "get_assignment a i =
     (case map_of (fs_assignments (im_state i)) a of
        None \<Rightarrow> (i, Err RC_NotFound ''assignment does not exist'')
      | Some r \<Rightarrow> (i, Inr r))"

definition filter_matches :: "AssignmentFilter \<Rightarrow> AssignmentRecord \<Rightarrow> bool" where
  "filter_matches f r \<longleftrightarrow>
     \<not> (token_is_set (af_function f) \<and> ar_function r \<noteq> af_function f) \<and>
     \<not> (token_is_set (af_scope f) \<and> ar_scope_id r \<noteq> af_scope f) \<and>
     \<not> (token_is_set (af_device f) \<and> ar_device r \<noteq> af_device f) \<and>
     \<not> (af_filter_by_state f \<and> ar_state r \<noteq> af_state f) \<and>
     \<not> (\<not> af_include_terminal f \<and> \<not> af_filter_by_state f \<and> is_terminal (ar_state r))"

definition list_assignments :: "AssignmentFilter \<Rightarrow> nat \<Rightarrow> nat \<Rightarrow> (AssignmentRecord list \<times> bool) action" where
  "list_assignments f offset limit i =
     (let matches = filter (filter_matches f) (map snd (fs_assignments (im_state i))) in
      if offset \<ge> length matches then (i, Inr ([], False))
      else let available = length matches - offset;
               page = take limit (drop offset matches);
               truncated = (limit < available)
           in (if truncated then bump ''results_truncated'' i else i, Inr (page, truncated)))"

definition get_scope :: "ScopeId \<Rightarrow> ScopeView action" where
  "get_scope scope i =
     (let s = im_state i in
      case map_of (fs_scope_specs s) scope of
        None \<Rightarrow> (i, Err RC_NotFound ''scope is not known to this coordinator'')
      | Some spec \<Rightarrow>
          let whole = map_of (fs_exclusive_by_scope s) scope;
              claims = remdups_adj (sort (
                map snd (takeWhile (\<lambda>e. ek_scope (fst e) = scope)
                  (dropWhile (\<lambda>e. ek_scope (fst e) < scope) (fs_exclusive_by_class s))) @
                (case whole of None \<Rightarrow> [] | Some holder \<Rightarrow> [holder])))
          in (i, Inr \<lparr>sw_spec = spec, sw_scope = scope,
                 sw_live = map fst (filter (\<lambda>e. ar_scope_id (snd e) = scope \<and> is_live (ar_state (snd e)))
                   (fs_assignments s)),
                 sw_exclusive_claims = claims,
                 sw_exclusive_holder = (case whole of Some holder \<Rightarrow> holder
                   | None \<Rightarrow> if length claims = 1 then hd claims else []),
                 sw_exclusive_holder_is_whole_scope = (whole \<noteq> None),
                 sw_exclusive_held = (claims \<noteq> [])\<rparr>))"

definition explain_assignment :: "AssignmentId \<Rightarrow> Explanation action" where
  "explain_assignment a i =
     (case map_of (fs_assignments (im_state i)) a of
        None \<Rightarrow> (i, Err RC_NotFound ''assignment does not exist'')
      | Some r \<Rightarrow>
          let base = no_explanation\<lparr>ex_assignment := ar_id r, ex_function := ar_function r, ex_cls := ar_cls r,
                ex_scope := ar_scope r, ex_scope_id := ar_scope_id r, ex_exclusivity := ar_exclusivity r,
                ex_mode := ar_mode r, ex_binding := ar_binding r, ex_authority := ar_authority r,
                ex_lease := ar_lease r, ex_fence := ar_fence r, ex_attempt := ar_attempt r,
                ex_selected_device := ar_device r, ex_input_digest := ar_request_fingerprint r,
                ex_decision_digest := assignment_digest r\<rparr>;
              validity = assignment_validity (im_state i) r (im_now i);
              answer = (\<lambda>decision reason. base\<lparr>ex_decision := decision, ex_primary_reason := reason, ex_reasons := [reason]\<rparr>)
          in (i, Inr (
               if is_terminal (ar_state r) then answer DE_NoOp (ar_state_reason r)
               else if validity = RC_Ok
               then answer (if holds_authority (ar_state r) then DE_Accept else DE_Defer) (ar_state_reason r)
               else answer DE_Suspend validity)))"

definition explain_request :: "PlacementRequest \<Rightarrow> Explanation action" where
  "explain_request rq = act_bind require_running (\<lambda>_.
     act_bind (plan_locked rq None 0) (\<lambda>planned. act_return (pn_explanation planned)))"

definition state_digest :: "Impl \<Rightarrow> Digest" where
  "state_digest i = compute_state_digest (im_bounds i) (im_state i)"

definition export_binary :: "u8 list action" where
  "export_binary i =
     (i, and_then (encode_fresh (max_canonical_bytes (im_bounds i)) (encode_state (im_state i))) (\<lambda>bs.
         and_then (require (\<not> length bs > max_export_bytes (im_bounds i)) RC_OversizedInput
           ''canonical export exceeds the configured bound'') (\<lambda>_. Inr bs)))"

definition fabric_compact :: "unit action" where
  "fabric_compact = act_bind require_running (\<lambda>_. compact_locked)"

end
