(* ===== verification/Nof_Logic.thy ===== *)
theory Nof_Logic
  imports Nof_Operations
begin

text \<open>
  A small program logic for the operations of the runtime.  \<open>valid P m Q R\<close> says that
  \<open>m\<close>, started in a runtime that satisfies \<open>P\<close>, ends in one that satisfies \<open>Q\<close>
  of its value when it succeeds and \<open>R\<close> when it fails; the operations are total, so this is
  total correctness.  \<open>steady\<close> operations change counters, the journal and the report of the
  recovery but neither the fabric state nor the configuration and the clock.
\<close>

named_theorems steady_intros "operations that leave the fabric state alone"

subsection \<open>Judgements\<close>

definition valid :: "(Impl \<Rightarrow> bool) \<Rightarrow> 'a action \<Rightarrow> ('a \<Rightarrow> Impl \<Rightarrow> bool) \<Rightarrow> (Impl \<Rightarrow> bool) \<Rightarrow> bool" where
  "valid P m Q R \<longleftrightarrow> (\<forall>i. P i \<longrightarrow> (case m i of (i', Inl _) \<Rightarrow> R i' | (i', Inr x) \<Rightarrow> Q x i'))"

lemma valid_bind:
  assumes "valid P m Q R" and "\<And>x. valid (Q x) (f x) Q' R"
  shows "valid P (act_bind m f) Q' R"
  using assms unfolding valid_def act_bind_def
  by (fastforce split: prod.splits sum.splits)

lemma valid_weaken:
  assumes "valid P m Q R" and "\<And>i. P' i \<Longrightarrow> P i" and "\<And>x i. Q x i \<Longrightarrow> Q' x i" and "\<And>i. R i \<Longrightarrow> R' i"
  shows "valid P' m Q' R'"
  using assms unfolding valid_def by (fastforce split: prod.splits sum.splits)

lemma valid_return: "(\<And>i. P i \<Longrightarrow> Q x i) \<Longrightarrow> valid P (act_return x) Q R"
  by (simp add: valid_def act_return_def)

lemma valid_lift: "(\<And>i. P i \<Longrightarrow> R i) \<Longrightarrow> (\<And>i x. r = Inr x \<Longrightarrow> P i \<Longrightarrow> Q x i) \<Longrightarrow> valid P (act_lift r) Q R"
  by (auto simp: valid_def act_lift_def split: sum.splits)

lemma valid_update: "(\<And>i. P i \<Longrightarrow> Q () (f i)) \<Longrightarrow> valid P (act_update f) Q R"
  by (simp add: valid_def act_update_def)

lemma valid_fail: "(\<And>i. P i \<Longrightarrow> R i) \<Longrightarrow> valid P (act_fail c d) Q R"
  by (simp add: valid_def act_fail_def)

lemma validD_Inr: "valid P m Q R \<Longrightarrow> P i \<Longrightarrow> m i = (i', Inr x) \<Longrightarrow> Q x i'"
  by (fastforce simp: valid_def)

lemma validD_Inl: "valid P m Q R \<Longrightarrow> P i \<Longrightarrow> m i = (i', Inl e) \<Longrightarrow> R i'"
  by (fastforce simp: valid_def)

subsection \<open>Steady operations\<close>

definition same_view :: "Impl \<Rightarrow> Impl \<Rightarrow> bool" where
  "same_view i i' \<longleftrightarrow> im_state i' = im_state i \<and> im_bounds i' = im_bounds i \<and> im_now i' = im_now i \<and>
     im_running i' = im_running i \<and> im_recovery_accepted i' = im_recovery_accepted i \<and>
     im_replaying i' = im_replaying i"

definition steady :: "'a action \<Rightarrow> bool" where
  "steady m \<longleftrightarrow> (\<forall>i. same_view i (fst (m i)))"

lemma same_view_refl [simp]: "same_view i i"
  by (simp add: same_view_def)

lemma same_view_trans: "same_view i j \<Longrightarrow> same_view j k \<Longrightarrow> same_view i k"
  by (simp add: same_view_def)

lemma same_view_bump [simp]: "same_view i (bump_by n c i)"
  by (simp add: same_view_def bump_by_def)

lemma bump_fields [simp]:
  "im_state (bump_by n c i) = im_state i" "im_bounds (bump_by n c i) = im_bounds i"
  "im_now (bump_by n c i) = im_now i" "im_running (bump_by n c i) = im_running i"
  "im_recovery_accepted (bump_by n c i) = im_recovery_accepted i"
  "im_replaying (bump_by n c i) = im_replaying i" "im_store (bump_by n c i) = im_store i"
  by (simp_all add: bump_by_def)

lemma steadyD: "steady m \<Longrightarrow> m i = (i', r) \<Longrightarrow> same_view i i'"
  by (metis fst_conv steady_def)

lemma steady_bind [steady_intros]:
  assumes "steady m" and "\<And>x. steady (f x)"
  shows "steady (act_bind m f)"
  unfolding steady_def
proof
  fix i
  obtain i1 r where m: "m i = (i1, r)" by (cases "m i")
  then have first: "same_view i i1" using assms(1) by (rule steadyD [rotated])
  show "same_view i (fst (act_bind m f i))"
  proof (cases r)
    case (Inl e)
    with m first show ?thesis by (simp add: act_bind_def)
  next
    case (Inr x)
    have "same_view i1 (fst (f x i1))" using assms(2) [of x] by (simp add: steady_def)
    with m Inr first show ?thesis by (auto simp: act_bind_def intro: same_view_trans)
  qed
qed

lemma steady_simple [steady_intros]:
  "steady (act_return x)" "steady (act_fail c d)" "steady (act_lift r)" "steady (act_get g)"
  "steady (act_require b c d)"
  by (simp_all add: steady_def act_return_def act_fail_def act_lift_def act_get_def act_require_def)

lemma steady_update_bump [steady_intros]: "steady (act_update (bump_by n c))"
  by (simp add: steady_def act_update_def)

lemma steady_counting [steady_intros]: "steady m \<Longrightarrow> steady (counting c m)"
  unfolding steady_def counting_def
  by (auto split: prod.splits sum.splits) (metis fst_conv same_view_bump same_view_trans)+

lemma steady_compact [steady_intros]: "steady compact_locked"
  unfolding steady_def compact_locked_def
  by (auto simp: Let_def same_view_def split: option.splits sum.splits prod.splits)

lemma steady_store_append [steady_intros]: "steady (store_append type payload)"
  unfolding steady_def store_append_def
  by (auto simp: same_view_def split: option.splits sum.splits prod.splits)

lemma steady_commit [steady_intros]: "steady (commit type payload)"
  unfolding steady_def
proof
  fix i
  have "steady (act_bind (if b then compact_locked else act_return ()) (\<lambda>_. store_append type payload))" for b
    by (cases b) (auto intro!: steady_intros)
  then show "same_view i (fst (commit type payload i))"
    by (simp add: commit_def steady_def split: option.split)
qed

lemma steady_trim_history [steady_intros]: "steady (trim_history r)"
  by (auto simp: steady_def trim_history_def note_eviction_def Let_def same_view_def)

lemma steady_note_history_drop [steady_intros]: "steady (note_history_drop r)"
  by (auto simp: steady_def note_history_drop_def act_update_def same_view_def)

lemma steady_accept_evidence [steady_intros]: "steady (accept_evidence source domain sequence digest)"
  by (auto simp: steady_def accept_evidence_def split: option.splits)

lemma steady_require_running [steady_intros]: "steady require_running"
  by (simp add: steady_def require_running_def)

lemma steady_require_accepted [steady_intros]: "steady require_accepted"
  unfolding require_accepted_def by (intro steady_intros) (simp add: steady_def)

lemma steady_newer_generation [steady_intros]: "steady (newer_generation a b c d e)"
  by (simp add: steady_def newer_generation_def)

lemma steady_compare_capabilities [steady_intros]: "steady (compare_capabilities rs)"
  unfolding steady_def
proof
  fix i show "same_view i (fst (compare_capabilities rs i))"
    by (induction rs i rule: compare_capabilities.induct) (auto split: option.splits)
qed

lemma steady_check_observation_target [steady_intros]: "steady (check_observation_target report)"
  by (simp add: steady_def check_observation_target_def)

lemma steady_check_grant_policy [steady_intros]: "steady (check_grant_policy g)"
  by (simp add: steady_def check_grant_policy_def)

lemma steady_plan_locked [steady_intros]: "steady (plan_locked rq cancel k)"
  unfolding steady_def plan_locked_def Let_def
  by (auto split: option.splits sum.splits)

lemma steady_choose_replaced [steady_intros]: "steady (choose_replaced plan options derived rule)"
  by (auto simp: steady_def choose_replaced_def split: option.splits)

lemma valid_steady:
  assumes "steady m" and "\<And>i i'. same_view i i' \<Longrightarrow> P i \<Longrightarrow> P i'"
  shows "valid P m (\<lambda>_. P) P"
  unfolding valid_def
proof (intro allI impI)
  fix i assume "P i"
  moreover have "same_view i (fst (m i))" using assms(1) by (simp add: steady_def)
  ultimately have "P (fst (m i))" using assms(2) by blast
  then show "case m i of (i', Inl _) \<Rightarrow> P i' | (i', Inr x) \<Rightarrow> P i'"
    by (cases "m i") (auto split: sum.splits)
qed

lemma valid_steady_state: "steady m \<Longrightarrow> valid (\<lambda>i. I (im_state i)) m (\<lambda>_ i. I (im_state i)) (\<lambda>i. I (im_state i))"
  by (rule valid_steady) (simp_all add: same_view_def)

subsection \<open>Keeping a predicate of the state\<close>

definition keeps :: "(FabricState \<Rightarrow> bool) \<Rightarrow> 'a action \<Rightarrow> bool" where
  "keeps I m \<longleftrightarrow> (\<forall>i. I (im_state i) \<longrightarrow> I (im_state (fst (m i))))"

lemma keeps_bind: "keeps I m \<Longrightarrow> (\<And>x. keeps I (f x)) \<Longrightarrow> keeps I (act_bind m f)"
  unfolding keeps_def act_bind_def by (fastforce split: prod.splits sum.splits)

lemma keeps_steady: "steady m \<Longrightarrow> keeps I m"
  by (auto simp: keeps_def steady_def same_view_def)

lemma keeps_counting: "keeps I m \<Longrightarrow> keeps I (counting c m)"
  unfolding keeps_def counting_def by (fastforce split: prod.splits sum.splits)

lemma keeps_on_state: "(\<And>s. I s \<Longrightarrow> I (f s)) \<Longrightarrow> keeps I (on_state f)"
  by (simp add: keeps_def on_state_def act_update_def)

lemma keeps_at: "(\<And>i. I (im_state i) \<Longrightarrow> I (im_state (fst (m i i)))) \<Longrightarrow> keeps I (\<lambda>i. m i i)"
  by (simp add: keeps_def)

lemma keepsD: "keeps I m \<Longrightarrow> I (im_state i) \<Longrightarrow> I (im_state (fst (m i)))"
  by (simp add: keeps_def)

lemma keeps_guarded: "keeps I m \<Longrightarrow> keeps I (guarded m)"
  unfolding guarded_def by (rule keeps_bind [OF keeps_steady [OF steady_require_accepted]])

end
