(* ===== verification/Nof_Claims.thy ===== *)
theory Nof_Claims
  imports Nof_Logic
begin

text \<open>
  The exclusive claims and their indexes.  \<open>index_inv\<close>: every index entry points to an
  assignment that exists, holds exclusive authority and has that very key.  \<open>exclusive_inv\<close>:
  conversely every exclusive holder on a scope with an identity owns its index entry, and no
  whole-scope claim coexists with a per-class claim.  Together they give mutual exclusion
  (\<open>exclusive_inv_no_conflict\<close>).
\<close>

subsection \<open>What inserting an assignment does\<close>

lemma refresh_fields [simp]:
  "fs_assignments (refresh_authority_usage s) = fs_assignments s"
  "fs_exclusive_by_class (refresh_authority_usage s) = fs_exclusive_by_class s"
  "fs_exclusive_by_scope (refresh_authority_usage s) = fs_exclusive_by_scope s"
  "fs_committed (refresh_authority_usage s) = fs_committed s"
  "fs_epoch (refresh_authority_usage s) = fs_epoch s"
  "fs_next_assignment_ordinal (refresh_authority_usage s) = fs_next_assignment_ordinal s"
  "fs_next_fence_sequence (refresh_authority_usage s) = fs_next_fence_sequence s"
  "fs_functions (refresh_authority_usage s) = fs_functions s"
  "fs_observations (refresh_authority_usage s) = fs_observations s"
  "fs_capabilities (refresh_authority_usage s) = fs_capabilities s"
  "fs_has_topology (refresh_authority_usage s) = fs_has_topology s"
  "fs_topology (refresh_authority_usage s) = fs_topology s"
  "fs_has_policy (refresh_authority_usage s) = fs_has_policy s"
  "fs_policy (refresh_authority_usage s) = fs_policy s"
  "fs_sources (refresh_authority_usage s) = fs_sources s"
  by (simp_all add: refresh_authority_usage_def)

lemma acquire_fields [simp]:
  "fs_assignments (acquire_claims r s) = fs_assignments s"
  "fs_epoch (acquire_claims r s) = fs_epoch s"
  "fs_next_assignment_ordinal (acquire_claims r s) = fs_next_assignment_ordinal s"
  "fs_next_fence_sequence (acquire_claims r s) = fs_next_fence_sequence s"
  "fs_functions (acquire_claims r s) = fs_functions s"
  "fs_observations (acquire_claims r s) = fs_observations s"
  "fs_capabilities (acquire_claims r s) = fs_capabilities s"
  "fs_has_topology (acquire_claims r s) = fs_has_topology s"
  "fs_topology (acquire_claims r s) = fs_topology s"
  "fs_has_policy (acquire_claims r s) = fs_has_policy s"
  "fs_policy (acquire_claims r s) = fs_policy s"
  "fs_sources (acquire_claims r s) = fs_sources s"
  "fs_authority (acquire_claims r s) = fs_authority s"
  by (simp_all add: acquire_claims_def claim_exclusive_def committed_add_def Let_def)

lemma release_fields [simp]:
  "fs_assignments (release_claims r s) = fs_assignments s"
  "fs_epoch (release_claims r s) = fs_epoch s"
  "fs_next_assignment_ordinal (release_claims r s) = fs_next_assignment_ordinal s"
  "fs_next_fence_sequence (release_claims r s) = fs_next_fence_sequence s"
  "fs_functions (release_claims r s) = fs_functions s"
  "fs_observations (release_claims r s) = fs_observations s"
  "fs_capabilities (release_claims r s) = fs_capabilities s"
  "fs_has_topology (release_claims r s) = fs_has_topology s"
  "fs_topology (release_claims r s) = fs_topology s"
  "fs_has_policy (release_claims r s) = fs_has_policy s"
  "fs_policy (release_claims r s) = fs_policy s"
  "fs_sources (release_claims r s) = fs_sources s"
  "fs_authority (release_claims r s) = fs_authority s"
  by (simp_all add: release_claims_def)

lemma insert_fields [simp]:
  "fs_assignments (insert_assignment r s) = om_put (ar_id r) r (fs_assignments s)"
  "fs_epoch (insert_assignment r s) = fs_epoch s"
  "fs_next_assignment_ordinal (insert_assignment r s) = fs_next_assignment_ordinal s"
  "fs_next_fence_sequence (insert_assignment r s) = fs_next_fence_sequence s"
  "fs_functions (insert_assignment r s) = fs_functions s"
  "fs_observations (insert_assignment r s) = fs_observations s"
  "fs_capabilities (insert_assignment r s) = fs_capabilities s"
  "fs_has_topology (insert_assignment r s) = fs_has_topology s"
  "fs_topology (insert_assignment r s) = fs_topology s"
  "fs_has_policy (insert_assignment r s) = fs_has_policy s"
  "fs_policy (insert_assignment r s) = fs_policy s"
  "fs_sources (insert_assignment r s) = fs_sources s"
  by (simp_all add: insert_assignment_def Let_def split: option.splits)

definition class_claim :: "AssignmentRecord \<Rightarrow> ExclusivityKey \<Rightarrow> bool" where
  "class_claim r k \<longleftrightarrow> holds_authority (ar_state r) \<and> ar_exclusivity r = EX_Exclusive \<and>
     ar_exclusive_key r = EK_PerClass \<and> k = ExclusivityKey (ar_scope_id r) (ar_cls r)"

definition scope_claim :: "AssignmentRecord \<Rightarrow> ScopeId \<Rightarrow> bool" where
  "scope_claim r sc \<longleftrightarrow> holds_authority (ar_state r) \<and> ar_exclusivity r = EX_Exclusive \<and>
     ar_exclusive_key r = EK_PerScope \<and> sc = ar_scope_id r"

definition released_class :: "AssignmentRecord \<Rightarrow> FabricState \<Rightarrow> (ExclusivityKey, AssignmentId) omap" where
  "released_class r s = (case map_of (fs_assignments s) (ar_id r) of
     None \<Rightarrow> fs_exclusive_by_class s
   | Some old \<Rightarrow> erase_if_holder (ExclusivityKey (ar_scope_id old) (ar_cls old)) (ar_id old) (fs_exclusive_by_class s))"

definition released_scope :: "AssignmentRecord \<Rightarrow> FabricState \<Rightarrow> (ScopeId, AssignmentId) omap" where
  "released_scope r s = (case map_of (fs_assignments s) (ar_id r) of
     None \<Rightarrow> fs_exclusive_by_scope s
   | Some old \<Rightarrow> erase_if_holder (ar_scope_id old) (ar_id old) (fs_exclusive_by_scope s))"

lemma insert_class_index:
  "map_of (fs_exclusive_by_class (insert_assignment r s)) k =
     (if class_claim r k then Some (ar_id r) else map_of (released_class r s) k)"
  by (cases "ar_exclusive_key r")
    (auto simp: insert_assignment_def acquire_claims_def claim_exclusive_def committed_add_def released_class_def
      release_claims_def class_claim_def Let_def split: option.splits)

lemma insert_scope_index:
  "map_of (fs_exclusive_by_scope (insert_assignment r s)) sc =
     (if scope_claim r sc then Some (ar_id r) else map_of (released_scope r s) sc)"
  by (cases "ar_exclusive_key r")
    (auto simp: insert_assignment_def acquire_claims_def claim_exclusive_def committed_add_def released_scope_def
      release_claims_def scope_claim_def Let_def split: option.splits)

lemma insert_index_ok:
  "om_ok (fs_exclusive_by_class s) \<Longrightarrow> om_ok (fs_exclusive_by_class (insert_assignment r s))"
  by (auto simp: insert_assignment_def acquire_claims_def claim_exclusive_def committed_add_def release_claims_def
      erase_if_holder_def Let_def split: option.splits)

subsection \<open>Index soundness\<close>

definition keyed_assignments :: "FabricState \<Rightarrow> bool" where
  "keyed_assignments s \<longleftrightarrow> (\<forall>a r. map_of (fs_assignments s) a = Some r \<longrightarrow> ar_id r = a \<and> a \<noteq> [])"

definition claims_sound :: "FabricState \<Rightarrow> bool" where
  "claims_sound s \<longleftrightarrow>
     (\<forall>k h. map_of (fs_exclusive_by_class s) k = Some h \<longrightarrow>
        (\<exists>r. map_of (fs_assignments s) h = Some r \<and> class_claim r k)) \<and>
     (\<forall>sc h. map_of (fs_exclusive_by_scope s) sc = Some h \<longrightarrow>
        (\<exists>r. map_of (fs_assignments s) h = Some r \<and> scope_claim r sc))"

definition index_inv :: "FabricState \<Rightarrow> bool" where
  "index_inv s \<longleftrightarrow> keyed_assignments s \<and> claims_sound s \<and> om_ok (fs_exclusive_by_class s)"

lemma released_class_sound:
  assumes "index_inv s" and "map_of (released_class r s) k = Some h"
  shows "h \<noteq> ar_id r \<and> map_of (fs_exclusive_by_class s) k = Some h"
proof -
  have sound: "\<exists>r. map_of (fs_assignments s) h = Some r \<and> class_claim r k"
    if "map_of (fs_exclusive_by_class s) k = Some h" for h
    using assms(1) that by (auto simp: index_inv_def claims_sound_def)
  have keyed: "ar_id old = ar_id r" if "map_of (fs_assignments s) (ar_id r) = Some old" for old
    using assms(1) that by (auto simp: index_inv_def keyed_assignments_def)
  show ?thesis
  proof (cases "map_of (fs_assignments s) (ar_id r)")
    case None
    with assms(2) sound show ?thesis by (auto simp: released_class_def)
  next
    case (Some old)
    with assms(2) have "map_of (fs_exclusive_by_class s) k = Some h"
      by (auto simp: released_class_def erase_if_holder_def split: if_splits)
    moreover have "h \<noteq> ar_id r"
    proof
      assume "h = ar_id r"
      with sound calculation Some have "class_claim old k" by auto
      with \<open>h = ar_id r\<close> calculation keyed [OF Some] assms(2) Some show False
        by (auto simp: released_class_def erase_if_holder_def class_claim_def split: if_splits)
    qed
    ultimately show ?thesis by simp
  qed
qed

lemma released_scope_sound:
  assumes "index_inv s" and "map_of (released_scope r s) sc = Some h"
  shows "h \<noteq> ar_id r \<and> map_of (fs_exclusive_by_scope s) sc = Some h"
proof -
  have sound: "\<exists>r. map_of (fs_assignments s) h = Some r \<and> scope_claim r sc"
    if "map_of (fs_exclusive_by_scope s) sc = Some h" for h
    using assms(1) that by (auto simp: index_inv_def claims_sound_def)
  have keyed: "ar_id old = ar_id r" if "map_of (fs_assignments s) (ar_id r) = Some old" for old
    using assms(1) that by (auto simp: index_inv_def keyed_assignments_def)
  show ?thesis
  proof (cases "map_of (fs_assignments s) (ar_id r)")
    case None
    with assms(2) sound show ?thesis by (auto simp: released_scope_def)
  next
    case (Some old)
    with assms(2) have "map_of (fs_exclusive_by_scope s) sc = Some h"
      by (auto simp: released_scope_def erase_if_holder_def split: if_splits)
    moreover have "h \<noteq> ar_id r"
    proof
      assume "h = ar_id r"
      with sound calculation Some have "scope_claim old sc" by auto
      with \<open>h = ar_id r\<close> calculation keyed [OF Some] assms(2) Some show False
        by (auto simp: released_scope_def erase_if_holder_def scope_claim_def split: if_splits)
    qed
    ultimately show ?thesis by simp
  qed
qed

lemma index_inv_insert:
  assumes "index_inv s" and "ar_id r \<noteq> []"
  shows "index_inv (insert_assignment r s)"
proof -
  have "keyed_assignments (insert_assignment r s)"
    using assms by (auto simp: index_inv_def keyed_assignments_def)
  moreover have "claims_sound (insert_assignment r s)"
    unfolding claims_sound_def
  proof (intro conjI allI impI)
    fix k h assume "map_of (fs_exclusive_by_class (insert_assignment r s)) k = Some h"
    then show "\<exists>r'. map_of (fs_assignments (insert_assignment r s)) h = Some r' \<and> class_claim r' k"
      using assms(1) released_class_sound [OF assms(1), of r k h]
      by (auto simp: insert_class_index index_inv_def claims_sound_def split: if_splits)
  next
    fix sc h assume "map_of (fs_exclusive_by_scope (insert_assignment r s)) sc = Some h"
    then show "\<exists>r'. map_of (fs_assignments (insert_assignment r s)) h = Some r' \<and> scope_claim r' sc"
      using assms(1) released_scope_sound [OF assms(1), of r sc h]
      by (auto simp: insert_scope_index index_inv_def claims_sound_def split: if_splits)
  qed
  ultimately show ?thesis using assms(1) by (simp add: index_inv_def insert_index_ok)
qed


subsection \<open>Mutual exclusion\<close>

definition claims_complete :: "FabricState \<Rightarrow> bool" where
  "claims_complete s \<longleftrightarrow> (\<forall>a r. map_of (fs_assignments s) a = Some r \<and> ar_scope_id r \<noteq> [] \<longrightarrow>
     (\<forall>k. class_claim r k \<longrightarrow> map_of (fs_exclusive_by_class s) k = Some a) \<and>
     (\<forall>sc. scope_claim r sc \<longrightarrow> map_of (fs_exclusive_by_scope s) sc = Some a))"

definition claims_unmixed :: "FabricState \<Rightarrow> bool" where
  "claims_unmixed s \<longleftrightarrow> (\<forall>sc c. sc \<noteq> [] \<longrightarrow>
     map_of (fs_exclusive_by_scope s) sc = None \<or> map_of (fs_exclusive_by_class s) (ExclusivityKey sc c) = None)"

definition exclusive_inv :: "FabricState \<Rightarrow> bool" where
  "exclusive_inv s \<longleftrightarrow> index_inv s \<and> claims_complete s \<and> claims_unmixed s"

text \<open>Two assignments that must not hold authority at the same time.\<close>

definition conflicts :: "AssignmentRecord \<Rightarrow> AssignmentRecord \<Rightarrow> bool" where
  "conflicts r1 r2 \<longleftrightarrow>
     holds_authority (ar_state r1) \<and> holds_authority (ar_state r2) \<and>
     ar_exclusivity r1 = EX_Exclusive \<and> ar_exclusivity r2 = EX_Exclusive \<and>
     ar_scope_id r1 = ar_scope_id r2 \<and> ar_scope_id r1 \<noteq> [] \<and>
     (ar_exclusive_key r1 = EK_PerScope \<or> ar_exclusive_key r2 = EK_PerScope \<or> ar_cls r1 = ar_cls r2)"

lemma exclusive_inv_no_conflict:
  assumes "exclusive_inv s" and "map_of (fs_assignments s) a = Some r1"
    and "map_of (fs_assignments s) b = Some r2" and "conflicts r1 r2"
  shows "a = b"
proof -
  have entry: "if ar_exclusive_key r = EK_PerClass
      then map_of (fs_exclusive_by_class s) (ExclusivityKey (ar_scope_id r) (ar_cls r)) = Some x
      else map_of (fs_exclusive_by_scope s) (ar_scope_id r) = Some x"
    if "map_of (fs_assignments s) x = Some r" "holds_authority (ar_state r)" "ar_exclusivity r = EX_Exclusive"
      "ar_scope_id r \<noteq> []" for x r
    using assms(1) that by (cases "ar_exclusive_key r")
      (auto simp: exclusive_inv_def claims_complete_def class_claim_def scope_claim_def)
  have unmixed: "map_of (fs_exclusive_by_scope s) (ar_scope_id r1) = None \<or>
      map_of (fs_exclusive_by_class s) (ExclusivityKey (ar_scope_id r1) c) = None" for c
    using assms(1,4) by (auto simp: exclusive_inv_def claims_unmixed_def conflicts_def)
  show ?thesis
    using entry [OF assms(2)] entry [OF assms(3)] unmixed [of "ar_cls r1"] unmixed [of "ar_cls r2"] assms(4)
    by (cases "ar_exclusive_key r1"; cases "ar_exclusive_key r2") (auto simp: conflicts_def)
qed

text \<open>No other assignment holds a claim that would conflict with the record.\<close>

definition unclaimed :: "FabricState \<Rightarrow> AssignmentRecord \<Rightarrow> bool" where
  "unclaimed s r \<longleftrightarrow>
     (holds_authority (ar_state r) \<and> ar_exclusivity r = EX_Exclusive \<and> ar_scope_id r \<noteq> [] \<longrightarrow>
       (\<forall>h. conflicting_claim s (ar_scope_id r) (ar_cls r) (ar_exclusive_key r) h \<longrightarrow> h = ar_id r))"

lemma released_class_other:
  assumes "index_inv s" and "map_of (fs_exclusive_by_class s) k = Some h" and "h \<noteq> ar_id r"
  shows "map_of (released_class r s) k = Some h"
  using assms
  by (auto simp: released_class_def erase_if_holder_def index_inv_def keyed_assignments_def split: option.split)

lemma released_scope_other:
  assumes "index_inv s" and "map_of (fs_exclusive_by_scope s) sc = Some h" and "h \<noteq> ar_id r"
  shows "map_of (released_scope r s) sc = Some h"
  using assms
  by (auto simp: released_scope_def erase_if_holder_def index_inv_def keyed_assignments_def split: option.split)

lemma claims_complete_insert:
  assumes inv: "exclusive_inv s" and free: "unclaimed s r"
  shows "claims_complete (insert_assignment r s)"
  unfolding claims_complete_def
proof (intro allI impI, elim conjE)
  fix a r' assume r': "map_of (fs_assignments (insert_assignment r s)) a = Some r'" and named: "ar_scope_id r' \<noteq> []"
  have idx: "index_inv s" using inv by (simp add: exclusive_inv_def)
  show "(\<forall>k. class_claim r' k \<longrightarrow> map_of (fs_exclusive_by_class (insert_assignment r s)) k = Some a) \<and>
        (\<forall>sc. scope_claim r' sc \<longrightarrow> map_of (fs_exclusive_by_scope (insert_assignment r s)) sc = Some a)"
  proof (cases "a = ar_id r")
    case True
    with r' show ?thesis by (simp add: insert_class_index insert_scope_index)
  next
    case other: False
    with r' have old: "map_of (fs_assignments s) a = Some r'" by simp
    have class_entry: "map_of (fs_exclusive_by_class s) k = Some a" if "class_claim r' k" for k
      using inv old named that by (auto simp: exclusive_inv_def claims_complete_def)
    have scope_entry: "map_of (fs_exclusive_by_scope s) sc = Some a" if "scope_claim r' sc" for sc
      using inv old named that by (auto simp: exclusive_inv_def claims_complete_def)
    have "\<not> class_claim r k" if "class_claim r' k" for k
    proof
      assume "class_claim r k"
      with that class_entry [OF that] named
      have "conflicting_claim s (ar_scope_id r) (ar_cls r) (ar_exclusive_key r) a" "ar_scope_id r \<noteq> []"
        by (auto simp: class_claim_def conflicting_claim_def)
      with free other \<open>class_claim r k\<close> show False by (auto simp: unclaimed_def class_claim_def)
    qed
    moreover have "\<not> scope_claim r sc" if "scope_claim r' sc" for sc
    proof
      assume "scope_claim r sc"
      with that scope_entry [OF that] named
      have "conflicting_claim s (ar_scope_id r) (ar_cls r) (ar_exclusive_key r) a" "ar_scope_id r \<noteq> []"
        by (auto simp: scope_claim_def conflicting_claim_def)
      with free other \<open>scope_claim r sc\<close> show False by (auto simp: unclaimed_def scope_claim_def)
    qed
    ultimately show ?thesis
      using class_entry scope_entry released_class_other [OF idx _ other] released_scope_other [OF idx _ other]
      by (simp add: insert_class_index insert_scope_index)
  qed
qed

lemma claims_unmixed_insert:
  assumes inv: "exclusive_inv s" and free: "unclaimed s r"
  shows "claims_unmixed (insert_assignment r s)"
  unfolding claims_unmixed_def
proof (intro allI impI)
  fix sc :: ScopeId and c assume named: "sc \<noteq> []"
  have idx: "index_inv s" using inv by (simp add: exclusive_inv_def)
  let ?by_scope = "map_of (fs_exclusive_by_scope (insert_assignment r s)) sc"
  let ?by_class = "map_of (fs_exclusive_by_class (insert_assignment r s)) (ExclusivityKey sc c)"
  show "?by_scope = None \<or> ?by_class = None"
  proof (rule ccontr)
    assume "\<not> (?by_scope = None \<or> ?by_class = None)"
    then obtain h h' where scope: "?by_scope = Some h" and cls: "?by_class = Some h'" by auto
    consider "scope_claim r sc" | "class_claim r (ExclusivityKey sc c)"
      | "\<not> scope_claim r sc" "\<not> class_claim r (ExclusivityKey sc c)" by blast
    then show False
    proof cases
      case 1
      then have "\<not> class_claim r (ExclusivityKey sc c)" by (auto simp: scope_claim_def class_claim_def)
      with cls released_class_sound [OF idx, of r "ExclusivityKey sc c" h']
      have "h' \<noteq> ar_id r" "map_of (fs_exclusive_by_class s) (ExclusivityKey sc c) = Some h'"
        by (auto simp: insert_class_index)
      with 1 free named show False by (auto simp: unclaimed_def scope_claim_def conflicting_claim_def)
    next
      case 2
      then have "\<not> scope_claim r sc" by (auto simp: scope_claim_def class_claim_def)
      with scope released_scope_sound [OF idx, of r sc h]
      have "h \<noteq> ar_id r" "map_of (fs_exclusive_by_scope s) sc = Some h" by (auto simp: insert_scope_index)
      with 2 free named show False by (auto simp: unclaimed_def class_claim_def conflicting_claim_def)
    next
      case 3
      with scope cls released_scope_sound [OF idx, of r sc h] released_class_sound [OF idx, of r "ExclusivityKey sc c" h']
      have "map_of (fs_exclusive_by_scope s) sc = Some h" "map_of (fs_exclusive_by_class s) (ExclusivityKey sc c) = Some h'"
        by (auto simp: insert_scope_index insert_class_index)
      with inv named show False by (auto simp: exclusive_inv_def claims_unmixed_def)
    qed
  qed
qed

lemma exclusive_inv_insert:
  assumes "exclusive_inv s" and "ar_id r \<noteq> []" and "unclaimed s r"
  shows "exclusive_inv (insert_assignment r s)"
  using assms claims_complete_insert claims_unmixed_insert
  by (simp add: exclusive_inv_def index_inv_insert)

text \<open>An update that does not gain authority and keeps the identity and the claim of the record.\<close>

definition routine_update :: "AssignmentRecord \<Rightarrow> AssignmentRecord \<Rightarrow> bool" where
  "routine_update r0 r \<longleftrightarrow>
     ar_id r = ar_id r0 \<and> ar_scope_id r = ar_scope_id r0 \<and> ar_cls r = ar_cls r0 \<and>
     ar_exclusivity r = ar_exclusivity r0 \<and> ar_exclusive_key r = ar_exclusive_key r0 \<and>
     ar_fence r = ar_fence r0 \<and>
     (holds_authority (ar_state r) \<longrightarrow> holds_authority (ar_state r0)) \<and>
     (is_terminal (ar_state r0) \<longrightarrow> is_terminal (ar_state r))"

lemma holder_conflicts:
  assumes "index_inv s" and "conflicting_claim s (ar_scope_id r) (ar_cls r) (ar_exclusive_key r) h"
  shows "\<exists>rh. map_of (fs_assignments s) h = Some rh \<and> holds_authority (ar_state rh) \<and>
    ar_exclusivity rh = EX_Exclusive \<and> ar_scope_id rh = ar_scope_id r \<and>
    (ar_exclusive_key r = EK_PerScope \<or> ar_exclusive_key rh = EK_PerScope \<or> ar_cls rh = ar_cls r)"
  using assms by (cases "ar_exclusive_key r")
    (fastforce simp: index_inv_def claims_sound_def conflicting_claim_def class_claim_def scope_claim_def)+

lemma routine_update_unclaimed:
  assumes "exclusive_inv s" and "map_of (fs_assignments s) (ar_id r) = Some r0" and "routine_update r0 r"
  shows "unclaimed s r"
  unfolding unclaimed_def
proof (intro impI allI, elim conjE)
  fix h assume *: "holds_authority (ar_state r)" "ar_exclusivity r = EX_Exclusive" "ar_scope_id r \<noteq> []"
    and claim: "conflicting_claim s (ar_scope_id r) (ar_cls r) (ar_exclusive_key r) h"
  obtain rh where rh: "map_of (fs_assignments s) h = Some rh" "holds_authority (ar_state rh)"
      "ar_exclusivity rh = EX_Exclusive" "ar_scope_id rh = ar_scope_id r"
      "ar_exclusive_key r = EK_PerScope \<or> ar_exclusive_key rh = EK_PerScope \<or> ar_cls rh = ar_cls r"
    using holder_conflicts [OF _ claim] assms(1) by (auto simp: exclusive_inv_def)
  with * assms(3) have "conflicts rh r0" by (auto simp: conflicts_def routine_update_def)
  from exclusive_inv_no_conflict [OF assms(1) rh(1) assms(2) this] show "h = ar_id r" .
qed

end
