(* ===== verification/Nof_Invariants.thy ===== *)
theory Nof_Invariants
  imports Nof_Claims
begin

text \<open>
  Invariants of the running fabric.  The locale \<open>fabric_invariant\<close> lists what a predicate of
  the state has to satisfy (it survives evidence updates and token issuance, routine updates of an
  assignment, and the placement of a new assignment nobody else's claim conflicts with) and shows
  that every public operation then keeps it.  A \<open>strict\<close> invariant also needs that an assignment which
  gets its authority back has no rival claim; a \<open>counted\<close> one needs that identifiers are not issued twice.
  The locale is interpreted on the soundness of the indexes, on mutual exclusion, on the fencing order, on
  the identifiers, on the evidence streams and on terminal assignments.
\<close>

subsection \<open>Changes outside the assignments\<close>

text \<open>
  The highest sequence accepted from a source, for one domain of evidence, never drops.
\<close>

definition source_reached :: "SourceId \<Rightarrow> EvidenceDomain \<Rightarrow> u64 \<Rightarrow> FabricState \<Rightarrow> bool" where
  "source_reached source domain n s \<longleftrightarrow>
     (\<exists>e. find_source s source domain = Some e \<and> st_seen e \<and> n \<le> st_last_sequence e)"

definition sources_grow :: "FabricState \<Rightarrow> FabricState \<Rightarrow> bool" where
  "sources_grow s s' \<longleftrightarrow> (\<forall>source domain n. source_reached source domain n s \<longrightarrow> source_reached source domain n s')"

definition newer_sequence :: "SourceId \<Rightarrow> EvidenceDomain \<Rightarrow> u64 \<Rightarrow> FabricState \<Rightarrow> bool" where
  "newer_sequence source domain n s \<longleftrightarrow> (\<forall>m. source_reached source domain m s \<longrightarrow> m \<le> n)"

lemma sources_grow_same [simp]: "fs_sources s' = fs_sources s \<Longrightarrow> sources_grow s s'"
  by (simp add: sources_grow_def source_reached_def find_source_def)

lemma source_reached_mark:
  "source_reached so d n (mark_source source domain sequence digest s) \<longleftrightarrow>
     (if so = source \<and> d = domain then n \<le> sequence else source_reached so d n s)"
  by (auto simp: source_reached_def mark_source_def find_source_def)

lemma sources_grow_mark:
  "newer_sequence source domain sequence s \<Longrightarrow> sources_grow s (mark_source source domain sequence digest s)"
  by (auto simp: sources_grow_def source_reached_mark newer_sequence_def)

definition calm :: "FabricState \<Rightarrow> FabricState \<Rightarrow> bool" where
  "calm s s' \<longleftrightarrow> fs_assignments s' = fs_assignments s \<and>
     fs_exclusive_by_class s' = fs_exclusive_by_class s \<and> fs_exclusive_by_scope s' = fs_exclusive_by_scope s \<and>
     fs_epoch s' = fs_epoch s \<and> fs_next_assignment_ordinal s \<le> fs_next_assignment_ordinal s' \<and>
     fs_next_fence_sequence s \<le> fs_next_fence_sequence s' \<and> sources_grow s s'"

lemma calm_refl [simp]: "calm s s"
  by (simp add: calm_def sources_grow_def)

lemma calm_trans: "calm s s' \<Longrightarrow> calm s' s'' \<Longrightarrow> calm s s''"
  by (auto simp: calm_def sources_grow_def)

lemma source_reached_same:
  "fs_sources s' = fs_sources s \<Longrightarrow> source_reached so d n s' \<longleftrightarrow> source_reached so d n s"
  by (simp add: source_reached_def find_source_def)

lemma calm_mark_source:
  assumes "calm s s'" and "fs_sources s' = fs_sources s" and "newer_sequence source domain sequence s"
  shows "calm s (mark_source source domain sequence digest s')"
proof -
  have "newer_sequence source domain sequence s'"
    using assms(3) source_reached_same [OF assms(2)] by (simp add: newer_sequence_def)
  then have "sources_grow s' (mark_source source domain sequence digest s')" by (rule sources_grow_mark)
  with assms(1) have "sources_grow s (mark_source source domain sequence digest s')"
    by (auto simp: calm_def sources_grow_def)
  with assms(1) show ?thesis by (simp add: calm_def mark_source_def)
qed

lemma calm_updates [simp]:
  "calm s (s'\<lparr>fs_functions := v1\<rparr>) \<longleftrightarrow> calm s s'" "calm s (s'\<lparr>fs_authority := v2\<rparr>) \<longleftrightarrow> calm s s'"
  "calm s (put_capabilities rs s') \<longleftrightarrow> calm s s'" "calm s (put_observations os s') \<longleftrightarrow> calm s s'"
  "calm s (s'\<lparr>fs_topology := t, fs_has_topology := b, fs_topology_digest := d\<rparr>) \<longleftrightarrow> calm s s'"
  "calm s (s'\<lparr>fs_policy := p, fs_has_policy := b, fs_policy_digest := d\<rparr>) \<longleftrightarrow> calm s s'"
  "calm s (s'\<lparr>fs_idempotency := m, fs_idempotency_order := q\<rparr>) \<longleftrightarrow> calm s s'"
  "calm s (s'\<lparr>fs_reassignments := v3\<rparr>) \<longleftrightarrow> calm s s'"
  by (simp_all add: calm_def put_capabilities_def put_observations_def sources_grow_def source_reached_def find_source_def)

lemma calm_revoke_grant [simp]: "calm s (revoke_grant a s)"
  by (simp add: revoke_grant_def split: option.split)

lemma word_le_succ [simp]: "unat (w :: u64) < 18446744073709551615 \<Longrightarrow> w \<le> w + 1"
  by (simp add: word_le_nat_alt unat_word_ariths)

text \<open>An action whose effect on the state is calm.\<close>

definition calms :: "'a action \<Rightarrow> bool" where
  "calms m \<longleftrightarrow> (\<forall>i. calm (im_state i) (im_state (fst (m i))) \<and> im_bounds (fst (m i)) = im_bounds i \<and>
     im_now (fst (m i)) = im_now i)"

named_theorems calm_intros "operations that do not touch the assignments"

lemma calms_steady: "steady m \<Longrightarrow> calms m"
  by (auto simp: calms_def steady_def same_view_def)

lemma calms_bind: "calms m \<Longrightarrow> (\<And>x. calms (f x)) \<Longrightarrow> calms (act_bind m f)"
  unfolding calms_def act_bind_def
  by (auto split: prod.splits sum.splits) (metis calm_trans fst_conv)+

lemma calms_counting: "calms m \<Longrightarrow> calms (counting c m)"
  unfolding calms_def counting_def by (auto split: prod.splits sum.splits) (metis fst_conv)+

lemma calms_on_state: "(\<And>s. calm s (f s)) \<Longrightarrow> calms (on_state f)"
  by (simp add: calms_def on_state_def act_update_def)

lemma calms_record_idempotency [calm_intros]: "calms (record_idempotency a b c d e)"
  by (auto simp: calms_def record_idempotency_def act_update_def Let_def split: prod.splits)

lemma calms_at: "(\<And>i. \<exists>m. calms m \<and> f i = m i) \<Longrightarrow> calms f"
  unfolding calms_def by metis

lemma calms_after: "calms m \<Longrightarrow> calm s (im_state i) \<Longrightarrow> calm s (im_state (fst (m i)))"
  unfolding calms_def by (metis calm_trans)

lemmas calm_steps = calms_bind calm_intros calms_steady [OF steady_simple(1)] calms_steady [OF steady_simple(3)]
  calms_steady [OF steady_commit] calms_steady [OF steady_update_bump] calms_steady [OF steady_trim_history]

lemma calms_record_refusal [calm_intros]: "calms (record_refusal a b e at')"
proof (rule calms_at)
  fix i
  have "calms (act_bind (act_lift x) (\<lambda>response. act_bind (act_lift (y response)) (\<lambda>envelope.
      act_bind (commit RT_RequestRecorded envelope) (\<lambda>_. record_idempotency a b (code e) response at'))))" for x y
    by (intro calm_steps)
  moreover have "calms (act_return ())" by (intro calm_steps)
  ultimately show "\<exists>m. calms m \<and> record_refusal a b e at' i = m i"
    unfolding record_refusal_def by (cases "a = []") (fastforce simp: act_return_def)+
qed

lemma calms_issue_lease [calm_intros]: "calms (act_issue issue_lease)"
  by (auto simp: calms_def act_issue_def calm_def issue_lease_Inr split: sum.splits prod.splits)

lemma calms_issue_attempt [calm_intros]: "calms (act_issue issue_attempt)"
  by (auto simp: calms_def act_issue_def calm_def issue_attempt_Inr split: sum.splits prod.splits)

lemma calms_issue_fence [calm_intros]: "calms (act_issue issue_fence)"
  by (auto simp: calms_def act_issue_def calm_def issue_fence_Inr split: sum.splits prod.splits)

lemma calms_issue_assignment_id [calm_intros]: "calms (act_issue issue_assignment_id)"
  by (auto simp: calms_def act_issue_def calm_def issue_assignment_id_Inr split: sum.splits prod.splits)

lemma calms_note_reassignment [calm_intros]: "calms (note_reassignment scope cls at')"
proof -
  have step: "calms (act_bind (act_lift x) (\<lambda>payload. act_bind (act_update (bump ''reassignments''))
      (\<lambda>_. commit RT_ReassignmentRecorded payload)))" for x
    by (intro calm_steps)
  show ?thesis
    unfolding calms_def note_reassignment_def Let_def
    using calms_after [OF step] step by (simp add: calms_def)
qed


subsection \<open>Trimming and transitions\<close>

definition trimmed :: "Bounds \<Rightarrow> AssignmentRecord \<Rightarrow> AssignmentRecord" where
  "trimmed bounds r = r\<lparr>ar_history := keep_last (max_history_per_assignment bounds) (ar_history r),
     ar_effects := keep_last (max_effects_per_assignment bounds) (ar_effects r)\<rparr>"

lemma trim_history_eq: "trim_history r i = (fst (trim_history r i), Inr (trimmed (im_bounds i) r))"
  by (simp add: trim_history_def trimmed_def Let_def)

lemma routine_trimmed [simp]: "routine_update r0 (trimmed bounds r) \<longleftrightarrow> routine_update r0 r"
  by (simp add: routine_update_def trimmed_def)

lemma trimmed_id [simp]: "ar_id (trimmed bounds r) = ar_id r"
  by (simp add: trimmed_def)

lemma routine_transition:
  "routine_update r (transition_to state reason at' r) \<longleftrightarrow>
     (holds_authority state \<longrightarrow> holds_authority (ar_state r)) \<and> (is_terminal (ar_state r) \<longrightarrow> is_terminal state)"
  by (simp add: routine_update_def transition_to_def)

lemma transition_id [simp]: "ar_id (transition_to state reason at' r) = ar_id r"
  by (simp add: transition_to_def)

subsection \<open>The interface of an invariant\<close>

definition ids_covered :: "FabricState \<Rightarrow> bool" where
  "ids_covered s \<longleftrightarrow> (\<forall>a \<in> dom (map_of (fs_assignments s)).
     \<exists>n. n \<le> fs_next_assignment_ordinal s \<and> a = ''as-'' @ hex64 n)"

text \<open>Tokens of the current epoch that were issued before.\<close>

definition fence_issued :: "FabricState \<Rightarrow> FencingToken \<Rightarrow> bool" where
  "fence_issued s f \<longleftrightarrow> ft_epoch f = ce_counter (fs_epoch s) \<and> ft_sequence f \<le> fs_next_fence_sequence s"

definition newly_issued :: "FabricState \<Rightarrow> AssignmentRecord \<Rightarrow> bool" where
  "newly_issued s r \<longleftrightarrow>
     (\<exists>n. n \<le> fs_next_assignment_ordinal s \<and> ar_id r = ''as-'' @ hex64 n) \<and> fence_issued s (ar_fence r)"

text \<open>A later version of an assignment: the same identity, an old or an issued fence, terminal stays terminal.\<close>

definition later_version :: "FabricState \<Rightarrow> AssignmentRecord \<Rightarrow> AssignmentRecord \<Rightarrow> bool" where
  "later_version s r0 r \<longleftrightarrow> ar_id r = ar_id r0 \<and> (ar_fence r = ar_fence r0 \<or> fence_issued s (ar_fence r)) \<and>
     (is_terminal (ar_state r0) \<longrightarrow> is_terminal (ar_state r))"

lemma routine_later: "routine_update r0 r \<Longrightarrow> later_version s r0 r"
  by (simp add: routine_update_def later_version_def)

text \<open>
  A \<open>strict\<close> invariant includes mutual exclusion, so it relies on records being inserted only
  where no other claim conflicts.  A \<open>counted\<close> invariant covers the identifiers in use, so a
  placement never meets an existing record.
\<close>

locale fabric_invariant =
  fixes inv :: "FabricState \<Rightarrow> bool" and strict counted :: bool
  assumes base: "inv s \<Longrightarrow> index_inv s"
    and strict_exclusive: "strict \<Longrightarrow> inv s \<Longrightarrow> exclusive_inv s"
    and counted_ids: "counted \<Longrightarrow> inv s \<Longrightarrow> ids_covered s"
    and calm: "inv s \<Longrightarrow> calm s s' \<Longrightarrow> inv s'"
    and update: "inv s \<Longrightarrow> map_of (fs_assignments s) (ar_id r) = Some r0 \<Longrightarrow> later_version s r0 r \<Longrightarrow>
      (strict \<Longrightarrow> unclaimed s r) \<Longrightarrow> inv (insert_assignment r s)"
    and place: "inv s \<Longrightarrow> newly_issued s r \<Longrightarrow> (strict \<Longrightarrow> unclaimed s r) \<Longrightarrow>
      (counted \<Longrightarrow> map_of (fs_assignments s) (ar_id r) = None) \<Longrightarrow> inv (insert_assignment r s)"
begin

lemma keeps_calm: "calms m \<Longrightarrow> keeps inv m"
  by (meson calm calms_def keeps_def)

lemmas keeps_leaf = keeps_calm [OF calms_steady]

lemma keyed: "inv s \<Longrightarrow> map_of (fs_assignments s) a = Some r \<Longrightarrow> ar_id r = a"
  using base by (auto simp: index_inv_def keyed_assignments_def)

lemma routine:
  assumes "inv s" and "map_of (fs_assignments s) (ar_id r) = Some r0" and "routine_update r0 r"
  shows "inv (insert_assignment r s)"
  using assms routine_later routine_update_unclaimed strict_exclusive by (intro update) blast+

text \<open>Storing a record whose insertion keeps the invariant.\<close>

lemma insert_and_answer_keeps:
  assumes "inv (insert_assignment r (im_state i))"
  shows "inv (im_state (fst (insert_and_answer r request_id fingerprint i)))"
proof -
  let ?i = "i\<lparr>im_state := insert_assignment r (im_state i)\<rparr>"
  have "keeps inv (act_bind (act_lift x) (\<lambda>response. record_idempotency request_id fingerprint RC_Ok response t))" for x t
    by (intro keeps_calm calm_steps)
  from keepsD [OF this, of ?i] show ?thesis
    using assms by (simp add: insert_and_answer_def act_bind_def on_state_def act_update_def)
qed

lemma store_keeps_aux:
  assumes "inv (im_state i)" and "inv (insert_assignment r (im_state i))"
  shows "inv (im_state (fst (act_bind (act_lift x) (\<lambda>payload. act_bind (commit type payload)
    (\<lambda>_. insert_and_answer r request_id fingerprint)) i)))"
proof (cases x)
  case (Inl e)
  with assms show ?thesis by (simp add: act_bind_def act_lift_def)
next
  case (Inr payload)
  obtain i1 res where c: "commit type payload i = (i1, res)" by (cases "commit type payload i")
  then have same: "im_state i1 = im_state i"
    using steadyD [OF steady_commit c] by (simp add: same_view_def)
  show ?thesis
  proof (cases res)
    case (Inl e)
    with Inr c same assms show ?thesis by (simp add: act_bind_def act_lift_def)
  next
    case (Inr u)
    with \<open>x = Inr payload\<close> c same assms insert_and_answer_keeps [of r i1] show ?thesis
      by (simp add: act_bind_def act_lift_def)
  qed
qed

lemma store_assignment_keeps:
  assumes "inv (im_state i)" and "inv (insert_assignment r (im_state i))"
  shows "inv (im_state (fst (store_assignment r request_id fingerprint type i)))"
  unfolding store_assignment_def by (rule store_keeps_aux [OF assms])

lemma store_effect_keeps:
  assumes "inv (im_state i)" and "inv (insert_assignment r (im_state i))"
  shows "inv (im_state (fst (store_effect r report request_id fingerprint i)))"
  unfolding store_effect_def by (rule store_keeps_aux [OF assms])

end


context fabric_invariant
begin

lemma bind_keeps:
  assumes "inv (im_state (fst (m i)))" and "\<And>x. keeps inv (f x)"
  shows "inv (im_state (fst (act_bind m f i)))"
  using assms by (auto simp: act_bind_def keeps_def split: prod.splits sum.splits)

lemma counting_keeps: "inv (im_state (fst (m i))) \<Longrightarrow> inv (im_state (fst (counting c m i)))"
  by (auto simp: counting_def split: prod.splits sum.splits)

lemma store_transition_keeps:
  assumes "inv (im_state i)" and "map_of (fs_assignments (im_state i)) (ar_id r) = Some r0" and "routine_update r0 r"
  shows "inv (im_state (fst (store_transition r i)))"
proof -
  let ?i = "fst (trim_history r i)"
  have same: "im_state ?i = im_state i"
    using steady_trim_history [of r] by (simp add: steady_def same_view_def)
  have "inv (insert_assignment (trimmed (im_bounds i) r) (im_state ?i))"
    unfolding same by (rule routine [OF assms(1), of _ r0]) (use assms in simp_all)
  with assms(1) have "inv (im_state (fst (store_assignment (trimmed (im_bounds i) r) [] digest_zero
      RT_AssignmentTransitioned ?i)))"
    by (intro store_assignment_keeps) (simp_all add: same)
  moreover have "store_transition r i =
      store_assignment (trimmed (im_bounds i) r) [] digest_zero RT_AssignmentTransitioned ?i"
    unfolding store_transition_def act_bind_def by (subst trim_history_eq) simp
  ultimately show ?thesis by simp
qed

lemma transition_keeps:
  assumes "inv (im_state i)" and "map_of (fs_assignments (im_state i)) a = Some r"
    and "\<not> holds_authority state" and "is_terminal (ar_state r) \<longrightarrow> is_terminal state"
  shows "inv (im_state (fst (store_transition (transition_to state reason at' r) i)))"
proof (rule store_transition_keeps [OF assms(1), of _ r])
  show "map_of (fs_assignments (im_state i)) (ar_id (transition_to state reason at' r)) = Some r"
    using assms(2) keyed [OF assms(1,2)] by simp
qed (use assms(3,4) in \<open>simp add: routine_transition\<close>)

lemma revalidate_one_keeps:
  assumes "inv (im_state i)" and "map_of (fs_assignments (im_state i)) a = Some r" and "\<not> is_terminal (ar_state r)"
  shows "inv (im_state (fst (revalidate_one at' r i)))"
proof -
  note * = transition_keeps [OF assms(1,2), where at' = at']
  show ?thesis
    using assms(1,3) unfolding revalidate_one_def Let_def
    by (auto intro!: bind_keeps * keeps_calm calm_steps)
qed

lemma revalidate_ids_keeps:
  "inv (im_state i) \<Longrightarrow> inv (im_state (fst (revalidate_ids cancel at' poll ids outcomes i)))"
proof (induction cancel at' poll ids outcomes i rule: revalidate_ids.induct)
  case (1 cancel at' poll outcomes i)
  then show ?case by simp
next
  case (2 cancel at' poll a ids outcomes i)
  show ?case
  proof (cases "cancelled cancel poll")
    case True
    with 2(4) show ?thesis by simp
  next
    case go: False
    show ?thesis
    proof (cases "map_of (fs_assignments (im_state i)) a")
      case None
      with 2(1) [OF go None 2(4)] go show ?thesis by simp
    next
      case (Some r)
      show ?thesis
      proof (cases "is_terminal (ar_state r)")
        case True
        with 2(2) [OF go Some True 2(4)] go Some show ?thesis by simp
      next
        case False
        note kept = revalidate_one_keeps [OF 2(4) Some False, of at']
        obtain i1 res where one: "revalidate_one at' r i = (i1, res)" by (cases "revalidate_one at' r i")
        with kept have "inv (im_state i1)" by simp
        with go Some False one 2(3) [OF go Some False] show ?thesis
          by (cases res) (simp_all add: act_bind_def)
      qed
    qed
  qed
qed

lemma revalidate_locked_keeps: "keeps inv (revalidate_locked cancel)"
  unfolding keeps_def revalidate_locked_def
  by (intro allI impI bind_keeps revalidate_ids_keeps) (auto intro!: keeps_calm calm_steps)

lemma revalidate_now_keeps: "keeps inv revalidate_now"
  unfolding revalidate_now_def by (intro keeps_bind revalidate_locked_keeps keeps_calm calm_steps)

end

end
