(* ===== verification/Nof_Safety.thy ===== *)
theory Nof_Safety
  imports Nof_Invariants
begin

text \<open>
  Every public operation keeps an invariant that satisfies the interface of
  \<open>fabric_invariant\<close>: the evidence operations change nothing but evidence and then revalidate,
  a placement issues fresh tokens, supersedes the holder it replaces and inserts a record whose
  claims nobody else has, and the updates of an assignment are routine.  Re-authorization and
  effect reports on degraded assignments may hand authority back without a conflict check, so for a
  strict invariant they are covered only where that does not happen.
\<close>

lemmas calm_leaf = calms_steady [OF steady_simple(1)] calms_steady [OF steady_simple(2)]
  calms_steady [OF steady_simple(3)] calms_steady [OF steady_simple(4)] calms_steady [OF steady_simple(5)]
  calms_steady [OF steady_update_bump] calms_steady [OF steady_commit] calms_steady [OF steady_compact]
  calms_steady [OF steady_accept_evidence] calms_steady [OF steady_require_running]
  calms_steady [OF steady_require_accepted] calms_steady [OF steady_trim_history]
  calms_steady [OF steady_newer_generation] calms_steady [OF steady_check_observation_target]
  calms_steady [OF steady_check_grant_policy] calms_steady [OF steady_compare_capabilities]
  calms_steady [OF steady_plan_locked] calms_steady [OF steady_choose_replaced]
  calms_on_state calms_counting calms_bind calm_intros

lemma calms_keepsD: "calms m \<Longrightarrow> calm (im_state i) (im_state (fst (m i)))"
  by (simp add: calms_def)

lemma act_bind_Inr:
  "act_bind m f i = (i', Inr y) \<longleftrightarrow> (\<exists>i1 x. m i = (i1, Inr x) \<and> f x i1 = (i', Inr y))"
  by (auto simp: act_bind_def split: sum.splits prod.splits)

text \<open>Evidence that is accepted as new is above everything its stream delivered.\<close>

lemma accept_evidence_newer:
  "accept_evidence source domain sequence digest i = (i', Inr False) \<Longrightarrow>
     newer_sequence source domain sequence (im_state i)"
  by (auto simp: accept_evidence_def newer_sequence_def source_reached_def split: if_splits option.splits)

context fabric_invariant
begin

lemma keeps_calm_at: "inv (im_state i) \<Longrightarrow> calms m \<Longrightarrow> inv (im_state (fst (m i)))"
  by (rule keepsD [OF keeps_calm])

subsection \<open>Evidence and authority\<close>

lemma install_keeps:
  assumes inv: "inv (im_state i)" and "steady m" and "calm (im_state i) (f (im_state i))" and "keeps inv after"
  shows "inv (im_state (fst (act_bind m (\<lambda>_. act_bind (on_state f) (\<lambda>_. after)) i)))"
proof -
  obtain i1 res where m: "m i = (i1, res)" by (cases "m i")
  have same: "im_state i1 = im_state i" using steadyD [OF assms(2) m] by (simp add: same_view_def)
  show ?thesis
  proof (cases res)
    case (Inl e)
    with m same inv show ?thesis by (simp add: act_bind_def)
  next
    case (Inr u)
    have "inv (im_state (i1\<lparr>im_state := f (im_state i1)\<rparr>))"
      using calm [OF inv assms(3)] same by simp
    from keepsD [OF assms(4) this] show ?thesis
      using m Inr by (simp add: act_bind_def on_state_def act_update_def)
  qed
qed

lemma admit_evidence_keeps:
  assumes "\<And>d. steady (compare d)" and "\<And>d s. calm s (install d s) \<and> fs_sources (install d s) = fs_sources s"
    and "keeps inv after"
  shows "keeps inv (admit_evidence c p domain enc type compare install after)"
  unfolding keeps_def
proof (intro allI impI)
  fix i :: Impl assume inv: "inv (im_state i)"
  define m where "m = counting c (act_bind (act_lift (digest_with (max_canonical_bytes (im_bounds i)) enc)) (\<lambda>digest.
    act_bind (accept_evidence (pv_source p) domain (pv_sequence p) digest) (\<lambda>duplicate.
    act_return (digest, duplicate))))"
  obtain i1 res where m: "m i = (i1, res)" by (cases "m i")
  have "steady m" unfolding m_def by (intro steady_intros)
  with m have same: "im_state i1 = im_state i" using steadyD by (fastforce simp: same_view_def)
  have newer: "newer_sequence (pv_source p) domain (pv_sequence p) (im_state i)" if "res = Inr (d, False)" for d
    using m that unfolding m_def
    by (auto simp: counting_def act_bind_Inr act_lift_def act_return_def dest!: accept_evidence_newer
        split: prod.splits sum.splits)
  have written: "steady (counting c (act_bind (compare d) (\<lambda>_ i2.
      act_bind (act_lift (encode_fresh (max_record_bytes (im_bounds i2)) enc)) (commit type) i2)))" for d
  proof -
    have "steady (act_bind (act_lift x) (commit type))" for x by (intro steady_intros)
    then have "steady (\<lambda>i2. act_bind (act_lift (encode_fresh (max_record_bytes (im_bounds i2)) enc)) (commit type) i2)"
      by (simp add: steady_def)
    with assms(1) show ?thesis by (intro steady_intros)
  qed
  have "calm (im_state i1) (mark_source (pv_source p) domain (pv_sequence p) d (install d (im_state i1)))"
    if "res = Inr (d, False)" for d
    using assms(2) newer [OF that] same by (intro calm_mark_source) auto
  then have "inv (im_state (fst (act_bind (counting c (act_bind (compare d) (\<lambda>_ i2.
      act_bind (act_lift (encode_fresh (max_record_bytes (im_bounds i2)) enc)) (commit type) i2))) (\<lambda>_.
      act_bind (on_state (\<lambda>s. mark_source (pv_source p) domain (pv_sequence p) d (install d s))) (\<lambda>_. after)) i1)))"
    if "res = Inr (d, False)" for d
    using that inv same by (intro install_keeps written assms(3)) simp_all
  with inv same show "inv (im_state (fst (admit_evidence c p domain enc type compare install after i)))"
    using m unfolding m_def admit_evidence_def by (simp split: sum.split prod.split)
qed

lemma ingest_keeps:
  assumes "\<And>i. steady (check i)" and "\<And>d. steady (compare d)" 
    and "\<And>d s. calm s (install d s) \<and> fs_sources (install d s) = fs_sources s"
  shows "keeps inv (guarded (\<lambda>i. act_bind (check i) (\<lambda>_. admit_evidence c p domain enc type compare install
    (act_bind (act_update (bump k)) (\<lambda>_. revalidate_now))) i))"
proof (rule keeps_guarded, unfold keeps_def, intro allI impI)
  fix i :: Impl assume "inv (im_state i)"
  moreover have "keeps inv (act_bind (check i) (\<lambda>_. admit_evidence c p domain enc type compare install
    (act_bind (act_update (bump k)) (\<lambda>_. revalidate_now))))"
    by (intro keeps_bind [OF keeps_steady] admit_evidence_keeps revalidate_now_keeps assms steady_update_bump)
  ultimately show "inv (im_state (fst (act_bind (check i) (\<lambda>_. admit_evidence c p domain enc type compare install
    (act_bind (act_update (bump k)) (\<lambda>_. revalidate_now))) i)))"
    by (rule keepsD [rotated])
qed

lemma ingest_topology_keeps: "keeps inv (ingest_topology t)"
  unfolding ingest_topology_def
  by (rule ingest_keeps) (simp_all add: steady_intros, simp add: steady_def newer_generation_def)

lemma ingest_policy_keeps: "keeps inv (ingest_policy p)"
  unfolding ingest_policy_def
  by (rule ingest_keeps) (simp_all add: steady_intros, simp add: steady_def newer_generation_def)

lemma ingest_capabilities_keeps: "keeps inv (ingest_capabilities report)"
  unfolding ingest_capabilities_def by (rule ingest_keeps) (simp_all add: steady_intros, simp add: put_capabilities_def)

lemma ingest_observations_keeps: "keeps inv (ingest_observations report)"
  unfolding ingest_observations_def by (rule ingest_keeps) (simp_all add: steady_intros, simp add: put_observations_def)

lemma register_function_keeps: "keeps inv (register_function f)"
  unfolding register_function_def
proof (rule keeps_guarded, unfold keeps_def, intro allI impI)
  fix i :: Impl assume "inv (im_state i)"
  moreover have "calms (act_bind (counting ''functions_refused'' (act_bind (act_lift x) (commit RT_FunctionRegistered)))
      (\<lambda>_. act_bind (on_state (\<lambda>s. s\<lparr>fs_functions := om_put (fd_id f) f (fs_functions s)\<rparr>)) (\<lambda>_.
       act_update (bump ''functions_registered''))))" for x
    by (intro calm_leaf) simp
  ultimately show "inv (im_state (fst (if fd_id f = []
     then (bump ''functions_refused'' i, Err RC_InvalidIdentifier ''function identifier is empty'')
     else if mask_count (fd_required f) > max_semantics_per_requirement (im_bounds i)
     then (bump ''functions_refused'' i, Err RC_LimitExceeded ''function requirement exceeds the semantics bound'')
     else if length (fs_functions (im_state i)) \<ge> max_functions (im_bounds i) \<and>
             map_of (fs_functions (im_state i)) (fd_id f) = None
     then (bump ''functions_refused'' i, Err RC_LimitExceeded ''function registry is full'')
     else if map_of (fs_functions (im_state i)) (fd_id f) = Some f
     then (bump ''duplicate_deliveries_idempotent'' i, ok_status)
     else act_bind (counting ''functions_refused''
            (act_bind (act_lift (encode_fresh (max_record_bytes (im_bounds i)) (encode_function f)))
              (commit RT_FunctionRegistered))) (\<lambda>_.
          act_bind (on_state (\<lambda>s. s\<lparr>fs_functions := om_put (fd_id f) f (fs_functions s)\<rparr>)) (\<lambda>_.
          act_update (bump ''functions_registered''))) i)))"
    by (simp add: keeps_calm_at)
qed

lemma install_grant_keeps:
  assumes inv: "inv (im_state i)"
    and newer: "newer_sequence (pv_source (ag_provenance g)) ED_Authority (pv_sequence (ag_provenance g)) (im_state i)"
  shows "inv (im_state (fst (install_grant g digest i)))"
proof -
  have "steady (counting ''authority_refused'' (act_bind (act_lift x) (commit RT_AuthorityGranted)))" for x
    by (intro steady_intros)
  moreover have "calm (im_state i) (mark_source (pv_source (ag_provenance g)) ED_Authority (pv_sequence (ag_provenance g))
      digest ((im_state i)\<lparr>fs_authority := om_put (ag_id g) g (fs_authority (im_state i))\<rparr>))"
    using newer by (intro calm_mark_source) simp_all
  ultimately have "inv (im_state (fst (act_bind (counting ''authority_refused'' (act_bind (act_lift x)
      (commit RT_AuthorityGranted))) (\<lambda>_. act_bind (on_state (\<lambda>s. mark_source (pv_source (ag_provenance g)) ED_Authority
      (pv_sequence (ag_provenance g)) digest (s\<lparr>fs_authority := om_put (ag_id g) g (fs_authority s)\<rparr>))) (\<lambda>_.
      act_update (bump ''authority_granted''))) i)))" for x
    by (intro install_keeps inv keeps_calm calms_steady [OF steady_update_bump])
  with inv show ?thesis by (simp add: install_grant_def split: option.split)
qed

lemma grant_authority_keeps: "keeps inv (grant_authority g)"
  unfolding grant_authority_def
proof (rule keeps_guarded, unfold keeps_def, intro allI impI)
  fix i :: Impl assume inv: "inv (im_state i)"
  let ?m = "counting ''authority_refused'' (act_bind (check_grant_policy g) (\<lambda>_.
        act_bind (act_lift (digest_with (max_canonical_bytes (im_bounds i)) (encode_authority g))) (\<lambda>digest.
        act_bind (accept_evidence (pv_source (ag_provenance g)) ED_Authority (pv_sequence (ag_provenance g)) digest)
          (\<lambda>duplicate. act_return (digest, duplicate)))))"
  obtain i1 res where m: "?m i = (i1, res)" by (cases "?m i")
  have "steady ?m" by (intro steady_intros)
  with m have same: "im_state i1 = im_state i" using steadyD by (fastforce simp: same_view_def)
  have "newer_sequence (pv_source (ag_provenance g)) ED_Authority (pv_sequence (ag_provenance g)) (im_state i)"
    if "res = Inr (d, False)" for d
    using m that
    by (auto simp: counting_def act_bind_Inr act_lift_def act_return_def check_grant_policy_def
        dest!: accept_evidence_newer split: prod.splits sum.splits)
  with inv same have "inv (im_state (fst (install_grant g d i1)))" if "res = Inr (d, False)" for d
    using that by (intro install_grant_keeps) simp_all
  with m inv same show "inv (im_state (fst (act_bind ?m (\<lambda>(digest, duplicate).
     if duplicate then act_update (bump ''duplicate_deliveries_idempotent'') else install_grant g digest) i)))"
    by (auto simp: act_bind_def act_update_def split: sum.split)
qed

lemma withdraw_authority_keeps: "keeps inv (withdraw_authority a reason)"
proof -
  have "keeps inv (act_bind (act_lift x) (\<lambda>payload. act_bind (commit RT_AuthorityWithdrawn payload) (\<lambda>_.
      act_bind (on_state (revoke_grant a)) (\<lambda>_.
      act_bind (act_update (bump ''authority_withdrawn'')) (\<lambda>_. revalidate_now)))))" for x
    by (intro keeps_bind revalidate_now_keeps keeps_calm calm_leaf) simp
  from keepsD [OF this] show ?thesis
    unfolding withdraw_authority_def
    by (intro keeps_bind [OF keeps_steady [OF steady_require_running]]) (auto simp: keeps_def split: option.split)
qed

end

subsection \<open>Placing a new assignment\<close>

lemma hex64_inject [simp]: "hex64 a = hex64 b \<longleftrightarrow> a = b"
  by (metis parse_digits_hex64)

lemma newly_issued_calm: "newly_issued s r \<Longrightarrow> calm s s' \<Longrightarrow> newly_issued s' r"
  by (auto simp: newly_issued_def calm_def fence_issued_def intro: order_trans)

lemma conflicting_claim_calm: "calm s s' \<Longrightarrow> conflicting_claim s' sc c k h \<longleftrightarrow> conflicting_claim s sc c k h"
  by (simp add: conflicting_claim_def calm_def)

lemma newly_issued_insert:
  "newly_issued s r \<Longrightarrow> newly_issued (insert_assignment r' s) r"
  by (simp add: newly_issued_def fence_issued_def)

text \<open>Inserting a record without authority only removes claims, its own among them.\<close>

lemma conflicting_claim_insert:
  assumes "index_inv s" and "\<not> holds_authority (ar_state r)"
    and "conflicting_claim (insert_assignment r s) sc c k h"
  shows "conflicting_claim s sc c k h \<and> h \<noteq> ar_id r"
  using assms released_class_sound [OF assms(1), of r _ h] released_scope_sound [OF assms(1), of r _ h]
  by (auto simp: conflicting_claim_def insert_class_index insert_scope_index class_claim_def scope_claim_def)

text \<open>What a new assignment carries, as far as the invariants are concerned.\<close>

definition places_plan :: "AssignmentPlan \<Rightarrow> ScopeId \<Rightarrow> AssignmentRecord \<Rightarrow> bool" where
  "places_plan plan derived r \<longleftrightarrow>
     ar_scope_id r = derived \<and> ar_cls r = pl_cls plan \<and> ar_exclusivity r = pl_exclusivity plan \<and>
     ar_exclusive_key r = pl_exclusive_key plan \<and> ar_state r = AS_Dispatched"

lemma places_new_assignment: "places_plan plan derived (trimmed b (new_assignment i plan options derived a l t f))"
  by (simp add: places_plan_def trimmed_def new_assignment_def Let_def)

lemma act_issue_Inr:
  "act_issue issue i = (i', Inr v) \<longleftrightarrow> (\<exists>s. issue (im_state i) = Inr (v, s) \<and> i' = i\<lparr>im_state := s\<rparr>)"
  by (auto simp: act_issue_def split: sum.splits prod.splits)

lemma act_bind_run:
  "m i = (i1, Inr x) \<Longrightarrow> act_bind m f i = f x i1"
  "m i = (i1, Inl e) \<Longrightarrow> act_bind m f i = (i1, Inl e)"
  by (simp_all add: act_bind_def)

lemma act_bind_trim: "act_bind (trim_history r) f i = f (trimmed (im_bounds i) r) (fst (trim_history r i))"
  unfolding act_bind_def by (subst trim_history_eq) simp

lemma act_bind_lift: "act_bind (act_lift x) f i = (case x of Inl e \<Rightarrow> (i, Inl e) | Inr v \<Rightarrow> f v i)"
  by (simp add: act_bind_def act_lift_def split: sum.split)

lemma trim_history_state [simp]: "im_state (fst (trim_history r i)) = im_state i"
  using steady_trim_history [of r] by (simp add: steady_def same_view_def)

lemma fence_successor: "unat (n :: u64) + 1 < 2 ^ 64 \<Longrightarrow> unat (n + 1) = unat n + 1"
  by (simp add: unat_word_ariths)

lemma build_assignment_Inr:
  assumes "build_assignment plan options derived i = (i', Inr r)"
  shows "newly_issued (im_state i') r" and "places_plan plan derived r"
    and "calm (im_state i) (im_state i')" and "im_now i' = im_now i"
    and "ar_fence r = FencingToken (ce_counter (fs_epoch (im_state i))) (fs_next_fence_sequence (im_state i) + 1)"
    and "unat (fs_next_fence_sequence (im_state i)) + 1 < 2 ^ 64"
    and "ids_covered (im_state i) \<Longrightarrow> map_of (fs_assignments (im_state i)) (ar_id r) = None"
proof -
  let ?s = "im_state i"
  let ?a = "''as-'' @ hex64 (fs_next_assignment_ordinal ?s + 1)"
  let ?f = "FencingToken (ce_counter (fs_epoch ?s)) (fs_next_fence_sequence ?s + 1)"
  let ?s' = "?s\<lparr>fs_next_assignment_ordinal := fs_next_assignment_ordinal ?s + 1,
    fs_next_lease := fs_next_lease ?s + 1, fs_next_attempt := fs_next_attempt ?s + 1,
    fs_next_fence_sequence := fs_next_fence_sequence ?s + 1\<rparr>"
  from assms obtain l t where trim: "trim_history (new_assignment (i\<lparr>im_state := ?s'\<rparr>) plan options derived ?a l t ?f)
        (i\<lparr>im_state := ?s'\<rparr>) = (i', Inr r)"
      and bounds: "unat (fs_next_assignment_ordinal ?s) + 1 < 2 ^ 64" "unat (fs_next_fence_sequence ?s) + 1 < 2 ^ 64"
    by (auto simp: build_assignment_def act_bind_Inr act_issue_Inr issue_assignment_id_Inr issue_lease_Inr
        issue_attempt_Inr issue_fence_Inr)
  have s': "im_state i' = ?s'" "im_now i' = im_now i"
    using trim steadyD [OF steady_trim_history trim] by (simp_all add: same_view_def)
  have r: "r = trimmed (im_bounds i) (new_assignment (i\<lparr>im_state := ?s'\<rparr>) plan options derived ?a l t ?f)"
    using trim by (subst (asm) trim_history_eq) simp
  show "newly_issued (im_state i') r"
    unfolding newly_issued_def r s'(1)
    by (auto simp: trimmed_def new_assignment_def Let_def fence_issued_def)
  show "places_plan plan derived r" unfolding r by (rule places_new_assignment)
  show "calm (im_state i) (im_state i')"
    using bounds by (simp add: s' calm_def)
  show "im_now i' = im_now i" by (rule s')
  show "ar_fence r = ?f" unfolding r by (simp add: trimmed_def new_assignment_def Let_def)
  show "unat (fs_next_fence_sequence ?s) + 1 < 2 ^ 64" by (rule bounds)
  have id: "ar_id r = ?a" unfolding r by (simp add: trimmed_def new_assignment_def Let_def)
  show "map_of (fs_assignments ?s) (ar_id r) = None" if "ids_covered ?s"
  proof (rule ccontr)
    assume "map_of (fs_assignments ?s) (ar_id r) \<noteq> None"
    then have "map_of (fs_assignments ?s) ?a \<noteq> None" unfolding id .
    then have "?a \<in> dom (map_of (fs_assignments ?s))" by blast
    with that have "fs_next_assignment_ordinal ?s + 1 \<le> fs_next_assignment_ordinal ?s"
      unfolding ids_covered_def by (metis append_eq_append_conv hex64_inject)
    with fence_successor [OF bounds(1)] show False by (simp add: word_le_nat_alt)
  qed
qed

lemma insert_and_answer_state:
  "calm (insert_assignment r (im_state i)) (im_state (fst (insert_and_answer r request_id fingerprint i)))"
proof -
  let ?i = "i\<lparr>im_state := insert_assignment r (im_state i)\<rparr>"
  have "calms (act_bind (act_lift x) (\<lambda>response. record_idempotency request_id fingerprint RC_Ok response tm))" for x tm
    by (intro calm_leaf)
  from calms_keepsD [OF this, of ?i] show ?thesis
    by (simp add: insert_and_answer_def act_bind_def on_state_def act_update_def)
qed

text \<open>Storing either leaves the state alone or inserts the record; when it succeeds the record is in.\<close>

lemma store_assignment_state:
  assumes "store_assignment r request_id fingerprint type i = (i', res)"
  shows "im_state i' = im_state i \<and> (\<exists>e. res = Inl e) \<or> calm (insert_assignment r (im_state i)) (im_state i')"
proof -
  obtain x where "store_assignment r request_id fingerprint type i = act_bind (act_lift x) (\<lambda>payload.
      act_bind (commit type payload) (\<lambda>_. insert_and_answer r request_id fingerprint)) i"
    unfolding store_assignment_def by blast
  note eq = this
  show ?thesis
  proof (cases x)
    case (Inl e)
    with assms eq show ?thesis by (auto simp: act_bind_def act_lift_def)
  next
    case x: (Inr payload)
    obtain i1 r1 where c: "commit type payload i = (i1, r1)" by (cases "commit type payload i")
    then have same: "im_state i1 = im_state i"
      using steadyD [OF steady_commit c] by (simp add: same_view_def)
    show ?thesis
    proof (cases r1)
      case (Inl e)
      with assms eq x c same show ?thesis by (auto simp: act_bind_def act_lift_def)
    next
      case (Inr u)
      with assms eq x c same insert_and_answer_state [of r i1 request_id fingerprint] show ?thesis
        by (simp add: act_bind_def act_lift_def)
    qed
  qed
qed

lemma store_transition_state:
  assumes "store_transition r i = (i', Inr u)"
  shows "calm (insert_assignment (trimmed (im_bounds i) r) (im_state i)) (im_state i')"
proof -
  let ?i = "fst (trim_history r i)"
  have "store_assignment (trimmed (im_bounds i) r) [] digest_zero RT_AssignmentTransitioned ?i = (i', Inr u)"
    using assms unfolding store_transition_def act_bind_def by (subst (asm) trim_history_eq) simp
  moreover have "im_state ?i = im_state i"
    using steady_trim_history [of r] by (simp add: steady_def same_view_def)
  ultimately show ?thesis using store_assignment_state by fastforce
qed

lemma trimmed_state [simp]: "ar_state (trimmed b r) = ar_state r"
  by (simp add: trimmed_def)

lemma transition_state [simp]: "ar_state (transition_to state reason at' r) = state"
  by (simp add: transition_to_def)

lemma supersede_holder_state:
  assumes "supersede_holder plan derived replacing i = (i', Inr u)"
  shows "i' = i \<and> (replacing = [] \<or> map_of (fs_assignments (im_state i)) replacing = None) \<or>
    (\<exists>p. map_of (fs_assignments (im_state i)) replacing = Some p \<and>
       calm (insert_assignment (trimmed (im_bounds i) (transition_to AS_Superseded RC_Superseded (im_now i) p))
         (im_state i)) (im_state i'))"
proof (cases "replacing = [] \<or> map_of (fs_assignments (im_state i)) replacing = None")
  case True
  with assms show ?thesis by (auto simp: supersede_holder_def split: if_splits)
next
  case False
  then obtain p where p: "map_of (fs_assignments (im_state i)) replacing = Some p" by auto
  from assms False p obtain i1 i2 where st: "store_transition
      (transition_to AS_Superseded RC_Superseded (im_now i) p) i = (i1, Inr ())"
    and i2: "note_reassignment derived (pl_cls plan) (im_now i) i1 = (i2, Inr ())" "i' = bump ''replaces_accepted'' i2"
    by (auto simp: supersede_holder_def act_bind_Inr act_update_def)
  have "calm (im_state i1) (im_state i2)"
    using calms_keepsD [OF calms_note_reassignment, of i1 derived "pl_cls plan" "im_now i"] i2(1) by simp
  with store_transition_state [OF st] i2 p show ?thesis by (auto intro: calm_trans)
qed

text \<open>
  After a holder was superseded it has no claim, no claim was added, and the tokens issued for the
  new assignment are still fresh.
\<close>

lemma supersede_holder_claims:
  assumes "supersede_holder plan derived replacing i = (i', Inr u)" and inv: "index_inv (im_state i)"
    and claim: "conflicting_claim (im_state i') sc c k h"
  shows "conflicting_claim (im_state i) sc c k h \<and> h \<noteq> replacing"
  using supersede_holder_state [OF assms(1)]
proof (elim disjE exE conjE)
  assume "i' = i" "replacing = []"
  with inv claim show ?thesis
    by (fastforce simp: index_inv_def claims_sound_def keyed_assignments_def conflicting_claim_def)
next
  assume "i' = i" "map_of (fs_assignments (im_state i)) replacing = None"
  with inv claim show ?thesis
    by (fastforce simp: index_inv_def claims_sound_def conflicting_claim_def)
next
  fix p assume p: "map_of (fs_assignments (im_state i)) replacing = Some p"
    and calm: "calm (insert_assignment (trimmed (im_bounds i) (transition_to AS_Superseded RC_Superseded (im_now i) p))
         (im_state i)) (im_state i')"
  from p inv have "ar_id p = replacing" by (auto simp: index_inv_def keyed_assignments_def)
  with conflicting_claim_insert [OF inv, of "trimmed (im_bounds i) (transition_to AS_Superseded RC_Superseded (im_now i) p)"]
    claim calm show ?thesis by (simp add: conflicting_claim_calm)
qed

lemma supersede_holder_newly_issued:
  assumes "supersede_holder plan derived replacing i = (i', Inr u)"
    and new: "newly_issued (im_state i) r"
  shows "newly_issued (im_state i') r"
  using supersede_holder_state [OF assms(1)]
proof (elim disjE exE conjE)
  fix p assume p: "map_of (fs_assignments (im_state i)) replacing = Some p"
    and calm: "calm (insert_assignment (trimmed (im_bounds i) (transition_to AS_Superseded RC_Superseded (im_now i) p))
         (im_state i)) (im_state i')"
  show ?thesis using newly_issued_insert [OF new] calm by (rule newly_issued_calm)
qed (use new in simp_all)

lemma supersede_holder_dom:
  assumes "supersede_holder plan derived replacing i = (i', Inr u)" and "index_inv (im_state i)"
  shows "dom (map_of (fs_assignments (im_state i'))) = dom (map_of (fs_assignments (im_state i)))"
  using supersede_holder_state [OF assms(1)] assms(2)
  by (auto simp: calm_def index_inv_def keyed_assignments_def split: if_splits)

lemma calms_build_assignment: "calms (build_assignment plan options derived)"
proof -
  have "calms (\<lambda>i. trim_history (new_assignment i plan options derived a l t f) i)" for a l t f
    by (rule calms_at) (rule exI, rule conjI [OF _ refl], rule calms_steady [OF steady_trim_history])
  then show ?thesis unfolding build_assignment_def by (intro calms_bind calm_intros)
qed

lemma steady_authorize_checked [steady_intros]: "steady (authorize_checked plan options derived d rule)"
  unfolding authorize_checked_def
  by (rule steady_bind [OF steady_choose_replaced]) (auto simp: steady_def Let_def split: sum.split)

lemma authorize_checked_Inr:
  assumes "authorize_checked plan options derived d rule i = (i', Inr replacing)"
    and "om_ok (fs_exclusive_by_class (im_state i))" and "pl_exclusivity plan = EX_Exclusive" and "derived \<noteq> []"
    and "conflicting_claim (im_state i) derived (pl_cls plan) (pr_exclusive_key rule) h"
  shows "h = replacing"
proof -
  from assms(1) obtain i1 where chosen: "choose_replaced plan options derived rule i = (i1, Inr replacing)"
    and eligible: "ca_eligible (evaluate_device (authorize_context i1 plan rule derived replacing) d)"
    by (auto simp: authorize_checked_def act_bind_Inr Let_def split: if_splits sum.splits)
  have "im_state i1 = im_state i"
    using steadyD [OF steady_choose_replaced chosen] by (simp add: same_view_def)
  with eligible assms(3) have
    "scope_has_exclusive_conflict (im_state i) derived (pl_cls plan) (pr_exclusive_key rule) replacing = None"
    by (simp add: evaluate_device_admissible device_admissible_def authorize_context_def plan_context_def
        synthetic_request_def)
  with scope_conflict [OF assms(2,4)] assms(5) show ?thesis by blast
qed

lemma check_plan_Inr:
  assumes "check_plan bounds s plan = Inr (derived, d, rule)"
  shows "find_rule (fs_policy s) (pl_cls plan) = Some rule" and "pl_scope_id plan = derived"
    and "find_device (fs_topology s) (pl_device plan) = Some d" and "\<not> dr_decommissioned d"
    and "dr_incarnation d = pl_incarnation plan"
    and "gb_topology (pl_binding plan) = ts_generation (fs_topology s)"
    and "gb_policy (pl_binding plan) = ps_generation (fs_policy s)"
  using assms by (auto simp: check_plan_def and_then_Inr split: option.splits if_splits)

text \<open>The plan claims exclusivity in the mode the current policy prescribes.\<close>

definition key_current :: "FabricState \<Rightarrow> AssignmentPlan \<Rightarrow> bool" where
  "key_current s plan \<longleftrightarrow>
     (case find_rule (fs_policy s) (pl_cls plan) of None \<Rightarrow> True | Some rule \<Rightarrow> pl_exclusive_key plan = pr_exclusive_key rule)"

context fabric_invariant
begin

lemma supersede_holder_keeps: "keeps inv (supersede_holder plan derived replacing)"
  unfolding keeps_def
proof (intro allI impI)
  fix i :: Impl assume inv: "inv (im_state i)"
  show "inv (im_state (fst (supersede_holder plan derived replacing i)))"
  proof (cases "replacing = [] \<or> map_of (fs_assignments (im_state i)) replacing = None")
    case True
    with inv show ?thesis by (auto simp: supersede_holder_def)
  next
    case False
    then obtain p where p: "map_of (fs_assignments (im_state i)) replacing = Some p" by auto
    have "inv (im_state (fst (act_bind (store_transition (transition_to AS_Superseded RC_Superseded (im_now i) p)) (\<lambda>_.
        act_bind (note_reassignment derived (pl_cls plan) (im_now i)) (\<lambda>_. act_update (bump ''replaces_accepted''))) i)))"
      by (intro bind_keeps transition_keeps [OF inv p] keeps_calm calm_leaf) simp_all
    with False p show ?thesis by (simp add: supersede_holder_def)
  qed
qed

lemma place_assignment_keeps:
  assumes inv: "inv (im_state i)"
    and free: "\<And>h. strict \<Longrightarrow> pl_exclusivity plan = EX_Exclusive \<Longrightarrow> derived \<noteq> [] \<Longrightarrow>
      conflicting_claim (im_state i) derived (pl_cls plan) (pl_exclusive_key plan) h \<Longrightarrow> h = replacing"
  shows "inv (im_state (fst (place_assignment plan options derived replacing i)))"
proof -
  obtain i1 r1 where build: "build_assignment plan options derived i = (i1, r1)"
    by (cases "build_assignment plan options derived i")
  have inv1: "inv (im_state i1)" using keeps_calm_at [OF inv calms_build_assignment] build by (metis fst_conv)
  show ?thesis
  proof (cases r1)
    case (Inl e)
    with build inv1 show ?thesis by (simp add: place_assignment_def act_bind_def)
  next
    case r: (Inr r)
    note built = build_assignment_Inr [OF build [unfolded r]]
    obtain i2 r2 where super: "supersede_holder plan derived replacing i1 = (i2, r2)"
      by (cases "supersede_holder plan derived replacing i1")
    have inv2: "inv (im_state i2)" using keepsD [OF supersede_holder_keeps inv1] super by (metis fst_conv)
    show ?thesis
    proof (cases r2)
      case (Inl e)
      with build r super inv2 show ?thesis by (simp add: place_assignment_def act_bind_def)
    next
      case ok: (Inr u)
      have idx: "index_inv (im_state i1)" by (rule base [OF inv1])
      have new: "newly_issued (im_state i2) r"
        by (rule supersede_holder_newly_issued [OF super [unfolded ok] built(1)])
      have "unclaimed (im_state i2) r" if strict
        unfolding unclaimed_def
      proof (intro impI allI, elim conjE)
        fix h assume "ar_exclusivity r = EX_Exclusive" "ar_scope_id r \<noteq> []"
          and "conflicting_claim (im_state i2) (ar_scope_id r) (ar_cls r) (ar_exclusive_key r) h"
        with supersede_holder_claims [OF super [unfolded ok] idx] free [OF that] built(2,3)
        show "h = ar_id r" by (metis conflicting_claim_calm places_plan_def)
      qed
      moreover have "map_of (fs_assignments (im_state i2)) (ar_id r) = None" if counted
      proof -
        have "map_of (fs_assignments (im_state i)) (ar_id r) = None" by (rule built(7) [OF counted_ids [OF that inv]])
        with built(3) have "ar_id r \<notin> dom (map_of (fs_assignments (im_state i1)))" by (simp add: calm_def domIff)
        with supersede_holder_dom [OF super [unfolded ok] idx] show ?thesis by (metis domIff)
      qed
      ultimately have "inv (insert_assignment r (im_state i2))" by (intro place [OF inv2 new])
      with inv2 have "inv (im_state (fst (store_new_assignment plan options r i2)))"
        unfolding store_new_assignment_def by (simp add: store_assignment_keeps)
      then have "inv (im_state (fst (act_bind (store_new_assignment plan options r) (\<lambda>_.
          act_bind (act_update (\<lambda>i. bump ''applies_accepted''
            (if ar_mode r = EM_HostFallback then bump ''host_fallbacks'' i else i))) (\<lambda>_. act_return r)) i2)))"
        by (intro bind_keeps keeps_calm calms_bind calm_leaf) (simp_all add: calms_def act_update_def)
      with build r super ok show ?thesis by (simp add: place_assignment_def act_bind_run)
    qed
  qed
qed

lemma authorize_locked_keeps:
  assumes inv: "inv (im_state i)" and key: "strict \<Longrightarrow> key_current (im_state i) (pn_plan planned)"
  shows "inv (im_state (fst (authorize_locked planned options i)))"
proof (cases "check_plan (im_bounds i) (im_state i) (pn_plan planned)")
  case (Inl e)
  with inv show ?thesis by (simp add: authorize_locked_def)
next
  case (Inr x)
  obtain derived d rule where x: "x = (derived, d, rule)" by (cases x)
  let ?m = "authorize_checked (pn_plan planned) options derived d rule"
  obtain i1 res where m: "?m i = (i1, res)" by (cases "?m i")
  have same: "im_state i1 = im_state i"
    using steadyD [OF steady_authorize_checked m] by (simp add: same_view_def)
  show ?thesis
  proof (cases res)
    case (Inl e)
    with Inr x m inv same show ?thesis by (simp add: authorize_locked_def act_bind_def)
  next
    case ok: (Inr replacing)
    have "om_ok (fs_exclusive_by_class (im_state i))" using base [OF inv] by (simp add: index_inv_def)
    note only = authorize_checked_Inr [OF m [unfolded ok] this]
    have "inv (im_state (fst (place_assignment (pn_plan planned) options derived replacing i1)))"
    proof (rule place_assignment_keeps)
      show "inv (im_state i1)" using inv same by simp
      fix h assume strict and *: "pl_exclusivity (pn_plan planned) = EX_Exclusive" "derived \<noteq> []"
        "conflicting_claim (im_state i1) derived (pl_cls (pn_plan planned)) (pl_exclusive_key (pn_plan planned)) h"
      with key check_plan_Inr(1) [OF Inr [unfolded x]] same only show "h = replacing"
        by (simp add: key_current_def)
    qed
    with Inr x m ok show ?thesis by (simp add: authorize_locked_def act_bind_def)
  qed
qed

end

subsection \<open>Requests\<close>

lemma plan_refuse_decision [simp]: "pn_decision (plan_refuse reasons res) = DE_Refuse"
  by (simp add: plan_refuse_def)

lemma plan_select_accepted:
  assumes "pn_decision (plan_select c res) \<noteq> DE_Refuse"
  shows "pl_exclusive_key (pn_plan (plan_select c res)) = pr_exclusive_key (ec_rule c)"
    and "pl_cls (pn_plan (plan_select c res)) = rq_cls (ec_request c)"
  using assms by (auto simp: plan_select_def plan_accept_def plan_for_def Let_def split: option.splits if_splits)

lemma plan_locked_key:
  assumes "plan_locked rq cancel k i = (i', Inr planned)" and "pn_decision planned \<noteq> DE_Refuse"
  shows "key_current (im_state i) (pn_plan planned)"
proof -
  from assms obtain f rule scope_id replacing res where
      rule: "find_rule (fs_policy (im_state i)) (rq_cls rq) = Some rule"
      and planned: "planned = plan_select (plan_context i rq f rule scope_id replacing) res"
    by (auto simp: plan_locked_def Let_def split: if_splits sum.splits option.splits)
  with assms(2) plan_select_accepted [of "plan_context i rq f rule scope_id replacing" res] show ?thesis
    by (simp add: key_current_def plan_context_def)
qed

text \<open>
  Nobody else holds a claim that conflicts with the assignment's.  Regaining authority is safe
  under this condition, which \<open>reauthorize\<close> and \<open>report_effect\<close> do not test.
\<close>

definition regain_safe :: "FabricState \<Rightarrow> AssignmentId \<Rightarrow> bool" where
  "regain_safe s a = (case map_of (fs_assignments s) a of
     None \<Rightarrow> True
   | Some r \<Rightarrow> ar_exclusivity r \<noteq> EX_Exclusive \<or>
       scope_has_exclusive_conflict s (ar_scope_id r) (ar_cls r) (ar_exclusive_key r) a = None)"

definition same_claim :: "AssignmentRecord \<Rightarrow> AssignmentRecord \<Rightarrow> bool" where
  "same_claim r0 r \<longleftrightarrow> ar_id r = ar_id r0 \<and> ar_scope_id r = ar_scope_id r0 \<and> ar_cls r = ar_cls r0 \<and>
     ar_exclusivity r = ar_exclusivity r0 \<and> ar_exclusive_key r = ar_exclusive_key r0"

lemma regain_unclaimed:
  assumes "index_inv s" and "map_of (fs_assignments s) a = Some r0" and "same_claim r0 r" and "regain_safe s a"
  shows "unclaimed s r"
proof -
  have "ar_id r = a" using assms by (auto simp: index_inv_def keyed_assignments_def same_claim_def)
  moreover have "om_ok (fs_exclusive_by_class s)" using assms(1) by (simp add: index_inv_def)
  ultimately show ?thesis
    using assms(2-4) scope_conflict [of s "ar_scope_id r" "ar_cls r" "ar_exclusive_key r" a]
    by (auto simp: unclaimed_def regain_safe_def same_claim_def)
qed

lemma same_claim_simps [simp]:
  "same_claim r0 (trimmed b r) \<longleftrightarrow> same_claim r0 r"
  "same_claim r0 (transition_to state reason at' r) \<longleftrightarrow> same_claim r0 r" "same_claim r r"
  by (simp_all add: same_claim_def trimmed_def transition_to_def)

lemma fold_bump_state [simp]: "im_state (fold bump cs i) = im_state i"
  by (induction cs arbitrary: i) simp_all

context fabric_invariant
begin

lemma with_idempotency_keeps_at:
  assumes "inv (im_state i)" and "inv (im_state (fst (fresh i)))"
  shows "inv (im_state (fst (with_idempotency request_id fingerprint hits conflict fresh i)))"
  using assms by (simp add: with_idempotency_def split: option.split)

lemma refuse_placement_keeps: "keeps inv (refuse_placement request_id fingerprint at' e)"
  unfolding refuse_placement_def by (intro keeps_calm calm_leaf)

lemma apply_fresh_keeps:
  assumes "inv (im_state i)"
  shows "inv (im_state (fst (apply_fresh rq options fingerprint i)))"
proof -
  obtain i1 res where plan: "plan_locked rq (ao_cancel options) 1 i = (i1, res)"
    by (cases "plan_locked rq (ao_cancel options) 1 i")
  have same: "im_state i1 = im_state i"
    using steadyD [OF steady_plan_locked plan] by (simp add: same_view_def)
  show ?thesis
  proof (cases res)
    case (Inl e)
    with plan same assms show ?thesis by (simp add: apply_fresh_def)
  next
    case (Inr planned)
    show ?thesis
    proof (cases "pn_decision planned = DE_Refuse")
      case True
      with Inr plan same assms show ?thesis
        by (simp add: apply_fresh_def keepsD [OF refuse_placement_keeps])
    next
      case False
      let ?auth = "authorize_locked planned (effective_options rq options planned) (bump ''plans_accepted'' i1)"
      have "inv (im_state (fst ?auth))"
        using plan_locked_key [OF plan [unfolded Inr] False] assms same by (intro authorize_locked_keeps) simp_all
      with False Inr plan show ?thesis
        by (cases ?auth) (auto simp: apply_fresh_def keepsD [OF refuse_placement_keeps] split: sum.split)
    qed
  qed
qed

lemma apply_locked_keeps: "keeps inv (apply_locked rq options)"
  unfolding keeps_def apply_locked_def Let_def by (simp add: with_idempotency_keeps_at apply_fresh_keeps)

lemma fabric_apply_keeps: "keeps inv (fabric_apply rq options)"
  unfolding fabric_apply_def by (intro keeps_guarded apply_locked_keeps)

lemma guarded_keeps_at: "inv (im_state i) \<Longrightarrow> inv (im_state (fst (m i))) \<Longrightarrow> inv (im_state (fst (guarded m i)))"
  by (simp add: guarded_def act_bind_def require_accepted_def require_running_def require_def split: sum.split)

lemma apply_plan_keeps:
  assumes inv: "inv (im_state i)" and "strict \<Longrightarrow> key_current (im_state i) (pn_plan planned)"
  shows "inv (im_state (fst (apply_plan planned options i)))"
proof -
  let ?auth = "authorize_locked planned (options\<lparr>ao_allow_replacement :=
    (ao_allow_replacement options \<or> pn_decision planned = DE_Replace)\<rparr>) i"
  have "inv (im_state (fst ?auth))" by (rule authorize_locked_keeps [OF assms])
  then have "inv (im_state (fst (case ?auth of
      (i1, Inl e) \<Rightarrow> (if ao_request_id options = [] then (bump ''applies_refused'' i1, Inl e)
         else refuse_placement (ao_request_id options) (pl_plan_digest (pn_plan planned)) (im_now i) e
                (bump ''applies_refused'' i1))
    | (i1, Inr r) \<Rightarrow> (i1, Inr r))))"
    by (cases ?auth) (auto simp: keepsD [OF refuse_placement_keeps] split: sum.split)
  with inv show ?thesis
    unfolding apply_plan_def by (intro guarded_keeps_at) (simp_all add: act_fail_def with_idempotency_keeps_at)
qed

lemma fabric_replace_keeps: "keeps inv (fabric_replace rq)"
  unfolding fabric_replace_def
  by (intro keeps_guarded keeps_counting) (auto simp: keeps_def keepsD [OF apply_locked_keeps] split: option.split)

lemma revoke_fresh_keeps:
  assumes inv: "inv (im_state i)"
  shows "inv (im_state (fst (revoke_fresh rq cancel i)))"
proof (cases "map_of (fs_assignments (im_state i)) (rk_assignment rq)")
  case None
  with inv show ?thesis by (simp add: revoke_fresh_def)
next
  case (Some r)
  let ?r = "transition_to AS_Revoked (rk_reason rq) (im_now i) r"
  let ?i = "fst (trim_history ?r i)"
  have "inv (insert_assignment (trimmed (im_bounds i) ?r) (im_state i))"
    using Some keyed [OF inv Some] by (intro routine [OF inv, of _ r]) (simp_all add: routine_transition)
  with inv have stored: "inv (im_state (fst (store_assignment (trimmed (im_bounds i) ?r) a b c ?i)))" for a b c
    by (intro store_assignment_keeps) simp_all
  have "inv (im_state (fst (act_bind (counting ''revokes_refused''
      (act_bind (act_lift x) (\<lambda>_. act_bind (trim_history ?r) (\<lambda>r'. act_bind (store_assignment r' a b c) (\<lambda>_. act_return r')))))
      (\<lambda>r'. act_bind (act_update (bump ''revokes_accepted'')) (\<lambda>_. act_return r')) i)))" for x :: Status and a b c
  proof (rule bind_keeps, rule counting_keeps)
    show "inv (im_state (fst (act_bind (act_lift x) (\<lambda>_. act_bind (trim_history ?r) (\<lambda>r'.
        act_bind (store_assignment r' a b c) (\<lambda>_. act_return r'))) i)))"
      using inv by (auto simp: act_bind_lift act_bind_trim split: sum.split intro!: bind_keeps stored keeps_calm calm_leaf)
  qed (intro keeps_calm calm_leaf)
  with inv Some show ?thesis by (simp add: revoke_fresh_def)
qed

lemma fabric_revoke_keeps: "keeps inv (fabric_revoke rq cancel)"
  unfolding fabric_revoke_def
  by (rule keeps_guarded) (simp add: keeps_def with_idempotency_keeps_at revoke_fresh_keeps)

lemma fabric_revalidate_keeps: "keeps inv (fabric_revalidate cancel)"
  unfolding fabric_revalidate_def
  by (intro keeps_bind [OF keeps_steady [OF steady_require_running]] revalidate_locked_keeps)

end

subsection \<open>Regaining authority\<close>

lemma reauthorized_simps [simp]:
  "same_claim r (reauthorized s at' rq validity r lease attempt fence)"
  "ar_id (reauthorized s at' rq validity r lease attempt fence) = ar_id r"
  "ar_fence (reauthorized s at' rq validity r lease attempt fence) = fence"
  by (simp_all add: reauthorized_def transition_to_def same_claim_def)

lemma check_reauthorize_state:
  "check_reauthorize s at' rq r = Inr validity \<Longrightarrow> ar_state r = AS_Suspended \<or> ar_state r = AS_Degraded"
  by (auto simp: check_reauthorize_def split: if_splits)

lemma conflict_calm:
  assumes "calm s s'"
  shows "scope_has_exclusive_conflict s' = scope_has_exclusive_conflict s"
proof -
  have "fs_exclusive_by_class s' = fs_exclusive_by_class s" "fs_exclusive_by_scope s' = fs_exclusive_by_scope s"
    using assms by (simp_all add: calm_def)
  then show ?thesis unfolding fun_eq_iff scope_has_exclusive_conflict_def by (simp only:) simp
qed

lemma regain_safe_calm:
  assumes "calm s s'"
  shows "regain_safe s' a \<longleftrightarrow> regain_safe s a"
proof -
  have "fs_assignments s' = fs_assignments s" using assms by (simp add: calm_def)
  then show ?thesis unfolding regain_safe_def conflict_calm [OF assms] by simp
qed

lemma effect_transition_same:
  assumes "effect_transition report at' r = Some (counter, r')"
  shows "same_claim r r'" and "ar_fence r' = ar_fence r"
    and "\<not> is_terminal (ar_state r) \<Longrightarrow> ar_state r \<noteq> AS_Degraded \<Longrightarrow> routine_update r r'"
  using assms
  by (auto simp: effect_transition_def routine_transition routine_update_def transition_to_def same_claim_def
      split: EffectOutcome.splits if_splits)

context fabric_invariant
begin

lemma regain_keeps:
  assumes "inv s" and "map_of (fs_assignments s) a = Some r0" and "same_claim r0 r" and "later_version s r0 r"
    and "strict \<Longrightarrow> regain_safe s a"
  shows "inv (insert_assignment r s)"
proof (rule update [OF assms(1) _ assms(4)])
  show "map_of (fs_assignments s) (ar_id r) = Some r0"
    using assms(2,3) keyed [OF assms(1,2)] by (simp add: same_claim_def)
  show "unclaimed s r" if strict
    using base [OF assms(1)] assms(2,3,5) that by (auto intro: regain_unclaimed)
qed

lemma reauthorize_store_keeps:
  assumes inv: "inv (im_state i)" and r: "map_of (fs_assignments (im_state i)) a = Some r"
    and state: "\<not> is_terminal (ar_state r)" and safe: "strict \<Longrightarrow> regain_safe (im_state i) a"
    and fence: "fence_issued (im_state i) fence"
  shows "inv (im_state (fst (act_bind (trim_history (reauthorized (im_state i) (im_now i) rq validity r lease attempt fence)) (\<lambda>r'.
      act_bind (counting ''reauthorizations_refused'' (store_assignment r' q fp RT_AssignmentTransitioned)) (\<lambda>_.
      act_bind (act_update (bump ''reauthorizations_accepted'')) (\<lambda>_. act_return r'))) i)))"
proof -
  let ?r = "trimmed (im_bounds i) (reauthorized (im_state i) (im_now i) rq validity r lease attempt fence)"
  have "later_version (im_state i) r ?r"
    using fence state by (simp add: later_version_def trimmed_def)
  then have "inv (insert_assignment ?r (im_state i))"
    using safe by (intro regain_keeps [OF inv r]) simp_all
  with inv show ?thesis
    unfolding act_bind_trim by (intro bind_keeps counting_keeps store_assignment_keeps keeps_calm calm_leaf) simp_all
qed

lemma reauthorize_fresh_keeps:
  assumes inv: "inv (im_state i)" and safe: "strict \<Longrightarrow> regain_safe (im_state i) (ra_assignment rq)"
  shows "inv (im_state (fst (reauthorize_fresh rq i)))"
proof (cases "map_of (fs_assignments (im_state i)) (ra_assignment rq)")
  case None
  with inv show ?thesis by (simp add: reauthorize_fresh_def)
next
  case (Some r)
  let ?store = "\<lambda>validity lease attempt fence i1.
     act_bind (trim_history (reauthorized (im_state i1) (im_now i1) rq validity r lease attempt fence)) (\<lambda>r'.
     act_bind (counting ''reauthorizations_refused''
       (store_assignment r' (ra_request_id rq) (reauthorize_fingerprint rq) RT_AssignmentTransitioned)) (\<lambda>_.
     act_bind (act_update (bump ''reauthorizations_accepted'')) (\<lambda>_. act_return r'))) i1"
  let ?P = "\<lambda>j. inv (im_state j) \<and> calm (im_state i) (im_state j)"
  have issue: "?P i1" if "act_issue f j = (i1, res)" "?P j" "calms (act_issue f)" for f j i1 res
    using that calms_keepsD [OF that(3), of j] keeps_calm_at [OF _ that(3), of j] calm_trans by fastforce
  have final: "inv (im_state (fst (act_bind (act_issue issue_fence) (?store validity lease attempt) j)))"
    if "?P j" "\<not> is_terminal (ar_state r)" for validity lease attempt j
  proof -
    obtain i1 res where f: "act_issue issue_fence j = (i1, res)" by (cases "act_issue issue_fence j")
    have "?P i1" by (rule issue [OF f that(1) calms_issue_fence])
    moreover have "fence_issued (im_state i1) fence" if "res = Inr fence" for fence
      using f that by (auto simp: act_issue_Inr issue_fence_Inr fence_issued_def)
    ultimately show ?thesis
      using f safe that(2) Some by (cases res) (auto simp: act_bind_run regain_safe_calm calm_def
          intro!: reauthorize_store_keeps [of _ "ra_assignment rq"])
  qed
  have "inv (im_state (fst (act_bind (act_issue issue_lease) (\<lambda>lease. act_bind (act_issue issue_attempt) (\<lambda>attempt.
      act_bind (act_issue issue_fence) (?store validity lease attempt))) i)))"
    if "\<not> is_terminal (ar_state r)" for validity
  proof -
    obtain i1 res where l: "act_issue issue_lease i = (i1, res)" by (cases "act_issue issue_lease i")
    note P1 = issue [OF l _ calms_issue_lease]
    obtain i2 res2 where a: "act_issue issue_attempt i1 = (i2, res2)" by (cases "act_issue issue_attempt i1")
    note P2 = issue [OF a P1 calms_issue_attempt]
    show ?thesis using l a P1 P2 inv final [OF _ that] by (cases res; cases res2) (simp_all add: act_bind_run)
  qed
  with inv Some check_reauthorize_state [of "im_state i" "im_now i" rq r] show ?thesis
    by (auto simp: reauthorize_fresh_def counting_def act_lift_def act_bind_def [of "counting _ _"] split: sum.split)
qed

lemma fabric_reauthorize_keeps:
  assumes "inv (im_state i)" and "strict \<Longrightarrow> regain_safe (im_state i) (ra_assignment rq)"
  shows "inv (im_state (fst (fabric_reauthorize rq i)))"
  unfolding fabric_reauthorize_def
  by (intro guarded_keeps_at with_idempotency_keeps_at reauthorize_fresh_keeps assms)

lemma report_effect_fresh_keeps:
  assumes inv: "inv (im_state i)" and safe: "strict \<Longrightarrow> regain_safe (im_state i) (er_assignment report)"
  shows "inv (im_state (fst (report_effect_fresh report i)))"
proof (cases "map_of (fs_assignments (im_state i)) (er_assignment report)")
  case None
  with inv show ?thesis by (simp add: report_effect_fresh_def)
next
  case (Some current)
  let ?r = "trimmed (im_bounds i) (current\<lparr>ar_effects := ar_effects current @ [effect_of report]\<rparr>)"
  obtain j where j: "trim_history (current\<lparr>ar_effects := ar_effects current @ [effect_of report]\<rparr>) i = (j, Inr ?r)"
    using trim_history_eq by blast
  then have same: "im_state j = im_state i" by (metis fst_conv trim_history_state)
  have "inv (im_state (fst (act_bind (store_effect r' report q fp) (\<lambda>_. act_return r') (bump counter j))))"
    if "effect_transition report at' ?r = Some (counter, r')" "\<not> is_terminal (ar_state current)" for at' counter r' q fp
  proof -
    have "same_claim current r'" "later_version (im_state i) current r'"
      using effect_transition_same(1,2) [OF that(1)] that(2)
      by (simp_all add: same_claim_def later_version_def trimmed_def)
    then have "inv (insert_assignment r' (im_state i))" by (intro regain_keeps [OF inv Some] safe)
    with inv same show ?thesis by (intro bind_keeps store_effect_keeps keeps_calm calm_leaf) simp_all
  qed
  with inv Some j same show ?thesis
    by (auto simp: report_effect_fresh_def split: sum.split option.split)
qed

lemma report_effect_keeps:
  assumes "inv (im_state i)" and "strict \<Longrightarrow> regain_safe (im_state i) (er_assignment report)"
  shows "inv (im_state (fst (report_effect report i)))"
  unfolding report_effect_def
  by (intro guarded_keeps_at with_idempotency_keeps_at report_effect_fresh_keeps assms)

end

end
