(* ===== verification/Nof_Fabric.thy ===== *)
theory Nof_Fabric
  imports Nof_Safety
begin

text \<open>
  The fabric as a state machine.  \<open>FabricOp\<close> lists the public operations of the class
  \<open>Fabric\<close> and the passing of time, \<open>perform\<close> runs one of them.  The invariants of the
  library are interpreted here: the indexes point only to holders (\<open>index_inv\<close>), every
  identifier in use was issued (\<open>numbered_inv\<close>), every fence is old or issued
  (\<open>fenced_inv\<close>), and no two conflicting assignments hold authority (\<open>exclusive_inv\<close>).
\<close>

subsection \<open>The invariants\<close>

lemma index_inv_calm: "index_inv s \<Longrightarrow> calm s s' \<Longrightarrow> index_inv s'"
  by (simp add: index_inv_def keyed_assignments_def claims_sound_def calm_def)

lemma exclusive_inv_calm:
  assumes "exclusive_inv s" and "calm s s'"
  shows "exclusive_inv s'"
proof -
  have "index_inv s'" using assms by (auto simp: exclusive_inv_def intro: index_inv_calm)
  moreover have "fs_assignments s' = fs_assignments s" "fs_exclusive_by_class s' = fs_exclusive_by_class s"
      "fs_exclusive_by_scope s' = fs_exclusive_by_scope s"
    using assms(2) by (simp_all add: calm_def)
  ultimately show ?thesis
    using assms(1) by (simp add: exclusive_inv_def claims_complete_def claims_unmixed_def)
qed

lemma index_inv_update:
  "index_inv s \<Longrightarrow> map_of (fs_assignments s) (ar_id r) = Some r0 \<Longrightarrow> index_inv (insert_assignment r s)"
  by (rule index_inv_insert) (auto simp: index_inv_def keyed_assignments_def)

lemma index_inv_place: "index_inv s \<Longrightarrow> newly_issued s r \<Longrightarrow> index_inv (insert_assignment r s)"
  by (rule index_inv_insert) (auto simp: newly_issued_def)

definition numbered_inv :: "FabricState \<Rightarrow> bool" where
  "numbered_inv s \<longleftrightarrow> index_inv s \<and> ids_covered s"

definition fenced_inv :: "FabricState \<Rightarrow> bool" where
  "fenced_inv s \<longleftrightarrow> index_inv s \<and> (\<forall>a r. map_of (fs_assignments s) a = Some r \<longrightarrow>
     ft_epoch (ar_fence r) < ce_counter (fs_epoch s) \<or> fence_issued s (ar_fence r))"

interpretation indexed: fabric_invariant index_inv False False
  by unfold_locales (simp_all add: index_inv_update index_inv_place, rule index_inv_calm)

interpretation exclusive: fabric_invariant exclusive_inv True False
proof
  show "index_inv s" if "exclusive_inv s" for s using that by (simp add: exclusive_inv_def)
  show "exclusive_inv s'" if "exclusive_inv s" "calm s s'" for s s' using that by (rule exclusive_inv_calm)
  show "exclusive_inv (insert_assignment r s)"
    if "exclusive_inv s" "map_of (fs_assignments s) (ar_id r) = Some r0" "True \<Longrightarrow> unclaimed s r" for s r r0
    using that by (intro exclusive_inv_insert)
      (auto simp: exclusive_inv_def index_inv_def keyed_assignments_def)
  show "exclusive_inv (insert_assignment r s)" if "exclusive_inv s" "newly_issued s r" "True \<Longrightarrow> unclaimed s r" for s r
    using that by (intro exclusive_inv_insert) (auto simp: newly_issued_def)
qed simp_all

interpretation numbered: fabric_invariant numbered_inv False True
proof
  show "index_inv s" if "numbered_inv s" for s using that by (simp add: numbered_inv_def)
  show "numbered_inv s'" if "numbered_inv s" "calm s s'" for s s'
  proof -
    have "fs_assignments s' = fs_assignments s" "fs_next_assignment_ordinal s \<le> fs_next_assignment_ordinal s'"
      using that(2) by (simp_all add: calm_def)
    with that index_inv_calm show ?thesis
      unfolding numbered_inv_def ids_covered_def by (metis order_trans)
  qed
  show "numbered_inv (insert_assignment r s)"
    if "numbered_inv s" "map_of (fs_assignments s) (ar_id r) = Some r0" for s r r0
    using that index_inv_update by (auto simp: numbered_inv_def ids_covered_def dom_def)
  show "numbered_inv (insert_assignment r s)" if "numbered_inv s" "newly_issued s r" for s r
    using that index_inv_place by (auto simp: numbered_inv_def ids_covered_def newly_issued_def)
qed (simp_all add: numbered_inv_def)

interpretation fenced: fabric_invariant fenced_inv False False
proof
  show "index_inv s" if "fenced_inv s" for s using that by (simp add: fenced_inv_def)
  show "fenced_inv s'" if "fenced_inv s" "calm s s'" for s s'
  proof -
    have "fs_assignments s' = fs_assignments s" "fs_epoch s' = fs_epoch s"
        "fs_next_fence_sequence s \<le> fs_next_fence_sequence s'"
      using that(2) by (simp_all add: calm_def)
    with that index_inv_calm show ?thesis
      unfolding fenced_inv_def fence_issued_def by (metis order_trans)
  qed
  show "fenced_inv (insert_assignment r s)"
    if "fenced_inv s" "map_of (fs_assignments s) (ar_id r) = Some r0" "later_version s r0 r" for s r r0
  proof -
    have "ft_epoch (ar_fence r0) < ce_counter (fs_epoch s) \<or> fence_issued s (ar_fence r0)"
      using that(1,2) unfolding fenced_inv_def by blast
    then have "ft_epoch (ar_fence r) < ce_counter (fs_epoch s) \<or> fence_issued s (ar_fence r)"
      using that(3) by (auto simp: later_version_def)
    with that(1,2) index_inv_update show ?thesis by (auto simp: fenced_inv_def fence_issued_def)
  qed
  show "fenced_inv (insert_assignment r s)" if "fenced_inv s" "newly_issued s r" for s r
    using that index_inv_place by (auto simp: fenced_inv_def newly_issued_def fence_issued_def)
qed simp_all

text \<open>A source's accepted sequence is a floor that no operation lowers.\<close>

definition source_inv :: "SourceId \<Rightarrow> EvidenceDomain \<Rightarrow> u64 \<Rightarrow> FabricState \<Rightarrow> bool" where
  "source_inv source domain n s \<longleftrightarrow> index_inv s \<and> source_reached source domain n s"

lemma source_reached_insert: "source_reached so d n (insert_assignment r s) \<longleftrightarrow> source_reached so d n s"
  by (rule source_reached_same) simp

interpretation sourced: fabric_invariant "source_inv source domain n" False False for source domain n
  using index_inv_calm index_inv_update index_inv_place
  by unfold_locales (auto simp: source_inv_def source_reached_insert calm_def sources_grow_def)

subsection \<open>Operations as steps\<close>

datatype FabricOp =
    Op_RegisterFunction FunctionDescriptor
  | Op_IngestTopology TopologySnapshot
  | Op_IngestCapabilities CapabilityReport
  | Op_IngestPolicy PolicySnapshot
  | Op_IngestObservations ObservationReport
  | Op_GrantAuthority AuthorityGrant
  | Op_WithdrawAuthority AuthorityId ReasonCode
  | Op_Plan PlacementRequest "CancelToken option"
  | Op_Apply PlacementRequest ApplyOptions
  | Op_ApplyPlan PlanResult ApplyOptions
  | Op_Revoke RevokeRequest "CancelToken option"
  | Op_Replace ReplaceRequest
  | Op_Reauthorize ReauthorizeRequest
  | Op_Revalidate "CancelToken option"
  | Op_ReportEffect EffectReport
  | Op_AcceptRecovery
  | Op_Compact
  | Op_Shutdown
  | Op_TimePasses Micros

fun perform :: "FabricOp \<Rightarrow> Impl \<Rightarrow> Impl" where
  "perform (Op_RegisterFunction f) i = fst (register_function f i)"
| "perform (Op_IngestTopology t) i = fst (ingest_topology t i)"
| "perform (Op_IngestCapabilities report) i = fst (ingest_capabilities report i)"
| "perform (Op_IngestPolicy p) i = fst (ingest_policy p i)"
| "perform (Op_IngestObservations report) i = fst (ingest_observations report i)"
| "perform (Op_GrantAuthority g) i = fst (grant_authority g i)"
| "perform (Op_WithdrawAuthority a reason) i = fst (withdraw_authority a reason i)"
| "perform (Op_Plan rq cancel) i = fst (fabric_plan rq cancel i)"
| "perform (Op_Apply rq options) i = fst (fabric_apply rq options i)"
| "perform (Op_ApplyPlan planned options) i = fst (apply_plan planned options i)"
| "perform (Op_Revoke rq cancel) i = fst (fabric_revoke rq cancel i)"
| "perform (Op_Replace rq) i = fst (fabric_replace rq i)"
| "perform (Op_Reauthorize rq) i = fst (fabric_reauthorize rq i)"
| "perform (Op_Revalidate cancel) i = fst (fabric_revalidate cancel i)"
| "perform (Op_ReportEffect report) i = fst (report_effect report i)"
| "perform Op_AcceptRecovery i = fst (accept_recovery i)"
| "perform Op_Compact i = fst (fabric_compact i)"
| "perform Op_Shutdown i = fst (shutdown i)"
| "perform (Op_TimePasses t) i = i\<lparr>im_now := im_now i + t\<rparr>"

text \<open>
  The operations that can hand out authority without testing for a conflict are careful when the
  test they omit would pass.
\<close>

fun careful :: "FabricOp \<Rightarrow> Impl \<Rightarrow> bool" where
  "careful (Op_ApplyPlan planned options) i = key_current (im_state i) (pn_plan planned)"
| "careful (Op_Reauthorize rq) i = regain_safe (im_state i) (ra_assignment rq)"
| "careful (Op_ReportEffect report) i = regain_safe (im_state i) (er_assignment report)"
| "careful _ i = True"

lemma shutdown_state [simp]: "im_state (fst (shutdown i)) = im_state i"
  by (auto simp: shutdown_def Let_def split: option.split prod.split sum.split)

lemma accept_recovery_state [simp]: "im_state (fst (accept_recovery i)) = im_state i"
  by (simp add: accept_recovery_def)

context fabric_invariant
begin

lemma perform_keeps:
  assumes "inv (im_state i)" and "strict \<Longrightarrow> careful op i"
  shows "inv (im_state (perform op i))"
proof -
  have plan: "keeps inv (fabric_plan rq cancel)" for rq cancel
    unfolding fabric_plan_def by (intro keeps_steady steady_intros)
  have compact: "keeps inv fabric_compact"
    unfolding fabric_compact_def by (intro keeps_steady steady_intros)
  note ops = keepsD [OF register_function_keeps] keepsD [OF ingest_topology_keeps] keepsD [OF ingest_policy_keeps]
    keepsD [OF ingest_capabilities_keeps] keepsD [OF ingest_observations_keeps] keepsD [OF grant_authority_keeps]
    keepsD [OF withdraw_authority_keeps] keepsD [OF fabric_apply_keeps] keepsD [OF fabric_revoke_keeps]
    keepsD [OF fabric_replace_keeps] keepsD [OF fabric_revalidate_keeps] keepsD [OF plan] keepsD [OF compact]
    apply_plan_keeps fabric_reauthorize_keeps report_effect_keeps
  show ?thesis using assms by (cases op) (simp_all add: ops)
qed

lemma perform_list_keeps:
  assumes "inv (im_state i)" and "\<not> strict"
  shows "inv (im_state (fold perform ops i))"
  using assms perform_keeps by (induction ops arbitrary: i) simp_all

end

end
