(* ===== verification/Nof_Restart.thy ===== *)
theory Nof_Restart
  imports Nof_Fabric
begin

text \<open>
  What a start from a store guarantees.  Whatever the snapshot and the journal contain, the
  assignments are keyed by their identifiers after the replay, \<open>rebuild_indexes\<close> makes the
  indexes point to holders only, and the recovery leaves no assignment with authority, no
  observation and no evidence that counts as current.
\<close>

subsection \<open>Keyed assignments through snapshot and replay\<close>

definition keyed_ok :: "FabricState \<Rightarrow> bool" where
  "keyed_ok s \<longleftrightarrow> om_ok (fs_assignments s) \<and> (\<forall>e \<in> set (fs_assignments s). ar_id (snd e) = fst e)"

lemma set_om_put: "set (om_put k v m) \<subseteq> insert (k, v) (set m)"
  by (induction k v m rule: om_put.induct) auto

lemma keyed_ok_insert: "keyed_ok s \<Longrightarrow> keyed_ok (insert_assignment r s)"
  using set_om_put [of "ar_id r" r "fs_assignments s"] by (auto simp: keyed_ok_def)

lemma keyed_ok_same: "fs_assignments s' = fs_assignments s \<Longrightarrow> keyed_ok s' \<longleftrightarrow> keyed_ok s"
  by (simp add: keyed_ok_def)

lemma keyed_ok_empty [simp]: "keyed_ok empty_state"
  by (simp add: keyed_ok_def empty_state_def)

lemma emplace_all_keyed: "om_ok (emplace_all key id xs) \<and> (\<forall>e \<in> set (emplace_all key id xs). key (snd e) = fst e)"
proof -
  have "om_ok (fold (\<lambda>x m. om_emplace (key x) (id x) m) xs m) \<and>
      (\<forall>e \<in> set (fold (\<lambda>x m. om_emplace (key x) (id x) m) xs m). key (snd e) = fst e)"
    if "om_ok m" "\<forall>e \<in> set m. key (snd e) = fst e" for m
    using that
  proof (induction xs arbitrary: m)
    case (Cons x xs)
    have "\<forall>e \<in> set (om_emplace (key x) (id x) m). key (snd e) = fst e"
      using Cons.prems set_om_put [of "key x" x m] by (auto simp: om_emplace_def split: option.split)
    with Cons.IH [of "om_emplace (key x) (id x) m"] Cons.prems(1) show ?case by simp
  qed simp
  from this [of "[]"] show ?thesis unfolding emplace_all_def by simp
qed

lemma rd_bind_Inr: "rd_bind m f r = Inr (v, r') \<longleftrightarrow> (\<exists>x r1. m r = Inr (x, r1) \<and> f x r1 = Inr (v, r'))"
  by (auto simp: rd_bind_def split: sum.splits)

lemma decode_state_keyed:
  assumes "decode_state bounds r = Inr (s, r')"
  shows "keyed_ok s"
  using assms emplace_all_keyed [of ar_id] unfolding decode_state_def rd_bind_Inr
  by (clarsimp simp: rd_bind_Inr rd_fail_def keyed_ok_def split: if_splits)

subsection \<open>Actions that keep a predicate of the state\<close>

lemma keeps_record_idempotency:
  assumes "\<And>s m q. I (s\<lparr>fs_idempotency := m, fs_idempotency_order := q\<rparr>) \<longleftrightarrow> I s"
  shows "keeps I (record_idempotency a b c d e)"
  by (auto simp: keeps_def record_idempotency_def act_update_def Let_def assms split: prod.splits)

lemma keeps_act_decode: "keeps I (act_decode dec payload)"
  by (simp add: keeps_def act_decode_def)

text \<open>
  What survives the replay of a journal: a predicate that looks at the assignments and the ordinal
  counter only and that the insertion of a record keeps.
\<close>

locale replay_invariant =
  fixes I :: "FabricState \<Rightarrow> bool"
  assumes insert: "I s \<Longrightarrow> I (insert_assignment r s)"
    and local: "fs_assignments s' = fs_assignments s \<Longrightarrow>
      fs_next_assignment_ordinal s' = fs_next_assignment_ordinal s \<Longrightarrow> I s' \<longleftrightarrow> I s"
begin

lemma idempotency: "I (s\<lparr>fs_idempotency := m, fs_idempotency_order := q\<rparr>) \<longleftrightarrow> I s"
  by (rule local) simp_all

lemma updates:
  "I (s\<lparr>fs_functions := f\<rparr>) \<longleftrightarrow> I s" "I (s\<lparr>fs_authority := g\<rparr>) \<longleftrightarrow> I s"
  "I (s\<lparr>fs_topology := t, fs_has_topology := b\<rparr>) \<longleftrightarrow> I s" "I (s\<lparr>fs_policy := p, fs_has_policy := b\<rparr>) \<longleftrightarrow> I s"
  "I (mark_source so d sq dg s) \<longleftrightarrow> I s" "I (put_capabilities rs s) \<longleftrightarrow> I s"
  "I (put_observations os s) \<longleftrightarrow> I s" "I (push_reassignment sc c at' s) \<longleftrightarrow> I s" "I (apply_epoch e s) \<longleftrightarrow> I s"
  by (rule local; simp add: mark_source_def put_capabilities_def put_observations_def push_reassignment_def
      apply_epoch_def Let_def)+

lemma revoked: "I (revoke_grant a s) \<longleftrightarrow> I s"
  by (rule local) (simp_all add: revoke_grant_def split: option.split)

lemmas keeps_idempotency = keeps_record_idempotency [where I = I, OF idempotency]

lemma keeps_replay_insert: "keeps I (replay_insert r request_id fingerprint at')"
proof -
  have "keeps I (act_bind (act_lift x) (\<lambda>response. record_idempotency request_id fingerprint RC_Ok response at'))" for x
    by (intro keeps_bind keeps_steady [OF steady_simple(3)] keeps_idempotency)
  then have "keeps I (\<lambda>i. if request_id = [] then (i, ok_status)
      else act_bind (act_lift (encode_fresh (max_record_bytes (im_bounds i)) (encode_assignment r)))
        (\<lambda>response. record_idempotency request_id fingerprint RC_Ok response at') i)"
    by (simp add: keeps_def)
  then show ?thesis unfolding replay_insert_def
    by (intro keeps_bind [OF keeps_on_state] keeps_bind [OF keeps_steady [OF steady_note_history_drop]] insert)
qed

lemma keeps_apply_withdrawal: "keeps I (apply_withdrawal w)"
  unfolding apply_withdrawal_def
  by (intro keeps_bind [OF keeps_on_state])
    (auto simp: revoked keeps_def keepsD [OF keeps_idempotency] split: sum.split)

lemma keeps_apply_record: "keeps I (apply_record type payload)"
  unfolding keeps_def
proof (intro allI impI)
  fix i :: Impl assume inv: "I (im_state i)"
  have step: "I (im_state (fst (act_bind (act_decode dec payload) f i)))"
    if "\<And>x. keeps I (f x)" for f :: "'x \<Rightarrow> unit action" and dec
    using inv by (rule keepsD [OF keeps_bind [OF keeps_act_decode that]])
  show "I (im_state (fst (apply_record type payload i)))"
    unfolding apply_record_def using inv
    by (cases type) (auto simp: Let_def updates intro!: step keeps_on_state keeps_replay_insert keeps_apply_withdrawal
        keeps_idempotency)
qed

lemma keeps_replay_visitor: "keeps I (replay_visitor type sequence payload)"
  unfolding keeps_def
proof (intro allI impI)
  fix i :: Impl assume "I (im_state i)"
  then have "I (im_state (fst (apply_record type payload i)))" by (rule keepsD [OF keeps_apply_record])
  then show "I (im_state (fst (replay_visitor type sequence payload i)))"
    by (cases "apply_record type payload i") (simp add: replay_visitor_def split: sum.split)
qed

end

interpretation replayed_keys: replay_invariant keyed_ok
  by unfold_locales (fact keyed_ok_insert, rule keyed_ok_same)

interpretation replayed_ordinal: replay_invariant "\<lambda>s. fs_next_assignment_ordinal s = n" for n
  by unfold_locales simp_all

lemma replay_from_keeps:
  assumes "\<And>type sequence payload st. P st \<Longrightarrow> P (fst (visitor type sequence payload st))" and "P st"
  shows "P (fst (replay_from visitor covered data offset st))"
  using assms(2)
proof (induction "length data - offset" arbitrary: offset st rule: less_induct)
  case less
  let ?n = "unat (load_u32 data offset)"
  let ?total = "kRecordHeaderSize + ?n + kRecordTrailerSize"
  have next': "P (fst (replay_from visitor covered data (offset + ?total) st'))" if "P st'" "offset < length data" for st'
    using that by (intro less.hyps) (simp_all add: journal_sizes)
  show ?case
  proof (cases "offset \<ge> length data")
    case True
    with less.prems show ?thesis by (simp add: replay_from.simps)
  next
    case inside: False
    let ?payload = "take ?n (drop (offset + kRecordHeaderSize) data)"
    have visited: "P st'" if "visitor t q ?payload st = (st', res)" for t q st' res
      using assms(1) [OF less.prems, of t q ?payload] that by simp
    show ?thesis
      using inside less.prems next' visited
      by (subst replay_from.simps) (auto simp: Let_def split: option.split prod.split sum.split)
  qed
qed

lemma journal_replay_keeps:
  assumes "\<And>type sequence payload st. P st \<Longrightarrow> P (fst (visitor type sequence payload st))" and "P st"
  shows "P (fst (journal_replay visitor js st))"
  using assms replay_from_keeps [of P visitor st] by (simp add: journal_replay_def split: sum.split)

subsection \<open>Rebuilding the indexes\<close>

definition claims_from :: "AssignmentRecord set \<Rightarrow> FabricState \<Rightarrow> bool" where
  "claims_from R s \<longleftrightarrow> om_ok (fs_exclusive_by_class s) \<and>
     (\<forall>k h. map_of (fs_exclusive_by_class s) k = Some h \<longrightarrow> (\<exists>r\<in>R. ar_id r = h \<and> class_claim r k)) \<and>
     (\<forall>sc h. map_of (fs_exclusive_by_scope s) sc = Some h \<longrightarrow> (\<exists>r\<in>R. ar_id r = h \<and> scope_claim r sc))"

lemma rebuild_record_fields [simp]:
  "fs_assignments (rebuild_record r s) = fs_assignments s" "fs_epoch (rebuild_record r s) = fs_epoch s"
  "fs_authority (rebuild_record r s) = fs_authority s"
  by (simp_all add: rebuild_record_def claim_exclusive_def committed_add_def Let_def)

lemma rebuild_record_claims:
  "fs_exclusive_by_class (rebuild_record r s) =
     (if class_claim r (ExclusivityKey (ar_scope_id r) (ar_cls r))
      then om_put (ExclusivityKey (ar_scope_id r) (ar_cls r)) (ar_id r) (fs_exclusive_by_class s)
      else fs_exclusive_by_class s)"
  "fs_exclusive_by_scope (rebuild_record r s) =
     (if scope_claim r (ar_scope_id r) then om_put (ar_scope_id r) (ar_id r) (fs_exclusive_by_scope s)
      else fs_exclusive_by_scope s)"
  using holds_authority_is_live [of "ar_state r"]
  by (cases "ar_exclusive_key r",
      auto simp: rebuild_record_def claim_exclusive_def committed_add_def class_claim_def scope_claim_def Let_def)+

lemma claims_from_record: "claims_from R s \<Longrightarrow> claims_from (insert r R) (rebuild_record r s)"
  unfolding claims_from_def rebuild_record_claims
  by (auto simp: class_claim_def scope_claim_def split: if_splits)

lemma claims_from_fold:
  "claims_from R s \<Longrightarrow> claims_from (R \<union> snd ` set es) (fold (\<lambda>e. rebuild_record (snd e)) es s)"
proof (induction es arbitrary: R s)
  case (Cons e es)
  from Cons.IH [OF claims_from_record [OF Cons.prems]] show ?case by simp
qed simp

lemma fold_rebuild_fields:
  "fs_assignments (fold (\<lambda>e. rebuild_record (snd e)) es s) = fs_assignments s"
  "fs_epoch (fold (\<lambda>e. rebuild_record (snd e)) es s) = fs_epoch s"
  by (induction es arbitrary: s) simp_all

lemma rebuild_indexes_fields [simp]:
  "fs_assignments (rebuild_indexes s) = fs_assignments s" "fs_epoch (rebuild_indexes s) = fs_epoch s"
  by (simp_all add: rebuild_indexes_def fold_rebuild_fields)

text \<open>Only live assignments move the ordinal counter.\<close>

lemma rebuild_indexes_ordinal:
  assumes "\<And>a r. (a, r) \<in> set (fs_assignments s) \<Longrightarrow> \<not> is_live (ar_state r)"
  shows "fs_next_assignment_ordinal (rebuild_indexes s) = fs_next_assignment_ordinal s"
proof -
  have "fold (\<lambda>e. rebuild_record (snd e)) es s' = s'" if "set es \<subseteq> set (fs_assignments s)" for es s'
    using that assms by (induction es arbitrary: s') (auto simp: rebuild_record_def)
  then show ?thesis by (simp add: rebuild_indexes_def refresh_authority_usage_def)
qed

lemma rebuild_index_inv:
  assumes "keyed_ok s" and "map_of (fs_assignments s) [] = None"
  shows "index_inv (rebuild_indexes s)"
proof -
  have "claims_from {} (s\<lparr>fs_exclusive_by_class := [], fs_exclusive_by_scope := [], fs_committed := [], fs_scope_specs := []\<rparr>)"
    by (simp add: claims_from_def)
  from claims_from_fold [OF this, of "fs_assignments s"]
  have from': "claims_from (snd ` set (fs_assignments s)) (rebuild_indexes s)"
    by (simp add: rebuild_indexes_def claims_from_def)
  have find: "map_of (fs_assignments s) (ar_id r) = Some r" if "r \<in> snd ` set (fs_assignments s)" for r
  proof -
    from that obtain a where "(a, r) \<in> set (fs_assignments s)" by auto
    with assms(1) have "map_of (fs_assignments s) a = Some r" "ar_id r = a"
      by (auto simp: keyed_ok_def om_ok_map_of_iff)
    then show ?thesis by simp
  qed
  have "keyed_assignments (rebuild_indexes s)"
    using assms by (auto simp: keyed_assignments_def keyed_ok_def) (metis fst_conv map_of_SomeD snd_conv)
  moreover have "claims_sound (rebuild_indexes s)"
    using from' find unfolding claims_from_def claims_sound_def rebuild_indexes_fields by blast
  ultimately show ?thesis using from' by (simp add: index_inv_def claims_from_def)
qed

subsection \<open>Suspending what was live\<close>

lemma index_inv_same:
  assumes "fs_assignments s' = fs_assignments s" and "fs_exclusive_by_class s' = fs_exclusive_by_class s"
    and "fs_exclusive_by_scope s' = fs_exclusive_by_scope s"
  shows "index_inv s' \<longleftrightarrow> index_inv s"
  by (simp add: index_inv_def keyed_assignments_def claims_sound_def assms)

lemma suspend_step:
  assumes "store_transition (transition_to AS_Suspended reason at' r) i = (i', Inr u)"
    and "index_inv (im_state i)" and "map_of (fs_assignments (im_state i)) a = Some r"
  shows "index_inv (im_state i')"
    and "\<exists>r'. ar_state r' = AS_Suspended \<and> map_of (fs_assignments (im_state i')) = (map_of (fs_assignments (im_state i)))(a \<mapsto> r')"
proof -
  have "ar_id r = a" using assms(2,3) by (auto simp: index_inv_def keyed_assignments_def)
  let ?r = "trimmed (im_bounds i) (transition_to AS_Suspended reason at' r)"
  have calm: "calm (insert_assignment ?r (im_state i)) (im_state i')" by (rule store_transition_state [OF assms(1)])
  have "index_inv (insert_assignment ?r (im_state i))"
    using assms(2,3) by (intro index_inv_update [of _ _ r]) (simp_all add: \<open>ar_id r = a\<close>)
  then show "index_inv (im_state i')" using calm by (rule index_inv_calm)
  from calm show "\<exists>r'. ar_state r' = AS_Suspended \<and>
      map_of (fs_assignments (im_state i')) = (map_of (fs_assignments (im_state i)))(a \<mapsto> r')"
    by (intro exI [of _ ?r]) (simp add: calm_def \<open>ar_id r = a\<close>)
qed

text \<open>The records on the list are suspended, the others untouched, none is added or lost.\<close>

definition suspends :: "AssignmentId list \<Rightarrow> FabricState \<Rightarrow> FabricState \<Rightarrow> bool" where
  "suspends ids s s' \<longleftrightarrow> dom (map_of (fs_assignments s')) = dom (map_of (fs_assignments s)) \<and>
     (\<forall>a r. map_of (fs_assignments s') a = Some r \<longrightarrow>
       (if a \<in> set ids then ar_state r = AS_Suspended else map_of (fs_assignments s) a = Some r))"

lemma suspends_Nil: "suspends [] s s"
  by (simp add: suspends_def)

lemma suspends_absent:
  "map_of (fs_assignments s) a = None \<Longrightarrow> suspends ids s s' \<Longrightarrow> suspends (a # ids) s s'"
  unfolding suspends_def by (metis domIff option.distinct(1) set_ConsD list.set_intros(2))

lemma suspends_done:
  assumes "map_of (fs_assignments s) a = Some r" and "ar_state r = AS_Suspended" and "suspends ids s s'"
  shows "suspends (a # ids) s s'"
  unfolding suspends_def
proof (intro conjI allI impI)
  fix b x assume x: "map_of (fs_assignments s') b = Some x"
  with assms(3) have "if b \<in> set ids then ar_state x = AS_Suspended else map_of (fs_assignments s) b = Some x"
    unfolding suspends_def by blast
  with assms(1,2) show "if b \<in> set (a # ids) then ar_state x = AS_Suspended else map_of (fs_assignments s) b = Some x"
    by (auto split: if_splits)
qed (use assms(3) in \<open>simp add: suspends_def\<close>)

lemma suspends_update:
  assumes "map_of (fs_assignments s) a = Some r" and "map_of (fs_assignments s1) = (map_of (fs_assignments s))(a \<mapsto> r')"
    and "ar_state r' = AS_Suspended" and "suspends ids s1 s'"
  shows "suspends (a # ids) s s'"
  unfolding suspends_def
proof (intro conjI allI impI)
  fix b x assume x: "map_of (fs_assignments s') b = Some x"
  with assms(4) have "if b \<in> set ids then ar_state x = AS_Suspended else map_of (fs_assignments s1) b = Some x"
    unfolding suspends_def by blast
  with assms(2,3) show "if b \<in> set (a # ids) then ar_state x = AS_Suspended else map_of (fs_assignments s) b = Some x"
    by (auto split: if_splits)
next
  show "dom (map_of (fs_assignments s')) = dom (map_of (fs_assignments s))"
    using assms(1,2,4) by (auto simp: suspends_def)
qed

lemma suspend_ids_Inr:
  assumes "suspend_ids at' ids i = (i', Inr u)" and "index_inv (im_state i)"
  shows "index_inv (im_state i') \<and> suspends ids (im_state i) (im_state i')"
  using assms
proof (induction ids arbitrary: i)
  case Nil
  then show ?case by (simp add: suspends_Nil)
next
  case (Cons a ids)
  show ?case
  proof (cases "map_of (fs_assignments (im_state i)) a")
    case None
    with Cons.IH [of i] Cons.prems show ?thesis by (simp add: suspends_absent)
  next
    case (Some r)
    show ?thesis
    proof (cases "ar_state r = AS_Suspended")
      case True
      with Cons.IH [of i] Cons.prems Some show ?thesis by (simp add: suspends_done)
    next
      case False
      from Cons.prems(1) Some False obtain i1 where st: "store_transition
            (transition_to AS_Suspended RC_RestartAuthorityReset at' r) i = (i1, Inr ())"
          and rest: "suspend_ids at' ids (note_suspension i1) = (i', Inr u)"
        by (auto simp: act_bind_Inr act_update_def)
      note step = suspend_step [OF st Cons.prems(2) Some]
      have same: "im_state (note_suspension i1) = im_state i1" by (simp add: note_suspension_def)
      from Cons.IH [OF rest] step same show ?thesis by (auto intro: suspends_update [OF Some])
    qed
  qed
qed

subsection \<open>The start sequence\<close>

lemma store_transition_any:
  assumes "\<And>r s. I s \<Longrightarrow> I (insert_assignment r s)"
    and "\<And>s m q. I (s\<lparr>fs_idempotency := m, fs_idempotency_order := q\<rparr>) \<longleftrightarrow> I s"
  shows "keeps I (store_transition r)"
proof -
  have answer: "keeps I (insert_and_answer r a b)" for r a b
    unfolding insert_and_answer_def
  proof (rule keeps_bind)
    show "keeps I (on_state (insert_assignment r))" by (rule keeps_on_state) (rule assms(1))
    have "keeps I (act_bind (act_lift x) (\<lambda>response. record_idempotency a b RC_Ok response tm))" for x tm
      by (intro keeps_bind keeps_steady [OF steady_simple(3)] keeps_record_idempotency assms(2))
    then show "keeps I (\<lambda>i. if a = [] then (i, ok_status)
        else act_bind (act_lift (encode_fresh (max_record_bytes (im_bounds i)) (encode_assignment r)))
          (\<lambda>response. record_idempotency a b RC_Ok response (im_now i)) i)"
      by (simp add: keeps_def)
  qed
  have "keeps I (act_bind (act_lift x) (\<lambda>payload. act_bind (commit type payload) (\<lambda>_. insert_and_answer r a b)))"
    for x type r a b
    by (intro keeps_bind answer keeps_steady [OF steady_simple(3)] keeps_steady [OF steady_commit])
  then have "keeps I (store_assignment r a b type)" for r a b type
    by (simp add: keeps_def store_assignment_def)
  then show ?thesis
    unfolding store_transition_def by (intro keeps_bind [OF keeps_steady [OF steady_trim_history]])
qed

lemma suspend_ids_any:
  assumes "\<And>r. keeps I (store_transition r)"
  shows "keeps I (suspend_ids at' ids)"
proof (induction ids)
  case Nil
  then show ?case by (simp add: keeps_def)
next
  case (Cons a ids)
  have "keeps I (act_update note_suspension)" by (simp add: keeps_def act_update_def note_suspension_def)
  then have "keeps I (act_bind (store_transition r) (\<lambda>_. act_bind (act_update note_suspension) (\<lambda>_. suspend_ids at' ids)))" for r
    by (intro keeps_bind assms Cons.IH)
  with Cons.IH show ?case by (simp add: keeps_def split: option.split)
qed

text \<open>Nothing recorded before the restart counts as current: observations are gone and every source has its floor raised.\<close>

definition evidence_floored :: "FabricState \<Rightarrow> bool" where
  "evidence_floored s \<longleftrightarrow> fs_observations s = [] \<and>
     (\<forall>e \<in> set (fs_sources s). st_restart_floor (snd e) = st_last_sequence (snd e))"

lemma evidence_floored_suspend: "keeps (\<lambda>s. evidence_floored s \<and> fs_epoch s = epoch) (suspend_ids at' ids)"
  by (intro suspend_ids_any store_transition_any) (simp_all add: evidence_floored_def)

lemma restore_snapshot_keyed:
  assumes "restore_snapshot js i = (i', Inr u)" and "keyed_ok (im_state i)"
  shows "keyed_ok (im_state i')"
  using assms
  by (auto simp: restore_snapshot_def start_refuse_def split: sum.splits if_splits) (erule decode_state_keyed)

lemma replay_store_index:
  assumes "replay_store js i = (i', Inr u)" and "keyed_ok (im_state i)"
  shows "keyed_ok (im_state i')" and "map_of (fs_assignments (im_state i')) [] = None \<Longrightarrow> index_inv (im_state i')"
proof -
  let ?i = "i\<lparr>im_replaying := True\<rparr>"
  have "keyed_ok (im_state (fst (journal_replay replay_visitor js ?i)))"
    by (rule journal_replay_keeps [where P = "\<lambda>i. keyed_ok (im_state i)"])
      (rule keepsD [OF replayed_keys.keeps_replay_visitor], simp_all add: assms(2))
  with assms(1) obtain s where s: "keyed_ok s" "im_state i' = rebuild_indexes s"
    by (cases "journal_replay replay_visitor js ?i")
      (auto simp: replay_store_def start_refuse_def split: sum.splits)
  then show "keyed_ok (im_state i')" by (simp add: keyed_ok_def)
  show "index_inv (im_state i')" if "map_of (fs_assignments (im_state i')) [] = None"
    using rebuild_index_inv [of s] s that by simp
qed

lemma replay_store_ordinal:
  assumes "replay_store js i = (i', Inr u)"
    and "\<And>a r. (a, r) \<in> set (fs_assignments (im_state i')) \<Longrightarrow> \<not> is_live (ar_state r)"
  shows "fs_next_assignment_ordinal (im_state i') = fs_next_assignment_ordinal (im_state i)"
proof -
  let ?i = "i\<lparr>im_replaying := True\<rparr>" and ?n = "fs_next_assignment_ordinal (im_state i)"
  have "fs_next_assignment_ordinal (im_state (fst (journal_replay replay_visitor js ?i))) = ?n"
    by (rule journal_replay_keeps [where P = "\<lambda>i. fs_next_assignment_ordinal (im_state i) = ?n"])
      (rule keepsD [OF replayed_ordinal.keeps_replay_visitor], simp_all)
  with assms(1) obtain s where s: "fs_next_assignment_ordinal s = ?n" "im_state i' = rebuild_indexes s"
    by (cases "journal_replay replay_visitor js ?i")
      (auto simp: replay_store_def start_refuse_def split: sum.splits)
  from assms(2) s(2) rebuild_indexes_ordinal [of s] s(1) show ?thesis by simp
qed

lemma advance_epoch_Inr:
  assumes "advance_epoch boot i = (i', Inr u)"
  shows "next_epoch (fs_epoch_counter (im_state i)) = Inr (ce_counter (fs_epoch (im_state i')))"
    and "fs_assignments (im_state i') = fs_assignments (im_state i)"
    and "fs_exclusive_by_class (im_state i') = fs_exclusive_by_class (im_state i)"
    and "fs_exclusive_by_scope (im_state i') = fs_exclusive_by_scope (im_state i)"
    and "fs_epoch_counter (im_state i') = ce_counter (fs_epoch (im_state i'))"
    and "fs_next_assignment_ordinal (im_state i') = fs_next_assignment_ordinal (im_state i)"
proof -
  let ?i0 = "i\<lparr>im_recovery := (im_recovery i)\<lparr>rr_previous_epoch := fs_epoch_counter (im_state i)\<rparr>\<rparr>"
  from assms obtain n payload i2 where n: "next_epoch (fs_epoch_counter (im_state i)) = Inr n"
    and c: "commit RT_EpochStarted payload (?i0\<lparr>im_state := (im_state i)\<lparr>fs_previous_epoch_counter :=
        fs_epoch_counter (im_state i), fs_epoch_counter := n, fs_epoch := \<lparr>ce_counter = n, ce_boot = boot\<rparr>\<rparr>\<rparr>) = (i2, Inr ())"
    and i': "im_state i' = im_state i2"
    by (auto simp: advance_epoch_def Let_def split: sum.splits prod.splits)
  from steadyD [OF steady_commit c] have "im_state i2 = (im_state i)\<lparr>fs_previous_epoch_counter :=
        fs_epoch_counter (im_state i), fs_epoch_counter := n, fs_epoch := \<lparr>ce_counter = n, ce_boot = boot\<rparr>\<rparr>"
    by (simp add: same_view_def)
  with n i' show "next_epoch (fs_epoch_counter (im_state i)) = Inr (ce_counter (fs_epoch (im_state i')))"
    and "fs_assignments (im_state i') = fs_assignments (im_state i)"
    and "fs_exclusive_by_class (im_state i') = fs_exclusive_by_class (im_state i)"
    and "fs_exclusive_by_scope (im_state i') = fs_exclusive_by_scope (im_state i)"
    and "fs_epoch_counter (im_state i') = ce_counter (fs_epoch (im_state i'))"
    and "fs_next_assignment_ordinal (im_state i') = fs_next_assignment_ordinal (im_state i)"
    by simp_all
qed

lemma no_holder_exclusive:
  assumes "index_inv s" and "\<And>a r. map_of (fs_assignments s) a = Some r \<Longrightarrow> \<not> holds_authority (ar_state r)"
  shows "exclusive_inv s"
proof -
  have "map_of (fs_exclusive_by_class s) k = None" "map_of (fs_exclusive_by_scope s) sc = None" for k sc
    using assms by (auto simp: index_inv_def claims_sound_def class_claim_def scope_claim_def) (metis not_None_eq)+
  with assms show ?thesis
    by (auto simp: exclusive_inv_def claims_complete_def claims_unmixed_def class_claim_def scope_claim_def)
qed

text \<open>The steps of a recovery that succeeded; \<open>suspended\<close> is what the suspension of the live assignments leaves.\<close>

lemma recover_steps:
  assumes "recover config boot js i = (i', Inr u)" and "keyed_ok (im_state i)"
    and "map_of (fs_assignments (im_state i')) [] = None"
  obtains i1 i2 i3 i4 i5 where "restore_snapshot js i = (i1, Inr ())" "replay_store js i1 = (i2, Inr ())"
    "advance_epoch boot i2 = (i3, Inr ())" "i4 = apply_recovery_invariants i3"
    "suspend_ids (im_now i3) (live_ids (im_state i4)) i4 = (i5, Inr ())" "i' = finish_start config i5"
    "keyed_ok (im_state i2)" "fs_assignments (im_state i4) = fs_assignments (im_state i2)"
    "fs_epoch (im_state i4) = fs_epoch (im_state i3)" "im_state i' = im_state i5" "index_inv (im_state i5)"
    "suspends (live_ids (im_state i4)) (im_state i4) (im_state i')"
proof -
  from assms(1) obtain i1 i2 i3 i5 where steps: "restore_snapshot js i = (i1, Inr ())" "replay_store js i1 = (i2, Inr ())"
      "advance_epoch boot i2 = (i3, Inr ())"
      "suspend_ids (im_now i3) (live_ids (im_state (apply_recovery_invariants i3))) (apply_recovery_invariants i3) = (i5, Inr ())"
      and i': "i' = finish_start config i5"
    by (auto simp: recover_def act_bind_Inr act_update_def apply_recovery_invariants_def Let_def)
  let ?i4 = "apply_recovery_invariants i3"
  have final: "im_state i' = im_state i5" by (simp add: i' finish_start_def)
  have k2: "keyed_ok (im_state i2)"
    using replay_store_index(1) [OF steps(2)] restore_snapshot_keyed [OF steps(1) assms(2)] by blast
  have same4: "fs_assignments (im_state ?i4) = fs_assignments (im_state i2)"
      "fs_exclusive_by_class (im_state ?i4) = fs_exclusive_by_class (im_state i2)"
      "fs_exclusive_by_scope (im_state ?i4) = fs_exclusive_by_scope (im_state i2)"
      "fs_epoch (im_state ?i4) = fs_epoch (im_state i3)"
    using advance_epoch_Inr [OF steps(3)] by (simp_all add: apply_recovery_invariants_def Let_def)
  have "keeps (\<lambda>s. map_of (fs_assignments s) [] \<noteq> None) (suspend_ids (im_now i3) (live_ids (im_state ?i4)))"
    by (intro suspend_ids_any store_transition_any) simp_all
  from keepsD [OF this, of ?i4] steps(4) final assms(3) same4(1) have "map_of (fs_assignments (im_state i2)) [] = None"
    by (cases "map_of (fs_assignments (im_state i2)) []") auto
  with replay_store_index(2) [OF steps(2) restore_snapshot_keyed [OF steps(1) assms(2)]]
  have "index_inv (im_state ?i4)" by (simp add: index_inv_same [OF same4(1-3)])
  from suspend_ids_Inr [OF steps(4) this] that [OF steps(1-3) refl steps(4) i' k2 same4(1,4) final] final show thesis
    by simp
qed

lemma recover_Inr:
  assumes "recover config boot js i = (i', Inr u)" and "keyed_ok (im_state i)"
    and "map_of (fs_assignments (im_state i')) [] = None"
  shows "index_inv (im_state i')" and "evidence_floored (im_state i')"
    and "map_of (fs_assignments (im_state i')) a = Some r \<Longrightarrow> \<not> holds_authority (ar_state r)"
    and "im_running i'" and "im_recovery_accepted i' = cf_auto_accept_recovery config"
    and "\<exists>counter. next_epoch counter = Inr (ce_counter (fs_epoch (im_state i')))"
proof -
  obtain i1 i2 i3 i4 i5 where steps: "advance_epoch boot i2 = (i3, Inr ())" "i4 = apply_recovery_invariants i3"
      "suspend_ids (im_now i3) (live_ids (im_state i4)) i4 = (i5, Inr ())" and i': "i' = finish_start config i5"
      and epoch4: "fs_epoch (im_state i4) = fs_epoch (im_state i3)" and final: "im_state i' = im_state i5"
      and index: "index_inv (im_state i5)"
      and suspended: "suspends (live_ids (im_state i4)) (im_state i4) (im_state i')"
    by (rule recover_steps [OF assms])
  show "index_inv (im_state i')" by (simp add: final index)
  have "evidence_floored (im_state i4)"
    by (simp add: steps(2) evidence_floored_def apply_recovery_invariants_def Let_def)
  with keepsD [OF evidence_floored_suspend, of i4 "fs_epoch (im_state i4)"] steps(3)
  have floored: "evidence_floored (im_state i5) \<and> fs_epoch (im_state i5) = fs_epoch (im_state i4)"
    by (metis (no_types, lifting) fst_conv)
  then show "evidence_floored (im_state i')" by (simp add: final)
  show "\<not> holds_authority (ar_state r)" if "map_of (fs_assignments (im_state i')) a = Some r"
  proof (cases "a \<in> set (live_ids (im_state i4))")
    case True
    with suspended that have "ar_state r = AS_Suspended" by (auto simp: suspends_def)
    then show ?thesis by simp
  next
    case False
    with suspended that have "map_of (fs_assignments (im_state i4)) a = Some r" by (auto simp: suspends_def)
    then have "(a, r) \<in> set (fs_assignments (im_state i4))" by (rule map_of_SomeD)
    with False have "\<not> is_live (ar_state r)" by (force simp: live_ids_def)
    then show ?thesis using holds_authority_is_live by blast
  qed
  show "im_running i'" "im_recovery_accepted i' = cf_auto_accept_recovery config"
    by (simp_all add: i' finish_start_def bump_by_def)
  show "\<exists>counter. next_epoch counter = Inr (ce_counter (fs_epoch (im_state i')))"
    using advance_epoch_Inr(1) [OF steps(1)] floored epoch4 final by auto
qed

text \<open>A recovery without a snapshot starts to count the identifiers at what the live assignments used.\<close>

lemma recover_ordinal:
  assumes "recover config boot js i = (i', Inr u)" and "keyed_ok (im_state i)"
    and "map_of (fs_assignments (im_state i')) [] = None" and "\<not> js_has_snapshot js"
    and terminal: "\<And>a r. map_of (fs_assignments (im_state i')) a = Some r \<Longrightarrow> is_terminal (ar_state r)"
  shows "fs_next_assignment_ordinal (im_state i') = fs_next_assignment_ordinal (im_state i)"
proof -
  obtain i1 i2 i3 i4 i5 where steps: "restore_snapshot js i = (i1, Inr ())" "replay_store js i1 = (i2, Inr ())"
      "advance_epoch boot i2 = (i3, Inr ())" "i4 = apply_recovery_invariants i3"
      "suspend_ids (im_now i3) (live_ids (im_state i4)) i4 = (i5, Inr ())"
      and k2: "keyed_ok (im_state i2)" and same4: "fs_assignments (im_state i4) = fs_assignments (im_state i2)"
      and final: "im_state i' = im_state i5"
      and suspended: "suspends (live_ids (im_state i4)) (im_state i4) (im_state i')"
    by (rule recover_steps [OF assms(1-3)])
  have dead: "\<not> is_live (ar_state r)" if "(a, r) \<in> set (fs_assignments (im_state i2))" for a r
  proof
    assume "is_live (ar_state r)"
    with that have live: "a \<in> set (live_ids (im_state i4))" by (force simp: live_ids_def same4)
    have "a \<in> dom (map_of (fs_assignments (im_state i4)))"
      unfolding same4 dom_map_of_conv_image_fst using that by (rule rev_image_eqI) simp
    then obtain x where x: "map_of (fs_assignments (im_state i')) a = Some x"
      using suspended unfolding suspends_def by blast
    with live suspended have "ar_state x = AS_Suspended" unfolding suspends_def by metis
    with terminal [OF x] show False by simp
  qed
  then have "live_ids (im_state i4) = []" by (auto simp: live_ids_def same4 filter_empty_conv)
  with steps(5) have "i5 = i4" by simp
  moreover have "fs_next_assignment_ordinal (im_state i4) = fs_next_assignment_ordinal (im_state i3)"
    by (simp add: steps(4) apply_recovery_invariants_def Let_def)
  moreover have "im_state i1 = im_state i"
    using steps(1) assms(4) by (simp add: restore_snapshot_def snapshot_payload_def)
  ultimately show ?thesis
    using final advance_epoch_Inr(6) [OF steps(3)] replay_store_ordinal [OF steps(2) dead] by simp
qed

lemma start_from_store:
  assumes "start config env i = (i', Inr u)" and "cf_store_path config \<noteq> []"
  shows "\<exists>boot js report. recover config boot js
    (i\<lparr>im_shutting_down := False, im_store := Some js, im_recovery := report\<rparr>) = (i', Inr u)"
  using assms by (auto simp: start_def Let_def split: if_splits sum.splits prod.splits)

text \<open>C2: authority does not survive a restart.  Whatever the store holds, after a successful start no
  assignment holds authority, the exclusive indexes are consistent with the assignments, no
  observation is left, and evidence counts as current only when it is newer than everything its
  source delivered before the restart.  (The store must not hold a record with an empty identifier,
  which the program never writes.)\<close>

theorem start_restores_no_authority:
  assumes "start config env i = (i', Inr u)" and "cf_store_path config \<noteq> []" and "keyed_ok (im_state i)"
    and "map_of (fs_assignments (im_state i')) [] = None"
  shows "(\<forall>a r. map_of (fs_assignments (im_state i')) a = Some r \<longrightarrow> \<not> holds_authority (ar_state r)) \<and>
    exclusive_inv (im_state i') \<and> fs_observations (im_state i') = [] \<and>
    (\<forall>source domain sequence entry. evidence_current (im_state i') source domain sequence \<and>
       find_source (im_state i') source domain = Some entry \<longrightarrow> sequence > st_last_sequence entry)"
proof -
  obtain boot js report where "recover config boot js
      (i\<lparr>im_shutting_down := False, im_store := Some js, im_recovery := report\<rparr>) = (i', Inr u)"
    using start_from_store [OF assms(1,2)] by blast
  note recovered = recover_Inr [OF this _ assms(4)]
  have "sequence > st_last_sequence entry" if "evidence_current (im_state i') source domain sequence"
      "find_source (im_state i') source domain = Some entry" for source domain sequence entry
    using that recovered(2) assms(3)
    by (fastforce simp: evidence_current_def source_is_current_def evidence_floored_def find_source_def dest: map_of_SomeD)
  with recovered assms(3) show ?thesis
    by (auto simp: evidence_floored_def intro: no_holder_exclusive)
qed

definition example_runtime :: Impl where
  "example_runtime = \<lparr>im_bounds = default_bounds, im_now = 1, im_state = empty_state, im_store = None,
     im_recovery = no_recovery, im_stats = (\<lambda>_. 0), im_running = False, im_recovery_accepted = False,
     im_replaying = False, im_shutting_down = False, im_history_drops = 0,
     im_io = (\<lambda>_. \<lparr>ji_append = io_ok, ji_compact = (\<lambda>_. True), ji_base = io_ok\<rparr>), im_ops = 0\<rparr>"

definition example_config :: FabricConfig where
  "example_config = \<lparr>cf_store_path = ''store'', cf_recovery = RP_Refuse, cf_boot_id = [],
     cf_store_id = [], cf_auto_accept_recovery = True\<rparr>"

definition example_env :: StartEnv where
  "example_env = \<lparr>se_boot = example_id, se_opened = True, se_io = io_ok, se_truncated = True,
     se_generated = example_id, se_created_at = 1, se_file = None, se_snapshot_file = None\<rparr>"

definition example_journal :: JournalStore where
  "example_journal = (blank_store (open_options example_config default_bounds) 1 (build_header example_id 1 1) None)
     \<lparr>js_store_id := example_id, js_bytes := 64\<rparr>"

lemma example_open:
  "journal_open (open_options example_config default_bounds) True io_ok True example_id 1 None None no_recovery =
     (no_recovery\<lparr>rr_classification := RK_FreshStore, rr_reason := RC_Ok\<rparr>, Inr example_journal)"
proof -
  have "length (build_header example_id 1 1) = 64"
    by (rule length_build_header) (simp_all add: example_id_ok)
  then have "build_header example_id 1 1 \<noteq> []" by auto
  moreover have "example_id \<noteq> []" using example_id_ok(1) by auto
  ultimately show ?thesis
    by (simp add: journal_open_def open_fresh_def open_options_def default_bounds_def Let_def example_config_def
        write_all_def io_ok_def flush_and_sync_def example_journal_def kStoreFormatVersion_def example_id_ok
        blank_store_def kJournalHeaderSize_def)
qed

lemma example_restore: "restore_snapshot example_journal i = (i, ok_status)"
  by (simp add: restore_snapshot_def snapshot_payload_def example_journal_def blank_store_def)

lemma example_replay:
  assumes "im_state i = empty_state"
  shows "\<exists>i'. replay_store example_journal i = (i', ok_status) \<and> im_state i' = empty_state \<and>
    im_store i' = im_store i \<and> im_bounds i' = im_bounds i \<and> im_io i' = im_io i \<and> \<not> im_replaying i'"
proof -
  have content: "js_file example_journal = build_header example_id 1 1" "length (js_file example_journal) = 64"
    by (simp_all add: example_journal_def blank_store_def length_build_header example_id_ok)
  have "journal_replay replay_visitor example_journal j = (j, ok_status)" for j
    using content by (simp add: journal_replay_def read_file_def read_limit_def replay_from.simps kJournalHeaderSize_def)
      (simp add: example_journal_def blank_store_def open_options_def default_bounds_def)
  moreover have "rebuild_indexes empty_state = empty_state"
    by (simp add: rebuild_indexes_def refresh_authority_usage_def empty_state_def)
  ultimately show ?thesis using assms by (simp add: replay_store_def)
qed

lemma example_epoch_bytes:
  "\<exists>bs. encode_fresh 64 (encode_epoch \<lparr>ce_counter = 1, ce_boot = example_id\<rparr>) = Inr bs \<and> length bs = 44"
  by (simp add: encode_fresh_def encode_epoch_def encode_with_def enc_epoch_def w_seq_def w_open_def bin_writer_def
      emit_eqs example_id_ok)

lemma example_advance:
  assumes "im_state i = empty_state" "im_store i = Some example_journal" "im_bounds i = default_bounds"
    "im_io i = im_io example_runtime" "\<not> im_replaying i"
  shows "\<exists>i'. advance_epoch example_id i = (i', ok_status) \<and> fs_assignments (im_state i') = [] \<and>
    im_bounds i' = default_bounds"
proof -
  obtain bs where bs: "encode_fresh 64 (encode_epoch \<lparr>ce_counter = 1, ce_boot = example_id\<rparr>) = Inr bs" "length bs = 44"
    using example_epoch_bytes by blast
  have "snd (journal_append io_ok RT_EpochStarted bs example_journal) = ok_status"
    using bs(2) by (simp add: journal_append_def append_checks_def example_journal_def blank_store_def open_options_def
        default_bounds_def checked_add_size_def journal_sizes checked_mul_def mul_would_overflow_def checked_add_def
        add_would_overflow_def write_all_def io_ok_def flush_and_sync_def Let_def)
  then obtain js' where "journal_append io_ok RT_EpochStarted bs example_journal = (js', ok_status)"
    by (metis prod.collapse)
  moreover have "fs_epoch_counter empty_state = 0" "fs_assignments empty_state = []" by (simp_all add: empty_state_def)
  moreover have "\<not> unat (js_bytes example_journal) > max_journal_bytes default_bounds"
    by (simp add: example_journal_def default_bounds_def)
  ultimately show ?thesis
    using assms bs by (simp add: advance_epoch_def next_epoch_def Let_def commit_def act_bind_def act_return_def
        store_append_def example_runtime_def bump_by_def)
qed

lemma example_start:
  "\<exists>i'. start example_config example_env example_runtime = (i', Inr ()) \<and> fs_assignments (im_state i') = [] \<and>
    im_bounds i' = default_bounds"
proof -
  let ?i = "example_runtime\<lparr>im_shutting_down := False, im_store := Some example_journal,
    im_recovery := no_recovery\<lparr>rr_classification := RK_FreshStore, rr_reason := RC_Ok\<rparr>\<rparr>"
  have boot: "boot_is_set example_id" by (simp add: boot_is_set_def kBootIdLength_def example_id_ok)
  have unset: "\<not> boot_is_set []" by (simp add: boot_is_set_def kBootIdLength_def)
  have started: "start example_config example_env example_runtime = recover example_config example_id example_journal ?i"
    using boot unset example_open default_bounds_valid
    by (simp add: start_def example_runtime_def example_config_def example_env_def)
  obtain i1 where i1: "replay_store example_journal ?i = (i1, ok_status)" "im_state i1 = empty_state"
      "im_store i1 = Some example_journal" "im_bounds i1 = default_bounds" "im_io i1 = im_io example_runtime"
      "\<not> im_replaying i1"
    using example_replay [of ?i] by (auto simp: example_runtime_def)
  obtain i2 where i2: "advance_epoch example_id i1 = (i2, ok_status)" "fs_assignments (im_state i2) = []"
      "im_bounds i2 = default_bounds"
    using example_advance [OF i1(2-)] by blast
  show ?thesis
    unfolding started recover_def
    by (simp add: example_restore i1(1) i2(1) act_bind_def act_update_def apply_recovery_invariants_def Let_def live_ids_def i2(2,3) finish_start_def bump_by_def)
qed

theorem start_restores_no_authority_witness:
  "\<exists>i'. start example_config example_env example_runtime = (i', Inr ()) \<and> exclusive_inv (im_state i') \<and>
    fs_observations (im_state i') = []"
proof -
  obtain i' where i': "start example_config example_env example_runtime = (i', Inr ())"
    "fs_assignments (im_state i') = []" using example_start by blast
  have "cf_store_path example_config \<noteq> []" "keyed_ok (im_state example_runtime)"
    by (simp_all add: example_config_def example_runtime_def)
  from start_restores_no_authority [OF i'(1) this] i' show ?thesis by auto
qed

end
