(* ===== verification/Nof_Guarantees.thy ===== *)
theory Nof_Guarantees
  imports Nof_Restart
begin

text \<open>
  What the running fabric guarantees.  \<open>reachable guard i\<close>: the runtime \<open>i\<close> came out of a
  successful start, from any store, and operations that satisfied \<open>guard\<close>; \<open>lifetime i\<close>: it came
  out of a start that found no assignment and any operations.  The theorems state
  mutual exclusion of exclusive assignments, soundness of the claim indexes and, within a lifetime, freshness of the tokens
  a placement issues and that terminal assignments stay terminal.
\<close>

subsection \<open>Reachable runtimes\<close>

inductive reachable :: "(FabricOp \<Rightarrow> Impl \<Rightarrow> bool) \<Rightarrow> Impl \<Rightarrow> bool" for guard where
  started: "start config env i0 = (i, Inr u) \<Longrightarrow> im_state i0 = empty_state \<Longrightarrow> cf_store_path config \<noteq> [] \<Longrightarrow>
    map_of (fs_assignments (im_state i)) [] = None \<Longrightarrow> reachable guard i"
| started_memory: "start config env i0 = (i, Inr u) \<Longrightarrow> im_state i0 = empty_state \<Longrightarrow> cf_store_path config = [] \<Longrightarrow>
    reachable guard i"
| step: "reachable guard i \<Longrightarrow> guard op i \<Longrightarrow> reachable guard (perform op i)"

inductive_cases reachable_cases: "reachable guard i"

lemma start_memory_state:
  assumes "start config env i0 = (i, Inr u)" and "cf_store_path config = []"
  shows "\<exists>boot. im_state i = (im_state i0)\<lparr>fs_epoch_counter := 1, fs_epoch := \<lparr>ce_counter = 1, ce_boot = boot\<rparr>\<rparr>"
  using assms by (auto simp: start_def start_memory_def Let_def split: if_splits sum.splits)

lemma empty_fields:
  "fs_assignments empty_state = []" "fs_exclusive_by_class empty_state = []" "fs_exclusive_by_scope empty_state = []"
  by (simp_all add: empty_state_def)

lemma memory_exclusive: "exclusive_inv (empty_state\<lparr>fs_epoch_counter := n, fs_epoch := e\<rparr>)"
  by (simp add: exclusive_inv_def index_inv_def keyed_assignments_def claims_sound_def claims_complete_def
      claims_unmixed_def empty_fields)

lemma start_exclusive:
  assumes "start config env i0 = (i, Inr u)" and "im_state i0 = empty_state"
    and "cf_store_path config = [] \<or> map_of (fs_assignments (im_state i)) [] = None"
  shows "exclusive_inv (im_state i)"
proof (cases "cf_store_path config = []")
  case True
  with start_memory_state [OF assms(1)] assms(2) memory_exclusive show ?thesis by auto
next
  case False
  then obtain boot js report where "recover config boot js
      (i0\<lparr>im_shutting_down := False, im_store := Some js, im_recovery := report\<rparr>) = (i, Inr u)"
    using start_from_store [OF assms(1)] by blast
  from recover_Inr(1,3) [OF this] False assms(2,3) show ?thesis by (auto intro: no_holder_exclusive)
qed

lemma reachable_careful: "reachable careful i \<Longrightarrow> exclusive_inv (im_state i)"
proof (induction rule: reachable.induct)
  case (step i op)
  then show ?case by (intro exclusive.perform_keeps) simp_all
qed (simp_all add: start_exclusive)

lemma reachable_index: "reachable guard i \<Longrightarrow> index_inv (im_state i)"
proof (induction rule: reachable.induct)
  case (step i op)
  then show ?case by (intro indexed.perform_keeps) simp_all
qed (auto dest: start_exclusive simp: exclusive_inv_def)

definition memory_config :: FabricConfig where
  "memory_config = example_config\<lparr>cf_store_path := [], cf_boot_id := example_id\<rparr>"

definition memory_runtime :: Impl where
  "memory_runtime = fst (start memory_config example_env example_runtime)"

lemma memory_start: "start memory_config example_env example_runtime = (memory_runtime, Inr ())"
  by (simp add: memory_runtime_def start_def memory_config_def example_config_def example_runtime_def
      default_bounds_valid)

lemma memory_reachable: "reachable guard memory_runtime"
  by (rule started_memory [OF memory_start]) (simp_all add: memory_config_def example_runtime_def)

text \<open>C1: mutual exclusion.  In every runtime reached from any store by operations that hand authority
  back only where the conflict check would pass, two assignments that exclude each other (the same
  named scope, and a whole-scope claim on either side or the same function class) never hold
  authority at the same time.\<close>

theorem mutual_exclusion:
  assumes "reachable careful i"
  shows "\<forall>a b r1 r2. map_of (fs_assignments (im_state i)) a = Some r1 \<and>
    map_of (fs_assignments (im_state i)) b = Some r2 \<and> conflicts r1 r2 \<longrightarrow> a = b"
  using exclusive_inv_no_conflict [OF reachable_careful [OF assms]] by blast

text \<open>C6: the claim indexes never lie, whatever operations run: an entry for a scope and class (or for a whole
  scope) names an assignment that exists, is exclusive, holds authority now and claims exactly that
  key; and every assignment is stored under its own identifier.\<close>

theorem claim_indexes_sound:
  assumes "reachable guard i"
  shows "(\<forall>k h. map_of (fs_exclusive_by_class (im_state i)) k = Some h \<longrightarrow>
       (\<exists>r. map_of (fs_assignments (im_state i)) h = Some r \<and> ar_id r = h \<and> class_claim r k)) \<and>
    (\<forall>sc h. map_of (fs_exclusive_by_scope (im_state i)) sc = Some h \<longrightarrow>
       (\<exists>r. map_of (fs_assignments (im_state i)) h = Some r \<and> ar_id r = h \<and> scope_claim r sc))"
  using reachable_index [OF assms]
  by (auto simp: index_inv_def claims_sound_def keyed_assignments_def) metis+

subsection \<open>Tokens of a placement\<close>

lemma authorize_locked_Inr:
  assumes "authorize_locked planned options i = (i', Inr r)"
  obtains derived replacing i1 i2 i3 where "im_state i1 = im_state i"
    and "build_assignment (pn_plan planned) options derived i1 = (i2, Inr r)"
    and "supersede_holder (pn_plan planned) derived replacing i2 = (i3, Inr ())"
    and "calm (insert_assignment r (im_state i3)) (im_state i')"
proof -
  from assms obtain derived d rule i1 replacing where
      m: "authorize_checked (pn_plan planned) options derived d rule i = (i1, Inr replacing)"
      and p: "place_assignment (pn_plan planned) options derived replacing i1 = (i', Inr r)"
    by (auto simp: authorize_locked_def Let_def act_bind_Inr split: sum.splits)
  from p obtain i2 i3 i4 where b: "build_assignment (pn_plan planned) options derived i1 = (i2, Inr r)"
      and s: "supersede_holder (pn_plan planned) derived replacing i2 = (i3, Inr ())"
      and n: "store_new_assignment (pn_plan planned) options r i3 = (i4, Inr ())" and i': "im_state i' = im_state i4"
    by (auto simp: place_assignment_def act_bind_Inr act_update_def act_return_def)
  have "im_state i1 = im_state i" using steadyD [OF steady_authorize_checked m] by (simp add: same_view_def)
  moreover have "calm (insert_assignment r (im_state i3)) (im_state i')"
    using n store_assignment_state i' unfolding store_new_assignment_def by (fastforce split: if_splits)
  ultimately show thesis using that b s by blast
qed

lemma fence_less_iff: "f < g \<longleftrightarrow> ft_epoch f < ft_epoch g \<or> ft_epoch f = ft_epoch g \<and> ft_sequence f < ft_sequence g"
  by (cases f; cases g) (auto simp: less_FencingToken_def)

subsection \<open>A worked placement\<close>

text \<open>A runtime with one device and a policy without evidence requirements, and a plan for that device.\<close>

definition sample_device :: DeviceRecord where
  "sample_device = \<lparr>dr_id = ''d-1'', dr_host = ''h-1'', dr_kind = DK_Nic, dr_incarnation = no_incarnation,
     dr_capacity = \<lparr>cv_packets_per_second = 10, cv_bytes_per_second = 10, cv_flows = 10, cv_queues = 10, cv_memory = 10\<rparr>,
     dr_labels = [], dr_decommissioned = False\<rparr>"

definition sample_rule :: PolicyRule where
  "sample_rule = \<lparr>pr_cls = FC_RouteLookup, pr_required = 0, pr_allowed_kinds = [DK_Nic], pr_exclusive_key = EK_PerClass,
     pr_allow_host_fallback = False, pr_require_authority = False, pr_require_fresh_observation = False,
     pr_require_capability = False, pr_priority = 1, pr_max_reassignments_per_scope = 4,
     pr_reassignment_window_micros = 1000, pr_max_assignments_per_device = 8, pr_reserve = zero_demand\<rparr>"

definition sample_state :: FabricState where
  "sample_state = empty_state\<lparr>fs_epoch := \<lparr>ce_counter = 1, ce_boot = []\<rparr>, fs_epoch_counter := 1,
     fs_has_topology := True, fs_topology := no_topology\<lparr>ts_devices := [sample_device]\<rparr>,
     fs_has_policy := True, fs_policy := no_policy\<lparr>ps_rules := [sample_rule]\<rparr>\<rparr>"

definition sample_runtime :: Impl where
  "sample_runtime = example_runtime\<lparr>im_state := sample_state, im_running := True, im_recovery_accepted := True\<rparr>"

definition sample_plan0 :: AssignmentPlan where
  "sample_plan0 = no_plan\<lparr>pl_function := ''f-1'', pl_scope := no_scope\<lparr>ss_kind := SK_Global\<rparr>, pl_device := ''d-1'',
     pl_host := ''h-1''\<rparr>"

definition sample_plan :: AssignmentPlan where
  "sample_plan = sample_plan0\<lparr>pl_plan_digest := sha256 (bw_buffer (fst (encode_plan sample_plan0 (bin_writer 33554432))))\<rparr>"

definition sample_options :: ApplyOptions where
  "sample_options = \<lparr>ao_request_id = [], ao_cancel = None, ao_allow_replacement = False\<rparr>"

definition sample_fence :: FencingToken where "sample_fence = FencingToken 1 1"

definition sample_record :: AssignmentRecord where
  "sample_record = new_assignment (sample_runtime\<lparr>im_state := sample_state\<lparr>fs_next_assignment_ordinal := 1,
     fs_next_lease := 1, fs_next_attempt := 1, fs_next_fence_sequence := 1\<rparr>\<rparr>) sample_plan sample_options []
     (''as-'' @ hex64 1) 1 1 sample_fence"

definition sample_shape :: "Digest \<Rightarrow> AssignmentRecord" where
  "sample_shape d = no_assignment\<lparr>ar_id := ''as-'' @ hex64 1, ar_generation := 1, ar_function := ''f-1'',
     ar_scope := no_scope\<lparr>ss_kind := SK_Global\<rparr>, ar_exclusivity := EX_Exclusive, ar_exclusive_key := EK_PerClass,
     ar_mode := EM_Offloaded, ar_device := ''d-1'', ar_host := ''h-1'', ar_kind := DK_Nic,
     ar_incarnation := no_incarnation, ar_demand := zero_demand, ar_binding := no_binding\<lparr>gb_assignment := 1\<rparr>,
     ar_lease := 1, ar_attempt := 1, ar_fence := sample_fence, ar_request_fingerprint := d,
     ar_created_at := 1, ar_updated_at := 1, ar_state := AS_Dispatched, ar_state_reason := RC_Ok,
     ar_history := [\<lparr>tr_from = AS_Planned, tr_to = AS_Authorized, tr_reason = RC_Ok, tr_at = 1, tr_fence = sample_fence\<rparr>,
       \<lparr>tr_from = AS_Authorized, tr_to = AS_Dispatched, tr_reason = RC_Ok, tr_at = 1, tr_fence = sample_fence\<rparr>],
     ar_freshness := \<lparr>fr_observed_at = 1, fr_valid_until = 1\<rparr>\<rparr>"

subsection \<open>One lifetime\<close>

text \<open>
  A lifetime begins with a successful start that finds no assignment: the first start on a new store, as
  \<open>nofd\<close> makes it, a start on any other store without assignments, or a start without a store.
  Everything the fabric knows later was issued since then.  A restart on a store that holds assignments does not begin a lifetime:
  without a snapshot the fabric forgets which identifiers it issued (\<open>terminal_identifier_reissued\<close>
  in \<open>Nof_Findings\<close>).
\<close>

inductive lifetime :: "Impl \<Rightarrow> bool" where
  begun: "start config env i0 = (i, Inr u) \<Longrightarrow> im_state i0 = empty_state \<Longrightarrow> fs_assignments (im_state i) = [] \<Longrightarrow> lifetime i"
| continued: "lifetime i \<Longrightarrow> lifetime (perform op i)"

lemma lifetime_invariants: "lifetime i \<Longrightarrow> numbered_inv (im_state i) \<and> fenced_inv (im_state i)"
proof (induction rule: lifetime.induct)
  case (begun config env i0 i u)
  then have "index_inv (im_state i)"
    using start_exclusive [of config env i0 i u] by (simp add: exclusive_inv_def)
  with begun(3) show ?case by (simp add: numbered_inv_def fenced_inv_def ids_covered_def)
next
  case (continued i op)
  then show ?case using numbered.perform_keeps fenced.perform_keeps by blast
qed

lemma lifetime_fold: "lifetime i \<Longrightarrow> lifetime (fold perform ops i)"
  by (induction ops arbitrary: i) (auto intro: lifetime.continued)

text \<open>
  Where identifiers and fences were all issued, an authorization takes a new identifier and a fence
  above every other.
\<close>

lemma authorize_tokens:
  assumes "numbered_inv (im_state i)" and "fenced_inv (im_state i)"
    and "authorize_locked planned options i = (i', Inr r)"
  shows "map_of (fs_assignments (im_state i)) (ar_id r) = None"
    and "map_of (fs_assignments (im_state i')) (ar_id r) = Some r"
    and "map_of (fs_assignments (im_state i)) a = Some x \<Longrightarrow> ar_fence x < ar_fence r"
proof -
  obtain derived replacing i1 i2 i3 where same: "im_state i1 = im_state i"
    and b: "build_assignment (pn_plan planned) options derived i1 = (i2, Inr r)"
    and "supersede_holder (pn_plan planned) derived replacing i2 = (i3, Inr ())"
    and stored: "calm (insert_assignment r (im_state i3)) (im_state i')"
    by (rule authorize_locked_Inr [OF assms(3)])
  note built = build_assignment_Inr [OF b]
  show "map_of (fs_assignments (im_state i)) (ar_id r) = None"
    using built(7) assms(1) same by (simp add: numbered_inv_def)
  show "map_of (fs_assignments (im_state i')) (ar_id r) = Some r"
    using stored by (simp add: calm_def)
  show "ar_fence x < ar_fence r" if "map_of (fs_assignments (im_state i)) a = Some x"
  proof -
    have "ft_epoch (ar_fence x) < ce_counter (fs_epoch (im_state i)) \<or> fence_issued (im_state i) (ar_fence x)"
      using assms(2) that unfolding fenced_inv_def by blast
    with built(5,6) fence_successor [OF built(6)] same show ?thesis
      by (auto simp: fence_less_iff fence_issued_def word_le_nat_alt word_less_nat_alt)
  qed
qed

text \<open>C5: within one lifetime, which began with a start that found no assignment, the tokens of a placement are
  fresh.  After any operations in any order, a successful authorization stores a record under an identifier
  nobody had, with a fencing token strictly above the token of every assignment the fabric knows.\<close>

theorem placement_tokens_fresh:
  assumes "lifetime i" and "authorize_locked planned options i = (i', Inr r)"
  shows "map_of (fs_assignments (im_state i)) (ar_id r) = None \<and>
    map_of (fs_assignments (im_state i')) (ar_id r) = Some r \<and>
    (\<forall>a x. map_of (fs_assignments (im_state i)) a = Some x \<longrightarrow> ar_fence x < ar_fence r)"
proof -
  have "numbered_inv (im_state i)" "fenced_inv (im_state i)" using lifetime_invariants [OF assms(1)] by simp_all
  from authorize_tokens [OF this assms(2)] show ?thesis by blast
qed

text \<open>C22: within one lifetime, which began with a start that found no assignment, whatever operations run in whatever order, every assignment identifier is one
  the fabric issued and its ordinal counter covers, and every fencing token belongs to an earlier
  epoch or was issued in this one.\<close>

theorem lifetime_tokens_issued:
  assumes "lifetime i"
  shows "(\<forall>a r. map_of (fs_assignments (im_state i)) a = Some r \<longrightarrow> ar_id r = a \<and>
      (\<exists>n \<le> fs_next_assignment_ordinal (im_state i). a = ''as-'' @ hex64 n) \<and>
      (ft_epoch (ar_fence r) < ce_counter (fs_epoch (im_state i)) \<or>
       ft_epoch (ar_fence r) = ce_counter (fs_epoch (im_state i)) \<and>
       ft_sequence (ar_fence r) \<le> fs_next_fence_sequence (im_state i)))"
  using lifetime_invariants [OF assms]
  by (auto simp: numbered_inv_def fenced_inv_def fence_issued_def ids_covered_def index_inv_def keyed_assignments_def dom_def)

text \<open>Terminal assignments.\<close>

definition terminal_inv :: "AssignmentId \<Rightarrow> FabricState \<Rightarrow> bool" where
  "terminal_inv a s \<longleftrightarrow> numbered_inv s \<and> (\<exists>r. map_of (fs_assignments s) a = Some r \<and> is_terminal (ar_state r))"

interpretation terminal: fabric_invariant "terminal_inv a" False True for a
proof
  show "index_inv s" if "terminal_inv a s" for s using that by (simp add: terminal_inv_def numbered_inv_def)
  show "ids_covered s" if "terminal_inv a s" for s using that by (simp add: terminal_inv_def numbered_inv_def)
  show "terminal_inv a s'" if "terminal_inv a s" "calm s s'" for s s'
    using that numbered.calm by (auto simp: terminal_inv_def calm_def)
  show "terminal_inv a (insert_assignment r s)"
    if "terminal_inv a s" "map_of (fs_assignments s) (ar_id r) = Some r0" "later_version s r0 r" for s r r0
    using that numbered.update [OF _ that(2,3)] by (auto simp: terminal_inv_def later_version_def)
  show "terminal_inv a (insert_assignment r s)"
    if "terminal_inv a s" "newly_issued s r" "True \<Longrightarrow> map_of (fs_assignments s) (ar_id r) = None" for s r
    using that numbered.place [of s r] by (auto simp: terminal_inv_def)
qed simp

text \<open>C9: within one lifetime, which began with a start that found no assignment, a terminal assignment
  (revoked, superseded, failed or rejected) stays terminal.  No sequence of later operations of that lifetime,
  with re-authorizations, effect reports and new placements among them, brings it back or replaces it by a live one.\<close>

theorem terminal_stays_terminal:
  assumes "lifetime i" and "map_of (fs_assignments (im_state i)) a = Some r" and "is_terminal (ar_state r)"
  shows "\<exists>r'. map_of (fs_assignments (im_state (fold perform ops i))) a = Some r' \<and> is_terminal (ar_state r')"
proof -
  have "terminal_inv a (im_state i)" using assms lifetime_invariants by (simp add: terminal_inv_def)
  then have "terminal_inv a (im_state (fold perform ops i))" by (rule terminal.perform_list_keeps) simp
  then show ?thesis by (simp add: terminal_inv_def)
qed

end
