(* ===== verification/Nof_Behaviour.thy ===== *)
theory Nof_Behaviour
  imports Nof_Guarantees
begin

text \<open>
  The behaviour of planning and storing: a plan selects the best eligible device, and a stored assignment
  is written to the journal before the state moves, so that a failed write moves nothing.
\<close>

subsection \<open>Planning\<close>

lemma select_candidate_best:
  assumes "select_candidate cs = Some b"
  shows "b \<in> set cs" and "ca_eligible b" and "c \<in> set cs \<Longrightarrow> ca_eligible c \<Longrightarrow> \<not> candidate_precedes c b"
  using candidate_order.pick_best_Some assms unfolding select_candidate_def by blast+

lemma plan_locked_selects:
  assumes "plan_locked rq cancel k i = (i', Inr planned)" and "pn_decision planned \<noteq> DE_Refuse"
  shows "\<exists>f rule scope_id selected. let c = plan_context i rq f rule scope_id (plan_replacing (im_state i) rq scope_id) in
    select_candidate (plan_candidates c) = Some selected \<and>
    (\<exists>binding digest. pn_plan planned = (plan_for c selected binding)\<lparr>pl_plan_digest := digest\<rparr>) \<and>
    and_then (scope_validate (rq_scope rq)) (\<lambda>_. scope_id_of (rq_scope rq)) = Inr scope_id \<and>
    find_rule (fs_policy (im_state i)) (rq_cls rq) = Some rule \<and> plan_function (im_state i) rq = Some f \<and>
    (rq_request_replacement rq \<or> plan_replacing (im_state i) rq scope_id = [])"
proof -
  from assms obtain f rule scope_id res where
      r: "and_then (scope_validate (rq_scope rq)) (\<lambda>_. scope_id_of (rq_scope rq)) = Inr scope_id"
        "find_rule (fs_policy (im_state i)) (rq_cls rq) = Some rule" "plan_function (im_state i) rq = Some f"
        "rq_request_replacement rq \<or> plan_replacing (im_state i) rq scope_id = []"
      and planned: "planned = plan_select (plan_context i rq f rule scope_id (plan_replacing (im_state i) rq scope_id)) res"
    by (auto simp: plan_locked_def Let_def split: if_splits sum.splits option.splits)
  let ?c = "plan_context i rq f rule scope_id (plan_replacing (im_state i) rq scope_id)"
  from assms(2) planned obtain selected binding digest where "select_candidate (plan_candidates ?c) = Some selected"
      "pn_plan planned = (plan_for ?c selected binding)\<lparr>pl_plan_digest := digest\<rparr>"
    by (auto simp: plan_select_def plan_accept_def Let_def split: option.splits if_splits)
  with r show ?thesis unfolding Let_def by blast
qed

lemma rank_device_fields:
  "ca_device (rank_device c d) = dr_id d" "ca_eligible (rank_device c d) = ca_eligible (evaluate_device c d)"
  "ca_host (rank_device c d) = dr_host d" "ca_kind (rank_device c d) = dr_kind d"
  using evaluate_device_fields [of c d] by (simp_all add: rank_device_def finalize_ranking_def Let_def)

text \<open>C14: an accepted plan names the best device.  The devices are evaluated in the fabric's current state, topology and
  policy, at the current time, for the scope the request derives, the function the state knows under the
  requested identifier, the policy's rule for the requested class and, for a replacement only, the holder
  the claim indexes name.  The planned device passed every gate of that evaluation, and no other
  device that passes them precedes it in the ranking (execution mode, device kind, locality,
  utilization, identifier), among the devices the plan looked at.\<close>

theorem plan_selects_best_device:
  assumes "plan_locked rq cancel k i = (i', Inr planned)" and "pn_decision planned \<noteq> DE_Refuse"
  shows "\<exists>c d f rule scope_id replacing.
    and_then (scope_validate (rq_scope rq)) (\<lambda>_. scope_id_of (rq_scope rq)) = Inr scope_id \<and>
    plan_function (im_state i) rq = Some f \<and> find_rule (fs_policy (im_state i)) (rq_cls rq) = Some rule \<and>
    replacing = (if \<not> rq_request_replacement rq then []
      else case map_of (fs_exclusive_by_class (im_state i)) (ExclusivityKey scope_id (rq_cls rq)) of Some h \<Rightarrow> h
        | None \<Rightarrow> (case map_of (fs_exclusive_by_scope (im_state i)) scope_id of Some h \<Rightarrow> h | None \<Rightarrow> [])) \<and>
    c = \<lparr>ec_state = im_state i, ec_bounds = im_bounds i, ec_now = im_now i, ec_function = f, ec_rule = rule,
      ec_policy = fs_policy (im_state i), ec_topology = fs_topology (im_state i), ec_request = rq,
      ec_request_scope = scope_id, ec_replacing = replacing\<rparr> \<and>
    d \<in> set (take (max_candidates_per_plan (im_bounds i)) (ts_devices (fs_topology (im_state i)))) \<and>
    pl_device (pn_plan planned) = dr_id d \<and> pl_host (pn_plan planned) = dr_host d \<and>
    pl_kind (pn_plan planned) = dr_kind d \<and> pl_scope_id (pn_plan planned) = scope_id \<and> device_admissible c d \<and>
    (\<forall>d' \<in> set (take (max_candidates_per_plan (im_bounds i)) (ts_devices (fs_topology (im_state i)))).
       device_admissible c d' \<longrightarrow> \<not> candidate_precedes (rank_device c d') (rank_device c d))"
proof -
  from plan_locked_selects [OF assms, unfolded Let_def] obtain f rule scope_id selected binding digest where
      sel: "select_candidate (plan_candidates (plan_context i rq f rule scope_id
        (plan_replacing (im_state i) rq scope_id))) = Some selected"
      and plan: "pn_plan planned = (plan_for (plan_context i rq f rule scope_id
        (plan_replacing (im_state i) rq scope_id)) selected binding)\<lparr>pl_plan_digest := digest\<rparr>"
      and found: "and_then (scope_validate (rq_scope rq)) (\<lambda>_. scope_id_of (rq_scope rq)) = Inr scope_id"
        "plan_function (im_state i) rq = Some f" "find_rule (fs_policy (im_state i)) (rq_cls rq) = Some rule"
        "rq_request_replacement rq \<or> plan_replacing (im_state i) rq scope_id = []"
    by (elim exE conjE)
  let ?c = "plan_context i rq f rule scope_id (plan_replacing (im_state i) rq scope_id)"
  let ?ds = "take (max_candidates_per_plan (im_bounds i)) (ts_devices (fs_topology (im_state i)))"
  have cands: "plan_candidates ?c = map (rank_device ?c) ?ds"
    by (simp add: plan_candidates_def plan_context_def)
  from select_candidate_best(1) [OF sel] obtain d where d: "d \<in> set ?ds" "selected = rank_device ?c d"
    unfolding cands by auto
  have fits: "device_admissible ?c d"
    using select_candidate_best(2) [OF sel] d(2) by (simp add: rank_device_fields evaluate_device_admissible)
  have best: "\<not> candidate_precedes (rank_device ?c d') (rank_device ?c d)"
    if "d' \<in> set ?ds" "device_admissible ?c d'" for d'
    using select_candidate_best(3) [OF sel, of "rank_device ?c d'"] that d(2)
    by (simp add: cands rank_device_fields evaluate_device_admissible)
  have replaced: "plan_replacing (im_state i) rq scope_id = (if \<not> rq_request_replacement rq then []
      else case map_of (fs_exclusive_by_class (im_state i)) (ExclusivityKey scope_id (rq_cls rq)) of Some h \<Rightarrow> h
        | None \<Rightarrow> (case map_of (fs_exclusive_by_scope (im_state i)) scope_id of Some h \<Rightarrow> h | None \<Rightarrow> []))"
    using found(4) by (cases "rq_request_replacement rq") (simp_all add: plan_replacing_def)
  have names: "pl_device (pn_plan planned) = dr_id d" "pl_host (pn_plan planned) = dr_host d"
      "pl_kind (pn_plan planned) = dr_kind d" "pl_scope_id (pn_plan planned) = scope_id"
    using plan d(2) by (simp_all add: plan_for_def rank_device_fields Let_def) (simp add: plan_context_def)
  show ?thesis
    using found(1-3) replaced d(1) names fits best plan_context_def [of i rq f rule scope_id] by blast
qed

text \<open>The sample runtime with evidence that is current and fresh, and a request for its one device.\<close>

definition fresh_topology :: TopologySnapshot where
  "fresh_topology = \<lparr>ts_generation = 1, ts_provenance = no_provenance\<lparr>pv_source := ''src-1'', pv_sequence := 1\<rparr>,
     ts_freshness = \<lparr>fr_observed_at = 1, fr_valid_until = 1000\<rparr>, ts_hosts = [], ts_devices = [sample_device], ts_links = []\<rparr>"

definition fresh_policy :: PolicySnapshot where
  "fresh_policy = \<lparr>ps_generation = 1, ps_provenance = no_provenance\<lparr>pv_source := ''src-1'', pv_sequence := 1\<rparr>,
     ps_freshness = \<lparr>fr_observed_at = 1, fr_valid_until = 1000\<rparr>, ps_rules = [sample_rule], ps_default_deny = True\<rparr>"

definition seen_once :: SourceState where
  "seen_once = \<lparr>st_last_sequence = 1, st_last_digest = digest_zero, st_restart_floor = 0, st_seen = True\<rparr>"

definition fresh_state :: FabricState where
  "fresh_state = sample_state\<lparr>fs_topology := fresh_topology, fs_policy := fresh_policy,
     fs_sources := [(SourceKey ''src-1'' ED_Topology, seen_once), (SourceKey ''src-1'' ED_Policy, seen_once)]\<rparr>"

definition fresh_runtime :: Impl where
  "fresh_runtime = sample_runtime\<lparr>im_state := fresh_state\<rparr>"

definition fresh_request :: PlacementRequest where
  "fresh_request = no_request\<lparr>rq_function := ''f-1'', rq_scope := no_scope\<lparr>ss_kind := SK_Global\<rparr>\<rparr>"

lemma fresh_context_admissible:
  "device_admissible (plan_context fresh_runtime fresh_request
     \<lparr>fd_id = ''f-1'', fd_cls = FC_RouteLookup, fd_required = 0, fd_required_version = SemanticVersion 0 0,
      fd_exclusive_by_default = True\<rparr> sample_rule [] []) sample_device"
  by (simp add: device_admissible_def kind_admissible_def affinity_admissible_def capability_admissible_def
      plan_context_def fresh_request_def no_request_def kinds_allow_def sample_device_def sample_rule_def
      fresh_runtime_def fresh_state_def sample_state_def lookup_capability_def scope_has_exclusive_conflict_def
      demand_fits_def committed_demand_for_def zero_demand_def device_assignments_def empty_state_def Let_def)

lemma fresh_plan:
  "\<exists>planned. plan_locked fresh_request None 0 fresh_runtime = (fresh_runtime, Inr planned) \<and> pn_decision planned \<noteq> DE_Refuse"
proof -
  let ?f = "\<lparr>fd_id = ''f-1'', fd_cls = FC_RouteLookup, fd_required = 0, fd_required_version = SemanticVersion 0 0,
      fd_exclusive_by_default = True\<rparr>"
  let ?c = "plan_context fresh_runtime fresh_request ?f sample_rule [] []"
  have evidence: "plan_evidence fresh_state fresh_request 1 = RC_Ok"
    by (simp add: plan_evidence_def fresh_state_def sample_state_def evidence_current_def find_source_def
        source_is_current_def fresh_topology_def fresh_policy_def seen_once_def freshness_usable_def is_expired_def
        freshness_is_set_def fresh_request_def no_request_def gen_is_set_def)
  have devices: "take (max_candidates_per_plan default_bounds) (ts_devices fresh_topology) = [sample_device]"
    by (simp add: fresh_topology_def default_bounds_def)
  have sel: "select_candidate (plan_candidates ?c) = Some (rank_device ?c sample_device)"
    using devices fresh_context_admissible
    by (simp add: plan_candidates_def select_candidate_def pick_best_def keep_best_def rank_device_fields
        evaluate_device_admissible plan_context_def fresh_runtime_def sample_runtime_def example_runtime_def fresh_state_def)
  have "pn_decision (plan_select ?c res) \<noteq> DE_Refuse" for res
    using sel by (simp add: plan_select_def plan_accept_def Let_def plan_context_def sample_rule_def)
  moreover have "plan_function fresh_state fresh_request = Some ?f"
    by (simp add: plan_function_def fresh_request_def no_request_def fresh_state_def sample_state_def empty_state_def)
  moreover have "find_rule (fs_policy fresh_state) FC_RouteLookup = Some sample_rule"
    by (simp add: fresh_state_def fresh_policy_def find_rule_def sample_rule_def)
  moreover have "plan_replacing fresh_state fresh_request [] = []"
    by (simp add: plan_replacing_def fresh_state_def sample_state_def empty_state_def)
  moreover have "im_state fresh_runtime = fresh_state" "im_bounds fresh_runtime = default_bounds" "im_now fresh_runtime = 1"
    by (simp_all add: fresh_runtime_def sample_runtime_def example_runtime_def)
  moreover have "rq_function fresh_request = ''f-1''" "rq_cls fresh_request = FC_RouteLookup"
      "rq_scope fresh_request = no_scope\<lparr>ss_kind := SK_Global\<rparr>"
    by (simp_all add: fresh_request_def no_request_def)
  moreover have "\<not> length (ts_devices (fs_topology fresh_state)) > max_candidates_per_plan default_bounds"
    by (simp add: fresh_state_def fresh_topology_def default_bounds_def)
  moreover have "\<not> mask_count 0 > max_semantics_per_requirement default_bounds"
    by (simp add: mask_count.simps default_bounds_def)
  ultimately show ?thesis
    using evidence
    by (simp add: plan_locked_def cancelled_def scope_validate_def scope_id_of_def Let_def no_scope_def)
qed

theorem plan_selects_best_device_witness:
  "\<exists>planned c. plan_locked fresh_request None 0 fresh_runtime = (fresh_runtime, Inr planned) \<and>
    ec_state c = fresh_state \<and> ec_rule c = sample_rule \<and> ec_request_scope c = [] \<and> ec_replacing c = [] \<and>
    pl_device (pn_plan planned) = dr_id sample_device \<and> device_admissible c sample_device"
proof -
  obtain planned where p: "plan_locked fresh_request None 0 fresh_runtime = (fresh_runtime, Inr planned)"
      "pn_decision planned \<noteq> DE_Refuse" using fresh_plan by blast
  have "take (max_candidates_per_plan (im_bounds fresh_runtime)) (ts_devices (fs_topology (im_state fresh_runtime))) = [sample_device]"
      "im_state fresh_runtime = fresh_state" "\<not> rq_request_replacement fresh_request"
      "scope_validate (rq_scope fresh_request) = ok_status" "scope_id_of (rq_scope fresh_request) = Inr []"
      "find_rule (fs_policy fresh_state) (rq_cls fresh_request) = Some sample_rule"
    by (simp_all add: fresh_runtime_def fresh_state_def fresh_topology_def sample_runtime_def example_runtime_def default_bounds_def
        fresh_request_def no_request_def scope_validate_def scope_id_of_def no_scope_def fresh_policy_def find_rule_def
        sample_rule_def)
  note facts = this
  from plan_selects_best_device [OF p] obtain c d f rule scope_id replacing where
      c: "and_then (scope_validate (rq_scope fresh_request)) (\<lambda>_. scope_id_of (rq_scope fresh_request)) = Inr scope_id"
        "find_rule (fs_policy (im_state fresh_runtime)) (rq_cls fresh_request) = Some rule"
        "replacing = (if \<not> rq_request_replacement fresh_request then []
          else case map_of (fs_exclusive_by_class (im_state fresh_runtime)) (ExclusivityKey scope_id (rq_cls fresh_request))
            of Some h \<Rightarrow> h
            | None \<Rightarrow> (case map_of (fs_exclusive_by_scope (im_state fresh_runtime)) scope_id of Some h \<Rightarrow> h | None \<Rightarrow> []))"
        "c = \<lparr>ec_state = im_state fresh_runtime, ec_bounds = im_bounds fresh_runtime, ec_now = im_now fresh_runtime,
          ec_function = f, ec_rule = rule, ec_policy = fs_policy (im_state fresh_runtime),
          ec_topology = fs_topology (im_state fresh_runtime), ec_request = fresh_request, ec_request_scope = scope_id,
          ec_replacing = replacing\<rparr>"
        "d \<in> set (take (max_candidates_per_plan (im_bounds fresh_runtime)) (ts_devices (fs_topology (im_state fresh_runtime))))"
        "pl_device (pn_plan planned) = dr_id d" "device_admissible c d"
    by (elim exE conjE)
  have "d = sample_device" using c(5) unfolding facts(1) by simp
  moreover have "scope_id = []" "rule = sample_rule" "replacing = []"
    using c(1-3) by (simp_all add: facts)
  ultimately have "ec_state c = fresh_state" "ec_rule c = sample_rule" "ec_request_scope c = []" "ec_replacing c = []"
      "d = sample_device" by (simp_all add: c(4) facts(2))
  with p(1) c(6,7) show ?thesis by blast
qed

subsection \<open>Write-ahead storing\<close>

lemma encode_recorded_assignment_first:
  assumes "encode_fresh n (encode_recorded_assignment x) = Inr bs"
  shows "\<exists>bs'. encode_fresh n (encode_assignment (xa_record x)) = Inr bs'"
  using assms by (auto simp: encode_fresh_def encode_recorded_assignment_def split: prod.splits sum.splits)

lemma insert_and_answer_ok:
  assumes "\<exists>bs. encode_fresh (max_record_bytes (im_bounds i)) (encode_assignment r) = Inr bs"
  shows "snd (insert_and_answer r request_id fingerprint i) = Inr ()"
  using assms by (auto simp: insert_and_answer_def act_bind_def on_state_def act_update_def act_lift_def record_idempotency_def)

text \<open>C8: an assignment is written to the journal before the state moves, and a failed write moves nothing.
  When storing fails, for whatever reason (the record does not encode, compaction fails, the write
  or the flush fails), the fabric state is exactly what it was; when it succeeds, the record is the
  one the fabric holds under its identifier.\<close>

theorem store_assignment_atomic:
  assumes "store_assignment r request_id fingerprint type i = (i', res)"
  shows "case res of Inl e \<Rightarrow> im_state i' = im_state i
    | Inr u \<Rightarrow> map_of (fs_assignments (im_state i')) (ar_id r) = Some r"
proof (cases res)
  case (Inr u)
  with assms store_assignment_state [OF assms] show ?thesis by (auto simp: calm_def)
next
  case (Inl e)
  let ?x = "\<lparr>xa_record = r, xa_request_id = request_id, xa_request_fingerprint = fingerprint\<rparr>"
  show ?thesis
  proof (cases "encode_fresh (max_record_bytes (im_bounds i)) (encode_recorded_assignment ?x)")
    case encode: (Inl e')
    with assms Inl show ?thesis by (simp add: store_assignment_def act_bind_def act_lift_def)
  next
    case encode: (Inr payload)
    obtain i1 r1 where c: "commit type payload i = (i1, r1)" by (cases "commit type payload i")
    have view: "im_state i1 = im_state i" "im_bounds i1 = im_bounds i"
      using steadyD [OF steady_commit c] by (simp_all add: same_view_def)
    show ?thesis
    proof (cases r1)
      case failed: (Inl e'')
      with assms Inl encode c view show ?thesis by (auto simp: store_assignment_def act_bind_def act_lift_def)
    next
      case (Inr u)
      with assms encode c have "snd (insert_and_answer r request_id fingerprint i1) = res"
        by (simp add: store_assignment_def act_bind_def act_lift_def)
      moreover have "snd (insert_and_answer r request_id fingerprint i1) = Inr ()"
        using encode_recorded_assignment_first [OF encode] view by (intro insert_and_answer_ok) simp
      ultimately show ?thesis using Inl by simp
    qed
  qed
qed

theorem store_assignment_atomic_witness:
  "case snd (store_assignment sample_record [] digest_zero RT_AssignmentCreated (sample_runtime\<lparr>im_bounds :=
       default_bounds\<lparr>max_record_bytes := 1\<rparr>\<rparr>)) of
     Inl e \<Rightarrow> im_state (fst (store_assignment sample_record [] digest_zero RT_AssignmentCreated (sample_runtime\<lparr>im_bounds :=
       default_bounds\<lparr>max_record_bytes := 1\<rparr>\<rparr>))) = sample_state
   | Inr u \<Rightarrow> map_of (fs_assignments (im_state (fst (store_assignment sample_record [] digest_zero RT_AssignmentCreated
       (sample_runtime\<lparr>im_bounds := default_bounds\<lparr>max_record_bytes := 1\<rparr>\<rparr>))))) (ar_id sample_record) = Some sample_record"
proof -
  have "im_state (sample_runtime\<lparr>im_bounds := default_bounds\<lparr>max_record_bytes := 1\<rparr>\<rparr>) = sample_state"
    by (simp add: sample_runtime_def)
  then show ?thesis
    using store_assignment_atomic [of sample_record "[]" digest_zero RT_AssignmentCreated
      "sample_runtime\<lparr>im_bounds := default_bounds\<lparr>max_record_bytes := 1\<rparr>\<rparr>"] by (metis prod.collapse)
qed

subsection \<open>Revoking\<close>

lemma guarded_run:
  "im_running i \<Longrightarrow> im_recovery_accepted i \<Longrightarrow> guarded m i = m i"
  by (simp add: guarded_def require_accepted_def require_running_def act_bind_def require_def)

lemma with_idempotency_fresh:
  "find_idempotency (im_state i) request_id = None \<Longrightarrow> with_idempotency request_id fp hits conflict fresh i = fresh i"
  by (simp add: with_idempotency_def)

lemma insert_idempotency [simp]:
  "fs_idempotency (insert_assignment r s) = fs_idempotency s"
  "fs_idempotency_order (insert_assignment r s) = fs_idempotency_order s"
  by (simp_all add: insert_assignment_def acquire_claims_def release_claims_def claim_exclusive_def committed_add_def
      refresh_authority_usage_def Let_def split: option.split)

lemma revoke_fresh_Inr:
  assumes "revoke_fresh rq cancel i = (i', Inr r)" and "map_of (fs_assignments (im_state i)) (rk_assignment rq) = Some r0"
    and "ar_state r0 \<noteq> AS_Revoked"
  obtains i1 i2 where "im_state i1 = im_state i" "im_bounds i1 = im_bounds i" "im_now i1 = im_now i"
    "r = trimmed (im_bounds i) (transition_to AS_Revoked (rk_reason rq) (im_now i) r0)"
    "store_assignment r (rk_request_id rq) (revoke_fingerprint rq) RT_AssignmentTransitioned i1 = (i2, Inr ())"
    "im_state i' = im_state i2"
proof -
  let ?r = "transition_to AS_Revoked (rk_reason rq) (im_now i) r0"
  from assms obtain i1 i2 r' where t: "trim_history ?r i = (i1, Inr r')"
      and s: "store_assignment r' (rk_request_id rq) (revoke_fingerprint rq) RT_AssignmentTransitioned i1 = (i2, Inr ())"
      and r: "r' = r" and i': "im_state i' = im_state i2"
    by (auto simp: revoke_fresh_def counting_def act_bind_Inr act_return_def act_update_def act_lift_def
        split: if_splits prod.splits sum.splits)
  have "im_state i1 = im_state i" "im_bounds i1 = im_bounds i" "im_now i1 = im_now i"
    using steadyD [OF steady_trim_history t] by (simp_all add: same_view_def)
  moreover have "r = trimmed (im_bounds i) ?r" using trim_history_eq [of ?r i] t r by simp
  ultimately show thesis using that s i' r by blast
qed

lemma fabric_revoke_fresh:
  assumes "im_running i" and "im_recovery_accepted i" and "find_idempotency (im_state i) (rk_request_id rq) = None"
  shows "fabric_revoke rq cancel i = revoke_fresh rq cancel i"
  using assms by (simp add: fabric_revoke_def guarded_run with_idempotency_fresh)

lemma fabric_revoke_stores:
  assumes "fabric_revoke rq cancel i = (i', Inr r)" and "im_running i" and "im_recovery_accepted i"
    and "find_idempotency (im_state i) (rk_request_id rq) = None"
    and "map_of (fs_assignments (im_state i)) (rk_assignment rq) = Some r0" and "ar_state r0 \<noteq> AS_Revoked"
  shows "map_of (fs_assignments (im_state i')) (ar_id r) = Some r"
proof -
  have "revoke_fresh rq cancel i = (i', Inr r)" using assms(1) fabric_revoke_fresh [OF assms(2-4)] by simp
  then obtain i1 i2 where "store_assignment r (rk_request_id rq) (revoke_fingerprint rq) RT_AssignmentTransitioned i1 =
      (i2, Inr ())" "im_state i' = im_state i2"
    by (rule revoke_fresh_Inr [OF _ assms(5,6)])
  with store_assignment_state show ?thesis by (fastforce simp: calm_def)
qed

end
