(* ===== verification/Nof_Revalidation.thy ===== *)
theory Nof_Revalidation
  imports Nof_Behaviour
begin

text \<open>
  Revalidation.  The validity of an assignment depends on the evidence, the policy, the grants
  and the epoch, and not on the other assignments: storing one does not change the validity of
  another.  So after a revalidation that was not interrupted every assignment that still holds
  authority is valid.
\<close>

subsection \<open>Use counters of the grants\<close>

lemma grant_users_Cons:
  "grant_users a (e # es) =
     (if holds_authority (ar_state (snd e)) \<and> ar_authority (snd e) \<noteq> [] \<and> ar_authority (snd e) = a
      then snd e # grant_users a es else grant_users a es)"
  by (simp add: grant_users_def)

lemma count_users:
  "map_of (fold (\<lambda>e m. let r = snd e in
       if holds_authority (ar_state r) \<and> ar_authority r \<noteq> []
       then (case map_of m (ar_authority r) of
               None \<Rightarrow> m
             | Some g \<Rightarrow> om_put (ar_authority r) (g\<lparr>ag_used := ag_used g + 1\<rparr>) m)
       else m) es m) a =
     map_option (\<lambda>g. g\<lparr>ag_used := ag_used g + of_nat (length (grant_users a es))\<rparr>) (map_of m a)"
proof (induction es arbitrary: m)
  case Nil
  then show ?case by (simp add: grant_users_def option.map_ident_strong)
next
  case (Cons e es)
  let ?r = "snd e"
  let ?m = "if holds_authority (ar_state ?r) \<and> ar_authority ?r \<noteq> []
       then (case map_of m (ar_authority ?r) of None \<Rightarrow> m
             | Some g \<Rightarrow> om_put (ar_authority ?r) (g\<lparr>ag_used := ag_used g + 1\<rparr>) m)
       else m"
  have "map_of ?m a = map_option (\<lambda>g. g\<lparr>ag_used := ag_used g +
      (if holds_authority (ar_state ?r) \<and> ar_authority ?r \<noteq> [] \<and> ar_authority ?r = a then 1 else 0)\<rparr>) (map_of m a)"
    by (auto split: option.split simp: option.map_ident_strong)
  then show ?case
    using Cons.IH [of ?m] by (simp add: Let_def grant_users_Cons option.map_comp comp_def algebra_simps)
qed

lemma refresh_usage:
  "map_of (fs_authority (refresh_authority_usage s)) a =
     map_option (\<lambda>g. g\<lparr>ag_used := of_nat (length (grant_users a (fs_assignments s)))\<rparr>) (map_of (fs_authority s) a)"
proof -
  have "map_of (map (\<lambda>e. (fst e, (snd e)\<lparr>ag_used := 0\<rparr>)) (fs_authority s)) a =
      map_option (\<lambda>g. g\<lparr>ag_used := 0\<rparr>) (map_of (fs_authority s) a)"
    using map_of_map_val [of "\<lambda>_ g. g\<lparr>ag_used := 0\<rparr>" "fs_authority s" a] by simp
  then show ?thesis by (simp add: refresh_authority_usage_def count_users option.map_comp comp_def)
qed

lemma insert_authority:
  "map_of (fs_authority (insert_assignment r s)) a =
     map_option (\<lambda>g. g\<lparr>ag_used := of_nat (length (grant_users a (om_put (ar_id r) r (fs_assignments s))))\<rparr>)
       (map_of (fs_authority s) a)"
  by (simp add: insert_assignment_def refresh_usage Let_def split: option.split)

text \<open>The use counter of a grant is exact.  Storing an assignment leaves every grant as it is but for its use
  counter, which becomes the number of assignments that hold authority under that grant.\<close>

lemma authority_usage_exact:
  "map_of (fs_authority (insert_assignment r s)) a =
     map_option (\<lambda>g. g\<lparr>ag_used := of_nat (length [x \<leftarrow> map snd (om_put (ar_id r) r (fs_assignments s)).
         holds_authority (ar_state x) \<and> ar_authority x \<noteq> [] \<and> ar_authority x = a])\<rparr>)
       (map_of (fs_authority s) a)"
  using insert_authority [of r s a] by (simp add: grant_users_def)

subsection \<open>Validity does not depend on the other assignments\<close>

definition same_evidence :: "FabricState \<Rightarrow> FabricState \<Rightarrow> bool" where
  "same_evidence s s' \<longleftrightarrow> fs_sources s' = fs_sources s \<and> fs_has_topology s' = fs_has_topology s \<and>
     fs_topology s' = fs_topology s \<and> fs_has_policy s' = fs_has_policy s \<and> fs_policy s' = fs_policy s \<and>
     fs_capabilities s' = fs_capabilities s \<and> fs_observations s' = fs_observations s \<and>
     fs_functions s' = fs_functions s \<and> fs_epoch s' = fs_epoch s \<and>
     (\<forall>a. map_option (\<lambda>g. g\<lparr>ag_used := 0\<rparr>) (map_of (fs_authority s') a) =
          map_option (\<lambda>g. g\<lparr>ag_used := 0\<rparr>) (map_of (fs_authority s) a))"

lemma same_evidence_refl [simp]: "same_evidence s s"
  by (simp add: same_evidence_def)

lemma same_evidence_trans: "same_evidence s s' \<Longrightarrow> same_evidence s' s'' \<Longrightarrow> same_evidence s s''"
  by (simp add: same_evidence_def)

lemma same_evidence_insert: "same_evidence s (insert_assignment r s)"
  by (simp add: same_evidence_def insert_authority option.map_comp comp_def)

lemma recheck_used: "authority_recheck (g\<lparr>ag_used := n\<rparr>) = authority_recheck g"
  by (simp add: fun_eq_iff authority_recheck_def)

lemma evidence_current_same: "same_evidence s s' \<Longrightarrow> evidence_current s' = evidence_current s"
  by (simp add: fun_eq_iff evidence_current_def find_source_def same_evidence_def)

lemma target_validity_same:
  assumes "same_evidence s s'"
  shows "assignment_target_validity s' r at' b = assignment_target_validity s r at' b"
proof -
  have same: "fs_has_topology s' = fs_has_topology s" "fs_topology s' = fs_topology s" "fs_has_policy s' = fs_has_policy s"
      "fs_policy s' = fs_policy s" "fs_capabilities s' = fs_capabilities s" "fs_observations s' = fs_observations s"
      "fs_functions s' = fs_functions s"
    using assms by (simp_all add: same_evidence_def)
  show ?thesis
    unfolding assignment_target_validity_def topology_validity_def policy_validity_def capability_validity_def
      observation_validity_def lookup_capability_def lookup_observation_def same evidence_current_same [OF assms] ..
qed

lemma assignment_validity_same:
  assumes "same_evidence s s'"
  shows "assignment_validity s' r at' = assignment_validity s r at'"
proof -
  have same: "fs_policy s' = fs_policy s" "fs_functions s' = fs_functions s" "fs_epoch s' = fs_epoch s"
    using assms by (simp_all add: same_evidence_def)
  note current = evidence_current_same [OF assms]
  have authority: "authority_validity s' r at' = authority_validity s r at'"
  proof (cases "map_of (fs_authority s) (ar_authority r)")
    case None
    with assms have "map_of (fs_authority s') (ar_authority r) = None"
      unfolding same_evidence_def by (metis option.map_disc_iff)
    with None show ?thesis by (simp add: authority_validity_def)
  next
    case (Some g)
    with assms have "map_option (\<lambda>g. g\<lparr>ag_used := 0\<rparr>) (map_of (fs_authority s') (ar_authority r)) = Some (g\<lparr>ag_used := 0\<rparr>)"
      by (simp add: same_evidence_def)
    then obtain g' where g': "map_of (fs_authority s') (ar_authority r) = Some g'" "g'\<lparr>ag_used := 0\<rparr> = g\<lparr>ag_used := 0\<rparr>"
      by auto
    have "ag_provenance g' = ag_provenance g" using arg_cong [OF g'(2), of ag_provenance] by simp
    moreover have "authority_recheck g' = authority_recheck g"
      using recheck_used [of 0 g'] recheck_used [of 0 g] g'(2) by simp
    ultimately show ?thesis unfolding authority_validity_def g'(1) Some same current by simp
  qed
  show ?thesis unfolding assignment_validity_def target_validity_same [OF assms] authority same ..
qed

subsection \<open>The revalidation loop\<close>

lemma same_evidence_updates [simp]:
  "same_evidence s0 (s\<lparr>fs_idempotency := m, fs_idempotency_order := q\<rparr>) \<longleftrightarrow> same_evidence s0 s"
  by (simp add: same_evidence_def)

lemma store_transition_evidence: "same_evidence (im_state i) (im_state (fst (store_transition r i)))"
proof -
  have "keeps (same_evidence (im_state i)) (store_transition r)"
    by (rule store_transition_any) (auto intro: same_evidence_trans same_evidence_insert)
  from keepsD [OF this] show ?thesis by simp
qed

text \<open>One assignment: afterwards it is valid or does not hold authority, and the others are untouched.\<close>

lemma revalidate_one_Inr:
  assumes "revalidate_one at' r i = (i', Inr outcome)" and "index_inv (im_state i)"
    and "map_of (fs_assignments (im_state i)) a = Some r" and "is_live (ar_state r)"
  shows "index_inv (im_state i')" and "same_evidence (im_state i) (im_state i')"
    and "\<exists>r'. map_of (fs_assignments (im_state i')) = (map_of (fs_assignments (im_state i)))(a \<mapsto> r') \<and>
      is_live (ar_state r') \<and> (holds_authority (ar_state r') \<longrightarrow> assignment_validity (im_state i') r' at' = RC_Ok)"
proof -
  have id: "ar_id r = a" using assms(2,3) by (auto simp: index_inv_def keyed_assignments_def)
  have stored: "index_inv (im_state j)" "same_evidence (im_state i) (im_state j)"
      "map_of (fs_assignments (im_state j)) = (map_of (fs_assignments (im_state i)))
        (a \<mapsto> trimmed (im_bounds i) (transition_to state reason at' r))"
    if "store_transition (transition_to state reason at' r) i = (j, Inr ())" for state reason j
  proof -
    have calm: "calm (insert_assignment (trimmed (im_bounds i) (transition_to state reason at' r)) (im_state i)) (im_state j)"
      by (rule store_transition_state [OF that])
    show "same_evidence (im_state i) (im_state j)"
      using store_transition_evidence [of i "transition_to state reason at' r"] that by simp
    show "index_inv (im_state j)"
      using assms(2,3) id by (intro index_inv_calm [OF index_inv_update [of _ _ r] calm]) simp_all
    show "map_of (fs_assignments (im_state j)) = (map_of (fs_assignments (im_state i)))
        (a \<mapsto> trimmed (im_bounds i) (transition_to state reason at' r))"
      using calm id by (simp add: calm_def)
  qed
  consider (valid) "i' = i" "assignment_validity (im_state i) r at' = RC_Ok"
    | (degraded) "i' = i" "ar_state r = AS_Degraded"
    | (moved) j state reason where "store_transition (transition_to state reason at' r) i = (j, Inr ())"
        "im_state i' = im_state j" "state = AS_Degraded \<or> state = AS_Suspended"
    using assms(1) by (auto simp: revalidate_one_def act_bind_Inr act_update_def act_return_def Let_def split: if_splits)
  note cases = this
  show "index_inv (im_state i')" using cases stored(1) assms(2) by cases auto
  show "same_evidence (im_state i) (im_state i')" using cases stored(2) by cases auto
  show "\<exists>r'. map_of (fs_assignments (im_state i')) = (map_of (fs_assignments (im_state i)))(a \<mapsto> r') \<and>
      is_live (ar_state r') \<and> (holds_authority (ar_state r') \<longrightarrow> assignment_validity (im_state i') r' at' = RC_Ok)"
    using cases
  proof cases
    case moved
    then show ?thesis using stored(3) [OF moved(1)] by (intro exI [of _ "trimmed (im_bounds i) (transition_to state reason at' r)"]) auto
  qed (use assms(3,4) in \<open>auto intro!: exI [of _ r] simp: fun_upd_idem\<close>)
qed

text \<open>The holders among the given identifiers are valid.\<close>

definition holders_valid :: "Micros \<Rightarrow> AssignmentId set \<Rightarrow> FabricState \<Rightarrow> bool" where
  "holders_valid at' A s \<longleftrightarrow> (\<forall>a \<in> A. \<forall>r. map_of (fs_assignments s) a = Some r \<longrightarrow> holds_authority (ar_state r) \<longrightarrow>
     assignment_validity s r at' = RC_Ok)"

lemma holders_valid_step:
  assumes "holders_valid at' A s" and "same_evidence s s'"
    and "map_of (fs_assignments s') = (map_of (fs_assignments s))(a \<mapsto> r')"
    and "holds_authority (ar_state r') \<longrightarrow> assignment_validity s' r' at' = RC_Ok"
  shows "holders_valid at' (insert a A) s'"
  using assms(1,4) unfolding holders_valid_def assms(3) by (auto simp: assignment_validity_same [OF assms(2)])

definition all_live :: "AssignmentId list \<Rightarrow> FabricState \<Rightarrow> bool" where
  "all_live ids s \<longleftrightarrow> (\<forall>a \<in> set ids. \<exists>r. map_of (fs_assignments s) a = Some r \<and> is_live (ar_state r))"

lemma revalidate_ids_Inr:
  assumes "revalidate_ids cancel at' poll ids outcomes i = (i', Inr res)" and "index_inv (im_state i)"
    and "all_live ids (im_state i)" and "holders_valid at' A (im_state i)"
  shows "holders_valid at' (A \<union> set ids) (im_state i') \<and> same_evidence (im_state i) (im_state i') \<and>
    dom (map_of (fs_assignments (im_state i'))) = dom (map_of (fs_assignments (im_state i))) \<and>
    (\<forall>a. a \<notin> set ids \<longrightarrow> map_of (fs_assignments (im_state i')) a = map_of (fs_assignments (im_state i)) a) \<and>
    length res = length outcomes + length ids"
  using assms
proof (induction ids arbitrary: poll outcomes i A)
  case Nil
  then show ?case by simp
next
  case (Cons a ids)
  from Cons.prems(3) obtain r where r: "map_of (fs_assignments (im_state i)) a = Some r" and live: "is_live (ar_state r)"
    by (auto simp: all_live_def)
  have "\<not> cancelled cancel poll" "\<not> is_terminal (ar_state r)"
    using Cons.prems(1) live by (auto simp: is_live_iff_not_terminal)
  with Cons.prems(1) r obtain i1 outcome where one: "revalidate_one at' r i = (i1, Inr outcome)"
      and rest: "revalidate_ids cancel at' (poll + 1) ids (outcomes @ [outcome]) i1 = (i', Inr res)"
    by (auto simp: act_bind_Inr)
  note step = revalidate_one_Inr [OF one Cons.prems(2) r live]
  obtain r' where upd: "map_of (fs_assignments (im_state i1)) = (map_of (fs_assignments (im_state i)))(a \<mapsto> r')"
      and r': "is_live (ar_state r')" "holds_authority (ar_state r') \<longrightarrow> assignment_validity (im_state i1) r' at' = RC_Ok"
    using step(3) by blast
  have "all_live ids (im_state i1)"
    using Cons.prems(3) r'(1) unfolding all_live_def upd by auto
  moreover have "holders_valid at' (insert a A) (im_state i1)"
    by (rule holders_valid_step [OF Cons.prems(4) step(2) upd r'(2)])
  ultimately have "holders_valid at' (insert a A \<union> set ids) (im_state i') \<and> same_evidence (im_state i1) (im_state i') \<and>
    dom (map_of (fs_assignments (im_state i'))) = dom (map_of (fs_assignments (im_state i1))) \<and>
    (\<forall>a. a \<notin> set ids \<longrightarrow> map_of (fs_assignments (im_state i')) a = map_of (fs_assignments (im_state i1)) a) \<and>
    length res = length (outcomes @ [outcome]) + length ids"
    by (intro Cons.IH [OF rest step(1)])
  moreover have "dom (map_of (fs_assignments (im_state i1))) = dom (map_of (fs_assignments (im_state i)))"
    using r unfolding upd by auto
  ultimately show ?case using step(2) same_evidence_trans upd by auto
qed

lemma live_ids_all_live: "index_inv s \<Longrightarrow> om_ok (fs_assignments s) \<Longrightarrow> all_live (live_ids s) s"
  by (auto simp: all_live_def live_ids_def om_ok_map_of_iff)

text \<open>C7: revalidation is complete and sound.  When a revalidation ends without an error, every live assignment
  was checked, the report adds up, and every assignment that still holds authority is valid against
  the evidence, the policy, its grant and the epoch as they are then.\<close>

theorem revalidation_leaves_valid_holders:
  assumes "revalidate_locked None i = (i', Inr report)" and "index_inv (im_state i)" and "om_ok (fs_assignments (im_state i))"
  shows "rv_checked report = length (live_ids (im_state i)) \<and>
    rv_checked report = rv_suspended report + rv_degraded report + rv_unchanged report \<and>
    (\<forall>a r. map_of (fs_assignments (im_state i')) a = Some r \<and> holds_authority (ar_state r) \<longrightarrow>
       assignment_validity (im_state i') r (im_now i) = RC_Ok)"
proof -
  let ?ids = "live_ids (im_state i)"
  from assms(1) obtain outcomes where run: "revalidate_ids None (im_now i) 0 ?ids [] (bump ''revalidations'' i) = (i', Inr outcomes)"
      and report: "report = revalidation_report outcomes"
    by (auto simp: revalidate_locked_def act_bind_Inr act_return_def)
  note finished = revalidate_ids_Inr [OF run, where A = "{}"]
  have live: "all_live ?ids (im_state (bump ''revalidations'' i))" using live_ids_all_live [OF assms(2,3)] by simp
  have all: "holders_valid (im_now i) (set ?ids) (im_state i')" "length outcomes = length ?ids"
      "\<forall>a. a \<notin> set ?ids \<longrightarrow> map_of (fs_assignments (im_state i')) a = map_of (fs_assignments (im_state i)) a"
    using finished live assms(2) by (simp_all add: holders_valid_def)
  have "assignment_validity (im_state i') r (im_now i) = RC_Ok"
    if "map_of (fs_assignments (im_state i')) a = Some r" "holds_authority (ar_state r)" for a r
  proof (cases "a \<in> set ?ids")
    case True
    with all(1) that show ?thesis by (auto simp: holders_valid_def)
  next
    case False
    with all(3) that(1) have "(a, r) \<in> set (fs_assignments (im_state i))" by (auto dest: map_of_SomeD)
    with that(2) False holds_authority_is_live show ?thesis by (force simp: live_ids_def)
  qed
  moreover have "count_list outcomes RV_Suspended + count_list outcomes RV_Degraded \<le> length outcomes"
    by (induction outcomes) auto
  ultimately show ?thesis
    using all(2) by (auto simp: report revalidation_report_def no_revalidation_def Let_def)
qed

theorem revalidation_leaves_valid_holders_witness:
  "\<exists>i' report. revalidate_locked None fresh_runtime = (i', Inr report) \<and> rv_checked report = 0"
proof -
  have none: "fs_assignments (im_state fresh_runtime) = []"
    by (simp add: fresh_runtime_def fresh_state_def sample_state_def empty_state_def)
  then obtain i' report where run: "revalidate_locked None fresh_runtime = (i', Inr report)"
    by (simp add: revalidate_locked_def live_ids_def act_bind_def act_return_def)
  have "index_inv (im_state fresh_runtime)" "om_ok (fs_assignments (im_state fresh_runtime))"
    using none by (simp_all add: fresh_runtime_def fresh_state_def index_inv_def keyed_assignments_def claims_sound_def
        sample_state_def empty_state_def)
  from revalidation_leaves_valid_holders [OF run this] run none show ?thesis by (auto simp: live_ids_def)
qed

end
