(* ===== verification/Nof_Scenario.thy ===== *)
theory Nof_Scenario
  imports Nof_Behaviour
begin

text \<open>
  A worked deployment, from the start of the runtime to an assignment that holds authority: a
  topology with one host and one device, a policy with one rule, and a plan that claims the host's
  scope exclusively.  Each step is one of the fabric's operations, so that the runtime at the end is
  reachable; it is the concrete case of the guarantees about reachable runtimes.
\<close>

subsection \<open>First evidence of a source\<close>

lemma admit_evidence_first:
  assumes "digest_with (max_canonical_bytes (im_bounds i)) enc = Inr digest"
    and "encode_fresh (max_record_bytes (im_bounds i)) enc = Inr bs"
    and "find_source (im_state i) (pv_source pv) domain = None" and "provenance_is_set pv"
    and "compare digest i = (i, ok_status)" and "im_store i = None" and "\<not> im_replaying i"
  shows "admit_evidence counter pv domain enc type compare install after i =
    after (i\<lparr>im_state := mark_source (pv_source pv) domain (pv_sequence pv) digest (install digest (im_state i))\<rparr>)"
  using assms
  by (simp add: admit_evidence_def counting_def act_bind_def act_lift_def act_return_def accept_evidence_def
      provenance_is_set_def commit_def on_state_def act_update_def)

lemma revalidate_now_idle:
  "fs_assignments (im_state i) = [] \<Longrightarrow> revalidate_now i = (bump ''revalidations'' i, ok_status)"
  by (simp add: revalidate_now_def act_bind_def revalidate_locked_def live_ids_def act_return_def)

lemma guarded_open: "im_running i \<Longrightarrow> \<not> im_shutting_down i \<Longrightarrow> im_recovery_accepted i \<Longrightarrow> guarded m i = m i"
  by (simp add: guarded_def act_bind_def require_accepted_def require_running_def)

lemma ingest_topology_first:
  assumes "im_running i" "\<not> im_shutting_down i" "im_recovery_accepted i" "im_store i = None" "\<not> im_replaying i"
    and "fs_assignments (im_state i) = []" "\<not> fs_has_topology (im_state i)"
    and "validate_topology t (im_bounds i) = ok_status"
    and "digest_with (max_canonical_bytes (im_bounds i)) (encode_topology t) = Inr digest"
    and "encode_fresh (max_record_bytes (im_bounds i)) (encode_topology t) = Inr bs"
    and "find_source (im_state i) (pv_source (ts_provenance t)) ED_Topology = None" "provenance_is_set (ts_provenance t)"
  shows "ingest_topology t i = (bump ''revalidations'' (bump ''topology_accepted'' (i\<lparr>im_state :=
     mark_source (pv_source (ts_provenance t)) ED_Topology (pv_sequence (ts_provenance t)) digest
       ((im_state i)\<lparr>fs_topology := t, fs_has_topology := True, fs_topology_digest := digest\<rparr>)\<rparr>)), ok_status)"
  using assms
  by (simp add: ingest_topology_def guarded_open act_bind_def counting_def act_lift_def admit_evidence_first act_update_def
      revalidate_now_idle mark_source_def bump_by_def)

lemma ingest_policy_first:
  assumes "im_running i" "\<not> im_shutting_down i" "im_recovery_accepted i" "im_store i = None" "\<not> im_replaying i"
    and "fs_assignments (im_state i) = []" "\<not> fs_has_policy (im_state i)"
    and "validate_policy_snapshot p (im_bounds i) = ok_status"
    and "digest_with (max_canonical_bytes (im_bounds i)) (encode_policy p) = Inr digest"
    and "encode_fresh (max_record_bytes (im_bounds i)) (encode_policy p) = Inr bs"
    and "find_source (im_state i) (pv_source (ps_provenance p)) ED_Policy = None" "provenance_is_set (ps_provenance p)"
  shows "ingest_policy p i = (bump ''revalidations'' (bump ''policy_accepted'' (i\<lparr>im_state :=
     mark_source (pv_source (ps_provenance p)) ED_Policy (pv_sequence (ps_provenance p)) digest
       ((im_state i)\<lparr>fs_policy := p, fs_has_policy := True, fs_policy_digest := digest\<rparr>)\<rparr>)), ok_status)"
  using assms
  by (simp add: ingest_policy_def guarded_open act_bind_def counting_def act_lift_def admit_evidence_first act_update_def
      revalidate_now_idle mark_source_def bump_by_def)

subsection \<open>The site\<close>

definition site_device :: DeviceRecord where
  "site_device = sample_device\<lparr>dr_incarnation := \<lparr>in_generation = 1, in_boot = example_id\<rparr>\<rparr>"

definition site_topology :: TopologySnapshot where
  "site_topology = \<lparr>ts_generation = 1, ts_provenance = \<lparr>pv_source = ''src-1'', pv_sequence = 1\<rparr>,
     ts_freshness = \<lparr>fr_observed_at = 1, fr_valid_until = 1000\<rparr>, ts_hosts = [\<lparr>hr_id = ''h-1'', hr_labels = []\<rparr>],
     ts_devices = [site_device], ts_links = []\<rparr>"

definition site_policy :: PolicySnapshot where
  "site_policy = \<lparr>ps_generation = 1, ps_provenance = \<lparr>pv_source = ''src-1'', pv_sequence = 1\<rparr>,
     ps_freshness = \<lparr>fr_observed_at = 1, fr_valid_until = 1000\<rparr>, ps_rules = [sample_rule], ps_default_deny = True\<rparr>"

lemma site_limits: "0 < max_hosts default_bounds" "0 < max_devices default_bounds"
  by (simp_all add: default_bounds_def)

lemma site_topology_valid: "validate_topology site_topology default_bounds = ok_status"
  using site_limits
  by (simp add: validate_topology_def default_bounds_valid site_topology_def gen_is_set_def provenance_is_set_def
      check_freshness_def check_canonical_order_def validate_host_def check_labels_def validate_device_def
      site_device_def sample_device_def find_host_def lower_bound_find_def incarnation_is_set_def boot_is_set_def
      kBootIdLength_def example_id_ok)

lemma site_policy_valid: "validate_policy_snapshot site_policy default_bounds = ok_status"
  by (simp add: validate_policy_snapshot_def site_policy_def gen_is_set_def provenance_is_set_def
      check_freshness_def validate_policy_rule_def check_kind_list_def sample_rule_def default_bounds_def)

lemma site_topology_encodes: "n = 33554432 \<or> n = 4194304 \<Longrightarrow> \<exists>bs. encode_fresh n (encode_topology site_topology) = Inr bs"
  by (elim disjE; simp add: encode_fresh_def encode_topology_def encode_with_def enc_topology_def site_topology_def site_device_def
      sample_device_def example_id_ok w_seq_def w_open_def bin_writer_def w_list_def enc_host_record_def
      enc_device_record_def enc_provenance_def enc_freshness_def enc_incarnation_def enc_capacity_def enc_demand_def emit_eqs would_fit_iff Let_def)

lemma site_policy_encodes: "n = 33554432 \<or> n = 4194304 \<Longrightarrow> \<exists>bs. encode_fresh n (encode_policy site_policy) = Inr bs"
  by (elim disjE; simp add: encode_fresh_def encode_policy_def encode_with_def enc_policy_def site_policy_def sample_rule_def
      w_seq_def w_open_def bin_writer_def w_list_def enc_policy_rule_def enc_provenance_def enc_freshness_def
      enc_demand_def zero_demand_def emit_eqs would_fit_iff Let_def)

lemma digest_with_encodes:
  "encode_fresh n enc = Inr bs \<Longrightarrow> 0 < n \<Longrightarrow> digest_with n enc = Inr (sha256 bs)"
  by (simp add: digest_with_def)

definition site_run :: "FabricOp list" where
  "site_run = [Op_IngestTopology site_topology, Op_IngestPolicy site_policy]"

definition site_runtime :: Impl where
  "site_runtime = fold perform site_run memory_runtime"

lemma memory_fields:
  "im_bounds memory_runtime = default_bounds" "im_running memory_runtime" "\<not> im_shutting_down memory_runtime"
  "im_recovery_accepted memory_runtime" "im_store memory_runtime = None" "\<not> im_replaying memory_runtime"
  "im_now memory_runtime = 1"
  "im_state memory_runtime = empty_state\<lparr>fs_epoch_counter := 1, fs_epoch := \<lparr>ce_counter = 1, ce_boot = example_id\<rparr>\<rparr>"
  by (simp_all add: memory_runtime_def start_def memory_config_def example_config_def example_runtime_def
      default_bounds_valid start_memory_def Let_def boot_is_set_def kBootIdLength_def example_id_ok)

lemma site_runtime_eq:
  "\<exists>dt dp. im_state site_runtime = mark_source ''src-1'' ED_Policy 1 dp ((mark_source ''src-1'' ED_Topology 1 dt
      (empty_state\<lparr>fs_epoch_counter := 1, fs_epoch := \<lparr>ce_counter = 1, ce_boot = example_id\<rparr>,
         fs_topology := site_topology, fs_has_topology := True, fs_topology_digest := dt\<rparr>))
      \<lparr>fs_policy := site_policy, fs_has_policy := True, fs_policy_digest := dp\<rparr>) \<and>
    im_bounds site_runtime = default_bounds \<and> im_running site_runtime \<and> \<not> im_shutting_down site_runtime \<and>
    im_recovery_accepted site_runtime \<and> im_store site_runtime = None \<and> \<not> im_replaying site_runtime \<and> im_now site_runtime = 1"
proof -
  have max: "max_canonical_bytes default_bounds = 33554432" "max_record_bytes default_bounds = 4194304"
    by (simp_all add: default_bounds_def)
  obtain t1 t2 p1 p2 where enc: "encode_fresh 33554432 (encode_topology site_topology) = Inr t1"
      "encode_fresh 4194304 (encode_topology site_topology) = Inr t2"
      "encode_fresh 33554432 (encode_policy site_policy) = Inr p1"
      "encode_fresh 4194304 (encode_policy site_policy) = Inr p2"
    using site_topology_encodes site_policy_encodes by metis
  have prov: "ts_provenance site_topology = \<lparr>pv_source = ''src-1'', pv_sequence = 1\<rparr>"
      "ps_provenance site_policy = \<lparr>pv_source = ''src-1'', pv_sequence = 1\<rparr>"
    by (simp_all add: site_topology_def site_policy_def)
  define s1 where "s1 = mark_source ''src-1'' ED_Topology 1 (sha256 t1)
      (empty_state\<lparr>fs_epoch_counter := 1, fs_epoch := \<lparr>ce_counter = 1, ce_boot = example_id\<rparr>,
         fs_topology := site_topology, fs_has_topology := True, fs_topology_digest := sha256 t1\<rparr>)"
  define i1 where "i1 = bump ''revalidations'' (bump ''topology_accepted'' (memory_runtime\<lparr>im_state := s1\<rparr>))"
  have one: "ingest_topology site_topology memory_runtime = (i1, ok_status)"
    unfolding i1_def s1_def using site_topology_valid enc
    by (subst ingest_topology_first [where digest = "sha256 t1" and bs = t2])
      (simp_all add: memory_fields max digest_with_encodes prov provenance_is_set_def find_source_def empty_state_def)
  have s1: "fs_assignments s1 = []" "\<not> fs_has_policy s1" "find_source s1 ''src-1'' ED_Policy = None"
    by (simp_all add: s1_def mark_source_def empty_state_def find_source_def)
  have "ingest_policy site_policy i1 = (bump ''revalidations'' (bump ''policy_accepted'' (i1\<lparr>im_state :=
     mark_source ''src-1'' ED_Policy 1 (sha256 p1)
       (s1\<lparr>fs_policy := site_policy, fs_has_policy := True, fs_policy_digest := sha256 p1\<rparr>)\<rparr>)), ok_status)"
    using site_policy_valid enc s1
    by (subst ingest_policy_first [where digest = "sha256 p1" and bs = p2])
      (simp_all add: i1_def bump_by_def memory_fields max digest_with_encodes prov provenance_is_set_def)
  with one show ?thesis
    unfolding site_runtime_def site_run_def s1_def
    by (intro exI [of _ "sha256 t1"] exI [of _ "sha256 p1"]) (simp add: i1_def bump_by_def memory_fields)
qed

lemma site_runtime_fields:
  "im_bounds site_runtime = default_bounds" "im_running site_runtime" "\<not> im_shutting_down site_runtime"
  "im_recovery_accepted site_runtime" "im_store site_runtime = None" "\<not> im_replaying site_runtime" "im_now site_runtime = 1"
  using site_runtime_eq by auto

lemma site_state_fields:
  "fs_has_topology (im_state site_runtime)" "fs_topology (im_state site_runtime) = site_topology"
  "fs_has_policy (im_state site_runtime)" "fs_policy (im_state site_runtime) = site_policy"
  "fs_assignments (im_state site_runtime) = []" "fs_exclusive_by_class (im_state site_runtime) = []"
  "fs_exclusive_by_scope (im_state site_runtime) = []" "fs_committed (im_state site_runtime) = []"
  "fs_capabilities (im_state site_runtime) = []" "fs_observations (im_state site_runtime) = []"
  "fs_epoch (im_state site_runtime) = \<lparr>ce_counter = 1, ce_boot = example_id\<rparr>"
  "fs_next_assignment_ordinal (im_state site_runtime) = 0" "fs_next_lease (im_state site_runtime) = 0"
  "fs_next_attempt (im_state site_runtime) = 0" "fs_next_fence_sequence (im_state site_runtime) = 0"
  "fs_idempotency (im_state site_runtime) = []" "fs_idempotency_order (im_state site_runtime) = []"
  using site_runtime_eq by (auto simp: mark_source_def empty_state_def)

lemma reachable_fold:
  "reachable guard i \<Longrightarrow> (\<And>op i. op \<in> set ops \<Longrightarrow> guard op i) \<Longrightarrow> reachable guard (fold perform ops i)"
  by (induction ops arbitrary: i) (auto intro: reachable.step)

lemma site_reachable: "reachable careful site_runtime"
  unfolding site_runtime_def by (rule reachable_fold [OF memory_reachable]) (auto simp: site_run_def)

subsection \<open>The placement\<close>

definition site_scope :: ScopeSpec where
  "site_scope = no_scope\<lparr>ss_kind := SK_Host, ss_domain := ''h-1''\<rparr>"

definition site_scope_id :: ScopeId where
  "site_scope_id = (case derive_scope_id site_scope of Inl e \<Rightarrow> [] | Inr sc \<Rightarrow> sc)"

lemma site_scope_valid: "scope_validate site_scope = ok_status"
  by (simp add: scope_validate_def site_scope_def no_scope_def)

lemma site_scope_id_ok: "derive_scope_id site_scope = Inr site_scope_id" "length site_scope_id = 19" "site_scope_id \<noteq> []"
  using derive_scope_id_total [OF site_scope_valid] by (auto simp: site_scope_id_def)

definition site_plan0 :: AssignmentPlan where
  "site_plan0 = sample_plan0\<lparr>pl_scope := site_scope, pl_scope_id := site_scope_id,
     pl_incarnation := \<lparr>in_generation = 1, in_boot = example_id\<rparr>,
     pl_binding := no_binding\<lparr>gb_topology := 1, gb_policy := 1\<rparr>\<rparr>"

definition site_plan :: AssignmentPlan where
  "site_plan = site_plan0\<lparr>pl_plan_digest := sha256 (bw_buffer (fst (encode_plan site_plan0 (bin_writer 33554432))))\<rparr>"

definition site_planned :: PlanResult where
  "site_planned = no_plan_result\<lparr>pn_decision := DE_Accept, pn_plan := site_plan\<rparr>"

lemma site_plan_encodes: "\<exists>w. encode_plan site_plan0 (bin_writer 33554432) = (w, ok_status)"
  by (simp add: encode_plan_def encode_with_def enc_plan_def site_plan0_def sample_plan0_def no_plan_def Let_def site_scope_def
      w_seq_def w_open_def bin_writer_def enc_binding_def enc_demand_def enc_incarnation_def enc_scope_spec_def example_id_ok
      digest_zero_def no_scope_def zero_demand_def no_binding_def emit_eqs site_scope_id_ok(2))

lemma site_plan_fields:
  "pl_scope site_plan = site_scope" "pl_scope_id site_plan = site_scope_id" "pl_device site_plan = ''d-1''"
  "pl_cls site_plan = FC_RouteLookup" "pl_binding site_plan = no_binding\<lparr>gb_topology := 1, gb_policy := 1\<rparr>"
  "pl_incarnation site_plan = \<lparr>in_generation = 1, in_boot = example_id\<rparr>" "pl_exclusivity site_plan = EX_Exclusive"
  "pl_demand site_plan = zero_demand" "pl_mode site_plan = EM_Offloaded" "pl_exclusive_key site_plan = EK_PerClass"
  by (simp_all add: site_plan_def site_plan0_def sample_plan0_def no_plan_def)

lemma site_check:
  "check_plan default_bounds (im_state site_runtime) site_plan = Inr (site_scope_id, site_device, sample_rule)"
proof -
  obtain w where w: "encode_plan site_plan0 (bin_writer 33554432) = (w, ok_status)" using site_plan_encodes by blast
  have zero: "site_plan\<lparr>pl_plan_digest := digest_zero\<rparr> = site_plan0"
    by (simp add: site_plan_def site_plan0_def sample_plan0_def no_plan_def)
  have "encode_fresh (max_canonical_bytes default_bounds) (encode_plan site_plan0) = Inr (bw_buffer w)"
    using w by (simp add: encode_fresh_def default_bounds_def)
  moreover have "sha256 (bw_buffer w) = pl_plan_digest site_plan"
    by (simp add: site_plan_def w)
  moreover have "find_device site_topology ''d-1'' = Some site_device"
    by (simp add: site_topology_def find_device_def lower_bound_find_def site_device_def sample_device_def)
  moreover have "find_rule site_policy FC_RouteLookup = Some sample_rule"
    by (simp add: site_policy_def find_rule_def sample_rule_def)
  moreover have "scope_id_of site_scope = Inr site_scope_id"
    using site_scope_id_ok by (simp add: scope_id_of_def site_scope_def no_scope_def)
  ultimately show ?thesis
    unfolding check_plan_def zero
    by (simp add: site_plan_fields site_state_fields site_scope_valid no_binding_def gen_is_set_def
        site_topology_def [THEN arg_cong [where f = ts_generation]] site_policy_def [THEN arg_cong [where f = ps_generation]]
        site_device_def sample_device_def)
qed

lemma site_checked:
  "authorize_checked site_plan sample_options site_scope_id site_device sample_rule site_runtime = (site_runtime, Inr [])"
proof -
  have free: "scope_has_exclusive_conflict (im_state site_runtime) sc c k a = None" for sc c k a
    by (simp add: scope_has_exclusive_conflict_def site_state_fields)
  have "device_admissible (authorize_context site_runtime site_plan sample_rule site_scope_id []) site_device"
    using free by (simp add: device_admissible_def kind_admissible_def affinity_admissible_def capability_admissible_def
        authorize_context_def plan_context_def synthetic_request_def site_plan_fields no_request_def kinds_allow_def
        site_device_def sample_device_def sample_rule_def site_state_fields lookup_capability_def
        demand_fits_def committed_demand_for_def zero_demand_def device_assignments_def Let_def)
  moreover have "choose_replaced site_plan sample_options site_scope_id sample_rule site_runtime = (site_runtime, Inr [])"
    by (simp add: choose_replaced_def free)
  ultimately show ?thesis
    by (simp add: authorize_checked_def act_bind_def evaluate_device_admissible check_plan_authority_def sample_rule_def
        sample_options_def cancelled_def Let_def)
qed

definition site_numbered :: Impl where
  "site_numbered = site_runtime\<lparr>im_state := (im_state site_runtime)\<lparr>fs_next_assignment_ordinal := 1, fs_next_lease := 1,
     fs_next_attempt := 1, fs_next_fence_sequence := 1\<rparr>\<rparr>"

definition site_record :: AssignmentRecord where
  "site_record = new_assignment site_numbered site_plan sample_options site_scope_id (''as-'' @ hex64 1) 1 1 sample_fence"

lemma site_build: "build_assignment site_plan sample_options site_scope_id site_runtime = (site_numbered, Inr site_record)"
proof -
  have "length (ar_history site_record) = 2" "ar_effects site_record = []"
    by (simp_all add: site_record_def new_assignment_def no_assignment_def Let_def)
  then have "trim_history site_record site_numbered = (site_numbered, Inr site_record)"
    by (simp add: trim_history_def note_eviction_def keep_last_def Let_def site_numbered_def site_runtime_fields
        default_bounds_def)
  then show ?thesis
    unfolding site_record_def sample_fence_def site_numbered_def
    by (simp add: build_assignment_def act_bind_Inr act_issue_Inr issue_assignment_id_Inr issue_lease_Inr
        issue_attempt_Inr issue_fence_Inr site_state_fields)
qed

definition site_shape :: "Digest \<Rightarrow> AssignmentRecord" where
  "site_shape d = (sample_shape d)\<lparr>ar_scope := site_scope, ar_scope_id := site_scope_id,
     ar_incarnation := \<lparr>in_generation = 1, in_boot = example_id\<rparr>,
     ar_binding := no_binding\<lparr>gb_topology := 1, gb_policy := 1, gb_assignment := 1\<rparr>,
     ar_freshness := \<lparr>fr_observed_at = 1, fr_valid_until = 1000\<rparr>\<rparr>"

lemma site_record_eq: "site_record = site_shape (pl_plan_digest site_plan)"
  by (simp add: site_shape_def sample_shape_def site_record_def new_assignment_def no_assignment_def Let_def
      sample_options_def site_plan_def site_plan0_def sample_plan0_def no_plan_def lookup_capability_def
      effective_freshness_def site_numbered_def site_state_fields site_runtime_fields consider_freshness_def freshness_is_set_def
      site_topology_def site_policy_def no_freshness_def no_binding_def site_device_def sample_device_def)

lemma site_store_encodes:
  "\<exists>bs. encode_fresh (max_record_bytes default_bounds) (encode_recorded_assignment
     \<lparr>xa_record = site_record, xa_request_id = [], xa_request_fingerprint = digest_zero\<rparr>) = Inr bs"
proof -
  have "max_record_bytes default_bounds = 4194304" by (simp add: default_bounds_def)
  moreover have "length (pl_plan_digest site_plan) = 32" by (simp add: site_plan_def length_sha256)
  ultimately show ?thesis
    unfolding site_record_eq site_shape_def sample_shape_def
    by (simp add: encode_fresh_def encode_recorded_assignment_def encode_assignment_def encode_with_def enc_assignment_def
        no_assignment_def Let_def w_seq_def w_open_def bin_writer_def w_list_def enc_transition_record_def
        enc_provenance_def enc_freshness_def enc_fence_def enc_binding_def enc_demand_def enc_incarnation_def
        enc_scope_spec_def digest_zero_def no_scope_def no_incarnation_def zero_demand_def no_binding_def no_fence_def
        no_provenance_def no_freshness_def sample_fence_def emit_eqs bw_token_def bw_text_def bw_bytes_def bw_digest_def
        bw_append_def bw_u32_def would_fit_iff site_scope_def site_scope_id_ok example_id_ok)
qed

definition site_placed :: Impl where
  "site_placed = perform (Op_ApplyPlan site_planned sample_options) site_runtime"

lemma site_authorize:
  "\<exists>i'. authorize_locked site_planned sample_options site_runtime = (i', Inr site_record) \<and>
     im_state i' = insert_assignment site_record (im_state site_numbered) \<and> im_bounds i' = default_bounds \<and>
     im_running i' \<and> \<not> im_shutting_down i' \<and> im_recovery_accepted i' \<and> im_store i' = None \<and> \<not> im_replaying i' \<and>
     im_now i' = 1"
proof -
  obtain bs where bs: "encode_fresh (max_record_bytes default_bounds) (encode_recorded_assignment
     \<lparr>xa_record = site_record, xa_request_id = [], xa_request_fingerprint = digest_zero\<rparr>) = Inr bs"
    using site_store_encodes by blast
  have fields: "im_bounds site_numbered = default_bounds" "im_store site_numbered = None" "\<not> im_replaying site_numbered"
      "im_running site_numbered" "\<not> im_shutting_down site_numbered" "im_recovery_accepted site_numbered" "im_now site_numbered = 1"
    by (simp_all add: site_numbered_def site_runtime_fields)
  have "store_new_assignment site_plan sample_options site_record site_numbered =
      (site_numbered\<lparr>im_state := insert_assignment site_record (im_state site_numbered)\<rparr>, ok_status)"
    using bs by (simp add: fields store_new_assignment_def sample_options_def store_assignment_def act_bind_def act_lift_def
        commit_def insert_and_answer_def on_state_def act_update_def)
  then have "\<exists>i'. place_assignment site_plan sample_options site_scope_id [] site_runtime = (i', Inr site_record) \<and>
      im_state i' = insert_assignment site_record (im_state site_numbered) \<and> im_bounds i' = default_bounds \<and>
      im_running i' \<and> \<not> im_shutting_down i' \<and> im_recovery_accepted i' \<and> im_store i' = None \<and> \<not> im_replaying i' \<and>
      im_now i' = 1"
    using site_build by (simp add: place_assignment_def act_bind_def supersede_holder_def act_update_def act_return_def
        bump_by_def fields)
  then show ?thesis
    using site_check site_checked site_runtime_fields(1) by (auto simp: authorize_locked_def site_planned_def act_bind_def)
qed

lemma site_placed_run:
  "im_state site_placed = insert_assignment site_record (im_state site_numbered)" "im_bounds site_placed = default_bounds"
  "im_running site_placed" "\<not> im_shutting_down site_placed" "im_recovery_accepted site_placed" "im_store site_placed = None"
  "\<not> im_replaying site_placed" "im_now site_placed = 1"
proof -
  obtain i' where i': "authorize_locked site_planned sample_options site_runtime = (i', Inr site_record)"
      "im_state i' = insert_assignment site_record (im_state site_numbered)" "im_bounds i' = default_bounds"
      "im_running i'" "\<not> im_shutting_down i'" "im_recovery_accepted i'" "im_store i' = None" "\<not> im_replaying i'" "im_now i' = 1"
    using site_authorize by blast
  have options: "sample_options\<lparr>ao_allow_replacement := False\<rparr> = sample_options" "ao_request_id sample_options = []"
      "\<not> ao_allow_replacement sample_options"
    by (simp_all add: sample_options_def)
  from i' have "apply_plan site_planned sample_options site_runtime = (i', Inr site_record)"
    by (simp add: apply_plan_def guarded_open site_runtime_fields with_idempotency_def find_idempotency_def site_planned_def
        options)
  with i' show "im_state site_placed = insert_assignment site_record (im_state site_numbered)"
    "im_bounds site_placed = default_bounds" "im_running site_placed" "\<not> im_shutting_down site_placed"
    "im_recovery_accepted site_placed" "im_store site_placed = None" "\<not> im_replaying site_placed" "im_now site_placed = 1"
    by (simp_all add: site_placed_def)
qed

lemmas site_placed_state = site_placed_run(1)

lemma site_record_fields:
  "ar_id site_record = ''as-'' @ hex64 1" "ar_scope_id site_record = site_scope_id" "ar_cls site_record = FC_RouteLookup"
  "ar_state site_record = AS_Dispatched" "ar_exclusivity site_record = EX_Exclusive"
  "ar_exclusive_key site_record = EK_PerClass"
  by (simp_all add: site_record_eq site_shape_def sample_shape_def no_assignment_def)

lemma site_placed_fields:
  "map_of (fs_assignments (im_state site_placed)) (''as-'' @ hex64 1) = Some site_record"
  "map_of (fs_exclusive_by_class (im_state site_placed)) (ExclusivityKey site_scope_id FC_RouteLookup) = Some (''as-'' @ hex64 1)"
proof -
  show "map_of (fs_assignments (im_state site_placed)) (''as-'' @ hex64 1) = Some site_record"
    unfolding site_placed_state insert_fields site_record_fields(1) by simp
  have "class_claim site_record (ExclusivityKey site_scope_id FC_RouteLookup)"
    by (simp add: class_claim_def site_record_fields)
  then show "map_of (fs_exclusive_by_class (im_state site_placed)) (ExclusivityKey site_scope_id FC_RouteLookup) =
      Some (''as-'' @ hex64 1)"
    by (simp add: site_placed_state insert_class_index site_record_fields)
qed

lemma site_conflicts: "conflicts site_record site_record"
  by (simp add: conflicts_def site_record_fields site_scope_id_ok)

lemma site_placed_reachable: "reachable careful site_placed"
proof -
  have "find_rule site_policy FC_RouteLookup = Some sample_rule" by (simp add: site_policy_def find_rule_def sample_rule_def)
  then have "careful (Op_ApplyPlan site_planned sample_options) site_runtime"
    by (simp add: key_current_def site_planned_def site_plan_fields site_state_fields sample_rule_def)
  then show ?thesis unfolding site_placed_def by (rule reachable.step [OF site_reachable])
qed

lemma site_lifetime: "lifetime site_runtime"
proof -
  have "lifetime memory_runtime"
    by (rule lifetime.begun [OF memory_start]) (simp_all add: example_runtime_def memory_fields empty_state_def)
  then show ?thesis unfolding site_runtime_def by (rule lifetime_fold)
qed

lemma site_placed_lifetime: "lifetime site_placed"
  unfolding site_placed_def by (rule lifetime.continued [OF site_lifetime])

subsection \<open>The revocation\<close>

definition site_revoke :: RevokeRequest where
  "site_revoke = \<lparr>rk_request_id = ''rq-1'', rk_assignment = ''as-'' @ hex64 1, rk_reason = RC_Revoked, rk_authority = []\<rparr>"

definition site_revoked_record :: AssignmentRecord where
  "site_revoked_record = transition_to AS_Revoked RC_Revoked 1 site_record"

lemma site_revoked_encodes:
  "\<exists>bs. encode_fresh (max_record_bytes default_bounds) (encode_recorded_assignment
     \<lparr>xa_record = site_revoked_record, xa_request_id = ''rq-1'', xa_request_fingerprint = revoke_fingerprint site_revoke\<rparr>) = Inr bs"
proof -
  have "max_record_bytes default_bounds = 4194304" by (simp add: default_bounds_def)
  moreover have "length (pl_plan_digest site_plan) = 32" by (simp add: site_plan_def length_sha256)
  moreover have "length (revoke_fingerprint site_revoke) = 32" by (simp add: revoke_fingerprint_def length_sha256)
  ultimately show ?thesis
    unfolding site_revoked_record_def site_record_eq site_shape_def sample_shape_def transition_to_def
    by (simp add: encode_fresh_def encode_recorded_assignment_def encode_assignment_def encode_with_def enc_assignment_def
        no_assignment_def Let_def w_seq_def w_open_def bin_writer_def w_list_def enc_transition_record_def
        enc_provenance_def enc_freshness_def enc_fence_def enc_binding_def enc_demand_def enc_incarnation_def
        enc_scope_spec_def digest_zero_def no_scope_def no_incarnation_def zero_demand_def no_binding_def no_fence_def
        no_provenance_def no_freshness_def sample_fence_def emit_eqs bw_token_def bw_text_def bw_bytes_def bw_digest_def
        bw_append_def bw_u32_def would_fit_iff site_scope_def site_scope_id_ok example_id_ok)
qed

lemma site_revoked_trimmed: "trim_history site_revoked_record site_placed = (site_placed, Inr site_revoked_record)"
proof -
  have "length (ar_history site_revoked_record) = 3" "ar_effects site_revoked_record = []"
    by (simp_all add: site_revoked_record_def site_record_eq site_shape_def sample_shape_def transition_to_def no_assignment_def)
  then show ?thesis
    by (simp add: trim_history_def note_eviction_def keep_last_def Let_def site_placed_run default_bounds_def)
qed

lemma site_table: "fs_idempotency (im_state site_placed) = []" "fs_idempotency_order (im_state site_placed) = []"
  by (simp_all add: site_placed_run site_numbered_def site_state_fields)

lemma site_unanswered: "find_idempotency (im_state site_placed) request_id = None"
  by (simp add: find_idempotency_def site_table)

lemma site_revoke_run: "\<exists>i'. fabric_revoke site_revoke None site_placed = (i', Inr site_revoked_record) \<and>
    im_running i' \<and> im_recovery_accepted i'"
proof -
  obtain bs where bs: "encode_fresh (max_record_bytes default_bounds) (encode_recorded_assignment \<lparr>xa_record = site_revoked_record,
      xa_request_id = ''rq-1'', xa_request_fingerprint = revoke_fingerprint site_revoke\<rparr>) = Inr bs"
    using site_revoked_encodes by blast
  from encode_recorded_assignment_first [OF this] obtain bs' where
      bs': "encode_fresh (max_record_bytes default_bounds) (encode_assignment site_revoked_record) = Inr bs'" by auto
  have "\<exists>i'. store_assignment site_revoked_record ''rq-1'' (revoke_fingerprint site_revoke) RT_AssignmentTransitioned site_placed =
      (i', ok_status) \<and> im_running i' \<and> im_recovery_accepted i'"
    using bs bs' by (simp add: store_assignment_def act_bind_def act_lift_def commit_def site_placed_run insert_and_answer_def
        on_state_def act_update_def record_idempotency_def bump_by_def site_placed_run Let_def split: prod.split)
  then obtain i' where i': "store_assignment site_revoked_record ''rq-1'' (revoke_fingerprint site_revoke) RT_AssignmentTransitioned
      site_placed = (i', ok_status)" "im_running i'" "im_recovery_accepted i'" by blast
  then have "revoke_fresh site_revoke None site_placed = (bump ''revokes_accepted'' i', Inr site_revoked_record)"
    using site_placed_fields(1) site_revoked_trimmed
    by (simp add: revoke_fresh_def site_revoke_def site_record_fields cancelled_def check_revoke_authority_def counting_def
        act_bind_def act_lift_def act_return_def act_update_def site_revoked_record_def [symmetric] site_placed_run)
  then have "fabric_revoke site_revoke None site_placed = (bump ''revokes_accepted'' i', Inr site_revoked_record)"
    using site_unanswered by (simp add: fabric_revoke_def guarded_open site_placed_run with_idempotency_def site_revoke_def)
  with i'(2,3) show ?thesis by (simp add: bump_by_def)
qed

definition site_revoked :: Impl where
  "site_revoked = perform (Op_Revoke site_revoke None) site_placed"

lemma site_revoked_state:
  "map_of (fs_assignments (im_state site_revoked)) (''as-'' @ hex64 1) = Some site_revoked_record"
proof -
  obtain i' where i': "fabric_revoke site_revoke None site_placed = (i', Inr site_revoked_record)" using site_revoke_run by blast
  have "map_of (fs_assignments (im_state i')) (ar_id site_revoked_record) = Some site_revoked_record"
    using site_placed_fields(1)
    by (intro fabric_revoke_stores [OF i' site_placed_run(3,5) site_unanswered, of site_record])
      (simp_all add: site_revoke_def site_record_fields)
  then show ?thesis by (simp add: site_revoked_def i' site_revoked_record_def site_record_fields)
qed

subsection \<open>The guarantees at work\<close>

theorem mutual_exclusion_witness:
  "\<exists>r. map_of (fs_assignments (im_state site_placed)) (''as-'' @ hex64 1) = Some r \<and> conflicts r r \<and>
     (\<nexists>b r2. b \<noteq> ''as-'' @ hex64 1 \<and> map_of (fs_assignments (im_state site_placed)) b = Some r2 \<and> conflicts r r2)"
  using mutual_exclusion [OF site_placed_reachable] site_placed_fields(1) site_conflicts by blast

theorem claim_indexes_sound_witness:
  "\<exists>r. map_of (fs_assignments (im_state site_placed)) (''as-'' @ hex64 1) = Some r \<and> ar_id r = ''as-'' @ hex64 1 \<and>
     class_claim r (ExclusivityKey site_scope_id FC_RouteLookup)"
  using claim_indexes_sound [OF site_placed_reachable] site_placed_fields(2) by blast

theorem lifetime_tokens_issued_witness:
  "\<exists>n \<le> fs_next_assignment_ordinal (im_state site_placed). ''as-'' @ hex64 1 = ''as-'' @ hex64 n"
  using lifetime_tokens_issued [OF site_placed_lifetime] site_placed_fields(1) by blast

theorem placement_tokens_fresh_witness:
  "\<exists>i'. authorize_locked site_planned sample_options site_runtime = (i', Inr site_record) \<and>
    map_of (fs_assignments (im_state i')) (ar_id site_record) = Some site_record"
proof -
  obtain i' where i': "authorize_locked site_planned sample_options site_runtime = (i', Inr site_record)"
    using site_authorize by blast
  from placement_tokens_fresh [OF site_lifetime i'] i' show ?thesis by blast
qed

lemma site_revoked_lifetime: "lifetime site_revoked"
  unfolding site_revoked_def by (rule lifetime.continued [OF site_placed_lifetime])

theorem terminal_stays_terminal_witness:
  "ar_state site_revoked_record = AS_Revoked \<and>
   (\<exists>r'. map_of (fs_assignments (im_state (fold perform [Op_Revalidate None, Op_ApplyPlan site_planned sample_options]
       site_revoked))) (''as-'' @ hex64 1) = Some r' \<and> is_terminal (ar_state r'))"
proof -
  have "ar_state site_revoked_record = AS_Revoked" by (simp add: site_revoked_record_def transition_to_def)
  moreover from this have "is_terminal (ar_state site_revoked_record)" by simp
  ultimately show ?thesis using terminal_stays_terminal [OF site_revoked_lifetime site_revoked_state] by blast
qed

end
