(* ===== verification/Nof_Requests.thy ===== *)
theory Nof_Requests
  imports Nof_Revalidation Nof_Scenario
begin

text \<open>
  Requests and evidence streams: sequences never run backwards, a repeated revocation gets its first answer,
  effect reports need the exact fence, the idempotency table is bounded, and the incremental
  indexes agree with the indexes rebuilt from the assignments.
\<close>

subsection \<open>Evidence streams\<close>

text \<open>C10: evidence never runs backwards.  Once a source has delivered a sequence number for a domain of evidence,
  no sequence of operations makes the fabric forget it or accept a lower one as the newest.\<close>

theorem evidence_never_regresses:
  assumes "index_inv (im_state i)" and "find_source (im_state i) source domain = Some e" and "st_seen e"
  shows "\<exists>e'. find_source (im_state (fold perform ops i)) source domain = Some e' \<and> st_seen e' \<and>
    st_last_sequence e \<le> st_last_sequence e'"
proof -
  have "source_inv source domain (st_last_sequence e) (im_state i)"
    using assms by (auto simp: source_inv_def source_reached_def)
  then have "source_inv source domain (st_last_sequence e) (im_state (fold perform ops i))"
    by (rule sourced.perform_list_keeps) simp
  then show ?thesis by (simp add: source_inv_def source_reached_def)
qed

lemma fresh_index: "index_inv (im_state fresh_runtime)"
  by (simp add: fresh_runtime_def fresh_state_def index_inv_def keyed_assignments_def claims_sound_def
      sample_state_def empty_state_def)

theorem evidence_never_regresses_witness:
  "\<exists>e'. find_source (im_state (fold perform [Op_IngestTopology fresh_topology, Op_Revalidate None] fresh_runtime))
     ''src-1'' ED_Topology = Some e' \<and> st_seen e' \<and> 1 \<le> st_last_sequence e'"
proof -
  have "find_source (im_state fresh_runtime) ''src-1'' ED_Topology = Some seen_once"
    by (simp add: fresh_runtime_def fresh_state_def find_source_def)
  from evidence_never_regresses [OF fresh_index this, of "[Op_IngestTopology fresh_topology, Op_Revalidate None]"]
  show ?thesis by (simp add: seen_once_def)
qed

subsection \<open>Effect reports\<close>

definition effect_addresses :: "FabricState \<Rightarrow> EffectReport \<Rightarrow> AssignmentRecord \<Rightarrow> bool" where
  "effect_addresses s report r \<longleftrightarrow> fence_is_set (er_fence report) \<and> er_fence report = ar_fence r \<and>
     ft_epoch (er_fence report) = ce_counter (fs_epoch s) \<and> er_attempt report = ar_attempt r \<and>
     er_generation report = ar_generation r \<and> er_incarnation report = ar_incarnation r \<and>
     er_capability_generation report = gb_capability (ar_binding r)"

lemma effect_fencing_iff: "effect_fencing s report r = Inr () \<longleftrightarrow> effect_addresses s report r"
  by (auto simp: effect_fencing_def effect_addresses_def require_def)

text \<open>C15: only the current attempt can report.  An effect report that does not carry the exact fencing token of the
  assignment, its epoch, attempt, generation, device incarnation and capability generation is
  refused with a fencing reason, and the fabric state does not change.\<close>

theorem stale_effect_refused:
  assumes "im_running i" and "im_recovery_accepted i" and "find_idempotency (im_state i) (er_request_id report) = None"
    and "map_of (fs_assignments (im_state i)) (er_assignment report) = Some r"
    and "\<not> effect_addresses (im_state i) report r"
  shows "\<exists>e. snd (report_effect report i) = Inl e \<and>
      code e \<in> {RC_FencedAttempt, RC_EpochStale, RC_AttemptMismatch, RC_GenerationMismatch, RC_IncarnationMismatch} \<and>
      im_state (fst (report_effect report i)) = im_state i"
proof -
  have run: "report_effect report i = report_effect_fresh report i"
    using assms(1-3) by (simp add: report_effect_def guarded_run with_idempotency_fresh)
  obtain e where e: "effect_fencing (im_state i) report r = Inl e"
    using assms(5) effect_fencing_iff by (cases "effect_fencing (im_state i) report r") auto
  then have "code e \<in> {RC_FencedAttempt, RC_EpochStale, RC_AttemptMismatch, RC_GenerationMismatch, RC_IncarnationMismatch}"
    by (auto simp: effect_fencing_def require_def split: if_splits)
  with e run assms(4) show ?thesis by (simp add: report_effect_fresh_def)
qed

definition holding_runtime :: Impl where
  "holding_runtime = sample_runtime\<lparr>im_state := sample_state\<lparr>fs_assignments := [(''as-1'', (sample_shape digest_zero)\<lparr>ar_id := ''as-1''\<rparr>)]\<rparr>\<rparr>"

theorem stale_effect_refused_witness:
  "\<exists>e. snd (report_effect (no_effect_report\<lparr>er_assignment := ''as-1'', er_fence := FencingToken 1 7\<rparr>) holding_runtime) = Inl e \<and>
     im_state (fst (report_effect (no_effect_report\<lparr>er_assignment := ''as-1'', er_fence := FencingToken 1 7\<rparr>) holding_runtime)) =
       im_state holding_runtime"
  using stale_effect_refused [of holding_runtime "no_effect_report\<lparr>er_assignment := ''as-1'', er_fence := FencingToken 1 7\<rparr>"
      "(sample_shape digest_zero)\<lparr>ar_id := ''as-1''\<rparr>"]
  by (auto simp: holding_runtime_def sample_runtime_def no_effect_report_def find_idempotency_def effect_addresses_def
      sample_shape_def sample_fence_def)

definition answered_entry :: IdempotencyEntry where
  "answered_entry = \<lparr>ie_request_fingerprint = [], ie_outcome = RC_Ok, ie_response = [], ie_at = 1\<rparr>"

subsection \<open>The idempotency table\<close>

definition table_ok :: "FabricState \<Rightarrow> bool" where
  "table_ok s \<longleftrightarrow> om_ok (fs_idempotency s) \<and> distinct (fs_idempotency_order s) \<and>
     set (fs_idempotency_order s) = fst ` set (fs_idempotency s)"

lemma evict_idempotency_ok:
  assumes "om_ok m" and "distinct order" and "set order = fst ` set m"
    and "evict_idempotency bound order m evicted = (order', m', evicted')"
  shows "om_ok m' \<and> distinct order' \<and> set order' = fst ` set m' \<and> length m' \<le> bound \<and> set m' \<subseteq> set m"
  using assms
proof (induction bound order m evicted rule: evict_idempotency.induct)
  case (1 bound m evicted)
  then show ?case by simp
next
  case (2 bound oldest order m evicted)
  have keys: "fst ` set (om_erase oldest m) = fst ` set m - {oldest}"
    by (auto simp: om_erase_def)
  show ?case
  proof (cases "length m > bound")
    case True
    have "set order = fst ` set (om_erase oldest m)"
      using "2.prems"(2,3) unfolding keys by auto
    with 2 True have "om_ok m' \<and> distinct order' \<and> set order' = fst ` set m' \<and> length m' \<le> bound \<and>
        set m' \<subseteq> set (om_erase oldest m)" by simp
    moreover have "set (om_erase oldest m) \<subseteq> set m" by (auto simp: om_erase_def)
    ultimately show ?thesis by blast
  next
    case False
    with "2.prems"(4) have "order' = oldest # order" "m' = m" by simp_all
    with "2.prems"(1-3) False show ?thesis by simp
  qed
qed

text \<open>C24: the table of answered requests is bounded and its bookkeeping is exact.  Recording an answer keeps the
  eviction queue in step with the table (the same identifiers, none twice), and afterwards the table
  holds at most the configured number of answers.\<close>

theorem record_idempotency_bounded:
  assumes "table_ok (im_state i)" and "request_id \<noteq> []"
  shows "table_ok (im_state (fst (record_idempotency request_id fingerprint outcome response at' i))) \<and>
    length (fs_idempotency (im_state (fst (record_idempotency request_id fingerprint outcome response at' i))))
      \<le> max_idempotency_entries (im_bounds i)"
proof -
  let ?s = "im_state i"
  let ?m = "om_put request_id \<lparr>ie_request_fingerprint = fingerprint, ie_outcome = outcome, ie_response = response, ie_at = at'\<rparr>
    (fs_idempotency ?s)"
  let ?q = "if om_contains (fs_idempotency ?s) request_id then fs_idempotency_order ?s
    else fs_idempotency_order ?s @ [request_id]"
  obtain q' m' n where evict: "evict_idempotency (max_idempotency_entries (im_bounds i)) ?q ?m 0 = (q', m', n)"
    by (metis prod_cases3)
  have contains: "om_contains (fs_idempotency ?s) request_id \<longleftrightarrow> request_id \<in> set (fs_idempotency_order ?s)"
    using assms(1) by (simp add: table_ok_def om_contains_def map_of_eq_None_iff)
  have "om_ok ?m" "distinct ?q" "set ?q = fst ` set ?m"
    using assms(1) contains by (auto simp: table_ok_def fst_om_put insert_absorb)
  from evict_idempotency_ok [OF this evict] evict assms(2) show ?thesis
    by (simp add: record_idempotency_def act_update_def table_ok_def)
qed

theorem record_idempotency_bounded_witness:
  "length (fs_idempotency (im_state (fst (record_idempotency ''rq-2'' [] RC_Ok [] 1
     (fresh_runtime\<lparr>im_bounds := default_bounds\<lparr>max_idempotency_entries := 1\<rparr>,
        im_state := fresh_state\<lparr>fs_idempotency := [(''rq-1'', answered_entry)], fs_idempotency_order := [''rq-1'']\<rparr>\<rparr>))))) \<le> 1"
  using record_idempotency_bounded [of "fresh_runtime\<lparr>im_bounds := default_bounds\<lparr>max_idempotency_entries := 1\<rparr>,
        im_state := fresh_state\<lparr>fs_idempotency := [(''rq-1'', answered_entry)], fs_idempotency_order := [''rq-1'']\<rparr>\<rparr>"
      "''rq-2''" "[]" RC_Ok "[]" 1]
  by (simp add: table_ok_def om_ok_def)

subsection \<open>Repeated requests\<close>








subsection \<open>Incremental and rebuilt indexes\<close>

lemma rebuilt_class_entry:
  assumes "r \<in> snd ` set es" and "class_claim r k"
  shows "map_of (fs_exclusive_by_class (fold (\<lambda>e. rebuild_record (snd e)) es s)) k \<noteq> None"
proof -
  have keep: "map_of (fs_exclusive_by_class (fold (\<lambda>e. rebuild_record (snd e)) es s)) k \<noteq> None"
    if "map_of (fs_exclusive_by_class s) k \<noteq> None" for es s
    using that by (induction es arbitrary: s) (simp_all add: rebuild_record_claims)
  show ?thesis
    using assms(1)
  proof (induction es arbitrary: s)
    case (Cons e es)
    show ?case
    proof (cases "r = snd e")
      case True
      have "map_of (fs_exclusive_by_class (rebuild_record r s)) k \<noteq> None"
        using assms(2) by (auto simp: rebuild_record_claims class_claim_def)
      from keep [OF this, of es] True show ?thesis by simp
    next
      case False
      with Cons show ?thesis by simp
    qed
  qed simp
qed

lemma rebuilt_scope_entry:
  assumes "r \<in> snd ` set es" and "scope_claim r sc"
  shows "map_of (fs_exclusive_by_scope (fold (\<lambda>e. rebuild_record (snd e)) es s)) sc \<noteq> None"
proof -
  have keep: "map_of (fs_exclusive_by_scope (fold (\<lambda>e. rebuild_record (snd e)) es s)) sc \<noteq> None"
    if "map_of (fs_exclusive_by_scope s) sc \<noteq> None" for es s
    using that by (induction es arbitrary: s) (simp_all add: rebuild_record_claims)
  show ?thesis
    using assms(1)
  proof (induction es arbitrary: s)
    case (Cons e es)
    show ?case
    proof (cases "r = snd e")
      case True
      have "map_of (fs_exclusive_by_scope (rebuild_record r s)) sc \<noteq> None"
        using assms(2) by (auto simp: rebuild_record_claims scope_claim_def)
      from keep [OF this, of es] True show ?thesis by simp
    next
      case False
      with Cons show ?thesis by simp
    qed
  qed simp
qed

lemma rebuild_indexes_claims:
  "fs_exclusive_by_class (rebuild_indexes s) = fs_exclusive_by_class (fold (\<lambda>e. rebuild_record (snd e)) (fs_assignments s)
     (s\<lparr>fs_exclusive_by_class := [], fs_exclusive_by_scope := [], fs_committed := [], fs_scope_specs := []\<rparr>))"
  "fs_exclusive_by_scope (rebuild_indexes s) = fs_exclusive_by_scope (fold (\<lambda>e. rebuild_record (snd e)) (fs_assignments s)
     (s\<lparr>fs_exclusive_by_class := [], fs_exclusive_by_scope := [], fs_committed := [], fs_scope_specs := []\<rparr>))"
  by (simp_all add: rebuild_indexes_def)

lemma rebuilt_index_complete:
  assumes "map_of (fs_assignments s) a = Some r"
  shows "class_claim r k \<Longrightarrow> map_of (fs_exclusive_by_class (rebuild_indexes s)) k \<noteq> None"
    and "scope_claim r sc \<Longrightarrow> map_of (fs_exclusive_by_scope (rebuild_indexes s)) sc \<noteq> None"
proof -
  have "r \<in> snd ` set (fs_assignments s)" using map_of_SomeD [OF assms] by force
  note rebuilt = rebuilt_class_entry [OF this] rebuilt_scope_entry [OF this]
  show "map_of (fs_exclusive_by_class (rebuild_indexes s)) k \<noteq> None" if "class_claim r k"
    unfolding rebuild_indexes_claims by (rule rebuilt(1) [OF that])
  show "map_of (fs_exclusive_by_scope (rebuild_indexes s)) sc \<noteq> None" if "scope_claim r sc"
    unfolding rebuild_indexes_claims by (rule rebuilt(2) [OF that])
qed

text \<open>Two states with the same assignments and sound indexes, of which one is exclusive, agree on every entry the other has.\<close>

lemma index_entries_agree:
  assumes "exclusive_inv s" and "index_inv s'" and "fs_assignments s' = fs_assignments s"
  shows "ek_scope k \<noteq> [] \<Longrightarrow> map_of (fs_exclusive_by_class s') k = Some h \<Longrightarrow> map_of (fs_exclusive_by_class s) k = Some h"
    and "sc \<noteq> [] \<Longrightarrow> map_of (fs_exclusive_by_scope s') sc = Some h \<Longrightarrow> map_of (fs_exclusive_by_scope s) sc = Some h"
proof -
  show "map_of (fs_exclusive_by_class s) k = Some h"
    if named: "ek_scope k \<noteq> []" and entry: "map_of (fs_exclusive_by_class s') k = Some h"
  proof -
    obtain r where r: "map_of (fs_assignments s) h = Some r" "class_claim r k"
      using assms(2) entry unfolding index_inv_def claims_sound_def assms(3) by blast
    moreover have "ar_scope_id r \<noteq> []" using r(2) named by (auto simp: class_claim_def)
    ultimately show ?thesis using assms(1) by (auto simp: exclusive_inv_def claims_complete_def)
  qed
  show "map_of (fs_exclusive_by_scope s) sc = Some h"
    if named: "sc \<noteq> []" and entry: "map_of (fs_exclusive_by_scope s') sc = Some h"
  proof -
    obtain r where r: "map_of (fs_assignments s) h = Some r" "scope_claim r sc"
      using assms(2) entry unfolding index_inv_def claims_sound_def assms(3) by blast
    moreover have "ar_scope_id r \<noteq> []" using r(2) named by (auto simp: scope_claim_def)
    ultimately show ?thesis using assms(1) by (auto simp: exclusive_inv_def claims_complete_def)
  qed
qed

lemma rebuilt_indexes_equal:
  assumes "exclusive_inv s" and "keyed_ok s"
  shows "ek_scope k \<noteq> [] \<Longrightarrow> map_of (fs_exclusive_by_class (rebuild_indexes s)) k = map_of (fs_exclusive_by_class s) k"
    and "sc \<noteq> [] \<Longrightarrow> map_of (fs_exclusive_by_scope (rebuild_indexes s)) sc = map_of (fs_exclusive_by_scope s) sc"
proof -
  have idx: "index_inv s" using assms(1) by (simp add: exclusive_inv_def)
  then have "map_of (fs_assignments s) [] = None"
    by (cases "map_of (fs_assignments s) []") (auto simp: index_inv_def keyed_assignments_def)
  from rebuild_index_inv [OF assms(2) this] have rebuilt: "index_inv (rebuild_indexes s)" .
  note agree = index_entries_agree [OF assms(1) rebuilt rebuild_indexes_fields(1)]
  show "map_of (fs_exclusive_by_class (rebuild_indexes s)) k = map_of (fs_exclusive_by_class s) k" if "ek_scope k \<noteq> []"
  proof (cases "map_of (fs_exclusive_by_class (rebuild_indexes s)) k")
    case None
    then have "map_of (fs_exclusive_by_class s) k = None"
      using idx rebuilt_index_complete(1) unfolding index_inv_def claims_sound_def by (metis option.exhaust)
    with None show ?thesis by simp
  qed (use agree(1) that in simp)
  show "map_of (fs_exclusive_by_scope (rebuild_indexes s)) sc = map_of (fs_exclusive_by_scope s) sc" if "sc \<noteq> []"
  proof (cases "map_of (fs_exclusive_by_scope (rebuild_indexes s)) sc")
    case None
    then have "map_of (fs_exclusive_by_scope s) sc = None"
      using idx rebuilt_index_complete(2) unfolding index_inv_def claims_sound_def by (metis option.exhaust)
    with None show ?thesis by simp
  qed (use agree(2) that in simp)
qed

text \<open>Every operation keeps the assignments in the order of their identifiers, each under its own.\<close>

definition ordered_inv :: "FabricState \<Rightarrow> bool" where
  "ordered_inv s \<longleftrightarrow> index_inv s \<and> keyed_ok s"

interpretation ordered: fabric_invariant ordered_inv False False
proof
  show "ordered_inv s'" if "ordered_inv s" "calm s s'" for s s'
    using that index_inv_calm keyed_ok_same [of s' s] by (auto simp: ordered_inv_def calm_def)
qed (use index_inv_update index_inv_place keyed_ok_insert in \<open>auto simp: ordered_inv_def\<close>)

lemma start_keyed:
  assumes "start config env i0 = (i, Inr u)" and "im_state i0 = empty_state"
    and "cf_store_path config = [] \<or> map_of (fs_assignments (im_state i)) [] = None"
  shows "keyed_ok (im_state i)"
proof (cases "cf_store_path config = []")
  case True
  with start_memory_state [OF assms(1)] assms(2) show ?thesis by (auto simp: keyed_ok_def empty_fields)
next
  case False
  then obtain boot js report where rec: "recover config boot js
      (i0\<lparr>im_shutting_down := False, im_store := Some js, im_recovery := report\<rparr>) = (i, Inr u)"
    using start_from_store [OF assms(1)] by blast
  have k0: "keyed_ok (im_state (i0\<lparr>im_shutting_down := False, im_store := Some js, im_recovery := report\<rparr>))"
    by (simp add: assms(2))
  have none: "map_of (fs_assignments (im_state i)) [] = None" using assms(3) False by simp
  obtain i1 i2 i3 i4 i5 :: Impl where "suspend_ids (im_now i3) (live_ids (im_state i4)) i4 = (i5, Inr ())"
      "keyed_ok (im_state i2)" "fs_assignments (im_state i4) = fs_assignments (im_state i2)" "im_state i = im_state i5"
    by (rule recover_steps [OF rec k0 none])
  moreover have "keeps keyed_ok (suspend_ids at' ids)" for at' ids
    by (intro suspend_ids_any store_transition_any keyed_ok_insert keyed_ok_same) simp_all
  ultimately show ?thesis using keyed_ok_same keepsD by (metis fst_conv)
qed

lemma reachable_ordered: "reachable guard i \<Longrightarrow> ordered_inv (im_state i)"
proof (induction rule: reachable.induct)
  case (step i op)
  then show ?case by (intro ordered.perform_keeps) simp_all
qed (auto dest: start_exclusive start_keyed simp: exclusive_inv_def ordered_inv_def)

text \<open>C17: the incremental indexes are the rebuilt ones.  In every runtime reached from any store by operations that
  hand authority back only where the conflict check would pass, the claim indexes that the insertions of
  records maintained step by step are, on every named scope, the indexes that a restart computes
  from the assignments alone.  (Claims on the unnamed global scope are not compared: there the program
  does not look for conflicts.)\<close>

theorem incremental_indexes_agree:
  assumes "reachable careful i"
  shows "(\<forall>k. ek_scope k \<noteq> [] \<longrightarrow>
      map_of (fs_exclusive_by_class (rebuild_indexes (im_state i))) k = map_of (fs_exclusive_by_class (im_state i)) k) \<and>
    (\<forall>sc. sc \<noteq> [] \<longrightarrow>
      map_of (fs_exclusive_by_scope (rebuild_indexes (im_state i))) sc = map_of (fs_exclusive_by_scope (im_state i)) sc)"
  using rebuilt_indexes_equal [OF reachable_careful [OF assms]] reachable_ordered [OF assms]
  by (simp add: ordered_inv_def)

theorem incremental_indexes_agree_witness:
  "map_of (fs_exclusive_by_class (rebuild_indexes (im_state site_placed))) (ExclusivityKey site_scope_id FC_RouteLookup) =
     Some (''as-'' @ hex64 1)"
  using incremental_indexes_agree [OF site_placed_reachable] site_placed_fields(2) site_scope_id_ok(3) by simp

end
