(* ===== verification/Nof_Findings.thy ===== *)
theory Nof_Findings
  imports Nof_Requests
begin

text \<open>
  Places where the program does less than its documentation promises, as theorems: identifiers of
  terminal assignments can be issued again after a restart, re-authorization does not look at the
  exclusive claims, an update of a suspended assignment releases its demand a second time, and an
  effect report on a full history stores a record that no reader accepts.
\<close>

subsection \<open>Identifiers of terminal assignments\<close>

lemma start_from_store_only:
  assumes "start config env i0 = (i, Inr u)" and "cf_store_path config \<noteq> []" and "se_snapshot_file env = None"
  obtains boot js report where "\<not> js_has_snapshot js" "recover config boot js
    (i0\<lparr>im_shutting_down := False, im_store := Some js, im_recovery := report\<rparr>) = (i, Inr u)"
  using assms by (auto simp: start_def Let_def dest!: open_without_snapshot split: if_splits sum.splits prod.splits)

text \<open>C33: after a restart without a snapshot the fabric issues the identifiers of terminal assignments again.  Take any
  store without a snapshot whose start succeeds and leaves only terminal assignments (and none with an
  empty identifier, which the program never writes).  Rebuilding the indexes counts live assignments only, so
  the next identifier issued is the first one, even though a terminal assignment has it; the
  placement that takes it replaces that record.\<close>

theorem terminal_identifier_reissued:
  assumes "start config env i0 = (i, Inr u)" and "im_state i0 = empty_state" and "cf_store_path config \<noteq> []"
    and "se_snapshot_file env = None" and "map_of (fs_assignments (im_state i)) [] = None"
    and "\<forall>a r. map_of (fs_assignments (im_state i)) a = Some r \<longrightarrow> is_terminal (ar_state r)"
    and "map_of (fs_assignments (im_state i)) (''as-'' @ hex64 1) = Some old"
  shows "\<exists>s'. issue_assignment_id (im_state i) = Inr (''as-'' @ hex64 1, s') \<and>
    map_of (fs_assignments s') (''as-'' @ hex64 1) = Some old \<and> is_terminal (ar_state old) \<and>
    (\<forall>r. ar_id r = ''as-'' @ hex64 1 \<longrightarrow>
      map_of (fs_assignments (insert_assignment r s')) (''as-'' @ hex64 1) = Some r)"
proof -
  obtain boot js report where "\<not> js_has_snapshot js" and rec: "recover config boot js
      (i0\<lparr>im_shutting_down := False, im_store := Some js, im_recovery := report\<rparr>) = (i, Inr u)"
    by (rule start_from_store_only [OF assms(1,3,4)])
  then have "fs_next_assignment_ordinal (im_state i) = fs_next_assignment_ordinal empty_state"
    using recover_ordinal [OF rec _ assms(5)] assms(2,6) by simp
  then have "fs_next_assignment_ordinal (im_state i) = 0" by (simp add: empty_state_def)
  with assms(6,7) show ?thesis by (auto simp: issue_assignment_id_Inr)
qed

text \<open>A store that recorded one assignment, which was revoked.\<close>

definition revoked_record :: AssignmentRecord where
  "revoked_record = (sample_shape digest_zero)\<lparr>ar_state := AS_Revoked\<rparr>"

abbreviation revoked_entry :: RecordedAssignment where
  "revoked_entry \<equiv> \<lparr>xa_record = revoked_record, xa_request_id = [], xa_request_fingerprint = digest_zero\<rparr>"

lemma revoked_encodes:
  obtains w where "encode_recorded_assignment revoked_entry (bin_writer 4194304) = (w, ok_status)" "length (bw_buffer w) \<le> 1000"
proof -
  have "\<exists>w. encode_recorded_assignment revoked_entry (bin_writer 4194304) = (w, ok_status) \<and> length (bw_buffer w) \<le> 1000"
    unfolding revoked_record_def sample_shape_def
    by (simp add: encode_recorded_assignment_def encode_assignment_def encode_with_def enc_assignment_def
        no_assignment_def Let_def w_seq_def w_open_def bin_writer_def w_list_def enc_transition_record_def
        enc_provenance_def enc_freshness_def enc_fence_def enc_binding_def enc_demand_def enc_incarnation_def
        enc_scope_spec_def digest_zero_def no_scope_def no_incarnation_def zero_demand_def no_binding_def no_fence_def
        no_provenance_def no_freshness_def sample_fence_def emit_eqs bw_token_def bw_text_def bw_bytes_def bw_digest_def
        bw_append_def bw_u32_def would_fit_iff)
  then show thesis using that by blast
qed

lemma revoked_decodes:
  assumes "encode_recorded_assignment revoked_entry (bin_writer 4194304) = (w, ok_status)" and "length (bw_buffer w) \<le> 1000"
    and "im_bounds i = default_bounds"
  shows "act_decode (decode_recorded_assignment (im_bounds i)) (bw_buffer w) i = (i, Inr revoked_entry)"
proof -
  have names: "token_ok ''f-1''" "token_ok ''h-1''" "token_ok ''d-1''" "token_ok []" "token_ok (''as-'' @ hex64 1)"
    using assignment_token_valid [of 1]
    by (simp_all add: token_ok_def is_valid_token_def kMaxTokenLength_def is_tail_def is_head_def char_in_def)
  have "reason_ok RC_Ok" by (simp add: reason_ok_def reason_to_string_def NOF_REASON_CODES_def)
  with names have "recorded_assignment_ok (max_text_bytes default_bounds) default_bounds revoked_entry"
    by (simp add: recorded_assignment_ok_def assignment_ok_def revoked_record_def sample_shape_def no_assignment_def no_scope_def
        no_provenance_def no_incarnation_def scope_spec_ok_def incarnation_ok_def provenance_ok_def freshness_ok_def
        is_i64_def i64_min_def i64_max_def transition_record_ok_def default_bounds_def digest_zero_def)
  moreover have "64 \<le> max_text_bytes default_bounds" by (simp add: default_bounds_def)
  ultimately have "brt (max_text_bytes default_bounds) (encode_recorded_assignment revoked_entry)
      (decode_recorded_assignment default_bounds) revoked_entry"
    by (rule brt_recorded_assignment)
  from brt_fresh [OF this assms(1)] assms(2,3) show ?thesis by (auto simp: act_decode_def)
qed

text \<open>Replaying that one record, and the recovery after it.\<close>

lemma revoked_replay:
  assumes "journal_inv js [(RT_AssignmentTransitioned, 1, bw_buffer w)]" and "js_snapshot_covered js = 0"
    and "encode_recorded_assignment revoked_entry (bin_writer 4194304) = (w, ok_status)" and "length (bw_buffer w) \<le> 1000"
    and "im_bounds i = default_bounds" and "im_state i = empty_state"
  shows "\<exists>i'. replay_store js i = (i', ok_status) \<and> fs_assignments (im_state i') = [(''as-'' @ hex64 1, revoked_record)] \<and>
    fs_epoch_counter (im_state i') = 0 \<and> im_store i' = im_store i \<and> im_bounds i' = default_bounds \<and> im_io i' = im_io i \<and>
    \<not> im_replaying i'"
proof -
  have "\<not> js_closed js" "js_options js = (js_options js)\<lparr>oo_recovery := oo_recovery (js_options js)\<rparr>"
    using assms(1) by (simp_all add: journal_inv_def)
  note replayed = replay_inv [OF assms(1) refl this]
  have visited: "journal_replay replay_visitor js j =
      (case replay_visitor RT_AssignmentTransitioned 1 (bw_buffer w) j of
         (j', Inl e) \<Rightarrow> (j', Inl e) | (j', Inr _) \<Rightarrow> (j', ok_status))" for j
    using replayed [of replay_visitor j] assms(2) by simp
  let ?i = "i\<lparr>im_replaying := True\<rparr>" and ?s = "insert_assignment revoked_record empty_state"
  have dead: "\<not> is_live (ar_state revoked_record)" "\<not> holds_authority (ar_state revoked_record)"
      "ar_id revoked_record = ''as-'' @ hex64 1" "length (ar_history revoked_record) = 2"
    by (simp_all add: revoked_record_def sample_shape_def)
  have "act_decode (decode_recorded_assignment (im_bounds ?i)) (bw_buffer w) ?i = (?i, Inr revoked_entry)"
    by (rule revoked_decodes [OF assms(3,4)]) (simp add: assms(5))
  then have "apply_record RT_AssignmentTransitioned (bw_buffer w) ?i = (?i\<lparr>im_state := ?s\<rparr>, ok_status)"
    using assms(5,6) dead(4) by (simp add: apply_record_def act_bind_def replay_insert_def on_state_def act_update_def
        note_history_drop_def default_bounds_def)
  then have "journal_replay replay_visitor js ?i = (?i\<lparr>im_state := ?s\<rparr>, ok_status)"
    by (simp add: visited replay_visitor_def)
  moreover have rows: "fs_assignments ?s = [(''as-'' @ hex64 1, revoked_record)]"
    using dead(3) by (simp add: empty_state_def)
  moreover have "fs_epoch_counter (rebuild_indexes ?s) = 0"
    using dead(1,2) rows by (simp add: rebuild_indexes_def rebuild_record_def refresh_authority_usage_def)
      (simp add: insert_assignment_def acquire_claims_def refresh_authority_usage_def Let_def empty_state_def)
  ultimately show ?thesis using assms(5) by (simp add: replay_store_def)
qed

lemma revoked_advance:
  assumes "journal_inv js [(RT_AssignmentTransitioned, 1, bs)]" and "length bs \<le> 1000" and "js_last_sequence js = 1"
    and "js_options js = open_options example_config default_bounds"
    and "fs_epoch_counter (im_state i) = 0" and "im_store i = Some js" and "im_bounds i = default_bounds"
    and "im_io i = im_io example_runtime" and "\<not> im_replaying i"
  shows "\<exists>i'. advance_epoch example_id i = (i', ok_status) \<and> fs_assignments (im_state i') = fs_assignments (im_state i)"
proof -
  obtain es where es: "encode_fresh 64 (encode_epoch \<lparr>ce_counter = 1, ce_boot = example_id\<rparr>) = Inr es" "length es = 44"
    using example_epoch_bytes by blast
  have options: "oo_max_journal_bytes (js_options js) = max_journal_bytes default_bounds"
      "oo_max_record_bytes (js_options js) = max_record_bytes default_bounds"
    by (simp_all add: assms(4) open_options_def)
  have file_length: "length (js_file js) = 88 + length bs"
    by (rule journal_inv_file [OF assms(1)]) (simp add: encode_entry_def)
  obtain js' where "journal_append io_ok RT_EpochStarted es js = (js', ok_status)"
  proof (rule journal_append_succeeds [OF assms(1)])
    show "length es \<le> oo_max_record_bytes (js_options js)" using es(2) by (simp add: options default_bounds_def)
    show "length (js_file js) + 24 + length es \<le> oo_max_journal_bytes (js_options js) * 2"
      using es(2) assms(2) by (simp add: options file_length default_bounds_def)
    show "unat (js_last_sequence js) + 1 < 2 ^ 64" by (simp add: assms(3))
  qed
  moreover have "\<not> unat (js_bytes js) > max_journal_bytes default_bounds"
  proof -
    have bytes: "js_bytes js = of_nat (88 + length bs)" using assms(1) file_length by (simp add: journal_inv_def)
    have "unat (js_bytes js) \<le> 88 + length bs"
      unfolding bytes unat_of_nat by (rule mod_less_eq_dividend)
    with assms(2) show ?thesis by (simp add: default_bounds_def)
  qed
  ultimately show ?thesis
    using assms(5-9) es(1) by (simp add: advance_epoch_def next_epoch_def Let_def commit_def act_bind_def act_return_def
        store_append_def example_runtime_def bump_by_def)
qed

lemma example_inv_journal: "journal_inv example_journal []" "js_last_sequence example_journal = 0"
    "js_options example_journal = open_options example_config default_bounds" "js_snapshot_covered example_journal = 0"
  by (simp_all add: journal_inv_def example_journal_def blank_store_def open_options_def example_config_def default_bounds_def
      options_ok_def identity_ok_def example_id_ok length_build_header is_i64_def i64_min_def i64_max_def kStoreFormatVersion_def)

text \<open>The journal of that store, and what opening it finds.\<close>

lemma revoked_store:
  obtains w contents js where "encode_recorded_assignment revoked_entry (bin_writer 4194304) = (w, ok_status)"
    "length (bw_buffer w) \<le> 1000"
    "\<exists>report. journal_open (open_options example_config default_bounds) True io_ok True example_id 1 (Some contents) None
       no_recovery = (report, Inr js)"
    "journal_inv js [(RT_AssignmentTransitioned, 1, bw_buffer w)]" "js_last_sequence js = 1" "js_snapshot_covered js = 0"
    "js_options js = open_options example_config default_bounds"
proof -
  obtain w where w: "encode_recorded_assignment revoked_entry (bin_writer 4194304) = (w, ok_status)" "length (bw_buffer w) \<le> 1000"
    by (rule revoked_encodes)
  obtain js1 where app: "journal_append io_ok RT_AssignmentTransitioned (bw_buffer w) example_journal = (js1, ok_status)"
  proof (rule journal_append_succeeds [OF example_inv_journal(1)])
    show "length (bw_buffer w) \<le> oo_max_record_bytes (js_options example_journal)"
      using w(2) by (simp add: example_inv_journal(3) open_options_def default_bounds_def)
    have "length (js_file example_journal) = 64"
      by (simp add: example_journal_def blank_store_def length_build_header example_id_ok)
    then show "length (js_file example_journal) + 24 + length (bw_buffer w) \<le> oo_max_journal_bytes (js_options example_journal) * 2"
      using w(2) by (simp add: example_inv_journal(3) open_options_def default_bounds_def)
  qed (simp add: example_inv_journal(2))
  note inv1 = journal_append_ok [OF example_inv_journal(1) app, simplified example_inv_journal append_Nil add_0]
  have options: "open_options example_config default_bounds = (js_options js1)\<lparr>oo_recovery := RP_Refuse\<rparr>"
    by (simp add: inv1(3) open_options_def example_config_def)
  from open_clean [OF inv1(1) options, of io_ok True example_id 1 no_recovery] obtain js report where
      "journal_open (open_options example_config default_bounds) True io_ok True example_id 1 (Some (js_file js1)) None
         no_recovery = (report, Inr js)"
      "journal_inv js [(RT_AssignmentTransitioned, 1, bw_buffer w)]" "js_last_sequence js = 1" "js_snapshot_covered js = 0"
      "js_options js = open_options example_config default_bounds" by auto
  with w that show thesis by blast
qed

lemma revoked_start:
  obtains env i where "start example_config env example_runtime = (i, Inr ())" "se_snapshot_file env = None"
    "fs_assignments (im_state i) = [(''as-'' @ hex64 1, revoked_record)]"
proof -
  obtain w contents js report where w: "encode_recorded_assignment revoked_entry (bin_writer 4194304) = (w, ok_status)"
      "length (bw_buffer w) \<le> 1000"
      and opened: "journal_open (open_options example_config default_bounds) True io_ok True example_id 1 (Some contents) None
         no_recovery = (report, Inr js)"
      and js: "journal_inv js [(RT_AssignmentTransitioned, 1, bw_buffer w)]" "js_last_sequence js = 1" "js_snapshot_covered js = 0"
        "js_options js = open_options example_config default_bounds"
    using revoked_store by metis
  let ?env = "example_env\<lparr>se_file := Some contents\<rparr>"
  let ?i = "example_runtime\<lparr>im_shutting_down := False, im_store := Some js, im_recovery := report\<rparr>"
  have boot: "boot_is_set example_id" "\<not> boot_is_set []"
    by (simp_all add: boot_is_set_def kBootIdLength_def example_id_ok)
  have started: "start example_config ?env example_runtime = recover example_config example_id js ?i"
    using boot opened default_bounds_valid by (simp add: start_def example_runtime_def example_config_def example_env_def)
  have restored: "restore_snapshot js ?i = (?i, ok_status)"
    using open_without_snapshot [OF opened] by (simp add: restore_snapshot_def snapshot_payload_def)
  have "im_bounds ?i = default_bounds" "im_state ?i = empty_state" by (simp_all add: example_runtime_def)
  from revoked_replay [OF js(1,3) w this] obtain i1 where i1: "replay_store js ?i = (i1, ok_status)"
      "fs_assignments (im_state i1) = [(''as-'' @ hex64 1, revoked_record)]" "fs_epoch_counter (im_state i1) = 0"
      "im_store i1 = Some js" "im_bounds i1 = default_bounds" "im_io i1 = im_io example_runtime" "\<not> im_replaying i1"
    by auto
  from revoked_advance [OF js(1) w(2) js(2,4) i1(3-)] obtain i2 where i2: "advance_epoch example_id i1 = (i2, ok_status)"
      "fs_assignments (im_state i2) = [(''as-'' @ hex64 1, revoked_record)]"
    using i1(2) by auto
  have "\<not> is_live (ar_state revoked_record)" by (simp add: revoked_record_def)
  with i2(2) have "live_ids (im_state (apply_recovery_invariants i2)) = []"
    by (simp add: apply_recovery_invariants_def live_ids_def Let_def)
  then have "recover example_config example_id js ?i = (finish_start example_config (apply_recovery_invariants i2), Inr ())"
    unfolding recover_def by (simp add: restored i1(1) i2(1) act_bind_def act_update_def)
  moreover have "fs_assignments (im_state (finish_start example_config (apply_recovery_invariants i2))) =
      [(''as-'' @ hex64 1, revoked_record)]"
    by (simp add: finish_start_def apply_recovery_invariants_def Let_def i2(2))
  moreover have "se_snapshot_file ?env = None" by (simp add: example_env_def)
  ultimately show thesis using that started by metis
qed

theorem terminal_identifier_reissued_witness:
  "\<exists>env i s'. start example_config env example_runtime = (i, Inr ()) \<and>
    map_of (fs_assignments (im_state i)) (''as-'' @ hex64 1) = Some revoked_record \<and>
    issue_assignment_id (im_state i) = Inr (''as-'' @ hex64 1, s')"
proof -
  obtain env i where i: "start example_config env example_runtime = (i, Inr ())" "se_snapshot_file env = None"
      "fs_assignments (im_state i) = [(''as-'' @ hex64 1, revoked_record)]"
    by (rule revoked_start)
  have here: "map_of (fs_assignments (im_state i)) (''as-'' @ hex64 1) = Some revoked_record"
      "map_of (fs_assignments (im_state i)) [] = None"
      "\<forall>a r. map_of (fs_assignments (im_state i)) a = Some r \<longrightarrow> is_terminal (ar_state r)"
    unfolding i(3) by (auto simp: revoked_record_def)
  have "im_state example_runtime = empty_state" "cf_store_path example_config \<noteq> []"
    by (simp_all add: example_runtime_def example_config_def)
  from terminal_identifier_reissued [OF i(1) this i(2) here(2,3,1)] i(1) here(1) show ?thesis by blast
qed

subsection \<open>Re-authorization and exclusive claims\<close>

text \<open>The decision to re-authorize an assignment does not depend on the exclusive claims.  Whoever holds the
  scope, the check gives the same answer, so re-authorizing a suspended assignment whose scope was
  given to another one makes both hold it.\<close>

lemma reauthorize_ignores_claims:
  "check_reauthorize (s\<lparr>fs_exclusive_by_class := m, fs_exclusive_by_scope := m'\<rparr>) at' rq r = check_reauthorize s at' rq r"
proof -
  have "same_evidence s (s\<lparr>fs_exclusive_by_class := m, fs_exclusive_by_scope := m'\<rparr>)"
    by (simp add: same_evidence_def)
  from target_validity_same [OF this] show ?thesis
    by (simp add: check_reauthorize_def policy_generation_of_def reauthorize_semantics_def Let_def split: option.split)
qed

subsection \<open>Released demand\<close>









subsection \<open>Full histories\<close>

lemma rd_times_length: "rd_times n d r = Inr (xs, r') \<Longrightarrow> length xs = n"
  by (induction n arbitrary: r xs) (auto simp: rd_bind_Inr rd_return_def)

lemma r_list_length: "r_list m d r = Inr (xs, r') \<Longrightarrow> length xs \<le> m"
  by (auto simp: r_list_def rd_bind_Inr r_count_def rd_fail_def rd_return_def dest!: rd_times_length split: if_splits)

lemma decode_assignment_history:
  "decode_assignment bounds r = Inr (v, r') \<Longrightarrow> length (ar_history v) \<le> max_history_per_assignment bounds"
  unfolding decode_assignment_def dec_assignment_def rd_bind_Inr
  by (clarsimp simp: rd_bind_Inr rd_return_def dest!: r_list_length)

lemma effect_history_length:
  "effect_transition report at' r = Some (counter, r') \<Longrightarrow> length (ar_history r') = length (ar_history r) + 1"
  by (auto simp: effect_transition_def transition_to_def split: EffectOutcome.splits if_splits)

lemma store_effect_Inr:
  assumes "store_effect r report request_id fingerprint i = (i', Inr u)"
  shows "map_of (fs_assignments (im_state i')) (ar_id r) = Some r"
proof -
  from assms obtain payload i1 where "insert_and_answer r request_id fingerprint i1 = (i', Inr u)"
    by (auto simp: store_effect_def act_bind_Inr act_lift_def)
  then have "calm (insert_assignment r (im_state i1)) (im_state i')"
    using insert_and_answer_state [of r i1 request_id fingerprint] by simp
  then show ?thesis by (simp add: calm_def)
qed

text \<open>What an accepted effect report stores: the history is trimmed first, then the transition is appended.\<close>

lemma report_effect_fresh_Inr:
  assumes "report_effect_fresh report i = (i', Inr r)"
    and "map_of (fs_assignments (im_state i)) (er_assignment report) = Some current" and "r \<noteq> current"
  obtains counter i1 i2 where
    "effect_transition report (im_now i)
       (trimmed (im_bounds i) (current\<lparr>ar_effects := ar_effects current @ [effect_of report]\<rparr>)) = Some (counter, r)"
    "store_effect r report (er_request_id report) (report_effect_fingerprint (im_bounds i) report) i1 = (i2, Inr ())"
    "im_state i' = im_state i2"
proof -
  let ?r = "current\<lparr>ar_effects := ar_effects current @ [effect_of report]\<rparr>"
  show thesis
    using assms that trim_history_eq [of ?r i]
    by (auto simp: report_effect_fresh_def act_bind_Inr act_return_def split: sum.splits if_splits option.splits prod.splits)
qed

text \<open>C32: an effect report on an assignment with a full history stores a record that cannot be read back.  Whenever
  the program accepts a new effect report for an assignment whose history has reached its bound, the record it stores, and
  has written to the journal, has one entry more than the bound, because the history is trimmed before
  the transition is appended; the decoders of assignments and of recorded effects, which enforce the
  bound, never return it: the journal cannot be replayed.\<close>

theorem effect_on_full_history_unreadable:
  assumes "report_effect report i = (i', Inr r)" and "im_running i" and "im_recovery_accepted i"
    and "find_idempotency (im_state i) (er_request_id report) = None"
    and "map_of (fs_assignments (im_state i)) (er_assignment report) = Some current" and "r \<noteq> current"
    and "max_history_per_assignment (im_bounds i) \<le> length (ar_history current)"
  shows "map_of (fs_assignments (im_state i')) (ar_id r) = Some r \<and>
    length (ar_history r) = max_history_per_assignment (im_bounds i) + 1 \<and>
    (\<forall>input rest. decode_assignment (im_bounds i) input \<noteq> Inr (r, rest)) \<and>
    (\<forall>input x rest. decode_recorded_effect (im_bounds i) input = Inr (x, rest) \<longrightarrow> xe_record x \<noteq> r)"
proof -
  have "report_effect_fresh report i = (i', Inr r)"
    using assms(1-4) by (simp add: report_effect_def guarded_run with_idempotency_fresh)
  then obtain counter i1 i2 where
      t: "effect_transition report (im_now i)
        (trimmed (im_bounds i) (current\<lparr>ar_effects := ar_effects current @ [effect_of report]\<rparr>)) = Some (counter, r)"
      and stored: "store_effect r report (er_request_id report) (report_effect_fingerprint (im_bounds i) report) i1 = (i2, Inr ())"
      "im_state i' = im_state i2"
    by (rule report_effect_fresh_Inr [OF _ assms(5,6)])
  have long: "length (ar_history r) = max_history_per_assignment (im_bounds i) + 1"
    using effect_history_length [OF t] assms(7) by (simp add: trimmed_def keep_last_def)
  then have unread: "decode_assignment (im_bounds i) input \<noteq> Inr (r, rest)" for input rest
    using decode_assignment_history by fastforce
  then have "decode_recorded_effect (im_bounds i) input = Inr (x, rest) \<Longrightarrow> xe_record x \<noteq> r" for input x rest
    by (auto simp: decode_recorded_effect_def rd_bind_Inr rd_return_def)
  with store_effect_Inr [OF stored(1)] stored(2) long unread show ?thesis by auto
qed

text \<open>The placed assignment of the worked deployment has two entries; with a bound of two the next effect is one too many.\<close>

definition full_runtime :: Impl where
  "full_runtime = site_placed\<lparr>im_bounds := default_bounds\<lparr>max_history_per_assignment := 2\<rparr>\<rparr>"

definition full_report :: EffectReport where
  "full_report = no_effect_report\<lparr>er_assignment := ''as-'' @ hex64 1, er_attempt := 1, er_generation := 1,
     er_fence := sample_fence, er_incarnation := \<lparr>in_generation = 1, in_boot = example_id\<rparr>, er_outcome := EO_Rejected\<rparr>"

definition full_record :: AssignmentRecord where
  "full_record = transition_to AS_Rejected RC_EffectRejected 1
     (site_record\<lparr>ar_effects := [effect_of full_report]\<rparr>)"

lemma full_encodes:
  assumes "length fingerprint = 32"
  shows "\<exists>bs. encode_fresh (max_record_bytes default_bounds) (encode_recorded_effect \<lparr>xe_report = full_report,
    xe_record = full_record, xe_request_id = [], xe_request_fingerprint = fingerprint\<rparr>) = Inr bs"
proof -
  have "max_record_bytes default_bounds = 4194304" by (simp add: default_bounds_def)
  moreover have "length (pl_plan_digest site_plan) = 32" by (simp add: site_plan_def length_sha256)
  ultimately show ?thesis
    unfolding full_record_def site_record_eq site_shape_def sample_shape_def transition_to_def full_report_def effect_of_def
    using assms
    by (simp add: encode_fresh_def encode_recorded_effect_def encode_assignment_def encode_effect_report_def encode_with_def
        enc_assignment_def enc_effect_report_def enc_effect_record_def no_effect_report_def
        no_assignment_def Let_def w_seq_def w_open_def bin_writer_def w_list_def enc_transition_record_def
        enc_provenance_def enc_freshness_def enc_fence_def enc_binding_def enc_demand_def enc_incarnation_def
        enc_scope_spec_def digest_zero_def no_scope_def no_incarnation_def zero_demand_def no_binding_def no_fence_def
        no_provenance_def no_freshness_def sample_fence_def emit_eqs bw_token_def bw_text_def bw_bytes_def bw_digest_def
        bw_append_def bw_u32_def would_fit_iff site_scope_def site_scope_id_ok example_id_ok)
qed

lemma length_effect_fingerprint: "length (report_effect_fingerprint bounds report) = 32"
proof (cases "encode_fresh (max_canonical_bytes bounds) (encode_effect_report report)")
qed (simp_all add: report_effect_fingerprint_def digest_or_zero_def digest_with_def length_sha256 digest_zero_def)

lemma full_report_run: "\<exists>i'. report_effect full_report full_runtime = (i', Inr full_record)"
proof -
  have fields: "im_state full_runtime = im_state site_placed" "im_running full_runtime" "im_recovery_accepted full_runtime"
      "im_store full_runtime = None" "\<not> im_replaying full_runtime" "im_now full_runtime = 1"
      "im_bounds full_runtime = default_bounds\<lparr>max_history_per_assignment := 2\<rparr>"
    by (simp_all add: full_runtime_def site_placed_run)
  have record': "ar_fence site_record = sample_fence" "ar_attempt site_record = 1" "ar_generation site_record = 1"
      "ar_incarnation site_record = \<lparr>in_generation = 1, in_boot = example_id\<rparr>" "gb_capability (ar_binding site_record) = 0"
      "ar_effects site_record = []" "length (ar_history site_record) = 2" "ar_state site_record = AS_Dispatched"
    by (simp_all add: site_record_eq site_shape_def sample_shape_def no_assignment_def no_binding_def)
  have "fs_epoch (im_state site_placed) = \<lparr>ce_counter = 1, ce_boot = example_id\<rparr>"
    by (simp add: site_placed_run site_numbered_def site_state_fields)
  then have fenced: "effect_fencing (im_state site_placed) full_report site_record = Inr ()"
    unfolding effect_fencing_iff effect_addresses_def
    by (simp add: record' full_report_def no_effect_report_def sample_fence_def fence_is_set_def)
  have trimmed: "trim_history (site_record\<lparr>ar_effects := [effect_of full_report]\<rparr>) full_runtime =
      (full_runtime, Inr (site_record\<lparr>ar_effects := [effect_of full_report]\<rparr>))"
    by (simp add: trim_history_def note_eviction_def keep_last_def Let_def fields record' default_bounds_def)
  obtain bs where bs: "encode_fresh (max_record_bytes default_bounds) (encode_recorded_effect \<lparr>xe_report = full_report,
      xe_record = full_record, xe_request_id = [],
      xe_request_fingerprint = report_effect_fingerprint (im_bounds full_runtime) full_report\<rparr>) = Inr bs"
    using full_encodes [OF length_effect_fingerprint] by blast
  have report': "er_assignment full_report = ''as-'' @ hex64 1" "er_request_id full_report = []" "er_outcome full_report = EO_Rejected"
    by (simp_all add: full_report_def no_effect_report_def)
  have "report_effect_fresh full_report full_runtime = (let i1 = bump ''effects_rejected'' full_runtime in
      (i1\<lparr>im_state := insert_assignment full_record (im_state i1)\<rparr>, Inr full_record))"
    using bs fenced trimmed site_placed_fields(1)
    by (simp add: report_effect_fresh_def fields record' report' effect_known_def effect_transition_def store_effect_def
        act_bind_def act_lift_def act_return_def commit_def insert_and_answer_def on_state_def act_update_def bump_by_def
        full_record_def [symmetric])
  then show ?thesis
    using fields site_unanswered by (simp add: report_effect_def guarded_run with_idempotency_fresh report' Let_def)
qed

theorem effect_on_full_history_unreadable_witness:
  "\<exists>i'. report_effect full_report full_runtime = (i', Inr full_record) \<and>
    map_of (fs_assignments (im_state i')) (ar_id full_record) = Some full_record \<and> length (ar_history full_record) = 3 \<and>
    (\<nexists>input rest. decode_assignment (im_bounds full_runtime) input = Inr (full_record, rest))"
proof -
  obtain i' where i': "report_effect full_report full_runtime = (i', Inr full_record)" using full_report_run by blast
  have running: "im_running full_runtime" "im_recovery_accepted full_runtime"
      "find_idempotency (im_state full_runtime) (er_request_id full_report) = None"
      "map_of (fs_assignments (im_state full_runtime)) (er_assignment full_report) = Some site_record"
    using site_placed_fields(1) site_unanswered
    by (simp_all add: full_runtime_def site_placed_run(2-) full_report_def)
  have "length (ar_history site_record) = 2"
    by (simp add: site_record_eq site_shape_def sample_shape_def)
  then have full: "max_history_per_assignment (im_bounds full_runtime) \<le> length (ar_history site_record)"
    by (simp add: full_runtime_def)
  have "ar_state full_record \<noteq> ar_state site_record" by (simp add: full_record_def transition_to_def site_record_fields)
  then have "full_record \<noteq> site_record" by auto
  from effect_on_full_history_unreadable [OF i' running this full] i' show ?thesis
    by (simp add: full_runtime_def)
qed

end
