(* ===== verification/Nof_Json.thy ===== *)
theory Nof_Json
  imports Nof_Function
begin

text \<open>
  The canonical JSON documents of \<open>src/canonical.cpp\<close>: the value model \<open>JsonValue\<close>, the
  writer \<open>dump\<close> and the strict reader \<open>JsonReader\<close>.  The reader keeps a position into its
  text; the model passes the text from that position on, which every step only shortens.  Where
  the program ends with an error the position does not matter any more.

  \<open>render\<close> is the text of a document without any bound.  The lemmas show that a dump is that
  text, that the reader turns it back into the document, and that whatever the reader accepts is a
  well-formed document (sorted members without duplicates, ASCII strings, bounded nesting).
\<close>

subsection \<open>Values\<close>

datatype JsonValue =
    JNull
  | JBool bool
  | JInt i64
  | JUInt u64
  | JString string
  | JArray "JsonValue list"
  | JObject "(string \<times> JsonValue) list"

fun duplicate_key :: "(string \<times> 'a) list \<Rightarrow> string option" where
  "duplicate_key ((k, _) # (k', v) # ms) = (if k' = k then Some k' else duplicate_key ((k', v) # ms))"
| "duplicate_key _ = None"

definition json_array :: "JsonValue list \<Rightarrow> JsonValue result" where
  "json_array values = Inr (JArray values)"

definition json_object :: "(string \<times> JsonValue) list \<Rightarrow> JsonValue result" where
  "json_object members =
     (let sorted_members = sort_key fst members in
      case duplicate_key sorted_members of
        Some k \<Rightarrow> Err RC_DuplicateIdentity (''duplicate JSON key: '' @ k)
      | None \<Rightarrow> Inr (JObject sorted_members))"

subsection \<open>Writing\<close>

definition kJsonMaxDepth :: nat where "kJsonMaxDepth = 64"

definition escape_char :: "char \<Rightarrow> string" where
  "escape_char c =
     (if c = CHR 0x22 then [CHR 0x5C, CHR 0x22]
      else if c = CHR 0x5C then [CHR 0x5C, CHR 0x5C]
      else if c = CHR 0x0A then [CHR 0x5C, CHR ''n'']
      else if c = CHR 0x0D then [CHR 0x5C, CHR ''r'']
      else if c = CHR 0x09 then [CHR 0x5C, CHR ''t'']
      else if c = CHR 0x08 then [CHR 0x5C, CHR ''b'']
      else if c = CHR 0x0C then [CHR 0x5C, CHR ''f'']
      else if of_char c < (0x20 :: nat) \<or> of_char c \<ge> (0x7F :: nat)
      then [CHR 0x5C, CHR ''u'', CHR ''0'', CHR ''0'',
            kDigits ! (of_char c div 16 mod 16), kDigits ! (of_char c mod 16)]
      else [c])"

definition append_escaped :: "string \<Rightarrow> string \<Rightarrow> string" where
  "append_escaped out text = out @ concat (map escape_char text)"

definition decimal_int :: "int \<Rightarrow> string" where
  "decimal_int v = (if v < 0 then CHR ''-'' # decimal (nat (- v)) else decimal (nat v))"

text \<open>The loop of an array or an object: emitters separated by commas, until one of them fails.\<close>

fun dump_each :: "bool \<Rightarrow> (string \<Rightarrow> string \<times> Status) list \<Rightarrow> string \<Rightarrow> string \<times> Status" where
  "dump_each first [] out = (out, ok_status)"
| "dump_each first (emit # rest) out =
     (case emit (if first then out else out @ '','') of
        (out', Inl e) \<Rightarrow> (out', Inl e)
      | (out', Inr _) \<Rightarrow> dump_each False rest out')"

definition dump_close :: "string \<Rightarrow> string \<times> Status \<Rightarrow> string \<times> Status" where
  "dump_close bracket r = (case r of (out, Inl e) \<Rightarrow> (out, Inl e) | (out, Inr _) \<Rightarrow> (out @ bracket, ok_status))"

definition dump_key :: "string \<Rightarrow> string \<Rightarrow> string" where
  "dump_key key out = append_escaped (out @ [CHR 0x22]) key @ [CHR 0x22, CHR '':'']"

text \<open>
  The checks at the start of every value.  The status is passed by reference and checked after every
  element, so a call always starts with success.
\<close>

definition dump_enter :: "nat \<Rightarrow> nat \<Rightarrow> (string \<Rightarrow> string \<times> Status) \<Rightarrow> string \<Rightarrow> string \<times> Status" where
  "dump_enter max_bytes depth body out =
     (if depth > kJsonMaxDepth then (out, Err RC_OutOfRange ''json nesting depth exceeded'')
      else if length out + 1 > max_bytes then (out, Err RC_OversizedInput ''canonical json exceeds configured bound'')
      else body out)"

fun dump_into :: "nat \<Rightarrow> nat \<Rightarrow> JsonValue \<Rightarrow> string \<Rightarrow> string \<times> Status" where
  "dump_into max_bytes depth JNull = dump_enter max_bytes depth (\<lambda>out. (out @ ''null'', ok_status))"
| "dump_into max_bytes depth (JBool b) =
     dump_enter max_bytes depth (\<lambda>out. (out @ (if b then ''true'' else ''false''), ok_status))"
| "dump_into max_bytes depth (JInt n) = dump_enter max_bytes depth (\<lambda>out. (out @ decimal_int n, ok_status))"
| "dump_into max_bytes depth (JUInt n) = dump_enter max_bytes depth (\<lambda>out. (out @ decimal (unat n), ok_status))"
| "dump_into max_bytes depth (JString s) =
     dump_enter max_bytes depth (\<lambda>out. (append_escaped (out @ [CHR 0x22]) s @ [CHR 0x22], ok_status))"
| "dump_into max_bytes depth (JArray vs) = dump_enter max_bytes depth (\<lambda>out.
     dump_close '']'' (dump_each True (map (dump_into max_bytes (depth + 1)) vs) (out @ ''['')))"
| "dump_into max_bytes depth (JObject ms) = dump_enter max_bytes depth (\<lambda>out.
     dump_close ''}'' (dump_each True
       (map (\<lambda>m text. dump_into max_bytes (depth + 1) (snd m) (dump_key (fst m) text)) ms) (out @ ''{'')))"

definition json_dump :: "JsonValue \<Rightarrow> nat \<Rightarrow> string \<times> Status" where
  "json_dump v max_bytes =
     (case dump_into max_bytes 0 v [] of (_, Inl e) \<Rightarrow> ([], Inl e) | (out, Inr _) \<Rightarrow> (out, ok_status))"

subsection \<open>Reading\<close>

definition is_space :: "char \<Rightarrow> bool" where
  "is_space c \<longleftrightarrow> c = CHR '' '' \<or> c = CHR 0x09 \<or> c = CHR 0x0A \<or> c = CHR 0x0D"

definition skip_whitespace :: "string \<Rightarrow> string" where
  "skip_whitespace s = dropWhile is_space s"

definition consume :: "char \<Rightarrow> string \<Rightarrow> string option" where
  "consume expected s = (case s of [] \<Rightarrow> None | c # cs \<Rightarrow> if c = expected then Some cs else None)"

definition hex_nibble :: "char \<Rightarrow> nat option" where
  "hex_nibble c =
     (if char_in 48 57 c then Some (of_char c - 48)
      else if char_in 97 102 c then Some (of_char c - 97 + 10)
      else if char_in 65 70 c then Some (of_char c - 65 + 10)
      else None)"

fun hex_value :: "nat \<Rightarrow> string \<Rightarrow> nat option" where
  "hex_value v [] = Some v"
| "hex_value v (c # cs) = (case hex_nibble c of None \<Rightarrow> None | Some n \<Rightarrow> hex_value (v * 16 + n) cs)"

definition simple_escape :: "char \<Rightarrow> char option" where
  "simple_escape c =
     (if c = CHR 0x22 \<or> c = CHR 0x5C \<or> c = CHR ''/'' then Some c
      else if c = CHR ''b'' then Some (CHR 0x08)
      else if c = CHR ''f'' then Some (CHR 0x0C)
      else if c = CHR ''n'' then Some (CHR 0x0A)
      else if c = CHR ''r'' then Some (CHR 0x0D)
      else if c = CHR ''t'' then Some (CHR 0x09)
      else None)"

definition unicode_escape :: "string \<Rightarrow> char result" where
  "unicode_escape s =
     (if length s < 4 then Err RC_TruncatedInput ''unicode escape ended early''
      else case hex_value 0 (take 4 s) of
        None \<Rightarrow> Err RC_MalformedInput ''invalid unicode escape''
      | Some v \<Rightarrow> if v > 0x7F then Err RC_UnsupportedValue ''canonical documents are ASCII: non-ascii escape refused''
                 else Inr (char_of v))"

function string_body :: "string \<Rightarrow> string \<Rightarrow> (string \<times> string) result" where
  "string_body out [] = Err RC_TruncatedInput ''unterminated string''"
| "string_body out (c # cs) =
     (if c = CHR 0x22 then Inr (out, cs)
      else if c = CHR 0x5C then
        (case cs of
           [] \<Rightarrow> Err RC_TruncatedInput ''string escape ended early''
         | escape # cs' \<Rightarrow>
             if escape = CHR ''u'' then
               (case unicode_escape cs' of Inl e \<Rightarrow> Inl e | Inr x \<Rightarrow> string_body (out @ [x]) (drop 4 cs'))
             else (case simple_escape escape of
                     None \<Rightarrow> Err RC_MalformedInput ''invalid string escape''
                   | Some x \<Rightarrow> string_body (out @ [x]) cs'))
      else if of_char c < (0x20 :: nat) then Err RC_MalformedInput ''control character in string''
      else if of_char c \<ge> (0x7F :: nat)
      then Err RC_UnsupportedValue ''canonical documents are ASCII: non-ascii byte refused''
      else string_body (out @ [c]) cs)"
  by pat_completeness auto
termination by (relation "measure (\<lambda>(out, s). length s)") auto

definition parse_raw_string :: "string \<Rightarrow> (string \<times> string) result" where
  "parse_raw_string s =
     (case consume (CHR 0x22) s of
        None \<Rightarrow> Err RC_MalformedInput ''expected string''
      | Some cs \<Rightarrow> string_body [] cs)"

definition parse_string :: "string \<Rightarrow> (JsonValue \<times> string) result" where
  "parse_string s = and_then (parse_raw_string s) (\<lambda>(text, rest). Inr (JString text, rest))"

fun negative_digits :: "i64 \<Rightarrow> string \<Rightarrow> i64 result" where
  "negative_digits value [] = Inr value"
| "negative_digits value (c # cs) =
     (case Option.bind (checked_mul_i64 value 10) (\<lambda>scaled. checked_sub_i64 scaled (int (of_char c) - 48)) of
        None \<Rightarrow> Err RC_ArithmeticOverflow ''integer literal out of range''
      | Some v \<Rightarrow> negative_digits v cs)"

fun positive_digits :: "u64 \<Rightarrow> string \<Rightarrow> u64 result" where
  "positive_digits value [] = Inr value"
| "positive_digits value (c # cs) =
     (case Option.bind (checked_mul value 10) (\<lambda>scaled. checked_add scaled (of_nat (of_char c - 48))) of
        None \<Rightarrow> Err RC_ArithmeticOverflow ''integer literal out of range''
      | Some v \<Rightarrow> positive_digits v cs)"

definition parse_number :: "string \<Rightarrow> (JsonValue \<times> string) result" where
  "parse_number s =
     (let negative = (s \<noteq> [] \<and> hd s = CHR ''-'');
          unsigned_part = (if negative then tl s else s);
          digits = takeWhile is_digit unsigned_part;
          rest = dropWhile is_digit unsigned_part
      in if digits = [] then Err RC_MalformedInput ''expected integer''
         else if rest \<noteq> [] \<and> hd rest \<in> {CHR ''.'', CHR ''e'', CHR ''E''}
         then Err RC_UnsupportedValue ''canonical documents use integers only''
         else if negative then and_then (negative_digits 0 digits) (\<lambda>v. Inr (JInt v, rest))
         else and_then (positive_digits 0 digits) (\<lambda>v. Inr (JUInt v, rest)))"

text \<open>Every parser that succeeds has consumed something.\<close>

definition shrinks :: "('a \<times> string) result \<Rightarrow> string \<Rightarrow> bool" where
  "shrinks r s \<longleftrightarrow> (\<forall>v t. r = Inr (v, t) \<longrightarrow> length t < length s)"

lemma shrinks_Inl [simp]: "shrinks (Inl e) s"
  by (simp add: shrinks_def)

lemma length_skip_whitespace: "length (skip_whitespace s) \<le> length s"
  by (simp add: skip_whitespace_def length_dropWhile_le)

lemma consume_Some: "consume c s = Some t \<longleftrightarrow> s = c # t"
  by (auto simp: consume_def split: list.splits)

lemma consume_skip_length: "consume c (skip_whitespace s) = Some t \<Longrightarrow> length t < length s"
  using length_skip_whitespace [of s] by (auto simp: consume_Some)

lemma shrinks_string_body: "string_body out s = Inr (text, t) \<Longrightarrow> length t < length s"
proof (induction out s rule: string_body.induct)
  case (2 out c cs)
  then show ?case
    by (force split: if_splits list.splits sum.splits option.splits simp: less_Suc_eq_le)
qed simp

lemma shrinks_raw_string: "parse_raw_string s = Inr (text, t) \<Longrightarrow> length t < length s"
  by (auto simp: parse_raw_string_def consume_Some dest: shrinks_string_body split: option.splits)

lemma shrinks_parse_string: "shrinks (parse_string s) s"
  by (auto simp: shrinks_def parse_string_def and_then_Inr dest: shrinks_raw_string)

lemma shrinks_parse_number: "shrinks (parse_number s) s"
proof -
  have "length (dropWhile is_digit u) < length u" if "takeWhile is_digit u \<noteq> []" for u :: string
    using that length_append [of "takeWhile is_digit u" "dropWhile is_digit u"] by (simp add: le_less_trans)
  from this [of s] this [of "tl s"] show ?thesis
    by (fastforce simp: shrinks_def parse_number_def Let_def and_then_Inr split: if_splits)
qed

lemma shrinks_le: "shrinks r t \<Longrightarrow> length t \<le> length s \<Longrightarrow> shrinks r s"
  by (auto simp: shrinks_def)

lemma shrinks_literal: "t \<noteq> [] \<Longrightarrow> 0 < n \<Longrightarrow> shrinks (Inr (v, drop n t)) t"
  by (simp add: shrinks_def)

lemma shrinks_and_then: "(\<And>v. r = Inr v \<Longrightarrow> length t < length s) \<Longrightarrow> shrinks (and_then r (\<lambda>v. Inr (v, t))) s"
  by (auto simp: shrinks_def and_then_Inr)

text \<open>
  The recursive part.  \<open>parse_elements\<close> and \<open>parse_members\<close> are the loops of
  \<open>parse_array\<close> and \<open>parse_object\<close>.
\<close>

function (sequential)
  parse_value :: "nat \<Rightarrow> nat \<Rightarrow> string \<Rightarrow> (JsonValue \<times> string) result"
  and parse_array :: "nat \<Rightarrow> nat \<Rightarrow> string \<Rightarrow> (JsonValue \<times> string) result"
  and parse_elements :: "nat \<Rightarrow> nat \<Rightarrow> JsonValue list \<Rightarrow> string \<Rightarrow> (JsonValue \<times> string) result"
  and parse_object :: "nat \<Rightarrow> nat \<Rightarrow> string \<Rightarrow> (JsonValue \<times> string) result"
  and parse_members :: "nat \<Rightarrow> nat \<Rightarrow> (string \<times> JsonValue) list \<Rightarrow> string \<Rightarrow> (JsonValue \<times> string) result"
where
  "parse_value max_depth depth s =
     (if depth > max_depth then Err RC_OutOfRange ''json nesting depth exceeded''
      else let t = skip_whitespace s in
        if t = [] then Err RC_TruncatedInput ''unexpected end of json document''
        else if hd t = CHR ''{'' then parse_object max_depth depth t
        else if hd t = CHR ''['' then parse_array max_depth depth t
        else if hd t = CHR 0x22 then parse_string t
        else if hd t = CHR ''-'' \<or> is_digit (hd t) then parse_number t
        else if take 4 t = ''null'' then Inr (JNull, drop 4 t)
        else if take 4 t = ''true'' then Inr (JBool True, drop 4 t)
        else if take 5 t = ''false'' then Inr (JBool False, drop 5 t)
        else Err RC_MalformedInput ''unexpected json token'')"
| "parse_array max_depth depth s =
     (case consume (CHR ''['') s of
        None \<Rightarrow> Err RC_MalformedInput ''expected array''
      | Some s1 \<Rightarrow>
          (case consume (CHR '']'') (skip_whitespace s1) of
             Some s2 \<Rightarrow> and_then (json_array []) (\<lambda>v. Inr (v, s2))
           | None \<Rightarrow> parse_elements max_depth depth [] (skip_whitespace s1)))"
| "parse_elements max_depth depth values s =
     (case parse_value max_depth (depth + 1) s of
        Inl e \<Rightarrow> Inl e
      | Inr (v, s1) \<Rightarrow>
          (case consume (CHR '','') (skip_whitespace s1) of
             Some s2 \<Rightarrow> parse_elements max_depth depth (values @ [v]) s2
           | None \<Rightarrow>
               (case consume (CHR '']'') (skip_whitespace s1) of
                  Some s2 \<Rightarrow> and_then (json_array (values @ [v])) (\<lambda>a. Inr (a, s2))
                | None \<Rightarrow> Err RC_MalformedInput (''expected '' @ [CHR 0x27] @ '','' @ [CHR 0x27] @ '' or '' @
                            [CHR 0x27] @ '']'' @ [CHR 0x27] @ '' in array''))))"
| "parse_object max_depth depth s =
     (case consume (CHR ''{'') s of
        None \<Rightarrow> Err RC_MalformedInput ''expected object''
      | Some s1 \<Rightarrow>
          (case consume (CHR ''}'') (skip_whitespace s1) of
             Some s2 \<Rightarrow> and_then (json_object []) (\<lambda>v. Inr (v, s2))
           | None \<Rightarrow> parse_members max_depth depth [] (skip_whitespace s1)))"
| "parse_members max_depth depth members s =
     (case parse_raw_string (skip_whitespace s) of
        Inl e \<Rightarrow> Inl e
      | Inr (key, s1) \<Rightarrow>
          (case consume (CHR '':'') (skip_whitespace s1) of
             None \<Rightarrow> Err RC_MalformedInput (''expected '' @ [CHR 0x27] @ '':'' @ [CHR 0x27] @ '' in object'')
           | Some s2 \<Rightarrow>
               (case parse_value max_depth (depth + 1) s2 of
                  Inl e \<Rightarrow> Inl e
                | Inr (v, s3) \<Rightarrow>
                    (case consume (CHR '','') (skip_whitespace s3) of
                       Some s4 \<Rightarrow> parse_members max_depth depth (members @ [(key, v)]) s4
                     | None \<Rightarrow>
                         (case consume (CHR ''}'') (skip_whitespace s3) of
                            Some s4 \<Rightarrow> and_then (json_object (members @ [(key, v)])) (\<lambda>ob. Inr (ob, s4))
                          | None \<Rightarrow> Err RC_MalformedInput (''expected '' @ [CHR 0x27] @ '','' @ [CHR 0x27] @ '' or '' @
                                      [CHR 0x27] @ ''}'' @ [CHR 0x27] @ '' in object''))))))"
  by pat_completeness auto

lemma parse_shrinks:
  "parse_value_parse_array_parse_elements_parse_object_parse_members_dom (Inl (Inl (md, d, s))) \<Longrightarrow> shrinks (parse_value md d s) s"
  "parse_value_parse_array_parse_elements_parse_object_parse_members_dom (Inl (Inr (md, d, s))) \<Longrightarrow> shrinks (parse_array md d s) s"
  "parse_value_parse_array_parse_elements_parse_object_parse_members_dom (Inr (Inl (md, d, vs, s))) \<Longrightarrow> shrinks (parse_elements md d vs s) s"
  "parse_value_parse_array_parse_elements_parse_object_parse_members_dom (Inr (Inr (Inl (md, d, s)))) \<Longrightarrow> shrinks (parse_object md d s) s"
  "parse_value_parse_array_parse_elements_parse_object_parse_members_dom (Inr (Inr (Inr (md, d, ms, s)))) \<Longrightarrow> shrinks (parse_members md d ms s) s"
proof (induction md d s and md d s and md d vs s and md d s and md d ms s
    rule: parse_value_parse_array_parse_elements_parse_object_parse_members.pinduct)
  case (1 max_depth depth s)
  have "shrinks (parse_value max_depth depth s) (skip_whitespace s)"
    using "1.IH" unfolding parse_value.psimps [OF "1.hyps"]
    by (simp add: Let_def shrinks_parse_string shrinks_parse_number shrinks_literal del: One_nat_def)
  then show ?case using length_skip_whitespace by (rule shrinks_le)
next
  case (2 max_depth depth s)
  then show ?case
    using length_skip_whitespace [of "tl s"]
    by (auto simp: parse_array.psimps consume_Some split: option.split
        intro!: shrinks_and_then elim!: shrinks_le dest: consume_skip_length)
next
  case (3 max_depth depth vs s)
  show ?case
  proof (cases "parse_value max_depth (depth + 1) s")
    case (Inr r)
    obtain v s1 where r: "r = (v, s1)" by (cases r)
    with "3.IH"(1) Inr have s1: "length s1 < length s" by (auto simp: shrinks_def)
    have less: "length t < length s" if "consume c (skip_whitespace s1) = Some t" for c t
      using consume_skip_length [OF that] s1 by simp
    then show ?thesis
      using "3.IH"(2) [OF Inr r [symmetric]] unfolding parse_elements.psimps [OF "3.hyps"] Inr r
      by (auto split: option.split intro!: shrinks_and_then elim!: shrinks_le intro: less less_imp_le [OF less])
  qed (simp add: parse_elements.psimps [OF "3.hyps"])
next
  case (4 max_depth depth s)
  then show ?case
    using length_skip_whitespace [of "tl s"]
    by (auto simp: parse_object.psimps consume_Some split: option.split
        intro!: shrinks_and_then elim!: shrinks_le dest: consume_skip_length)
next
  case (5 max_depth depth ms s)
  show ?case
  proof (cases "parse_raw_string (skip_whitespace s)")
    case key: (Inr k)
    obtain name s1 where k: "k = (name, s1)" by (cases k)
    have s1: "length s1 < length s"
      using shrinks_raw_string [of "skip_whitespace s" name s1] key k length_skip_whitespace [of s] by simp
    show ?thesis
    proof (cases "consume (CHR '':'') (skip_whitespace s1)")
      case None
      then show ?thesis by (simp add: parse_members.psimps [OF "5.hyps"] key k)
    next
      case colon: (Some s2)
      have s2: "length s2 < length s" using consume_skip_length [OF colon] s1 by simp
      show ?thesis
      proof (cases "parse_value max_depth (depth + 1) s2")
        case (Inr r)
        obtain v s3 where r: "r = (v, s3)" by (cases r)
        with "5.IH"(1) [OF key k [symmetric] colon] Inr have s3: "length s3 < length s2" by (auto simp: shrinks_def)
        have less: "length t < length s" if "consume c (skip_whitespace s3) = Some t" for c t
          using consume_skip_length [OF that] s3 s2 by simp
        then show ?thesis
          using "5.IH"(2) [OF key k [symmetric] colon Inr r [symmetric]] unfolding parse_members.psimps [OF "5.hyps"] key k colon Inr r
          by (auto split: option.split intro!: shrinks_and_then elim!: shrinks_le intro: less less_imp_le [OF less] simp: colon Inr [simplified] r)
      qed (simp add: parse_members.psimps [OF "5.hyps"] key k colon)
    qed
  qed (simp add: parse_members.psimps [OF "5.hyps"])
qed

lemma parse_total: "All parse_value_parse_array_parse_elements_parse_object_parse_members_dom"
proof (relation "measure (\<lambda>x. case x of
      Inl (Inl (md, d, s)) \<Rightarrow> 3 * length s + 1
    | Inl (Inr (md, d, s)) \<Rightarrow> 3 * length s
    | Inr (Inl (md, d, vs, s)) \<Rightarrow> 3 * length s + 2
    | Inr (Inr (Inl (md, d, s))) \<Rightarrow> 3 * length s
    | Inr (Inr (Inr (md, d, ms, s))) \<Rightarrow> 3 * length s + 2)", goal_cases)
  case 1 then show ?case by simp
next
  case (2 max_depth depth s x) then show ?case using length_skip_whitespace [of s] by simp
next
  case (3 max_depth depth s x) then show ?case using length_skip_whitespace [of s] by simp
next
  case (4 max_depth depth s s1) then show ?case using length_skip_whitespace [of s1] by (simp add: consume_Some)
next
  case (5 max_depth depth vs s) then show ?case by simp
next
  case (6 max_depth depth vs s r v s1 s2)
  then show ?case using parse_shrinks(1) consume_skip_length [of _ s1 s2] by (fastforce simp: shrinks_def)
next
  case (7 max_depth depth s s1) then show ?case using length_skip_whitespace [of s1] by (simp add: consume_Some)
next
  case (8 max_depth depth ms s k name s1 s2)
  then show ?case
    using shrinks_raw_string [of "skip_whitespace s" name s1] consume_skip_length [of "CHR '':''" s1 s2]
      length_skip_whitespace [of s] by simp
next
  case (9 max_depth depth ms s k name s1 s2 r v s3 s4)
  then have "length s3 < length s2" using parse_shrinks(1) by (auto simp: shrinks_def)
  with 9 show ?case
    using shrinks_raw_string [of "skip_whitespace s" name s1] consume_skip_length [of "CHR '':''" s1 s2]
      length_skip_whitespace [of s] consume_skip_length [of "CHR '',''" s3 s4] by simp
qed

termination parse_value by (rule parse_total)

declare parse_value.simps [simp del] parse_array.simps [simp del] parse_elements.simps [simp del]
  parse_object.simps [simp del] parse_members.simps [simp del]

definition json_parse :: "nat \<Rightarrow> string \<Rightarrow> JsonValue result" where
  "json_parse max_depth text =
     (case parse_value max_depth 0 text of
        Inl e \<Rightarrow> Inl e
      | Inr (v, rest) \<Rightarrow>
          if skip_whitespace rest \<noteq> [] then Err RC_MalformedInput ''trailing content after json document''
          else Inr v)"

subsection \<open>The text of a document\<close>

definition quoted :: "string \<Rightarrow> string" where
  "quoted s = CHR 0x22 # concat (map escape_char s) @ [CHR 0x22]"

fun commas :: "string list \<Rightarrow> string" where
  "commas [] = []"
| "commas [t] = t"
| "commas (t # ts) = t @ CHR '','' # commas ts"

fun render :: "JsonValue \<Rightarrow> string" where
  "render JNull = ''null''"
| "render (JBool b) = (if b then ''true'' else ''false'')"
| "render (JInt n) = decimal_int n"
| "render (JUInt n) = decimal (unat n)"
| "render (JString s) = quoted s"
| "render (JArray vs) = CHR ''['' # commas (map render vs) @ '']''"
| "render (JObject ms) = CHR ''{'' # commas (map (\<lambda>m. quoted (fst m) @ CHR '':'' # render (snd m)) ms) @ ''}''"

lemma dump_key_eq: "dump_key key out = out @ quoted key @ '':''"
  by (simp add: dump_key_def append_escaped_def quoted_def)

lemma dump_each_commas:
  assumes "dump_each first (map f xs) out = (out', Inr u)"
    and "\<And>x t t' u. x \<in> set xs \<Longrightarrow> f x t = (t', Inr u) \<Longrightarrow> t' = t @ g x"
  shows "out' = out @ (if xs = [] then [] else if first then commas (map g xs) else CHR '','' # commas (map g xs))"
  using assms
proof (induction xs arbitrary: first out)
  case (Cons x xs)
  from Cons.prems(1) obtain t where t: "f x (if first then out else out @ '','') = (t, Inr ())"
      "dump_each False (map f xs) t = (out', Inr u)"
    by (auto split: prod.splits sum.splits)
  from t(1) Cons.prems(2) have "t = (if first then out else out @ '','') @ g x" by fastforce
  with Cons.IH [OF t(2) Cons.prems(2)] show ?case by (cases xs) auto
qed simp

lemma dump_close_Inr: "dump_close b r = (out, Inr u) \<longleftrightarrow> (\<exists>t. r = (t, Inr ()) \<and> out = t @ b)"
  by (auto simp: dump_close_def split: prod.splits sum.splits)

lemma dump_enter_Inr: "dump_enter m d body out = (out', Inr u) \<longleftrightarrow>
    d \<le> kJsonMaxDepth \<and> length out < m \<and> body out = (out', Inr ())"
  by (auto simp: dump_enter_def)

lemma dump_into_render: "dump_into m d v out = (out', Inr u) \<Longrightarrow> out' = out @ render v"
proof (induction m d v arbitrary: out out' u rule: dump_into.induct)
  case (6 m d vs)
  from "6.prems" obtain t where t: "dump_each True (map (dump_into m (d + 1)) vs) (out @ ''['') = (t, Inr ())" "out' = t @ '']''"
    by (auto simp: dump_enter_Inr dump_close_Inr)
  from dump_each_commas [OF t(1), of render] "6.IH" t(2) show ?case by (auto split: if_splits)
next
  case (7 m d ms)
  from "7.prems" obtain t where t: "dump_each True
       (map (\<lambda>e text. dump_into m (d + 1) (snd e) (dump_key (fst e) text)) ms) (out @ ''{'') = (t, Inr ())" "out' = t @ ''}''"
    by (auto simp: dump_enter_Inr dump_close_Inr)
  have "t' = s @ (quoted (fst e) @ CHR '':'' # render (snd e))"
    if "e \<in> set ms" "dump_into m (d + 1) (snd e) (dump_key (fst e) s) = (t', Inr u)" for e s t' u
    using "7.IH" [OF that] by (simp add: dump_key_eq)
  from dump_each_commas [OF t(1) this] t(2) show ?case by (auto split: if_splits)
qed (auto simp: dump_enter_Inr append_escaped_def quoted_def)

lemma json_dump_render: "json_dump v m = (out, Inr u) \<Longrightarrow> out = render v"
  using dump_into_render [of m 0 v "[]"] by (fastforce simp: json_dump_def split: prod.splits sum.splits)

subsection \<open>Well-formed documents\<close>

text \<open>
  \<open>json_wf p k v\<close>: nesting of at most \<open>k\<close> below \<open>v\<close>, ASCII strings, members in strictly
  increasing key order, and \<open>p\<close> for the signed integers.
\<close>

definition ascii :: "string \<Rightarrow> bool" where
  "ascii s = list_all (\<lambda>c. of_char c < (0x80 :: nat)) s"

fun json_wf :: "(int \<Rightarrow> bool) \<Rightarrow> nat \<Rightarrow> JsonValue \<Rightarrow> bool" where
  "json_wf p k (JInt n) = p n"
| "json_wf p k (JString s) = ascii s"
| "json_wf p k (JArray vs) = (case k of 0 \<Rightarrow> vs = [] | Suc j \<Rightarrow> (\<forall>v \<in> set vs. json_wf p j v))"
| "json_wf p k (JObject ms) =
     (case k of 0 \<Rightarrow> ms = [] | Suc j \<Rightarrow> sorted_wrt (<) (map fst ms) \<and> (\<forall>m \<in> set ms. ascii (fst m) \<and> json_wf p j (snd m)))"
| "json_wf p k _ = True"

definition negative_i64 :: "int \<Rightarrow> bool" where
  "negative_i64 n \<longleftrightarrow> i64_min \<le> n \<and> n < 0"

definition nonpositive_i64 :: "int \<Rightarrow> bool" where
  "nonpositive_i64 n \<longleftrightarrow> i64_min \<le> n \<and> n \<le> 0"

subsection \<open>Reading back a written document\<close>

lemma decimal_is_digits: "decimal n \<noteq> []" "c \<in> set (decimal n) \<Longrightarrow> is_digit c"
proof -
  show "decimal n \<noteq> []" by (simp add: decimal.simps [of n])
  show "c \<in> set (decimal n) \<Longrightarrow> is_digit c"
  proof (induction n rule: decimal.induct)
    case (1 n)
    have digit: "is_digit (char_of (48 + d :: nat))" if "d < 10" for d using that by (simp add: char_in_def)
    show ?case
    proof (cases "n < 10")
      case True
      with 1 digit show ?thesis by (simp add: decimal.simps [of n])
    next
      case False
      then have "c \<in> set (decimal (n div 10)) \<or> c = char_of (48 + n mod 10)"
        using 1(2) by (auto simp: decimal.simps [of n])
      with 1(1) [OF False] digit [of "n mod 10"] show ?thesis by auto
    qed
  qed
qed

lemma positive_digits_snoc:
  "positive_digits v (xs @ [c]) = and_then (positive_digits v xs) (\<lambda>v. positive_digits v [c])"
  by (induction v xs rule: positive_digits.induct) (auto split: option.split)

lemma negative_digits_snoc:
  "negative_digits v (xs @ [c]) = and_then (negative_digits v xs) (\<lambda>v. negative_digits v [c])"
  by (induction v xs rule: negative_digits.induct) (auto split: option.split)

lemma positive_digits_decimal: "n < 2 ^ 64 \<Longrightarrow> positive_digits 0 (decimal n) = Inr (of_nat n)"
proof (induction n rule: decimal.induct)
  case (1 n)
  have step: "positive_digits (of_nat m) [char_of (48 + d)] = Inr (of_nat (m * 10 + d))" if "m * 10 + d < 2 ^ 64" "d < 10" for m d
  proof -
    have m: "unat (of_nat m :: u64) = m" "unat (of_nat d :: u64) = d" "unat (of_nat (m * 10) :: u64) = m * 10"
        "unat (of_nat (m * 10 + d) :: u64) = m * 10 + d"
      using that by (subst unat_of_nat; simp add: take_bit_nat_eq_self)+
    then have "checked_mul (of_nat m :: u64) 10 = Some (of_nat (m * 10))"
        "checked_add (of_nat (m * 10) :: u64) (of_nat d) = Some (of_nat (m * 10 + d))"
      using that by (simp_all only: checked_mul_Some checked_add_Some) (simp_all del: of_nat_mult of_nat_add)
    with that(2) show ?thesis by (simp del: of_nat_mult of_nat_add)
  qed
  show ?case
  proof (cases "n < 10")
    case True
    with step [of 0 n] show ?thesis by (simp add: decimal.simps [of n])
  next
    case False
    with 1 have "positive_digits 0 (decimal (n div 10)) = Inr (of_nat (n div 10))" by simp
    moreover have "n div 10 * 10 + n mod 10 = n" by simp
    ultimately show ?thesis
      using False "1.prems" step [of "n div 10" "n mod 10"]
      by (simp add: decimal.simps [of n] positive_digits_snoc del: of_nat_mult of_nat_add)
  qed
qed

lemma negative_step:
  assumes "int (m * 10 + d) \<le> 2 ^ 63" "d < 10"
  shows "negative_digits (- int m) [char_of (48 + d)] = Inr (- int (m * 10 + d))"
proof -
  have "checked_mul_i64 (- int m) 10 = Some (- int m * 10)"
    using assms by (simp add: checked_mul_i64_def mul_would_overflow_i64_def trunc_div_def i64_min_def)
  moreover have "checked_sub_i64 (- int m * 10) (int d) = Some (- int (m * 10 + d))"
    using assms by (simp add: checked_sub_i64_def sub_would_overflow_i64_def i64_min_def i64_max_def)
  ultimately show ?thesis using digit_char [OF assms(2)] by simp
qed

lemma negative_digits_decimal: "int n \<le> 2 ^ 63 \<Longrightarrow> negative_digits 0 (decimal n) = Inr (- int n)"
proof (induction n rule: decimal.induct)
  case (1 n)
  show ?case
  proof (cases "n < 10")
    case True
    with negative_step [of 0 n] show ?thesis by (simp add: decimal.simps [of n])
  next
    case False
    with 1 have "negative_digits 0 (decimal (n div 10)) = Inr (- int (n div 10))" by simp
    moreover have "n div 10 * 10 + n mod 10 = n" by simp
    ultimately show ?thesis
      using False "1.prems" negative_step [of "n div 10" "n mod 10"]
      by (simp add: decimal.simps [of n] negative_digits_snoc)
  qed
qed

lemma hex_nibble_kDigits: "n < 16 \<Longrightarrow> hex_nibble (kDigits ! n) = Some n"
  using less_16_cases [of n] by (auto simp: kDigits_def hex_nibble_def char_in_def)

lemma unicode_escape_ascii:
  assumes "of_char c < (0x80 :: nat)"
  shows "unicode_escape (CHR ''0'' # CHR ''0'' # kDigits ! (of_char c div 16) # kDigits ! (of_char c mod 16) # r) = Inr c"
proof -
  have "of_char c div 16 * 16 + of_char c mod 16 = (of_char c :: nat)" "of_char c div 16 < (16 :: nat)" using assms by simp_all
  moreover have "hex_nibble (CHR ''0'') = Some 0" by (simp add: hex_nibble_def char_in_def)
  ultimately show ?thesis using assms by (simp add: unicode_escape_def hex_nibble_kDigits)
qed

lemma string_body_escape: "of_char c < (0x80 :: nat) \<Longrightarrow> string_body out (escape_char c @ r) = string_body (out @ [c]) r"
  by (auto simp: escape_char_def simple_escape_def unicode_escape_ascii)

lemma string_body_quoted: "ascii s \<Longrightarrow> string_body out (concat (map escape_char s) @ CHR 0x22 # rest) = Inr (out @ s, rest)"
  by (induction s arbitrary: out) (simp_all add: ascii_def string_body_escape)

lemma parse_raw_string_quoted: "ascii s \<Longrightarrow> parse_raw_string (quoted s @ rest) = Inr (s, rest)"
  using string_body_quoted [of s "[]" rest] by (simp add: parse_raw_string_def quoted_def consume_def)

text \<open>A value ends where the document ends or a separator follows.\<close>

definition closes :: "string \<Rightarrow> bool" where
  "closes rest \<longleftrightarrow> rest = [] \<or> hd rest \<in> {CHR '','', CHR '']'', CHR ''}''}"

lemma closes_simps [simp]: "closes []" "closes (CHR '','' # r)" "closes (CHR '']'' # r)" "closes (CHR ''}'' # r)"
  by (simp_all add: closes_def)

lemma closes_stops: "closes rest \<Longrightarrow> rest \<noteq> [] \<Longrightarrow> \<not> is_digit (hd rest) \<and> hd rest \<notin> {CHR ''.'', CHR ''e'', CHR ''E''}"
  by (auto simp: closes_def char_in_def)

lemma digits_split:
  assumes "closes rest"
  shows "takeWhile is_digit (decimal n @ rest) = decimal n" "dropWhile is_digit (decimal n @ rest) = rest"
proof -
  have "takeWhile is_digit rest = []" "dropWhile is_digit rest = rest"
    using closes_stops [OF assms] by (cases rest; simp)+
  then show "takeWhile is_digit (decimal n @ rest) = decimal n" "dropWhile is_digit (decimal n @ rest) = rest"
    using decimal_is_digits(2) by (simp_all add: takeWhile_append dropWhile_append)
qed

lemma decimal_head: "\<exists>c cs. decimal n = c # cs \<and> is_digit c"
  using decimal_is_digits(1) [of n] decimal_is_digits(2) [of _ n] by (cases "decimal n") auto

lemma parse_number_positive: "closes rest \<Longrightarrow> parse_number (decimal (unat w) @ rest) = Inr (JUInt w, rest)"
proof -
  assume rest: "closes rest"
  obtain c cs where c: "decimal (unat w) = c # cs" "is_digit c" using decimal_head by blast
  then have "c \<noteq> CHR ''-''" by (auto simp: char_in_def)
  moreover have "positive_digits 0 (decimal (unat w)) = Inr w"
    using positive_digits_decimal [of "unat w"] unsigned_less [of w] by simp
  ultimately show ?thesis
    using digits_split [OF rest, of "unat w"] closes_stops [OF rest] c(1)
    by (auto simp: parse_number_def Let_def)
qed

lemma parse_number_negative: "closes rest \<Longrightarrow> negative_i64 n \<Longrightarrow> parse_number (decimal_int n @ rest) = Inr (JInt n, rest)"
proof -
  assume rest: "closes rest" and n: "negative_i64 n"
  then have "negative_digits 0 (decimal (nat (- n))) = Inr n"
    using negative_digits_decimal [of "nat (- n)"] by (simp add: negative_i64_def i64_min_def)
  then show ?thesis
    using digits_split [OF rest, of "nat (- n)"] closes_stops [OF rest] decimal_is_digits(1) n
    by (auto simp: parse_number_def Let_def decimal_int_def negative_i64_def)
qed

lemma skip_nonspace: "\<not> is_space c \<Longrightarrow> skip_whitespace (c # cs) = c # cs"
  by (simp add: skip_whitespace_def)

lemma render_head: "\<exists>c cs. render v = c # cs \<and> \<not> is_space c \<and> c \<noteq> CHR '']''"
proof -
  have "\<not> is_space c \<and> c \<noteq> CHR '']''" if "is_digit c" for c using that by (auto simp: is_space_def char_in_def)
  then have "\<exists>c cs. decimal n = c # cs \<and> \<not> is_space c \<and> c \<noteq> CHR '']''" for n using decimal_head by blast
  then show ?thesis by (cases v) (auto simp: decimal_int_def quoted_def is_space_def)
qed

lemma commas_Cons: "\<exists>r. commas (t # ts) = t @ r"
  by (cases ts) auto

lemma skip_render [simp]: "skip_whitespace (render v @ rest) = render v @ rest"
  using render_head [of v] by (auto simp: skip_whitespace_def)

lemma skip_quoted [simp]: "skip_whitespace (quoted k @ rest) = quoted k @ rest"
  by (simp add: quoted_def skip_whitespace_def is_space_def)

lemma skip_separator [simp]: "skip_whitespace (CHR '','' # r) = CHR '','' # r" "skip_whitespace (CHR '']'' # r) = CHR '']'' # r"
    "skip_whitespace (CHR ''}'' # r) = CHR ''}'' # r" "skip_whitespace (CHR '':'' # r) = CHR '':'' # r"
  by (simp_all add: skip_whitespace_def is_space_def)

lemma consume_simps [simp]: "consume c (c # s) = Some s" "c \<noteq> c' \<Longrightarrow> consume c (c' # s) = None" "consume c [] = None"
  by (simp_all add: consume_def)

lemma duplicate_key_sorted: "sorted_wrt (<) (map fst ms) \<Longrightarrow> duplicate_key ms = None"
  by (induction ms rule: duplicate_key.induct) auto

lemma json_object_sorted: "sorted_wrt (<) (map fst ms) \<Longrightarrow> json_object ms = Inr (JObject ms)"
  by (simp add: json_object_def duplicate_key_sorted Let_def sort_key_id_if_sorted strict_sorted_imp_sorted)

lemma parse_elements_render:
  assumes "vs \<noteq> []"
    and "\<And>v rest. v \<in> set vs \<Longrightarrow> closes rest \<Longrightarrow> parse_value md (Suc d) (render v @ rest) = Inr (v, rest)"
  shows "parse_elements md d acc (commas (map render vs) @ CHR '']'' # rest) = Inr (JArray (acc @ vs), rest)"
  using assms
proof (induction vs arbitrary: acc)
  case (Cons v vs)
  show ?case
  proof (cases vs)
    case Nil
    with Cons.prems show ?thesis by (simp add: parse_elements.simps json_array_def)
  next
    case (Cons w ws)
    with Cons.IH [of "acc @ [v]"] Cons.prems show ?thesis by (simp add: parse_elements.simps)
  qed
qed simp

abbreviation render_member :: "string \<times> JsonValue \<Rightarrow> string" where
  "render_member m \<equiv> quoted (fst m) @ CHR '':'' # render (snd m)"

lemma parse_members_render:
  assumes "ms \<noteq> []" and "\<And>m. m \<in> set ms \<Longrightarrow> ascii (fst m)"
    and "\<And>m rest. m \<in> set ms \<Longrightarrow> closes rest \<Longrightarrow> parse_value md (Suc d) (render (snd m) @ rest) = Inr (snd m, rest)"
  shows "parse_members md d acc (commas (map render_member ms) @ CHR ''}'' # rest) =
    and_then (json_object (acc @ ms)) (\<lambda>ob. Inr (ob, rest))"
  using assms
proof (induction ms arbitrary: acc)
  case (Cons m ms)
  show ?case
  proof (cases ms)
    case Nil
    with Cons.prems show ?thesis by (simp add: parse_members.simps parse_raw_string_quoted)
  next
    case (Cons x xs)
    with Cons.IH [of "acc @ [m]"] Cons.prems show ?thesis by (simp add: parse_members.simps parse_raw_string_quoted)
  qed
qed simp

lemma parse_array_render:
  assumes "vs \<noteq> []"
    and "\<And>v rest. v \<in> set vs \<Longrightarrow> closes rest \<Longrightarrow> parse_value md (Suc d) (render v @ rest) = Inr (v, rest)"
  shows "parse_array md d (render (JArray vs) @ rest) = Inr (JArray vs, rest)"
proof -
  obtain w ws where vs: "vs = w # ws" using assms(1) by (cases vs) auto
  obtain r where "commas (map render vs) = render w @ r" using commas_Cons [of "render w" "map render ws"] vs by auto
  with render_head [of w] obtain c cs where "commas (map render vs) = c # cs" "\<not> is_space c" "c \<noteq> CHR '']''" by auto
  with parse_elements_render [OF assms, of "[]" rest] show ?thesis
    by (simp add: parse_array.simps skip_nonspace)
qed

lemma parse_object_render:
  assumes "ms \<noteq> []" and "\<And>m. m \<in> set ms \<Longrightarrow> ascii (fst m)" and "sorted_wrt (<) (map fst ms)"
    and "\<And>m rest. m \<in> set ms \<Longrightarrow> closes rest \<Longrightarrow> parse_value md (Suc d) (render (snd m) @ rest) = Inr (snd m, rest)"
  shows "parse_object md d (render (JObject ms) @ rest) = Inr (JObject ms, rest)"
proof -
  obtain m' ms' where ms: "ms = m' # ms'" using assms(1) by (cases ms) auto
  obtain r where "commas (map render_member ms) = render_member m' @ r" using commas_Cons [of "render_member m'" "map render_member ms'"] ms by auto
  then obtain cs where "commas (map render_member ms) = CHR 0x22 # cs" by (simp add: quoted_def)
  moreover have "\<not> is_space (CHR 0x22)" by (simp add: is_space_def)
  ultimately show ?thesis
    using parse_members_render [OF assms(1,2,4), of "[]" rest] json_object_sorted [OF assms(3)]
    by (simp add: parse_object.simps skip_nonspace)
qed

lemma parse_value_render:
  "json_wf negative_i64 k v \<Longrightarrow> d + k \<le> md \<Longrightarrow> closes rest \<Longrightarrow> parse_value md d (render v @ rest) = Inr (v, rest)"
proof (induction v arbitrary: k d rest)
  case (JInt n)
  have "\<exists>cs. decimal_int n = CHR ''-'' # cs" using JInt.prems(1) by (simp add: decimal_int_def negative_i64_def)
  then show ?case
    using JInt.prems parse_number_negative [of rest n] skip_render [of "JInt n" rest]
    by (auto simp: parse_value.simps Let_def)
next
  case (JUInt w)
  obtain c cs where c: "decimal (unat w) = c # cs" "is_digit c" using decimal_head by blast
  then have "c \<noteq> CHR ''{''" "c \<noteq> CHR ''[''" "c \<noteq> CHR 0x22" by (auto simp: char_in_def)
  with JUInt.prems parse_number_positive [of rest w] c skip_render [of "JUInt w" rest] show ?case
    by (simp add: parse_value.simps Let_def)
next
  case (JString s)
  then show ?case
    using skip_render [of "JString s" rest] parse_raw_string_quoted [of s rest]
    by (simp add: parse_value.simps parse_string_def quoted_def Let_def)
next
  case (JArray vs)
  have "parse_array md d (render (JArray vs) @ rest) = Inr (JArray vs, rest)"
  proof (cases "vs = []")
    case False
    with JArray.prems obtain j where k: "k = Suc j" by (cases k) auto
    show ?thesis
      by (rule parse_array_render [OF False], rule JArray.IH [where k = j]) (use JArray.prems k in simp_all)
  qed (simp add: parse_array.simps json_array_def)
  with JArray.prems skip_render [of "JArray vs" rest] show ?case by (simp add: parse_value.simps Let_def)
next
  case (JObject ms)
  have "parse_object md d (render (JObject ms) @ rest) = Inr (JObject ms, rest)"
  proof (cases "ms = []")
    case False
    with JObject.prems obtain j where k: "k = Suc j" by (cases k) auto
    show ?thesis
    proof (rule parse_object_render [OF False])
      show "parse_value md (Suc d) (render (snd m) @ t) = Inr (snd m, t)" if "m \<in> set ms" "closes t" for m t
        by (rule JObject.IH [where k = j, OF that(1)]) (use JObject.prems k that in \<open>auto simp: snds.simps\<close>)
    qed (use JObject.prems k in auto)
  qed (simp add: parse_object.simps json_object_sorted)
  with JObject.prems skip_render [of "JObject ms" rest] show ?case by (simp add: parse_value.simps Let_def)
qed (simp_all add: parse_value.simps skip_whitespace_def is_space_def char_in_def Let_def)

text \<open>
  The text does not show whether a non-negative integer was signed; the reader makes it unsigned.
\<close>

fun json_normal :: "JsonValue \<Rightarrow> JsonValue" where
  "json_normal (JInt n) = (if n < 0 then JInt n else JUInt (of_int n))"
| "json_normal (JArray vs) = JArray (map json_normal vs)"
| "json_normal (JObject ms) = JObject (map (\<lambda>m. (fst m, json_normal (snd m))) ms)"
| "json_normal v = v"

lemma render_normal: "json_wf is_i64 k v \<Longrightarrow> render (json_normal v) = render v"
proof (induction v arbitrary: k)
  case (JInt n)
  then have "0 \<le> n \<Longrightarrow> unat (of_int n :: u64) = nat n"
    by (simp add: unat_eq_nat_uint uint_word_of_int is_i64_def i64_max_def take_bit_int_eq_self)
  then show ?case by (simp add: decimal_int_def)
next
  case (JArray vs)
  then have "\<forall>v \<in> set vs. render (json_normal v) = render v" by (cases k) auto
  then show ?case by (simp add: comp_def cong: map_cong)
next
  case (JObject ms)
  have "render (json_normal (snd m)) = render (snd m)" if "m \<in> set ms" for m
    using JObject.IH [OF that, of "snd m"] JObject.prems that by (cases k) (auto simp: snds.simps)
  then show ?case by (simp add: comp_def cong: map_cong)
qed simp_all

lemma json_wf_normal: "json_wf is_i64 k v \<Longrightarrow> json_wf negative_i64 k (json_normal v)"
proof (induction v arbitrary: k)
  case (JObject ms)
  have "json_wf negative_i64 j (json_normal (snd m))" if "m \<in> set ms" "k = Suc j" for m j
    using JObject.IH [OF that(1), of "snd m" j] JObject.prems that by (auto simp: snds.simps)
  with JObject.prems show ?case by (cases k) (auto simp: comp_def)
qed (auto simp: negative_i64_def is_i64_def split: nat.splits)

lemma rendered_parses: "json_wf is_i64 k v \<Longrightarrow> json_parse k (render v) = Inr (json_normal v)"
  using parse_value_render [OF json_wf_normal, of k v 0 k "[]"] render_normal [of k v]
  by (simp add: json_parse_def skip_whitespace_def)

text \<open>C35: a document (ASCII strings, members in key order, integers in range) is read back from its own text,
  whenever the writer accepts it and it nests no deeper than the reader allows: every string, key,
  array and object comes back exactly, and every integer with the same value.\<close>

theorem json_roundtrip:
  assumes "json_wf is_i64 max_depth v" and "json_dump v max_bytes = (out, ok_status)"
  shows "json_parse max_depth out = Inr (json_normal v)"
  using rendered_parses [OF assms(1)] json_dump_render [OF assms(2)] by simp

theorem json_roundtrip_witness:
  "json_parse 32 (fst (json_dump (JObject [(''a'', JInt (- 5)), (''b'', JArray [JInt 3, JString [CHR 0x0A], JUInt 7])]) 100)) =
     Inr (JObject [(''a'', JInt (- 5)), (''b'', JArray [JUInt 3, JString [CHR 0x0A], JUInt 7])])"
proof -
  let ?v = "JObject [(''a'', JInt (- 5)), (''b'', JArray [JInt 3, JString [CHR 0x0A], JUInt 7])]"
  have "json_dump ?v 100 = (fst (json_dump ?v 100), ok_status)"
    by (simp add: json_dump_def dump_enter_def dump_close_def dump_key_def append_escaped_def escape_char_def
        kJsonMaxDepth_def decimal_int_def decimal.simps)
  moreover have "json_wf is_i64 32 ?v" by (simp add: is_i64_def i64_min_def i64_max_def ascii_def)
  ultimately show ?thesis using json_roundtrip [of 32 ?v 100] by simp
qed

subsection \<open>What the reader accepts\<close>

lemma ascii_snoc [simp]: "ascii (s @ [c]) \<longleftrightarrow> ascii s \<and> of_char c < (0x80 :: nat)"
  by (simp add: ascii_def)

lemma simple_escape_ascii: "simple_escape c = Some x \<Longrightarrow> of_char x < (0x80 :: nat)"
  by (auto simp: simple_escape_def split: if_splits)

lemma unicode_escape_bound: "unicode_escape s = Inr x \<Longrightarrow> of_char x < (0x80 :: nat)"
  by (auto simp: unicode_escape_def split: if_splits option.splits)

lemma string_body_ascii: "string_body out s = Inr (text, t) \<Longrightarrow> ascii out \<Longrightarrow> ascii text"
proof (induction out s rule: string_body.induct)
  case (2 out c cs)
  show ?case
  proof (cases "c = CHR 0x5C")
    case True
    with "2.prems" obtain e cs' where cs: "cs = e # cs'" by (cases cs) auto
    show ?thesis
    proof (cases "e = CHR ''u''")
      case u: True
      with "2.prems" True cs obtain x where x: "unicode_escape cs' = Inr x" by (cases "unicode_escape cs'") auto
      with "2.IH"(1) [OF _ True cs u x] "2.prems" True cs u unicode_escape_bound [OF x] show ?thesis by simp
    next
      case False
      with "2.prems" True cs obtain x where x: "simple_escape e = Some x" by (cases "simple_escape e") auto
      with "2.IH"(2) [OF _ True cs False x] "2.prems" True cs False simple_escape_ascii [OF x] show ?thesis by simp
    qed
  qed (use 2 in \<open>auto split: if_splits\<close>)
qed simp

lemma parse_raw_string_ascii: "parse_raw_string s = Inr (text, t) \<Longrightarrow> ascii text"
  by (auto simp: parse_raw_string_def ascii_def dest: string_body_ascii [unfolded ascii_def] split: option.splits)

lemma negative_digits_range:
  "negative_digits v cs = Inr w \<Longrightarrow> nonpositive_i64 v \<Longrightarrow> list_all is_digit cs \<Longrightarrow> nonpositive_i64 w"
proof (induction v cs rule: negative_digits.induct)
  case (2 v c cs)
  from "2.prems"(1) obtain m x where m: "checked_mul_i64 v 10 = Some m" "checked_sub_i64 m (int (of_char c) - 48) = Some x"
      "negative_digits x cs = Inr w"
    by (auto split: option.splits simp: bind_eq_Some_conv)
  have "m = v * 10 \<and> i64_min \<le> m"
    using m(1) "2.prems"(2)
    by (auto simp: checked_mul_i64_def mul_would_overflow_i64_def trunc_div_def nonpositive_i64_def i64_min_def split: if_splits)
  then have "nonpositive_i64 x"
    using m(2) "2.prems"(2,3)
    by (auto simp: checked_sub_i64_def sub_would_overflow_i64_def nonpositive_i64_def char_in_def split: if_splits)
  with "2.IH" m "2.prems"(3) show ?case by simp
qed simp

lemma parse_number_wf: "parse_number s = Inr (v, t) \<Longrightarrow> json_wf nonpositive_i64 k v"
proof -
  have "nonpositive_i64 0" by (simp add: nonpositive_i64_def i64_min_def)
  moreover have "list_all is_digit (takeWhile is_digit u)" for u
    by (auto simp: list_all_iff dest: set_takeWhileD)
  ultimately show "parse_number s = Inr (v, t) \<Longrightarrow> json_wf nonpositive_i64 k v"
    by (auto simp: parse_number_def Let_def and_then_Inr split: if_splits dest: negative_digits_range)
qed

lemma duplicate_key_None: "sorted (map fst ms) \<Longrightarrow> duplicate_key ms = None \<Longrightarrow> sorted_wrt (<) (map fst ms)"
proof (induction ms rule: duplicate_key.induct)
  case (1 k u k' v ms)
  then have "k < k'" "sorted_wrt (<) (map fst ((k', v) # ms))" by (auto split: if_splits)
  then show ?case by (auto intro: less_trans)
qed auto

lemma json_object_wf:
  assumes "json_object ms = Inr v" and "\<And>m. m \<in> set ms \<Longrightarrow> ascii (fst m) \<and> json_wf p j (snd m)"
  shows "json_wf p (Suc j) v"
  using assms duplicate_key_None [of "sort_key fst ms"]
  by (auto simp: json_object_def Let_def split: option.splits)

lemma parse_wf:
  "parse_value md d s = Inr (v, t) \<Longrightarrow> d \<le> md \<and> json_wf nonpositive_i64 (md - d) v"
  "parse_array md d s = Inr (v, t) \<Longrightarrow> json_wf nonpositive_i64 (md - d) v"
  "parse_elements md d vs s = Inr (v, t) \<Longrightarrow> (\<forall>x \<in> set vs. json_wf nonpositive_i64 (md - Suc d) x) \<Longrightarrow>
     json_wf nonpositive_i64 (md - d) v"
  "parse_object md d s = Inr (v, t) \<Longrightarrow> json_wf nonpositive_i64 (md - d) v"
  "parse_members md d ms s = Inr (v, t) \<Longrightarrow>
     (\<forall>m \<in> set ms. ascii (fst m) \<and> json_wf nonpositive_i64 (md - Suc d) (snd m)) \<Longrightarrow> json_wf nonpositive_i64 (md - d) v"
proof (induction md d s and md d s and md d vs s and md d s and md d ms s arbitrary: v t and v t and v t and v t and v t
    rule: parse_value_parse_array_parse_elements_parse_object_parse_members.induct)
  case (1 md d s)
  then show ?case
    by (auto simp: parse_value.simps [of md d s] Let_def parse_string_def and_then_Inr
        split: if_splits dest: parse_number_wf parse_raw_string_ascii)
next
  case (2 md d s)
  then show ?case
    by (auto simp: parse_array.simps [of md d s] json_array_def split: option.splits nat.split)
next
  case (3 md d vs s)
  from "3.prems" obtain x s1 where x: "parse_value md (d + 1) s = Inr (x, s1)"
    by (auto simp: parse_elements.simps [of md d vs s] split: sum.splits)
  from "3.IH"(1) [OF x] have "md - d = Suc (md - Suc d)" "json_wf nonpositive_i64 (md - Suc d) x" by auto
  with 3 x show ?case
    by (auto simp: parse_elements.simps [of md d vs s] json_array_def split: option.splits)
next
  case (4 md d s)
  then show ?case
    by (auto simp: parse_object.simps [of md d s] json_object_sorted split: option.splits nat.split)
next
  case (5 md d ms s)
  from "5.prems" obtain key s1 s2 x s3 where k: "parse_raw_string (skip_whitespace s) = Inr (key, s1)"
      "consume (CHR '':'') (skip_whitespace s1) = Some s2" "parse_value md (d + 1) s2 = Inr (x, s3)"
    by (auto simp: parse_members.simps [of md d ms s] split: sum.splits option.splits)
  from "5.IH"(1) [OF k(1) refl k(2,3)] have "md - d = Suc (md - Suc d)" "json_wf nonpositive_i64 (md - Suc d) x" by auto
  with 5 k parse_raw_string_ascii [OF k(1)] show ?case
    by (auto simp: parse_members.simps [of md d ms s] and_then_Inr split: option.splits intro!: json_object_wf)
qed

text \<open>C36: whatever text the reader accepts denotes a well-formed document: strings are ASCII, the members of every
  object are in strictly increasing key order (so no key occurs twice), signed integers are in the
  64-bit range, and the nesting stays within the configured depth.\<close>

theorem json_parse_wf:
  assumes "json_parse max_depth doc = Inr v"
  shows "json_wf nonpositive_i64 max_depth v"
  using assms parse_wf(1) [of max_depth 0 doc v] by (auto simp: json_parse_def split: sum.splits if_splits)

theorem json_parse_wf_witness: "json_wf nonpositive_i64 2 (JArray [JInt 0, JBool True])"
proof (rule json_parse_wf)
  show "json_parse 2 ''[ -0,true]'' = Inr (JArray [JInt 0, JBool True])"
    by (simp add: json_parse_def parse_value.simps parse_array.simps parse_elements.simps skip_whitespace_def is_space_def
        Let_def parse_number_def char_in_def json_array_def checked_mul_i64_def mul_would_overflow_i64_def
        checked_sub_i64_def sub_would_overflow_i64_def i64_max_def)
qed

text \<open>C37: the reader always makes progress: a value it accepts has used up at least one character, at any depth and
  from any position, so its loops over elements and members end and it returns on every text.\<close>

theorem json_reader_progress:
  assumes "parse_value max_depth depth s = Inr (v, rest)"
  shows "length rest < length s"
  using parse_shrinks(1) [OF parse_total [THEN spec]] assms by (simp add: shrinks_def)

theorem json_reader_progress_witness: "length ('',1'' :: string) < length (''null,1'' :: string)"
proof (rule json_reader_progress)
  show "parse_value 2 1 ''null,1'' = Inr (JNull, '',1'')"
    by (simp add: parse_value.simps skip_whitespace_def is_space_def Let_def char_in_def)
qed

lemma length_escaped: "length s \<le> length (concat (map escape_char s))"
proof (induction s)
  case (Cons c s)
  have "1 \<le> length (escape_char c)" by (simp add: escape_char_def)
  with Cons show ?case by simp
qed simp

text \<open>C38: the byte bound of the writer does not bound the document.  It is tested before each value, for one more
  byte only, so under every bound of at least one byte a string of whatever length is written in full and
  reported as a success; the document is longer than the string.\<close>

theorem json_dump_exceeds_bound:
  assumes "0 < max_bytes"
  shows "\<exists>out. json_dump (JString s) max_bytes = (out, ok_status) \<and> length s < length out"
proof -
  have "json_dump (JString s) max_bytes = (quoted s, ok_status)"
    using assms by (simp add: json_dump_def dump_enter_def kJsonMaxDepth_def append_escaped_def quoted_def)
  then show ?thesis using length_escaped [of s] by (simp add: quoted_def)
qed

theorem json_dump_exceeds_bound_witness:
  "\<exists>out. json_dump (JString (replicate 5000 CHR ''a'')) 16 = (out, ok_status) \<and> 5000 < length out"
  using json_dump_exceeds_bound [of 16 "replicate 5000 CHR ''a''"] by simp

end
