(* ===== verification/Nof_Snapshot.thy ===== *)
theory Nof_Snapshot
  imports Nof_State
begin

text \<open>
  The canonical encoding of the state is exact: \<open>decode_state\<close> reads back what
  \<open>encode_state\<close> wrote, except for the indexes that are not encoded because
  \<open>rebuild_indexes\<close> derives them, and for the eviction order of the idempotency table, which
  comes back in key order.
\<close>

subsection \<open>Filling a map in key order\<close>

lemma om_put_above: "(\<And>k. k \<in> fst ` set m \<Longrightarrow> k < key) \<Longrightarrow> om_put key val m = m @ [(key, val)]"
  by (induction key val m rule: om_put.induct) auto

lemma emplace_above: "(\<And>k. k \<in> fst ` set m \<Longrightarrow> k < key) \<Longrightarrow> om_emplace key val m = m @ [(key, val)]"
proof -
  assume above: "\<And>k. k \<in> fst ` set m \<Longrightarrow> k < key"
  then have "map_of m key = None" by (force simp: map_of_eq_None_iff)
  then show ?thesis using above by (simp add: om_emplace_def om_put_above)
qed

lemma fold_emplace_sorted:
  assumes "sorted_wrt (<) (map fst m @ map key xs)"
  shows "fold (\<lambda>x m. om_emplace (key x) (val x) m) xs m = m @ map (\<lambda>x. (key x, val x)) xs"
  using assms
proof (induction xs arbitrary: m)
  case Nil
  then show ?case by simp
next
  case (Cons x xs)
  then have "om_emplace (key x) (val x) m = m @ [(key x, val x)]"
    by (intro emplace_above) (auto simp: sorted_wrt_append)
  with Cons show ?case by simp
qed

lemma emplace_all_sorted:
  "sorted_wrt (<) (map key xs) \<Longrightarrow> emplace_all key val xs = map (\<lambda>x. (key x, val x)) xs"
  using fold_emplace_sorted [of "[]" key xs val] by (simp add: emplace_all_def)

text \<open>A map keyed by a function of its values.\<close>

definition keyed :: "('v \<Rightarrow> 'k::linorder) \<Rightarrow> ('k, 'v) omap \<Rightarrow> bool" where
  "keyed key m \<longleftrightarrow> om_ok m \<and> (\<forall>e\<in>set m. key (snd e) = fst e)"

lemma emplace_keyed:
  assumes "keyed key m"
  shows "emplace_all key id (map snd m) = m"
proof -
  have "map key (map snd m) = map fst m" using assms by (simp add: keyed_def)
  then have "sorted_wrt (<) (map key (map snd m))" using assms by (simp only: keyed_def om_ok_def)
  then have "emplace_all key id (map snd m) = map (\<lambda>x. (key x, id x)) (map snd m)" by (rule emplace_all_sorted)
  also have "\<dots> = m" using assms by (auto simp: keyed_def intro!: map_idI)
  finally show ?thesis .
qed

lemma emplace_entries: "om_ok m \<Longrightarrow> emplace_all fst snd m = m"
  using emplace_all_sorted [of fst m snd] by (simp add: om_ok_def)

subsection \<open>Decoders that must consume everything\<close>

definition reads_end :: "nat \<Rightarrow> 'a decoder \<Rightarrow> u8 list \<Rightarrow> 'a \<Rightarrow> bool" where
  "reads_end mt d bs v \<longleftrightarrow> (\<forall>r.
     reader_ok r \<and> br_max_text_bytes r = mt \<and> unread r = bs \<longrightarrow> d r = Inr (v, advance (length bs) r))"

definition bre :: "nat \<Rightarrow> (BinWriter \<Rightarrow> BinWriter \<times> Status) \<Rightarrow> 'a decoder \<Rightarrow> 'a \<Rightarrow> bool" where
  "bre mt f d v \<longleftrightarrow> (\<exists>bs. bwrites f bs \<and> reads_end mt d bs v)"

lemma reads_end_bind:
  assumes 1: "reads mt d bs a" and 2: "reads_end mt (f a) cs v"
  shows "reads_end mt (rd_bind d f) (bs @ cs) v"
  unfolding reads_end_def
proof (intro allI impI)
  fix r assume r: "reader_ok r \<and> br_max_text_bytes r = mt \<and> unread r = bs @ cs"
  have "d r = Inr (a, advance (length bs) r)" using 1 r by (simp add: reads_def)
  moreover have "length (unread r) = length bs + length cs" using r by simp
  then have "reader_ok (advance (length bs) r)"
    using r by (auto simp: reader_ok_def advance_def unread_def)
  moreover have "unread (advance (length bs) r) = cs"
    using r by (simp add: unread_def advance_def add.commute flip: drop_drop)
  ultimately show "rd_bind d f r = Inr (v, advance (length (bs @ cs)) r)"
    using 2 r by (simp add: reads_end_def rd_bind_def advance_def add.assoc)
qed

lemma bre_nil: "v = v' \<Longrightarrow> bre mt (bw_seq []) (\<lambda>r. if \<not> at_end r then e else Inr (v, r)) v'"
  unfolding bre_def
  by (intro exI [of _ "[]"]) (auto simp: bwrites_def reads_end_def unread_def at_end_def reader_ok_def advance_def)

lemma bre_cons: "brt mt f d a \<Longrightarrow> bre mt (bw_seq fs) (g a) v \<Longrightarrow> bre mt (bw_seq (f # fs)) (rd_bind d g) v"
  unfolding brt_def bre_def by (blast intro: bwrites_Cons reads_end_bind)

lemma bw_seq_append: "bw_seq (fs @ gs) = bw_seq (bw_seq fs # gs)"
proof
  show "bw_seq (fs @ gs) w = bw_seq (bw_seq fs # gs) w" for w
    by (induction fs arbitrary: w) (auto split: prod.splits sum.splits)
qed

lemma bre_block: "brt mt (bw_seq es) d a \<Longrightarrow> bre mt (bw_seq fs) (g a) v \<Longrightarrow> bre mt (bw_seq (es @ fs)) (rd_bind d g) v"
  by (simp only: bw_seq_append bre_cons)

lemma brt_times:
  assumes "\<And>x. x \<in> set xs \<Longrightarrow> brt mt (f x) d (val x)"
  shows "brt mt (bw_seq (map f xs)) (rd_times (length xs) d) (map val xs)"
  using assms
proof (induction xs)
  case Nil
  show ?case by (simp only: list.map(1) list.size(3) rd_times.simps) (rule brt_nil [OF refl])
next
  case (Cons x xs)
  then have "brt mt (bw_seq (map f xs)) (rd_times (length xs) d) (map val xs)" by simp
  then obtain bs where bs: "bwrites (bw_seq (map f xs)) bs" "reads mt (rd_times (length xs) d) bs (map val xs)"
    by (auto simp: brt_def)
  have "reads mt (rd_bind (rd_times (length xs) d) (\<lambda>ys. rd_return (val x # ys))) bs (map val (x # xs))"
    by (rule reads_bind_return [OF bs(2)]) simp
  then have "brt mt (bw_seq (map f xs)) (rd_bind (rd_times (length xs) d) (\<lambda>ys. rd_return (val x # ys)))
      (map val (x # xs))"
    using bs(1) by (auto simp: brt_def)
  then show ?case
    unfolding list.map(2) list.size(4) rd_times.simps add_Suc_right add_0_right
    by (intro brt_cons [OF Cons.prems]) (simp_all add: brt_cons)
qed

lemma brt_items:
  assumes "length xs \<le> m" "length xs < 2 ^ 32" "\<And>x. x \<in> set xs \<Longrightarrow> brt mt (f x) d (val x)"
  shows "brt mt (bw_seq (bw_count xs # map f xs)) (read_items m d) (map val xs)"
proof -
  have "unat (of_nat (length xs) :: u32) = length xs" using assms(2) by (simp add: unat_of_nat)
  then have "reads mt (read_count m) (le_bytes 4 (of_nat (length xs) :: u32) @ []) (length xs)"
    unfolding read_count_def using assms(1)
    by (intro reads_bind [OF reads_u32]) (simp add: reads_return)
  then have "brt mt (bw_count xs) (read_count m) (length xs)"
    unfolding brt_def bw_count_def bw_u32_def
    by (intro exI [of _ "le_bytes 4 (of_nat (length xs) :: u32)"]) simp
  then show ?thesis
    unfolding read_items_def by (rule brt_cons) (rule brt_times [OF assms(3)])
qed

lemma brt_optional:
  assumes "present \<Longrightarrow> brt mt e d t" "\<not> present \<Longrightarrow> t = dflt"
  shows "brt mt (bw_seq (bw_boolean present # (if present then [e] else []))) (read_optional dflt d) (present, t)"
proof (cases present)
  case True
  then obtain bs where bs: "bwrites e bs" "reads mt d bs t" using assms(1) by (auto simp: brt_def)
  have "reads mt (rd_bind d (\<lambda>v. rd_return (True, v))) bs (True, t)"
    by (rule reads_bind_return [OF bs(2)]) simp
  then have "brt mt (bw_seq [e]) (rd_bind d (\<lambda>v. rd_return (True, v))) (True, t)"
    using bwrites_Cons [OF bs(1), of "[]" "[]"] bs(1)
    by (auto simp: brt_def bwrites_def intro!: exI [of _ bs])
  then show ?thesis
    unfolding read_optional_def using True by (auto intro!: brt_cons [OF brt_boolean])
next
  case False
  then show ?thesis
    unfolding read_optional_def using assms(2) by (auto intro!: brt_cons [OF brt_boolean] brt_nil)
qed

subsection \<open>The whole state\<close>

text \<open>
  A state that fits the format: every entry fits its own codec, the maps are keyed by their
  values, and every collection respects the configured bound.
\<close>

definition items_ok :: "nat \<Rightarrow> ('a \<Rightarrow> bool) \<Rightarrow> 'a list \<Rightarrow> bool" where
  "items_ok m good xs \<longleftrightarrow> length xs \<le> m \<and> length xs < 2 ^ 32 \<and> (\<forall>x\<in>set xs. good x)"

definition source_ok :: "SourceKey \<times> SourceState \<Rightarrow> bool" where
  "source_ok e \<longleftrightarrow> token_ok (sk_source (fst e)) \<and> length (st_last_digest (snd e)) = 32"

definition reassignment_ok :: "Bounds \<Rightarrow> ExclusivityKey \<times> Micros list \<Rightarrow> bool" where
  "reassignment_ok bounds e \<longleftrightarrow> token_ok (ek_scope (fst e)) \<and>
     items_ok (size_mul (max_reassignments_per_scope bounds) 64) is_i64 (snd e)"

definition idempotency_ok :: "Bounds \<Rightarrow> RequestId \<times> IdempotencyEntry \<Rightarrow> bool" where
  "idempotency_ok bounds e \<longleftrightarrow>
     token_ok (fst e) \<and> length (ie_request_fingerprint (snd e)) = 32 \<and> reason_ok (ie_outcome (snd e)) \<and>
     is_i64 (ie_at (snd e)) \<and> length (ie_response (snd e)) \<le> max_record_bytes bounds \<and>
     length (ie_response (snd e)) < 2 ^ 32"

definition state_ok :: "nat \<Rightarrow> Bounds \<Rightarrow> FabricState \<Rightarrow> bool" where
  "state_ok mt bounds s \<longleftrightarrow>
     epoch_ok (fs_epoch s) \<and>
     keyed fd_id (fs_functions s) \<and>
     items_ok (max_functions bounds) (\<lambda>e. function_ok (snd e) \<and>
       mask_count (fd_required (snd e)) \<le> max_semantics_per_requirement bounds) (fs_functions s) \<and>
     (if fs_has_topology s then topology_ok bounds (fs_topology s) else fs_topology s = no_topology) \<and>
     length (fs_topology_digest s) = 32 \<and>
     keyed (\<lambda>c. CapabilityKey (cr_device c) (cr_cls c)) (fs_capabilities s) \<and>
     items_ok (max_capability_records bounds) (\<lambda>e. capability_record_ok (snd e)) (fs_capabilities s) \<and>
     (if fs_has_policy s then policy_ok bounds (fs_policy s) else fs_policy s = no_policy) \<and>
     length (fs_policy_digest s) = 32 \<and>
     keyed do_device (fs_observations s) \<and>
     items_ok (max_observations bounds) (\<lambda>e. observation_ok (snd e)) (fs_observations s) \<and>
     keyed ag_id (fs_authority s) \<and>
     items_ok (max_authority_grants bounds) (\<lambda>e. authority_ok (snd e)) (fs_authority s) \<and>
     keyed ar_id (fs_assignments s) \<and>
     items_ok (max_assignments bounds) (\<lambda>e. assignment_ok mt bounds (snd e)) (fs_assignments s) \<and>
     om_ok (fs_scope_specs s) \<and>
     items_ok (max_scopes bounds) (\<lambda>e. token_ok (fst e) \<and> scope_spec_ok mt (snd e)) (fs_scope_specs s) \<and>
     om_ok (fs_sources s) \<and> items_ok (max_sources bounds) source_ok (fs_sources s) \<and>
     om_ok (fs_reassignments s) \<and> items_ok (max_scopes bounds) (reassignment_ok bounds) (fs_reassignments s) \<and>
     om_ok (fs_idempotency s) \<and>
     items_ok (max_idempotency_entries bounds) (idempotency_ok bounds) (fs_idempotency s)"

text \<open>What is left of a state when its derived parts are dropped.\<close>

definition durable_part :: "FabricState \<Rightarrow> FabricState" where
  "durable_part s = s\<lparr>fs_exclusive_by_class := [], fs_exclusive_by_scope := [], fs_committed := [],
     fs_idempotency_order := map fst (fs_idempotency s)\<rparr>"

lemma brt_source: "source_ok e \<Longrightarrow> 64 \<le> mt \<Longrightarrow> brt mt (encode_source e) decode_source e"
proof -
  assume ok: "source_ok e" "64 \<le> mt"
  obtain source domain st where e: "e = (SourceKey source domain, st)"
    by (metis SourceKey.exhaust prod.exhaust)
  show ?thesis
    unfolding encode_source_def decode_source_def using ok
    by (simp only: e fst_conv snd_conv SourceKey.sel source_ok_def)
      (rule brt_intros | simp)+
qed

lemma brt_bind_return: "brt mt f d a \<Longrightarrow> g a = v \<Longrightarrow> brt mt f (rd_bind d (\<lambda>x. rd_return (g x))) v"
  unfolding brt_def by (blast intro: reads_bind_return)

lemma brt_bytes_raw:
  assumes "length bs \<le> m" "length bs < 2 ^ 32" "g bs = v"
  shows "brt mt (bw_seq [bw_bytes bs]) (rd_bind br_u32 (\<lambda>n. if unat n > m then rd_fail c what
      else rd_bind (br_take (unat n)) (\<lambda>x. rd_return (g x)))) v"
proof -
  let ?len = "le_bytes 4 (of_nat (length bs) :: u32)"
  have u: "unat (of_nat (length bs) :: u32) = length bs" using assms(2) by (simp add: unat_of_nat)
  have "reads mt (rd_bind (br_take (length bs)) (\<lambda>x. rd_return (g x))) bs v"
    by (rule reads_bind_return [OF br_take_reads]) (simp_all add: assms(3))
  then have "reads mt (rd_bind br_u32 (\<lambda>n. if unat n > m then rd_fail c what
      else rd_bind (br_take (unat n)) (\<lambda>x. rd_return (g x)))) (?len @ bs) v"
    by (intro reads_bind [OF reads_u32]) (use assms(1) in \<open>simp add: u not_less [symmetric]\<close>)
  moreover have "bwrites (bw_seq [bw_bytes bs]) ((?len @ bs) @ [])"
    by (rule bwrites_Cons [OF bwrites_note [OF writes_note_bytes [OF assms(2)]]]) (simp add: bwrites_def)
  ultimately show ?thesis unfolding brt_def by auto
qed

lemma brt_idempotency:
  "idempotency_ok bounds e \<Longrightarrow> 64 \<le> mt \<Longrightarrow> brt mt (encode_idempotency e) (decode_idempotency bounds) e"
  unfolding encode_idempotency_def decode_idempotency_def idempotency_ok_def
  by (rule brt_bytes_raw brt_intros | simp add: prod_eq_iff)+

lemma brt_reassignment:
  assumes "reassignment_ok bounds e" "64 \<le> mt"
  shows "brt mt (encode_reassignment e) (decode_reassignment bounds) e"
proof -
  obtain scope cls stamps where e: "e = (ExclusivityKey scope cls, stamps)"
    by (metis ExclusivityKey.exhaust prod.exhaust)
  have "brt mt (bw_seq (bw_count stamps # map bw_i64 stamps))
      (read_items (size_mul (max_reassignments_per_scope bounds) 64) br_i64) (map id stamps)"
    using assms(1) by (intro brt_items) (auto simp: e reassignment_ok_def items_ok_def brt_i64)
  then have "brt mt (bw_seq (bw_count stamps # map bw_i64 stamps))
      (rd_bind (read_items (size_mul (max_reassignments_per_scope bounds) 64) br_i64)
        (\<lambda>stamps. rd_return (ExclusivityKey scope cls, stamps))) e"
    by (rule brt_bind_return) (simp add: e)
  then have "brt mt (bw_seq (bw_u16 (FunctionClass_value cls) # bw_count stamps # map bw_i64 stamps))
      (rd_bind br_u16 (\<lambda>raw. case FunctionClass_of_value raw of
         None \<Rightarrow> rd_fail RC_UnsupportedValue ''state carries an unknown function class''
       | Some cls \<Rightarrow> rd_bind (read_items (size_mul (max_reassignments_per_scope bounds) 64) br_i64)
           (\<lambda>stamps. rd_return (ExclusivityKey scope cls, stamps)))) e"
    by (intro brt_cons [OF brt_u16]) (simp only: FunctionClass_of_value_value option.case)
  note tail = this [unfolded e]
  show ?thesis
    unfolding encode_reassignment_def decode_reassignment_def append.simps e fst_conv snd_conv ExclusivityKey.sel
    by (rule brt_cons [OF brt_token]) (use assms tail in \<open>simp_all only: e reassignment_ok_def fst_conv ExclusivityKey.sel\<close>)
qed

lemma brt_function:
  "function_ok v \<Longrightarrow> 64 \<le> mt \<Longrightarrow> mask_count (fd_required v) \<le> max_semantics_per_requirement bounds \<Longrightarrow>
     brt mt (encode_function v) (decode_function bounds) v"
  unfolding encode_function_def decode_function_def
  by (intro brt_encode_with rt_bind_id [OF rt_function]) simp_all

lemma brt_scope_entry:
  "token_ok (fst e) \<Longrightarrow> scope_spec_ok mt (snd e) \<Longrightarrow> 64 \<le> mt \<Longrightarrow>
     brt mt (bw_seq [bw_token (fst e), encode_scope_spec (snd e)]) decode_scope_entry e"
  unfolding decode_scope_entry_def encode_scope_spec_def decode_scope_spec_def
  by (rule brt_intros rt_scope_spec | simp)+

lemma bre_items:
  assumes "items_ok m good xs" "\<And>x. good x \<Longrightarrow> brt mt (f x) d (val x)"
    and "bre mt (bw_seq fs) (g (map val xs)) v"
  shows "bre mt (bw_seq (bw_count xs # map f xs @ fs)) (rd_bind (read_items m d) g) v"
  using bre_block [OF brt_items [of xs m mt f d val], where g = g and fs = fs and v = v] assms
  by (simp only: items_ok_def append.simps)

lemma bre_optional:
  assumes "if present then brt mt e d t else t = dflt" and "bre mt (bw_seq fs) (g (present, t)) v"
  shows "bre mt (bw_seq (bw_boolean present # (if present then [e] else []) @ fs)) (rd_bind (read_optional dflt d) g) v"
  using bre_block [OF brt_optional [of present mt e d t dflt], where g = g and fs = fs and v = v] assms
  by (cases present) (simp_all only: append.simps if_True if_False simp_thms)

lemma bre_items_last:
  assumes "items_ok m good xs" "\<And>x. good x \<Longrightarrow> brt mt (f x) d (val x)"
    and "bre mt (bw_seq []) (g (map val xs)) v"
  shows "bre mt (bw_seq (bw_count xs # map f xs)) (rd_bind (read_items m d) g) v"
  using bre_items [where fs = "[]" and g = g, OF assms] by (simp only: append_Nil2)

lemma snapshot_bre:
  assumes ok: "state_ok mt bounds s" and mt: "64 \<le> mt"
  shows "bre mt (encode_state s) (decode_state bounds) (durable_part s)"
proof -
  note s = ok [unfolded state_ok_def]
  have epoch: "brt mt (encode_epoch (fs_epoch s)) decode_epoch (fs_epoch s)"
    unfolding encode_epoch_def decode_epoch_def using s mt by (intro brt_encode_with rt_epoch) simp_all
  have topology: "if fs_has_topology s then brt mt (encode_topology (fs_topology s)) (decode_topology bounds) (fs_topology s)
      else fs_topology s = no_topology"
    unfolding encode_topology_def decode_topology_def using s mt
    by (cases "fs_has_topology s") (simp_all add: brt_encode_with rt_topology)
  have policy: "if fs_has_policy s then brt mt (encode_policy (fs_policy s)) (decode_policy bounds) (fs_policy s)
      else fs_policy s = no_policy"
    unfolding encode_policy_def decode_policy_def using s mt
    by (cases "fs_has_policy s") (simp_all add: brt_encode_with rt_policy)
  have digests: "brt mt (bw_digest (fs_topology_digest s)) br_digest (fs_topology_digest s)"
      "brt mt (bw_digest (fs_policy_digest s)) br_digest (fs_policy_digest s)"
    using s by (simp_all add: brt_digest)
  have final: "bre mt (bw_seq []) (\<lambda>r. if \<not> at_end r then Err RC_MalformedInput ''state encoding carries trailing bytes''
      else Inr (v, r)) (durable_part s)" if "v = durable_part s" for v
    using that by (rule bre_nil)
  show ?thesis
    unfolding encode_state_def decode_state_def append.simps
    apply (rule bre_cons [OF brt_u16])
    apply (simp only: not_True_eq_False refl if_False)
    apply (rule bre_cons [OF epoch])
    apply (rule bre_cons [OF brt_u64])+
    apply (rule bre_items [where val = snd])
      apply (use s in blast)
     apply (simp add: brt_function mt)
    apply (rule bre_optional [OF topology])
    apply (rule bre_cons [OF digests(1)])
    apply (rule bre_items [where val = snd])
      apply (use s in blast)
     apply (simp add: encode_capability_record_def decode_capability_record_def brt_encode_with rt_capability_record mt)
    apply (rule bre_optional [OF policy])
    apply (rule bre_cons [OF digests(2)])
    apply (rule bre_items [where val = snd])
      apply (use s in blast)
     apply (simp add: encode_observation_def decode_observation_def brt_encode_with rt_observation mt)
    apply (rule bre_items [where val = snd])
      apply (use s in blast)
     apply (simp add: encode_authority_def decode_authority_def brt_encode_with rt_authority mt)
    apply (rule bre_items [where val = snd])
      apply (use s in blast)
     apply (simp add: encode_assignment_def decode_assignment_def brt_encode_with rt_assignment mt)
    apply (rule bre_items [where val = id])
      apply (use s in blast)
     apply (simp add: brt_scope_entry mt del: bw_seq.simps)
    apply (rule bre_items [where val = id])
      apply (use s in blast)
     apply (simp add: brt_source mt)
    apply (rule bre_items [where val = id])
      apply (use s in blast)
     apply (simp add: brt_reassignment mt)
    apply (rule bre_items_last [where val = id])
      apply (use s in blast)
     apply (simp add: brt_idempotency mt)
    apply (rule final)
    using s by (simp add: emplace_keyed emplace_entries durable_part_def empty_state_def)
qed

lemma bre_fresh:
  assumes "bre mt f d v" and "f (bin_writer n) = (w, ok_status)"
  shows "\<exists>r. d (bin_reader (bw_buffer w) mt) = Inr (v, r) \<and> at_end r"
proof -
  from assms(1) obtain bs where bs: "bwrites f bs" "reads_end mt d bs v" by (auto simp: bre_def)
  have 0: "would_fit (bin_writer n) 0" by (simp add: bin_writer_def would_fit_iff)
  have fits: "would_fit (bin_writer n) (length bs)"
    using bs(1) [unfolded bwrites_def, THEN spec, of "bin_writer n"] 0 assms(2) by (auto simp: ok_def)
  then have "w = (bin_writer n)\<lparr>bw_buffer := bw_buffer (bin_writer n) @ bs\<rparr>"
    using bs(1) assms(2) by (simp add: bwrites_def)
  then have buf: "bw_buffer w = bs" by (simp add: bin_writer_def)
  have "reader_ok (bin_reader bs mt)"
    using fits by (simp add: bin_reader_def reader_ok_def would_fit_iff bin_writer_def)
  then have "d (bin_reader bs mt) = Inr (v, advance (length bs) (bin_reader bs mt))"
    using bs(2) by (simp add: reads_end_def bin_reader_def unread_def)
  then show ?thesis by (simp add: buf at_end_def advance_def bin_reader_def)
qed

text \<open>C20: the snapshot encoding of a state that fits the format is read back exactly, to the last
  byte: all durable parts come back, the derived indexes come back empty (\<open>rebuild_indexes\<close>
  recomputes them) and the idempotency eviction order comes back in key order.\<close>

theorem snapshot_roundtrip:
  assumes "state_ok mt bounds s" and "64 \<le> mt" and "encode_state s (bin_writer n) = (w, ok_status)"
  shows "\<exists>r. decode_state bounds (bin_reader (bw_buffer w) mt) = Inr (durable_part s, r) \<and> at_end r"
  by (rule bre_fresh [OF snapshot_bre [OF assms(1,2)] assms(3)])

theorem snapshot_roundtrip_witness:
  "\<exists>r. decode_state default_bounds
        (bin_reader (bw_buffer (fst (encode_state empty_state (bin_writer 4096)))) 64) =
      Inr (empty_state, r) \<and> at_end r"
proof -
  let ?e = "encode_state empty_state (bin_writer 4096)"
  have e: "encode_state empty_state (bin_writer 4096) = (fst ?e, ok_status)"
    by (simp add: encode_state_def empty_state_def encode_epoch_def encode_with_def enc_epoch_def no_epoch_def
        w_open_def bin_writer_def w_seq_def emit_eqs Let_def prod_eq_iff bw_u16_def bw_u64_def bw_count_def
        bw_u32_def bw_boolean_def bw_u8_def bw_digest_def bw_append_def would_fit_iff digest_zero_def)
  have ok: "state_ok 64 default_bounds empty_state"
    by (simp add: state_ok_def empty_state_def no_epoch_def epoch_ok_def token_ok_def keyed_def om_ok_def
        items_ok_def digest_zero_def)
  have "durable_part empty_state = empty_state" by (simp add: durable_part_def empty_state_def)
  with snapshot_roundtrip [OF ok order_refl e] show ?thesis by simp
qed

end
