(* ===== verification/Nof_Export.thy ===== *)
theory Nof_Export
  imports Nof_Json Nof_Operations Nof_Snapshot
begin

text \<open>
  The canonical JSON exports: the state document (\<open>src/export.cpp\<close>) and the explanation document
  (\<open>src/explanation.cpp\<close>).  \<open>j_object\<close> evaluates its members in the order written and
  hands them to \<open>JsonValue::object\<close>; \<open>j_list\<close> is the loop that converts each element and
  stops at the first refusal.  Where the program calls \<open>value()\<close> on a nested conversion, which
  would throw for a refusal, the model passes the refusal on; \<open>state_document_ok\<close> shows that no
  conversion ever refuses.
\<close>

subsection \<open>Building documents\<close>

definition j_string :: "string \<Rightarrow> JsonValue result" where "j_string s = Inr (JString s)"
definition j_bool :: "bool \<Rightarrow> JsonValue result" where "j_bool b = Inr (JBool b)"
definition j_u64 :: "u64 \<Rightarrow> JsonValue result" where "j_u64 n = Inr (JUInt n)"
definition j_i64 :: "i64 \<Rightarrow> JsonValue result" where "j_i64 n = Inr (JInt n)"

fun j_each :: "('a \<Rightarrow> JsonValue result) \<Rightarrow> 'a list \<Rightarrow> JsonValue list result" where
  "j_each f [] = Inr []"
| "j_each f (x # xs) = and_then (f x) (\<lambda>v. and_then (j_each f xs) (\<lambda>vs. Inr (v # vs)))"

definition j_list :: "('a \<Rightarrow> JsonValue result) \<Rightarrow> 'a list \<Rightarrow> JsonValue result" where
  "j_list f xs = and_then (j_each f xs) json_array"

definition j_strings :: "string list \<Rightarrow> JsonValue result" where
  "j_strings texts = j_list j_string texts"

fun j_members :: "(string \<times> JsonValue result) list \<Rightarrow> (string \<times> JsonValue) list result" where
  "j_members [] = Inr []"
| "j_members ((k, r) # ms) = and_then r (\<lambda>v. and_then (j_members ms) (\<lambda>vs. Inr ((k, v) # vs)))"

definition j_object :: "(string \<times> JsonValue result) list \<Rightarrow> JsonValue result" where
  "j_object ms = and_then (j_members ms) json_object"

definition kProductName :: string where "kProductName = ''Network Offload Fabric''"

definition version_string :: string where "version_string = ''1.0.0''"

subsection \<open>Records\<close>

definition json_provenance :: "Provenance \<Rightarrow> JsonValue result" where
  "json_provenance v = j_object [
     (''sequence'', j_u64 (pv_sequence v)), (''source'', j_string (pv_source v))]"

definition json_freshness :: "Freshness \<Rightarrow> JsonValue result" where
  "json_freshness v = j_object [
     (''observed_at'', j_i64 (fr_observed_at v)), (''valid_until'', j_i64 (fr_valid_until v))]"

definition json_incarnation :: "IncarnationId \<Rightarrow> JsonValue result" where
  "json_incarnation v = j_object [
     (''boot'', j_string (in_boot v)), (''generation'', j_u64 (in_generation v))]"

definition json_fence :: "FencingToken \<Rightarrow> JsonValue result" where
  "json_fence v = j_object [
     (''epoch'', j_u64 (ft_epoch v)), (''sequence'', j_u64 (ft_sequence v))]"

definition json_binding :: "GenerationBinding \<Rightarrow> JsonValue result" where
  "json_binding v = j_object [
     (''assignment'', j_u64 (gb_assignment v)), (''capability'', j_u64 (gb_capability v)),
     (''policy'', j_u64 (gb_policy v)), (''schema'', j_u64 (gb_schema v)),
     (''topology'', j_u64 (gb_topology v))]"

definition json_demand :: "DemandVector \<Rightarrow> JsonValue result" where
  "json_demand v = j_object [
     (''bytes_per_second'', j_u64 (dv_bytes_per_second v)), (''flows'', j_u64 (dv_flows v)),
     (''memory_bytes'', j_u64 (dv_memory v)), (''packets_per_second'', j_u64 (dv_packets_per_second v)),
     (''queues'', j_u64 (dv_queues v))]"

definition json_capacity :: "CapacityVector \<Rightarrow> JsonValue result" where
  "json_capacity v = j_object [
     (''bytes_per_second'', j_u64 (cv_bytes_per_second v)), (''flows'', j_u64 (cv_flows v)),
     (''memory_bytes'', j_u64 (cv_memory v)), (''packets_per_second'', j_u64 (cv_packets_per_second v)),
     (''queues'', j_u64 (cv_queues v))]"

definition json_semantics :: "SemanticsMask \<Rightarrow> JsonValue result" where
  "json_semantics v = j_strings (map Semantic_to_string (mask_values v))"

definition json_scope :: "ScopeSpec \<Rightarrow> JsonValue result" where
  "json_scope v = j_object [
     (''device'', j_string (ss_device v)), (''domain'', j_string (ss_domain v)),
     (''kind'', j_string (ScopeKind_to_string (ss_kind v))), (''selector'', j_string (ss_selector v))]"

definition json_transition :: "TransitionRecord \<Rightarrow> JsonValue result" where
  "json_transition v = j_object [
     (''at'', j_i64 (tr_at v)), (''fence'', json_fence (tr_fence v)),
     (''from'', j_string (AssignmentState_to_string (tr_from v))),
     (''reason'', j_string (reason_to_string (tr_reason v))),
     (''to'', j_string (AssignmentState_to_string (tr_to v)))]"

definition json_effect :: "EffectRecord \<Rightarrow> JsonValue result" where
  "json_effect v = j_object [
     (''attempt'', j_u64 (ef_attempt v)), (''capability_generation'', j_u64 (ef_capability_generation v)),
     (''fence'', json_fence (ef_fence v)), (''generation'', j_u64 (ef_generation v)),
     (''incarnation'', json_incarnation (ef_incarnation v)), (''observed_at'', j_i64 (ef_observed_at v)),
     (''outcome'', j_string (EffectOutcome_to_string (ef_outcome v))),
     (''reason'', j_string (reason_to_string (ef_reason v)))]"

definition json_assignment :: "AssignmentRecord \<Rightarrow> JsonValue result" where
  "json_assignment v = j_object [
     (''attempt'', j_u64 (ar_attempt v)), (''authority'', j_string (ar_authority v)),
     (''binding'', json_binding (ar_binding v)),
     (''capability_generation'', j_u64 (gb_capability (ar_binding v))),
     (''created_at'', j_i64 (ar_created_at v)), (''demand'', json_demand (ar_demand v)),
     (''device'', j_string (ar_device v)), (''digest'', j_string (digest_hex (assignment_digest v))),
     (''effects'', j_list json_effect (ar_effects v)),
     (''exclusive_key'', j_string (ExclusiveKeyMode_to_string (ar_exclusive_key v))),
     (''exclusivity'', j_string (Exclusivity_to_string (ar_exclusivity v))),
     (''fence'', json_fence (ar_fence v)), (''freshness'', json_freshness (ar_freshness v)),
     (''function'', j_string (ar_function v)),
     (''function_class'', j_string (FunctionClass_to_string (ar_cls v))),
     (''generation'', j_u64 (ar_generation v)), (''history'', j_list json_transition (ar_history v)),
     (''host'', j_string (ar_host v)), (''id'', j_string (ar_id v)),
     (''incarnation'', json_incarnation (ar_incarnation v)),
     (''kind'', j_string (DeviceKind_to_string (ar_kind v))), (''lease'', j_u64 (ar_lease v)),
     (''mode'', j_string (ExecutionMode_to_string (ar_mode v))),
     (''request_fingerprint'', j_string (digest_hex (ar_request_fingerprint v))),
     (''scope'', json_scope (ar_scope v)), (''scope_id'', j_string (ar_scope_id v)),
     (''state'', j_string (AssignmentState_to_string (ar_state v))),
     (''state_reason'', j_string (reason_to_string (ar_state_reason v))),
     (''updated_at'', j_i64 (ar_updated_at v))]"

definition json_device :: "DeviceRecord \<Rightarrow> JsonValue result" where
  "json_device v = j_object [
     (''capacity'', json_capacity (dr_capacity v)), (''decommissioned'', j_bool (dr_decommissioned v)),
     (''host'', j_string (dr_host v)), (''id'', j_string (dr_id v)),
     (''incarnation'', json_incarnation (dr_incarnation v)),
     (''kind'', j_string (DeviceKind_to_string (dr_kind v))), (''labels'', j_strings (dr_labels v))]"

definition json_capability :: "CapabilityRecord \<Rightarrow> JsonValue result" where
  "json_capability v = j_object [
     (''capacity'', json_capacity (cr_capacity v)), (''device'', j_string (cr_device v)),
     (''freshness'', json_freshness (cr_freshness v)),
     (''function_class'', j_string (FunctionClass_to_string (cr_cls v))),
     (''generation'', j_u64 (cr_generation v)), (''incarnation'', json_incarnation (cr_incarnation v)),
     (''provenance'', json_provenance (cr_provenance v)), (''revoked'', j_bool (cr_revoked v)),
     (''schema'', j_u64 (cr_schema v)), (''supported'', json_semantics (cr_supported v)),
     (''unknown'', json_semantics (cr_unknown v)), (''unsupported'', json_semantics (cr_unsupported v)),
     (''version_max'', j_string (version_to_string (vr_maximum (cr_version_range v)))),
     (''version_min'', j_string (version_to_string (vr_minimum (cr_version_range v))))]"

definition json_policy_rule :: "PolicyRule \<Rightarrow> JsonValue result" where
  "json_policy_rule v = j_object [
     (''allow_host_fallback'', j_bool (pr_allow_host_fallback v)),
     (''allowed_kinds'', j_strings (map DeviceKind_to_string (pr_allowed_kinds v))),
     (''exclusive_key'', j_string (ExclusiveKeyMode_to_string (pr_exclusive_key v))),
     (''function_class'', j_string (FunctionClass_to_string (pr_cls v))),
     (''max_assignments_per_device'', j_u64 (of_nat (pr_max_assignments_per_device v))),
     (''max_reassignments_per_scope'', j_u64 (of_nat (pr_max_reassignments_per_scope v))),
     (''priority'', j_u64 (ucast (pr_priority v))),
     (''reassignment_window_micros'', j_u64 (pr_reassignment_window_micros v)),
     (''required'', json_semantics (pr_required v)), (''reserve'', json_demand (pr_reserve v)),
     (''require_authority'', j_bool (pr_require_authority v)),
     (''require_capability'', j_bool (pr_require_capability v)),
     (''require_fresh_observation'', j_bool (pr_require_fresh_observation v))]"

definition json_authority :: "AuthorityGrant \<Rightarrow> JsonValue result" where
  "json_authority v = j_object [
     (''actions'', j_strings (map AuthorityAction_to_string (ag_actions v))),
     (''classes'', j_strings (map FunctionClass_to_string (ag_classes v))),
     (''expires_at'', j_i64 (ag_expires_at v)), (''freshness'', json_freshness (ag_freshness v)),
     (''host_scope'', j_string (ag_host_scope v)), (''id'', j_string (ag_id v)),
     (''issued_at'', j_i64 (ag_issued_at v)),
     (''kinds'', j_strings (map DeviceKind_to_string (ag_kinds v))), (''max_uses'', j_u64 (ag_max_uses v)),
     (''policy_generation'', j_u64 (ag_policy_generation v)),
     (''provenance'', json_provenance (ag_provenance v)), (''revoked'', j_bool (ag_revoked v)),
     (''scope'', j_string (ag_scope v)), (''semantics_ceiling'', json_semantics (ag_semantics_ceiling v)),
     (''used'', j_u64 (ag_used v))]"

definition json_observation :: "DeviceObservation \<Rightarrow> JsonValue result" where
  "json_observation v = j_object [
     (''available'', json_capacity (do_available v)), (''available_known'', j_bool (do_available_known v)),
     (''device'', j_string (do_device v)), (''freshness'', json_freshness (do_freshness v)),
     (''incarnation'', json_incarnation (do_incarnation v)),
     (''liveness'', j_string (Liveness_to_string (do_liveness v))),
     (''provenance'', json_provenance (do_provenance v))]"

definition json_function :: "FunctionDescriptor \<Rightarrow> JsonValue result" where
  "json_function v = j_object [
     (''exclusive_by_default'', j_bool (fd_exclusive_by_default v)),
     (''function_class'', j_string (FunctionClass_to_string (fd_cls v))), (''id'', j_string (fd_id v)),
     (''required'', json_semantics (fd_required v)),
     (''required_version'', j_string (version_to_string (fd_required_version v)))]"

subsection \<open>The state document\<close>

definition json_host :: "HostRecord \<Rightarrow> JsonValue result" where
  "json_host v = j_object [
     (''id'', j_string (hr_id v)), (''labels'', j_strings (hr_labels v))]"

definition json_link :: "LinkRecord \<Rightarrow> JsonValue result" where
  "json_link v = j_object [
     (''a'', j_string (lr_a v)), (''b'', j_string (lr_b v)),
     (''kind'', j_string (LinkKind_to_string (lr_kind v)))]"

definition json_scope_entry :: "ScopeId \<times> ScopeSpec \<Rightarrow> JsonValue result" where
  "json_scope_entry v = j_object [
     (''id'', j_string (fst v)), (''spec'', json_scope (snd v))]"

definition json_source_entry :: "SourceKey \<times> SourceState \<Rightarrow> JsonValue result" where
  "json_source_entry v = j_object [
     (''domain'', j_string (EvidenceDomain_to_string (sk_domain (fst v)))),
     (''last_digest'', j_string (digest_hex (st_last_digest (snd v)))),
     (''last_sequence'', j_u64 (st_last_sequence (snd v))),
     (''restart_floor'', j_u64 (st_restart_floor (snd v))), (''seen'', j_bool (st_seen (snd v))),
     (''source'', j_string (sk_source (fst v)))]"

definition json_reassignment_entry :: "ExclusivityKey \<times> Micros list \<Rightarrow> JsonValue result" where
  "json_reassignment_entry v = j_object [
     (''function_class'', j_string (FunctionClass_to_string (ek_cls (fst v)))),
     (''scope'', j_string (ek_scope (fst v))), (''stamps'', j_list j_i64 (snd v))]"

definition json_coordinator :: "FabricState \<Rightarrow> JsonValue result" where
  "json_coordinator s = j_object [
     (''boot'', j_string (ce_boot (fs_epoch s))), (''epoch'', j_u64 (ce_counter (fs_epoch s))),
     (''epoch_counter'', j_u64 (fs_epoch_counter s)), (''next_attempt'', j_u64 (fs_next_attempt s)),
     (''next_fence_sequence'', j_u64 (fs_next_fence_sequence s)), (''next_lease'', j_u64 (fs_next_lease s)),
     (''previous_epoch_counter'', j_u64 (fs_previous_epoch_counter s))]"

definition json_topology :: "FabricState \<Rightarrow> JsonValue result" where
  "json_topology s = j_object [
     (''devices'', j_list json_device (if fs_has_topology s then ts_devices (fs_topology s) else [])),
     (''freshness'', (if fs_has_topology s then json_freshness (ts_freshness (fs_topology s)) else Inr JNull)),
     (''generation'', j_u64 (if fs_has_topology s then ts_generation (fs_topology s) else 0)),
     (''hosts'', j_list json_host (if fs_has_topology s then ts_hosts (fs_topology s) else [])),
     (''links'', j_list json_link (if fs_has_topology s then ts_links (fs_topology s) else [])),
     (''present'', j_bool (fs_has_topology s)),
     (''provenance'', (if fs_has_topology s then json_provenance (ts_provenance (fs_topology s)) else Inr JNull))]"

definition json_policy :: "FabricState \<Rightarrow> JsonValue result" where
  "json_policy s = j_object [
     (''default_deny'', j_bool (if fs_has_policy s then ps_default_deny (fs_policy s) else True)),
     (''freshness'', (if fs_has_policy s then json_freshness (ps_freshness (fs_policy s)) else Inr JNull)),
     (''generation'', j_u64 (if fs_has_policy s then ps_generation (fs_policy s) else 0)),
     (''present'', j_bool (fs_has_policy s)),
     (''provenance'', (if fs_has_policy s then json_provenance (ps_provenance (fs_policy s)) else Inr JNull)),
     (''rules'', j_list json_policy_rule (if fs_has_policy s then ps_rules (fs_policy s) else []))]"

definition state_document :: "Bounds \<Rightarrow> FabricState \<Rightarrow> JsonValue result" where
  "state_document bounds s = j_object [
     (''assignments'', j_list json_assignment (map snd (fs_assignments s))),
     (''authority'', j_list json_authority (map snd (fs_authority s))),
     (''capabilities'', j_list json_capability (map snd (fs_capabilities s))),
     (''canonical_encoding_version'', j_u64 (ucast (kCanonicalEncodingVersion))),
     (''coordinator'', json_coordinator s),
     (''functions'', j_list json_function (map snd (fs_functions s))),
     (''observations'', j_list json_observation (map snd (fs_observations s))), (''policy'', json_policy s),
     (''product'', j_string (kProductName)),
     (''reassignments'', j_list json_reassignment_entry (fs_reassignments s)),
     (''scopes'', j_list json_scope_entry (fs_scope_specs s)),
     (''sources'', j_list json_source_entry (fs_sources s)),
     (''state_digest'', j_string (digest_hex (compute_state_digest bounds s))),
     (''store_format_version'', j_u64 (ucast (kStoreFormatVersion))), (''topology'', json_topology s),
     (''version'', j_string (version_string))]"


definition export_state_json :: "FabricState \<Rightarrow> Bounds \<Rightarrow> string \<times> Status" where
  "export_state_json s bounds =
     (case state_document bounds s of
        Inl e \<Rightarrow> ([], Inl e)
      | Inr v \<Rightarrow> json_dump v (max_export_bytes bounds))"

subsection \<open>Explanations\<close>

definition json_candidate :: "CandidateEvaluation \<Rightarrow> JsonValue result" where
  "json_candidate v = j_object [
     (''capability_generation'', j_u64 (ca_capability_generation v)),
     (''contributing'', j_strings (map reason_to_string (ca_contributing v))),
     (''device'', j_string (ca_device v)), (''eligible'', j_bool (ca_eligible v)),
     (''evaluation_digest'', j_string (digest_hex (ca_evaluation_digest v))),
     (''host'', j_string (ca_host v)), (''incarnation_boot'', j_string (in_boot (ca_incarnation v))),
     (''incarnation_generation'', j_u64 (in_generation (ca_incarnation v))),
     (''kind'', j_string (DeviceKind_to_string (ca_kind v))),
     (''kind_rank'', j_u64 (ucast (ca_kind_rank v))),
     (''locality_rank'', j_u64 (ucast (ca_locality_rank v))),
     (''mode'', j_string (ExecutionMode_to_string (ca_mode v))),
     (''offload_rank'', j_u64 (ucast (ca_offload_rank v))), (''rank'', j_u64 (ca_rank v)),
     (''reason'', j_string (reason_to_string (ca_reason v))),
     (''utilization_ppm'', j_u64 (ca_utilization_ppm v)),
     (''verdict'', j_string (MatchVerdict_to_string (ca_verdict v)))]"

definition explanation_document :: "Explanation \<Rightarrow> JsonValue result" where
  "explanation_document v = j_object [
     (''assignment'', j_string (ex_assignment v)), (''attempt'', j_u64 (ex_attempt v)),
     (''authority'', j_string (ex_authority v)), (''binding'', json_binding (ex_binding v)),
     (''candidate_count'', j_u64 (of_nat (ex_candidates_total v))),
     (''candidates'', j_list json_candidate (ex_candidates v)),
     (''candidates_truncated'', j_bool (ex_candidates_truncated v)),
     (''decision'', j_string (Decision_to_string (ex_decision v))),
     (''decision_digest'', j_string (digest_hex (ex_decision_digest v))),
     (''exclusivity'', j_string (Exclusivity_to_string (ex_exclusivity v))),
     (''execution_mode'', j_string (ExecutionMode_to_string (ex_mode v))),
     (''fence_epoch'', j_u64 (ft_epoch (ex_fence v))),
     (''fence_sequence'', j_u64 (ft_sequence (ex_fence v))), (''function'', j_string (ex_function v)),
     (''function_class'', j_string (FunctionClass_to_string (ex_cls v))),
     (''input_digest'', j_string (digest_hex (ex_input_digest v))), (''lease'', j_u64 (ex_lease v)),
     (''primary_reason'', j_string (reason_to_string (ex_primary_reason v))),
     (''reasons'', j_strings (map reason_to_string (ex_reasons v))),
     (''replaced'', j_string (ex_replaced v)), (''request_id'', j_string (ex_request_id v)),
     (''scope'', json_scope (ex_scope v)), (''scope_id'', j_string (ex_scope_id v)),
     (''selected_device'', j_string (ex_selected_device v))]"


definition explanation_to_json :: "Explanation \<Rightarrow> nat \<Rightarrow> string \<times> Status" where
  "explanation_to_json v max_bytes =
     (case explanation_document v of
        Inl e \<Rightarrow> ([], Inl e)
      | Inr document \<Rightarrow> json_dump document max_bytes)"

subsection \<open>Every document is well formed\<close>

text \<open>\<open>j_ok k r\<close>: the conversion succeeded with a document of at most \<open>k\<close> levels below it.\<close>

definition j_ok :: "nat \<Rightarrow> JsonValue result \<Rightarrow> bool" where
  "j_ok k r \<longleftrightarrow> (\<exists>v. r = Inr v \<and> json_wf is_i64 k v)"

named_theorems document_rules "conversions that always succeed"

lemma j_ok_leaves [simp]:
  "j_ok k (j_string t) \<longleftrightarrow> ascii t" "j_ok k (j_bool b)" "j_ok k (j_u64 n)" "j_ok k (j_i64 x) \<longleftrightarrow> is_i64 x" "j_ok k (Inr JNull)"
  by (simp_all add: j_ok_def j_string_def j_bool_def j_u64_def j_i64_def)

lemma j_ok_if [simp]: "j_ok k (if c then r else r') \<longleftrightarrow> (if c then j_ok k r else j_ok k r')"
  by simp

lemma j_each_ok: "\<forall>x \<in> set xs. j_ok k (f x) \<Longrightarrow> \<exists>vs. j_each f xs = Inr vs \<and> (\<forall>v \<in> set vs. json_wf is_i64 k v)"
  by (induction xs) (auto simp: j_ok_def)

lemma j_list_ok: "\<forall>x \<in> set xs. j_ok k (f x) \<Longrightarrow> j_ok (Suc k) (j_list f xs)"
  using j_each_ok [of xs k f] by (auto simp: j_ok_def j_list_def json_array_def)

lemma j_strings_ok: "\<forall>t \<in> set ts. ascii t \<Longrightarrow> j_ok (Suc k) (j_strings ts)"
  unfolding j_strings_def by (rule j_list_ok) simp

lemma j_members_ok:
  "\<forall>m \<in> set ms. ascii (fst m) \<and> j_ok k (snd m) \<Longrightarrow>
   \<exists>vs. j_members ms = Inr vs \<and> map fst vs = map fst ms \<and> (\<forall>m \<in> set vs. ascii (fst m) \<and> json_wf is_i64 k (snd m))"
  by (induction ms rule: j_members.induct) (auto simp: j_ok_def)

lemma distinct_sort_key: "distinct (map fst ms) \<Longrightarrow> sorted_wrt (<) (map fst (sort_key fst ms))"
  by (simp add: strict_sorted_iff distinct_map)

lemma j_object_ok:
  assumes "distinct (map fst ms)" and "\<forall>m \<in> set ms. ascii (fst m) \<and> j_ok k (snd m)"
  shows "j_ok (Suc k) (j_object ms)"
proof -
  obtain vs where vs: "j_members ms = Inr vs" "map fst vs = map fst ms" "\<forall>m \<in> set vs. ascii (fst m) \<and> json_wf is_i64 k (snd m)"
    using j_members_ok [OF assms(2)] by blast
  have "sorted_wrt (<) (map fst (sort_key fst vs))" using assms(1) vs(2) distinct_sort_key [of vs] by simp
  with vs show ?thesis by (simp add: j_ok_def j_object_def json_object_def duplicate_key_sorted Let_def)
qed

lemma ascii_token: "token_ok t \<Longrightarrow> ascii t"
  by (auto simp: token_ok_def is_valid_token_def ascii_def is_head_def is_tail_def char_in_def list_all_iff split: list.splits)

lemma ascii_append [simp]: "ascii (s @ t) \<longleftrightarrow> ascii s \<and> ascii t"
  by (simp add: ascii_def)

lemma ascii_simps [simp]: "ascii []" "ascii (c # s) \<longleftrightarrow> of_char c < (0x80 :: nat) \<and> ascii s"
  by (simp_all add: ascii_def)

lemma ascii_decimal [simp]: "ascii (decimal n)"
proof -
  have "is_digit c \<Longrightarrow> of_char c < (0x80 :: nat)" for c by (simp add: char_in_def)
  then show ?thesis using decimal_is_digits(2) [of _ n] unfolding ascii_def list_all_iff by blast
qed

lemma ascii_hex [simp]: "ascii (digest_hex d)"
  using digest_hex_lower_hex [of d] by (auto simp: is_lower_hex_def ascii_def list_all_iff char_in_def)

lemma ascii_version [simp]: "ascii (version_to_string v)"
  by (simp add: version_to_string_def)

lemma ascii_FunctionClass [simp]: "ascii (FunctionClass_to_string a)" by (cases a; simp)
lemma ascii_Semantic [simp]: "ascii (Semantic_to_string a)" by (cases a; simp)
lemma ascii_ScopeKind [simp]: "ascii (ScopeKind_to_string a)" by (cases a; simp)
lemma ascii_ExclusiveKeyMode [simp]: "ascii (ExclusiveKeyMode_to_string a)" by (cases a; simp)
lemma ascii_DeviceKind [simp]: "ascii (DeviceKind_to_string a)" by (cases a; simp)
lemma ascii_LinkKind [simp]: "ascii (LinkKind_to_string a)" by (cases a; simp)
lemma ascii_MatchVerdict [simp]: "ascii (MatchVerdict_to_string a)" by (cases a; simp)
lemma ascii_AuthorityAction [simp]: "ascii (AuthorityAction_to_string a)" by (cases a; simp)
lemma ascii_Liveness [simp]: "ascii (Liveness_to_string a)" by (cases a; simp)
lemma ascii_Exclusivity [simp]: "ascii (Exclusivity_to_string a)" by (cases a; simp)
lemma ascii_ExecutionMode [simp]: "ascii (ExecutionMode_to_string a)" by (cases a; simp)
lemma ascii_AssignmentState [simp]: "ascii (AssignmentState_to_string a)" by (cases a; simp)
lemma ascii_EffectOutcome [simp]: "ascii (EffectOutcome_to_string a)" by (cases a; simp)
lemma ascii_Decision [simp]: "ascii (Decision_to_string a)" by (cases a; simp)
lemma ascii_EvidenceDomain [simp]: "ascii (EvidenceDomain_to_string a)" by (cases a; simp)

lemma ascii_reason [simp]: "ascii (reason_to_string c)"
proof -
  have "\<forall>e \<in> set NOF_REASON_CODES. ascii (snd e)" by (simp add: NOF_REASON_CODES_def ascii_def)
  then have "map_of NOF_REASON_CODES c = Some t \<Longrightarrow> ascii t" for t using map_of_SomeD by fastforce
  then show ?thesis by (auto simp: reason_to_string_def ascii_def split: option.split)
qed

text \<open>
  Depth is counted in a form the simplifier decides: an object or array needs one level more than
  its members.
\<close>

lemma object_ok:
  "0 < k \<Longrightarrow> distinct (map fst ms) \<Longrightarrow> list_all (\<lambda>m. ascii (fst m) \<and> j_ok (k - 1) (snd m)) ms \<Longrightarrow> j_ok k (j_object ms)"
  using j_object_ok [of ms "k - 1"] by (simp add: list_all_iff)

lemma list_ok: "0 < k \<Longrightarrow> (\<And>x. x \<in> set xs \<Longrightarrow> j_ok (k - 1) (f x)) \<Longrightarrow> j_ok k (j_list f xs)"
  using j_list_ok [of xs "k - 1" f] by simp

lemma strings_ok: "0 < k \<Longrightarrow> (\<And>x. x \<in> set xs \<Longrightarrow> ascii x) \<Longrightarrow> j_ok k (j_strings xs)"
  using j_strings_ok [of xs "k - 1"] by simp

lemmas record_oks = provenance_ok_def freshness_ok_def incarnation_ok_def epoch_ok_def host_record_ok_def
  device_record_ok_def link_ok_def function_ok_def capability_record_ok_def authority_ok_def observation_ok_def
  transition_record_ok_def effect_record_ok_def scope_spec_ok_def list_all_iff

lemma provenance_json [simp]: "0 < k \<Longrightarrow> provenance_ok v \<Longrightarrow> j_ok k (json_provenance v)"
  unfolding json_provenance_def by (rule object_ok) (simp_all add: record_oks ascii_token)

lemma freshness_json [simp]: "0 < k \<Longrightarrow> freshness_ok v \<Longrightarrow> j_ok k (json_freshness v)"
  unfolding json_freshness_def by (rule object_ok) (simp_all add: record_oks)

lemma incarnation_json [simp]: "0 < k \<Longrightarrow> incarnation_ok v \<Longrightarrow> j_ok k (json_incarnation v)"
  unfolding json_incarnation_def by (rule object_ok) (simp_all add: record_oks ascii_token)

lemma fence_json [simp]: "0 < k \<Longrightarrow> j_ok k (json_fence v)"
  unfolding json_fence_def by (rule object_ok) simp_all

lemma binding_json [simp]: "0 < k \<Longrightarrow> j_ok k (json_binding v)"
  unfolding json_binding_def by (rule object_ok) simp_all

lemma demand_json [simp]: "0 < k \<Longrightarrow> j_ok k (json_demand v)"
  unfolding json_demand_def by (rule object_ok) simp_all

lemma capacity_json [simp]: "0 < k \<Longrightarrow> j_ok k (json_capacity v)"
  unfolding json_capacity_def by (rule object_ok) simp_all

lemma semantics_json [simp]: "0 < k \<Longrightarrow> j_ok k (json_semantics v)"
  unfolding json_semantics_def by (rule strings_ok) auto

lemma named_strings [simp]:
  "0 < k \<Longrightarrow> j_ok k (j_strings (map DeviceKind_to_string ds))"
  "0 < k \<Longrightarrow> j_ok k (j_strings (map FunctionClass_to_string cs))"
  "0 < k \<Longrightarrow> j_ok k (j_strings (map AuthorityAction_to_string as))"
  "0 < k \<Longrightarrow> j_ok k (j_strings (map reason_to_string rs))"
  by (auto intro!: strings_ok)

lemma token_strings [simp]: "0 < k \<Longrightarrow> list_all token_ok ts \<Longrightarrow> j_ok k (j_strings ts)"
  by (rule strings_ok) (auto simp: list_all_iff ascii_token)

lemma scope_json [simp]: "0 < k \<Longrightarrow> scope_spec_ok mt v \<Longrightarrow> ascii (ss_selector v) \<Longrightarrow> j_ok k (json_scope v)"
  unfolding json_scope_def by (rule object_ok) (simp_all add: record_oks ascii_token)

lemma transition_json [simp]: "1 < k \<Longrightarrow> transition_record_ok v \<Longrightarrow> j_ok k (json_transition v)"
  unfolding json_transition_def by (rule object_ok) (simp_all add: record_oks)

lemma effect_json [simp]: "1 < k \<Longrightarrow> effect_record_ok v \<Longrightarrow> j_ok k (json_effect v)"
  unfolding json_effect_def effect_record_ok_def by (rule object_ok) simp_all

lemma assignment_json [simp]:
  "3 < k \<Longrightarrow> assignment_ok mt bounds v \<Longrightarrow> ascii (ss_selector (ar_scope v)) \<Longrightarrow> j_ok k (json_assignment v)"
  unfolding json_assignment_def assignment_ok_def
  by (rule object_ok) (simp_all add: ascii_token list_ok list_all_iff scope_json [of _ mt])

lemma device_json [simp]: "1 < k \<Longrightarrow> device_record_ok bounds v \<Longrightarrow> j_ok k (json_device v)"
  unfolding json_device_def device_record_ok_def by (rule object_ok) (simp_all add: ascii_token)

lemma capability_json [simp]: "1 < k \<Longrightarrow> capability_record_ok v \<Longrightarrow> j_ok k (json_capability v)"
  unfolding json_capability_def capability_record_ok_def by (rule object_ok) (simp_all add: ascii_token)

lemma policy_rule_json [simp]: "1 < k \<Longrightarrow> j_ok k (json_policy_rule v)"
  unfolding json_policy_rule_def by (rule object_ok) simp_all

lemma authority_json [simp]: "1 < k \<Longrightarrow> authority_ok v \<Longrightarrow> j_ok k (json_authority v)"
  unfolding json_authority_def authority_ok_def by (rule object_ok) (simp_all add: ascii_token)

lemma observation_json [simp]: "1 < k \<Longrightarrow> observation_ok v \<Longrightarrow> j_ok k (json_observation v)"
  unfolding json_observation_def observation_ok_def by (rule object_ok) (simp_all add: ascii_token)

lemma function_json [simp]: "1 < k \<Longrightarrow> function_ok v \<Longrightarrow> j_ok k (json_function v)"
  unfolding json_function_def function_ok_def by (rule object_ok) (simp_all add: ascii_token)

lemma host_json [simp]: "1 < k \<Longrightarrow> host_record_ok bounds v \<Longrightarrow> j_ok k (json_host v)"
  unfolding json_host_def host_record_ok_def by (rule object_ok) (simp_all add: ascii_token)

lemma link_json [simp]: "0 < k \<Longrightarrow> link_ok v \<Longrightarrow> j_ok k (json_link v)"
  unfolding json_link_def link_ok_def by (rule object_ok) (simp_all add: ascii_token)

lemma scope_entry_json:
  "1 < k \<Longrightarrow> token_ok (fst e) \<Longrightarrow> scope_spec_ok mt (snd e) \<Longrightarrow> ascii (ss_selector (snd e)) \<Longrightarrow> j_ok k (json_scope_entry e)"
  unfolding json_scope_entry_def by (rule object_ok) (simp_all add: ascii_token scope_json [of _ mt])

lemma source_entry_json [simp]: "0 < k \<Longrightarrow> source_ok e \<Longrightarrow> j_ok k (json_source_entry e)"
  unfolding json_source_entry_def source_ok_def by (rule object_ok) (simp_all add: ascii_token)

lemma reassignment_entry_json [simp]: "1 < k \<Longrightarrow> reassignment_ok bounds e \<Longrightarrow> j_ok k (json_reassignment_entry e)"
  unfolding json_reassignment_entry_def reassignment_ok_def items_ok_def
  by (rule object_ok) (simp_all add: ascii_token list_ok)

lemma coordinator_json [simp]: "0 < k \<Longrightarrow> epoch_ok (fs_epoch s) \<Longrightarrow> j_ok k (json_coordinator s)"
  unfolding json_coordinator_def epoch_ok_def by (rule object_ok) (simp_all add: ascii_token)

lemma topology_json [simp]:
  "3 < k \<Longrightarrow> (if fs_has_topology s then topology_ok bounds (fs_topology s) else fs_topology s = no_topology) \<Longrightarrow> j_ok k (json_topology s)"
  unfolding json_topology_def topology_ok_def
  by (rule object_ok) (auto simp: list_all_iff intro!: list_ok device_json [of _ bounds] host_json [of _ bounds])

lemma policy_json [simp]:
  "3 < k \<Longrightarrow> (if fs_has_policy s then policy_ok bounds (fs_policy s) else fs_policy s = no_policy) \<Longrightarrow> j_ok k (json_policy s)"
  unfolding json_policy_def policy_ok_def by (rule object_ok) (auto intro!: list_ok)

text \<open>Tokens are ASCII by their grammar; of the stored texts only the selectors need a hypothesis.\<close>

definition selectors_ascii :: "FabricState \<Rightarrow> bool" where
  "selectors_ascii s \<longleftrightarrow>
     list_all (\<lambda>e. ascii (ss_selector (ar_scope (snd e)))) (fs_assignments s) \<and>
     list_all (\<lambda>e. ascii (ss_selector (snd e))) (fs_scope_specs s)"

lemma version_ascii [simp]: "ascii version_string" "ascii kProductName"
  by (simp_all add: version_string_def kProductName_def)

lemma snd_list_ok: "0 < k \<Longrightarrow> (\<And>e. e \<in> set m \<Longrightarrow> j_ok (k - 1) (f (snd e))) \<Longrightarrow> j_ok k (j_list f (map snd m))"
  by (rule list_ok) auto

lemma state_document_ok:
  assumes ok: "state_ok mt bounds s" and ascii: "selectors_ascii s"
  shows "j_ok 64 (state_document b s)"
proof -
  note ok = ok [unfolded state_ok_def items_ok_def] and ascii = ascii [unfolded selectors_ascii_def list_all_iff]
  have "j_ok 63 (j_list json_assignment (map snd (fs_assignments s)))"
    using ok ascii by (intro snd_list_ok assignment_json [of _ mt bounds]) simp_all
  moreover have "j_ok 63 (j_list json_authority (map snd (fs_authority s)))" using ok by (intro snd_list_ok) simp_all
  moreover have "j_ok 63 (j_list json_capability (map snd (fs_capabilities s)))" using ok by (intro snd_list_ok) simp_all
  moreover have "j_ok 63 (j_list json_function (map snd (fs_functions s)))" using ok by (intro snd_list_ok) simp_all
  moreover have "j_ok 63 (j_list json_observation (map snd (fs_observations s)))" using ok by (intro snd_list_ok) simp_all
  moreover have "j_ok 63 (j_list json_reassignment_entry (fs_reassignments s))"
    using ok by (intro list_ok reassignment_entry_json [of _ bounds]) simp_all
  moreover have "j_ok 63 (j_list json_scope_entry (fs_scope_specs s))"
    using ok ascii by (intro list_ok scope_entry_json [of _ _ mt]) simp_all
  moreover have "j_ok 63 (j_list json_source_entry (fs_sources s))" using ok by (intro list_ok) simp_all
  moreover have "j_ok 63 (json_topology s)" using ok by (intro topology_json [of _ _ bounds]) simp_all
  moreover have "j_ok 63 (json_policy s)" using ok by (intro policy_json [of _ _ bounds]) simp_all
  moreover have "j_ok 63 (json_coordinator s)" using ok by (intro coordinator_json) simp_all
  ultimately show ?thesis unfolding state_document_def by (intro object_ok) simp_all
qed

subsection \<open>The text of an export\<close>

lemma dump_each_error:
  "snd (dump_each first fs out) = Inl e \<Longrightarrow> \<exists>f \<in> set fs. \<exists>out'. snd (f out') = Inl e"
proof (induction fs arbitrary: first out)
  case (Cons f fs)
  show ?case
  proof (cases "f (if first then out else out @ '','')")
    case (Pair t st)
    with Cons show ?thesis by (cases st) (auto, metis snd_conv)
  qed
qed simp

lemma dump_enter_error:
  "snd (dump_enter m d body out) = Inl e \<Longrightarrow> d \<le> kJsonMaxDepth \<Longrightarrow> (snd (body out) = Inl e \<Longrightarrow> code e = RC_OversizedInput) \<Longrightarrow>
   code e = RC_OversizedInput"
  by (auto simp: dump_enter_def split: if_splits)

lemma dump_close_error: "snd (dump_close b r) = Inl e \<longleftrightarrow> snd r = Inl e"
  by (auto simp: dump_close_def split: prod.splits sum.splits)

lemma dump_into_error:
  "json_wf p k v \<Longrightarrow> d + k \<le> kJsonMaxDepth \<Longrightarrow> snd (dump_into m d v out) = Inl e \<Longrightarrow> code e = RC_OversizedInput"
proof (induction m d v arbitrary: k out e rule: dump_into.induct)
  case (6 m d vs)
  have "snd (f out) = Inl e \<Longrightarrow> code e = RC_OversizedInput" if "f \<in> set (map (dump_into m (d + 1)) vs)" for f out e
    using that 6 by (cases k) auto
  then show ?case using "6.prems" by (auto elim!: dump_enter_error simp: dump_close_error dest!: dump_each_error)
next
  case (7 m d ms)
  have "snd (f out) = Inl e \<Longrightarrow> code e = RC_OversizedInput"
    if "f \<in> set (map (\<lambda>e text. dump_into m (d + 1) (snd e) (dump_key (fst e) text)) ms)" for f out e
    using that 7 by (cases k) auto
  then show ?case using "7.prems" by (auto elim!: dump_enter_error simp: dump_close_error dest!: dump_each_error)
qed (auto elim!: dump_enter_error)

lemma json_dump_cases:
  assumes "json_wf is_i64 kJsonMaxDepth v"
  obtains (written) "json_dump v m = (render v, ok_status)" "json_parse kJsonMaxDepth (render v) = Inr (json_normal v)"
    | (oversized) e where "json_dump v m = ([], Inl e)" "code e = RC_OversizedInput"
proof (cases "dump_into m 0 v []")
  case (Pair out st)
  show ?thesis
  proof (cases st)
    case (Inl e)
    with Pair dump_into_error [OF assms, of 0 m "[]" e] show ?thesis by (intro oversized [of e]) (simp_all add: json_dump_def)
  next
    case (Inr u)
    with Pair dump_into_render [of m 0 v "[]" out u] rendered_parses [OF assms] show ?thesis
      by (intro written) (simp_all add: json_dump_def)
  qed
qed

text \<open>C39: the JSON export of a well-formed state never refuses a record.  It either exceeds the export
  byte bound, or produces a text that the strict reader parses back to the same document: every
  record of the state, with members in canonical order and non-negative integers read as unsigned.
\<close>

theorem export_json_reads_back:
  assumes "state_ok mt bounds s" and "selectors_ascii s"
  shows "\<exists>document. state_document b s = Inr document \<and>
    (case export_state_json s b of
       (out, Inl e) \<Rightarrow> out = [] \<and> code e = RC_OversizedInput
     | (out, Inr _) \<Rightarrow> json_parse kJsonMaxDepth out = Inr (json_normal document))"
proof -
  obtain v where v: "state_document b s = Inr v" "json_wf is_i64 kJsonMaxDepth v"
    using state_document_ok [OF assms, of b] by (auto simp: j_ok_def kJsonMaxDepth_def)
  from v(2) show ?thesis by (rule json_dump_cases [of v "max_export_bytes b"]) (simp_all add: export_state_json_def v(1))
qed

theorem export_json_reads_back_witness:
  "let s = empty_state\<lparr>fs_scope_specs := [(''s1'', \<lparr>ss_kind = SK_Flow, ss_domain = ''host-a'', ss_device = [], ss_selector = ''eth0''\<rparr>)]\<rparr> in
   \<exists>document. state_document default_bounds s = Inr document \<and>
    (case export_state_json s default_bounds of
       (out, Inl e) \<Rightarrow> out = [] \<and> code e = RC_OversizedInput
     | (out, Inr _) \<Rightarrow> json_parse kJsonMaxDepth out = Inr (json_normal document))"
proof -
  let ?s = "empty_state\<lparr>fs_scope_specs := [(''s1'', \<lparr>ss_kind = SK_Flow, ss_domain = ''host-a'', ss_device = [], ss_selector = ''eth0''\<rparr>)]\<rparr>"
  have "state_ok 64 default_bounds ?s"
    by (simp add: state_ok_def empty_state_def no_epoch_def epoch_ok_def token_ok_def keyed_def om_ok_def
        items_ok_def digest_zero_def scope_spec_ok_def default_bounds_def is_valid_token_def is_head_def is_tail_def char_in_def kMaxTokenLength_def)
  moreover have "selectors_ascii ?s" by (simp add: selectors_ascii_def empty_state_def)
  ultimately show ?thesis using export_json_reads_back [of 64 default_bounds ?s default_bounds] by (simp only: Let_def)
qed
end
