(* ===== verification/Nof_Text.thy ===== *)
theory Nof_Text
  imports Nof_Export
begin

text \<open>
  The readable renderings: the text export of the state, \<open>render_assignment\<close>, the recovery report
  and the counters (\<open>src/export.cpp\<close>), the rendered explanation (\<open>src/explanation.cpp\<close>),
  the names of the recovery policies, recovery classifications and export formats, and
  \<open>Fabric::export_canonical\<close> and \<open>Fabric::stats\<close> over them.  A rendering is a list of
  lines, each closed by a newline; the \<open>out\<close> parameter of the program starts empty.
\<close>

subsection \<open>Lines\<close>

definition u64_text :: "u64 \<Rightarrow> string" where "u64_text n = decimal (unat n)"

definition bool_text :: "bool \<Rightarrow> string" where "bool_text b = (if b then ''true'' else ''false'')"

definition unlines :: "string list \<Rightarrow> string" where
  "unlines ls = concat (map (\<lambda>l. l @ [CHR 0x0A]) ls)"

fun joined :: "string \<Rightarrow> string list \<Rightarrow> string" where
  "joined sep [] = []"
| "joined sep [t] = t"
| "joined sep (t # ts) = t @ sep @ joined sep ts"

definition or_dash :: "string \<Rightarrow> string" where "or_dash t = (if t = [] then ''-'' else t)"

subsection \<open>Explanations\<close>

definition append_line :: "string \<Rightarrow> string \<Rightarrow> string" where "append_line key val = key @ ''='' @ val"

definition scope_text :: "ScopeSpec \<Rightarrow> string" where
  "scope_text v = ScopeKind_to_string (ss_kind v) @ ''/'' @ or_dash (ss_domain v) @ ''/'' @ or_dash (ss_device v) @
     ''/'' @ or_dash (ss_selector v)"

definition generation_text :: "GenerationBinding \<Rightarrow> string" where
  "generation_text b = ''topology='' @ u64_text (gb_topology b) @ '',capability='' @ u64_text (gb_capability b) @
     '',policy='' @ u64_text (gb_policy b) @ '',assignment='' @ u64_text (gb_assignment b) @
     '',schema='' @ u64_text (gb_schema b)"

definition incarnation_text :: "IncarnationId \<Rightarrow> string" where
  "incarnation_text v = u64_text (in_generation v) @ ''@'' @ in_boot v"

definition semantics_text :: "SemanticsMask \<Rightarrow> string" where
  "semantics_text m = or_dash (joined ''+'' (map Semantic_to_string (mask_values m)))"

definition candidate_line :: "CandidateEvaluation \<Rightarrow> string" where
  "candidate_line c =
     ''candidate device='' @ ca_device c @ '' host='' @ ca_host c @ '' kind='' @ DeviceKind_to_string (ca_kind c) @
     '' incarnation='' @ incarnation_text (ca_incarnation c) @
     '' capability_generation='' @ u64_text (ca_capability_generation c) @
     '' eligible='' @ bool_text (ca_eligible c) @ '' verdict='' @ MatchVerdict_to_string (ca_verdict c) @
     '' reason='' @ reason_to_string (ca_reason c) @ '' mode='' @ ExecutionMode_to_string (ca_mode c) @
     '' rank='' @ u64_text (ca_rank c) @ '' offload_rank='' @ u64_text (ucast (ca_offload_rank c)) @
     '' kind_rank='' @ u64_text (ucast (ca_kind_rank c)) @ '' locality_rank='' @ u64_text (ucast (ca_locality_rank c)) @
     '' utilization_ppm='' @ u64_text (ca_utilization_ppm c) @
     '' contributing='' @ joined ''+'' (map reason_to_string (ca_contributing c)) @
     '' evaluation_digest='' @ digest_hex (ca_evaluation_digest c)"

definition render_explanation :: "Explanation \<Rightarrow> string" where
  "render_explanation e = unlines (
     [append_line ''decision'' (Decision_to_string (ex_decision e)),
      append_line ''primary_reason'' (reason_to_string (ex_primary_reason e)),
      append_line ''reasons'' (or_dash (joined '','' (map reason_to_string (ex_reasons e)))),
      append_line ''request_id'' (or_dash (ex_request_id e)),
      append_line ''function'' (or_dash (ex_function e)),
      append_line ''function_class'' (FunctionClass_to_string (ex_cls e)),
      append_line ''scope'' (scope_text (ex_scope e)),
      append_line ''scope_id'' (or_dash (ex_scope_id e)),
      append_line ''exclusivity'' (Exclusivity_to_string (ex_exclusivity e)),
      append_line ''execution_mode'' (ExecutionMode_to_string (ex_mode e)),
      append_line ''binding'' (generation_text (ex_binding e)),
      append_line ''authority'' (or_dash (ex_authority e)),
      append_line ''lease'' (u64_text (ex_lease e)),
      append_line ''fence'' (u64_text (ft_epoch (ex_fence e)) @ '':'' @ u64_text (ft_sequence (ex_fence e))),
      append_line ''attempt'' (u64_text (ex_attempt e)),
      append_line ''assignment'' (or_dash (ex_assignment e)),
      append_line ''replaced'' (or_dash (ex_replaced e)),
      append_line ''selected_device'' (or_dash (ex_selected_device e)),
      append_line ''candidates_total'' (decimal (ex_candidates_total e)),
      append_line ''candidates_reported'' (decimal (length (ex_candidates e))),
      append_line ''candidates_truncated'' (bool_text (ex_candidates_truncated e)),
      append_line ''input_digest'' (digest_hex (ex_input_digest e)),
      append_line ''decision_digest'' (digest_hex (ex_decision_digest e))] @
     map candidate_line (ex_candidates e))"

subsection \<open>The state as text\<close>

definition device_line :: "DeviceRecord \<Rightarrow> string" where
  "device_line d = ''device '' @ dr_id d @ '' host='' @ dr_host d @ '' kind='' @ DeviceKind_to_string (dr_kind d) @
     '' incarnation='' @ incarnation_text (dr_incarnation d) @
     (if dr_decommissioned d then '' decommissioned'' else [])"

definition assignment_line :: "AssignmentRecord \<Rightarrow> string" where
  "assignment_line r = ''assignment '' @ ar_id r @ '' function='' @ ar_function r @ '' scope='' @ ar_scope_id r @
     '' device='' @ ar_device r @ '' mode='' @ ExecutionMode_to_string (ar_mode r) @
     '' state='' @ AssignmentState_to_string (ar_state r) @ '' generation='' @ u64_text (ar_generation r) @
     '' fence='' @ u64_text (ft_epoch (ar_fence r)) @ '':'' @ u64_text (ft_sequence (ar_fence r)) @
     '' reason='' @ reason_to_string (ar_state_reason r)"

definition source_line :: "SourceKey \<times> SourceState \<Rightarrow> string" where
  "source_line e = ''source '' @ sk_source (fst e) @ '' domain='' @ EvidenceDomain_to_string (sk_domain (fst e)) @
     '' last_sequence='' @ u64_text (st_last_sequence (snd e)) @
     '' restart_floor='' @ u64_text (st_restart_floor (snd e))"

definition topology_lines :: "FabricState \<Rightarrow> string list" where
  "topology_lines s = (''topology_present='' @ bool_text (fs_has_topology s)) #
     (if fs_has_topology s then
        [''topology_generation='' @ u64_text (ts_generation (fs_topology s)),
         ''hosts='' @ decimal (length (ts_hosts (fs_topology s))),
         ''devices='' @ decimal (length (ts_devices (fs_topology s)))] @
        map device_line (ts_devices (fs_topology s))
      else [])"

definition policy_lines :: "FabricState \<Rightarrow> string list" where
  "policy_lines s = (''policy_present='' @ bool_text (fs_has_policy s)) #
     (if fs_has_policy s then
        (''policy_generation='' @ u64_text (ps_generation (fs_policy s))) #
        map (\<lambda>r. ''rule '' @ FunctionClass_to_string (pr_cls r) @ '' priority='' @ u64_text (ucast (pr_priority r)))
          (ps_rules (fs_policy s))
      else [])"

definition counted :: "string \<Rightarrow> ('a \<Rightarrow> string) \<Rightarrow> 'a list \<Rightarrow> string list" where
  "counted name show_item items = (name @ ''='' @ decimal (length items)) # map show_item items"

definition state_lines :: "Bounds \<Rightarrow> FabricState \<Rightarrow> string list" where
  "state_lines bounds s =
     [''version='' @ version_string,
      ''epoch='' @ u64_text (ce_counter (fs_epoch s)) @ '' boot='' @ ce_boot (fs_epoch s),
      ''state_digest='' @ digest_hex (compute_state_digest bounds s)] @
     topology_lines s @ policy_lines s @
     counted ''capabilities'' (\<lambda>e. ''capability '' @ cr_device (snd e) @ '' '' @ FunctionClass_to_string (cr_cls (snd e)) @
       '' generation='' @ u64_text (cr_generation (snd e))) (fs_capabilities s) @
     counted ''authority_grants'' (\<lambda>e. ''authority '' @ fst e @
       (if ag_revoked (snd e) then '' revoked'' else '' active'')) (fs_authority s) @
     counted ''observations'' (\<lambda>e. ''observation '' @ fst e @ '' liveness='' @ Liveness_to_string (do_liveness (snd e)))
       (fs_observations s) @
     counted ''assignments'' (\<lambda>e. assignment_line (snd e)) (fs_assignments s) @
     counted ''scopes'' (\<lambda>e. ''scope '' @ fst e @ '' kind='' @ ScopeKind_to_string (ss_kind (snd e))) (fs_scope_specs s) @
     counted ''sources'' source_line (fs_sources s)"

definition state_title :: string where "state_title = ''network-offload-fabric state''"

text \<open>Only the answer of the first \<open>line\<close> is looked at: the bound is not applied to the rest.\<close>

definition export_state_text :: "FabricState \<Rightarrow> Bounds \<Rightarrow> string \<times> Status" where
  "export_state_text s bounds =
     (if length (unlines [state_title]) > max_export_bytes bounds
      then (unlines [state_title], Err RC_OversizedInput ''text export exceeds the configured bound'')
      else (unlines (state_title # state_lines bounds s), ok_status))"

definition render_assignment :: "AssignmentRecord \<Rightarrow> string" where
  "render_assignment r = unlines (
     [''assignment='' @ ar_id r,
      ''state='' @ AssignmentState_to_string (ar_state r),
      ''state_reason='' @ reason_to_string (ar_state_reason r),
      ''function='' @ ar_function r @ '' class='' @ FunctionClass_to_string (ar_cls r),
      ''scope='' @ ar_scope_id r @ '' exclusivity='' @ Exclusivity_to_string (ar_exclusivity r) @
        '' key='' @ ExclusiveKeyMode_to_string (ar_exclusive_key r),
      ''mode='' @ ExecutionMode_to_string (ar_mode r),
      ''device='' @ ar_device r @ '' host='' @ ar_host r @ '' kind='' @ DeviceKind_to_string (ar_kind r),
      ''incarnation='' @ incarnation_text (ar_incarnation r),
      ''generation='' @ u64_text (ar_generation r),
      ''binding=topology:'' @ u64_text (gb_topology (ar_binding r)) @
        '',capability:'' @ u64_text (gb_capability (ar_binding r)) @
        '',policy:'' @ u64_text (gb_policy (ar_binding r)) @
        '',assignment:'' @ u64_text (gb_assignment (ar_binding r)) @
        '',schema:'' @ u64_text (gb_schema (ar_binding r)),
      ''authority='' @ ar_authority r,
      ''lease='' @ u64_text (ar_lease r) @ '' attempt='' @ u64_text (ar_attempt r),
      ''fence='' @ u64_text (ft_epoch (ar_fence r)) @ '':'' @ u64_text (ft_sequence (ar_fence r)),
      ''digest='' @ digest_hex (assignment_digest r)] @
     map (\<lambda>t. ''history '' @ AssignmentState_to_string (tr_from t) @ ''->'' @ AssignmentState_to_string (tr_to t) @
       '' reason='' @ reason_to_string (tr_reason t) @ '' at='' @ decimal_int (tr_at t)) (ar_history r) @
     map (\<lambda>e. ''effect attempt='' @ u64_text (ef_attempt e) @ '' outcome='' @ EffectOutcome_to_string (ef_outcome e) @
       '' reason='' @ reason_to_string (ef_reason e) @ '' at='' @ decimal_int (ef_observed_at e)) (ar_effects r))"

subsection \<open>Names of the recovery and export options\<close>

primrec RecoveryClassification_to_string :: "RecoveryClassification \<Rightarrow> string" where
  "RecoveryClassification_to_string RK_FreshStore = ''fresh_store''"
| "RecoveryClassification_to_string RK_CleanReopen = ''clean_reopen''"
| "RecoveryClassification_to_string RK_TornTailTruncated = ''torn_tail_truncated''"
| "RecoveryClassification_to_string RK_DamagedTailTruncated = ''damaged_tail_truncated''"
| "RecoveryClassification_to_string RK_RefusedCorrupt = ''refused_corrupt''"
| "RecoveryClassification_to_string RK_IncompatibleVersion = ''incompatible_version''"
| "RecoveryClassification_to_string RK_IncompatibleSemantics = ''incompatible_semantics''"
| "RecoveryClassification_to_string RK_EmptyStore = ''empty_store''"
| "RecoveryClassification_to_string RK_MemoryOnly = ''memory_only''"

datatype ExportFormat = XF_CanonicalJson | XF_CanonicalText | XF_CanonicalBinary

primrec ExportFormat_to_string :: "ExportFormat \<Rightarrow> string" where
  "ExportFormat_to_string XF_CanonicalJson = ''canonical_json''"
| "ExportFormat_to_string XF_CanonicalText = ''canonical_text''"
| "ExportFormat_to_string XF_CanonicalBinary = ''canonical_binary''"

definition parse_export_format :: "string \<Rightarrow> ExportFormat option" where
  "parse_export_format token =
     (if token = ''canonical_json'' \<or> token = ''json'' then Some XF_CanonicalJson
      else if token = ''canonical_text'' \<or> token = ''text'' then Some XF_CanonicalText
      else if token = ''canonical_binary'' \<or> token = ''binary'' then Some XF_CanonicalBinary
      else None)"

primrec RecoveryPolicy_to_string :: "RecoveryPolicy \<Rightarrow> string" where
  "RecoveryPolicy_to_string RP_Refuse = ''refuse''"
| "RecoveryPolicy_to_string RP_TruncateTornTail = ''truncate_torn_tail''"
| "RecoveryPolicy_to_string RP_TruncateDamagedTail = ''truncate_damaged_tail''"

definition parse_recovery_policy :: "string \<Rightarrow> RecoveryPolicy option" where
  "parse_recovery_policy token =
     (if token = ''refuse'' then Some RP_Refuse
      else if token = ''truncate_torn_tail'' then Some RP_TruncateTornTail
      else if token = ''truncate_damaged_tail'' then Some RP_TruncateDamagedTail
      else None)"

lemma export_format_parses [simp]: "parse_export_format (ExportFormat_to_string f) = Some f"
  by (cases f) (simp_all add: parse_export_format_def)

lemma recovery_policy_parses [simp]: "parse_recovery_policy (RecoveryPolicy_to_string p) = Some p"
  by (cases p) (simp_all add: parse_recovery_policy_def)

subsection \<open>Reports and counters\<close>

definition render_recovery :: "RecoveryReport \<Rightarrow> string" where
  "render_recovery r = unlines
     [''recovery_classification='' @ RecoveryClassification_to_string (rr_classification r),
      ''recovery_reason='' @ reason_to_string (rr_reason r),
      ''store_generation='' @ u64_text (rr_store_generation r),
      ''records_replayed='' @ u64_text (rr_records_replayed r),
      ''records_discarded='' @ u64_text (rr_records_discarded r),
      ''bytes_discarded='' @ u64_text (rr_bytes_discarded r),
      ''previous_epoch='' @ u64_text (rr_previous_epoch r),
      ''epoch='' @ u64_text (ce_counter (rr_epoch r)),
      ''epoch_boot='' @ ce_boot (rr_epoch r),
      ''assignments_suspended='' @ decimal (rr_assignments_suspended r),
      ''observations_invalidated='' @ decimal (rr_observations_invalidated r),
      ''authority_invalidated='' @ decimal (rr_authority_invalidated r),
      ''leases_voided='' @ decimal (rr_leases_voided r),
      ''fences_invalidated='' @ u64_text (rr_fences_invalidated r),
      ''authority_restored='' @ bool_text (rr_authority_restored r)]"

definition stats_counters :: "string list" where
  "stats_counters = [
     ''topology_accepted'', ''topology_refused'', ''capability_reports_accepted'',
     ''capability_reports_refused'', ''capability_conflicts'', ''policy_accepted'',
     ''policy_refused'', ''observations_accepted'', ''observations_refused'', ''authority_granted'',
     ''authority_refused'', ''authority_withdrawn'', ''functions_registered'', ''functions_refused'',
     ''plans_accepted'', ''plans_refused'', ''applies_accepted'', ''applies_refused'',
     ''revokes_accepted'', ''revokes_refused'', ''replaces_accepted'', ''replaces_refused'',
     ''reauthorizations_accepted'', ''reauthorizations_refused'', ''effects_applied'',
     ''effects_acknowledged'', ''effects_rejected'', ''effects_failed'', ''effects_unknown'',
     ''effects_fenced'', ''effects_duplicate'', ''exclusive_conflicts'',
     ''reassignment_budget_refusals'', ''reassignments'', ''host_fallbacks'', ''revalidations'',
     ''assignments_suspended'', ''assignments_degraded'', ''cancellations'',
     ''refusals_after_cancel'', ''evidence_superseded'', ''evidence_conflicting'',
     ''evidence_stale_refusals'', ''sequence_regressions'', ''duplicate_deliveries_idempotent'',
     ''duplicate_deliveries_fenced'', ''results_truncated'', ''entries_evicted'',
     ''journal_records_appended'', ''journal_bytes_appended'', ''compactions'', ''commits'',
     ''commit_failures'', ''recovery_events'', ''frames_accepted'', ''frames_refused'',
     ''connections_accepted'', ''connections_refused'', ''requests_handled'', ''requests_refused'',
     ''shutdowns'']"

definition stats_gauges :: "string list" where
  "stats_gauges = [
     ''live_hosts'', ''live_devices'', ''live_functions'', ''live_scopes'', ''live_assignments'',
     ''live_authority_grants'', ''live_observations'', ''live_idempotency_entries'',
     ''live_journal_records'', ''open_connections'', ''in_flight_requests'']"

definition render_stats :: "Stats \<Rightarrow> string" where
  "render_stats st = unlines (map (\<lambda>name. name @ ''='' @ u64_text (st name)) (stats_counters @ stats_gauges))"

definition fabric_stats :: "Impl \<Rightarrow> Stats" where
  "fabric_stats i =
     (let s = im_state i
      in (im_stats i)(
        ''live_hosts'' := (if fs_has_topology s then of_nat (length (ts_hosts (fs_topology s))) else 0),
        ''live_devices'' := (if fs_has_topology s then of_nat (length (ts_devices (fs_topology s))) else 0),
        ''live_functions'' := of_nat (length (fs_functions s)),
        ''live_scopes'' := of_nat (length (fs_scope_specs s)),
        ''live_assignments'' := of_nat (length (fs_assignments s)),
        ''live_authority_grants'' := of_nat (length (fs_authority s)),
        ''live_observations'' := of_nat (length (fs_observations s)),
        ''live_idempotency_entries'' := of_nat (length (fs_idempotency s)),
        ''live_journal_records'' := (case im_store i of None \<Rightarrow> 0 | Some js \<Rightarrow> js_records js)))"

subsection \<open>Exports of the runtime\<close>

definition export_canonical :: "ExportFormat \<Rightarrow> Impl \<Rightarrow> string \<times> Status" where
  "export_canonical format i =
     (case format of
        XF_CanonicalJson \<Rightarrow> export_state_json (im_state i) (im_bounds i)
      | XF_CanonicalText \<Rightarrow> export_state_text (im_state i) (im_bounds i)
      | XF_CanonicalBinary \<Rightarrow>
          (case encode_state (im_state i) (bin_writer (max_canonical_bytes (im_bounds i))) of
             (w, Inl e) \<Rightarrow> ([], Inl e)
           | (w, Inr _) \<Rightarrow>
               if length (bw_buffer w) > max_export_bytes (im_bounds i)
               then ([], Err RC_OversizedInput ''canonical export exceeds the configured bound'')
               else (map (\<lambda>b. char_of (unat b)) (bw_buffer w), ok_status)))"

text \<open>The text export can succeed with a text longer than its bound.\<close>

lemma length_unlines: "length (unlines ls) = sum_list (map (\<lambda>l. Suc (length l)) ls)"
  by (induction ls) (simp_all add: unlines_def)

lemma export_text_exceeds_bound:
  "snd (export_state_text s (b\<lparr>max_export_bytes := 29\<rparr>)) = ok_status \<and>
   29 < length (fst (export_state_text s (b\<lparr>max_export_bytes := 29\<rparr>)))"
  by (simp add: export_state_text_def length_unlines state_title_def state_lines_def)

lemma export_binary_bounded:
  "export_canonical XF_CanonicalBinary i = (out, Inr u) \<Longrightarrow> length out \<le> max_export_bytes (im_bounds i)"
  by (auto simp: export_canonical_def split: prod.splits sum.splits if_splits)

end
