(* ===== verification/Nof_Audit.thy ===== *)
theory Nof_Audit
  imports Nof_Text Nof_Claims
begin

text \<open>
  The built-in audit of the state: \<open>collect_invariants\<close> (\<open>src/export.cpp\<close>) with its tables, and
  \<open>Fabric::verify_invariants\<close> with the rendering of the report.  The audit recounts the exclusive
  claims, the committed demand, the fencing tokens and the uses of every grant from the assignments
  alone, and compares them with the maintained indexes.  \<open>audit_exclusivity_exact\<close> shows that its
  exclusivity checks find a violation exactly when two holders overlap.
\<close>

subsection \<open>The report\<close>

record InvariantViolation =
  iv_invariant :: string
  iv_detail :: string

record InvariantReport =
  ir_clean :: bool
  ir_checked :: nat
  ir_violations :: "InvariantViolation list"

definition add_violation :: "string \<Rightarrow> string \<Rightarrow> InvariantReport \<Rightarrow> InvariantReport" where
  "add_violation invariant why r =
     r\<lparr>ir_violations := ir_violations r @ [\<lparr>iv_invariant = invariant, iv_detail = why\<rparr>], ir_clean := False\<rparr>"

definition violation_if :: "bool \<Rightarrow> string \<Rightarrow> string \<Rightarrow> InvariantReport \<Rightarrow> InvariantReport" where
  "violation_if bad invariant why r = (if bad then add_violation invariant why r else r)"

definition checked_one :: "InvariantReport \<Rightarrow> InvariantReport" where
  "checked_one r = r\<lparr>ir_checked := ir_checked r + 1\<rparr>"

definition render_invariants :: "InvariantReport \<Rightarrow> string" where
  "render_invariants r = unlines (
     [if ir_clean r then ''invariants=clean'' else ''invariants=violated'',
      ''checked='' @ decimal (ir_checked r),
      ''violations='' @ decimal (length (ir_violations r))] @
     map (\<lambda>v. ''violation '' @ iv_invariant v @ '': '' @ iv_detail v) (ir_violations r))"

subsection \<open>The tables recounted from the assignments\<close>

text \<open>The key of \<open>class_claims\<close>, a pair of scope and class, is ordered as an \<open>ExclusivityKey\<close> is.\<close>

record AuditTables =
  at_whole_scope_claims :: "(ScopeId, nat) omap"
  at_class_claims :: "(ExclusivityKey, nat) omap"
  at_recomputed :: "(DeviceId, DemandVector) omap"
  at_fences :: "(FencingToken, AssignmentId) omap"
  at_grant_uses :: "(AuthorityId, nat) omap"

definition no_tables :: AuditTables where
  "no_tables = \<lparr>at_whole_scope_claims = [], at_class_claims = [], at_recomputed = [], at_fences = [],
     at_grant_uses = []\<rparr>"

definition count_of :: "('k, nat) omap \<Rightarrow> 'k \<Rightarrow> nat" where
  "count_of m k = (case map_of m k of None \<Rightarrow> 0 | Some n \<Rightarrow> n)"

definition count_up :: "'k::linorder \<Rightarrow> ('k, nat) omap \<Rightarrow> ('k, nat) omap" where
  "count_up k m = om_put k (count_of m k + 1) m"

definition audit_claim :: "AssignmentRecord \<Rightarrow> AuditTables \<Rightarrow> AuditTables" where
  "audit_claim r t =
     (if ar_exclusivity r = EX_Exclusive then
        if ar_exclusive_key r = EK_PerClass
        then t\<lparr>at_class_claims := count_up (ExclusivityKey (ar_scope_id r) (ar_cls r)) (at_class_claims t)\<rparr>
        else t\<lparr>at_whole_scope_claims := count_up (ar_scope_id r) (at_whole_scope_claims t)\<rparr>
      else t)"

definition audit_grant :: "AssignmentRecord \<Rightarrow> AuditTables \<Rightarrow> AuditTables" where
  "audit_grant r t =
     (if ar_authority r \<noteq> [] then t\<lparr>at_grant_uses := count_up (ar_authority r) (at_grant_uses t)\<rparr> else t)"

definition audit_demand :: "AssignmentRecord \<Rightarrow> AuditTables \<Rightarrow> AuditTables" where
  "audit_demand r t =
     (let used = (case map_of (at_recomputed t) (ar_device r) of None \<Rightarrow> zero_demand | Some d \<Rightarrow> d)
      in t\<lparr>at_recomputed := om_put (ar_device r) (demand_accumulate used (ar_demand r)) (at_recomputed t)\<rparr>)"

definition audit_holder :: "AssignmentRecord \<Rightarrow> AuditTables \<Rightarrow> AuditTables" where
  "audit_holder r t =
     (if holds_authority (ar_state r) then audit_demand r (audit_grant r (audit_claim r t)) else t)"

definition audit_fence_table :: "AssignmentRecord \<Rightarrow> AuditTables \<Rightarrow> AuditTables" where
  "audit_fence_table r t =
     (if fence_is_set (ar_fence r) then t\<lparr>at_fences := om_put (ar_fence r) (ar_id r) (at_fences t)\<rparr> else t)"

subsection \<open>One assignment\<close>

definition audit_identity :: "AssignmentId \<Rightarrow> AssignmentRecord \<Rightarrow> InvariantReport \<Rightarrow> InvariantReport" where
  "audit_identity key r rep =
     violation_if (ar_id r \<noteq> key) ''assignment_identity'' ''assignment map key does not match its record''
       (violation_if (ar_id r = []) ''assignment_identity'' ''assignment carries an empty identifier'' rep)"

definition audit_scope :: "AssignmentRecord \<Rightarrow> InvariantReport \<Rightarrow> InvariantReport" where
  "audit_scope r rep =
     (if ss_kind (ar_scope r) = SK_Global then rep
      else case derive_scope_id (ar_scope r) of
        Inl _ \<Rightarrow> add_violation ''scope_identity'' ''assignment scope spec does not canonicalize'' rep
      | Inr derived \<Rightarrow> violation_if (derived \<noteq> ar_scope_id r) ''scope_identity''
          ''scope identifier does not re-derive from the scope specification'' rep)"

definition audit_fence :: "FabricState \<Rightarrow> AuditTables \<Rightarrow> AssignmentRecord \<Rightarrow> InvariantReport \<Rightarrow> InvariantReport" where
  "audit_fence s t r rep =
     (if fence_is_set (ar_fence r) then
        violation_if (ce_counter (fs_epoch s) < ft_epoch (ar_fence r)) ''fence_epoch''
          ''assignment carries a fencing token from the future''
          (violation_if (case map_of (at_fences t) (ar_fence r) of None \<Rightarrow> False | Some other \<Rightarrow> other \<noteq> ar_id r)
            ''fence_uniqueness'' ''two assignments carry the same fencing token'' rep)
      else rep)"

definition audit_target :: "FabricState \<Rightarrow> AssignmentRecord \<Rightarrow> InvariantReport \<Rightarrow> InvariantReport" where
  "audit_target s r rep =
     (if fs_has_topology s \<and> holds_authority (ar_state r) then
        case find_device (fs_topology s) (ar_device r) of
          None \<Rightarrow> add_violation ''authority_target_present'' ''an assignment holds authority for an absent target'' rep
        | Some d \<Rightarrow> violation_if (dr_incarnation d \<noteq> ar_incarnation r) ''authority_target_incarnation''
            ''an assignment holds authority for a stale device incarnation'' rep
      else rep)"

definition audit_assignment ::
    "FabricState \<Rightarrow> AssignmentId \<times> AssignmentRecord \<Rightarrow> AuditTables \<times> InvariantReport \<Rightarrow> AuditTables \<times> InvariantReport" where
  "audit_assignment s e acc =
     (let t = fst acc; r = snd e
      in (audit_holder r (audit_fence_table r t),
          audit_target s r (audit_fence s t r (audit_scope r (audit_identity (fst e) r (checked_one (snd acc)))))))"

subsection \<open>The audit\<close>

definition audit_counts :: "string \<Rightarrow> string \<Rightarrow> ('k, nat) omap \<Rightarrow> InvariantReport \<Rightarrow> InvariantReport" where
  "audit_counts invariant why m = fold (\<lambda>e. violation_if (snd e > 1) invariant why) m"

text \<open>The entries of \<open>class_claims\<close> from the least key of the scope on, while the scope lasts.\<close>

definition class_claims_of :: "ScopeId \<Rightarrow> (ExclusivityKey, nat) omap \<Rightarrow> (ExclusivityKey, nat) omap" where
  "class_claims_of sc m =
     takeWhile (\<lambda>e. ek_scope (fst e) = sc) (dropWhile (\<lambda>e. fst e < ExclusivityKey sc FC_RouteLookup) m)"

definition audit_mix :: "AuditTables \<Rightarrow> InvariantReport \<Rightarrow> InvariantReport" where
  "audit_mix t = fold (\<lambda>e. fold (\<lambda>_. add_violation ''exclusive_key_mode_mix''
       ''a whole-scope claim overlaps a per-class claim on the same scope'')
     (class_claims_of (fst e) (at_class_claims t))) (at_whole_scope_claims t)"

definition audit_index ::
    "FabricState \<Rightarrow> string \<Rightarrow> string \<Rightarrow> ('k, AssignmentId) omap \<Rightarrow> InvariantReport \<Rightarrow> InvariantReport" where
  "audit_index s unknown idle m = fold (\<lambda>e rep.
     case map_of (fs_assignments s) (snd e) of
       None \<Rightarrow> add_violation ''exclusive_index_consistency'' unknown (checked_one rep)
     | Some r \<Rightarrow> violation_if (\<not> holds_authority (ar_state r)) ''exclusive_index_consistency'' idle (checked_one rep)) m"

definition audit_committed :: "FabricState \<Rightarrow> AuditTables \<Rightarrow> InvariantReport \<Rightarrow> InvariantReport" where
  "audit_committed s t = fold (\<lambda>e rep.
     violation_if ((case map_of (at_recomputed t) (fst e) of None \<Rightarrow> zero_demand | Some d \<Rightarrow> d) \<noteq> snd e)
       ''capacity_accounting'' ''device capacity accounting does not match the live assignments''
       (checked_one rep)) (fs_committed s)"

definition audit_recomputed :: "FabricState \<Rightarrow> AuditTables \<Rightarrow> InvariantReport \<Rightarrow> InvariantReport" where
  "audit_recomputed s t = fold (\<lambda>e rep.
     violation_if (map_of (fs_committed s) (fst e) \<noteq> Some (snd e))
       ''capacity_accounting'' ''a device with live demand is missing from capacity accounting''
       (checked_one rep)) (at_recomputed t)"

definition audit_sources :: "FabricState \<Rightarrow> InvariantReport \<Rightarrow> InvariantReport" where
  "audit_sources s = fold (\<lambda>e rep.
     violation_if (st_restart_floor (snd e) > st_last_sequence (snd e))
       ''evidence_floor'' ''the restart floor exceeds the last accepted evidence sequence''
       (checked_one rep)) (fs_sources s)"

definition audit_authority :: "FabricState \<Rightarrow> AuditTables \<Rightarrow> InvariantReport \<Rightarrow> InvariantReport" where
  "audit_authority s t = fold (\<lambda>e rep.
     violation_if (unat (ag_used (snd e)) < count_of (at_grant_uses t) (fst e))
       ''authority_usage'' ''authority use counter is below the number of live assignments using it''
       (checked_one rep)) (fs_authority s)"

definition audit_bounds :: "FabricState \<Rightarrow> Bounds \<Rightarrow> InvariantReport \<Rightarrow> InvariantReport" where
  "audit_bounds s bounds rep =
     violation_if (length (fs_scope_specs s) > max_scopes bounds) ''bounds''
       ''scope count exceeds the configured bound''
       (violation_if (length (fs_assignments s) > max_assignments bounds) ''bounds''
         ''assignment count exceeds the configured bound'' rep)"

definition clean_report :: InvariantReport where
  "clean_report = \<lparr>ir_clean = True, ir_checked = 0, ir_violations = []\<rparr>"

definition audit_assignments :: "FabricState \<Rightarrow> AuditTables \<times> InvariantReport" where
  "audit_assignments s = fold (audit_assignment s) (fs_assignments s) (no_tables, clean_report)"

definition collect_invariants :: "FabricState \<Rightarrow> Bounds \<Rightarrow> InvariantReport" where
  "collect_invariants s bounds =
     (case audit_assignments s of (t, r0) \<Rightarrow>
      let r1 = audit_counts ''exclusive_scope_uniqueness''
            ''more than one assignment holds exclusive authority over a governed scope'' (at_whole_scope_claims t) r0;
          r2 = audit_counts ''exclusive_class_uniqueness''
            ''more than one assignment holds exclusive authority over a scope and class'' (at_class_claims t) r1;
          r3 = audit_mix t r2;
          r4 = audit_index s ''the exclusivity index references an unknown assignment''
            ''the exclusivity index references an assignment without authority'' (fs_exclusive_by_scope s) r3;
          r5 = audit_index s ''the per-class exclusivity index references an unknown assignment''
            ''the per-class exclusivity index references an assignment without authority'' (fs_exclusive_by_class s) r4;
          r6 = audit_committed s t r5;
          r7 = audit_recomputed s t r6
      in audit_bounds s bounds (audit_authority s t (audit_sources s r7)))"

text \<open>\<open>collect_invariants\<close> always returns success, so the report is the whole answer.\<close>

definition verify_invariants :: "Impl \<Rightarrow> InvariantReport" where
  "verify_invariants i = collect_invariants (im_state i) (im_bounds i)"

subsection \<open>What the exclusivity checks find\<close>

definition reported :: "InvariantReport \<Rightarrow> string set" where
  "reported r = iv_invariant ` set (ir_violations r)"

definition exclusivity_checks :: "string set" where
  "exclusivity_checks = {''exclusive_scope_uniqueness'', ''exclusive_class_uniqueness'', ''exclusive_key_mode_mix''}"

lemma reported_add [simp]: "reported (add_violation n why r) = insert n (reported r)"
  by (auto simp: reported_def add_violation_def)

lemma reported_if [simp]: "reported (violation_if c n why r) = (if c then insert n (reported r) else reported r)"
  by (simp add: violation_if_def)

lemma reported_checked [simp]: "reported (checked_one r) = reported r"
  by (simp add: reported_def checked_one_def)

lemma reported_clean [simp]: "reported clean_report = {}"
  by (simp add: reported_def clean_report_def)

text \<open>A loop whose every step adds at most one named violation.\<close>

lemma reported_fold:
  assumes "\<And>e r. reported (f e r) = (if bad e then insert n (reported r) else reported r)"
  shows "reported (fold f xs r) = (if \<exists>e \<in> set xs. bad e then insert n (reported r) else reported r)"
  by (induction xs arbitrary: r) (auto simp: assms)

lemma reported_counts:
  "reported (audit_counts n why m r) = (if \<exists>e \<in> set m. 1 < snd e then insert n (reported r) else reported r)"
  unfolding audit_counts_def by (rule reported_fold) simp

lemma reported_mix:
  "reported (audit_mix t r) = (if \<exists>e \<in> set (at_whole_scope_claims t). class_claims_of (fst e) (at_class_claims t) \<noteq> []
     then insert ''exclusive_key_mode_mix'' (reported r) else reported r)"
proof -
  have "reported (fold (\<lambda>_. add_violation n why) xs r) = (if xs \<noteq> [] then insert n (reported r) else reported r)"
    for n why r and xs :: "(ExclusivityKey \<times> nat) list"
    using reported_fold [of "\<lambda>_. add_violation n why" "\<lambda>_. True" n xs r] by (cases xs) auto
  then show ?thesis unfolding audit_mix_def by (rule reported_fold)
qed

text \<open>The exclusivity checks that reported something.\<close>

definition found_exclusive :: "InvariantReport \<Rightarrow> string set" where
  "found_exclusive r = reported r \<inter> exclusivity_checks"

lemma found_exclusive_if [simp]:
  "n \<notin> exclusivity_checks \<Longrightarrow> found_exclusive (violation_if c n why r) = found_exclusive r"
  "n \<notin> exclusivity_checks \<Longrightarrow> found_exclusive (add_violation n why r) = found_exclusive r"
  "found_exclusive (checked_one r) = found_exclusive r"
  by (auto simp: found_exclusive_def)

lemma found_exclusive_fold: "(\<And>e r. found_exclusive (f e r) = found_exclusive r) \<Longrightarrow> found_exclusive (fold f xs r) = found_exclusive r"
  by (induction xs arbitrary: r) simp_all

lemma names_apart [simp]:
  "''assignment_identity'' \<notin> exclusivity_checks" "''scope_identity'' \<notin> exclusivity_checks"
  "''fence_epoch'' \<notin> exclusivity_checks" "''fence_uniqueness'' \<notin> exclusivity_checks"
  "''authority_target_present'' \<notin> exclusivity_checks" "''authority_target_incarnation'' \<notin> exclusivity_checks"
  "''exclusive_index_consistency'' \<notin> exclusivity_checks" "''capacity_accounting'' \<notin> exclusivity_checks"
  "''evidence_floor'' \<notin> exclusivity_checks" "''authority_usage'' \<notin> exclusivity_checks" "''bounds'' \<notin> exclusivity_checks"
  by (simp_all add: exclusivity_checks_def)

lemma found_exclusive_assignment: "found_exclusive (snd (audit_assignment s e acc)) = found_exclusive (snd acc)"
  by (simp add: audit_assignment_def Let_def audit_target_def audit_fence_def audit_scope_def audit_identity_def
      split: option.split sum.split)

lemma found_exclusive_loops [simp]:
  "found_exclusive (audit_index s a b m r) = found_exclusive r" "found_exclusive (audit_committed s t r) = found_exclusive r"
  "found_exclusive (audit_recomputed s t r) = found_exclusive r" "found_exclusive (audit_sources s r) = found_exclusive r"
  "found_exclusive (audit_authority s t r) = found_exclusive r" "found_exclusive (audit_bounds s bounds r) = found_exclusive r"
  unfolding audit_index_def audit_committed_def audit_recomputed_def audit_sources_def audit_authority_def audit_bounds_def
  by (simp_all add: found_exclusive_fold split: option.split)

lemma found_exclusive_assignments: "found_exclusive (snd (fold (audit_assignment s) m (t, clean_report))) = {}"
proof -
  have "found_exclusive (snd (fold (audit_assignment s) m acc)) = found_exclusive (snd acc)" for acc
    by (induction m arbitrary: acc) (simp_all add: found_exclusive_assignment)
  then show ?thesis by (simp add: found_exclusive_def)
qed

subsection \<open>What the tables count\<close>

definition whole_holder :: "ScopeId \<Rightarrow> AssignmentRecord \<Rightarrow> bool" where
  "whole_holder sc r \<longleftrightarrow> holds_authority (ar_state r) \<and> ar_exclusivity r = EX_Exclusive \<and>
     ar_exclusive_key r \<noteq> EK_PerClass \<and> ar_scope_id r = sc"

definition class_holder :: "ExclusivityKey \<Rightarrow> AssignmentRecord \<Rightarrow> bool" where
  "class_holder k r \<longleftrightarrow> holds_authority (ar_state r) \<and> ar_exclusivity r = EX_Exclusive \<and>
     ar_exclusive_key r = EK_PerClass \<and> k = ExclusivityKey (ar_scope_id r) (ar_cls r)"

definition counts :: "('k::linorder, nat) omap \<Rightarrow> ('k \<Rightarrow> AssignmentRecord \<Rightarrow> bool) \<Rightarrow> (AssignmentId \<times> AssignmentRecord) list \<Rightarrow> bool" where
  "counts m p xs \<longleftrightarrow> om_ok m \<and> (\<forall>k. map_of m k =
     (let n = length (filter (\<lambda>e. p k (snd e)) xs) in if n = 0 then None else Some n))"

lemma counts_Nil [simp]: "counts [] p []"
  by (simp add: counts_def)

lemma counts_skip: "counts m p xs \<Longrightarrow> (\<And>k. \<not> p k (snd e)) \<Longrightarrow> counts m p (xs @ [e])"
  by (simp add: counts_def)

lemma counts_up:
  "counts m p xs \<Longrightarrow> (\<And>k. p k (snd e) \<longleftrightarrow> k = key) \<Longrightarrow> counts (count_up key m) p (xs @ [e])"
  by (auto simp: counts_def count_up_def count_of_def Let_def)

lemma audit_assignment_counts:
  assumes "counts (at_whole_scope_claims t) whole_holder xs" and "counts (at_class_claims t) class_holder xs"
  shows "counts (at_whole_scope_claims (fst (audit_assignment s e (t, r)))) whole_holder (xs @ [e])"
    and "counts (at_class_claims (fst (audit_assignment s e (t, r)))) class_holder (xs @ [e])"
  using assms
  by (auto simp: audit_assignment_def Let_def audit_holder_def audit_demand_def audit_grant_def audit_claim_def
      audit_fence_table_def whole_holder_def class_holder_def intro!: counts_skip counts_up)

lemma audit_assignments_counts:
  "counts (at_whole_scope_claims t) whole_holder xs \<Longrightarrow> counts (at_class_claims t) class_holder xs \<Longrightarrow>
   counts (at_whole_scope_claims (fst (fold (audit_assignment s) m (t, r)))) whole_holder (xs @ m) \<and>
   counts (at_class_claims (fst (fold (audit_assignment s) m (t, r)))) class_holder (xs @ m)"
proof (induction m arbitrary: t r xs)
  case (Cons e m)
  obtain t' r' where e: "audit_assignment s e (t, r) = (t', r')" by (cases "audit_assignment s e (t, r)")
  show ?case using Cons.IH [of t' "xs @ [e]" r'] audit_assignment_counts [OF Cons.prems, of s e r] by (simp add: e)
qed simp

lemma class_claims_of_nonempty:
  assumes "om_ok m"
  shows "class_claims_of sc m \<noteq> [] \<longleftrightarrow> (\<exists>e \<in> set m. ek_scope (fst e) = sc)"
proof
  assume "class_claims_of sc m \<noteq> []"
  then obtain e where "e \<in> set (class_claims_of sc m)" by (meson last_in_set)
  then show "\<exists>e \<in> set m. ek_scope (fst e) = sc"
    unfolding class_claims_of_def by (meson set_dropWhileD set_takeWhileD)
next
  assume "\<exists>e \<in> set m. ek_scope (fst e) = sc"
  then obtain e where e: "e \<in> set m" "ek_scope (fst e) = sc" by blast
  let ?low = "ExclusivityKey sc FC_RouteLookup"
  have least: "FC_RouteLookup \<le> c" for c by (cases c) (simp_all add: less_eq_FunctionClass_def)
  then have low: "?low \<le> fst e" using e by (simp add: less_eq_ExclusivityKey_def)
  let ?d = "dropWhile (\<lambda>e. fst e < ?low) m"
  have "e \<in> set ?d"
    using e(1) low set_takeWhileD [of e "\<lambda>e. fst e < ?low" m] takeWhile_dropWhile_id [of "\<lambda>e. fst e < ?low" m]
    by (metis Un_iff leD set_append)
  then obtain h rest where d: "?d = h # rest" by (cases ?d) auto
  then have ge: "?low \<le> fst h" by (metis dropWhile_eq_Cons_conv not_le)
  have "om_ok ?d" using assms unfolding om_ok_def by (simp add: dropWhile_eq_drop drop_map [symmetric] sorted_wrt_drop)
  with \<open>e \<in> set ?d\<close> d have le: "fst h \<le> fst e" by (cases h) (auto simp: om_ok_Cons less_imp_le)
  from ge le e(2) have "ek_scope (fst h) = sc" by (auto simp: less_eq_ExclusivityKey_def split: if_splits)
  with d show "class_claims_of sc m \<noteq> []" by (simp add: class_claims_of_def)
qed

lemma counts_some: "counts m p xs \<Longrightarrow> (k, n) \<in> set m \<longleftrightarrow> n = length (filter (\<lambda>e. p k (snd e)) xs) \<and> 0 < n"
  by (auto simp: counts_def Let_def om_ok_map_of_iff [symmetric] split: if_splits)

lemma counts_entry: "counts m p xs \<Longrightarrow> (\<exists>n. (k, n) \<in> set m) \<longleftrightarrow> (\<exists>e \<in> set xs. p k (snd e))"
  by (auto simp: counts_some filter_empty_conv)

lemma two_filtered:
  assumes "distinct (map fst xs)"
  shows "1 < length (filter P xs) \<longleftrightarrow> (\<exists>e1 \<in> set xs. \<exists>e2 \<in> set xs. fst e1 \<noteq> fst e2 \<and> P e1 \<and> P e2)"
  using assms
proof (induction xs)
  case (Cons x xs)
  have "0 < length (filter P xs) \<longleftrightarrow> (\<exists>e \<in> set xs. P e)" by (auto simp: filter_empty_conv)
  with Cons show ?case by (auto simp: image_iff)
qed simp

lemma counts_twice:
  "counts m p xs \<Longrightarrow> distinct (map fst xs) \<Longrightarrow>
   (\<exists>e \<in> set m. 1 < snd e) \<longleftrightarrow> (\<exists>k. \<exists>e1 \<in> set xs. \<exists>e2 \<in> set xs. fst e1 \<noteq> fst e2 \<and> p k (snd e1) \<and> p k (snd e2))"
proof -
  assume c: "counts m p xs" and d: "distinct (map fst xs)"
  have "(\<exists>e \<in> set m. 1 < snd e) \<longleftrightarrow> (\<exists>k n. (k, n) \<in> set m \<and> 1 < n)"
    by (metis prod.collapse snd_conv)
  also have "\<dots> \<longleftrightarrow> (\<exists>k. 1 < length (filter (\<lambda>e. p k (snd e)) xs))" 
    unfolding counts_some [OF c] by (metis less_trans zero_less_one)
  finally show ?thesis unfolding two_filtered [OF d] .
qed

text \<open>Two holders overlap: the same scope, and a whole-scope claim on either side or the same class.\<close>

definition overlap :: "AssignmentRecord \<Rightarrow> AssignmentRecord \<Rightarrow> bool" where
  "overlap r1 r2 \<longleftrightarrow>
     holds_authority (ar_state r1) \<and> holds_authority (ar_state r2) \<and>
     ar_exclusivity r1 = EX_Exclusive \<and> ar_exclusivity r2 = EX_Exclusive \<and> ar_scope_id r1 = ar_scope_id r2 \<and>
     (ar_exclusive_key r1 \<noteq> EK_PerClass \<or> ar_exclusive_key r2 \<noteq> EK_PerClass \<or> ar_cls r1 = ar_cls r2)"

lemma overlap_cases:
  "overlap r1 r2 \<longleftrightarrow> (\<exists>sc. whole_holder sc r1 \<and> whole_holder sc r2) \<or> (\<exists>k. class_holder k r1 \<and> class_holder k r2) \<or>
     (\<exists>k. whole_holder (ek_scope k) r1 \<and> class_holder k r2) \<or> (\<exists>k. whole_holder (ek_scope k) r2 \<and> class_holder k r1)"
  by (auto simp: overlap_def whole_holder_def class_holder_def)

lemma holders_apart: "whole_holder sc r \<Longrightarrow> \<not> class_holder k r"
  by (simp add: whole_holder_def class_holder_def)

lemma pairs_regroup:
  assumes "\<And>a b. D a b \<Longrightarrow> D b a"
  shows "(\<exists>x. \<exists>a \<in> A. \<exists>b \<in> A. D a b \<and> P x (f a) \<and> P x (f b)) \<or> (\<exists>k. \<exists>a \<in> A. \<exists>b \<in> A. D a b \<and> Q k (f a) \<and> Q k (f b)) \<or>
      (\<exists>k. \<exists>a \<in> A. \<exists>b \<in> A. D a b \<and> P (g k) (f a) \<and> Q k (f b)) \<longleftrightarrow>
    (\<exists>a \<in> A. \<exists>b \<in> A. D a b \<and> ((\<exists>x. P x (f a) \<and> P x (f b)) \<or> (\<exists>k. Q k (f a) \<and> Q k (f b)) \<or>
      (\<exists>k. P (g k) (f a) \<and> Q k (f b)) \<or> (\<exists>k. P (g k) (f b) \<and> Q k (f a))))" (is "?l \<longleftrightarrow> ?r")
proof
  show "?l \<Longrightarrow> ?r" by blast
  show "?r \<Longrightarrow> ?l" using assms by (elim bexE conjE disjE exE) blast+
qed

lemma found_exclusive_steps:
  "found_exclusive (audit_counts ''exclusive_scope_uniqueness'' a m r) \<noteq> {} \<longleftrightarrow> (\<exists>e \<in> set m. 1 < snd e) \<or> found_exclusive r \<noteq> {}"
  "found_exclusive (audit_counts ''exclusive_class_uniqueness'' b m' r) \<noteq> {} \<longleftrightarrow> (\<exists>e \<in> set m'. 1 < snd e) \<or> found_exclusive r \<noteq> {}"
  "found_exclusive (audit_mix t r) \<noteq> {} \<longleftrightarrow>
     (\<exists>e \<in> set (at_whole_scope_claims t). class_claims_of (fst e) (at_class_claims t) \<noteq> []) \<or> found_exclusive r \<noteq> {}"
  by (auto simp: found_exclusive_def exclusivity_checks_def reported_counts reported_mix)

lemma found_exclusive_iff:
  assumes "om_ok (fs_assignments s)"
  shows "found_exclusive (collect_invariants s bounds) \<noteq> {} \<longleftrightarrow>
    (\<exists>e1 \<in> set (fs_assignments s). \<exists>e2 \<in> set (fs_assignments s). fst e1 \<noteq> fst e2 \<and> overlap (snd e1) (snd e2))"
proof -
  obtain t r0 where t: "audit_assignments s = (t, r0)" by (cases "audit_assignments s")
  let ?xs = "fs_assignments s"
  have c: "counts (at_whole_scope_claims t) whole_holder ?xs" "counts (at_class_claims t) class_holder ?xs"
    using audit_assignments_counts [of no_tables "[]" s ?xs clean_report] t
    by (simp_all add: audit_assignments_def no_tables_def)
  have r0: "found_exclusive r0 = {}"
    using found_exclusive_assignments [of s ?xs no_tables] t by (simp add: audit_assignments_def)
  have d: "distinct (map fst ?xs)" using om_ok_distinct [OF assms] .
  have apart: "e1 \<in> set ?xs \<Longrightarrow> e2 \<in> set ?xs \<Longrightarrow> whole_holder sc (snd e1) \<Longrightarrow> class_holder k (snd e2) \<Longrightarrow> fst e1 \<noteq> fst e2"
    for e1 e2 sc k
    using d holders_apart by (metis eq_key_imp_eq_value prod.collapse)
  have "(\<exists>e \<in> set (at_whole_scope_claims t). class_claims_of (fst e) (at_class_claims t) \<noteq> []) \<longleftrightarrow>
      (\<exists>k. (\<exists>n. (ek_scope k, n) \<in> set (at_whole_scope_claims t)) \<and> (\<exists>n. (k, n) \<in> set (at_class_claims t)))"
    using c(2) by (force simp: counts_def class_claims_of_nonempty)
  then have mix: "(\<exists>e \<in> set (at_whole_scope_claims t). class_claims_of (fst e) (at_class_claims t) \<noteq> []) \<longleftrightarrow>
      (\<exists>k. \<exists>e1 \<in> set ?xs. \<exists>e2 \<in> set ?xs. fst e1 \<noteq> fst e2 \<and> whole_holder (ek_scope k) (snd e1) \<and> class_holder k (snd e2))"
    unfolding counts_entry [OF c(1)] counts_entry [OF c(2)] using apart by blast
  have "found_exclusive (collect_invariants s bounds) \<noteq> {} \<longleftrightarrow>
      (\<exists>e \<in> set (at_whole_scope_claims t). 1 < snd e) \<or> (\<exists>e \<in> set (at_class_claims t). 1 < snd e) \<or>
      (\<exists>e \<in> set (at_whole_scope_claims t). class_claims_of (fst e) (at_class_claims t) \<noteq> [])"
    using r0 by (simp add: collect_invariants_def t Let_def found_exclusive_steps) blast
  also have "\<dots> \<longleftrightarrow> (\<exists>sc. \<exists>e1 \<in> set ?xs. \<exists>e2 \<in> set ?xs. fst e1 \<noteq> fst e2 \<and> whole_holder sc (snd e1) \<and> whole_holder sc (snd e2)) \<or>
      (\<exists>k. \<exists>e1 \<in> set ?xs. \<exists>e2 \<in> set ?xs. fst e1 \<noteq> fst e2 \<and> class_holder k (snd e1) \<and> class_holder k (snd e2)) \<or>
      (\<exists>k. \<exists>e1 \<in> set ?xs. \<exists>e2 \<in> set ?xs. fst e1 \<noteq> fst e2 \<and> whole_holder (ek_scope k) (snd e1) \<and> class_holder k (snd e2))"
    unfolding counts_twice [OF c(1) d] counts_twice [OF c(2) d] mix ..
  also have "\<dots> \<longleftrightarrow> (\<exists>e1 \<in> set ?xs. \<exists>e2 \<in> set ?xs. fst e1 \<noteq> fst e2 \<and> overlap (snd e1) (snd e2))"
    unfolding overlap_cases by (rule pairs_regroup) simp
  finally show ?thesis .
qed

text \<open>C40: the exclusivity checks of the audit are exact.  \<open>verify_invariants\<close> reports a violation of
  exclusive authority precisely when two different assignments hold overlapping exclusive authority:
  it misses no conflict and raises no false alarm, whatever the maintained claim indexes say.\<close>

theorem audit_exclusivity_exact:
  assumes "om_ok (fs_assignments s)"
  shows "(\<exists>v. v \<in> set (ir_violations (collect_invariants s bounds)) \<and> iv_invariant v \<in> exclusivity_checks) \<longleftrightarrow>
    (\<exists>a b r1 r2. a \<noteq> b \<and> map_of (fs_assignments s) a = Some r1 \<and> map_of (fs_assignments s) b = Some r2 \<and> overlap r1 r2)"
proof -
  have "(\<exists>v. v \<in> set (ir_violations r) \<and> iv_invariant v \<in> exclusivity_checks) \<longleftrightarrow> found_exclusive r \<noteq> {}" for r
    by (auto simp: found_exclusive_def reported_def)
  moreover have "(\<exists>e1 \<in> A. \<exists>e2 \<in> A. fst e1 \<noteq> fst e2 \<and> overlap (snd e1) (snd e2)) \<longleftrightarrow>
      (\<exists>a b r1 r2. a \<noteq> b \<and> (a, r1) \<in> A \<and> (b, r2) \<in> A \<and> overlap r1 r2)" for A :: "(AssignmentId \<times> AssignmentRecord) set"
    by (simp only: Bex_def split_paired_Ex fst_conv snd_conv) fast
  ultimately show ?thesis by (simp only: found_exclusive_iff [OF assms] om_ok_map_of_iff [OF assms])
qed

theorem audit_exclusivity_exact_witness:
  "\<exists>v. v \<in> set (ir_violations (collect_invariants
       (empty_state\<lparr>fs_assignments := [(''as-1'', no_assignment\<lparr>ar_scope_id := ''sc'', ar_state := AS_Authorized,
          ar_exclusivity := EX_Exclusive, ar_exclusive_key := EK_PerScope\<rparr>),
        (''as-2'', no_assignment\<lparr>ar_scope_id := ''sc'', ar_state := AS_Authorized,
          ar_exclusivity := EX_Exclusive, ar_exclusive_key := EK_PerClass\<rparr>)]\<rparr>) default_bounds)) \<and>
     iv_invariant v \<in> exclusivity_checks" (is "\<exists>v. v \<in> set (ir_violations (collect_invariants ?s _)) \<and> _")
proof -
  have "om_ok (fs_assignments ?s)" by (simp add: om_ok_def)
  moreover have "\<exists>a b r1 r2. a \<noteq> b \<and> map_of (fs_assignments ?s) a = Some r1 \<and> map_of (fs_assignments ?s) b = Some r2 \<and> overlap r1 r2"
    by (rule exI [of _ "''as-1''"], rule exI [of _ "''as-2''"]) (simp add: overlap_def)
  ultimately show ?thesis by (rule iffD2 [OF audit_exclusivity_exact])
qed

end
