(* ===== verification/Nof_Frames.thy ===== *)
theory Nof_Frames
  imports Nof_Journal
begin

text \<open>
  The framing of the service protocol (\<open>src/service.cpp\<close>, first part): opcodes, \<open>encode_frame\<close>,
  \<open>decode_frame\<close>, the streaming \<open>FrameDecoder\<close> that socket reads feed in arbitrary chunks, and the
  error payload.  An opcode travels as a 16-bit number, because the program carries unknown opcodes
  through the decoder.  \<open>parse_stream\<close> is the reference reading of a whole byte stream; the decoder
  computes it whatever the chunks are.
\<close>

subsection \<open>Opcodes\<close>

datatype Opcode =
    OP_Hello
  | OP_Ping
  | OP_Stats
  | OP_RegisterFunction
  | OP_IngestTopology
  | OP_IngestCapabilities
  | OP_IngestPolicy
  | OP_IngestObservations
  | OP_GrantAuthority
  | OP_WithdrawAuthority
  | OP_ReportEffect
  | OP_Plan
  | OP_Apply
  | OP_Revoke
  | OP_Replace
  | OP_Reauthorize
  | OP_Revalidate
  | OP_GetAssignment
  | OP_ListAssignments
  | OP_GetScope
  | OP_ExplainAssignment
  | OP_ExplainRequest
  | OP_StateDigest
  | OP_Export
  | OP_RecoveryReport
  | OP_VerifyInvariants
  | OP_Compact
  | OP_Shutdown

definition all_Opcode :: "Opcode list" where
  "all_Opcode = [     OP_Hello, OP_Ping, OP_Stats, OP_RegisterFunction, OP_IngestTopology, OP_IngestCapabilities, 
     OP_IngestPolicy, OP_IngestObservations, OP_GrantAuthority, OP_WithdrawAuthority, 
     OP_ReportEffect, OP_Plan, OP_Apply, OP_Revoke, OP_Replace, OP_Reauthorize, OP_Revalidate, 
     OP_GetAssignment, OP_ListAssignments, OP_GetScope, OP_ExplainAssignment, OP_ExplainRequest, 
     OP_StateDigest, OP_Export, OP_RecoveryReport, OP_VerifyInvariants, OP_Compact, OP_Shutdown]"

primrec Opcode_value :: "Opcode \<Rightarrow> u16" where
  "Opcode_value OP_Hello = 1"
| "Opcode_value OP_Ping = 2"
| "Opcode_value OP_Stats = 3"
| "Opcode_value OP_RegisterFunction = 4"
| "Opcode_value OP_IngestTopology = 5"
| "Opcode_value OP_IngestCapabilities = 6"
| "Opcode_value OP_IngestPolicy = 7"
| "Opcode_value OP_IngestObservations = 8"
| "Opcode_value OP_GrantAuthority = 9"
| "Opcode_value OP_WithdrawAuthority = 10"
| "Opcode_value OP_ReportEffect = 11"
| "Opcode_value OP_Plan = 12"
| "Opcode_value OP_Apply = 13"
| "Opcode_value OP_Revoke = 14"
| "Opcode_value OP_Replace = 15"
| "Opcode_value OP_Reauthorize = 16"
| "Opcode_value OP_Revalidate = 17"
| "Opcode_value OP_GetAssignment = 18"
| "Opcode_value OP_ListAssignments = 19"
| "Opcode_value OP_GetScope = 20"
| "Opcode_value OP_ExplainAssignment = 21"
| "Opcode_value OP_ExplainRequest = 22"
| "Opcode_value OP_StateDigest = 23"
| "Opcode_value OP_Export = 24"
| "Opcode_value OP_RecoveryReport = 25"
| "Opcode_value OP_VerifyInvariants = 26"
| "Opcode_value OP_Compact = 27"
| "Opcode_value OP_Shutdown = 28"

primrec Opcode_to_string :: "Opcode \<Rightarrow> string" where
  "Opcode_to_string OP_Hello = ''hello''"
| "Opcode_to_string OP_Ping = ''ping''"
| "Opcode_to_string OP_Stats = ''stats''"
| "Opcode_to_string OP_RegisterFunction = ''register_function''"
| "Opcode_to_string OP_IngestTopology = ''ingest_topology''"
| "Opcode_to_string OP_IngestCapabilities = ''ingest_capabilities''"
| "Opcode_to_string OP_IngestPolicy = ''ingest_policy''"
| "Opcode_to_string OP_IngestObservations = ''ingest_observations''"
| "Opcode_to_string OP_GrantAuthority = ''grant_authority''"
| "Opcode_to_string OP_WithdrawAuthority = ''withdraw_authority''"
| "Opcode_to_string OP_ReportEffect = ''report_effect''"
| "Opcode_to_string OP_Plan = ''plan''"
| "Opcode_to_string OP_Apply = ''apply''"
| "Opcode_to_string OP_Revoke = ''revoke''"
| "Opcode_to_string OP_Replace = ''replace''"
| "Opcode_to_string OP_Reauthorize = ''reauthorize''"
| "Opcode_to_string OP_Revalidate = ''revalidate''"
| "Opcode_to_string OP_GetAssignment = ''get_assignment''"
| "Opcode_to_string OP_ListAssignments = ''list_assignments''"
| "Opcode_to_string OP_GetScope = ''get_scope''"
| "Opcode_to_string OP_ExplainAssignment = ''explain_assignment''"
| "Opcode_to_string OP_ExplainRequest = ''explain_request''"
| "Opcode_to_string OP_StateDigest = ''state_digest''"
| "Opcode_to_string OP_Export = ''export''"
| "Opcode_to_string OP_RecoveryReport = ''recovery_report''"
| "Opcode_to_string OP_VerifyInvariants = ''verify_invariants''"
| "Opcode_to_string OP_Compact = ''compact''"
| "Opcode_to_string OP_Shutdown = ''shutdown''"

text \<open>\<open>parse_opcode\<close> accepts 1 to 28, which are exactly the opcodes.\<close>

definition parse_opcode :: "u16 \<Rightarrow> Opcode option" where
  "parse_opcode v = (if v < 1 \<or> v > 28 then None else Some (all_Opcode ! (unat v - 1)))"

lemma parse_opcode_value [simp]: "parse_opcode (Opcode_value c) = Some c"
  by (cases c) (simp_all add: parse_opcode_def all_Opcode_def)

subsection \<open>Frames\<close>

record Frame =
  fm_opcode :: u16
  fm_flags :: u16
  fm_request_id :: u64
  fm_payload :: "u8 list"

definition no_frame :: Frame where
  "no_frame = \<lparr>fm_opcode = 1, fm_flags = 0, fm_request_id = 0, fm_payload = []\<rparr>"

definition kProtocolVersion :: u16 where "kProtocolVersion = 1"
definition kFrameHeaderBytes :: nat where "kFrameHeaderBytes = 20"
definition kFrameTrailerBytes :: nat where "kFrameTrailerBytes = 4"
definition kFrameMagic :: u16 where "kFrameMagic = 0x4E46"
definition kFlagError :: u16 where "kFlagError = 1"

lemmas frame_sizes = kFrameHeaderBytes_def kFrameTrailerBytes_def

text \<open>The frame without its trailer, in the order of the layout.\<close>

definition frame_body :: "Frame \<Rightarrow> u8 list" where
  "frame_body f =
     le_bytes 2 kFrameMagic @ le_bytes 2 kProtocolVersion @ le_bytes 2 (fm_opcode f) @ le_bytes 2 (fm_flags f) @
     le_bytes 8 (fm_request_id f) @ le_bytes 4 (of_nat (length (fm_payload f)) :: u32) @ fm_payload f"

definition frame_total :: "nat \<Rightarrow> nat option" where
  "frame_total n = (case checked_add_size kFrameHeaderBytes n of
     None \<Rightarrow> None | Some m \<Rightarrow> checked_add_size m kFrameTrailerBytes)"

definition encode_frame :: "nat \<Rightarrow> Frame \<Rightarrow> u8 list result" where
  "encode_frame limit f =
     (if length (fm_payload f) > limit
      then Err RC_PayloadTooLarge ''frame payload exceeds the configured bound''
      else case frame_total (length (fm_payload f)) of
        None \<Rightarrow> Err RC_ArithmeticOverflow ''frame size overflow''
      | Some _ \<Rightarrow> Inr (frame_body f @ le_bytes 4 (crc32c (frame_body f))))"

definition decode_frame :: "nat \<Rightarrow> u8 list \<Rightarrow> Frame result" where
  "decode_frame limit bytes =
     (if length bytes < kFrameHeaderBytes + kFrameTrailerBytes
      then Err RC_TruncatedInput ''frame is shorter than its header''
      else if load_u16 bytes 0 \<noteq> kFrameMagic then Err RC_FrameInvalid ''frame magic does not match''
      else if load_u16 bytes 2 \<noteq> kProtocolVersion
      then Err RC_ProtocolVersionMismatch ''frame protocol version is not supported''
      else let payload_length = unat (load_u32 bytes 16) in
        if payload_length > limit
        then Err RC_PayloadTooLarge ''frame payload length exceeds the configured bound''
        else case frame_total payload_length of
          None \<Rightarrow> Err RC_ArithmeticOverflow ''frame length overflow''
        | Some expected \<Rightarrow>
            if length bytes \<noteq> expected then Err RC_FrameInvalid ''frame length does not match its header''
            else if load_u32 bytes (expected - kFrameTrailerBytes) \<noteq> crc32c (take (expected - kFrameTrailerBytes) bytes)
            then Err RC_IntegrityFailure ''frame integrity check failed''
            else Inr \<lparr>fm_opcode = load_u16 bytes 4, fm_flags = load_u16 bytes 6, fm_request_id = load_u64 bytes 8,
              fm_payload = take payload_length (drop kFrameHeaderBytes bytes)\<rparr>)"

subsection \<open>The streaming decoder\<close>

record FrameDecoder =
  dc_buffer :: "u8 list"
  dc_consumed :: nat

definition frame_decoder :: FrameDecoder where
  "frame_decoder = \<lparr>dc_buffer = [], dc_consumed = 0\<rparr>"

definition pending :: "FrameDecoder \<Rightarrow> u8 list" where
  "pending d = drop (dc_consumed d) (dc_buffer d)"

definition feed :: "u8 list \<Rightarrow> FrameDecoder \<Rightarrow> FrameDecoder" where
  "feed bs d = d\<lparr>dc_buffer := dc_buffer d @ bs\<rparr>"

text \<open>What \<open>next\<close> finds at the start of the bytes not consumed yet: a frame and its size, nothing yet, or a refusal.\<close>

definition frame_at :: "nat \<Rightarrow> u8 list \<Rightarrow> (Frame \<times> nat) option result" where
  "frame_at limit base =
     (if length base < kFrameHeaderBytes + kFrameTrailerBytes then Inr None
      else if load_u16 base 0 \<noteq> kFrameMagic then Err RC_FrameInvalid ''frame magic does not match''
      else if load_u16 base 2 \<noteq> kProtocolVersion
      then Err RC_ProtocolVersionMismatch ''frame protocol version is not supported''
      else let payload_length = unat (load_u32 base 16);
               whole = kFrameHeaderBytes + payload_length + kFrameTrailerBytes
        in if payload_length > limit
           then Err RC_PayloadTooLarge ''frame payload length exceeds the configured bound''
           else if length base < whole then Inr None
           else and_then (decode_frame limit (take whole base)) (\<lambda>f. Inr (Some (f, whole))))"

definition decoder_next :: "nat \<Rightarrow> FrameDecoder \<Rightarrow> FrameDecoder \<times> Frame option result" where
  "decoder_next limit d =
     (case frame_at limit (pending d) of
        Inl e \<Rightarrow> (d, Inl e)
      | Inr None \<Rightarrow> (d, Inr None)
      | Inr (Some (f, n)) \<Rightarrow>
          (if dc_consumed d + n = length (dc_buffer d) then frame_decoder
           else d\<lparr>dc_consumed := dc_consumed d + n\<rparr>, Inr (Some f)))"

definition finish :: "FrameDecoder \<Rightarrow> Status" where
  "finish d = require (length (dc_buffer d) = dc_consumed d) RC_TruncatedInput ''connection ended inside a frame''"

lemma frame_at_size: "frame_at m bs = Inr (Some (f, n)) \<Longrightarrow> 24 \<le> n \<and> n \<le> length bs"
  by (auto simp: frame_at_def Let_def frame_sizes and_then_def split: if_splits sum.splits)

subsection \<open>Reading a whole stream\<close>

text \<open>The loop around \<open>next\<close>: the frames of the pending bytes, until more bytes are needed or one is refused.\<close>

function drain :: "nat \<Rightarrow> FrameDecoder \<Rightarrow> FrameDecoder \<times> Frame list \<times> Status" where
  "drain m d =
     (case decoder_next m d of
        (d', Inl e) \<Rightarrow> (d', [], Inl e)
      | (d', Inr None) \<Rightarrow> (d', [], ok_status)
      | (d', Inr (Some f)) \<Rightarrow> (case drain m d' of (d'', fs, st) \<Rightarrow> (d'', f # fs, st)))"
  by pat_completeness auto

lemma decoder_next_pending:
  "decoder_next m d = (d', Inr (Some f)) \<longleftrightarrow>
   (\<exists>n. frame_at m (pending d) = Inr (Some (f, n)) \<and>
      d' = (if dc_consumed d + n = length (dc_buffer d) then frame_decoder else d\<lparr>dc_consumed := dc_consumed d + n\<rparr>))"
  by (auto simp: decoder_next_def split: sum.splits option.splits)

lemma pending_step:
  "frame_at m (pending d) = Inr (Some (f, n)) \<Longrightarrow>
   pending (if dc_consumed d + n = length (dc_buffer d) then frame_decoder else d\<lparr>dc_consumed := dc_consumed d + n\<rparr>) = drop n (pending d)"
  by (auto simp: pending_def frame_decoder_def add.commute dest!: frame_at_size)

termination drain
proof (relation "measure (\<lambda>(m, d). length (pending d))")
  fix m d d' r v f
  assume "(d', r) = decoder_next m d" "r = Inr v" "v = Some f"
  then obtain n where n: "frame_at m (pending d) = Inr (Some (f, n))" and "pending d' = drop n (pending d)"
    using decoder_next_pending [of m d d' f] pending_step [of m d f] by fastforce
  with frame_at_size [OF n] show "((m, d'), (m, d)) \<in> measure (\<lambda>(m, d). length (pending d))" by (simp add: less_diff_conv2)
qed simp

declare drain.simps [simp del]

text \<open>Reading chunk after chunk; a refusal ends the connection.\<close>

fun read_chunks :: "nat \<Rightarrow> FrameDecoder \<Rightarrow> u8 list list \<Rightarrow> FrameDecoder \<times> Frame list \<times> Status" where
  "read_chunks m d [] = (d, [], ok_status)"
| "read_chunks m d (c # cs) =
     (case drain m (feed c d) of
        (d', fs, Inl e) \<Rightarrow> (d', fs, Inl e)
      | (d', fs, Inr _) \<Rightarrow> (case read_chunks m d' cs of (d'', gs, st) \<Rightarrow> (d'', fs @ gs, st)))"

function parse_stream :: "nat \<Rightarrow> u8 list \<Rightarrow> Frame list \<times> u8 list \<times> Status" where
  "parse_stream m bs =
     (case frame_at m bs of
        Inl e \<Rightarrow> ([], bs, Inl e)
      | Inr None \<Rightarrow> ([], bs, ok_status)
      | Inr (Some (f, n)) \<Rightarrow> (case parse_stream m (drop n bs) of (fs, rest, st) \<Rightarrow> (f # fs, rest, st)))"
  by pat_completeness auto

termination parse_stream
  by (relation "measure (\<lambda>(m, bs). length bs)") (auto dest!: frame_at_size)

declare parse_stream.simps [simp del]

subsection \<open>More bytes do not change what was read\<close>

lemma load_append [simp]:
  "n + 2 \<le> length bs \<Longrightarrow> load_u16 (bs @ cs) n = load_u16 bs n"
  "n + 4 \<le> length bs \<Longrightarrow> load_u32 (bs @ cs) n = load_u32 bs n"
  by (simp_all add: load_u16_def load_u32_def)

lemma frame_at_append:
  "frame_at m bs = Inl e \<Longrightarrow> frame_at m (bs @ cs) = Inl e"
  "frame_at m bs = Inr (Some fn) \<Longrightarrow> frame_at m (bs @ cs) = Inr (Some fn)"
  by (auto simp: frame_at_def Let_def frame_sizes and_then_def split: if_splits sum.splits)

lemma parse_stream_append:
  "parse_stream m (bs @ cs) =
     (case parse_stream m bs of
        (fs, rest, Inl e) \<Rightarrow> (fs, rest @ cs, Inl e)
      | (fs, rest, Inr _) \<Rightarrow> (case parse_stream m (rest @ cs) of (gs, rest', st) \<Rightarrow> (fs @ gs, rest', st)))"
proof (induction m bs rule: parse_stream.induct)
  case (1 m bs)
  show ?case
  proof (cases "frame_at m bs")
    case (Inl e)
    with frame_at_append(1) [of m bs e cs] show ?thesis by (simp add: parse_stream.simps [of m])
  next
    case (Inr v)
    show ?thesis
    proof (cases v)
      case None
      with Inr show ?thesis by (simp add: parse_stream.simps [of m bs])
    next
      case (Some fn)
      obtain f n where fn: "fn = (f, n)" by (cases fn)
      from Inr Some fn have at: "frame_at m bs = Inr (Some (f, n))" by simp
      obtain fs rest st where r: "parse_stream m (drop n bs) = (fs, rest, st)" by (cases "parse_stream m (drop n bs)")
      from "1.IH" [OF Inr Some fn [symmetric]] r frame_at_size [OF at] at frame_at_append(2) [OF at, of cs] show ?thesis
        by (simp add: parse_stream.simps [of m "bs @ cs"] parse_stream.simps [of m bs] split: sum.split prod.split)
    qed
  qed
qed

subsection \<open>The decoder computes the stream\<close>

definition decoder_ok :: "FrameDecoder \<Rightarrow> bool" where
  "decoder_ok d \<longleftrightarrow> dc_consumed d \<le> length (dc_buffer d)"

lemma pending_feed: "decoder_ok d \<Longrightarrow> pending (feed bs d) = pending d @ bs" "decoder_ok d \<Longrightarrow> decoder_ok (feed bs d)"
  by (simp_all add: decoder_ok_def pending_def feed_def)

lemma decoder_ok_next: "decoder_ok d \<Longrightarrow> decoder_next m d = (d', r) \<Longrightarrow> decoder_ok d'"
  by (auto simp: decoder_next_def decoder_ok_def frame_decoder_def pending_def
      split: sum.splits option.splits if_splits dest!: frame_at_size)

lemma drain_stream:
  "decoder_ok d \<Longrightarrow> drain m d = (d', fs, st) \<Longrightarrow> decoder_ok d' \<and> parse_stream m (pending d) = (fs, pending d', st)"
proof (induction m d arbitrary: d' fs st rule: drain.induct)
  case (1 m d)
  show ?case
  proof (cases "decoder_next m d")
    case (Pair d1 r)
    show ?thesis
    proof (cases "\<exists>f. r = Inr (Some f)")
      case False
      then have "d' = d" "fs = []" "frame_at m (pending d) = (case st of Inl e \<Rightarrow> Inl e | Inr _ \<Rightarrow> Inr None)"
        using Pair "1.prems"(2)
        by (auto simp: drain.simps [of m d] decoder_next_def split: sum.splits option.splits)
      with "1.prems"(1) show ?thesis by (simp add: parse_stream.simps [of m "pending d"] split: sum.splits)
    next
      case True
      then obtain f where n: "decoder_next m d = (d1, Inr (Some f))" using Pair by blast
      then obtain n where at: "frame_at m (pending d) = Inr (Some (f, n))" and p: "pending d1 = drop n (pending d)"
        using pending_step [of m d f] unfolding decoder_next_pending by blast
      obtain d2 gs st2 where r: "drain m d1 = (d2, gs, st2)" by (cases "drain m d1")
      have "d' = d2" "fs = f # gs" "st = st2" using "1.prems"(2) r n by (simp_all add: drain.simps [of m d])
      with "1.IH" [OF n [symmetric] refl refl decoder_ok_next [OF "1.prems"(1) n] r] p at show ?thesis
        by (simp add: parse_stream.simps [of m "pending d"])
    qed
  qed
qed

lemma read_chunks_stream:
  "decoder_ok d \<Longrightarrow> parse_stream m (pending d) = ([], pending d, ok_status) \<Longrightarrow>
   read_chunks m d cs = (d', fs, st) \<Longrightarrow>
   decoder_ok d' \<and> (\<exists>rest. parse_stream m (pending d @ concat cs) = (fs, rest, st) \<and> (st = ok_status \<longrightarrow> rest = pending d'))"
proof (induction cs arbitrary: d d' fs st)
  case (Cons c cs)
  obtain d1 gs st1 where r: "drain m (feed c d) = (d1, gs, st1)" by (cases "drain m (feed c d)")
  have s: "decoder_ok d1" "parse_stream m (pending d @ c) = (gs, pending d1, st1)"
    using drain_stream [OF pending_feed(2) r] Cons.prems(1) by (simp_all add: pending_feed(1))
  show ?case
  proof (cases st1)
    case (Inl e)
    with Cons.prems(3) r have "fs = gs" "st = Inl e" "d' = d1" by simp_all
    then show ?thesis using parse_stream_append [of m "pending d @ c" "concat cs"] s Inl by simp
  next
    case (Inr u)
    have e: "parse_stream m (pending d1) = ([], pending d1, ok_status)"
      using parse_stream_append [of m "pending d @ c" "[]"] s(2) Inr
      by (cases "parse_stream m (pending d1)") simp
    obtain d2 hs st2 where r2: "read_chunks m d1 cs = (d2, hs, st2)" by (cases "read_chunks m d1 cs")
    from Cons.IH [OF s(1) e r2] r r2 Cons.prems(3) Inr s(2) show ?thesis
      using parse_stream_append [of m "pending d @ c" "concat cs"] by auto
  qed
qed simp

lemma empty_stream: "parse_stream m [] = ([], [], ok_status)"
  by (simp add: parse_stream.simps frame_at_def frame_sizes)

lemma fresh_decoder: "decoder_ok frame_decoder" "parse_stream m (pending frame_decoder) = ([], pending frame_decoder, ok_status)"
  "pending frame_decoder = []"
  by (simp_all add: decoder_ok_def frame_decoder_def pending_def empty_stream)

text \<open>C12: the streaming decoder is independent of how the bytes arrive.  For every byte stream, valid or
  not, and every way to cut it into chunks, it delivers the frames of the whole stream in order and ends
  with the same refusal, if any; without a refusal it holds exactly the bytes of the incomplete frame.\<close>

theorem decoder_chunk_independent:
  "case (read_chunks m frame_decoder chunks, parse_stream m (concat chunks)) of ((d, fs, st), (gs, rest, st')) \<Rightarrow>
     fs = gs \<and> st = st' \<and> (case st of Inl _ \<Rightarrow> True | Inr _ \<Rightarrow> pending d = rest)"
proof -
  obtain d fs st where r: "read_chunks m frame_decoder chunks = (d, fs, st)" by (cases "read_chunks m frame_decoder chunks")
  from read_chunks_stream [OF fresh_decoder(1,2) r] obtain rest where
    "parse_stream m (concat chunks) = (fs, rest, st)" "st = ok_status \<longrightarrow> rest = pending d"
    by (auto simp: fresh_decoder(3))
  with r show ?thesis by (auto split: sum.split)
qed

subsection \<open>Frames are read back\<close>

lemma length_frame_body [simp]: "length (frame_body f) = 20 + length (fm_payload f)"
  by (simp add: frame_body_def)

lemma frame_fields:
  "load_u16 (frame_body f @ t) 0 = kFrameMagic" "load_u16 (frame_body f @ t) 2 = kProtocolVersion"
  "load_u16 (frame_body f @ t) 4 = fm_opcode f" "load_u16 (frame_body f @ t) 6 = fm_flags f"
  "load_u64 (frame_body f @ t) 8 = fm_request_id f"
  "load_u32 (frame_body f @ t) 16 = of_nat (length (fm_payload f))"
  "drop 20 (frame_body f) = fm_payload f"
  unfolding frame_body_def
  by (simp_all add: load_u16_def load_u32_def load_u64_def le_word_le_bytes)

lemma encode_frame_Inr:
  "encode_frame m f = Inr bs \<longleftrightarrow> length (fm_payload f) \<le> m \<and> length (fm_payload f) + 24 < 2 ^ 64 \<and>
     bs = frame_body f @ le_bytes 4 (crc32c (frame_body f))"
  by (auto simp: encode_frame_def frame_total_def checked_add_size_def frame_sizes split: if_splits option.splits)

lemma decode_encode_frame:
  assumes "encode_frame m f = Inr bs" and "length (fm_payload f) < 2 ^ 32"
  shows "decode_frame m bs = Inr f"
proof -
  have bs: "length (fm_payload f) \<le> m" "bs = frame_body f @ le_bytes 4 (crc32c (frame_body f))"
    using assms(1) by (simp_all add: encode_frame_Inr)
  have n: "unat (of_nat (length (fm_payload f)) :: u32) = length (fm_payload f)"
    using assms(2) by (simp add: unat_of_nat take_bit_nat_eq_self)
  have crc: "load_u32 bs (20 + length (fm_payload f)) = crc32c (frame_body f)"
    using load_u32_at [of "frame_body f" "20 + length (fm_payload f)" "crc32c (frame_body f)" "[]"] bs(2) by simp
  show ?thesis
    using bs n crc assms(2) unfolding decode_frame_def
    by (simp add: frame_fields frame_sizes frame_total_def checked_add_size_def Let_def)
qed

lemma frame_at_encoded:
  assumes "encode_frame m f = Inr bs" and "length (fm_payload f) < 2 ^ 32"
  shows "frame_at m (bs @ cs) = Inr (Some (f, length bs))"
proof -
  have bs: "length (fm_payload f) \<le> m" "bs = frame_body f @ le_bytes 4 (crc32c (frame_body f))"
    using assms(1) by (simp_all add: encode_frame_Inr)
  have n: "unat (of_nat (length (fm_payload f)) :: u32) = length (fm_payload f)"
    using assms(2) by (simp add: unat_of_nat take_bit_nat_eq_self)
  have "frame_at m bs = Inr (Some (f, length bs))"
    using bs n decode_encode_frame [OF assms] unfolding frame_at_def
    by (simp add: frame_fields frame_sizes Let_def)
  then show ?thesis by (rule frame_at_append(2))
qed

lemma parse_encoded:
  "list_all (\<lambda>f. length (fm_payload f) < 2 ^ 32) fs \<Longrightarrow> map (encode_frame m) fs = map Inr bss \<Longrightarrow>
   parse_stream m (concat bss @ rest) = (case parse_stream m rest of (gs, r, st) \<Rightarrow> (fs @ gs, r, st))"
proof (induction fs arbitrary: bss)
  case (Cons f fs)
  then obtain bs bss' where b: "bss = bs # bss'" "encode_frame m f = Inr bs" "map (encode_frame m) fs = map Inr bss'" by auto
  with Cons frame_at_encoded [OF b(2), of "concat bss' @ rest"] show ?case
    by (simp add: parse_stream.simps [of m "bs @ concat bss' @ rest"] split: prod.split)
qed simp

text \<open>What is sent is what is received.  When a sender encodes frames that fit the frame bound and
  their bytes arrive in any chunks, the receiver delivers exactly those frames in order, refuses
  nothing, and is left with no partial frame.\<close>

lemma frames_delivered:
  assumes "m < 2 ^ 32" and "map (encode_frame m) fs = map Inr bss" and "concat chunks = concat bss"
  shows "\<exists>d'. read_chunks m frame_decoder chunks = (d', fs, ok_status) \<and> finish d' = ok_status"
proof -
  have "list_all (\<lambda>f. length (fm_payload f) < 2 ^ 32) fs"
  proof (unfold list_all_iff, rule ballI)
    fix f assume "f \<in> set fs"
    then have "encode_frame m f \<in> set (map (encode_frame m) fs)" by simp
    then obtain bs where "encode_frame m f = Inr bs" unfolding assms(2) by auto
    with assms(1) show "length (fm_payload f) < 2 ^ 32" by (simp add: encode_frame_Inr)
  qed
  then have p: "parse_stream m (concat chunks) = (fs, [], ok_status)"
    using parse_encoded [OF _ assms(2), of "[]"] by (simp add: assms(3) empty_stream)
  obtain d' gs st where r: "read_chunks m frame_decoder chunks = (d', gs, st)" by (cases "read_chunks m frame_decoder chunks")
  have "gs = fs" "st = ok_status" "pending d' = []" "decoder_ok d'"
    using read_chunks_stream [OF fresh_decoder(1,2) r] p by (simp_all add: fresh_decoder(3))
  then show ?thesis using r by (simp add: finish_def pending_def decoder_ok_def)
qed

subsection \<open>Corruption is refused\<close>

lemma le_word_inject:
  fixes xs ys :: "u8 list"
  assumes "length xs = n" "length ys = n" "LENGTH('a::len) = 8 * n"
    and eq: "(le_word xs :: 'a word) = le_word ys"
  shows "xs = ys"
proof (rule nth_equalityI)
  fix i assume "i < length xs"
  then have i: "i < n" using assms(1) by simp
  show "xs ! i = ys ! i"
  proof (rule bit_word_eqI)
    fix j assume "j < LENGTH(8)"
    then have j: "j < 8" by simp
    with i have "8 * i + j < LENGTH('a)" unfolding assms(3) by simp
    moreover have "bit (le_word zs :: 'a word) (8 * i + j) \<longleftrightarrow> 8 * i + j < LENGTH('a) \<and> bit (zs ! i) j"
      if "length zs = n" for zs :: "u8 list"
      using that i j bit_le_word [of n zs "8 * i + j"] unfolding le_word_def by simp
    ultimately show "bit (xs ! i) j \<longleftrightarrow> bit (ys ! i) j" using eq assms(1,2) by metis
  qed
qed (simp add: assms)

lemma decode_frame_checks:
  assumes "decode_frame m bs = Inr f"
  shows "24 \<le> length bs" "load_u32 bs (length bs - 4) = crc32c (take (length bs - 4) bs)"
  using assms
  by (auto simp: decode_frame_def frame_sizes frame_total_def checked_add_size_def Let_def split: if_splits option.splits)

text \<open>C13: a damaged frame is never accepted.  Changing any single byte of an encoded frame, in the header,
  in the length, in the payload or in the checksum itself, makes the decoder refuse it.\<close>

theorem frame_corruption_refused:
  assumes "encode_frame m f = Inr (xs @ b # ys)" and "b \<noteq> b'"
  shows "\<exists>e. decode_frame m' (xs @ b' # ys) = Inl e"
proof (rule ccontr)
  assume "\<not> ?thesis"
  then obtain g where "decode_frame m' (xs @ b' # ys) = Inr g" by (metis sum.exhaust)
  from decode_frame_checks [OF this] have n: "24 \<le> length (xs @ b' # ys)"
    and crc: "le_word (drop (length (xs @ b' # ys) - 4) (xs @ b' # ys)) = crc32c (take (length (xs @ b' # ys) - 4) (xs @ b' # ys))"
    by (simp_all add: load_u32_def)
  have e: "xs @ b # ys = frame_body f @ le_bytes 4 (crc32c (frame_body f))" using assms(1) by (simp add: encode_frame_Inr)
  define k where "k = length (frame_body f)"
  have k: "length (xs @ b' # ys) - 4 = k" "length xs + Suc (length ys) = k + 4"
    using arg_cong [OF e, of length] by (simp_all add: k_def)
  have body: "take k (xs @ b # ys) = frame_body f" "drop k (xs @ b # ys) = le_bytes 4 (crc32c (frame_body f))"
    unfolding e by (simp_all add: k_def)
  note crc = crc [unfolded k(1)]
  show False
  proof (cases "length xs < k")
    case True
    then obtain j where j: "k = length xs + Suc j" using less_iff_Suc_add by auto
    from body j have "xs @ b # take j ys = frame_body f" "drop j ys = le_bytes 4 (crc32c (frame_body f))" by simp_all
    moreover from crc j have "le_word (drop j ys) = crc32c (xs @ b' # take j ys)" by simp
    ultimately have "crc32c (xs @ b # take j ys) = crc32c (xs @ b' # take j ys)" by (simp add: le_word_le_bytes)
    with crc32c_byte_change [OF assms(2)] show False by blast
  next
    case False
    then have z: "k - length xs = 0" by simp
    with body(1) have "take k (xs @ b' # ys) = frame_body f" by simp
    with crc body(2) have "(le_word (drop k (xs @ b' # ys)) :: u32) = le_word (drop k (xs @ b # ys))"
      by (simp only: le_word_le_bytes [of 4] len_num1 len_bit0 len_bit1)
    then have "drop k (xs @ b' # ys) = drop k (xs @ b # ys)"
      by (rule le_word_inject [rotated 3, of _ _ 4]) (use k in simp_all)
    with z assms(2) show False by simp
  qed
qed

theorem frame_corruption_refused_witness:
  "\<exists>e. decode_frame 100 (le_bytes 2 kFrameMagic @ 9 # tl (drop 2 (frame_body no_frame @ le_bytes 4 (crc32c (frame_body no_frame))))) = Inl e"
proof -
  have "encode_frame 100 no_frame = Inr (le_bytes 2 kFrameMagic @ 1 # tl (drop 2 (frame_body no_frame @ le_bytes 4 (crc32c (frame_body no_frame)))))"
    by (simp add: encode_frame_Inr no_frame_def) (simp add: frame_body_def kProtocolVersion_def le_bytes_def upt_rec)
  then show ?thesis by (rule frame_corruption_refused) simp
qed
subsection \<open>The buffer is not bounded by the frame size\<close>

text \<open>
  Consumed bytes leave the buffer only when nothing is pending.  A peer that always keeps one byte of
  the next frame in flight makes the buffer grow with everything it ever sent.
\<close>

lemma drain_waits: "frame_at m (pending d) = Inr None \<Longrightarrow> drain m d = (d, [], ok_status)"
  by (subst drain.simps) (simp add: decoder_next_def)

lemma short_waits: "length bs < 24 \<Longrightarrow> frame_at m bs = Inr None"
  by (simp add: frame_at_def frame_sizes)

lemma drain_one:
  assumes "decoder_ok e" and "pending e = bs @ rest" and "frame_at m (pending e) = Inr (Some (f, length bs))"
    and "rest \<noteq> []" and "length rest < 24"
  shows "\<exists>e'. drain m e = (e', [f], ok_status) \<and> decoder_ok e' \<and> pending e' = rest \<and> dc_buffer e' = dc_buffer e"
proof -
  define e' where "e' = e\<lparr>dc_consumed := dc_consumed e + length bs\<rparr>"
  have len: "length (dc_buffer e) = dc_consumed e + (length bs + length rest)"
    using assms(1) arg_cong [OF assms(2), of length] by (simp add: decoder_ok_def pending_def)
  then have n: "decoder_next m e = (e', Inr (Some f))" using assms(3,4) by (simp add: decoder_next_def e'_def)
  have "pending e' = drop (length bs) (pending e)" by (simp add: e'_def pending_def add.commute)
  then have p: "pending e' = rest" using assms(2) by simp
  have "drain m e' = (e', [], ok_status)" by (rule drain_waits) (simp add: p short_waits assms(5))
  with n have "drain m e = (e', [f], ok_status)" by (subst drain.simps) simp
  moreover have "decoder_ok e'" using len by (simp add: decoder_ok_def e'_def)
  ultimately show ?thesis using p by (auto simp: e'_def)
qed

lemma drain_overlapping:
  assumes "encode_frame m f = Inr (b # bs)" and "length (fm_payload f) < 2 ^ 32" and "decoder_ok d" and "pending d = [b]"
  shows "\<exists>d'. drain m (feed (bs @ [b]) d) = (d', [f], ok_status) \<and> decoder_ok d' \<and> pending d' = [b] \<and>
    dc_buffer d' = dc_buffer d @ bs @ [b]"
proof -
  have p: "pending (feed (bs @ [b]) d) = (b # bs) @ [b]" using pending_feed(1) [OF assms(3)] assms(4) by simp
  have "frame_at m (pending (feed (bs @ [b]) d)) = Inr (Some (f, length (b # bs)))"
    unfolding p by (rule frame_at_encoded [OF assms(1,2)])
  from drain_one [OF pending_feed(2) [OF assms(3)] p this] show ?thesis by (simp add: feed_def)
qed

lemma decoder_buffer_unbounded:
  assumes "encode_frame m f = Inr (b # bs)" and "length (fm_payload f) < 2 ^ 32"
  shows "\<exists>d. read_chunks m frame_decoder ([b] # replicate k (bs @ [b])) = (d, replicate k f, ok_status) \<and>
    pending d = [b] \<and> length (dc_buffer d) = Suc (k * Suc (length bs))"
proof -
  have step: "\<exists>d'. read_chunks m d (replicate k (bs @ [b])) = (d', replicate k f, ok_status) \<and> pending d' = [b] \<and>
      length (dc_buffer d') = length (dc_buffer d) + k * Suc (length bs)" if "decoder_ok d" "pending d = [b]" for d
    using that
  proof (induction k arbitrary: d)
    case (Suc k)
    obtain d1 where d1: "drain m (feed (bs @ [b]) d) = (d1, [f], ok_status)" "decoder_ok d1" "pending d1 = [b]"
        "dc_buffer d1 = dc_buffer d @ bs @ [b]"
      using drain_overlapping [OF assms Suc.prems] by blast
    from Suc.IH [OF d1(2,3)] d1(1,4) show ?case by auto
  qed simp
  have first: "drain m (feed [b] frame_decoder) = (feed [b] frame_decoder, [], ok_status)"
    by (rule drain_waits, rule short_waits) (simp add: pending_def feed_def frame_decoder_def)
  have "decoder_ok (feed [b] frame_decoder)" "pending (feed [b] frame_decoder) = [b]" "length (dc_buffer (feed [b] frame_decoder)) = 1"
    by (simp_all add: decoder_ok_def pending_def feed_def frame_decoder_def)
  with step [of "feed [b] frame_decoder"] first show ?thesis by auto
qed
end
