(* ===== verification/Nof_Net.thy ===== *)
theory Nof_Net
  imports Nof_Error "HOL-Library.Sublist"
begin

text \<open>
  The socket layer of \<open>src/detail/net.cpp\<close>.  The operating system is a parameter: an \<open>OsNet\<close> says
  what each of its calls returns, and \<open>os_send k request\<close> is the result of the \<open>k\<close>-th \<open>send\<close> of a
  loop.  A closed socket is \<open>None\<close>.  The documented behaviour of \<open>send\<close> and \<open>recv\<close>, that they never
  report more bytes than they were given, is the hypothesis \<open>os_honest\<close> of the lemmas that need it.
\<close>

subsection \<open>Sockets\<close>

type_synonym Handle = nat

record OsNet =
  os_send :: "nat \<Rightarrow> nat \<Rightarrow> int"
  os_recv :: "nat \<Rightarrow> int"
  os_close :: int
  os_shutdown :: "int \<times> bool"
  os_setsockopt :: int
  os_socket :: "Handle option"
  os_bind :: int
  os_listen :: int
  os_getsockname :: "int \<times> 16 word"
  os_accept :: "Handle option"
  os_connect :: int
  os_sendto :: int
  os_select :: "int \<times> bool \<times> bool"
  os_parse_ipv4 :: "string \<Rightarrow> 32 word option"

definition socket_error :: "string \<Rightarrow> Error" where
  "socket_error what = Error RC_ConnectionRefused (what @ '' failed'')"

definition set_reuse_address :: "OsNet \<Rightarrow> Handle option \<Rightarrow> Status" where
  "set_reuse_address os socket =
     (if socket = None then Inl (socket_error ''set_reuse_address'')
      else if os_setsockopt os \<noteq> 0 then Inl (socket_error ''setsockopt(SO_REUSEADDR)'')
      else ok_status)"

text \<open>The second component of \<open>os_shutdown\<close>: the failure is one of the two codes of an unconnected socket.\<close>

definition shutdown_both :: "OsNet \<Rightarrow> Handle option \<Rightarrow> Status" where
  "shutdown_both os socket =
     (if socket = None then ok_status
      else if fst (os_shutdown os) \<noteq> 0 \<and> \<not> snd (os_shutdown os) then Inl (socket_error ''shutdown'')
      else ok_status)"

definition socket_close :: "OsNet \<Rightarrow> Handle option \<Rightarrow> Handle option \<times> Status" where
  "socket_close os socket =
     (if socket = None then (None, ok_status)
      else (None, if os_close os \<noteq> 0 then Inl (socket_error ''close'') else ok_status))"

subsection \<open>Writing and reading\<close>

definition kSendChunk :: nat where "kSendChunk = push_bit 20 1"

text \<open>
  The loop of \<open>send_bytes\<close>.  Besides its result it returns the bytes that the operating system took,
  in order.
\<close>

function send_from :: "OsNet \<Rightarrow> 'a list \<Rightarrow> nat \<Rightarrow> nat \<Rightarrow> 'a list \<times> nat result" where
  "send_from os data k sent =
     (if \<not> sent < length data then ([], Inr sent)
      else let chunk = length data - sent;
               request = (if chunk > kSendChunk then kSendChunk else chunk);
               written = os_send os k request
           in if written \<le> 0 then ([], Inl (socket_error ''send''))
              else (case send_from os data (k + 1) (sent + nat written) of
                      (out, r) \<Rightarrow> (take (nat written) (drop sent data) @ out, r)))"
  by pat_completeness auto
termination send_from
  by (relation "measure (\<lambda>(os, data, k, sent). length data - sent)") auto

declare send_from.simps [simp del]

definition send_bytes :: "OsNet \<Rightarrow> Handle option \<Rightarrow> 'a list \<Rightarrow> 'a list \<times> nat result" where
  "send_bytes os socket data =
     (if socket = None then ([], Inl (socket_error ''send on closed socket''))
      else send_from os data 0 0)"

definition receive_bytes :: "OsNet \<Rightarrow> Handle option \<Rightarrow> nat \<Rightarrow> nat result" where
  "receive_bytes os socket count =
     (if socket = None then Inl (socket_error ''receive on closed socket'')
      else if count = 0 then Inr 0
      else let request = (if count > kSendChunk then kSendChunk else count);
               got = os_recv os request
           in if got < 0 then Inl (socket_error ''recv'') else Inr (nat got))"

subsection \<open>Listening and connecting\<close>

definition listen_tcp :: "OsNet \<Rightarrow> string \<Rightarrow> 16 word \<Rightarrow> (Handle option \<times> 16 word) result" where
  "listen_tcp os address port =
     (case os_parse_ipv4 os address of
        None \<Rightarrow> Err RC_EndpointInvalid ''listen address must be a literal IPv4 address''
      | Some parsed \<Rightarrow>
          (case os_socket os of
             None \<Rightarrow> Inl (socket_error ''socket'')
           | Some handle \<Rightarrow>
               and_then (set_reuse_address os (Some handle)) (\<lambda>_.
                 if os_bind os \<noteq> 0 then Inl (socket_error ''bind'')
                 else if os_listen os \<noteq> 0 then Inl (socket_error ''listen'')
                 else if fst (os_getsockname os) \<noteq> 0 then Inl (socket_error ''getsockname'')
                 else Inr (Some handle, snd (os_getsockname os)))))"

definition accept_tcp :: "OsNet \<Rightarrow> Handle option \<Rightarrow> Handle option result" where
  "accept_tcp os listener =
     (if listener = None then Inl (socket_error ''accept on closed listener'')
      else case os_accept os of
        None \<Rightarrow> Inl (socket_error ''accept'')
      | Some handle \<Rightarrow> Inr (Some handle))"

definition connect_tcp :: "OsNet \<Rightarrow> string \<Rightarrow> 16 word \<Rightarrow> Handle option result" where
  "connect_tcp os host port =
     (let address = (if host = ''localhost'' \<or> host = [] then ''127.0.0.1'' else host) in
      case os_parse_ipv4 os address of
        None \<Rightarrow> Err RC_EndpointInvalid ''connect address must be a literal IPv4 address''
      | Some parsed \<Rightarrow>
          (case os_socket os of
             None \<Rightarrow> Inl (socket_error ''socket'')
           | Some handle \<Rightarrow>
               if os_connect os \<noteq> 0 then Inl (socket_error ''connect'') else Inr (Some handle)))"

definition make_wakeup_socket :: "OsNet \<Rightarrow> (Handle option \<times> 16 word) result" where
  "make_wakeup_socket os =
     (case os_socket os of
        None \<Rightarrow> Inl (socket_error ''socket(udp)'')
      | Some handle \<Rightarrow>
          if os_bind os \<noteq> 0 then Inl (socket_error ''bind(udp)'')
          else if fst (os_getsockname os) \<noteq> 0 then Inl (socket_error ''getsockname(udp)'')
          else Inr (Some handle, snd (os_getsockname os)))"

definition send_wakeup :: "OsNet \<Rightarrow> Handle option \<Rightarrow> 16 word \<Rightarrow> Status" where
  "send_wakeup os wakeup port =
     (if wakeup = None then Inl (socket_error ''wakeup socket is closed'')
      else if os_sendto os < 0 then Inl (socket_error ''sendto(wakeup)'')
      else ok_status)"

definition wait_readable :: "OsNet \<Rightarrow> Handle option \<Rightarrow> Handle option \<Rightarrow> bool \<times> bool \<times> Status" where
  "wait_readable os a b =
     (if a = None \<and> b = None then (False, False, Err RC_ShuttingDown ''no socket to wait on'')
      else case os_select os of
        (ready, a_set, b_set) \<Rightarrow>
          if ready < 0 then (False, False, Inl (socket_error ''select''))
          else (a \<noteq> None \<and> a_set, b \<noteq> None \<and> b_set, ok_status))"

definition is_local_address :: "string \<Rightarrow> bool" where
  "is_local_address a \<longleftrightarrow> a = ''127.0.0.1'' \<or> a = ''localhost'' \<or> a = ''::1''"

subsection \<open>A write is complete or reported\<close>

definition os_honest :: "OsNet \<Rightarrow> bool" where
  "os_honest os \<longleftrightarrow> (\<forall>k request. os_send os k request \<le> int request) \<and> (\<forall>request. os_recv os request \<le> int request)"

lemma send_from_spec:
  assumes "os_honest os" and "sent \<le> length data" and "send_from os data k sent = (out, r)"
  shows "prefix out (drop sent data) \<and> (\<forall>n. r = Inr n \<longrightarrow> n = length data \<and> out = drop sent data) \<and>
    (\<forall>e. r = Inl e \<longrightarrow> out \<noteq> drop sent data)"
  using assms
proof (induction os data k sent arbitrary: out r rule: send_from.induct)
  case (1 os data k sent)
  show ?case
  proof (cases "sent < length data")
    case False
    then have "sent = length data" "out = []" "r = Inr (length data)"
      using "1.prems" unfolding send_from.simps [of os data k sent] by simp_all
    then show ?thesis by simp
  next
    case True
    define request where "request = (if length data - sent > kSendChunk then kSendChunk else length data - sent)"
    define written where "written = os_send os k request"
    have run: "send_from os data k sent =
        (if written \<le> 0 then ([], Inl (socket_error ''send''))
         else (case send_from os data (k + 1) (sent + nat written) of
                 (out, r) \<Rightarrow> (take (nat written) (drop sent data) @ out, r)))"
      using True by (simp add: send_from.simps [of os data k sent] request_def written_def Let_def)
    show ?thesis
    proof (cases "written \<le> 0")
      case refused: True
      with "1.prems"(3) True show ?thesis by (auto simp: run)
    next
      case False
      obtain out' where out': "send_from os data (k + 1) (sent + nat written) = (out', r)"
          "out = take (nat written) (drop sent data) @ out'"
        using "1.prems"(3) False by (auto simp: run split: prod.splits)
      have "written \<le> int request" using "1.prems"(1) by (simp add: os_honest_def written_def)
      then have le: "sent + nat written \<le> length data" using True False by (auto simp: request_def split: if_splits)
      have split: "drop sent data = take (nat written) (drop sent data) @ drop (sent + nat written) data"
        by (metis append_take_drop_id drop_drop add.commute)
      from True have "\<not> \<not> sent < length data" by simp
      note IH = "1.IH" [OF this refl refl refl, folded request_def written_def,
          OF False "1.prems"(1) le out'(1)]
      from IH show ?thesis unfolding out'(2) by (subst (1 2 3) split) simp
    qed
  qed
qed

text \<open>
  However the operating system cuts a write, the bytes go out in order: all of them when the call
  succeeds, a proper prefix when it reports a failure.
\<close>

lemma send_bytes_complete:
  assumes "os_honest os" and "send_bytes os (Some h) data = (out, r)"
  shows "(r = Inr (length data) \<and> out = data) \<or> (\<exists>e. r = Inl e \<and> strict_prefix out data)"
  using send_from_spec [OF assms(1), of 0 data 0 out r] assms(2)
  by (cases r) (auto simp: send_bytes_def strict_prefix_def)

lemma receive_bytes_bounded:
  assumes "os_honest os" and "receive_bytes os socket count = Inr n"
  shows "n \<le> count"
proof -
  have "os_recv os m \<le> int m" for m using assms(1) by (simp add: os_honest_def)
  from this [of kSendChunk] this [of count] assms(2) show ?thesis
    by (auto simp: receive_bytes_def Let_def nat_le_iff split: if_splits)
qed

end
