(* ===== verification/Nof_Service.thy ===== *)
theory Nof_Service
  imports Nof_Audit Nof_Frames Nof_Net
begin

text \<open>
  The service in front of the fabric (\<open>src/service.cpp\<close>): \<open>handle_request\<close> with its response cache
  and one handler per opcode, the connection loop, the accept queue, \<open>start\<close> and \<open>stop\<close>, and the
  client.  The sockets are those of \<open>Nof_Net\<close>; within a connection they are the list of what its reads return
  (bytes, or a failure; the end of the list is the peer closing) and an answer for every write.  Requests run one
  after another; the locks of the program make each cache access and each fabric operation atomic.
\<close>

subsection \<open>Payloads\<close>

definition encode_error_payload :: "Bounds \<Rightarrow> Error \<Rightarrow> u8 list" where
  "encode_error_payload bounds e =
     (case encode_fresh (max_reason_detail_bytes bounds + 64)
        (bw_seq [bw_u16 (code e), bw_text (take (max_reason_detail_bytes bounds) (detail e))]) of
        Inl _ \<Rightarrow> [] | Inr bs \<Rightarrow> bs)"

definition decode_error_payload :: "Bounds \<Rightarrow> u8 list \<Rightarrow> Error result" where
  "decode_error_payload bounds payload = decode_all
     (rd_bind (br_reason ''error payload carries an unknown reason code'') (\<lambda>c.
      rd_bind br_text (\<lambda>why. rd_return (Error c why)))) payload (max_text_bytes bounds)"

definition decode_exact :: "Bounds \<Rightarrow> 'a decoder \<Rightarrow> u8 list \<Rightarrow> 'a result" where
  "decode_exact bounds dec payload =
     and_then (dec (bin_reader payload (max_text_bytes bounds))) (\<lambda>(v, r).
       if at_end r then Inr v else Err RC_MalformedInput ''request payload carries trailing bytes'')"

definition take_payload :: "Bounds \<Rightarrow> 'a decoder \<Rightarrow> u8 list \<Rightarrow> 'a action" where
  "take_payload bounds dec payload = act_lift (decode_exact bounds dec payload)"

definition no_fields :: "unit decoder" where "no_fields = rd_return ()"

text \<open>The answer is encoded into a buffer of the given size.\<close>

definition answer_with :: "nat \<Rightarrow> (BinWriter \<Rightarrow> BinWriter \<times> Status) \<Rightarrow> u8 list action" where
  "answer_with max_bytes enc = act_lift (encode_fresh max_bytes enc)"

definition answer_text :: "nat \<Rightarrow> string \<Rightarrow> u8 list action" where
  "answer_text room t = answer_with (length t + room) (bw_text t)"

subsection \<open>The handlers\<close>

definition serve_hello :: "Bounds \<Rightarrow> u8 list \<Rightarrow> u8 list action" where
  "serve_hello bounds payload =
     act_bind (take_payload bounds (rd_bind br_u16 (\<lambda>version.
       if version \<noteq> kProtocolVersion
       then rd_fail RC_ProtocolVersionMismatch ''peer protocol version is not supported''
       else rd_return ())) payload) (\<lambda>_.
     answer_with 256 (bw_seq [bw_text kProductName, bw_text version_string, bw_u64 (ucast kProtocolVersion)]))"

definition serve_ping :: "Bounds \<Rightarrow> u8 list \<Rightarrow> u8 list action" where
  "serve_ping bounds payload =
     act_bind (take_payload bounds no_fields payload) (\<lambda>_.
     act_bind (act_get (\<lambda>i. fs_epoch (im_state i))) (\<lambda>epoch.
     answer_with 128 (bw_seq [bw_u64 (ce_counter epoch), bw_text (ce_boot epoch)])))"

definition serve_stats :: "u8 list action" where
  "serve_stats = act_bind (act_get (\<lambda>i. render_stats (fabric_stats i))) (answer_text 64)"

definition serve_update :: "Bounds \<Rightarrow> 'a decoder \<Rightarrow> ('a \<Rightarrow> unit action) \<Rightarrow> u8 list \<Rightarrow> u8 list action" where
  "serve_update bounds dec update payload =
     act_bind (take_payload bounds dec payload) (\<lambda>v. act_bind (update v) (\<lambda>_. act_return []))"

definition dec_withdrawal :: "(AuthorityId \<times> ReasonCode) decoder" where
  "dec_withdrawal =
     rd_bind br_token (\<lambda>authority.
     rd_bind (br_reason ''withdrawal carries an unknown reason code'') (\<lambda>reason.
     rd_return (authority, reason)))"

definition serve_record ::
    "Bounds \<Rightarrow> 'a decoder \<Rightarrow> ('a \<Rightarrow> AssignmentRecord action) \<Rightarrow> u8 list \<Rightarrow> u8 list action" where
  "serve_record bounds dec operation payload =
     act_bind (take_payload bounds dec payload) (\<lambda>v.
     act_bind (operation v) (\<lambda>record.
     answer_with (max_request_bytes bounds) (encode_assignment record)))"

definition serve_plan :: "Bounds \<Rightarrow> u8 list \<Rightarrow> u8 list action" where
  "serve_plan bounds payload =
     act_bind (take_payload bounds (decode_placement_request bounds) payload) (\<lambda>placement.
     act_bind (fabric_plan placement None) (\<lambda>planned.
     answer_with (max_request_bytes bounds) (encode_plan_result planned)))"

definition dec_apply :: "Bounds \<Rightarrow> (PlacementRequest \<times> bool) decoder" where
  "dec_apply bounds =
     rd_bind (decode_placement_request bounds) (\<lambda>placement.
     rd_bind br_boolean (\<lambda>allow_replace. rd_return (placement, allow_replace)))"

definition service_apply :: "CancelToken \<Rightarrow> PlacementRequest \<times> bool \<Rightarrow> AssignmentRecord action" where
  "service_apply cancel v =
     fabric_apply (fst v) \<lparr>ao_request_id = rq_request_id (fst v), ao_cancel = Some cancel, ao_allow_replacement = snd v\<rparr>"

definition dec_revoke :: "RevokeRequest decoder" where
  "dec_revoke =
     rd_bind br_token (\<lambda>request_id.
     rd_bind br_token (\<lambda>assignment.
     rd_bind (br_reason ''revocation carries an unknown reason code'') (\<lambda>reason.
     rd_bind br_token (\<lambda>authority.
     rd_return \<lparr>rk_request_id = request_id, rk_assignment = assignment, rk_reason = reason, rk_authority = authority\<rparr>))))"

definition dec_replace :: "Bounds \<Rightarrow> CancelToken \<Rightarrow> ReplaceRequest decoder" where
  "dec_replace bounds cancel =
     rd_bind br_token (\<lambda>request_id.
     rd_bind br_token (\<lambda>current.
     rd_bind (decode_placement_request bounds) (\<lambda>placement.
     rd_return \<lparr>rp_request_id = request_id, rp_current = current, rp_placement = placement, rp_cancel = Some cancel\<rparr>)))"

definition dec_reauthorize :: "ReauthorizeRequest decoder" where
  "dec_reauthorize =
     rd_bind br_token (\<lambda>request_id.
     rd_bind br_token (\<lambda>assignment.
     rd_bind br_token (\<lambda>authority.
     rd_return \<lparr>ra_request_id = request_id, ra_assignment = assignment, ra_authority = authority\<rparr>)))"

definition serve_revalidate :: "Bounds \<Rightarrow> CancelToken \<Rightarrow> u8 list \<Rightarrow> u8 list action" where
  "serve_revalidate bounds cancel payload =
     act_bind (take_payload bounds no_fields payload) (\<lambda>_.
     act_bind (fabric_revalidate (Some cancel)) (\<lambda>report.
     answer_with (max_request_bytes bounds) (encode_revalidation report)))"

definition dec_listing :: "(AssignmentFilter \<times> nat \<times> nat) decoder" where
  "dec_listing =
     rd_bind decode_filter (\<lambda>f.
     rd_bind br_u64 (\<lambda>offset.
     rd_bind br_u64 (\<lambda>limit. rd_return (f, unat offset, unat limit))))"

definition serve_listing :: "Bounds \<Rightarrow> u8 list \<Rightarrow> u8 list action" where
  "serve_listing bounds payload =
     act_bind (take_payload bounds dec_listing payload) (\<lambda>(f, offset, limit).
     act_bind (list_assignments f offset limit) (\<lambda>(records, truncated).
     answer_with (max_request_bytes bounds)
       (bw_seq ([bw_boolean truncated, bw_u32 (of_nat (length records))] @ map encode_assignment records))))"

definition serve_scope :: "Bounds \<Rightarrow> u8 list \<Rightarrow> u8 list action" where
  "serve_scope bounds payload =
     act_bind (take_payload bounds br_token payload) (\<lambda>scope.
     act_bind (get_scope scope) (\<lambda>view.
     answer_with (max_request_bytes bounds) (encode_scope_view view)))"

definition answer_explanation :: "Bounds \<Rightarrow> Explanation \<Rightarrow> u8 list action" where
  "answer_explanation bounds e =
     (case explanation_to_json e (max_export_bytes bounds) of
        (document, Inl err) \<Rightarrow> act_lift (Inl err)
      | (document, Inr _) \<Rightarrow> answer_text 64 document)"

definition serve_explanation :: "Bounds \<Rightarrow> 'a decoder \<Rightarrow> ('a \<Rightarrow> Explanation action) \<Rightarrow> u8 list \<Rightarrow> u8 list action" where
  "serve_explanation bounds dec explain payload =
     act_bind (take_payload bounds dec payload) (\<lambda>v.
     act_bind (explain v) (answer_explanation bounds))"

definition serve_digest :: "Bounds \<Rightarrow> u8 list \<Rightarrow> u8 list action" where
  "serve_digest bounds payload =
     act_bind (take_payload bounds no_fields payload) (\<lambda>_.
     act_bind (act_get (\<lambda>i. digest_hex (state_digest i))) (answer_text 16))"

definition ExportFormat_of_value :: "u8 \<Rightarrow> ExportFormat option" where
  "ExportFormat_of_value v =
     (if v = 1 then Some XF_CanonicalJson else if v = 2 then Some XF_CanonicalText
      else if v = 3 then Some XF_CanonicalBinary else None)"

definition answer_export :: "nat \<Rightarrow> string \<times> Status \<Rightarrow> u8 list action" where
  "answer_export limit export =
     (case export of
        (document, Inl e) \<Rightarrow> act_lift (Inl e)
      | (document, Inr _) \<Rightarrow>
          if length document > limit then act_fail RC_ResponseTooLarge ''export exceeds the frame bound''
          else act_return (string_bytes document))"

definition serve_export :: "Bounds \<Rightarrow> nat \<Rightarrow> u8 list \<Rightarrow> u8 list action" where
  "serve_export bounds limit payload =
     act_bind (take_payload bounds br_u8 payload) (\<lambda>raw.
       case ExportFormat_of_value raw of
         None \<Rightarrow> act_fail RC_UnsupportedValue ''export format is not supported''
       | Some format \<Rightarrow> act_bind (act_get (export_canonical format)) (answer_export limit))"

definition serve_report :: "Bounds \<Rightarrow> (Impl \<Rightarrow> string) \<Rightarrow> u8 list \<Rightarrow> u8 list action" where
  "serve_report bounds shown payload =
     act_bind (take_payload bounds no_fields payload) (\<lambda>_.
     act_bind (act_get shown) (answer_text 64))"

definition serve_compact :: "Bounds \<Rightarrow> u8 list \<Rightarrow> u8 list action" where
  "serve_compact bounds payload =
     act_bind (take_payload bounds no_fields payload) (\<lambda>_. act_bind fabric_compact (\<lambda>_. act_return []))"

definition serve_shutdown :: "Bounds \<Rightarrow> u8 list \<Rightarrow> u8 list action" where
  "serve_shutdown bounds payload = act_bind (take_payload bounds no_fields payload) (\<lambda>_. act_return [])"

text \<open>The handlers that are instances of one of the shapes above.\<close>

definition serve_register_function :: "Bounds \<Rightarrow> u8 list \<Rightarrow> u8 list action" where
  "serve_register_function b = serve_update b (decode_function b) register_function"

definition serve_ingest_topology :: "Bounds \<Rightarrow> u8 list \<Rightarrow> u8 list action" where
  "serve_ingest_topology b = serve_update b (decode_topology b) ingest_topology"

definition serve_ingest_capabilities :: "Bounds \<Rightarrow> u8 list \<Rightarrow> u8 list action" where
  "serve_ingest_capabilities b = serve_update b (decode_capability_report b) ingest_capabilities"

definition serve_ingest_policy :: "Bounds \<Rightarrow> u8 list \<Rightarrow> u8 list action" where
  "serve_ingest_policy b = serve_update b (decode_policy b) ingest_policy"

definition serve_ingest_observations :: "Bounds \<Rightarrow> u8 list \<Rightarrow> u8 list action" where
  "serve_ingest_observations b = serve_update b (decode_observation_report b) ingest_observations"

definition serve_grant_authority :: "Bounds \<Rightarrow> u8 list \<Rightarrow> u8 list action" where
  "serve_grant_authority b = serve_update b decode_authority grant_authority"

definition serve_withdraw_authority :: "Bounds \<Rightarrow> u8 list \<Rightarrow> u8 list action" where
  "serve_withdraw_authority b = serve_update b dec_withdrawal (\<lambda>(a, reason). withdraw_authority a reason)"

definition serve_report_effect :: "Bounds \<Rightarrow> u8 list \<Rightarrow> u8 list action" where
  "serve_report_effect b = serve_record b decode_effect_report report_effect"

definition serve_apply :: "Bounds \<Rightarrow> CancelToken \<Rightarrow> u8 list \<Rightarrow> u8 list action" where
  "serve_apply b cancel = serve_record b (dec_apply b) (service_apply cancel)"

definition serve_revoke :: "Bounds \<Rightarrow> CancelToken \<Rightarrow> u8 list \<Rightarrow> u8 list action" where
  "serve_revoke b cancel = serve_record b dec_revoke (\<lambda>rq. fabric_revoke rq (Some cancel))"

definition serve_replace :: "Bounds \<Rightarrow> CancelToken \<Rightarrow> u8 list \<Rightarrow> u8 list action" where
  "serve_replace b cancel = serve_record b (dec_replace b cancel) fabric_replace"

definition serve_reauthorize :: "Bounds \<Rightarrow> u8 list \<Rightarrow> u8 list action" where
  "serve_reauthorize b = serve_record b dec_reauthorize fabric_reauthorize"

definition serve_get_assignment :: "Bounds \<Rightarrow> u8 list \<Rightarrow> u8 list action" where
  "serve_get_assignment b = serve_record b br_token get_assignment"

definition serve_explain_assignment :: "Bounds \<Rightarrow> u8 list \<Rightarrow> u8 list action" where
  "serve_explain_assignment b = serve_explanation b br_token explain_assignment"

definition serve_explain_request :: "Bounds \<Rightarrow> u8 list \<Rightarrow> u8 list action" where
  "serve_explain_request b = serve_explanation b (decode_placement_request b) explain_request"

definition serve_recovery_report :: "Bounds \<Rightarrow> u8 list \<Rightarrow> u8 list action" where
  "serve_recovery_report b = serve_report b (\<lambda>i. render_recovery (im_recovery i))"

definition serve_verify_invariants :: "Bounds \<Rightarrow> u8 list \<Rightarrow> u8 list action" where
  "serve_verify_invariants b = serve_report b (\<lambda>i. render_invariants (verify_invariants i))"

lemmas handlers = serve_register_function_def serve_ingest_topology_def serve_ingest_capabilities_def serve_ingest_policy_def serve_ingest_observations_def serve_grant_authority_def serve_withdraw_authority_def serve_report_effect_def serve_apply_def serve_revoke_def serve_replace_def serve_reauthorize_def serve_get_assignment_def serve_explain_assignment_def serve_explain_request_def serve_recovery_report_def serve_verify_invariants_def

subsection \<open>Dispatch\<close>

primrec serve_opcode :: "Opcode \<Rightarrow> Bounds \<Rightarrow> nat \<Rightarrow> CancelToken \<Rightarrow> u8 list \<Rightarrow> u8 list action" where
  "serve_opcode OP_Hello b limit cancel = serve_hello b"
| "serve_opcode OP_Ping b limit cancel = serve_ping b"
| "serve_opcode OP_Stats b limit cancel = (\<lambda>_. serve_stats)"
| "serve_opcode OP_RegisterFunction b limit cancel = serve_register_function b"
| "serve_opcode OP_IngestTopology b limit cancel = serve_ingest_topology b"
| "serve_opcode OP_IngestCapabilities b limit cancel = serve_ingest_capabilities b"
| "serve_opcode OP_IngestPolicy b limit cancel = serve_ingest_policy b"
| "serve_opcode OP_IngestObservations b limit cancel = serve_ingest_observations b"
| "serve_opcode OP_GrantAuthority b limit cancel = serve_grant_authority b"
| "serve_opcode OP_WithdrawAuthority b limit cancel = serve_withdraw_authority b"
| "serve_opcode OP_ReportEffect b limit cancel = serve_report_effect b"
| "serve_opcode OP_Plan b limit cancel = serve_plan b"
| "serve_opcode OP_Apply b limit cancel = serve_apply b cancel"
| "serve_opcode OP_Revoke b limit cancel = serve_revoke b cancel"
| "serve_opcode OP_Replace b limit cancel = serve_replace b cancel"
| "serve_opcode OP_Reauthorize b limit cancel = serve_reauthorize b"
| "serve_opcode OP_Revalidate b limit cancel = serve_revalidate b cancel"
| "serve_opcode OP_GetAssignment b limit cancel = serve_get_assignment b"
| "serve_opcode OP_ListAssignments b limit cancel = serve_listing b"
| "serve_opcode OP_GetScope b limit cancel = serve_scope b"
| "serve_opcode OP_ExplainAssignment b limit cancel = serve_explain_assignment b"
| "serve_opcode OP_ExplainRequest b limit cancel = serve_explain_request b"
| "serve_opcode OP_StateDigest b limit cancel = serve_digest b"
| "serve_opcode OP_Export b limit cancel = serve_export b limit"
| "serve_opcode OP_RecoveryReport b limit cancel = serve_recovery_report b"
| "serve_opcode OP_VerifyInvariants b limit cancel = serve_verify_invariants b"
| "serve_opcode OP_Compact b limit cancel = serve_compact b"
| "serve_opcode OP_Shutdown b limit cancel = serve_shutdown b"

text \<open>The requests whose answers are remembered: those that change the fabric and name their effect.\<close>

definition cacheable :: "Opcode \<Rightarrow> bool" where
  "cacheable c \<longleftrightarrow> c \<in> {OP_RegisterFunction, OP_IngestTopology, OP_IngestCapabilities, OP_IngestPolicy,
     OP_IngestObservations, OP_GrantAuthority, OP_WithdrawAuthority, OP_ReportEffect, OP_Apply, OP_Revoke,
     OP_Replace, OP_Reauthorize}"

subsection \<open>The server\<close>

record CachedResponse =
  cp_request_digest :: Digest
  cp_payload :: "u8 list"
  cp_flags :: u16

record ServerConfig =
  sc_bind_address :: string
  sc_port :: u16
  sc_max_connections :: nat
  sc_max_workers :: nat
  sc_max_queue_depth :: nat

record ServerStats =
  vs_connections_refused :: u64
  vs_frames_accepted :: u64
  vs_frames_refused :: u64
  vs_requests_handled :: u64
  vs_requests_refused :: u64
  vs_shutdowns :: u64
  vs_bytes_received :: u64
  vs_bytes_sent :: u64
  vs_open_connections :: nat
  vs_in_flight_requests :: nat
  vs_running :: bool

type_synonym Socket = Handle

record Server =
  sv_fabric :: Impl
  sv_config :: ServerConfig
  sv_bounds :: Bounds
  sv_stopping :: bool
  sv_running :: bool
  sv_stats :: ServerStats
  sv_queue :: "Socket list"
  sv_connections :: "(u64, Socket) omap"
  sv_next_connection_id :: u64
  sv_cache :: "(u64, CachedResponse) omap"
  sv_cache_order :: "u64 list"
  sv_port :: u16
  sv_net_initialized :: bool
  sv_listener :: "Socket option"
  sv_wakeup :: "Socket option"

abbreviation sv_limit :: "Server \<Rightarrow> nat" where "sv_limit s \<equiv> max_frame_bytes (sv_bounds s)"

definition counted_in :: "(ServerStats \<Rightarrow> ServerStats) \<Rightarrow> Server \<Rightarrow> Server" where
  "counted_in f s = s\<lparr>sv_stats := f (sv_stats s)\<rparr>"

definition request_digest :: "Frame \<Rightarrow> Digest" where
  "request_digest f = sha256 (le_bytes 2 (fm_opcode f) @ fm_payload f)"

fun evict_cache :: "nat \<Rightarrow> (u64, CachedResponse) omap \<Rightarrow> u64 list \<Rightarrow> (u64, CachedResponse) omap \<times> u64 list" where
  "evict_cache limit cache [] = (cache, [])"
| "evict_cache limit cache (oldest # order) =
     (if length cache > limit then evict_cache limit (om_erase oldest cache) order else (cache, oldest # order))"

definition remember :: "Frame \<Rightarrow> u8 list \<Rightarrow> Server \<Rightarrow> Server" where
  "remember request payload s =
     (if fm_request_id request = 0 then s
      else let entry = \<lparr>cp_request_digest = request_digest request, cp_payload = payload, cp_flags = 0\<rparr>;
               evicted = evict_cache (max_idempotency_entries (sv_bounds s))
                 (om_put (fm_request_id request) entry (sv_cache s)) (sv_cache_order s @ [fm_request_id request])
           in s\<lparr>sv_cache := fst evicted, sv_cache_order := snd evicted\<rparr>)"

definition cached_answer :: "Frame \<Rightarrow> Server \<Rightarrow> CachedResponse option" where
  "cached_answer request s =
     (if fm_request_id request = 0 then None else map_of (sv_cache s) (fm_request_id request))"

definition response_to :: "Frame \<Rightarrow> u16 \<Rightarrow> u8 list \<Rightarrow> Frame" where
  "response_to request flags payload =
     \<lparr>fm_opcode = fm_opcode request, fm_flags = flags, fm_request_id = fm_request_id request, fm_payload = payload\<rparr>"

definition execute_request :: "CancelToken \<Rightarrow> Frame \<Rightarrow> Server \<Rightarrow> Server \<times> Frame result" where
  "execute_request cancel request s =
     (case parse_opcode (fm_opcode request) of
        None \<Rightarrow> (s, Err RC_UnsupportedOpcode ''opcode is not implemented'')
      | Some c \<Rightarrow>
          (case serve_opcode c (sv_bounds s) (sv_limit s) cancel (fm_payload request) (sv_fabric s) of
             (i, Inl e) \<Rightarrow> (s\<lparr>sv_fabric := i\<rparr>, Inl e)
           | (i, Inr payload) \<Rightarrow>
               (let s' = s\<lparr>sv_fabric := i\<rparr>
                in (if cacheable c then remember request payload s' else s', Inr (response_to request 0 payload)))))"

definition handle_request :: "CancelToken \<Rightarrow> Frame \<Rightarrow> Server \<Rightarrow> Server \<times> Frame result" where
  "handle_request cancel request s =
     (case cached_answer request s of
        Some entry \<Rightarrow>
          if cp_request_digest entry = request_digest request
          then (counted_in (\<lambda>st. st\<lparr>vs_requests_handled := vs_requests_handled st + 1\<rparr>) s,
                Inr (response_to request (cp_flags entry) (cp_payload entry)))
          else (s, Err RC_DuplicateDelivery ''request identifier was reused with a different payload'')
      | None \<Rightarrow> execute_request cancel request s)"

subsection \<open>One connection\<close>

definition refusal_frame :: "Bounds \<Rightarrow> Frame \<Rightarrow> Error \<Rightarrow> Frame" where
  "refusal_frame bounds request e = response_to request kFlagError (encode_error_payload bounds e)"

definition answer_request :: "CancelToken \<Rightarrow> Frame \<Rightarrow> Server \<Rightarrow> Server \<times> Frame" where
  "answer_request cancel request s =
     (case handle_request cancel request
          (counted_in (\<lambda>st. st\<lparr>vs_in_flight_requests := vs_in_flight_requests st + 1\<rparr>) s) of
        (s', Inr response) \<Rightarrow>
          (counted_in (\<lambda>st. st\<lparr>vs_in_flight_requests := vs_in_flight_requests st - 1,
             vs_requests_handled := vs_requests_handled st + 1\<rparr>) s', response)
      | (s', Inl e) \<Rightarrow>
          (counted_in (\<lambda>st. st\<lparr>vs_in_flight_requests := vs_in_flight_requests st - 1,
             vs_requests_refused := vs_requests_refused st + 1\<rparr>) s', refusal_frame (sv_bounds s) request e))"

definition frame_refused :: "Server \<Rightarrow> Server" where
  "frame_refused = counted_in (\<lambda>st. st\<lparr>vs_frames_refused := vs_frames_refused st + 1\<rparr>)"

definition frame_sent :: "nat \<Rightarrow> Server \<Rightarrow> Server" where
  "frame_sent n = counted_in (\<lambda>st. st\<lparr>vs_bytes_sent := vs_bytes_sent st + of_nat n,
     vs_frames_accepted := vs_frames_accepted st + 1\<rparr>)"

datatype ConnectionFate = CF_Open | CF_Broken | CF_Shutdown

text \<open>
  The inner loop: every complete frame of the decoder is answered in turn.  \<open>sends n\<close> says whether the
  \<open>n\<close>-th write of the connection succeeds.
\<close>

function serve_pending ::
    "CancelToken \<Rightarrow> (nat \<Rightarrow> bool) \<Rightarrow> nat \<Rightarrow> FrameDecoder \<Rightarrow> Server \<Rightarrow>
     FrameDecoder \<times> Server \<times> u8 list list \<times> ConnectionFate" where
  "serve_pending cancel sends n d s =
     (case decoder_next (sv_limit s) d of
        (d', Inl e) \<Rightarrow> (d', frame_refused s, [], CF_Broken)
      | (d', Inr None) \<Rightarrow> (d', s, [], CF_Open)
      | (d', Inr (Some request)) \<Rightarrow>
          (case answer_request cancel request s of (s1, response) \<Rightarrow>
           (case encode_frame (sv_limit s) response of
              Inl e \<Rightarrow> (d', s1, [], CF_Broken)
            | Inr bytes \<Rightarrow>
                if \<not> sends n then (d', s1, [], CF_Broken)
                else if fm_opcode request = Opcode_value OP_Shutdown
                then (d', (frame_sent (length bytes) s1)\<lparr>sv_stopping := True\<rparr>, [bytes], CF_Shutdown)
                else (case serve_pending cancel sends (n + 1) d' (frame_sent (length bytes) s1) of
                        (d'', s', out, fate) \<Rightarrow> (d'', s', bytes # out, fate)))))"
  by pat_completeness auto

lemma decoder_next_shrinks: "decoder_next m d = (d', Inr (Some f)) \<Longrightarrow> length (pending d') < length (pending d)"
  using frame_at_size pending_step by (fastforce simp: decoder_next_pending)

termination serve_pending
  by (relation "measure (\<lambda>(c, sends, n, d, s). length (pending d))") (auto dest!: decoder_next_shrinks [OF sym])

declare serve_pending.simps [simp del]

definition close_connection :: "u64 \<Rightarrow> Server \<Rightarrow> Server" where
  "close_connection connection_id s =
     counted_in (\<lambda>st. st\<lparr>vs_open_connections := vs_open_connections st - 1\<rparr>)
       (if connection_id \<noteq> 0 then s\<lparr>sv_connections := om_erase connection_id (sv_connections s)\<rparr> else s)"

text \<open>
  The outer loop, over what the reads of the socket return.  A shutdown request leaves the loop
  without closing the connection's entry.
\<close>

fun connection_loop ::
    "CancelToken \<Rightarrow> (nat \<Rightarrow> bool) \<Rightarrow> u64 \<Rightarrow> nat \<Rightarrow> FrameDecoder \<Rightarrow> (Error + u8 list) list \<Rightarrow> Server \<Rightarrow>
     Server \<times> u8 list list" where
  "connection_loop cancel sends cid n d [] s = (close_connection cid s, [])"
| "connection_loop cancel sends cid n d (received # rest) s =
     (if sv_stopping s \<and> sv_queue s = [] then (close_connection cid s, [])
      else case received of
        Inl e \<Rightarrow> (close_connection cid (frame_refused s), [])
      | Inr bytes \<Rightarrow>
          if bytes = [] then (close_connection cid s, [])
          else let s1 = counted_in (\<lambda>st. st\<lparr>vs_bytes_received := vs_bytes_received st + of_nat (length bytes)\<rparr>) s
               in (case serve_pending cancel sends n (feed bytes d) s1 of
                     (d', s2, out, CF_Broken) \<Rightarrow> (close_connection cid s2, out)
                   | (d', s2, out, CF_Shutdown) \<Rightarrow> (s2, out)
                   | (d', s2, out, CF_Open) \<Rightarrow>
                       (case connection_loop cancel sends cid (n + length out) d' rest s2 of
                          (s3, later) \<Rightarrow> (s3, out @ later))))"

definition connection_of :: "Socket \<Rightarrow> Server \<Rightarrow> u64" where
  "connection_of socket s = (case List.find (\<lambda>e. snd e = socket) (sv_connections s) of None \<Rightarrow> 0 | Some e \<Rightarrow> fst e)"

definition handle_connection ::
    "CancelToken \<Rightarrow> (nat \<Rightarrow> bool) \<Rightarrow> (Error + u8 list) list \<Rightarrow> Socket \<Rightarrow> Server \<Rightarrow> Server \<times> u8 list list" where
  "handle_connection cancel sends incoming socket s =
     connection_loop cancel sends (connection_of socket s) 0 frame_decoder incoming s"

subsection \<open>Accepting connections\<close>

definition submit :: "Socket \<Rightarrow> Server \<Rightarrow> Server \<times> Status" where
  "submit socket s =
     (if sv_stopping s then (s, Err RC_ShuttingDown ''server is stopping'')
      else if length (sv_queue s) \<ge> sc_max_queue_depth (sv_config s)
      then (s, Err RC_QueueFull ''connection queue is full'')
      else (s\<lparr>sv_queue := sv_queue s @ [socket]\<rparr>, ok_status))"

definition refuse_connection :: "Server \<Rightarrow> Server" where
  "refuse_connection = counted_in (\<lambda>st. st\<lparr>vs_connections_refused := vs_connections_refused st + 1,
     vs_open_connections := vs_open_connections st - 1\<rparr>)"

definition accept_connection :: "Socket \<Rightarrow> Server \<Rightarrow> Server" where
  "accept_connection socket s0 =
     (let s = counted_in (\<lambda>st. st\<lparr>vs_open_connections := vs_open_connections st + 1\<rparr>) s0 in
      if sv_stopping s0 then s0
      else if length (sv_connections s) \<ge> sc_max_connections (sv_config s) then refuse_connection s
      else let cid = sv_next_connection_id s + 1;
               s1 = s\<lparr>sv_next_connection_id := cid, sv_connections := om_put cid socket (sv_connections s)\<rparr>
           in (case submit socket s1 of
                 (s2, Inr _) \<Rightarrow> s2
               | (s2, Inl e) \<Rightarrow> refuse_connection (s2\<lparr>sv_connections := butlast (sv_connections s2)\<rparr>)))"

definition take_socket :: "Server \<Rightarrow> Server \<times> Socket option" where
  "take_socket s = (case sv_queue s of [] \<Rightarrow> (s, None) | socket # rest \<Rightarrow> (s\<lparr>sv_queue := rest\<rparr>, Some socket))"

text \<open>
  One turn of the accept loop and of a worker's loop; the flag says whether the loop goes on.  A turn that
  would wait leaves the server as it is.  The datagram that ends the wait is drained and changes nothing.
\<close>

definition accept_turn :: "OsNet \<Rightarrow> Server \<Rightarrow> Server \<times> bool" where
  "accept_turn os s =
     (if sv_stopping s then (s, False)
      else case wait_readable os (sv_listener s) (sv_wakeup s) of
        (_, _, Inl e) \<Rightarrow> (s, True)
      | (listener_ready, wakeup_ready, Inr _) \<Rightarrow>
          if \<not> listener_ready then (s, True)
          else (case accept_tcp os (sv_listener s) of
                  Inr (Some socket) \<Rightarrow> (accept_connection socket s, True)
                | _ \<Rightarrow> (s, True)))"

definition worker_turn ::
    "CancelToken \<Rightarrow> (nat \<Rightarrow> bool) \<Rightarrow> (Error + u8 list) list \<Rightarrow> Server \<Rightarrow> Server \<times> u8 list list \<times> bool" where
  "worker_turn cancel sends incoming s =
     (case take_socket s of
        (s', None) \<Rightarrow> (s', [], \<not> sv_stopping s')
      | (s', Some socket) \<Rightarrow> (case handle_connection cancel sends incoming socket s' of (s'', out) \<Rightarrow> (s'', out, True)))"

subsection \<open>Start and stop\<close>

definition no_server_stats :: ServerStats where
  "no_server_stats = \<lparr>vs_connections_refused = 0, vs_frames_accepted = 0, vs_frames_refused = 0,
     vs_requests_handled = 0, vs_requests_refused = 0, vs_shutdowns = 0, vs_bytes_received = 0, vs_bytes_sent = 0,
     vs_open_connections = 0, vs_in_flight_requests = 0, vs_running = False\<rparr>"

definition new_server :: "ServerConfig \<Rightarrow> Impl \<Rightarrow> Server" where
  "new_server config i =
     \<lparr>sv_fabric = i, sv_config = config, sv_bounds = im_bounds i, sv_stopping = False, sv_running = False,
      sv_stats = no_server_stats, sv_queue = [], sv_connections = [], sv_next_connection_id = 0,
      sv_cache = [], sv_cache_order = [], sv_port = 0, sv_net_initialized = False,
      sv_listener = None, sv_wakeup = None\<rparr>"

text \<open>\<open>net\<close> is the result of \<open>net_init\<close>.\<close>

definition server_start :: "Status \<Rightarrow> OsNet \<Rightarrow> Server \<Rightarrow> Server \<times> Status" where
  "server_start net os s =
     (if sv_running s then (s, Err RC_AlreadyExists ''server is already running'')
      else if sc_max_workers (sv_config s) = 0 \<or> sc_max_workers (sv_config s) > max_workers (sv_bounds s)
      then (s, Err RC_InvalidConfiguration ''worker count is outside the configured bound'')
      else if sc_max_queue_depth (sv_config s) = 0 \<or> sc_max_connections (sv_config s) = 0
      then (s, Err RC_InvalidConfiguration ''connection bounds must be non-zero'')
      else if \<not> is_local_address (sc_bind_address (sv_config s)) \<and> sc_bind_address (sv_config s) = []
      then (s, Err RC_EndpointInvalid ''bind address is empty'')
      else case net of
        Inl e \<Rightarrow> (s, Inl e)
      | Inr _ \<Rightarrow>
          (case listen_tcp os (sc_bind_address (sv_config s)) (sc_port (sv_config s)) of
             Inl e \<Rightarrow> (s\<lparr>sv_net_initialized := False\<rparr>, Inl e)
           | Inr (listener, port) \<Rightarrow>
               (case make_wakeup_socket os of
                  Inl e \<Rightarrow> (s\<lparr>sv_port := port, sv_net_initialized := False, sv_listener := None\<rparr>, Inl e)
                | Inr (wakeup, wakeup_port) \<Rightarrow>
                    (counted_in (\<lambda>st. st\<lparr>vs_running := True\<rparr>)
                       (s\<lparr>sv_port := port, sv_net_initialized := True, sv_listener := listener, sv_wakeup := wakeup,
                         sv_stopping := False, sv_running := True\<rparr>),
                     ok_status))))"

text \<open>Joining the workers, which first finish the connections they hold, is left to the schedule.\<close>

definition server_stop :: "Server \<Rightarrow> Server" where
  "server_stop s =
     (if \<not> sv_running s then s\<lparr>sv_net_initialized := False\<rparr>
      else counted_in (\<lambda>st. st\<lparr>vs_running := False, vs_open_connections := 0, vs_in_flight_requests := 0,
             vs_shutdowns := vs_shutdowns st + 1\<rparr>)
           (s\<lparr>sv_running := False, sv_stopping := True, sv_queue := [], sv_connections := [],
             sv_listener := None, sv_wakeup := None, sv_net_initialized := False\<rparr>))"

subsection \<open>The client\<close>

record Client =
  cl_bounds :: Bounds
  cl_decoder :: FrameDecoder
  cl_closed :: bool

definition client_connect :: "Bounds \<Rightarrow> Client" where
  "client_connect bounds = \<lparr>cl_bounds = bounds, cl_decoder = frame_decoder, cl_closed = False\<rparr>"

definition client_send :: "Status \<Rightarrow> Frame \<Rightarrow> Client \<Rightarrow> u8 list result" where
  "client_send sent request c =
     (if cl_closed c then Err RC_PeerClosed ''client is closed''
      else and_then (encode_frame (max_frame_bytes (cl_bounds c)) request) (\<lambda>bytes. and_then sent (\<lambda>_. Inr bytes)))"

fun receive_frame :: "nat \<Rightarrow> FrameDecoder \<Rightarrow> (Error + u8 list) list \<Rightarrow> FrameDecoder \<times> Frame result" where
  "receive_frame limit d [] =
     (case decoder_next limit d of
        (d', Inl e) \<Rightarrow> (d', Inl e)
      | (d', Inr (Some f)) \<Rightarrow> (d', Inr f)
      | (d', Inr None) \<Rightarrow> (d', Err RC_PeerClosed ''peer closed the connection''))"
| "receive_frame limit d (received # rest) =
     (case decoder_next limit d of
        (d', Inl e) \<Rightarrow> (d', Inl e)
      | (d', Inr (Some f)) \<Rightarrow> (d', Inr f)
      | (d', Inr None) \<Rightarrow>
          (case received of
             Inl e \<Rightarrow> (d', Err RC_PeerClosed ''peer closed the connection'')
           | Inr bytes \<Rightarrow>
               if bytes = [] then (d', Err RC_PeerClosed ''peer closed the connection'')
               else receive_frame limit (feed bytes d') rest))"

definition client_receive :: "(Error + u8 list) list \<Rightarrow> Client \<Rightarrow> Client \<times> Frame result" where
  "client_receive incoming c =
     (if cl_closed c then (c, Err RC_PeerClosed ''client is closed'')
      else case receive_frame (max_frame_bytes (cl_bounds c)) (cl_decoder c) incoming of
        (d, r) \<Rightarrow> (c\<lparr>cl_decoder := d\<rparr>, r))"

definition check_response :: "Bounds \<Rightarrow> Frame \<Rightarrow> Frame \<Rightarrow> Frame result" where
  "check_response bounds request response =
     (if fm_request_id response \<noteq> fm_request_id request
      then Err RC_RequestDigestMismatch ''response does not correlate with the request identifier''
      else if fm_flags response AND kFlagError \<noteq> 0
      then (case decode_error_payload bounds (fm_payload response) of Inl e \<Rightarrow> Inl e | Inr e \<Rightarrow> Inl e)
      else Inr response)"

definition client_call :: "Status \<Rightarrow> (Error + u8 list) list \<Rightarrow> Frame \<Rightarrow> Client \<Rightarrow> Client \<times> Frame result" where
  "client_call sent incoming request c =
     (case client_send sent request c of
        Inl e \<Rightarrow> (c, Inl e)
      | Inr _ \<Rightarrow>
          (case client_receive incoming c of
             (c', Inl e) \<Rightarrow> (c', Inl e)
           | (c', Inr response) \<Rightarrow> (c', check_response (cl_bounds c) request response)))"

definition client_close :: "Client \<Rightarrow> Client" where
  "client_close c = c\<lparr>cl_closed := True\<rparr>"

subsection \<open>The response cache\<close>

definition cache_ok :: "(u64, CachedResponse) omap \<Rightarrow> u64 list \<Rightarrow> bool" where
  "cache_ok cache order \<longleftrightarrow> om_ok cache \<and> distinct order \<and> set order = fst ` set cache"

text \<open>The order list names every cached answer once, and the cache is within its bound.\<close>

definition cache_inv :: "Server \<Rightarrow> bool" where
  "cache_inv s \<longleftrightarrow> cache_ok (sv_cache s) (sv_cache_order s) \<and>
     length (sv_cache s) \<le> max_idempotency_entries (sv_bounds s)"

lemma cache_ok_length: "cache_ok cache order \<Longrightarrow> length order = length cache"
  by (metis cache_ok_def distinct_card length_map list.set_map om_ok_distinct)

lemma cache_ok_erase: "cache_ok cache (k # order) \<Longrightarrow> cache_ok (om_erase k cache) order"
  by (auto simp: cache_ok_def om_erase_def om_ok_erase [unfolded om_erase_def])

lemma cache_ok_put: "cache_ok cache order \<Longrightarrow> k \<notin> set order \<Longrightarrow> cache_ok (om_put k v cache) (order @ [k])"
  by (auto simp: cache_ok_def fst_om_put)

text \<open>Eviction drops the oldest entries beyond the bound and nothing else.\<close>

lemma evict_cache_eq:
  "cache_ok cache order \<Longrightarrow> evict_cache m cache order = (cache', order') \<Longrightarrow>
   order' = drop (length order - m) order \<and> cache_ok cache' order' \<and>
   (\<forall>k \<in> set order'. map_of cache' k = map_of cache k)"
proof (induction m cache order arbitrary: cache' order' rule: evict_cache.induct)
  case (2 m cache k order)
  have n: "length cache = Suc (length order)" using cache_ok_length [OF "2.prems"(1)] by simp
  show ?case
  proof (cases "length cache > m")
    case True
    with "2.prems" have e: "evict_cache m (om_erase k cache) order = (cache', order')" by simp
    note ih = "2.IH" [OF True cache_ok_erase [OF "2.prems"(1)] e]
    have "k \<notin> set order'" using ih "2.prems"(1) by (auto simp: cache_ok_def dest: in_set_dropD)
    moreover have "drop (length (k # order) - m) (k # order) = drop (length order - m) order"
      using True n by (simp add: Suc_diff_le)
    ultimately show ?thesis using ih by auto
  next
    case False
    with "2.prems" n show ?thesis by auto
  qed
qed simp

lemma remember_fields [simp]:
  "sv_fabric (remember f p s) = sv_fabric s" "sv_bounds (remember f p s) = sv_bounds s"
  "sv_stats (remember f p s) = sv_stats s" "sv_connections (remember f p s) = sv_connections s"
  by (simp_all add: remember_def Let_def)

definition cached_entry :: "Frame \<Rightarrow> u8 list \<Rightarrow> CachedResponse" where
  "cached_entry f payload = \<lparr>cp_request_digest = request_digest f, cp_payload = payload, cp_flags = 0\<rparr>"

lemma remember_new:
  assumes "cache_inv s" and "fm_request_id f \<noteq> 0" and "cached_answer f s = None"
  shows "sv_cache_order (remember f p s) =
      drop (Suc (length (sv_cache_order s)) - max_idempotency_entries (sv_bounds s)) (sv_cache_order s @ [fm_request_id f])"
    and "cache_inv (remember f p s)"
    and "\<forall>k \<in> set (sv_cache_order (remember f p s)).
      map_of (sv_cache (remember f p s)) k = ((map_of (sv_cache s))(fm_request_id f \<mapsto> cached_entry f p)) k"
proof -
  let ?m = "max_idempotency_entries (sv_bounds s)" and ?id = "fm_request_id f"
  have ok: "cache_ok (sv_cache s) (sv_cache_order s)" using assms(1) by (simp add: cache_inv_def)
  have "?id \<notin> set (sv_cache_order s)"
    using assms(2,3) ok by (auto simp: cached_answer_def cache_ok_def map_of_eq_None_iff image_iff)
  then have put: "cache_ok (om_put ?id (cached_entry f p) (sv_cache s)) (sv_cache_order s @ [?id])"
    using ok by (rule cache_ok_put [rotated])
  obtain c ord where e: "evict_cache ?m (om_put ?id (cached_entry f p) (sv_cache s)) (sv_cache_order s @ [?id]) = (c, ord)"
    by (cases "evict_cache ?m (om_put ?id (cached_entry f p) (sv_cache s)) (sv_cache_order s @ [?id])")
  then have r: "sv_cache (remember f p s) = c" "sv_cache_order (remember f p s) = ord"
    using assms(2) by (simp_all add: remember_def Let_def cached_entry_def)
  note ev = evict_cache_eq [OF put e]
  show "sv_cache_order (remember f p s) = drop (Suc (length (sv_cache_order s)) - ?m) (sv_cache_order s @ [?id])"
    using ev r by simp
  have ok': "cache_ok c ord" and "length ord \<le> ?m" using ev by (auto simp: min_def)
  then have "length c \<le> ?m" using cache_ok_length [OF ok'] by simp
  with ok' show "cache_inv (remember f p s)" unfolding cache_inv_def r remember_fields by blast
  show "\<forall>k \<in> set (sv_cache_order (remember f p s)).
      map_of (sv_cache (remember f p s)) k = ((map_of (sv_cache s))(?id \<mapsto> cached_entry f p)) k"
    using ev r by auto
qed

text \<open>An answer with at most \<open>n\<close> younger ones behind it.\<close>

definition held_within :: "nat \<Rightarrow> u64 \<Rightarrow> CachedResponse \<Rightarrow> Server \<Rightarrow> bool" where
  "held_within n k entry s \<longleftrightarrow> cache_inv s \<and> map_of (sv_cache s) k = Some entry \<and>
     (\<exists>older younger. sv_cache_order s = older @ k # younger \<and> length younger \<le> n)"

lemma remember_first:
  assumes "cache_inv s" and "fm_request_id f \<noteq> 0" and "cached_answer f s = None"
    and "0 < max_idempotency_entries (sv_bounds s)"
  shows "held_within 0 (fm_request_id f) (cached_entry f p) (remember f p s)"
proof -
  have "sv_cache_order (remember f p s) =
      drop (Suc (length (sv_cache_order s)) - max_idempotency_entries (sv_bounds s)) (sv_cache_order s) @ [fm_request_id f]"
    using remember_new(1) [OF assms(1-3)] assms(4) by simp
  then show ?thesis using remember_new(2,3) [OF assms(1-3)] by (auto simp: held_within_def)
qed

lemma remember_later:
  assumes held: "held_within n k entry s" and "fm_request_id f \<noteq> 0" and "cached_answer f s = None"
    and n: "Suc n < max_idempotency_entries (sv_bounds s)"
  shows "held_within (Suc n) k entry (remember f p s)"
proof -
  let ?d = "Suc (length (sv_cache_order s)) - max_idempotency_entries (sv_bounds s)"
  obtain older younger where ord0: "sv_cache_order s = older @ k # younger" "length younger \<le> n"
    using held by (auto simp: held_within_def)
  have inv: "cache_inv s" and k: "map_of (sv_cache s) k = Some entry" using held by (auto simp: held_within_def)
  have "?d \<le> length older" using ord0 n by simp
  then have ord: "sv_cache_order (remember f p s) = drop ?d older @ k # (younger @ [fm_request_id f])"
    using remember_new(1) [OF inv assms(2,3)] ord0(1) by simp
  have "k \<noteq> fm_request_id f" using k assms(2,3) by (auto simp: cached_answer_def)
  then have "map_of (sv_cache (remember f p s)) k = Some entry"
    using remember_new(3) [OF inv assms(2,3), of p] ord k by simp
  moreover have "length (younger @ [fm_request_id f]) \<le> Suc n" using ord0(2) by simp
  ultimately show ?thesis using remember_new(2) [OF inv assms(2,3)] ord unfolding held_within_def by blast
qed

lemma cache_inv_same:
  "sv_cache s' = sv_cache s \<Longrightarrow> sv_cache_order s' = sv_cache_order s \<Longrightarrow> sv_bounds s' = sv_bounds s \<Longrightarrow>
   cache_inv s' = cache_inv s"
  by (simp add: cache_inv_def)

lemma counted_in_fields [simp]:
  "sv_fabric (counted_in f s) = sv_fabric s" "sv_bounds (counted_in f s) = sv_bounds s"
  "sv_cache (counted_in f s) = sv_cache s" "sv_cache_order (counted_in f s) = sv_cache_order s"
  "sv_connections (counted_in f s) = sv_connections s" "sv_queue (counted_in f s) = sv_queue s"
  "sv_stopping (counted_in f s) = sv_stopping s" "sv_config (counted_in f s) = sv_config s"
  by (simp_all add: counted_in_def)

text \<open>What one request does to the cache: nothing, or one new answer for a request not seen before.\<close>

lemma handle_request_cases:
  obtains (unchanged) "sv_cache (fst (handle_request cancel f s)) = sv_cache s"
      "sv_cache_order (fst (handle_request cancel f s)) = sv_cache_order s"
      "sv_bounds (fst (handle_request cancel f s)) = sv_bounds s"
    | (remembered) p i where "fst (handle_request cancel f s) = remember f p (s\<lparr>sv_fabric := i\<rparr>)"
      "fm_request_id f \<noteq> 0" "cached_answer f s = None"
proof (cases "cached_answer f s")
  case None
  show ?thesis
  proof (cases "\<exists>p i. fst (handle_request cancel f s) = remember f p (s\<lparr>sv_fabric := i\<rparr>) \<and> fm_request_id f \<noteq> 0")
    case True
    then show ?thesis using remembered None by blast
  next
    case False
    with None have "sv_cache (fst (handle_request cancel f s)) = sv_cache s \<and>
      sv_cache_order (fst (handle_request cancel f s)) = sv_cache_order s \<and> sv_bounds (fst (handle_request cancel f s)) = sv_bounds s"
      by (auto simp: handle_request_def execute_request_def Let_def split: option.splits prod.splits sum.splits if_splits)
        (auto simp: remember_def)
    then show ?thesis using unchanged by blast
  qed
next
  case (Some entry)
  then show ?thesis by (intro unchanged) (simp_all add: handle_request_def)
qed

lemma handle_request_cache_inv: "cache_inv s \<Longrightarrow> cache_inv (fst (handle_request cancel f s))"
proof (cases rule: handle_request_cases [of cancel f s])
  case unchanged
  assume "cache_inv s"
  with unchanged show ?thesis by (simp add: cache_inv_def)
next
  case (remembered p i)
  assume "cache_inv s"
  then have "cache_inv (s\<lparr>sv_fabric := i\<rparr>)" by (simp add: cache_inv_def)
  with remembered remember_new(2) [of "s\<lparr>sv_fabric := i\<rparr>" f p] show ?thesis by (simp add: cached_answer_def)
qed

lemma handle_request_held:
  assumes "held_within n k entry s" and "Suc n < max_idempotency_entries (sv_bounds s)"
  shows "held_within (Suc n) k entry (fst (handle_request cancel f s))"
proof (cases rule: handle_request_cases [of cancel f s])
  case unchanged
  with assms(1) show ?thesis unfolding held_within_def by (metis cache_inv_same le_SucI)
next
  case (remembered p i)
  have "held_within n k entry (s\<lparr>sv_fabric := i\<rparr>)" using assms(1) by (simp add: held_within_def cache_inv_def)
  with remembered remember_later [of n k entry "s\<lparr>sv_fabric := i\<rparr>" f p] assms(2) show ?thesis
    by (simp add: cached_answer_def)
qed

lemma handle_request_bounds [simp]: "sv_bounds (fst (handle_request cancel f s)) = sv_bounds s"
  by (cases rule: handle_request_cases [of cancel f s]) simp_all

text \<open>A sequence of requests, each with the cancel token it sees.\<close>

definition serve_all :: "(CancelToken \<times> Frame) list \<Rightarrow> Server \<Rightarrow> Server" where
  "serve_all = fold (\<lambda>(cancel, f) s. fst (handle_request cancel f s))"

lemma serve_all_held:
  "held_within n k entry s \<Longrightarrow> n + length others < max_idempotency_entries (sv_bounds s) \<Longrightarrow>
   held_within (n + length others) k entry (serve_all others s)"
proof (induction others arbitrary: n s)
  case (Cons e others)
  obtain cancel f where e: "e = (cancel, f)" by (cases e)
  show ?case using Cons.IH [OF handle_request_held [OF Cons.prems(1), of cancel f]] Cons.prems(2)
    by (simp add: e serve_all_def)
qed (simp add: serve_all_def)

lemma first_delivery_held:
  assumes "cache_inv s" and "fm_request_id f \<noteq> 0" and "cached_answer f s = None"
    and "parse_opcode (fm_opcode f) = Some c" and "cacheable c" and "0 < max_idempotency_entries (sv_bounds s)"
    and r: "handle_request cancel f s = (s1, Inr response)"
  obtains p where "response = response_to f 0 p" "held_within 0 (fm_request_id f) (cached_entry f p) s1"
proof -
  obtain p i where "s1 = remember f p (s\<lparr>sv_fabric := i\<rparr>)" "response = response_to f 0 p"
    using r assms(3-5) by (auto simp: handle_request_def execute_request_def Let_def split: prod.splits sum.splits)
  moreover have "cache_inv (s\<lparr>sv_fabric := i\<rparr>)" using assms(1) by (simp add: cache_inv_def)
  ultimately show ?thesis
    using that remember_first [of "s\<lparr>sv_fabric := i\<rparr>" f p] assms(2,3,6) by (simp add: cached_answer_def)
qed

text \<open>C4: a repeated request is answered, not repeated.  Once a changing request with an identifier has
  succeeded, delivering it again gives the same response and does not touch the fabric, as long as
  fewer other requests than the cache holds came in between, whatever they were.\<close>

theorem duplicate_request_replayed:
  assumes "cache_inv s" and "fm_request_id f \<noteq> 0" and "cached_answer f s = None"
    and "parse_opcode (fm_opcode f) = Some c" and "cacheable c"
    and "handle_request cancel f s = (s1, Inr response)"
    and "length others < max_idempotency_entries (sv_bounds s)"
  shows "\<exists>s2. handle_request cancel' f (serve_all others s1) = (s2, Inr response) \<and>
    sv_fabric s2 = sv_fabric (serve_all others s1)"
proof -
  have m: "0 < max_idempotency_entries (sv_bounds s)" using assms(7) by simp
  from first_delivery_held [OF assms(1-5) m assms(6)] obtain p where
    p: "response = response_to f 0 p" "held_within 0 (fm_request_id f) (cached_entry f p) s1" .
  have "sv_bounds s1 = sv_bounds s" using handle_request_bounds [of cancel f s] assms(6) by simp
  with serve_all_held [OF p(2), of others] assms(7)
  have "map_of (sv_cache (serve_all others s1)) (fm_request_id f) = Some (cached_entry f p)"
    by (simp add: held_within_def)
  then show ?thesis using assms(2) p(1) by (simp add: handle_request_def cached_answer_def cached_entry_def)
qed

subsection \<open>Connections\<close>

lemma handle_request_connections [simp]: "sv_connections (fst (handle_request cancel f s)) = sv_connections s"
  by (auto simp: handle_request_def execute_request_def Let_def split: option.split prod.split sum.split)

lemma answer_request_connections: "answer_request cancel f s = (s', r) \<Longrightarrow> sv_connections s' = sv_connections s"
proof -
  let ?s = "counted_in (\<lambda>st. st\<lparr>vs_in_flight_requests := vs_in_flight_requests st + 1\<rparr>) s"
  obtain s1 r1 where h: "handle_request cancel f ?s = (s1, r1)" by (cases "handle_request cancel f ?s")
  then have "sv_connections s1 = sv_connections s" using handle_request_connections [of cancel f ?s] by simp
  then show "answer_request cancel f s = (s', r) \<Longrightarrow> ?thesis"
    unfolding answer_request_def h by (cases r1) auto
qed

lemma serve_pending_connections:
  "serve_pending cancel sends n d s = (d', s', out, fate) \<Longrightarrow> sv_connections s' = sv_connections s"
proof (induction cancel sends n d s arbitrary: d' s' out fate rule: serve_pending.induct)
  case (1 cancel sends n d s)
  show ?case using "1.prems" "1.IH" answer_request_connections
    by (fastforce simp: serve_pending.simps [of cancel sends n d s] frame_refused_def frame_sent_def
        split: prod.splits sum.splits option.splits if_splits)
qed

text \<open>After a shutdown request the table still names the connection, whose socket is closed by then.\<close>

lemma shutdown_leaves_entry:
  assumes "serve_pending cancel sends n (feed bytes d)
      (counted_in (\<lambda>st. st\<lparr>vs_bytes_received := vs_bytes_received st + of_nat (length bytes)\<rparr>) s) = (d', s2, out, CF_Shutdown)"
    and "bytes \<noteq> []" and "\<not> sv_stopping s"
  shows "sv_connections (fst (connection_loop cancel sends cid n d (Inr bytes # rest) s)) = sv_connections s"
  using assms serve_pending_connections [OF assms(1)] by (simp add: Let_def)

text \<open>Accepting keeps the table and the queue within their bounds.\<close>

lemma length_om_put: "length (om_put k v m) \<le> Suc (length m)"
  by (induction k v m rule: om_put.induct) auto

lemma counted_in_next [simp]: "sv_next_connection_id (counted_in f s) = sv_next_connection_id s"
  by (simp add: counted_in_def)

lemma accept_bounded:
  assumes "length (sv_connections s) \<le> sc_max_connections (sv_config s)" and "length (sv_queue s) \<le> sc_max_queue_depth (sv_config s)"
  shows "length (sv_connections (accept_connection k s)) \<le> sc_max_connections (sv_config s)"
    and "length (sv_queue (accept_connection k s)) \<le> sc_max_queue_depth (sv_config s)"
  using assms length_om_put [of "sv_next_connection_id s + 1" k "sv_connections s"]
  by (auto simp: accept_connection_def Let_def submit_def refuse_connection_def)

lemma accept_turn_bounded:
  assumes "length (sv_connections s) \<le> sc_max_connections (sv_config s)" and "length (sv_queue s) \<le> sc_max_queue_depth (sv_config s)"
    and "accept_turn os s = (s', continue)"
  shows "length (sv_connections s') \<le> sc_max_connections (sv_config s)"
    and "length (sv_queue s') \<le> sc_max_queue_depth (sv_config s)"
  using assms(3) accept_bounded [OF assms(1,2)] assms(1,2)
  by (auto simp: accept_turn_def split: if_splits prod.splits sum.splits option.splits)

subsection \<open>Refusals reach the client\<close>

lemma error_payload_round_trip:
  assumes "reason_ok (code e)" and "max_reason_detail_bytes b \<le> max_text_bytes b" and "max_reason_detail_bytes b < 2 ^ 32"
  shows "decode_error_payload b (encode_error_payload b e) = Inr (Error (code e) (take (max_reason_detail_bytes b) (detail e)))"
proof -
  define t where "t = take (max_reason_detail_bytes b) (detail e)"
  let ?f = "bw_seq [bw_u16 (code e), bw_text t]" and ?n = "max_reason_detail_bytes b + 64"
  have t: "length t \<le> max_reason_detail_bytes b" by (simp add: t_def)
  have "brt (max_text_bytes b) ?f (rd_bind (br_reason ''error payload carries an unknown reason code'') (\<lambda>c.
      rd_bind br_text (\<lambda>why. rd_return (Error c why)))) (Error (code e) t)"
    using assms t by (auto intro!: brt_intros)
  moreover have w: "?f (bin_writer ?n) = ((bin_writer ?n)\<lparr>bw_buffer := le_bytes 2 (code e) @
      le_bytes 4 (of_nat (length t) :: u32) @ string_bytes t\<rparr>, ok_status)"
    using t assms(3) by (simp add: bw_u16_def bw_u32_def bw_text_def bw_bytes_def bw_append_def would_fit_iff bin_writer_def string_bytes_def)
  ultimately obtain r where "rd_bind (br_reason ''error payload carries an unknown reason code'') (\<lambda>c.
      rd_bind br_text (\<lambda>why. rd_return (Error c why)))
      (bin_reader (le_bytes 2 (code e) @ le_bytes 4 (of_nat (length t) :: u32) @ string_bytes t) (max_text_bytes b)) =
      Inr (Error (code e) t, r)"
    using brt_fresh t assms(3) by (fastforce simp: string_bytes_def)
  with w show ?thesis
    by (simp add: decode_error_payload_def encode_error_payload_def encode_fresh_def decode_all_def t_def [symmetric])
qed

end
