(* ===== verification/Nof_Composition.thy ===== *)
theory Nof_Composition
  imports Nof_Service Nof_Scenario
begin

text \<open>
  The service and the fabric together.  Every request runs at most one operation of the fabric, so the
  invariants of the fabric hold behind the service whatever requests arrive; and a request that is
  sent reaches the fabric and its answer reaches the client, however the bytes are cut on the way.
\<close>

subsection \<open>A request is at most one operation\<close>

definition service_step :: "Impl \<Rightarrow> Impl \<Rightarrow> bool" where
  "service_step i i' \<longleftrightarrow> im_state i' = im_state i \<or> (\<exists>op. i' = perform op i \<and> careful op i)"

lemma service_step_refl [simp]: "service_step i i"
  by (simp add: service_step_def)

lemma service_step_perform: "careful op i \<Longrightarrow> service_step i (perform op i)"
  by (auto simp: service_step_def)

text \<open>The handlers are built from \<open>act_bind\<close>, lifted decoding and one operation.\<close>

lemma fst_lift [simp]: "fst (act_lift r i) = i"
  by (simp add: act_lift_def)

lemma fst_answer [simp]: "fst (answer_with n enc i) = i" "fst (answer_text n t i) = i" "fst (act_return v i) = i"
  "fst (act_fail c m i) = i"
  by (simp_all add: answer_with_def answer_text_def act_lift_def act_return_def act_fail_def)

lemma fst_bind_pure: "(\<And>v i. fst (f v i) = i) \<Longrightarrow> fst (act_bind m f i) = fst (m i)"
  by (simp add: act_bind_def split: prod.split sum.split)

lemma fst_take_bind:
  "fst (act_bind (take_payload b dec p) f i) = (case decode_exact b dec p of Inl _ \<Rightarrow> i | Inr v \<Rightarrow> fst (f v i))"
  by (simp add: take_payload_def act_lift_def act_bind_def split: sum.split)

lemma fst_get_bind: "fst (act_bind (act_get g) f i) = fst (f (g i) i)"
  by (simp add: act_get_def act_bind_def)

lemmas serve_steps = fst_take_bind fst_get_bind fst_bind_pure

lemma serve_queries:
  "fst (serve_hello b p i) = i" "fst (serve_ping b p i) = i" "fst (serve_stats i) = i"
  "fst (serve_digest b p i) = i" "fst (serve_report b g p i) = i" "fst (serve_shutdown b p i) = i"
  by (simp_all add: serve_hello_def serve_ping_def serve_stats_def serve_digest_def serve_report_def
      serve_shutdown_def serve_steps split: sum.split)

lemma serve_export_pure: "fst (serve_export b limit p i) = i"
  by (auto simp: serve_export_def answer_export_def serve_steps split: sum.split option.split prod.split)

lemma serve_update_step:
  "fst (serve_update b dec update p i) = (case decode_exact b dec p of Inl _ \<Rightarrow> i | Inr v \<Rightarrow> fst (update v i))"
  by (simp add: serve_update_def serve_steps split: sum.split)

lemma serve_record_step:
  "fst (serve_record b dec operation p i) = (case decode_exact b dec p of Inl _ \<Rightarrow> i | Inr v \<Rightarrow> fst (operation v i))"
  by (simp add: serve_record_def serve_steps split: sum.split)

lemma answer_explanation_pure [simp]: "fst (answer_explanation b e i) = i"
  by (simp add: answer_explanation_def split: prod.split sum.split)

lemma explain_assignment_pure: "fst (explain_assignment a i) = i"
  by (simp add: explain_assignment_def Let_def split: option.split)

lemma explain_request_plans: "fst (explain_request rq i) = perform (Op_Plan rq None) i"
  by (simp add: explain_request_def fabric_plan_def act_bind_def act_return_def split: prod.split sum.split)

lemma list_assignments_state: "im_state (fst (list_assignments f offset limit i)) = im_state i"
  by (simp add: list_assignments_def Let_def bump_by_def)

lemma get_scope_pure: "fst (get_scope sc i) = i"
  by (simp add: get_scope_def Let_def split: option.split)

lemma get_assignment_pure: "fst (get_assignment a i) = i"
  by (simp add: get_assignment_def split: option.split)

text \<open>The two requests that can hand authority back must pass the conflict check they omit.\<close>

definition careful_payload :: "Opcode \<Rightarrow> Bounds \<Rightarrow> u8 list \<Rightarrow> Impl \<Rightarrow> bool" where
  "careful_payload c b p i =
     (case c of
        OP_ReportEffect \<Rightarrow> (case decode_exact b decode_effect_report p of
          Inl _ \<Rightarrow> True | Inr report \<Rightarrow> careful (Op_ReportEffect report) i)
      | OP_Reauthorize \<Rightarrow> (case decode_exact b dec_reauthorize p of
          Inl _ \<Rightarrow> True | Inr rq \<Rightarrow> careful (Op_Reauthorize rq) i)
      | _ \<Rightarrow> True)"

lemma update_step:
  "(\<And>v. fst (update v i) = perform (op v) i) \<Longrightarrow> (\<And>v. decode_exact b dec p = Inr v \<Longrightarrow> careful (op v) i) \<Longrightarrow>
   service_step i (fst (serve_update b dec update p i))"
  "(\<And>v. fst (operation v i) = perform (op v) i) \<Longrightarrow> (\<And>v. decode_exact b dec p = Inr v \<Longrightarrow> careful (op v) i) \<Longrightarrow>
   service_step i (fst (serve_record b dec operation p i))"
  by (auto simp: serve_update_step serve_record_step service_step_perform split: sum.split)

lemma serve_plan_step: "service_step i (fst (serve_plan b p i))"
  using service_step_perform [of "Op_Plan _ None" i] by (auto simp: serve_plan_def serve_steps split: sum.split)

lemma serve_revalidate_step: "service_step i (fst (serve_revalidate b cancel p i))"
  using service_step_perform [of "Op_Revalidate (Some cancel)" i]
  by (auto simp: serve_revalidate_def serve_steps split: sum.split)

lemma serve_compact_step: "service_step i (fst (serve_compact b p i))"
  using service_step_perform [of Op_Compact i] by (auto simp: serve_compact_def serve_steps split: sum.split)

lemma serve_listing_step: "service_step i (fst (serve_listing b p i))"
  by (auto simp: serve_listing_def serve_steps service_step_def list_assignments_state split: sum.split prod.split)

lemma serve_scope_step: "service_step i (fst (serve_scope b p i))"
  by (auto simp: serve_scope_def serve_steps get_scope_pure split: sum.split)

lemma serve_explain_step:
  "service_step i (fst (serve_explanation b br_token explain_assignment p i))"
  "service_step i (fst (serve_explanation b (decode_placement_request b') explain_request p i))"
  using service_step_perform [of "Op_Plan _ None" i]
  by (auto simp: serve_explanation_def serve_steps explain_assignment_pure explain_request_plans split: sum.split
      simp del: perform.simps)

lemma serve_opcode_step:
  assumes "careful_payload c b p i"
  shows "service_step i (fst (serve_opcode c b limit cancel p i))"
proof (cases c)
  case OP_ReportEffect
  with assms show ?thesis by (auto intro!: update_step(2) [of _ _ Op_ReportEffect] simp: careful_payload_def handlers)
next
  case OP_Reauthorize
  with assms show ?thesis by (auto intro!: update_step(2) [of _ _ Op_Reauthorize] simp: careful_payload_def handlers)
next
  case OP_RegisterFunction
  then show ?thesis by (auto intro!: update_step(1) [of _ _ Op_RegisterFunction] simp: handlers)
next
  case OP_IngestTopology
  then show ?thesis by (auto intro!: update_step(1) [of _ _ Op_IngestTopology] simp: handlers)
next
  case OP_IngestCapabilities
  then show ?thesis by (auto intro!: update_step(1) [of _ _ Op_IngestCapabilities] simp: handlers)
next
  case OP_IngestPolicy
  then show ?thesis by (auto intro!: update_step(1) [of _ _ Op_IngestPolicy] simp: handlers)
next
  case OP_IngestObservations
  then show ?thesis by (auto intro!: update_step(1) [of _ _ Op_IngestObservations] simp: handlers)
next
  case OP_GrantAuthority
  then show ?thesis by (auto intro!: update_step(1) [of _ _ Op_GrantAuthority] simp: handlers)
next
  case OP_WithdrawAuthority
  then show ?thesis by (auto intro!: update_step(1) [of _ _ "\<lambda>v. Op_WithdrawAuthority (fst v) (snd v)"] simp: handlers)
next
  case OP_Apply
  then show ?thesis
    by (auto intro!: update_step(2) [of _ _ "\<lambda>v. Op_Apply (fst v) \<lparr>ao_request_id = rq_request_id (fst v),
      ao_cancel = Some cancel, ao_allow_replacement = snd v\<rparr>"] simp: service_apply_def handlers)
next
  case OP_Revoke
  then show ?thesis by (auto intro!: update_step(2) [of _ _ "\<lambda>v. Op_Revoke v (Some cancel)"] simp: handlers)
next
  case OP_Replace
  then show ?thesis by (auto intro!: update_step(2) [of _ _ Op_Replace] simp: handlers)
next
  case OP_GetAssignment
  then show ?thesis by (auto simp: handlers serve_record_step get_assignment_pure split: sum.split)
qed (simp_all add: handlers serve_queries serve_export_pure serve_plan_step serve_revalidate_step serve_compact_step
    serve_listing_step serve_scope_step serve_explain_step)

definition careful_request :: "Frame \<Rightarrow> Server \<Rightarrow> bool" where
  "careful_request f s =
     (case parse_opcode (fm_opcode f) of
        None \<Rightarrow> True
      | Some c \<Rightarrow> careful_payload c (sv_bounds s) (fm_payload f) (sv_fabric s))"

lemma handle_request_step:
  assumes "careful_request f s"
  shows "service_step (sv_fabric s) (sv_fabric (fst (handle_request cancel f s)))"
proof (cases "cached_answer f s")
  case None
  show ?thesis
  proof (cases "parse_opcode (fm_opcode f)")
    case (Some c)
    then have "careful_payload c (sv_bounds s) (fm_payload f) (sv_fabric s)" using assms by (simp add: careful_request_def)
    from serve_opcode_step [OF this, of "sv_limit s" cancel] None Some show ?thesis
      by (auto simp: handle_request_def execute_request_def Let_def split: prod.split sum.split)
  qed (simp add: None handle_request_def execute_request_def)
qed (simp add: handle_request_def)

subsection \<open>The fabric behind the service\<close>

text \<open>
  A server that started on a fabric and handled careful requests since; in between time passes, and
  connections come and go, which leaves the fabric and the cache alone.
\<close>

inductive served :: "Server \<Rightarrow> bool" where
  created: "reachable careful i \<Longrightarrow> served (new_server config i)"
| handled: "served s \<Longrightarrow> careful_request f s \<Longrightarrow> served (fst (handle_request cancel f s))"
| passing: "served s \<Longrightarrow> served (s\<lparr>sv_fabric := perform (Op_TimePasses t) (sv_fabric s)\<rparr>)"
| connection: "served s \<Longrightarrow> sv_fabric s' = sv_fabric s \<Longrightarrow> sv_bounds s' = sv_bounds s \<Longrightarrow>
    sv_cache s' = sv_cache s \<Longrightarrow> sv_cache_order s' = sv_cache_order s \<Longrightarrow> served s'"

lemma served_exclusive: "served s \<Longrightarrow> exclusive_inv (im_state (sv_fabric s))"
proof (induction rule: served.induct)
  case (created i config)
  then show ?case by (simp add: new_server_def reachable_careful)
next
  case (handled s f cancel)
  from handle_request_step [OF handled.hyps(2), of cancel] handled.IH show ?case
    unfolding service_step_def using exclusive.perform_keeps by metis
next
  case (passing s t)
  then show ?case using exclusive.perform_keeps [of "sv_fabric s" "Op_TimePasses t"] by simp
qed simp

lemma served_cache: "served s \<Longrightarrow> cache_inv s"
proof (induction rule: served.induct)
  case (created i config)
  then show ?case by (simp add: new_server_def cache_inv_def cache_ok_def)
next
  case (connection s s')
  then show ?case using cache_inv_same by metis
qed (simp_all add: handle_request_cache_inv, simp add: cache_inv_def)

text \<open>C3: mutual exclusion behind the service, under the same condition as in the runtime.  A server that started on a fabric
  in which no assignments conflict handles any requests in any order, repeated ones among them, on the condition
  that every re-authorization and every effect report among them would pass the conflict check which the program omits
  for these two (without the condition it is false: \<open>reauthorize_ignores_claims\<close> in \<open>Nof_Findings\<close>).
  Then two assignments of its fabric that exclude each other never hold
  authority at the same time, and the answers it keeps never exceed the configured bound.\<close>

theorem service_mutual_exclusion:
  assumes "served s"
  shows "(\<forall>a b r1 r2. map_of (fs_assignments (im_state (sv_fabric s))) a = Some r1 \<and>
      map_of (fs_assignments (im_state (sv_fabric s))) b = Some r2 \<and> conflicts r1 r2 \<longrightarrow> a = b) \<and>
    length (sv_cache s) \<le> max_idempotency_entries (sv_bounds s)"
  using exclusive_inv_no_conflict [OF served_exclusive [OF assms]] served_cache [OF assms]
  unfolding cache_inv_def by blast

subsection \<open>A request through the service\<close>

definition site_config :: ServerConfig where
  "site_config = \<lparr>sc_bind_address = ''127.0.0.1'', sc_port = 0, sc_max_connections = 32, sc_max_workers = 4,
     sc_max_queue_depth = 64\<rparr>"

definition site_server :: Server where
  "site_server = new_server site_config memory_runtime"

definition site_payload :: "u8 list" where
  "site_payload = bw_buffer (fst (encode_topology site_topology (bin_writer 4194304)))"

definition site_request :: Frame where
  "site_request = \<lparr>fm_opcode = 5, fm_flags = 0, fm_request_id = 7, fm_payload = site_payload\<rparr>"

lemma site_request_op: "parse_opcode (fm_opcode site_request) = Some OP_IngestTopology" "cacheable OP_IngestTopology"
  by (simp_all add: site_request_def parse_opcode_def all_Opcode_def cacheable_def)

lemma site_fresh: "cached_answer f site_server = None" "cache_inv site_server" "sv_bounds site_server = default_bounds"
  "sv_fabric site_server = memory_runtime"
  by (simp_all add: site_server_def new_server_def cached_answer_def cache_inv_def cache_ok_def memory_fields)

lemma site_tokens: "token_ok example_id" "token_ok ''h-1''" "token_ok ''d-1''" "token_ok ''src-1''"
  by (simp_all add: token_ok_def example_id_ok)
    (simp_all add: is_valid_token_def is_head_def is_tail_def char_in_def kMaxTokenLength_def)

lemma site_topology_ok: "topology_ok default_bounds site_topology"
  using site_tokens site_limits
  by (simp add: topology_ok_def site_topology_def site_device_def sample_device_def provenance_ok_def freshness_ok_def
      host_record_ok_def device_record_ok_def incarnation_ok_def is_i64_def i64_min_def i64_max_def)

lemma site_text: "64 \<le> max_text_bytes default_bounds"
  by (simp add: default_bounds_def)

lemma site_payload_decodes: "decode_exact default_bounds (decode_topology default_bounds) site_payload = Inr site_topology"
proof -
  obtain bs where "encode_fresh 4194304 (encode_topology site_topology) = Inr bs" using site_topology_encodes by blast
  then have e: "encode_topology site_topology (bin_writer 4194304) = (fst (encode_topology site_topology (bin_writer 4194304)), ok_status)"
    by (auto simp: encode_fresh_def prod_eq_iff split: prod.splits sum.splits)
  have "\<exists>r. decode_topology default_bounds (bin_reader site_payload (max_text_bytes default_bounds)) = Inr (site_topology, r) \<and> at_end r"
    using topology_codec.fresh_round_trip [of "max_text_bytes default_bounds" default_bounds site_topology 4194304 "fst (encode_topology site_topology (bin_writer 4194304))"]
      site_topology_ok e site_text
    unfolding encode_topology_def decode_topology_def site_payload_def by blast
  then show ?thesis by (auto simp: decode_exact_def)
qed

lemma site_request_handled:
  "\<exists>i. handle_request cancel site_request site_server = (remember site_request [] (site_server\<lparr>sv_fabric := i\<rparr>),
     Inr (response_to site_request 0 []))"
proof -
  obtain t1 t2 where enc: "encode_fresh 33554432 (encode_topology site_topology) = Inr t1"
      "encode_fresh 4194304 (encode_topology site_topology) = Inr t2"
    using site_topology_encodes by metis
  have max: "max_canonical_bytes default_bounds = 33554432" "max_record_bytes default_bounds = 4194304"
    by (simp_all add: default_bounds_def)
  have prov: "ts_provenance site_topology = \<lparr>pv_source = ''src-1'', pv_sequence = 1\<rparr>" by (simp add: site_topology_def)
  have "\<exists>i. ingest_topology site_topology memory_runtime = (i, ok_status)"
    using site_topology_valid enc
    by (subst ingest_topology_first [where digest = "sha256 t1" and bs = t2])
      (simp_all add: memory_fields max digest_with_encodes prov provenance_is_set_def find_source_def empty_state_def)
  then obtain i where "ingest_topology site_topology memory_runtime = (i, ok_status)" ..
  then show ?thesis
    using site_request_op site_payload_decodes
    by (simp add: handle_request_def execute_request_def site_fresh serve_ingest_topology_def serve_update_def take_payload_def act_bind_def
        act_lift_def act_return_def Let_def) (auto simp: site_request_def act_return_def)
qed

text \<open>The topology is delivered, then delivered again.\<close>

theorem duplicate_request_replayed_witness:
  "\<exists>s1 s2. handle_request (\<lambda>_. False) site_request site_server = (s1, Inr (response_to site_request 0 [])) \<and>
     handle_request (\<lambda>_. False) site_request s1 = (s2, Inr (response_to site_request 0 [])) \<and> sv_fabric s2 = sv_fabric s1"
proof -
  obtain s1 where h: "handle_request (\<lambda>_. False) site_request site_server = (s1, Inr (response_to site_request 0 []))"
    using site_request_handled by blast
  have id: "fm_request_id site_request \<noteq> 0" by (simp add: site_request_def)
  have "length [] < max_idempotency_entries (sv_bounds site_server)" by (simp add: site_fresh default_bounds_def)
  from duplicate_request_replayed [OF site_fresh(2) id site_fresh(1) site_request_op h this] h show ?thesis
    by (auto simp: serve_all_def)
qed

text \<open>A request that changes nothing on a runtime without a store: compaction.\<close>

definition compact_request :: Frame where
  "compact_request = \<lparr>fm_opcode = 27, fm_flags = 0, fm_request_id = 9, fm_payload = []\<rparr>"

lemma compact_op: "parse_opcode (fm_opcode compact_request) = Some OP_Compact"
  by (simp add: compact_request_def parse_opcode_def all_Opcode_def)

lemma compact_handled:
  assumes "im_running i" and "\<not> im_shutting_down i" and "im_store i = None"
  shows "handle_request cancel compact_request (new_server config i) = (new_server config i, Inr compact_request)"
proof -
  have "fst (fabric_compact i) = i \<and> snd (fabric_compact i) = ok_status"
    using assms by (simp add: fabric_compact_def act_bind_def require_running_def compact_locked_def act_return_def)
  then have "fabric_compact i = (i, ok_status)" by (simp add: prod_eq_iff)
  then show ?thesis
    by (simp add: handle_request_def execute_request_def new_server_def cached_answer_def compact_request_def parse_opcode_def
        all_Opcode_def serve_compact_def take_payload_def decode_exact_def no_fields_def rd_return_def at_end_def bin_reader_def
        act_bind_def act_lift_def act_return_def cacheable_def response_to_def Let_def)
qed

theorem service_mutual_exclusion_witness:
  "\<exists>s r. s = fst (handle_request (\<lambda>_. False) compact_request (new_server site_config site_placed)) \<and>
     map_of (fs_assignments (im_state (sv_fabric s))) (''as-'' @ hex64 1) = Some r \<and> conflicts r r \<and>
     (\<nexists>b r2. b \<noteq> ''as-'' @ hex64 1 \<and> map_of (fs_assignments (im_state (sv_fabric s))) b = Some r2 \<and> conflicts r r2)"
proof -
  let ?s = "fst (handle_request (\<lambda>_. False) compact_request (new_server site_config site_placed))"
  have "careful_request compact_request (new_server site_config site_placed)"
    by (simp add: careful_request_def compact_op careful_payload_def)
  then have served: "served ?s" by (rule served.handled [OF served.created [OF site_placed_reachable]])
  have f: "sv_fabric ?s = site_placed"
    using compact_handled [OF site_placed_run(3,4,6)] by (simp add: new_server_def)
  note exclusive = conjunct1 [OF service_mutual_exclusion [OF served], unfolded f]
  have "\<nexists>b r2. b \<noteq> ''as-'' @ hex64 1 \<and> map_of (fs_assignments (im_state site_placed)) b = Some r2 \<and> conflicts site_record r2"
    using exclusive site_placed_fields(1) by blast
  with site_placed_fields(1) site_conflicts show ?thesis
    by (intro exI [of _ ?s] exI [of _ site_record]) (simp only: f simp_thms)
qed

subsection \<open>From the client and back\<close>

text \<open>Only the counters of the server differ.\<close>

definition same_service :: "Server \<Rightarrow> Server \<Rightarrow> bool" where
  "same_service s s' \<longleftrightarrow> (\<exists>st. s' = s\<lparr>sv_stats := st\<rparr>)"

lemma same_service_counted [simp]: "same_service s (counted_in g s)"
  by (auto simp: same_service_def counted_in_def)

lemma same_service_refl [simp]: "same_service s s"
  unfolding same_service_def by (rule exI [of _ "sv_stats s"]) simp

lemma same_service_fields: "same_service s s' \<Longrightarrow> sv_bounds s' = sv_bounds s" "same_service s s' \<Longrightarrow> sv_stopping s' = sv_stopping s"
  by (auto simp: same_service_def)

lemma same_service_trans: "same_service s s' \<Longrightarrow> same_service s' s'' \<Longrightarrow> same_service s s''"
  by (auto simp: same_service_def)

lemma same_service_request: "same_service s s' \<Longrightarrow> snd (handle_request cancel f s') = snd (handle_request cancel f s)"
  by (auto simp: same_service_def handle_request_def execute_request_def cached_answer_def Let_def split: option.split prod.split sum.split)

lemma remember_commutes:
  "remember f p (s\<lparr>sv_stats := st\<rparr>) = (remember f p s)\<lparr>sv_stats := st\<rparr>"
  "remember f p (s\<lparr>sv_fabric := i\<rparr>) = (remember f p s)\<lparr>sv_fabric := i\<rparr>"
  by (simp_all add: remember_def Let_def)

lemma execute_stats:
  "fst (execute_request cancel f (s\<lparr>sv_stats := st\<rparr>)) = (fst (execute_request cancel f s))\<lparr>sv_stats := st\<rparr>"
proof (cases "parse_opcode (fm_opcode f)")
  case (Some c)
  obtain i res where "serve_opcode c (sv_bounds s) (sv_limit s) cancel (fm_payload f) (sv_fabric s) = (i, res)"
    by (cases "serve_opcode c (sv_bounds s) (sv_limit s) cancel (fm_payload f) (sv_fabric s)")
  with Some show ?thesis
    by (cases res) (simp_all add: execute_request_def remember_commutes Let_def)
qed (simp add: execute_request_def)

lemma same_service_handled:
  assumes "same_service s s'"
  shows "same_service (fst (handle_request cancel f s)) (fst (handle_request cancel f s'))"
proof -
  from assms obtain st where s': "s' = s\<lparr>sv_stats := st\<rparr>" by (auto simp: same_service_def)
  then have same: "cached_answer f s' = cached_answer f s" by (simp add: cached_answer_def)
  show ?thesis
  proof (cases "cached_answer f s")
    case None
    with same have "fst (handle_request cancel f s') = (fst (handle_request cancel f s))\<lparr>sv_stats := st\<rparr>"
      by (simp add: handle_request_def s' execute_stats)
    then show ?thesis by (auto simp: same_service_def)
  next
    case (Some entry)
    with same show ?thesis by (auto simp: handle_request_def s' same_service_def counted_in_def)
  qed
qed

lemma same_service_answered: "same_service (fst (handle_request cancel f s)) (fst (answer_request cancel f s))"
proof -
  let ?s = "counted_in (\<lambda>st. st\<lparr>vs_in_flight_requests := vs_in_flight_requests st + 1\<rparr>) s"
  have "same_service (fst (handle_request cancel f s)) (fst (handle_request cancel f ?s))"
    by (rule same_service_handled) simp
  moreover have "same_service (fst (handle_request cancel f ?s)) (fst (answer_request cancel f s))"
    by (cases "handle_request cancel f ?s") (simp add: answer_request_def split: sum.split)
  ultimately show ?thesis by (rule same_service_trans)
qed

lemma answer_request_response:
  "snd (answer_request cancel f s) =
     (case snd (handle_request cancel f s) of Inl e \<Rightarrow> refusal_frame (sv_bounds s) f e | Inr response \<Rightarrow> response)"
proof -
  let ?s = "counted_in (\<lambda>st. st\<lparr>vs_in_flight_requests := vs_in_flight_requests st + 1\<rparr>) s"
  obtain s' r where h: "handle_request cancel f ?s = (s', r)" by (cases "handle_request cancel f ?s")
  have "snd (handle_request cancel f ?s) = snd (handle_request cancel f s)" by (rule same_service_request) simp
  then have "snd (handle_request cancel f s) = r" unfolding h by simp
  then show ?thesis unfolding answer_request_def h by (cases r) simp_all
qed

lemma same_service_answer: "same_service s s' \<Longrightarrow> snd (answer_request cancel f s') = snd (answer_request cancel f s)"
  unfolding answer_request_response by (simp only: same_service_request same_service_fields(1))

lemma handle_request_id: "handle_request cancel f s = (s', Inr response) \<Longrightarrow> fm_request_id response = fm_request_id f"
  by (auto simp: handle_request_def execute_request_def response_to_def Let_def split: option.splits if_splits prod.splits sum.splits)

lemma answer_request_id: "fm_request_id (snd (answer_request cancel f s)) = fm_request_id f"
  unfolding answer_request_response using handle_request_id [of cancel f s]
  by (cases "handle_request cancel f s") (auto simp: refusal_frame_def response_to_def split: sum.split)

lemma proper_prefix_waits:
  assumes "frame_at m bytes = Inr (Some (f, length bytes))" and "bytes = p @ q" and "q \<noteq> []"
  shows "frame_at m p = Inr None"
proof (cases "frame_at m p")
  case (Inl e)
  with frame_at_append(1) [OF Inl, of q] assms(1,2) show ?thesis by simp
next
  case (Inr v)
  show ?thesis
  proof (cases v)
    case (Some fn)
    obtain g n where fn: "fn = (g, n)" by (cases fn)
    with Inr Some have p: "frame_at m p = Inr (Some (g, n))" by simp
    from frame_at_append(2) [OF p, of q] assms(1,2) have "n = length bytes" by simp
    with frame_at_size [OF p] assms(2,3) show ?thesis by simp
  qed (simp add: Inr)
qed

lemma serve_nothing: "frame_at (sv_limit s) (pending d) = Inr None \<Longrightarrow> serve_pending cancel sends n d s = (d, s, [], CF_Open)"
  by (simp add: serve_pending.simps [of cancel sends n d s] decoder_next_def)

lemma serve_one:
  assumes "frame_at (sv_limit s) (pending d) = Inr (Some (f, length (pending d)))" and "decoder_ok d"
    and "fm_opcode f \<noteq> Opcode_value OP_Shutdown"
    and "encode_frame (sv_limit s) (snd (answer_request cancel f s)) = Inr bytes" and "sends n"
  shows "\<exists>d' s'. serve_pending cancel sends n d s = (d', s', [bytes], CF_Open) \<and>
    same_service (fst (handle_request cancel f s)) s'"
proof -
  have "dc_consumed d + length (pending d) = length (dc_buffer d)" using assms(2) by (simp add: decoder_ok_def pending_def)
  then have n: "decoder_next (sv_limit s) d = (frame_decoder, Inr (Some f))" using assms(1) by (simp add: decoder_next_def)
  obtain s1 response where a: "answer_request cancel f s = (s1, response)" by (cases "answer_request cancel f s")
  have w: "frame_at (sv_limit s2) (pending frame_decoder) = Inr None" for s2 by (simp add: fresh_decoder(3) frame_at_def frame_sizes)
  have "same_service s1 (frame_sent (length bytes) s1)" by (simp add: frame_sent_def)
  with same_service_answered [of cancel f s] a
  have "same_service (fst (handle_request cancel f s)) (frame_sent (length bytes) s1)"
    using same_service_trans by auto
  then show ?thesis using n a assms(3-5)
    by (simp add: serve_pending.simps [of cancel sends n d s] serve_nothing [OF w])
qed

text \<open>What one handling of the request leaves, the counters and the table of connections apart.\<close>

definition handled_once :: "CancelToken \<Rightarrow> Frame \<Rightarrow> Server \<Rightarrow> Server \<Rightarrow> bool" where
  "handled_once cancel f s s' \<longleftrightarrow>
     s' = (fst (handle_request cancel f s))\<lparr>sv_stats := sv_stats s', sv_connections := sv_connections s'\<rparr>"

lemma handled_once_closed:
  assumes "same_service s s1" and "same_service (fst (handle_request cancel f s1)) s2"
  shows "handled_once cancel f s (close_connection cid s2)"
proof -
  have "same_service (fst (handle_request cancel f s)) s2"
    using same_service_trans [OF same_service_handled [OF assms(1)] assms(2)] .
  then show ?thesis by (auto simp: handled_once_def same_service_def close_connection_def counted_in_def)
qed

lemma connection_answers:
  assumes "frame_at (sv_limit s) bytes = Inr (Some (f, length bytes))" and "fm_opcode f \<noteq> Opcode_value OP_Shutdown"
    and "encode_frame (sv_limit s) (snd (answer_request cancel f s)) = Inr answer"
  shows "decoder_ok d \<Longrightarrow> pending d @ concat chunks = bytes \<Longrightarrow> chunks \<noteq> [] \<Longrightarrow> [] \<notin> set chunks \<Longrightarrow> \<not> sv_stopping s' \<Longrightarrow>
    same_service s s' \<Longrightarrow> \<exists>s''. connection_loop cancel (\<lambda>_. True) cid n d (map Inr chunks) s' = (s'', [answer]) \<and>
      handled_once cancel f s s''"
proof (induction chunks arbitrary: d s')
  case (Cons c chunks)
  let ?s = "counted_in (\<lambda>st. st\<lparr>vs_bytes_received := vs_bytes_received st + of_nat (length c)\<rparr>) s'"
  have same: "same_service s ?s" using same_service_trans [OF Cons.prems(6) same_service_counted] .
  then have limit: "sv_limit ?s = sv_limit s" by (simp only: same_service_fields(1))
  have d: "decoder_ok (feed c d)" "pending (feed c d) = pending d @ c" using pending_feed [OF Cons.prems(1)] by simp_all
  show ?case
  proof (cases "chunks = []")
    case True
    with Cons.prems(2) d have "pending (feed c d) = bytes" by simp
    with serve_one [of ?s "feed c d" f cancel answer "\<lambda>_. True" n] assms d(1) limit same_service_answer [OF same]
    obtain d' s'' where "serve_pending cancel (\<lambda>_. True) n (feed c d) ?s = (d', s'', [answer], CF_Open)"
        and "same_service (fst (handle_request cancel f ?s)) s''" by auto
    with True Cons.prems handled_once_closed [OF same] show ?thesis by (simp add: Let_def)
  next
    case False
    with Cons.prems have "concat chunks \<noteq> []" by (cases chunks) auto
    with proper_prefix_waits [OF assms(1), of "pending d @ c" "concat chunks"] Cons.prems(2)
    have "frame_at (sv_limit ?s) (pending (feed c d)) = Inr None" unfolding d(2) limit by simp
    from serve_nothing [OF this] Cons.prems Cons.IH [OF d(1) _ False _ _ same] show ?thesis
      by (auto simp: d(2) Let_def)
  qed
qed simp

text \<open>C11: a request is handled once and answered.  Let a client encode a request frame other than a shutdown, under a frame bound below
  2^32 bytes, and let it reach a server that is not stopping, cut into any non-empty pieces on the way.  If
  the answer fits a frame and the server's writes succeed, the server sends exactly that answer, and it is left
  exactly as one handling of the request by the handler leaves it (the fabric, the remembered
  answers and all else but the counters and the table of connections).  The client's call returns what the answer says:
  the response of the handler, or the error it refused with, under the identifier of the request.\<close>

theorem request_answered:
  assumes "sv_limit s < 2 ^ 32" and "encode_frame (sv_limit s) f = Inr bytes"
    and "concat chunks = bytes" and "[] \<notin> set chunks" and "\<not> sv_stopping s"
    and "fm_opcode f \<noteq> Opcode_value OP_Shutdown"
    and "encode_frame (sv_limit s) (snd (answer_request cancel f s)) = Inr answer"
  shows "\<exists>s'. connection_loop cancel (\<lambda>_. True) cid 0 frame_decoder (map Inr chunks) s = (s', [answer]) \<and>
    s' = (fst (handle_request cancel f s))\<lparr>sv_stats := sv_stats s', sv_connections := sv_connections s'\<rparr> \<and>
    snd (answer_request cancel f s) = (case snd (handle_request cancel f s) of
      Inl e \<Rightarrow> refusal_frame (sv_bounds s) f e | Inr response \<Rightarrow> response) \<and>
    snd (client_call ok_status [Inr answer] f (client_connect (sv_bounds s))) =
      check_response (sv_bounds s) f (snd (answer_request cancel f s)) \<and>
    fm_request_id (snd (answer_request cancel f s)) = fm_request_id f"
proof -
  have small: "encode_frame (sv_limit s) g = Inr bs \<Longrightarrow> length (fm_payload g) < 2 ^ 32" for g bs
    using assms(1) by (simp add: encode_frame_Inr)
  have at: "frame_at (sv_limit s) bytes = Inr (Some (f, length bytes))"
    using frame_at_encoded [OF assms(2) small [OF assms(2)], of "[]"] by simp
  have "bytes \<noteq> []" using frame_at_size [OF at] by auto
  then have "chunks \<noteq> []" using assms(3) by auto
  then have served: "\<exists>s'. connection_loop cancel (\<lambda>_. True) cid 0 frame_decoder (map Inr chunks) s = (s', [answer]) \<and>
      s' = (fst (handle_request cancel f s))\<lparr>sv_stats := sv_stats s', sv_connections := sv_connections s'\<rparr>"
    unfolding handled_once_def [symmetric] using connection_answers [OF at assms(6,7) fresh_decoder(1), of chunks s cid 0] assms(3-5)
    by (simp add: fresh_decoder(3))
  moreover have got: "frame_at (sv_limit s) (pending (feed answer frame_decoder)) = Inr (Some (snd (answer_request cancel f s), length answer))"
    using frame_at_encoded [OF assms(7) small [OF assms(7)], of "[]"] by (simp add: pending_feed(1) fresh_decoder)
  moreover have "answer \<noteq> []" using frame_at_size [OF got] by (auto simp: pending_feed(1) fresh_decoder)
  ultimately have "snd (client_call ok_status [Inr answer] f (client_connect (sv_bounds s))) =
      check_response (sv_bounds s) f (snd (answer_request cancel f s))"
    using assms(2)
    by (simp add: client_call_def client_send_def client_connect_def client_receive_def decoder_next_def fresh_decoder(3)
        frame_at_def [of _ "[]"] frame_sizes split: prod.split)
  with served show ?thesis using answer_request_id answer_request_response by blast
qed

theorem request_answered_witness:
  "\<exists>bytes s'. encode_frame 1048576 compact_request = Inr bytes \<and>
     connection_loop (\<lambda>_. False) (\<lambda>_. True) 1 0 frame_decoder [Inr (take 9 bytes), Inr (drop 9 bytes)] site_server = (s', [bytes]) \<and>
     sv_fabric s' = memory_runtime \<and> sv_cache s' = [] \<and>
     snd (client_call ok_status [Inr bytes] compact_request (client_connect default_bounds)) = Inr compact_request"
proof -
  obtain bytes where e: "encode_frame 1048576 compact_request = Inr bytes" "length bytes = 24"
    using encode_frame_Inr [of 1048576 compact_request] by (simp add: compact_request_def)
  have l: "sv_limit site_server = 1048576" by (simp add: site_fresh default_bounds_def)
  have c: "concat [take 9 bytes, drop 9 bytes] = bytes" "[] \<notin> set [take 9 bytes, drop 9 bytes]" using e(2) by auto
  have idle: "\<not> sv_stopping site_server" "fm_opcode compact_request \<noteq> Opcode_value OP_Shutdown"
    by (simp_all add: site_server_def new_server_def compact_request_def)
  have handled: "handle_request cancel compact_request site_server = (site_server, Inr compact_request)" for cancel
    unfolding site_server_def using compact_handled memory_fields by blast
  then have compact_answer: "snd (answer_request cancel compact_request site_server) = compact_request" for cancel
    by (simp add: answer_request_response)
  have a: "sv_limit site_server < 2 ^ 32" "encode_frame (sv_limit site_server) compact_request = Inr bytes"
    "encode_frame (sv_limit site_server) (snd (answer_request (\<lambda>_. False) compact_request site_server)) = Inr bytes"
    unfolding l compact_answer using e(1) by simp_all
  have "check_response default_bounds compact_request compact_request = Inr compact_request"
    by (simp add: check_response_def compact_request_def)
  moreover obtain s' where "connection_loop (\<lambda>_. False) (\<lambda>_. True) 1 0 frame_decoder [Inr (take 9 bytes), Inr (drop 9 bytes)]
        site_server = (s', [bytes])"
      and s': "s' = site_server\<lparr>sv_stats := sv_stats s', sv_connections := sv_connections s'\<rparr>"
      and "snd (client_call ok_status [Inr bytes] compact_request (client_connect default_bounds)) =
        check_response default_bounds compact_request compact_request"
    using request_answered [OF a(1,2) c idle a(3), of 1] unfolding compact_answer site_fresh(3) list.map handled fst_conv by blast
  moreover have "sv_fabric s' = memory_runtime" "sv_cache s' = []"
    by (subst s', simp add: site_fresh, subst s', simp add: site_server_def new_server_def)
  ultimately show ?thesis using e(1) by metis
qed

end
