(* ===== verification/Nof_Synthetic.thy ===== *)
theory Nof_Synthetic
  imports Nof_Assignment
begin

text \<open>
  The synthetic fixtures of \<open>src/synthetic.cpp\<close>: a scenario of hosts with four devices each, one
  policy rule, one grant, and the requests and later observations built from it.  The reading of the
  system clock, used when the options leave the observation time at zero, is the argument \<open>now\<close>.  The
  sorts of the code are by keys that do not repeat, so the order it leaves is the one of
  \<open>sort_key\<close>.  Every collection of a scenario of at most ten hosts passes its validator; from the
  eleventh host on the hosts themselves are out of order and the topology is refused.
\<close>

subsection \<open>Options and scenario\<close>

record ScenarioOptions =
  so_hosts :: nat
  so_seed :: u64
  so_source :: string
  so_sequence_base :: u64
  so_observed_at :: Micros
  so_valid_until :: Micros
  so_ttl_micros :: i64
  so_host_fallback_allowed :: bool
  so_function_class :: FunctionClass
  so_topology_generation :: Gen
  so_policy_generation :: Gen
  so_capability_generation :: Gen
  so_schema :: Gen
  so_max_assignments_per_device :: nat
  so_packets_per_second :: u64
  so_flows :: u64
  so_memory_bytes :: u64

definition default_options :: ScenarioOptions where
  "default_options = \<lparr>so_hosts = 2, so_seed = 1, so_source = ''syn-source-1'', so_sequence_base = 1,
     so_observed_at = 0, so_valid_until = 0, so_ttl_micros = 3600 * 1000000,
     so_host_fallback_allowed = False, so_function_class = FC_RouteLookup, so_topology_generation = 1,
     so_policy_generation = 1, so_capability_generation = 1, so_schema = 1,
     so_max_assignments_per_device = 64, so_packets_per_second = 1000, so_flows = 100,
     so_memory_bytes = 4096\<rparr>"

record Scenario =
  sc_functions :: "FunctionDescriptor list"
  sc_topology :: TopologySnapshot
  sc_policy :: PolicySnapshot
  sc_capabilities :: CapabilityReport
  sc_observations :: ObservationReport
  sc_authority :: AuthorityGrant
  sc_first_host :: HostId
  sc_second_host :: HostId
  sc_dpu_devices :: "DeviceId list"
  sc_smartnic_devices :: "DeviceId list"
  sc_nic_devices :: "DeviceId list"
  sc_host_stack_devices :: "DeviceId list"
  sc_function :: FunctionId
  sc_scope :: ScopeSpec

subsection \<open>Building blocks\<close>

definition syn_token :: "string \<Rightarrow> nat \<Rightarrow> string" where
  "syn_token prefix index = prefix @ decimal index"

definition resolve_observed_at :: "Micros \<Rightarrow> ScenarioOptions \<Rightarrow> Micros" where
  "resolve_observed_at now options = (if so_observed_at options \<noteq> 0 then so_observed_at options else now)"

definition resolve_valid_until :: "ScenarioOptions \<Rightarrow> Micros \<Rightarrow> Micros" where
  "resolve_valid_until options observed_at =
     (if so_valid_until options > observed_at then so_valid_until options
      else observed_at + so_ttl_micros options)"

definition syn_freshness :: "Micros \<Rightarrow> Micros \<Rightarrow> Freshness" where
  "syn_freshness observed_at valid_until = \<lparr>fr_observed_at = observed_at, fr_valid_until = valid_until\<rparr>"

definition syn_provenance :: "ScenarioOptions \<Rightarrow> u64 \<Rightarrow> Provenance" where
  "syn_provenance options offset = \<lparr>pv_source = so_source options, pv_sequence = so_sequence_base options + offset\<rparr>"

definition syn_window :: "Micros \<Rightarrow> ScenarioOptions \<Rightarrow> Freshness" where
  "syn_window now options =
     (let observed_at = resolve_observed_at now options
      in syn_freshness observed_at (resolve_valid_until options observed_at))"

definition masks :: "Semantic list \<Rightarrow> SemanticsMask" where
  "masks ss = fold mask_set ss 0"

definition syn_capacity :: CapacityVector where
  "syn_capacity = \<lparr>cv_packets_per_second = 1000000, cv_bytes_per_second = 1000000000, cv_flows = 100000,
     cv_queues = 64, cv_memory = push_bit 30 1\<rparr>"

fun kind_supported :: "DeviceKind \<Rightarrow> Semantic list" where
  "kind_supported DK_Dpu = [SM_LineRateDeterministic, SM_ProgrammablePipeline, SM_StatefulFlowTable,
     SM_PerFlowCounters, SM_KernelBypass]"
| "kind_supported DK_SmartNic = [SM_LineRateDeterministic, SM_PerFlowCounters]"
| "kind_supported DK_Nic = [SM_LineRateDeterministic]"
| "kind_supported DK_HostStack = [SM_OrderingPreserving]"

fun kind_unsupported :: "DeviceKind \<Rightarrow> Semantic list" where
  "kind_unsupported DK_SmartNic = [SM_ProgrammablePipeline]"
| "kind_unsupported _ = []"

fun kind_unknown :: "DeviceKind \<Rightarrow> Semantic list" where
  "kind_unknown DK_Nic = [SM_ProgrammablePipeline, SM_StatefulFlowTable]"
| "kind_unknown DK_HostStack = [SM_ProgrammablePipeline, SM_StatefulFlowTable]"
| "kind_unknown _ = []"

definition make_capability ::
    "ScenarioOptions \<Rightarrow> DeviceId \<Rightarrow> IncarnationId \<Rightarrow> DeviceKind \<Rightarrow> Freshness \<Rightarrow> CapabilityRecord" where
  "make_capability options device incarnation kind window = \<lparr>
     cr_device = device, cr_incarnation = incarnation, cr_cls = so_function_class options,
     cr_supported = masks (kind_supported kind), cr_unsupported = masks (kind_unsupported kind),
     cr_unknown = masks (kind_unknown kind),
     cr_version_range = \<lparr>vr_minimum = SemanticVersion 1 0, vr_maximum = SemanticVersion 3 0\<rparr>,
     cr_capacity = syn_capacity, cr_schema = so_schema options,
     cr_generation = so_capability_generation options, cr_provenance = syn_provenance options 2,
     cr_freshness = window, cr_revoked = False\<rparr>"

subsection \<open>Hosts and devices\<close>

text \<open>One round of the outer loop, and one of the loop over the four kinds inside it.\<close>

definition syn_host :: "nat \<Rightarrow> HostRecord" where
  "syn_host host_index = \<lparr>hr_id = syn_token ''syn-h'' host_index,
     hr_labels = [if host_index mod 2 = 0 then ''rack-a'' else ''rack-b'']\<rparr>"

definition syn_kinds :: "(DeviceKind \<times> string) list" where
  "syn_kinds = [(DK_Dpu, ''dpu''), (DK_SmartNic, ''smartnic''), (DK_Nic, ''nic''), (DK_HostStack, ''host'')]"

definition syn_incarnation :: IncarnationId where
  "syn_incarnation = \<lparr>in_generation = 1, in_boot = ''0123456789abcdef0123456789abcdef''\<rparr>"

fun syn_device :: "nat \<Rightarrow> DeviceKind \<times> string \<Rightarrow> DeviceRecord" where
  "syn_device host_index (kind, suffix) = \<lparr>
     dr_id = ''syn-h'' @ decimal host_index @ ''-'' @ suffix, dr_host = hr_id (syn_host host_index),
     dr_kind = kind, dr_incarnation = syn_incarnation, dr_capacity = syn_capacity,
     dr_labels = [if kind = DK_Dpu then ''offload-class-a'' else ''offload-class-b''],
     dr_decommissioned = False\<rparr>"

definition host_count :: "ScenarioOptions \<Rightarrow> nat" where
  "host_count options = (if so_hosts options = 0 then 1 else so_hosts options)"

definition syn_devices :: "nat \<Rightarrow> DeviceRecord list" where
  "syn_devices n = concat (map (\<lambda>i. map (syn_device i) syn_kinds) [0..<n])"

definition syn_observation :: "ScenarioOptions \<Rightarrow> Freshness \<Rightarrow> DeviceRecord \<Rightarrow> DeviceObservation" where
  "syn_observation options window device = \<lparr>
     do_device = dr_id device, do_incarnation = dr_incarnation device, do_liveness = LV_Alive,
     do_available = zero_capacity\<lparr>cv_packets_per_second := 1000000, cv_flows := 100000\<rparr>,
     do_available_known = True, do_freshness = window, do_provenance = syn_provenance options 3\<rparr>"

definition kind_ids :: "DeviceKind \<Rightarrow> DeviceRecord list \<Rightarrow> DeviceId list" where
  "kind_ids kind devices = map dr_id (filter (\<lambda>d. dr_kind d = kind) devices)"

subsection \<open>The scenario\<close>

definition allowed_kinds :: "ScenarioOptions \<Rightarrow> DeviceKind list" where
  "allowed_kinds options =
     sort ([DK_Dpu, DK_SmartNic, DK_Nic] @ (if so_host_fallback_allowed options then [DK_HostStack] else []))"

definition grant_actions :: "AuthorityAction list" where
  "grant_actions = sort [AA_Place, AA_Replace, AA_Revoke, AA_Reauthorize]"

definition syn_function :: "ScenarioOptions \<Rightarrow> FunctionDescriptor" where
  "syn_function options = \<lparr>fd_id = ''syn-fn-route'', fd_cls = so_function_class options,
     fd_required = masks [SM_LineRateDeterministic, SM_ProgrammablePipeline],
     fd_required_version = SemanticVersion 1 0, fd_exclusive_by_default = True\<rparr>"

definition syn_topology :: "Micros \<Rightarrow> ScenarioOptions \<Rightarrow> TopologySnapshot" where
  "syn_topology now options = \<lparr>
     ts_generation = so_topology_generation options, ts_provenance = syn_provenance options 0,
     ts_freshness = syn_window now options, ts_hosts = map syn_host [0..<host_count options],
     ts_devices = sort_key dr_id (syn_devices (host_count options)), ts_links = []\<rparr>"

definition syn_capabilities :: "Micros \<Rightarrow> ScenarioOptions \<Rightarrow> CapabilityReport" where
  "syn_capabilities now options = \<lparr>
     cp_provenance = syn_provenance options 2, cp_freshness = syn_window now options,
     cp_records = sort_key cr_device (sort_key cr_cls
       (map (\<lambda>d. make_capability options (dr_id d) (dr_incarnation d) (dr_kind d) (syn_window now options))
         (syn_devices (host_count options))))\<rparr>"

definition syn_observations :: "Micros \<Rightarrow> ScenarioOptions \<Rightarrow> ObservationReport" where
  "syn_observations now options = \<lparr>
     or_topology_generation = so_topology_generation options, or_provenance = syn_provenance options 3,
     or_freshness = syn_window now options,
     or_devices = sort_key do_device
       (map (syn_observation options (syn_window now options)) (syn_devices (host_count options)))\<rparr>"

definition syn_policy :: "Micros \<Rightarrow> ScenarioOptions \<Rightarrow> PolicySnapshot" where
  "syn_policy now options = \<lparr>
     ps_generation = so_policy_generation options, ps_provenance = syn_provenance options 1,
     ps_freshness = syn_window now options,
     ps_rules = [\<lparr>pr_cls = so_function_class options, pr_required = masks [SM_LineRateDeterministic],
       pr_allowed_kinds = allowed_kinds options, pr_exclusive_key = EK_PerClass,
       pr_allow_host_fallback = so_host_fallback_allowed options, pr_require_authority = True,
       pr_require_fresh_observation = True, pr_require_capability = True, pr_priority = 10,
       pr_max_reassignments_per_scope = 3, pr_reassignment_window_micros = 3600000000,
       pr_max_assignments_per_device = so_max_assignments_per_device options, pr_reserve = zero_demand\<rparr>],
     ps_default_deny = True\<rparr>"

definition syn_authority :: "Micros \<Rightarrow> ScenarioOptions \<Rightarrow> AuthorityGrant" where
  "syn_authority now options = \<lparr>
     ag_id = ''syn-authority-'' @ decimal (unat (so_sequence_base options)),
     ag_policy_generation = so_policy_generation options, ag_classes = [so_function_class options],
     ag_kinds = allowed_kinds options, ag_actions = grant_actions,
     ag_host_scope = [], ag_scope = [], ag_semantics_ceiling = 0,
     ag_issued_at = fr_observed_at (syn_window now options),
     ag_expires_at = fr_valid_until (syn_window now options) + so_ttl_micros options,
     ag_provenance = syn_provenance options 4, ag_freshness = syn_window now options,
     ag_revoked = False, ag_max_uses = 0, ag_used = 0\<rparr>"

definition make_scenario :: "Micros \<Rightarrow> ScenarioOptions \<Rightarrow> Scenario" where
  "make_scenario now options =
     (let devices = syn_devices (host_count options);
          first_host = hr_id (syn_host 0)
      in \<lparr>sc_functions = [syn_function options], sc_topology = syn_topology now options,
          sc_policy = syn_policy now options, sc_capabilities = syn_capabilities now options,
          sc_observations = syn_observations now options, sc_authority = syn_authority now options,
          sc_first_host = first_host,
          sc_second_host = (if 1 < host_count options then hr_id (syn_host 1) else []),
          sc_dpu_devices = kind_ids DK_Dpu devices, sc_smartnic_devices = kind_ids DK_SmartNic devices,
          sc_nic_devices = kind_ids DK_Nic devices, sc_host_stack_devices = kind_ids DK_HostStack devices,
          sc_function = fd_id (syn_function options),
          sc_scope = no_scope\<lparr>ss_kind := SK_Flow, ss_domain := first_host,
            ss_selector := ''dir=ingress,proto=tcp,dst=10.0.0.1:443''\<rparr>\<rparr>)"

definition make_request :: "Scenario \<Rightarrow> ScenarioOptions \<Rightarrow> RequestId \<Rightarrow> bool \<Rightarrow> PlacementRequest" where
  "make_request scenario options request_id request_replacement = no_request\<lparr>
     rq_request_id := request_id, rq_function := sc_function scenario,
     rq_cls := so_function_class options, rq_scope := sc_scope scenario,
     rq_required := masks [SM_LineRateDeterministic, SM_ProgrammablePipeline],
     rq_required_version := SemanticVersion 1 0, rq_exclusivity := EX_Exclusive,
     rq_demand := zero_demand\<lparr>dv_packets_per_second := so_packets_per_second options,
       dv_flows := so_flows options, dv_memory := so_memory_bytes options\<rparr>,
     rq_allow_host_fallback := so_host_fallback_allowed options,
     rq_request_replacement := request_replacement\<rparr>"

definition later_observation ::
    "ScenarioOptions \<Rightarrow> u64 \<Rightarrow> Micros \<Rightarrow> Liveness \<Rightarrow> bool \<Rightarrow> DeviceRecord \<Rightarrow> DeviceObservation" where
  "later_observation options sequence observed_at liveness degrade_all device = \<lparr>
     do_device = dr_id device, do_incarnation = dr_incarnation device,
     do_liveness = (if degrade_all then liveness
                    else if dr_kind device = DK_HostStack then LV_Alive else liveness),
     do_available = zero_capacity\<lparr>cv_packets_per_second := 1000000\<rparr>, do_available_known = True,
     do_freshness = \<lparr>fr_observed_at = observed_at, fr_valid_until = observed_at + 1000000\<rparr>,
     do_provenance = \<lparr>pv_source = so_source options, pv_sequence = sequence\<rparr>\<rparr>"

definition make_observations ::
    "ScenarioOptions \<Rightarrow> Scenario \<Rightarrow> u64 \<Rightarrow> Micros \<Rightarrow> Liveness \<Rightarrow> bool \<Rightarrow> ObservationReport" where
  "make_observations options scenario sequence observed_at liveness degrade_all = \<lparr>
     or_topology_generation = ts_generation (sc_topology scenario),
     or_provenance = \<lparr>pv_source = so_source options, pv_sequence = sequence\<rparr>,
     or_freshness = \<lparr>fr_observed_at = observed_at, fr_valid_until = observed_at + 1000000\<rparr>,
     or_devices = sort_key do_device
       (map (later_observation options sequence observed_at liveness degrade_all)
         (ts_devices (sc_topology scenario)))\<rparr>"

subsection \<open>Identifiers\<close>

lemma decimal_digit: "decimal n = butlast (decimal n) @ [char_of (48 + n mod 10)]"
  by (simp add: decimal.simps [of n])

lemma decimal_single: "n < 10 \<Longrightarrow> decimal n = [char_of (48 + n)]"
  by (simp add: decimal.simps [of n])

lemma decimal_long: "10 \<le> n \<Longrightarrow> decimal n = decimal (n div 10) @ [char_of (48 + n mod 10)]"
  by (simp add: decimal.simps [of n])

lemma digit_inject:
  fixes a b :: nat
  shows "a < 10 \<Longrightarrow> b < 10 \<Longrightarrow> (char_of (48 + a) :: char) = char_of (48 + b) \<longleftrightarrow> a = b"
  using digit_char [of a] digit_char [of b] by (metis add_left_cancel)

lemma decimal_inject: "decimal m = decimal n \<Longrightarrow> m = n"
proof (induction m arbitrary: n rule: decimal.induct)
  case (1 m)
  have last: "m mod 10 = n mod 10"
    using "1.prems" decimal_digit [of m] decimal_digit [of n]
      digit_inject [of "m mod 10" "n mod 10"] by (metis last_snoc mod_less_divisor zero_less_numeral)
  consider "m < 10" "n < 10" | "m < 10" "10 \<le> n" | "10 \<le> m" "n < 10" | "10 \<le> m" "10 \<le> n" by linarith
  then show ?case
  proof cases
    case 1
    with last show ?thesis by simp
  next
    case 2
    with "1.prems" decimal_nonempty [of "n div 10"] show ?thesis by (auto simp: decimal_single decimal_long)
  next
    case 3
    with "1.prems" decimal_nonempty [of "m div 10"] show ?thesis by (auto simp: decimal_single decimal_long)
  next
    case 4
    with "1.prems" have "decimal (m div 10) = decimal (n div 10)" by (simp add: decimal_long)
    with 4 "1.IH" have "m div 10 = n div 10" by simp
    with last show ?thesis by (metis div_mult_mod_eq)
  qed
qed

lemma dash_not_digit: "CHR ''-'' \<notin> set (decimal n)"
proof (induction n rule: decimal.induct)
  case (1 n)
  have "CHR ''-'' \<noteq> char_of (48 + d)" if "d < 10" for d :: nat
  proof
    assume "CHR ''-'' = char_of (48 + d)"
    then have "char_of (48 + d) = CHR ''-''" by (rule sym)
    then have "of_char (char_of (48 + d) :: char) = (45 :: nat)" by simp
    with digit_char [OF that] show False by simp
  qed
  from this [of n] this [of "n mod 10"] 1 show ?case
    by (cases "n < 10") (auto simp: decimal_single decimal_long)
qed

lemma split_at_dash:
  assumes "decimal m @ CHR ''-'' # xs = decimal n @ CHR ''-'' # ys"
  shows "m = n \<and> xs = ys"
proof -
  have "takeWhile (\<lambda>c. c \<noteq> CHR ''-'') (decimal k @ CHR ''-'' # zs) = decimal k" for k zs
    using dash_not_digit [of k] by (subst takeWhile_append2) auto
  with assms have "decimal m = decimal n" by metis
  with assms show ?thesis by (auto dest: decimal_inject)
qed

lemma device_ids_distinct: "distinct (map dr_id (syn_devices n))"
proof (induction n)
  case (Suc n)
  have "dr_id ` set (map (syn_device n) syn_kinds) \<inter> dr_id ` set (syn_devices n) = {}"
    by (auto simp: syn_devices_def syn_kinds_def dest!: split_at_dash decimal_inject)
  moreover have "distinct (map dr_id (map (syn_device n) syn_kinds))"
    by (simp add: syn_kinds_def)
  ultimately show ?case using Suc by (auto simp: syn_devices_def)
qed (simp add: syn_devices_def)

lemma sort_key_strict:
  fixes f :: "'a \<Rightarrow> 'b::linorder"
  shows "distinct (map f xs) \<Longrightarrow> sorted_wrt (<) (map f (sort_key f xs))"
  by (simp add: strict_sorted_iff distinct_map inj_on_def)

lemma hosts_in_order: "n \<le> 10 \<Longrightarrow> sorted_wrt (<) (map hr_id (map syn_host [0..<n]))"
proof -
  assume n: "n \<le> 10"
  have "syn_token ''syn-h'' i < syn_token ''syn-h'' j" if "i < j" "j < n" for i j
  proof -
    have "(char_of (48 + i) :: char) < char_of (48 + j)"
      using that n digit_char [of i] digit_char [of j] by (simp add: less_char_def)
    with that n show ?thesis by (simp add: syn_token_def decimal_single)
  qed
  then show ?thesis by (auto simp: sorted_wrt_iff_nth_less syn_host_def)
qed

subsection \<open>Every collection passes its validator\<close>

text \<open>What the options have to provide; the second part of the first line keeps the host identifiers in order.\<close>

definition usable_options :: "Micros \<Rightarrow> ScenarioOptions \<Rightarrow> bool" where
  "usable_options now options \<longleftrightarrow>
     host_count options \<le> 10 \<and> so_source options \<noteq> [] \<and>
     (\<forall>k\<in>set [0, 1, 2, 3, 4]. so_sequence_base options + k \<noteq> 0) \<and>
     so_topology_generation options \<noteq> 0 \<and> so_policy_generation options \<noteq> 0 \<and>
     so_capability_generation options \<noteq> 0 \<and> so_schema options \<noteq> 0 \<and>
     0 < resolve_observed_at now options \<and> 0 < so_ttl_micros options \<and>
     0 < so_max_assignments_per_device options \<and>
     so_max_assignments_per_device options \<le> max_active_assignments default_bounds"

lemma syn_window_usable:
  "0 < resolve_observed_at now options \<Longrightarrow> 0 < so_ttl_micros options \<Longrightarrow>
     0 < fr_observed_at (syn_window now options) \<and>
     fr_observed_at (syn_window now options) < fr_valid_until (syn_window now options)"
  by (auto simp: syn_window_def syn_freshness_def resolve_valid_until_def Let_def)

lemma syn_window_ok: "usable_options now options \<Longrightarrow> check_freshness (syn_window now options) f = ok_status"
  using syn_window_usable [of now options] by (auto simp: usable_options_def check_freshness_ok)

lemma host_count_pos: "0 < host_count options"
  by (simp add: host_count_def)

lemma length_syn_devices: "length (syn_devices n) = 4 * n"
  by (induction n) (simp_all add: syn_devices_def syn_kinds_def)

lemma syn_devices_cases:
  "d \<in> set (syn_devices n) \<longleftrightarrow> (\<exists>i < n. \<exists>k\<in>set syn_kinds. d = syn_device i k)"
  by (auto simp: syn_devices_def)

lemma syn_incarnation_set: "incarnation_is_set syn_incarnation"
  by (simp add: syn_incarnation_def incarnation_is_set_def gen_is_set_def boot_is_set_def kBootIdLength_def
      is_lower_hex_def char_in_def)

lemma syn_labels:
  "check_labels [if b then ''rack-a'' else ''rack-b''] f = ok_status"
  "check_labels [if b then ''offload-class-a'' else ''offload-class-b''] f = ok_status"
  by (simp_all add: check_labels_def is_valid_token_def is_head_def is_tail_def char_in_def kMaxTokenLength_def)

lemma syn_topology_valid:
  assumes "usable_options now options"
  shows "validate_topology (syn_topology now options) default_bounds = ok_status"
proof -
  let ?n = "host_count options" let ?t = "syn_topology now options"
  have hosts: "sorted_wrt (<) (map hr_id (ts_hosts ?t))"
    using assms hosts_in_order [of ?n] by (simp add: usable_options_def syn_topology_def)
  have devices: "sorted_wrt (<) (map dr_id (ts_devices ?t))"
    using sort_key_strict [OF device_ids_distinct] by (simp add: syn_topology_def)
  have host: "validate_host h = ok_status" if "h \<in> set (ts_hosts ?t)" for h
    using that by (auto simp: syn_topology_def validate_host_def syn_host_def syn_token_def syn_labels)
  have device: "validate_device ?t d = ok_status" if "d \<in> set (ts_devices ?t)" for d
  proof -
    from that obtain i k where i: "i < ?n" and d: "d = syn_device i k"
      by (auto simp: syn_topology_def syn_devices_cases)
    have "find_host ?t (dr_host d) = Some (syn_host i)"
      using hosts i d by (cases k) (simp add: find_host_def lower_bound_find_iff syn_topology_def)
    with d show ?thesis
      by (cases k) (simp add: validate_device_def syn_incarnation_set syn_labels syn_host_def syn_token_def)
  qed
  have "length (ts_hosts ?t) \<le> max_hosts default_bounds" "length (ts_devices ?t) \<le> max_devices default_bounds"
    using assms by (simp_all add: usable_options_def syn_topology_def length_syn_devices default_bounds_def)
  moreover have "ts_hosts ?t \<noteq> []" using host_count_pos [of options] by (simp add: syn_topology_def)
  moreover have "ts_links ?t = []" "gen_is_set (ts_generation ?t)" "provenance_is_set (ts_provenance ?t)"
    "check_freshness (ts_freshness ?t) f = ok_status" for f
    using assms syn_window_usable [of now options]
    by (auto simp: usable_options_def syn_topology_def gen_is_set_def provenance_is_set_def 
        syn_provenance_def check_freshness_ok)
  moreover have "for_each validate_host (ts_hosts ?t) = ok_status"
    "for_each (validate_device ?t) (ts_devices ?t) = ok_status"
    using host device by (simp_all add: for_each_Inr)
  ultimately show ?thesis
    using hosts devices default_bounds_valid
    by (simp add: validate_topology_def check_canonical_order_def adjacent_map_less not_less)
qed

lemma syn_provenance_set:
  "usable_options now options \<Longrightarrow> k \<in> set [0, 1, 2, 3, 4] \<Longrightarrow> provenance_is_set (syn_provenance options k)"
  by (auto simp: usable_options_def provenance_is_set_def syn_provenance_def)

lemma allowed_kinds_ok: "check_kind_list (allowed_kinds options) f = ok_status"
  "check_sorted_unique (allowed_kinds options) f = ok_status"
  by (simp_all add: allowed_kinds_def check_kind_list_def check_sorted_unique_def less_DeviceKind_def
      less_eq_DeviceKind_def word_le_nat_alt word_less_nat_alt)

lemma syn_masks_apart:
  "masks (kind_supported k) AND masks (kind_unsupported k) = 0"
  "masks (kind_supported k) AND masks (kind_unknown k) = 0"
  "masks (kind_unsupported k) AND masks (kind_unknown k) = 0"
  by (cases k; simp add: masks_def mask_set_def mask_of_def)+

lemma syn_capability_valid:
  assumes "usable_options now options" and "d \<in> set (syn_devices n)"
  shows "validate_capability_record default_bounds
    (make_capability options (dr_id d) (dr_incarnation d) (dr_kind d) (syn_window now options)) = ok_status"
proof -
  from assms(2) obtain i k where d: "d = syn_device i k" by (auto simp: syn_devices_cases)
  have "mask_count m \<le> size_mul (max_semantics_per_requirement default_bounds) 4" for m
    using mask_count_le_64 [of m] by (simp add: default_bounds_def size_mul_def)
  then show ?thesis
    using assms(1) syn_window_ok [OF assms(1)] syn_provenance_set [OF assms(1), of 2]
    by (cases k) (auto simp: d validate_capability_record_def make_capability_def syn_incarnation_set gen_is_set_def
        usable_options_def syn_masks_apart not_less less_SemanticVersion_def)
qed

lemma capability_order_sorted:
  "sorted_wrt (<) (map cr_device rs) \<Longrightarrow> for_each_pair capability_order rs = ok_status"
  by (induction rs rule: induct_list012) (auto simp: capability_order_def)

lemma syn_capabilities_valid:
  assumes "usable_options now options"
  shows "validate_capability_report (syn_capabilities now options) default_bounds = ok_status"
proof -
  let ?n = "host_count options"
  let ?rs = "map (\<lambda>d. make_capability options (dr_id d) (dr_incarnation d) (dr_kind d) (syn_window now options)) (syn_devices ?n)"
  let ?r = "syn_capabilities now options"
  have "distinct (map cr_device (sort_key cr_cls ?rs))"
    using device_ids_distinct [of ?n]
    by (simp add: distinct_map inj_on_def make_capability_def comp_def) blast
  then have "for_each_pair capability_order (cp_records ?r) = ok_status"
    by (intro capability_order_sorted) (simp add: syn_capabilities_def sort_key_strict)
  moreover have "for_each (validate_capability_record default_bounds) (cp_records ?r) = ok_status"
    using syn_capability_valid [OF assms] by (auto simp: for_each_Inr syn_capabilities_def)
  moreover have "cp_records ?r \<noteq> []" "length (cp_records ?r) \<le> max_capability_records default_bounds"
    using assms host_count_pos [of options] length_syn_devices [of ?n]
    by (auto simp: syn_capabilities_def usable_options_def default_bounds_def simp flip: length_greater_0_conv)
  moreover have "provenance_is_set (cp_provenance ?r)" "check_freshness (cp_freshness ?r) f = ok_status" for f
    using syn_window_ok [OF assms] syn_provenance_set [OF assms, of 2] by (auto simp: syn_capabilities_def)
  ultimately show ?thesis by (simp add: validate_capability_report_def not_less)
qed

lemma syn_policy_valid:
  assumes "usable_options now options"
  shows "validate_policy_snapshot (syn_policy now options) default_bounds = ok_status"
  using assms syn_window_ok [OF assms] syn_provenance_set [OF assms, of 1]
  by (auto simp: validate_policy_snapshot_def syn_policy_def usable_options_def gen_is_set_def validate_policy_rule_def
      allowed_kinds_ok default_bounds_def)

lemma observations_sorted_ok:
  assumes "\<forall>o1\<in>set os. do_device o1 \<noteq> [] \<and> incarnation_is_set (do_incarnation o1) \<and>
      provenance_is_set (do_provenance o1) \<and> freshness_usable_interval (do_freshness o1)"
    and "sorted_wrt (<) (map do_device (case previous of None \<Rightarrow> os | Some p \<Rightarrow> p # os))"
  shows "validate_observations previous os = ok_status"
  using assms by (induction previous os rule: validate_observations.induct) (auto split: option.splits)

lemma syn_observations_valid:
  assumes "usable_options now options"
  shows "validate_observation_report (syn_observations now options) default_bounds = ok_status"
proof -
  let ?n = "host_count options" and ?r = "syn_observations now options" and ?w = "syn_window now options"
  have window: "freshness_usable_interval ?w"
    using assms syn_window_usable [of now options] by (auto simp: usable_options_def freshness_usable_interval_def)
  have good: "do_device o1 \<noteq> [] \<and> incarnation_is_set (do_incarnation o1) \<and>
      provenance_is_set (do_provenance o1) \<and> freshness_usable_interval (do_freshness o1)" if "o1 \<in> set (or_devices ?r)" for o1
  proof -
    from that obtain i k where "o1 = syn_observation options ?w (syn_device i k)"
      by (auto simp: syn_observations_def syn_devices_cases)
    then show ?thesis
      using syn_provenance_set [OF assms, of 3] window
      by (cases k) (simp add: syn_observation_def syn_incarnation_set)
  qed
  have "distinct (map do_device (map (syn_observation options ?w) (syn_devices ?n)))"
    using device_ids_distinct [of ?n] by (simp add: distinct_map inj_on_def syn_observation_def)
  then have "validate_observations None (or_devices ?r) = ok_status"
    using good by (intro observations_sorted_ok) (simp_all add: syn_observations_def sort_key_strict)
  moreover have "or_devices ?r \<noteq> []" "length (or_devices ?r) \<le> max_observations default_bounds"
    using assms host_count_pos [of options] length_syn_devices [of ?n]
    by (auto simp: syn_observations_def usable_options_def default_bounds_def simp flip: length_greater_0_conv)
  moreover have "gen_is_set (or_topology_generation ?r)" "provenance_is_set (or_provenance ?r)"
    "freshness_usable_interval (or_freshness ?r)"
    using assms window syn_provenance_set [OF assms, of 3]
    by (auto simp: syn_observations_def usable_options_def gen_is_set_def)
  ultimately show ?thesis by (simp add: validate_observation_report_def not_less)
qed

lemma syn_authority_valid:
  assumes "usable_options now options"
  shows "validate_authority_grant (syn_authority now options) default_bounds = ok_status"
proof -
  have actions: "check_sorted_unique grant_actions f = ok_status" for f
    by (simp add: grant_actions_def check_sorted_unique_def less_AuthorityAction_def less_eq_AuthorityAction_def
        word_le_nat_alt word_less_nat_alt)
  show ?thesis
    using assms syn_window_usable [of now options] syn_provenance_set [OF assms, of 4]
    by (auto simp: validate_authority_grant_def syn_authority_def usable_options_def gen_is_set_def allowed_kinds_ok
        actions freshness_usable_interval_def check_sorted_unique_def [of "[_]"] default_bounds_def)
qed

text \<open>C30: the fixtures are evidence the fabric accepts: for up to ten hosts, a set source, set generations and a
  positive lifetime, the topology, the policy, the capability report, the observations and the grant of the
  scenario pass their validators under the default bounds.
\<close>

theorem synthetic_scenario_valid:
  assumes "usable_options now options"
  shows "validate_topology (sc_topology (make_scenario now options)) default_bounds = ok_status \<and>
    validate_policy_snapshot (sc_policy (make_scenario now options)) default_bounds = ok_status \<and>
    validate_capability_report (sc_capabilities (make_scenario now options)) default_bounds = ok_status \<and>
    validate_observation_report (sc_observations (make_scenario now options)) default_bounds = ok_status \<and>
    validate_authority_grant (sc_authority (make_scenario now options)) default_bounds = ok_status"
  using assms
  by (simp add: make_scenario_def Let_def syn_topology_valid syn_policy_valid syn_capabilities_valid
      syn_observations_valid syn_authority_valid)

theorem synthetic_scenario_valid_witness:
  "validate_topology (sc_topology (make_scenario 5 default_options)) default_bounds = ok_status"
  using synthetic_scenario_valid [of 5 default_options]
  by (simp add: usable_options_def default_options_def host_count_def resolve_observed_at_def default_bounds_def)

text \<open>
  The host list is not sorted, unlike the devices, the records and the observations: \<open>syn-h10\<close> follows
  \<open>syn-h9\<close>.  A scenario of more than ten hosts is refused whatever the bounds.
\<close>

lemma synthetic_many_hosts_refused:
  assumes "10 < so_hosts options"
  shows "validate_topology (sc_topology (make_scenario now options)) bounds \<noteq> ok_status"
proof
  let ?hosts = "map hr_id (map syn_host [0..<host_count options])"
  assume "validate_topology (sc_topology (make_scenario now options)) bounds = ok_status"
  from validate_topology_wf [OF this] have "sorted_wrt (<) ?hosts"
    by (simp add: topology_wf_def make_scenario_def syn_topology_def Let_def)
  then have "?hosts ! 9 < ?hosts ! 10"
    using assms unfolding sorted_wrt_iff_nth_less by (simp add: host_count_def)
  then show False
    using assms by (simp add: host_count_def syn_host_def syn_token_def decimal_single decimal_long less_char_def)
qed

end
