(* ===== verification/Nof_Inspect.thy ===== *)
theory Nof_Inspect
  imports Nof_Journal
begin

text \<open>
  Looking at a store from outside: \<open>JournalStore::read_header\<close> of \<open>src/journal.cpp\<close> and the store check
  behind \<open>nofctl verify\<close> (\<open>command_verify\<close> of \<open>tools/nofctl.cpp\<close>).  A file is its bytes; a file that
  cannot be opened is the error of \<open>file\<close>.  \<open>read_header\<close> reads the whole file under a bound of 4096
  bytes, so it describes a store exactly until the store outgrows that bound and refuses it from then on;
  the check counts exactly the records of a well-formed journal.
\<close>

record StoreHeaderInfo =
  hi_store_id :: StoreId
  hi_format_version :: u32
  hi_canonical_version :: u16
  hi_created_at_micros :: int
  hi_present :: bool

definition read_header :: "u8 list result \<Rightarrow> StoreHeaderInfo result" where
  "read_header file =
     and_then file (\<lambda>content. and_then (read_file content 4096) (\<lambda>bytes.
       if length bytes < kJournalHeaderSize then Err RC_StoreTruncated ''store header is truncated''
       else if load_u32 bytes 0 \<noteq> kJournalMagic then Err RC_StoreCorrupt ''store magic does not match''
       else if load_u32 bytes 56 \<noteq> crc32c (take 56 bytes)
       then Err RC_StoreCorrupt ''store header integrity check failed''
       else and_then (token_parse (bytes_string (take 32 (drop 16 bytes)))) (\<lambda>store_id.
         Inr \<lparr>hi_store_id = store_id, hi_format_version = ucast (load_u16 bytes 4),
              hi_canonical_version = load_u16 bytes 6, hi_created_at_micros = sint (load_u64 bytes 48),
              hi_present = True\<rparr>)))"

lemma read_header_of_opened:
  assumes "open_header options bytes report = (report', Inr (store_id, created))" and "length bytes \<le> 4096"
  shows "read_header (Inr bytes) = Inr \<lparr>hi_store_id = store_id, hi_format_version = oo_format_version options,
    hi_canonical_version = kCanonicalEncodingVersion, hi_created_at_micros = created, hi_present = True\<rparr>"
  using assms
  by (auto simp: open_header_def read_header_def read_file_def refused_def split: if_splits sum.splits)

text \<open>C29: the header of a well-formed store is read back exactly, with the identity, the versions and the time
  the store was created with, while the file has at most 4096 bytes; a longer store is refused as oversized
  although its header is intact.\<close>

theorem read_header_exact:
  assumes "journal_inv js rs"
  shows "read_header (Inr (js_file js)) =
    (if length (js_file js) \<le> 4096
     then Inr \<lparr>hi_store_id = js_store_id js, hi_format_version = oo_format_version (js_options js),
            hi_canonical_version = kCanonicalEncodingVersion, hi_created_at_micros = js_created_at_micros js,
            hi_present = True\<rparr>
     else Err RC_OversizedInput ''store file exceeds the configured size bound'')"
proof (cases "length (js_file js) \<le> 4096")
  case True
  obtain header where h: "js_file js = header @ encode_records rs"
    "header = build_header (js_store_id js) (js_created_at_micros js) (oo_format_version (js_options js))"
    using assms by (rule journal_inv_file)
  have "open_header (js_options js) (js_file js) no_recovery =
      (no_recovery, Inr (js_store_id js, js_created_at_micros js))"
    using assms open_header_build unfolding h by (auto simp: journal_inv_def)
  from read_header_of_opened [OF this True] True show ?thesis by simp
qed (simp add: read_header_def read_file_def)

theorem read_header_exact_witness:
  "read_header (Inr (build_header example_id 1 1)) =
     Inr \<lparr>hi_store_id = example_id, hi_format_version = 1, hi_canonical_version = kCanonicalEncodingVersion,
       hi_created_at_micros = 1, hi_present = True\<rparr>"
  using read_header_exact [OF example_inv]
  by (simp add: example_store_def blank_store_def example_options_def length_build_header example_id_ok)

subsection \<open>Checking a store\<close>

text \<open>The visitor of \<open>nofctl verify\<close> counts the records it is shown.\<close>

definition count_record :: "RecordType \<Rightarrow> u64 \<Rightarrow> u8 list \<Rightarrow> u64 \<Rightarrow> u64 \<times> Status" where
  "count_record type sequence payload records = (records + 1, ok_status)"

definition verify_options :: "StoreOpenOptions \<Rightarrow> StoreOpenOptions" where
  "verify_options defaults = defaults\<lparr>oo_create_if_missing := False, oo_recovery := RP_Refuse\<rparr>"

text \<open>The report, and the number of records with the identity of the store or the refusal.\<close>

definition verify_store :: "StoreOpenOptions \<Rightarrow> bool \<Rightarrow> u8 list option \<Rightarrow> u8 list option \<Rightarrow>
    RecoveryReport \<times> (u64 \<times> StoreId) result" where
  "verify_store defaults opened file snapshot_file =
     (case journal_open (verify_options defaults) opened io_ok True [] 0 file snapshot_file no_recovery of
        (report, Inl e) \<Rightarrow> (report, Inl e)
      | (report, Inr js) \<Rightarrow>
          (case journal_replay count_record js 0 of
             (records, Inl e) \<Rightarrow> (report, Inl e)
           | (records, Inr _) \<Rightarrow> (report, Inr (records, js_store_id js))))"

definition counted :: "journal_entry list \<Rightarrow> nat" where
  "counted rs = length (filter (\<lambda>e. fst e \<noteq> RT_SnapshotBase \<and> 0 < fst (snd e)) rs)"

lemma visit_all_count: "visit_all count_record 0 rs n = (n + of_nat (counted rs), ok_status)"
proof (induction rs arbitrary: n)
  case (Cons e rs)
  then show ?case by (cases e) (auto simp: counted_def count_record_def)
qed (simp add: counted_def)

lemma journal_inv_options:
  "journal_inv js rs \<Longrightarrow> journal_inv (js\<lparr>js_options := (js_options js)\<lparr>oo_create_if_missing := c\<rparr>\<rparr>) rs"
  by (auto simp: journal_inv_def options_ok_def identity_ok_def)

text \<open>
  Checking a well-formed store without a snapshot under the options it was written with finds it clean,
  reports its identity and counts its records, the base record of a snapshot aside.
\<close>

lemma verify_store_counts:
  assumes "journal_inv js rs"
  shows "\<exists>report. verify_store (js_options js) True (Some (js_file js)) None =
      (report, Inr (of_nat (counted rs), js_store_id js)) \<and> rr_classification report = RK_CleanReopen"
proof -
  let ?options = "(js_options js)\<lparr>oo_create_if_missing := False, oo_recovery := RP_Refuse\<rparr>"
  let ?js = "js\<lparr>js_options := (js_options js)\<lparr>oo_create_if_missing := False\<rparr>\<rparr>"
  note inv = journal_inv_options [OF assms, of False]
  obtain header where h: "js_file js = header @ encode_records rs" "length header = 64"
    "header = build_header (js_store_id js) (js_created_at_micros js) (oo_format_version (js_options js))"
    using assms by (rule journal_inv_file)
  obtain js2 report where o: "journal_open ?options True io_ok True [] 0 (Some (js_file js)) None no_recovery = (report, Inr js2)"
      "rr_classification report = RK_CleanReopen" "js_file js2 = js_file js" "js_options js2 = ?options"
      "js_snapshot_covered js2 = 0" "\<not> js_closed js2"
    using open_clean [OF inv, of ?options RP_Refuse io_ok True "[]" 0 no_recovery] by auto
  have "js_store_id js2 = js_store_id js"
  proof -
    have "length (js_file ?js) \<le> read_limit (js_options ?js)"
      using inv read_limit_ok [of "js_options ?js"] by (auto simp: journal_inv_def)
    from journal_open_existing [OF inv _ this, of "encode_records rs" ?options RP_Refuse io_ok True "[]" 0 no_recovery] o(1) h
    show ?thesis by (auto simp: open_scanned_def refused_def Let_def split: if_splits sum.splits)
  qed
  moreover have "journal_replay count_record js2 0 = (of_nat (counted rs), ok_status)"
    using replay_inv [OF inv, of js2 RP_Refuse count_record 0] o by (simp add: visit_all_count)
  ultimately show ?thesis using o(1,2) by (simp add: verify_store_def verify_options_def)
qed

end
