(* ===== verification/Nof_Tools.thy ===== *)
theory Nof_Tools
  imports Nof_Composition Nof_Synthetic Nof_Inspect
begin

text \<open>
  The two programs around the library: the service \<open>nofd\<close> (\<open>tools/nofd.cpp\<close>) and the command line
  \<open>nofctl\<close> (\<open>tools/nofctl.cpp\<close>).  A run yields its exit code, what it prints on the standard output and
  the file it writes; the usage text and the standard error are not modelled.  The store files, the clock
  and the network enter through \<open>StartEnv\<close>, the initial runtime and \<open>OsNet\<close>.  The lemmas: the service
  starts with the invariants of the fabric in force, and \<open>nofctl assignment\<close> prints the record the
  server holds.
\<close>

subsection \<open>Numbers on the command line\<close>

text \<open>\<open>std::stoull\<close> and \<open>std::stoll\<close>: leading blanks and a sign, then the longest run of digits.\<close>

definition is_blank :: "char \<Rightarrow> bool" where
  "is_blank c \<longleftrightarrow> c = CHR '' '' \<or> char_in 9 13 c"

definition scan_integer :: "string \<Rightarrow> (bool \<times> nat) option" where
  "scan_integer text =
     (let t = dropWhile is_blank text;
          negative = (t \<noteq> [] \<and> hd t = CHR ''-'');
          u = (if t \<noteq> [] \<and> (hd t = CHR ''-'' \<or> hd t = CHR ''+'') then tl t else t);
          digits = takeWhile is_digit u
      in if digits = [] then None
         else Some (negative, fold (\<lambda>c v. v * 10 + (of_char c - 48)) digits 0))"

definition stoull :: "string \<Rightarrow> u64 option" where
  "stoull text =
     (case scan_integer text of
        None \<Rightarrow> None
      | Some (negative, v) \<Rightarrow>
          if v \<ge> 2 ^ 64 then None else Some (if negative then - of_nat v else of_nat v))"

definition stoll :: "string \<Rightarrow> i64 option" where
  "stoll text =
     (case scan_integer text of
        None \<Rightarrow> None
      | Some (negative, v) \<Rightarrow>
          let n = (if negative then - int v else int v) in if is_i64 n then Some n else None)"

subsection \<open>Options\<close>

record Options =
  op_flags :: "(string, string) omap"
  op_positional :: "string list"

definition is_flag :: "string \<Rightarrow> bool" where
  "is_flag argument \<longleftrightarrow> take 2 argument = ''--''"

text \<open>The argument loop of \<open>nofd\<close> and \<open>nofctl\<close>; \<open>nofd\<close> ignores the command and the positional arguments.\<close>

fun parse_arguments :: "string list \<Rightarrow> string \<times> Options \<Rightarrow> string \<times> Options" where
  "parse_arguments [] result = result"
| "parse_arguments (argument # rest) (command, options) =
     (if is_flag argument
      then (case rest of
              next_argument # rest' \<Rightarrow>
                if \<not> is_flag next_argument
                then parse_arguments rest'
                       (command, options\<lparr>op_flags := om_put argument next_argument (op_flags options)\<rparr>)
                else parse_arguments rest
                       (command, options\<lparr>op_flags := om_put argument ''1'' (op_flags options)\<rparr>)
            | [] \<Rightarrow> (command, options\<lparr>op_flags := om_put argument ''1'' (op_flags options)\<rparr>))
      else if command = [] then parse_arguments rest (argument, options)
      else parse_arguments rest (command, options\<lparr>op_positional := op_positional options @ [argument]\<rparr>))"

definition arguments :: "string list \<Rightarrow> string \<times> Options" where
  "arguments args = parse_arguments args ([], \<lparr>op_flags = [], op_positional = []\<rparr>)"

definition option_has :: "string \<Rightarrow> Options \<Rightarrow> bool" where
  "option_has key options \<longleftrightarrow> om_contains (op_flags options) key"

definition option_get :: "string \<Rightarrow> string \<Rightarrow> Options \<Rightarrow> string" where
  "option_get key fallback options =
     (case map_of (op_flags options) key of None \<Rightarrow> fallback | Some v \<Rightarrow> v)"

definition option_number :: "string \<Rightarrow> nat \<Rightarrow> Options \<Rightarrow> nat" where
  "option_number key fallback options =
     (case map_of (op_flags options) key of
        None \<Rightarrow> fallback
      | Some v \<Rightarrow> (case stoull v of None \<Rightarrow> fallback | Some n \<Rightarrow> unat n))"

subsection \<open>A new runtime\<close>

definition new_fabric :: "Bounds \<Rightarrow> Micros \<Rightarrow> (nat \<Rightarrow> JournalIo) \<Rightarrow> Impl" where
  "new_fabric bounds now io = \<lparr>im_bounds = bounds, im_now = now, im_state = empty_state, im_store = None,
     im_recovery = no_recovery, im_stats = (\<lambda>_. 0), im_running = False, im_recovery_accepted = False,
     im_replaying = False, im_shutting_down = False, im_history_drops = 0, im_io = io, im_ops = 0\<rparr>"

definition tool_config :: "string \<Rightarrow> RecoveryPolicy \<Rightarrow> BootId \<Rightarrow> FabricConfig" where
  "tool_config path policy boot = \<lparr>cf_store_path = path, cf_recovery = policy, cf_boot_id = boot,
     cf_store_id = [], cf_auto_accept_recovery = True\<rparr>"

subsection \<open>The service\<close>

text \<open>The fixtures are ingested in this order; what the operations answer is ignored.\<close>

definition seed_steps :: "Scenario \<Rightarrow> FabricOp list" where
  "seed_steps scenario =
     map Op_RegisterFunction (sc_functions scenario) @
     [Op_IngestPolicy (sc_policy scenario), Op_IngestTopology (sc_topology scenario),
      Op_IngestCapabilities (sc_capabilities scenario), Op_IngestObservations (sc_observations scenario),
      Op_GrantAuthority (sc_authority scenario)]"

definition seed_fabric :: "Scenario \<Rightarrow> Impl \<Rightarrow> Impl" where
  "seed_fabric scenario i = fold perform (seed_steps scenario) i"

definition nofd_server_config :: "Options \<Rightarrow> ServerConfig" where
  "nofd_server_config options = \<lparr>sc_bind_address = option_get ''--bind'' ''127.0.0.1'' options,
     sc_port = of_nat (option_number ''--port'' 0 options),
     sc_max_connections = option_number ''--max-connections'' 8 options,
     sc_max_workers = option_number ''--workers'' 2 options,
     sc_max_queue_depth = option_number ''--queue'' 16 options\<rparr>"

text \<open>
  Everything \<open>main\<close> does before it waits: the exit code of a run that ends early, or the server that
  listens.
\<close>

definition nofd_start :: "StartEnv \<Rightarrow> Status \<Rightarrow> OsNet \<Rightarrow> Impl \<Rightarrow> string list \<Rightarrow> nat + Server" where
  "nofd_start env net os i0 args =
     (let options = snd (arguments args) in
      if option_has ''--help'' options then Inl 0
      else if option_get ''--store'' [] options = [] then Inl 1
      else case parse_recovery_policy (option_get ''--recovery'' ''refuse'' options) of
        None \<Rightarrow> Inl 1
      | Some policy \<Rightarrow>
          (case start (tool_config (option_get ''--store'' [] options) policy []) env i0 of
             (i, Inl e) \<Rightarrow> Inl 2
           | (i, Inr _) \<Rightarrow>
               let seeded = (if option_has ''--seed'' options
                             then seed_fabric (make_scenario (im_now i) default_options) i else i) in
               (case server_start net os (new_server (nofd_server_config options) seeded) of
                  (s, Inl e) \<Rightarrow> Inl 2
                | (s, Inr _) \<Rightarrow> Inr s)))"

text \<open>What it does once a stop is requested.\<close>

definition nofd_stop :: "Server \<Rightarrow> Server \<times> nat" where
  "nofd_stop s =
     (let s1 = server_stop s
      in case shutdown (sv_fabric s1) of
           (i, st) \<Rightarrow> (s1\<lparr>sv_fabric := i\<rparr>, if ok st then 0 else 2))"

subsection \<open>Runs of the command line\<close>

record ToolRun =
  tr_code :: nat
  tr_printed :: string
  tr_written :: "(string \<times> string) option"

definition tool_exit :: "nat \<Rightarrow> ToolRun" where
  "tool_exit c = \<lparr>tr_code = c, tr_printed = [], tr_written = None\<rparr>"

definition tool_fail :: "ToolRun" where "tool_fail = tool_exit 2"

definition ends_line :: "string \<Rightarrow> string" where
  "ends_line text = (if text = [] \<or> last text \<noteq> CHR 0x0A then text @ [CHR 0x0A] else text)"

text \<open>\<open>creatable\<close> says whether the output file can be opened.\<close>

definition write_output :: "bool \<Rightarrow> Options \<Rightarrow> string \<Rightarrow> ToolRun \<Rightarrow> ToolRun" where
  "write_output creatable options text run =
     (let out = option_get ''--out'' [] options in
      if out = [] then run\<lparr>tr_printed := tr_printed run @ ends_line text\<rparr>
      else if \<not> creatable then run\<lparr>tr_code := 2\<rparr>
      else run\<lparr>tr_written := Some (out, text)\<rparr>)"

definition pinned_clock :: "Options \<Rightarrow> Micros option" where
  "pinned_clock options =
     (let v = option_get ''--clock-at'' [] options in if v = [] then None else stoll v)"

definition pinned_boot :: BootId where "pinned_boot = replicate 32 (CHR ''d'')"

text \<open>\<open>None\<close> is an unknown recovery policy, on which the program exits with 1.\<close>

definition open_fabric :: "Options \<Rightarrow> Micros \<Rightarrow> (nat \<Rightarrow> JournalIo) \<Rightarrow> (FabricConfig \<times> Impl) option" where
  "open_fabric options now io =
     (case parse_recovery_policy (option_get ''--recovery'' ''refuse'' options) of
        None \<Rightarrow> None
      | Some policy \<Rightarrow>
          Some (tool_config (option_get ''--store'' [] options) policy
                  (if pinned_clock options = None then [] else pinned_boot),
                new_fabric default_bounds (case pinned_clock options of None \<Rightarrow> now | Some t \<Rightarrow> t) io))"

subsection \<open>The synthetic workload\<close>

definition workload_options :: "nat \<Rightarrow> Options \<Rightarrow> ScenarioOptions result" where
  "workload_options hosts options =
     (let base = default_options\<lparr>so_hosts := hosts,
            so_sequence_base := of_nat (option_number ''--sequence-base'' 1 options),
            so_policy_generation := of_nat (option_number ''--policy-generation'' 1 options),
            so_topology_generation := of_nat (option_number ''--topology-generation'' 1 options),
            so_capability_generation := of_nat (option_number ''--capability-generation'' 1 options)\<rparr> in
      if option_has ''--clock-at'' options
      then (case stoll (option_get ''--clock-at'' [] options) of
              None \<Rightarrow> Err RC_InvalidConfiguration ''clock value is not an integer''
            | Some at \<Rightarrow> Inr (base\<lparr>so_observed_at := at, so_valid_until := at + 1000000\<rparr>))
      else Inr base)"

definition run_tag :: "ScenarioOptions \<Rightarrow> string" where
  "run_tag options = decimal (unat (so_sequence_base options))"

definition workload_request :: "Scenario \<Rightarrow> ScenarioOptions \<Rightarrow> nat \<Rightarrow> PlacementRequest" where
  "workload_request scenario options index =
     (let request = make_request scenario options
            (''req-'' @ run_tag options @ ''-'' @ decimal (index + 1)) False
      in request\<lparr>rq_scope := (rq_scope request)\<lparr>ss_selector :=
           ''dir=ingress,proto=tcp,dst=10.0.0.'' @ decimal (index + 1) @ '':443''\<rparr>\<rparr>)"

definition workload_effect :: "ScenarioOptions \<Rightarrow> nat \<Rightarrow> AssignmentRecord \<Rightarrow> EffectReport" where
  "workload_effect options index record = no_effect_report\<lparr>
     er_request_id := ''eff-'' @ run_tag options @ ''-'' @ decimal (index + 1),
     er_assignment := ar_id record, er_attempt := ar_attempt record, er_generation := ar_generation record,
     er_fence := ar_fence record, er_incarnation := ar_incarnation record,
     er_capability_generation := gb_capability (ar_binding record), er_outcome := EO_Applied,
     er_observed_at := so_observed_at options,
     er_provenance := \<lparr>pv_source = ''syn-enforcement'', pv_sequence = of_nat (index + 1)\<rparr>\<rparr>"

definition workload_step :: "Scenario \<Rightarrow> ScenarioOptions \<Rightarrow> nat \<Rightarrow> unit action" where
  "workload_step scenario options index =
     (let request = workload_request scenario options index in
      act_bind (fabric_apply request \<lparr>ao_request_id = rq_request_id request, ao_cancel = None,
          ao_allow_replacement = False\<rparr>) (\<lambda>record.
      act_bind (report_effect (workload_effect options index record)) (\<lambda>_. act_return ())))"

fun act_each :: "('a \<Rightarrow> unit action) \<Rightarrow> 'a list \<Rightarrow> unit action" where
  "act_each f [] = act_return ()"
| "act_each f (x # xs) = act_bind (f x) (\<lambda>_. act_each f xs)"

definition run_synthetic_workload ::
    "FabricConfig \<Rightarrow> StartEnv \<Rightarrow> nat \<Rightarrow> nat \<Rightarrow> Micros \<Rightarrow> Options \<Rightarrow> unit action" where
  "run_synthetic_workload config env hosts applies now options =
     act_bind (act_lift (workload_options hosts options)) (\<lambda>scenario_options.
     let scenario = make_scenario now scenario_options in
     act_bind (start config env) (\<lambda>_.
     act_bind (act_each register_function (sc_functions scenario)) (\<lambda>_.
     act_bind (ingest_policy (sc_policy scenario)) (\<lambda>_.
     act_bind (ingest_topology (sc_topology scenario)) (\<lambda>_.
     act_bind (ingest_capabilities (sc_capabilities scenario)) (\<lambda>_.
     act_bind (ingest_observations (sc_observations scenario)) (\<lambda>_.
     act_bind (grant_authority (sc_authority scenario)) (\<lambda>_.
     act_each (workload_step scenario scenario_options) [0..<applies]))))))))"

subsection \<open>Commands on a store\<close>

text \<open>A command first opens the store; a failure ends it with code 2 before anything is printed.\<close>

definition on_store ::
    "Options \<Rightarrow> StartEnv \<Rightarrow> Micros \<Rightarrow> (nat \<Rightarrow> JournalIo) \<Rightarrow> (Impl \<Rightarrow> ToolRun) \<Rightarrow> ToolRun" where
  "on_store options env now io command =
     (case open_fabric options now io of
        None \<Rightarrow> tool_exit 1
      | Some (config, i0) \<Rightarrow>
          (case start config env i0 of
             (i, Inl e) \<Rightarrow> tool_fail
           | (i, Inr _) \<Rightarrow> command i))"

definition command_inspect :: "bool \<Rightarrow> Options \<Rightarrow> Impl \<Rightarrow> ToolRun" where
  "command_inspect creatable options i =
     (case parse_export_format (option_get ''--format'' ''text'' options) of
        None \<Rightarrow> tool_fail
      | Some format \<Rightarrow>
          (case export_canonical format i of
             (_, Inl e) \<Rightarrow> tool_fail
           | (document, Inr _) \<Rightarrow>
               let invariants = verify_invariants i
               in write_output creatable options
                    (render_recovery (im_recovery i) @ render_invariants invariants @ document)
                    (tool_exit (if ir_clean invariants then 0 else 3))))"

definition command_export :: "bool \<Rightarrow> Options \<Rightarrow> Impl \<Rightarrow> ToolRun" where
  "command_export creatable options i =
     (case parse_export_format (option_get ''--format'' ''json'' options) of
        None \<Rightarrow> tool_fail
      | Some format \<Rightarrow>
          (case export_canonical format i of
             (_, Inl e) \<Rightarrow> tool_fail
           | (document, Inr _) \<Rightarrow> write_output creatable options document (tool_exit 0)))"

definition command_digest :: "Impl \<Rightarrow> ToolRun" where
  "command_digest i = (tool_exit 0)\<lparr>tr_printed := unlines [digest_hex (state_digest i)]\<rparr>"

definition command_verify :: "Options \<Rightarrow> StoreOpenOptions \<Rightarrow> bool \<Rightarrow> u8 list option \<Rightarrow> u8 list option \<Rightarrow> ToolRun" where
  "command_verify options defaults opened file snapshot_file =
     (if option_get ''--store'' [] options = [] then tool_fail
      else case verify_store defaults opened file snapshot_file of
        (report, Inl e) \<Rightarrow> (tool_exit 3)\<lparr>tr_printed := render_recovery report\<rparr>
      | (report, Inr (records, store_id)) \<Rightarrow>
          (tool_exit 0)\<lparr>tr_printed := render_recovery report @
             unlines [''records_scanned='' @ u64_text records, ''store_id='' @ store_id]\<rparr>)"

definition command_scenario ::
    "bool \<Rightarrow> Options \<Rightarrow> StartEnv \<Rightarrow> Micros \<Rightarrow> (nat \<Rightarrow> JournalIo) \<Rightarrow> ToolRun" where
  "command_scenario creatable options env now io =
     (case open_fabric options now io of
        None \<Rightarrow> tool_exit 1
      | Some (config, i0) \<Rightarrow>
          (case run_synthetic_workload config env (option_number ''--hosts'' 2 options)
                  (option_number ''--applies'' 2 options) now options i0 of
             (i, Inl e) \<Rightarrow> tool_fail
           | (i, Inr _) \<Rightarrow>
               (case export_canonical XF_CanonicalText i of
                  (_, Inl e) \<Rightarrow> tool_fail
                | (document, Inr _) \<Rightarrow>
                    let invariants = verify_invariants i
                    in write_output creatable options document
                         ((tool_exit (if ir_clean invariants then 0 else 3))
                            \<lparr>tr_printed := unlines [''state_digest='' @ digest_hex (state_digest i)] @
                               render_invariants invariants\<rparr>))))"

subsection \<open>Commands on an endpoint\<close>

definition parse_endpoint :: "string \<Rightarrow> (string \<times> u16) option" where
  "parse_endpoint endpoint =
     (let host = takeWhile (\<lambda>c. c \<noteq> CHR '':'') endpoint;
          tail = dropWhile (\<lambda>c. c \<noteq> CHR '':'') endpoint
      in if tail = [] then None
         else case stoull (tl tail) of
           None \<Rightarrow> None
         | Some parsed \<Rightarrow> if parsed = 0 \<or> parsed > 65535 then None else Some (host, ucast parsed))"

definition connect_client :: "Status \<Rightarrow> OsNet \<Rightarrow> Options \<Rightarrow> Client option" where
  "connect_client net os options =
     (case parse_endpoint (option_get ''--endpoint'' [] options) of
        None \<Rightarrow> None
      | Some (host, port) \<Rightarrow>
          (case and_then net (\<lambda>_. connect_tcp os host port) of
             Inl e \<Rightarrow> None
           | Inr socket \<Rightarrow> Some (client_connect default_bounds)))"

definition token_payload :: "string \<Rightarrow> u8 list result" where
  "token_payload t = encode_fresh (max_request_bytes default_bounds) (bw_token t)"

text \<open>Every request of \<open>nofctl\<close> carries the identifier 1.  \<open>Inl\<close> is the exit code of a refusal.\<close>

definition query_frame :: "Opcode \<Rightarrow> u8 list \<Rightarrow> Frame" where
  "query_frame c payload =
     \<lparr>fm_opcode = Opcode_value c, fm_flags = 0, fm_request_id = 1, fm_payload = payload\<rparr>"

definition endpoint_request :: "string \<Rightarrow> Options \<Rightarrow> nat + Frame" where
  "endpoint_request command options =
     (let with_id = (\<lambda>c. case token_payload (option_get ''--id'' [] options) of
            Inl e \<Rightarrow> Inl 1 | Inr payload \<Rightarrow> Inr (query_frame c payload))
      in if command = ''stats'' then Inr (query_frame OP_Stats [])
         else if command = ''invariants'' then Inr (query_frame OP_VerifyInvariants [])
         else if command = ''recovery'' then Inr (query_frame OP_RecoveryReport [])
         else if command = ''assignment'' then with_id OP_GetAssignment
         else if command = ''explain'' then with_id OP_ExplainAssignment
         else Inl 1)"

definition print_response :: "string \<Rightarrow> Frame \<Rightarrow> ToolRun" where
  "print_response command response =
     (let reader = bin_reader (fm_payload response) (max_text_bytes default_bounds) in
      if command = ''assignment''
      then (case decode_assignment default_bounds reader of
              Inl e \<Rightarrow> tool_fail
            | Inr (record, _) \<Rightarrow> (tool_exit 0)\<lparr>tr_printed := render_assignment record\<rparr>)
      else (case br_text reader of
              Inl e \<Rightarrow> tool_fail
            | Inr (text, _) \<Rightarrow>
                (tool_exit 0)\<lparr>tr_printed := (if text = [] then [] else ends_line text)\<rparr>))"

text \<open>\<open>sent\<close> and \<open>incoming\<close> are what the socket does with the request and delivers back.\<close>

definition run_endpoint_command ::
    "Status \<Rightarrow> OsNet \<Rightarrow> Status \<Rightarrow> (Error + u8 list) list \<Rightarrow> Options \<Rightarrow> string \<Rightarrow> ToolRun" where
  "run_endpoint_command net os sent incoming options command =
     (case connect_client net os options of
        None \<Rightarrow> tool_fail
      | Some client \<Rightarrow>
          (case endpoint_request command options of
             Inl c \<Rightarrow> tool_exit c
           | Inr request \<Rightarrow>
               (case client_call sent incoming request client of
                  (_, Inl e) \<Rightarrow> tool_fail
                | (_, Inr response) \<Rightarrow> print_response command response)))"

text \<open>
  The dispatch of \<open>main\<close>.  \<open>None\<close> is the command \<open>crash\<close>, which runs the workload under a crash hook.
  \<open>opened\<close>, \<open>file\<close> and \<open>snapshot_file\<close> are the store that \<open>verify\<close> opens without starting a runtime.
\<close>

record ToolWorld =
  tw_env :: StartEnv
  tw_now :: Micros
  tw_io :: "nat \<Rightarrow> JournalIo"
  tw_creatable :: bool
  tw_net :: Status
  tw_os :: OsNet
  tw_sent :: Status
  tw_incoming :: "(Error + u8 list) list"
  tw_store_options :: StoreOpenOptions

definition nofctl :: "ToolWorld \<Rightarrow> string list \<Rightarrow> ToolRun option" where
  "nofctl w args =
     (case arguments args of (command, options) \<Rightarrow>
        if command = [] \<or> command = ''help'' \<or> option_has ''--help'' options
        then Some (tool_exit (if command = [] then 1 else 0))
        else if command = ''version''
        then Some ((tool_exit 0)\<lparr>tr_printed := unlines [''nofctl '' @ version_string]\<rparr>)
        else if command = ''inspect''
        then Some (on_store options (tw_env w) (tw_now w) (tw_io w) (command_inspect (tw_creatable w) options))
        else if command = ''export''
        then Some (on_store options (tw_env w) (tw_now w) (tw_io w) (command_export (tw_creatable w) options))
        else if command = ''digest''
        then Some (on_store options (tw_env w) (tw_now w) (tw_io w) command_digest)
        else if command = ''verify''
        then Some (command_verify options (tw_store_options w) (se_opened (tw_env w)) (se_file (tw_env w))
               (se_snapshot_file (tw_env w)))
        else if command = ''scenario''
        then Some (command_scenario (tw_creatable w) options (tw_env w) (tw_now w) (tw_io w))
        else if command = ''crash'' then None
        else if command \<in> {''stats'', ''invariants'', ''recovery'', ''assignment'', ''explain''}
        then Some (run_endpoint_command (tw_net w) (tw_os w) (tw_sent w) (tw_incoming w) options command)
        else Some (tool_exit 1))"

subsection \<open>The service starts with its invariants\<close>

lemma seed_reachable:
  "reachable careful i \<Longrightarrow> reachable careful (seed_fabric scenario i)"
proof -
  have "reachable careful (fold perform ops i)" if "\<forall>op\<in>set ops. \<forall>i. careful op i" "reachable careful i" for ops i
    using that by (induction ops arbitrary: i) (auto intro: reachable.step)
  moreover have "\<forall>op\<in>set (seed_steps scenario). \<forall>i. careful op i" by (auto simp: seed_steps_def)
  ultimately show "reachable careful i \<Longrightarrow> reachable careful (seed_fabric scenario i)" by (simp add: seed_fabric_def)
qed

lemma server_start_fields:
  "server_start net os s = (s', r) \<Longrightarrow> sv_fabric s' = sv_fabric s \<and> sv_bounds s' = sv_bounds s \<and>
     sv_cache s' = sv_cache s \<and> sv_cache_order s' = sv_cache_order s"
  by (auto simp: server_start_def counted_in_def split: if_splits sum.splits prod.splits)

text \<open>C25: whatever the command line and the store, a service that comes up serves a fabric that came out of a
  successful start and the ingestion of the fixtures, so the invariants of the service hold from its first
  request on.  (A store in which an assignment has the empty identifier is outside: no operation writes one.)
\<close>

theorem nofd_starts_served:
  assumes "nofd_start env net os i0 args = Inr s" and "im_state i0 = empty_state"
    and "parse_recovery_policy (option_get ''--recovery'' ''refuse'' (snd (arguments args))) = Some policy"
    and "start (tool_config (option_get ''--store'' [] (snd (arguments args))) policy []) env i0 = (i, Inr ())"
    and "map_of (fs_assignments (im_state i)) [] = None"
  shows "served s \<and> sv_running s \<and> sv_listener s \<noteq> None"
proof -
  let ?options = "snd (arguments args)"
  have store: "option_get ''--store'' [] ?options \<noteq> []"
    and s: "\<exists>seeded. (seeded = i \<or> (\<exists>scenario. seeded = seed_fabric scenario i)) \<and>
      server_start net os (new_server (nofd_server_config ?options) seeded) = (s, Inr ())"
    using assms(1,3,4) by (auto simp: nofd_start_def Let_def split: if_splits prod.splits sum.splits)
  have "reachable careful i"
    using reachable.started [OF assms(4,2)] assms(5) store by (auto simp: tool_config_def)
  then obtain seeded where seeded: "reachable careful seeded"
    and up: "server_start net os (new_server (nofd_server_config ?options) seeded) = (s, Inr ())"
    using s seed_reachable by auto
  have "served s"
    using server_start_fields [OF up] served.connection [OF served.created [OF seeded]] by simp
  moreover have "sv_running s \<and> sv_listener s \<noteq> None"
    using up by (auto simp: server_start_def counted_in_def listen_tcp_def and_then_Inr split: if_splits sum.splits prod.splits option.splits)
  ultimately show ?thesis by simp
qed

definition quiet_net :: OsNet where
  "quiet_net = \<lparr>os_send = (\<lambda>_ n. int n), os_recv = (\<lambda>_. 0), os_close = 0, os_shutdown = (0, False),
     os_setsockopt = 0, os_socket = Some 3, os_bind = 0, os_listen = 0, os_getsockname = (0, 7000),
     os_accept = None, os_connect = 0, os_sendto = 0, os_select = (0, False, False),
     os_parse_ipv4 = (\<lambda>_. Some 0)\<rparr>"

lemma store_arguments:
  "snd (arguments [''--store'', ''store'']) = \<lparr>op_flags = [(''--store'', ''store'')], op_positional = []\<rparr>"
  by (simp add: arguments_def is_flag_def)

lemma recovery_default: "parse_recovery_policy ''refuse'' = Some RP_Refuse"
  using recovery_policy_parses [of RP_Refuse] by simp

lemma store_only_starts:
  assumes "start (tool_config ''store'' RP_Refuse []) env i0 = (i, Inr ())" and "sv_bounds (new_server c i) = default_bounds"
  shows "\<exists>s. nofd_start env ok_status quiet_net i0 [''--store'', ''store''] = Inr s"
  using assms
  by (simp add: nofd_start_def store_arguments recovery_default option_has_def option_get_def om_contains_def
      server_start_def new_server_def nofd_server_config_def option_number_def listen_tcp_def
      make_wakeup_socket_def set_reuse_address_def quiet_net_def default_bounds_def and_then_Inr Let_def)

theorem nofd_starts_served_witness:
  "\<exists>s. nofd_start example_env ok_status quiet_net example_runtime [''--store'', ''store''] = Inr s \<and> served s"
proof -
  obtain i where i: "start (tool_config ''store'' RP_Refuse []) example_env example_runtime = (i, Inr ())"
    "fs_assignments (im_state i) = []" "im_bounds i = default_bounds"
    using example_start by (auto simp: tool_config_def example_config_def)
  then obtain s where s: "nofd_start example_env ok_status quiet_net example_runtime [''--store'', ''store''] = Inr s"
    using store_only_starts [OF i(1)] by (auto simp: new_server_def)
  have "served s"
    using nofd_starts_served [OF s, of RP_Refuse i] i
    by (simp add: store_arguments recovery_default option_get_def example_runtime_def)
  with s show ?thesis by blast
qed

subsection \<open>Asking for an assignment\<close>

lemma no_assignment_ok: "64 \<le> mt \<Longrightarrow> assignment_ok mt default_bounds no_assignment"
  by (simp add: assignment_ok_def no_assignment_def no_scope_def no_incarnation_def no_provenance_def
      no_freshness_def scope_spec_ok_def incarnation_ok_def provenance_ok_def freshness_ok_def
      token_ok_def is_i64_def i64_min_def i64_max_def digest_zero_def reason_ok_def reason_to_string_def
      NOF_REASON_CODES_def)

lemma token_payload_decodes:
  assumes "token_payload a = Inr payload" and "token_ok a"
  shows "decode_exact default_bounds br_token payload = Inr a"
proof -
  have codec: "codec 4096 w_token br_token token_ok" by (rule token_codec) simp
  obtain w where w: "bw_token a (bin_writer (max_request_bytes default_bounds)) = (w, ok_status)" "bw_buffer w = payload"
    using assms(1) by (auto simp: token_payload_def encode_fresh_def split: prod.splits sum.splits)
  then have "encode_with (w_token a) (bin_writer (max_request_bytes default_bounds)) = (w, ok_status)"
    by (simp add: encode_with_def w_token_def w_note_def w_open_def)
  from codec.fresh_round_trip [OF codec assms(2) this] w(2) obtain r where
    "br_token (bin_reader payload 4096) = Inr (a, r)" "at_end r" by metis
  then show ?thesis by (simp add: decode_exact_def default_bounds_def)
qed

text \<open>C26: \<open>nofctl assignment --id a\<close> prints the record the server holds under \<open>a\<close>, every field of it, and the
  request leaves the server as it was: the record fits the wire format and the answer a frame may carry, and
  no remembered answer goes by the identifier 1 that \<open>nofctl\<close> gives all its requests.
\<close>

theorem assignment_query_prints:
  assumes "sv_bounds s = default_bounds" and "map_of (fs_assignments (im_state (sv_fabric s))) a = Some r"
    and "token_ok a" and "assignment_ok 4096 default_bounds r"
    and "encode_assignment r (bin_writer (max_request_bytes default_bounds)) = (w, ok_status)"
    and "option_get ''--id'' [] options = a" and "endpoint_request ''assignment'' options = Inr f"
    and "cached_answer f s = None"
  shows "\<exists>response. handle_request cancel f s = (s, Inr response) \<and>
    print_response ''assignment'' response = (tool_exit 0)\<lparr>tr_printed := render_assignment r\<rparr>"
proof -
  obtain payload where payload: "token_payload a = Inr payload" and f: "f = query_frame OP_GetAssignment payload"
    using assms(6,7) by (auto simp: endpoint_request_def split: sum.splits)
  have op: "parse_opcode (fm_opcode f) = Some OP_GetAssignment"
    by (simp only: f query_frame_def Frame.select_convs parse_opcode_value)
  have "serve_get_assignment default_bounds payload (sv_fabric s) = (sv_fabric s, Inr (bw_buffer w))"
    using token_payload_decodes [OF payload assms(3)] assms(2,5)
    by (simp add: serve_get_assignment_def serve_record_def take_payload_def act_bind_def act_lift_def
        get_assignment_def answer_with_def encode_fresh_def)
  then have "handle_request cancel f s = (s, Inr (response_to f 0 (bw_buffer w)))"
    using assms(1,8) op
    by (simp add: handle_request_def execute_request_def f query_frame_def cacheable_def)
  moreover have "\<exists>rest. decode_assignment default_bounds (bin_reader (bw_buffer w) 4096) = Inr (r, rest)"
    using assignment_codec.fresh_round_trip [of 4096 default_bounds r "max_request_bytes default_bounds" w] assms(4,5)
    unfolding encode_assignment_def decode_assignment_def by auto
  moreover have "max_text_bytes default_bounds = 4096" by (simp add: default_bounds_def)
  ultimately show ?thesis by (auto simp: print_response_def response_to_def)
qed

definition query_server :: Server where
  "query_server = new_server site_config
     (memory_runtime\<lparr>im_state := (im_state memory_runtime)\<lparr>fs_assignments := [(''a-1'', no_assignment)]\<rparr>\<rparr>)"

definition query_options :: Options where
  "query_options = snd (arguments [''assignment'', ''--endpoint'', ''localhost:7000'', ''--id'', ''a-1''])"

lemma query_id: "option_get ''--id'' [] query_options = ''a-1''"
  by (simp add: query_options_def arguments_def is_flag_def option_get_def)

lemma no_assignment_encodes:
  "snd (encode_assignment no_assignment (bin_writer (max_request_bytes default_bounds))) = ok_status"
  by (simp add: encode_assignment_def encode_with_def enc_assignment_def no_assignment_def Let_def
      w_seq_def w_open_def bin_writer_def w_list_def enc_provenance_def enc_freshness_def
      enc_fence_def enc_binding_def enc_demand_def enc_incarnation_def enc_scope_spec_def digest_zero_def
      no_scope_def no_incarnation_def zero_demand_def no_binding_def no_fence_def no_provenance_def
      no_freshness_def emit_eqs default_bounds_def)

lemma query_request: "\<exists>f. endpoint_request ''assignment'' query_options = Inr f"
proof -
  have "\<exists>payload. token_payload ''a-1'' = Inr payload"
    by (simp add: token_payload_def encode_fresh_def bw_token_def bw_text_def bw_bytes_def bw_u32_def bw_append_def would_fit_def
        checked_add_size_def default_bounds_def bin_writer_def)
  then show ?thesis by (auto simp: endpoint_request_def query_id)
qed

theorem assignment_query_prints_witness:
  "\<exists>f response. endpoint_request ''assignment'' query_options = Inr f \<and>
     handle_request (\<lambda>_. False) f query_server = (query_server, Inr response) \<and>
     print_response ''assignment'' response = (tool_exit 0)\<lparr>tr_printed := render_assignment no_assignment\<rparr>"
proof -
  obtain f where f: "endpoint_request ''assignment'' query_options = Inr f" using query_request by blast
  have e: "encode_assignment no_assignment (bin_writer (max_request_bytes default_bounds)) =
      (fst (encode_assignment no_assignment (bin_writer (max_request_bytes default_bounds))), ok_status)"
    using no_assignment_encodes by (simp add: prod_eq_iff)
  have s: "sv_bounds query_server = default_bounds" "cached_answer f query_server = None"
    "map_of (fs_assignments (im_state (sv_fabric query_server))) ''a-1'' = Some no_assignment"
    by (simp_all add: query_server_def new_server_def memory_fields cached_answer_def)
  have "token_ok ''a-1''"
    by (simp add: token_ok_def is_valid_token_def is_head_def is_tail_def char_in_def kMaxTokenLength_def)
  from assignment_query_prints [OF s(1,3) this no_assignment_ok e query_id f s(2)] f show ?thesis by auto
qed

text \<open>
  The identifier 1 is not reserved: once the server remembers an answer under it, every query of \<open>nofctl\<close>
  whose payload or opcode differs is refused as a duplicate.
\<close>

lemma query_refused_after_reuse:
  assumes "endpoint_request command options = Inr f" and "map_of (sv_cache s) 1 = Some entry"
    and "cp_request_digest entry \<noteq> request_digest f"
  shows "handle_request cancel f s =
    (s, Err RC_DuplicateDelivery ''request identifier was reused with a different payload'')"
proof -
  have "fm_request_id f = 1"
    using assms(1) by (auto simp: endpoint_request_def query_frame_def Let_def split: if_splits sum.splits)
  with assms(2,3) show ?thesis by (simp add: handle_request_def cached_answer_def)
qed

end
