(* ===== verification/Spec2Isabelle.thy ===== *)
theory Spec2Isabelle
  imports Nof_Findings Nof_Tools
begin

text \<open>
  A verification development for the Network Offload Fabric, a C++ library that decides which device may run
  an offloaded network function, together with its service \<open>nofd\<close> and its command line \<open>nofctl\<close>.

  \<^bold>\<open>The program.\<close>  A \<open>Fabric\<close> (\<open>src/fabric.cpp\<close>) keeps evidence (topology, capabilities, policy, observations,
  authority grants), assignments of functions to devices, and indexes over them.  It plans (ranks the devices
  that pass every gate), authorizes (issues an identifier and a fencing token, takes the exclusive claim of the
  scope), follows the effect reports of the enforcement plane, and revalidates when evidence changes.  Every
  change is first appended to a journal (\<open>src/journal.cpp\<close>); a start restores the snapshot, replays the
  journal and suspends everything that held authority.  A server (\<open>src/service.cpp\<close>) offers the operations over
  framed TCP connections and remembers its answers by request identifier.

  \<^bold>\<open>The theories\<close>, in the order of their imports, with the code they translate:
  \<^item> \<open>Nof_Prelude\<close>: machine integers, \<open>std::map\<close> as a key-ordered association list (locale \<open>std_map\<close>).
  \<^item> \<open>Nof_Error\<close>, \<open>Nof_Checked\<close>, \<open>Nof_Ids\<close>, \<open>Nof_Digest\<close>, \<open>Nof_Enums\<close>, \<open>Nof_Function\<close>: \<open>error\<close>, \<open>checked.hpp\<close> and
    \<open>units.hpp\<close>, \<open>ids\<close> and \<open>time.hpp\<close>, \<open>digest.cpp\<close> (SHA-256, CRC-32C), the enumerations with their tokens (locale
    \<open>token_enum\<close>), \<open>function.cpp\<close> and \<open>scope.cpp\<close>.
  \<^item> \<open>Nof_Evidence\<close>: \<open>bounds\<close>, \<open>topology\<close>, \<open>capability\<close>, \<open>policy\<close>, \<open>observation\<close>, \<open>authority\<close>, with their validators.
  \<^item> \<open>Nof_Canonical\<close>, \<open>Nof_Json\<close>: the binary writer and reader and the JSON writer and reader of \<open>canonical.cpp\<close>.
  \<^item> \<open>Nof_Assignment\<close>, \<open>Nof_Wire\<close>: the records of \<open>assignment.hpp\<close>, \<open>explanation.hpp\<close>, \<open>fabric.hpp\<close>, and the codecs
    of \<open>wire.cpp\<close> (locale \<open>codec\<close>, one interpretation per message).
  \<^item> \<open>Nof_Journal\<close>, \<open>Nof_Inspect\<close>: the store, its recovery, compaction, \<open>read_header\<close>, and \<open>nofctl verify\<close>.
  \<^item> \<open>Nof_State\<close>, \<open>Nof_Snapshot\<close>: \<open>fabric_state.hpp\<close>, \<open>encode_state\<close>, \<open>decode_state\<close>, \<open>rebuild_indexes\<close>.
  \<^item> \<open>Nof_Placement\<close>, \<open>Nof_Planning\<close>: the gates on a device, ranking (locale \<open>preference\<close>), \<open>plan_locked\<close>.
  \<^item> \<open>Nof_Runtime\<close>, \<open>Nof_Lifecycle\<close>, \<open>Nof_Operations\<close>: \<open>Fabric::Impl\<close> as the record \<open>Impl\<close>, its internal helpers, and
    every public operation of \<open>Fabric\<close>.
  \<^item> \<open>Nof_Export\<close>, \<open>Nof_Text\<close>, \<open>Nof_Audit\<close>: \<open>export.cpp\<close> and \<open>explanation.cpp\<close>: the JSON, text and binary exports, the
    renderings, and the audit \<open>collect_invariants\<close>.
  \<^item> \<open>Nof_Logic\<close>, \<open>Nof_Claims\<close>, \<open>Nof_Invariants\<close>, \<open>Nof_Safety\<close>, \<open>Nof_Fabric\<close>, \<open>Nof_Restart\<close>, \<open>Nof_Guarantees\<close>,
    \<open>Nof_Scenario\<close>: a program logic for the operations, the invariants (locale \<open>fabric_invariant\<close>), the fabric as
    a state machine (\<open>FabricOp\<close>, \<open>perform\<close>, \<open>reachable\<close>, \<open>lifetime\<close>), what a start from a store restores (locale
    \<open>replay_invariant\<close>), and a worked deployment.
  \<^item> \<open>Nof_Behaviour\<close>, \<open>Nof_Revalidation\<close>, \<open>Nof_Requests\<close>, \<open>Nof_Findings\<close>: the behaviour of single operations, and
    where the code does less than its documentation says.
  \<^item> \<open>Nof_Frames\<close>, \<open>Nof_Net\<close>, \<open>Nof_Service\<close>, \<open>Nof_Composition\<close>: the frame format and the streaming decoder, the
    socket layer of \<open>detail/net.cpp\<close>, the server and the client, and the server over the fabric (\<open>served\<close>).
  \<^item> \<open>Nof_Synthetic\<close>, \<open>Nof_Tools\<close>: the fixtures of \<open>synthetic.cpp\<close>, and the programs \<open>nofd\<close> and \<open>nofctl\<close>.

  \<^bold>\<open>Conventions.\<close>  A struct is a record whose fields carry a two-letter prefix, an enumeration a datatype, a
  \<open>w\<close>-bit integer a \<open>w word\<close>, \<open>size_t\<close> a natural number, a time in microseconds an integer.  \<open>Result<T>\<close> is the sum
  \<open>Error + 'a\<close>.  A member function of \<open>Fabric\<close> is an \<open>action\<close>: it takes the runtime and returns the new runtime with
  the result, so what was changed before an error stays changed.  An out-parameter starts empty.

  \<^bold>\<open>What the lemmas show.\<close>  Above all that no two exclusive assignments of overlapping scope hold authority in
  any reachable runtime, also behind the service; that a restart leaves no authority and no current evidence;
  that within a lifetime (from a start that found no assignment, \<open>lifetime\<close>) the tokens of a placement are fresh and
  terminal assignments stay terminal; that storing is atomic and appends are durable; that every codec,
  the snapshot and the JSON export read back what was written; that frames survive any chunking and any changed
  byte is noticed; that planning picks the best admissible device; that requests are handled once and answered, and
  repeated ones from memory; and that the tools print what the server holds.  Where \<open>reauthorize\<close> or an effect report on a
  degraded assignment could hand authority back without a conflict check, mutual exclusion is stated for runs
  that avoid it (\<open>careful\<close>); \<open>Nof_Findings\<close> shows that the restriction is needed, and why a restart on a store that
  holds assignments ends a lifetime.

  \<^bold>\<open>Recursion and bounds.\<close>  There is no fuel.  Loops are structural, or recursive functions with a measure: the
  unread bytes for the readers and scanners, the unsent bytes for \<open>send\<close>, the pending reads for a connection.
  The configured bounds are the record \<open>Bounds\<close>; witnesses use \<open>default_bounds\<close>, the defaults of \<open>bounds.hpp\<close>.

  \<^bold>\<open>The environment.\<close>  The clock is a field of the runtime (\<open>im_now\<close>), which any step may move.  The outcome of
  the \<open>k\<close>-th journal operation is \<open>im_io k\<close>: a write may stop after any byte, a flush may fail.  What a start
  finds on disk and the random identifiers are \<open>StartEnv\<close>; the network is \<open>OsNet\<close> and the list of what the reads of
  a connection return.  A cancel token is the function that says at which poll it is set.  Floating-point
  numbers do not occur.

  \<^bold>\<open>Not modelled.\<close>  Threads and locks: operations and requests run one after another, which is what the mutex of
  \<open>Impl\<close> gives for one operation; the two separate holds of the cache lock in \<open>handle_request\<close> are not interleaved.
  The calls of the operating system, path handling and the Windows branches.  Crash hooks, and with them the
  \<open>crash\<close> command; what a crash leaves behind is covered by writes that stop early.  The content of the usage
  texts and of the standard error.  The setting \<open>durable_commit\<close>: whether a flush happened is an outcome.  The
  benchmark, the tests and the build scripts.
\<close>

section \<open>Wire format\<close>

text \<open>C21: an assignment record whose fields fit the wire format (canonical tokens, bounded
  histories, known reason codes) is decoded from its own encoding exactly, and the decoder stops at
  the end of the bytes.\<close>

theorem assignment_wire_roundtrip:
  assumes "64 \<le> mt" and "assignment_ok mt bounds v"
    and "encode_assignment v (bin_writer n) = (w, ok_status)"
  shows "\<exists>r. decode_assignment bounds (bin_reader (bw_buffer w) mt) = Inr (v, r) \<and> at_end r"
  using assignment_codec.fresh_round_trip [of mt bounds v n w] assms
  unfolding encode_assignment_def decode_assignment_def by blast

theorem assignment_wire_roundtrip_witness:
  "\<exists>r. decode_assignment default_bounds
        (bin_reader (bw_buffer (fst (encode_assignment no_assignment (bin_writer 4096)))) 64) =
      Inr (no_assignment, r) \<and> at_end r"
proof -
  let ?e = "encode_assignment no_assignment (bin_writer 4096)"
  have e: "encode_assignment no_assignment (bin_writer 4096) = (fst ?e, ok_status)"
    by (simp add: encode_assignment_def encode_with_def enc_assignment_def no_assignment_def Let_def
        w_seq_def w_open_def bin_writer_def prod_eq_iff w_list_def enc_provenance_def enc_freshness_def
        enc_fence_def enc_binding_def enc_demand_def enc_incarnation_def enc_scope_spec_def digest_zero_def
        no_scope_def no_incarnation_def zero_demand_def no_binding_def no_fence_def no_provenance_def
        no_freshness_def emit_eqs)
  have ok: "assignment_ok 64 default_bounds no_assignment"
    by (simp add: assignment_ok_def no_assignment_def no_scope_def no_incarnation_def no_provenance_def
        no_freshness_def scope_spec_ok_def incarnation_ok_def provenance_ok_def freshness_ok_def
        token_ok_def is_i64_def i64_min_def i64_max_def digest_zero_def reason_ok_def reason_to_string_def
        NOF_REASON_CODES_def)
  show ?thesis by (rule assignment_wire_roundtrip [OF order_refl ok e])
qed

end
